(* ===== verification/Prelude.thy ===== *)
theory Prelude
  imports Main "HOL-Library.Sublist"
begin

text \<open>
  The shared layer of the development.
  \<^item> The exceptions of \<open>designate/exceptions.py\<close> as a datatype that follows the class
    hierarchy, so that an \<open>except\<close> clause on a base class is a pattern, with the HTTP code
    of each class.
  \<^item> Python's string operations that the program uses (\<open>split\<close>, \<open>join\<close>, \<open>strip\<close>,
    \<open>startswith\<close>, \<open>endswith\<close>, \<open>replace\<close>) on HOL strings.
  \<^item> Computations over a state that may raise: \<open>('s, 'a) comp\<close>, with the sequencing,
    \<open>try/except\<close> and loop combinators the translated methods are built from, and the rules
    in \<open>comp_simps\<close> and \<open>comp_elims\<close> that take a finished run apart.
\<close>

named_theorems comp_simps \<open>equations that evaluate a computation\<close>
named_theorems py_str \<open>facts on Python string operations\<close>

section \<open>Exceptions\<close>

text \<open>The resources that have a \<open>...NotFound\<close> or a \<open>Duplicate...\<close> class.\<close>

datatype resource =
  R_ServiceStatus | R_Quota | R_Server | R_TsigKey | R_Blacklist | R_Zone | R_ZoneMaster
| R_ZoneAttribute | R_Tld | R_RecordSet | R_Record | R_Report | R_Pool | R_PoolAttribute
| R_PoolNsRecord | R_PoolNameserver | R_PoolTarget | R_PoolTargetOption | R_PoolTargetMaster
| R_PoolAlsoNotify | R_ZoneTransferRequest | R_ZoneTransferAccept | R_ZoneImport
| R_ZoneExport | R_SharedZone

text \<open>Subclasses of \<open>BadRequest\<close>, with \<open>BR_plain\<close> for the class itself.\<close>

datatype bad_request =
  BR_plain | EmptyRequestBody | InvalidProject | InvalidUUID | NetworkEndpointNotFound
| MarkerNotFound | ValueErrorBR | InvalidMarker | InvalidSortDir | InvalidLimit | InvalidSortKey
| InvalidJson | InvalidOperation | UnsupportedAccept | UnsupportedContentType | InvalidTsigKey
| LastServerDeleteNotAllowed | MissingProjectID

text \<open>Subclasses of \<open>Forbidden\<close> and of \<open>ConfigurationError\<close>.\<close>

datatype forbidden =
  F_plain | IllegalChildZone | IllegalParentZone | IncorrectZoneTransferKey | InvalidTokenScope

datatype configuration =
  C_plain | NoFiltersConfigured | NoServersConfigured | MultiplePoolsFound
| NoPoolTargetsConfigured

text \<open>Subclasses of \<open>NotFound\<close> that name no resource of their own.\<close>

datatype not_found = NF_plain | NF_of resource | NoValidPoolFound | NF_Resource

datatype exn =
  BadRequest bad_request
| Forbidden forbidden
| ConfigurationError configuration
| NotFound not_found
| Duplicate "resource option"
| RelationNotLoaded string
| XFRFailure
| OverQuota "string list"
| QuotaResourceUnknown string
| InvalidObject
| BadAction
| InvalidZoneName
| InvalidRecordSetName
| InvalidRecordSetLocation
| InvaildZoneTransfer
| InvalidTTL
| ZoneHasSubZone
| SharedZoneHasSubZone
| SharedZoneHasRecordSets
| ZoneShared
| MethodNotAllowed
| DBDeadlock
| PyValueError
| PyTypeError
| PyIndexError
| PyKeyError
| PyAssertionError
| PyAttributeError
| DnsTimeout
| OtherError string

text \<open>\<open>error_code\<close> of each class: the HTTP status the API answers with.\<close>

fun error_code :: "exn \<Rightarrow> nat" where
  "error_code (BadRequest NetworkEndpointNotFound) = 403"
| "error_code (BadRequest UnsupportedAccept) = 406"
| "error_code (BadRequest UnsupportedContentType) = 415"
| "error_code (BadRequest MissingProjectID) = 401"
| "error_code (BadRequest _) = 400"
| "error_code (Forbidden _) = 403"
| "error_code (NotFound _) = 404"
| "error_code (Duplicate _) = 409"
| "error_code (OverQuota _) = 413"
| "error_code InvalidObject = 400"
| "error_code InvalidZoneName = 400"
| "error_code InvalidRecordSetName = 400"
| "error_code InvalidRecordSetLocation = 400"
| "error_code InvaildZoneTransfer = 400"
| "error_code InvalidTTL = 400"
| "error_code ZoneHasSubZone = 400"
| "error_code SharedZoneHasSubZone = 400"
| "error_code SharedZoneHasRecordSets = 400"
| "error_code ZoneShared = 400"
| "error_code MethodNotAllowed = 405"
| "error_code _ = 500"

text \<open>\<open>expected\<close>: the classes the RPC layer reports without a traceback.\<close>

fun expected :: "exn \<Rightarrow> bool" where
  "expected (BadRequest _) = True"
| "expected (Forbidden _) = True"
| "expected (NotFound _) = True"
| "expected (Duplicate _) = True"
| "expected (OverQuota _) = True"
| "expected InvalidObject = True"
| "expected InvalidZoneName = True"
| "expected InvalidRecordSetName = True"
| "expected InvalidRecordSetLocation = True"
| "expected SharedZoneHasSubZone = True"
| "expected SharedZoneHasRecordSets = True"
| "expected MethodNotAllowed = True"
| "expected _ = False"

abbreviation ZoneNotFound :: exn where "ZoneNotFound \<equiv> NotFound (NF_of R_Zone)"
abbreviation RecordSetNotFound :: exn where "RecordSetNotFound \<equiv> NotFound (NF_of R_RecordSet)"
abbreviation RecordNotFound :: exn where "RecordNotFound \<equiv> NotFound (NF_of R_Record)"
abbreviation PoolNotFound :: exn where "PoolNotFound \<equiv> NotFound (NF_of R_Pool)"
abbreviation TldNotFound :: exn where "TldNotFound \<equiv> NotFound (NF_of R_Tld)"
abbreviation TsigKeyNotFound :: exn where "TsigKeyNotFound \<equiv> NotFound (NF_of R_TsigKey)"

section \<open>Computations that carry a state and may raise\<close>

text \<open>
  A method of a service is a function of the state it can change; it ends with a value
  (\<open>Inr\<close>) or with an exception (\<open>Inl\<close>), in both cases with the state it left behind.
\<close>

type_synonym ('s, 'a) comp = "'s \<Rightarrow> (exn + 'a) \<times> 's"

definition return :: "'a \<Rightarrow> ('s, 'a) comp" where
  "return x = (\<lambda>s. (Inr x, s))"

definition raise :: "exn \<Rightarrow> ('s, 'a) comp" where
  "raise e = (\<lambda>s. (Inl e, s))"

definition bind :: "('s, 'a) comp \<Rightarrow> ('a \<Rightarrow> ('s, 'b) comp) \<Rightarrow> ('s, 'b) comp" where
  "bind m f = (\<lambda>s. case m s of (Inl e, s') \<Rightarrow> (Inl e, s') | (Inr x, s') \<Rightarrow> f x s')"

text \<open>\<open>m; k\<close>: run \<open>m\<close> for its effect.\<close>

definition seq :: "('s, 'a) comp \<Rightarrow> ('s, 'b) comp \<Rightarrow> ('s, 'b) comp" where
  "seq m k = bind m (\<lambda>_. k)"

definition gets :: "('s \<Rightarrow> 'a) \<Rightarrow> ('s, 'a) comp" where
  "gets f = (\<lambda>s. (Inr (f s), s))"

definition modify :: "('s \<Rightarrow> 's) \<Rightarrow> ('s, unit) comp" where
  "modify f = (\<lambda>s. (Inr (), f s))"

text \<open>\<open>if b: raise e\<close>.\<close>

definition raise_if :: "bool \<Rightarrow> exn \<Rightarrow> ('s, unit) comp" where
  "raise_if b e = (if b then raise e else return ())"

text \<open>A pure fallible computation used inside a stateful one.\<close>

definition lift :: "exn + 'a \<Rightarrow> ('s, 'a) comp" where
  "lift r = (\<lambda>s. (r, s))"

text \<open>\<open>try: m; except e if h e: k e\<close>, where \<open>h e = None\<close> re-raises.\<close>

definition catch :: "('s, 'a) comp \<Rightarrow> (exn \<Rightarrow> ('s, 'a) comp option) \<Rightarrow> ('s, 'a) comp" where
  "catch m h = (\<lambda>s. case m s of
      (Inr x, s') \<Rightarrow> (Inr x, s')
    | (Inl e, s') \<Rightarrow> (case h e of None \<Rightarrow> (Inl e, s') | Some k \<Rightarrow> k s'))"

text \<open>\<open>for x in xs: f x\<close>.\<close>

fun for_each :: "'x list \<Rightarrow> ('x \<Rightarrow> ('s, unit) comp) \<Rightarrow> ('s, unit) comp" where
  "for_each [] f = return ()"
| "for_each (x # xs) f = seq (f x) (for_each xs f)"

lemma run_basic [comp_simps, simp]:
  "return x s = (Inr x, s)"
  "raise e s = (Inl e, s)"
  "gets f s = (Inr (f s), s)"
  "modify g s = (Inr (), g s)"
  "lift r s = (r, s)"
  by (simp_all add: return_def raise_def gets_def modify_def lift_def)

lemma raise_if_run [comp_simps, simp]:
  "raise_if b e s = (if b then Inl e else Inr (), s)"
  by (simp add: raise_if_def)

lemma bind_run [comp_simps]:
  "bind m f s = (case m s of (Inl e, s') \<Rightarrow> (Inl e, s') | (Inr x, s') \<Rightarrow> f x s')"
  by (simp add: bind_def)

lemma seq_run [comp_simps]:
  "seq m k s = (case m s of (Inl e, s') \<Rightarrow> (Inl e, s') | (Inr x, s') \<Rightarrow> k s')"
  by (simp add: seq_def bind_def)

text \<open>A run that ended with a value went through every step.\<close>

lemma bind_Inr_iff:
  "bind m f s = (Inr y, s') \<longleftrightarrow> (\<exists>x t. m s = (Inr x, t) \<and> f x t = (Inr y, s'))"
  by (auto simp: bind_def split: prod.splits sum.splits)

lemma seq_Inr_iff:
  "seq m k s = (Inr y, s') \<longleftrightarrow> (\<exists>x t. m s = (Inr x, t) \<and> k t = (Inr y, s'))"
  by (auto simp: seq_def bind_Inr_iff)

lemma bind_Inl_iff:
  "bind m f s = (Inl e, s') \<longleftrightarrow>
     m s = (Inl e, s') \<or> (\<exists>x t. m s = (Inr x, t) \<and> f x t = (Inl e, s'))"
  by (auto simp: bind_def split: prod.splits sum.splits)

lemma seq_Inl_iff:
  "seq m k s = (Inl e, s') \<longleftrightarrow>
     m s = (Inl e, s') \<or> (\<exists>x t. m s = (Inr x, t) \<and> k t = (Inl e, s'))"
  by (auto simp: seq_def bind_Inl_iff)

lemmas comp_iffs = bind_Inr_iff seq_Inr_iff bind_Inl_iff seq_Inl_iff

lemma raise_if_iffs [simp]:
  "raise_if b e s = (Inr u, s') \<longleftrightarrow> \<not> b \<and> s' = s"
  "raise_if b e s = (Inl e', s') \<longleftrightarrow> b \<and> e' = e \<and> s' = s"
  by (auto simp: raise_if_def)

lemma catch_Inr_iff:
  "catch m h s = (Inr y, s') \<longleftrightarrow> m s = (Inr y, s') \<or>
     (\<exists>e t k. m s = (Inl e, t) \<and> h e = Some k \<and> k t = (Inr y, s'))"
  by (auto simp: catch_def split: prod.splits sum.splits option.splits)

text \<open>Frame: an invariant of the state that every step keeps, kept by the composition.\<close>

definition keeps :: "('s \<Rightarrow> bool) \<Rightarrow> ('s, 'a) comp \<Rightarrow> bool" where
  "keeps P m \<longleftrightarrow> (\<forall>s. P s \<longrightarrow> P (snd (m s)))"

lemma keepsI: "(\<And>s. P s \<Longrightarrow> P (snd (m s))) \<Longrightarrow> keeps P m"
  by (simp add: keeps_def)

lemma keeps_bind [intro]: "keeps P m \<Longrightarrow> (\<And>x. keeps P (f x)) \<Longrightarrow> keeps P (bind m f)"
  unfolding keeps_def bind_def
  by (metis (mono_tags, lifting) old.prod.case snd_conv sum.case_eq_if surj_pair)

lemma keeps_seq [intro]: "keeps P m \<Longrightarrow> keeps P k \<Longrightarrow> keeps P (seq m k)"
  by (simp add: seq_def keeps_bind)

lemma keeps_basic [intro, simp]:
  "keeps P (return x)" "keeps P (raise e)" "keeps P (gets f)" "keeps P (raise_if b e)"
  "keeps P (lift r)"
  by (simp_all add: keeps_def)

lemma keeps_for_each [intro]: "(\<And>x. x \<in> set xs \<Longrightarrow> keeps P (f x)) \<Longrightarrow> keeps P (for_each xs f)"
  by (induction xs) auto

named_theorems keeps_rules \<open>frame rules for the parts of a computation\<close>

text \<open>A step that only looks, whatever it looks at.\<close>

definition readonly :: "('s, 'a) comp \<Rightarrow> bool" where
  "readonly m \<longleftrightarrow> (\<forall>s. snd (m s) = s)"

lemma readonly_keeps: "readonly m \<Longrightarrow> keeps P m"
  by (simp add: readonly_def keeps_def)

lemma readonlyD: "readonly m \<Longrightarrow> m s = (r, s') \<Longrightarrow> s' = s"
  unfolding readonly_def by (metis snd_conv)

lemma readonly_basic [keeps_rules]:
  "readonly (return x)" "readonly (raise e)" "readonly (gets f)" "readonly (raise_if b e)"
  "readonly (lift r)"
  by (simp_all add: readonly_def)

lemma readonly_bind [keeps_rules]: "readonly m \<Longrightarrow> (\<And>x. readonly (f x)) \<Longrightarrow> readonly (bind m f)"
  unfolding readonly_def bind_def by (auto split: prod.splits sum.splits) (metis snd_conv)+

lemma readonly_seq [keeps_rules]: "readonly m \<Longrightarrow> readonly k \<Longrightarrow> readonly (seq m k)"
  by (simp add: seq_def readonly_bind)

lemma readonly_catch [keeps_rules]:
  "readonly m \<Longrightarrow> (\<And>e k. h e = Some k \<Longrightarrow> readonly k) \<Longrightarrow> readonly (catch m h)"
  unfolding readonly_def catch_def by (auto split: prod.splits sum.splits option.splits) (metis snd_conv)+

lemma readonly_if [keeps_rules]:
  "(b \<Longrightarrow> readonly m) \<Longrightarrow> (\<not> b \<Longrightarrow> readonly k) \<Longrightarrow> readonly (if b then m else k)"
  by simp

lemma readonly_option [keeps_rules]:
  "readonly m \<Longrightarrow> (\<And>x. readonly (f x)) \<Longrightarrow> readonly (case y of None \<Rightarrow> m | Some x \<Rightarrow> f x)"
  by (cases y) simp_all

text \<open>The same rules for an invariant, with what a bound value is known to satisfy.\<close>

lemma keeps_bind_value:
  assumes "keeps P m" "\<And>s x s'. P s \<Longrightarrow> m s = (Inr x, s') \<Longrightarrow> Q x" "\<And>x. Q x \<Longrightarrow> keeps P (f x)"
  shows "keeps P (bind m f)"
  unfolding keeps_def
proof (intro allI impI)
  fix s assume P: "P s"
  obtain r s' where m: "m s = (r, s')" by fastforce
  with assms(1) P have "P s'" unfolding keeps_def by (metis snd_conv)
  with m assms(2,3) P show "P (snd (bind m f s))"
    by (cases r) (auto simp: bind_def keeps_def)
qed

lemma keeps_catch:
  assumes "keeps P m" "\<And>e k. h e = Some k \<Longrightarrow> keeps P k"
  shows "keeps P (catch m h)"
  unfolding keeps_def
proof (intro allI impI)
  fix s assume P: "P s"
  obtain r s' where m: "m s = (r, s')" by fastforce
  with assms(1) P have "P s'" unfolding keeps_def by (metis snd_conv)
  with m assms(2) show "P (snd (catch m h s))"
    by (cases r) (auto simp: catch_def keeps_def split: option.splits)
qed

lemma keeps_if: "(b \<Longrightarrow> keeps P m) \<Longrightarrow> (\<not> b \<Longrightarrow> keeps P k) \<Longrightarrow> keeps P (if b then m else k)"
  by simp

lemma keeps_option:
  "(y = None \<Longrightarrow> keeps P m) \<Longrightarrow> (\<And>x. y = Some x \<Longrightarrow> keeps P (f x)) \<Longrightarrow>
     keeps P (case y of None \<Rightarrow> m | Some x \<Rightarrow> f x)"
  by (cases y) simp_all

lemma keeps_modify: "(\<And>s. P s \<Longrightarrow> P (f s)) \<Longrightarrow> keeps P (modify f)"
  by (simp add: keeps_def)

lemma keepsD: "keeps P m \<Longrightarrow> P s \<Longrightarrow> m s = (r, s') \<Longrightarrow> P s'"
  unfolding keeps_def by (metis snd_conv)


section \<open>Python strings\<close>

text \<open>\<open>s.split(c)\<close> for a one character separator: never empty, as in Python.\<close>

fun split_on :: "char \<Rightarrow> string \<Rightarrow> string list" where
  "split_on c [] = [[]]"
| "split_on c (x # xs) =
     (if x = c then [] # split_on c xs
      else (case split_on c xs of w # ws \<Rightarrow> (x # w) # ws | [] \<Rightarrow> [[x]]))"

text \<open>\<open>sep.join(ws)\<close>.\<close>

fun join :: "string \<Rightarrow> string list \<Rightarrow> string" where
  "join sep [] = []"
| "join sep [w] = w"
| "join sep (w # v # ws) = w @ sep @ join sep (v # ws)"

abbreviation (input) dot :: char where "dot \<equiv> CHR ''.''"

definition startswith :: "string \<Rightarrow> string \<Rightarrow> bool" where
  "startswith s p \<longleftrightarrow> prefix p s"

definition endswith :: "string \<Rightarrow> string \<Rightarrow> bool" where
  "endswith s p \<longleftrightarrow> suffix p s"

definition lstrip :: "char \<Rightarrow> string \<Rightarrow> string" where
  "lstrip c s = dropWhile (\<lambda>x. x = c) s"

definition rstrip :: "char \<Rightarrow> string \<Rightarrow> string" where
  "rstrip c s = rev (dropWhile (\<lambda>x. x = c) (rev s))"

definition strip :: "char \<Rightarrow> string \<Rightarrow> string" where
  "strip c s = rstrip c (lstrip c s)"

text \<open>\<open>s.replace(c, r)\<close> for a one character \<open>c\<close>.\<close>

definition replace :: "char \<Rightarrow> string \<Rightarrow> string \<Rightarrow> string" where
  "replace c r s = concat (map (\<lambda>x. if x = c then r else [x]) s)"

text \<open>\<open>s.lower()\<close> on ASCII.\<close>

definition lower_char :: "char \<Rightarrow> char" where
  "lower_char c = (if 65 \<le> (of_char c :: nat) \<and> (of_char c :: nat) \<le> 90
                   then char_of ((of_char c :: nat) + 32) else c)"

definition lower :: "string \<Rightarrow> string" where
  "lower s = map lower_char s"

text \<open>\<open>c.isdigit()\<close> on ASCII, and \<open>int(s)\<close> on a string of digits.\<close>

definition is_digit :: "char \<Rightarrow> bool" where
  "is_digit c \<longleftrightarrow> 48 \<le> (of_char c :: nat) \<and> (of_char c :: nat) \<le> 57"

definition digit_val :: "char \<Rightarrow> int" where
  "digit_val c = int (of_char c) - 48"

definition digits_value :: "string \<Rightarrow> int option" where
  "digits_value s =
     (if s \<noteq> [] \<and> list_all is_digit s
      then Some (foldl (\<lambda>n c. 10 * n + digit_val c) 0 s) else None)"

text \<open>\<open>'%d' % n\<close>.\<close>

definition digit_char :: "nat \<Rightarrow> char" where
  "digit_char n = char_of (n + 48)"

fun nat_str :: "nat \<Rightarrow> string" where
  "nat_str n = (if n < 10 then [digit_char n] else nat_str (n div 10) @ [digit_char (n mod 10)])"

declare nat_str.simps [simp del]

definition int_str :: "int \<Rightarrow> string" where
  "int_str n = (if 0 \<le> n then nat_str (nat n) else CHR ''-'' # nat_str (nat (- n)))"

text \<open>The same on integers, which evaluate in binary.\<close>

fun int_digits :: "int \<Rightarrow> string" where
  "int_digits n = (if n < 10 then [digit_char (nat n)]
                   else int_digits (n div 10) @ [digit_char (nat (n mod 10))])"

declare int_digits.simps [simp del]

lemma int_digits_nat: "0 \<le> n \<Longrightarrow> int_digits n = nat_str (nat n)"
proof (induction n rule: int_digits.induct)
  case (1 n)
  then show ?case
    by (subst int_digits.simps, subst nat_str.simps) (auto simp: nat_div_distrib nat_mod_distrib)
qed

lemma int_str_code [code]:
  "int_str n = (if 0 \<le> n then int_digits n else CHR ''-'' # int_digits (- n))"
  by (simp add: int_str_def int_digits_nat)

lemma digit_char_facts [simp]:
  assumes "n < 10"
  shows "is_digit (digit_char n)" "digit_val (digit_char n) = int n"
  using assms by (simp_all add: digit_char_def is_digit_def digit_val_def of_char_of)

lemma nat_str_digits: "list_all is_digit (nat_str n) \<and> nat_str n \<noteq> []"
  by (induction n rule: nat_str.induct) (subst (1 2) nat_str.simps, auto)

lemma nat_str_value:
  "foldl (\<lambda>n c. 10 * n + digit_val c) 0 (nat_str n) = int n"
proof (induction n rule: nat_str.induct)
  case (1 n)
  show ?case
  proof (cases "n < 10")
    case True
    then show ?thesis by (subst nat_str.simps) simp
  next
    case False
    with 1 have "foldl (\<lambda>n c. 10 * n + digit_val c) 0 (nat_str n)
        = 10 * int (n div 10) + int (n mod 10)"
      by (subst nat_str.simps) simp
    also have "\<dots> = int (10 * (n div 10) + n mod 10)" by (simp only: of_nat_add of_nat_mult)
    also have "\<dots> = int n" by (simp only: mult_div_mod_eq)
    finally show ?thesis .
  qed
qed

lemma digits_value_int_str [py_str, simp]: "0 \<le> n \<Longrightarrow> digits_value (int_str n) = Some n"
  using nat_str_digits [of "nat n"] nat_str_value [of "nat n"]
  by (simp add: digits_value_def int_str_def)

lemma split_on_ne [simp]: "split_on c s \<noteq> []"
  by (induction s) (auto split: list.splits)

lemma join_split_on [simp, py_str]: "join [c] (split_on c s) = s"
proof (induction s)
  case Nil
  then show ?case by simp
next
  case (Cons x s)
  obtain w ws where sp: "split_on c s = w # ws"
    by (meson neq_Nil_conv split_on_ne)
  with Cons show ?case by (cases ws) auto
qed

lemma split_on_no_sep: "w \<in> set (split_on c s) \<Longrightarrow> c \<notin> set w"
proof (induction s arbitrary: w)
  case Nil
  then show ?case by simp
next
  case (Cons x s)
  obtain v vs where sp: "split_on c s = v # vs"
    by (meson neq_Nil_conv split_on_ne)
  with Cons show ?case by (auto split: if_splits)
qed

lemma split_on_single: "c \<notin> set s \<Longrightarrow> split_on c s = [s]"
  by (induction s) auto

lemma split_on_append_sep: "split_on c (a @ c # b) = split_on c a @ split_on c b"
proof (induction a)
  case Nil
  then show ?case by simp
next
  case (Cons x a)
  obtain v vs where sp: "split_on c a = v # vs"
    by (meson neq_Nil_conv split_on_ne)
  with Cons show ?case by auto
qed

lemma split_on_join [py_str]:
  "ws \<noteq> [] \<Longrightarrow> (\<And>w. w \<in> set ws \<Longrightarrow> c \<notin> set w) \<Longrightarrow> split_on c (join [c] ws) = ws"
proof (induction "[c]" ws rule: join.induct)
  case (3 w v ws)
  then have "split_on c (w @ [c] @ join [c] (v # ws)) = [w] @ (v # ws)"
    by (simp add: split_on_append_sep split_on_single)
  then show ?case by simp
qed (auto simp: split_on_single)

lemma join_Cons: "ws \<noteq> [] \<Longrightarrow> join sep (w # ws) = w @ sep @ join sep ws"
  by (cases ws) auto

lemma join_append:
  "xs \<noteq> [] \<Longrightarrow> ys \<noteq> [] \<Longrightarrow> join sep (xs @ ys) = join sep xs @ sep @ join sep ys"
  by (induction sep xs rule: join.induct) (auto simp: join_Cons)

lemma endswith_append [simp]: "endswith (a @ s) s"
  by (simp add: endswith_def suffix_def)

text \<open>The names a list of labels ends with are its proper label suffixes.\<close>

lemma split_on_suffix_iff:
  "suffix (c # n) s \<longleftrightarrow> (\<exists>i. 0 < i \<and> i < length (split_on c s) \<and> join [c] (drop i (split_on c s)) = n)"
proof
  assume "suffix (c # n) s"
  then obtain p where s: "s = p @ c # n" by (auto simp: suffix_def)
  let ?i = "length (split_on c p)"
  have "drop ?i (split_on c s) = split_on c n" by (simp add: s split_on_append_sep)
  moreover have "0 < ?i" by simp
  moreover have "?i < length (split_on c s)" by (simp add: s split_on_append_sep)
  ultimately show "\<exists>i. 0 < i \<and> i < length (split_on c s) \<and> join [c] (drop i (split_on c s)) = n"
    by (metis join_split_on)
next
  assume "\<exists>i. 0 < i \<and> i < length (split_on c s) \<and> join [c] (drop i (split_on c s)) = n"
  then obtain i where i: "0 < i" "i < length (split_on c s)" "join [c] (drop i (split_on c s)) = n"
    by blast
  have "s = join [c] (take i (split_on c s) @ drop i (split_on c s))" by simp
  also have "\<dots> = join [c] (take i (split_on c s)) @ [c] @ n"
    using i by (subst join_append) auto
  finally show "suffix (c # n) s" by (auto simp: suffix_def)
qed

end
