(* ===== verification/Objects.thy ===== *)
theory Objects
  imports Prelude
begin

text \<open>
  The data the services exchange and store: the enumerations of \<open>common/constants.py\<close> and
  of the \<open>EnumField\<close>s, the objects \<open>Zone\<close>, \<open>RecordSet\<close>, \<open>Record\<close> and the pool
  objects of \<open>designate/objects/\<close> as records, and the request context of \<open>context.py\<close>.
  A Zone, a RecordSet and a Record carry \<open>obj_what_changed()\<close>, the set of attributes written since the
  object was loaded, which decides what an UPDATE statement writes. The computed attributes of
  a RecordSet (\<open>action\<close>, \<open>status\<close>, \<open>managed\<close>) and their characterisations close the
  theory.
\<close>

section \<open>Enumerations\<close>

datatype zone_type = PRIMARY | SECONDARY | CATALOG

datatype action = CREATE | DELETE | UPDATE | NONE

text \<open>The statuses of a stored resource, and the two reports of the worker that travel in the
  same attribute of a Zone object.\<close>

datatype status = ACTIVE | PENDING | ERROR | DELETED | SUCCESS | NO_ZONE

fun zone_type_str :: "zone_type \<Rightarrow> string" where
  "zone_type_str PRIMARY = ''PRIMARY''"
| "zone_type_str SECONDARY = ''SECONDARY''"
| "zone_type_str CATALOG = ''CATALOG''"

fun action_str :: "action \<Rightarrow> string" where
  "action_str CREATE = ''CREATE''"
| "action_str DELETE = ''DELETE''"
| "action_str UPDATE = ''UPDATE''"
| "action_str NONE = ''NONE''"

fun status_str :: "status \<Rightarrow> string" where
  "status_str ACTIVE = ''ACTIVE''"
| "status_str PENDING = ''PENDING''"
| "status_str ERROR = ''ERROR''"
| "status_str DELETED = ''DELETED''"
| "status_str SUCCESS = ''SUCCESS''"
| "status_str NO_ZONE = ''NO_ZONE''"

lemma enum_str_inject [simp]:
  "zone_type_str t = zone_type_str t' \<longleftrightarrow> t = t'"
  "action_str a = action_str a' \<longleftrightarrow> a = a'"
  "status_str x = status_str x' \<longleftrightarrow> x = x'"
  by ((cases t; cases t'; simp), (cases a; cases a'; simp), (cases x; cases x'; simp))

section \<open>Request context\<close>

record req_context =
  c_project_id :: "string option"
  c_all_tenants :: bool
  c_show_deleted :: bool
  c_is_admin :: bool
  c_roles :: "string list"
  c_request_id :: string
  c_abandon :: bool
  c_edit_managed_records :: bool
  c_hard_delete :: bool
  c_delete_shares :: bool
  c_hide_counts :: bool
  c_tsigkey_id :: "string option"

section \<open>Zones\<close>

text \<open>The attributes of a Zone that \<open>obj_what_changed\<close> can name.\<close>

datatype zone_attr =
  ZA_tenant_id | ZA_name | ZA_email | ZA_ttl | ZA_refresh | ZA_retry | ZA_expire | ZA_minimum
| ZA_parent_zone_id | ZA_serial | ZA_description | ZA_status | ZA_action | ZA_pool_id | ZA_type
| ZA_transferred_at | ZA_delayed_notify | ZA_increment_serial | ZA_deleted | ZA_masters

record zone_master =
  m_host :: string
  m_port :: int

record zone =
  z_id :: string
  z_version :: int
  z_shard :: int
  z_tenant_id :: "string option"
  z_name :: string
  z_email :: string
  z_ttl :: "int option"
  z_refresh :: int
  z_retry :: int
  z_expire :: int
  z_minimum :: int
  z_parent_zone_id :: "string option"
  z_serial :: int
  z_description :: "string option"
  z_status :: status
  z_action :: action
  z_pool_id :: string
  z_type :: zone_type
  z_transferred_at :: "int option"
  z_delayed_notify :: bool
  z_increment_serial :: bool
  z_deleted :: string
  z_deleted_at :: "int option"
  z_shared :: bool
  z_attributes :: "(string \<times> string) list"
  z_masters :: "zone_master list"
  z_changed :: "zone_attr set"

text \<open>Attribute assignment: the value is stored and the attribute becomes a changed one.\<close>

definition z_touch :: "zone_attr \<Rightarrow> zone \<Rightarrow> zone" where
  "z_touch a z = z\<lparr>z_changed := insert a (z_changed z)\<rparr>"

definition z_set_action :: "action \<Rightarrow> zone \<Rightarrow> zone" where
  "z_set_action a z = z_touch ZA_action (z\<lparr>z_action := a\<rparr>)"

definition z_set_status :: "status \<Rightarrow> zone \<Rightarrow> zone" where
  "z_set_status x z = z_touch ZA_status (z\<lparr>z_status := x\<rparr>)"

definition z_set_serial :: "int \<Rightarrow> zone \<Rightarrow> zone" where
  "z_set_serial n z = z_touch ZA_serial (z\<lparr>z_serial := n\<rparr>)"

definition z_set_increment_serial :: "bool \<Rightarrow> zone \<Rightarrow> zone" where
  "z_set_increment_serial b z = z_touch ZA_increment_serial (z\<lparr>z_increment_serial := b\<rparr>)"

definition z_set_delayed_notify :: "bool \<Rightarrow> zone \<Rightarrow> zone" where
  "z_set_delayed_notify b z = z_touch ZA_delayed_notify (z\<lparr>z_delayed_notify := b\<rparr>)"

definition z_set_tenant_id :: "string option \<Rightarrow> zone \<Rightarrow> zone" where
  "z_set_tenant_id t z = z_touch ZA_tenant_id (z\<lparr>z_tenant_id := t\<rparr>)"

definition z_set_pool_id :: "string \<Rightarrow> zone \<Rightarrow> zone" where
  "z_set_pool_id p z = z_touch ZA_pool_id (z\<lparr>z_pool_id := p\<rparr>)"

definition z_set_parent_zone_id :: "string option \<Rightarrow> zone \<Rightarrow> zone" where
  "z_set_parent_zone_id p z = z_touch ZA_parent_zone_id (z\<lparr>z_parent_zone_id := p\<rparr>)"

definition z_set_refresh :: "int \<Rightarrow> zone \<Rightarrow> zone" where
  "z_set_refresh n z = z_touch ZA_refresh (z\<lparr>z_refresh := n\<rparr>)"

text \<open>\<open>deleted\<close> and \<open>deleted_at\<close> are always written together.\<close>

definition z_set_deleted :: "string \<Rightarrow> int \<Rightarrow> zone \<Rightarrow> zone" where
  "z_set_deleted d now z = z_touch ZA_deleted (z\<lparr>z_deleted := d, z_deleted_at := Some now\<rparr>)"

lemmas z_sets =
  z_touch_def z_set_action_def z_set_status_def z_set_serial_def z_set_increment_serial_def
  z_set_delayed_notify_def z_set_tenant_id_def z_set_pool_id_def z_set_parent_zone_id_def
  z_set_refresh_def z_set_deleted_def

section \<open>Records and recordsets\<close>

datatype record_attr = RA_data | RA_status | RA_action | RA_serial | RA_hash

record rrecord =
  r_id :: "string option"
  r_version :: int
  r_tenant_id :: "string option"
  r_zone_id :: string
  r_recordset_id :: string
  r_data :: string
  r_hash :: string
  r_managed :: bool
  r_managed_extra :: "string option"
  r_managed_plugin_type :: "string option"
  r_managed_plugin_name :: "string option"
  r_managed_resource_type :: "string option"
  r_managed_resource_region :: "string option"
  r_managed_resource_id :: "string option"
  r_managed_tenant_id :: "string option"
  r_description :: "string option"
  r_status :: status
  r_action :: action
  r_serial :: int
  r_changed :: "record_attr set"

datatype rs_attr =
  RSA_tenant_id | RSA_zone_id | RSA_zone_name | RSA_name | RSA_type | RSA_ttl | RSA_description
| RSA_records

record recordset =
  rs_id :: "string option"
  rs_version :: int
  rs_tenant_id :: "string option"
  rs_zone_id :: string
  rs_name :: string
  rs_type :: string
  rs_ttl :: "int option"
  rs_description :: "string option"
  rs_records :: "rrecord list"
  rs_changed :: "rs_attr set"

definition r_touch :: "record_attr \<Rightarrow> rrecord \<Rightarrow> rrecord" where
  "r_touch a r = r\<lparr>r_changed := insert a (r_changed r)\<rparr>"

definition r_set_action :: "action \<Rightarrow> rrecord \<Rightarrow> rrecord" where
  "r_set_action a r = r_touch RA_action (r\<lparr>r_action := a\<rparr>)"

definition r_set_status :: "status \<Rightarrow> rrecord \<Rightarrow> rrecord" where
  "r_set_status x r = r_touch RA_status (r\<lparr>r_status := x\<rparr>)"

definition r_set_serial :: "int \<Rightarrow> rrecord \<Rightarrow> rrecord" where
  "r_set_serial n r = r_touch RA_serial (r\<lparr>r_serial := n\<rparr>)"

lemmas r_sets = r_touch_def r_set_action_def r_set_status_def r_set_serial_def

section \<open>Pools\<close>

record pool_ns_record =
  n_priority :: int
  n_hostname :: string

record pool_nameserver =
  ns_id :: string
  ns_host :: string
  ns_port :: int
  ns_tsigkey_id :: "string option"

record pool_target =
  t_id :: string
  t_host :: string
  t_port :: int
  t_tsigkey_id :: "string option"

record pool =
  p_id :: string
  p_name :: string
  p_tenant_id :: "string option"
  p_attributes :: "(string \<times> string) list"
  p_ns_records :: "pool_ns_record list"
  p_nameservers :: "pool_nameserver list"
  p_targets :: "pool_target list"
  p_also_notifies :: "(string \<times> int) list"
  p_catalog_fqdn :: "string option"

section \<open>Computed attributes of a RecordSet\<close>

text \<open>\<open>RecordSet.action\<close>: the counters of the four actions, then the three-way choice.\<close>

definition count_action :: "action \<Rightarrow> rrecord list \<Rightarrow> nat" where
  "count_action a rs = length (filter (\<lambda>r. r_action r = a) rs)"

definition rs_action :: "recordset \<Rightarrow> action" where
  "rs_action s =
     (let creates = count_action CREATE (rs_records s); updates = count_action UPDATE (rs_records s);
          deletes = count_action DELETE (rs_records s); nones = count_action NONE (rs_records s)
      in if creates \<noteq> 0 \<and> updates = 0 \<and> deletes = 0 \<and> nones = 0 then CREATE
         else if deletes \<noteq> 0 \<and> updates = 0 \<and> creates = 0 \<and> nones = 0 then DELETE
         else if updates \<noteq> 0 \<or> creates \<noteq> 0 \<or> deletes \<noteq> 0 then UPDATE
         else NONE)"

text \<open>\<open>RecordSet.managed\<close>: some record is managed.\<close>

fun any_managed :: "rrecord list \<Rightarrow> bool" where
  "any_managed [] = False"
| "any_managed (r # rs) = (if r_managed r then True else any_managed rs)"

definition rs_managed :: "recordset \<Rightarrow> bool" where
  "rs_managed s = any_managed (rs_records s)"

text \<open>\<open>RecordSet.status\<close>: the table of severities; a status outside the table is a KeyError.\<close>

fun severity :: "status \<Rightarrow> nat option" where
  "severity ERROR = Some 0"
| "severity PENDING = Some 1"
| "severity ACTIVE = Some 2"
| "severity DELETED = Some 3"
| "severity _ = None"

fun worst_from :: "status option \<Rightarrow> rrecord list \<Rightarrow> exn + status option" where
  "worst_from cur [] = Inr cur"
| "worst_from None (r # rs) = worst_from (Some (r_status r)) rs"
| "worst_from (Some c) (r # rs) =
     (case (severity (r_status r), severity c) of
        (Some a, Some b) \<Rightarrow> worst_from (Some (if a < b then r_status r else c)) rs
      | _ \<Rightarrow> Inl PyKeyError)"

definition rs_status :: "recordset \<Rightarrow> exn + status" where
  "rs_status s =
     (case worst_from None (rs_records s) of
        Inl e \<Rightarrow> Inl e
      | Inr None \<Rightarrow> Inr ACTIVE
      | Inr (Some x) \<Rightarrow> Inr x)"

lemma count_action_0: "count_action a rs = 0 \<longleftrightarrow> (\<forall>r\<in>set rs. r_action r \<noteq> a)"
  by (auto simp: count_action_def filter_empty_conv)

lemma rs_managed_iff: "rs_managed s \<longleftrightarrow> (\<exists>r\<in>set (rs_records s). r_managed r)"
proof -
  have "any_managed rs \<longleftrightarrow> (\<exists>r\<in>set rs. r_managed r)" for rs
    by (induction rs) auto
  then show ?thesis by (simp add: rs_managed_def)
qed

lemma worst_from_spec:
  assumes "\<And>r. r \<in> set rs \<Longrightarrow> severity (r_status r) \<noteq> None" "severity c \<noteq> None"
  shows "\<exists>x. worst_from (Some c) rs = Inr (Some x) \<and> x \<in> insert c (r_status ` set rs) \<and>
           (\<forall>y \<in> insert c (r_status ` set rs). the (severity x) \<le> the (severity y))"
  using assms
proof (induction rs arbitrary: c)
  case Nil
  then show ?case by simp
next
  case (Cons r rs)
  from Cons.prems(1) [of r] obtain a where a: "severity (r_status r) = Some a" by auto
  from Cons.prems(2) obtain b where b: "severity c = Some b" by auto
  let ?n = "if a < b then r_status r else c"
  have "severity ?n \<noteq> None" using a b by simp
  with Cons.IH [of ?n] Cons.prems(1) obtain x where
    x: "worst_from (Some ?n) rs = Inr (Some x)" "x \<in> insert ?n (r_status ` set rs)"
       "\<forall>y \<in> insert ?n (r_status ` set rs). the (severity x) \<le> the (severity y)"
    by (metis list.set_intros(2))
  show ?case
  proof (intro exI conjI)
    show "worst_from (Some c) (r # rs) = Inr (Some x)" using x(1) a b by simp
    show "x \<in> insert c (r_status ` set (r # rs))" using x(2) by (auto split: if_splits)
    have le: "the (severity x) \<le> the (severity ?n)" using x(3) by auto
    then have "the (severity x) \<le> a" "the (severity x) \<le> b" using a b by (auto split: if_splits)
    then show "\<forall>y \<in> insert c (r_status ` set (r # rs)). the (severity x) \<le> the (severity y)"
      using x(3) a b by auto
  qed
qed

end
