(* ===== verification/Sql.thy ===== *)
theory Sql
  imports Objects
begin

text \<open>
  The query layer of \<open>storage/sqlalchemy/base.py\<close>. A criterion (a dictionary from column to
  value) is translated to the clauses of a WHERE, with the operators that prefix a string value
  (\<open>_apply_criterion\<close>), and the tenant and soft-delete clauses are added
  (\<open>_apply_tenant_criteria\<close>, \<open>_apply_deleted_criteria\<close>). Clauses are the abstract
  syntax SQLAlchemy builds; \<open>holds\<close> gives them the meaning SQL does (a comparison with NULL
  does not select, except IS NULL, which is what \<open>column == None\<close> compiles to; LIKE matches
  \<open>%\<close> with any string and \<open>_\<close> with any one character). A table is the list of its rows in
  creation order, which is the order of the default sort key \<open>created_at\<close>; \<open>select_where\<close>,
  \<open>fetch_one\<close>, \<open>insert_row\<close>, \<open>update_where\<close> and \<open>delete_where\<close> are the statements
  that \<open>_find\<close>, \<open>_create\<close>, \<open>_update\<close> and \<open>_delete\<close> issue. The locale
  \<open>keyed_table\<close> is what the callers rely on: rows with a primary key.
\<close>

section \<open>Values and clauses\<close>

datatype sqlval = VNull | VStr string | VInt int | VBool bool

text \<open>A value of a criterion: a Python string, a list, or anything else.\<close>

datatype crit = CStr string | CVal sqlval | CList "sqlval list"

datatype 'c clause =
  Like 'c string | Neq 'c sqlval | Le 'c sqlval | Lt 'c sqlval | Ge 'c sqlval | Gt 'c sqlval
| Between 'c sqlval sqlval | In 'c "sqlval list" | Eq 'c sqlval | Or "'c clause" "'c clause"

definition opt_str :: "string option \<Rightarrow> sqlval" where
  "opt_str x = (case x of None \<Rightarrow> VNull | Some s \<Rightarrow> VStr s)"

lemma opt_str_simps [simp]:
  "opt_str None = VNull" "opt_str (Some s) = VStr s"
  "opt_str x = VNull \<longleftrightarrow> x = None" "opt_str x = VStr s \<longleftrightarrow> x = Some s"
  "opt_str x = opt_str y \<longleftrightarrow> x = y"
  by (cases x; cases y; simp add: opt_str_def)+

fun as_int :: "sqlval \<Rightarrow> int option" where
  "as_int (VInt n) = Some n"
| "as_int (VStr s) = digits_value s"
| "as_int _ = None"

definition str_le :: "string \<Rightarrow> string \<Rightarrow> bool" where
  "str_le a b = lexordp_eq (map of_char a :: nat list) (map of_char b)"

fun val_le :: "sqlval \<Rightarrow> sqlval \<Rightarrow> bool" where
  "val_le (VStr a) (VStr b) = str_le a b"
| "val_le x y = (case (as_int x, as_int y) of (Some a, Some b) \<Rightarrow> a \<le> b | _ \<Rightarrow> False)"

definition val_lt :: "sqlval \<Rightarrow> sqlval \<Rightarrow> bool" where
  "val_lt x y \<longleftrightarrow> val_le x y \<and> \<not> val_le y x"

text \<open>LIKE: pattern, then subject.\<close>

fun sql_like :: "string \<Rightarrow> string \<Rightarrow> bool" where
  "sql_like [] s = (s = [])"
| "sql_like (p # ps) [] = (p = CHR ''%'' \<and> sql_like ps [])"
| "sql_like (p # ps) (c # t) =
     (if p = CHR ''%'' then sql_like ps (c # t) \<or> sql_like (p # ps) t
      else (p = CHR ''_'' \<or> p = c) \<and> sql_like ps t)"

fun holds :: "('r \<Rightarrow> 'c \<Rightarrow> sqlval) \<Rightarrow> 'r \<Rightarrow> 'c clause \<Rightarrow> bool" where
  "holds col r (Like c p) = (case col r c of VStr s \<Rightarrow> sql_like p s | _ \<Rightarrow> False)"
| "holds col r (Neq c v) = (col r c \<noteq> VNull \<and> v \<noteq> VNull \<and> col r c \<noteq> v)"
| "holds col r (Le c v) = val_le (col r c) v"
| "holds col r (Lt c v) = val_lt (col r c) v"
| "holds col r (Ge c v) = val_le v (col r c)"
| "holds col r (Gt c v) = val_lt v (col r c)"
| "holds col r (Between c a b) = (val_le a (col r c) \<and> val_le (col r c) b)"
| "holds col r (In c vs) = (col r c \<noteq> VNull \<and> col r c \<in> set vs)"
| "holds col r (Eq c v) = (col r c = v)"
| "holds col r (Or a b) = (holds col r a \<or> holds col r b)"

section \<open>Criteria\<close>

text \<open>
  \<open>_apply_criterion\<close>: the string operators in the order of the source; a string value that is a
  malformed \<open>BETWEEN\<close> fails on the list index.
\<close>

definition between_elements :: "string \<Rightarrow> exn + string \<times> string" where
  "between_elements v =
     (case dropWhile (\<lambda>c. c \<noteq> CHR '' '') v of
        [] \<Rightarrow> Inl PyIndexError
      | _ # rest \<Rightarrow>
          (case map (strip CHR '' '') (split_on CHR '','' (strip CHR '' '' rest)) of
             a # b # _ \<Rightarrow> Inr (a, b)
           | _ \<Rightarrow> Inl PyIndexError))"

definition criterion_clause :: "'c \<Rightarrow> crit \<Rightarrow> exn + 'c clause" where
  "criterion_clause c v =
     (case v of
        CStr s \<Rightarrow>
          if CHR ''%'' \<in> set s then Inr (Like c s)
          else if startswith s ''!'' then Inr (Neq c (VStr (drop 1 s)))
          else if startswith s ''<='' then Inr (Le c (VStr (drop 2 s)))
          else if startswith s ''<'' then Inr (Lt c (VStr (drop 1 s)))
          else if startswith s ''>='' then Inr (Ge c (VStr (drop 2 s)))
          else if startswith s ''>'' then Inr (Gt c (VStr (drop 1 s)))
          else if startswith s ''BETWEEN'' then
            (case between_elements s of Inl e \<Rightarrow> Inl e
             | Inr (a, b) \<Rightarrow> Inr (Between c (VStr a) (VStr b)))
          else Inr (Eq c (VStr s))
      | CList vs \<Rightarrow> Inr (In c vs)
      | CVal x \<Rightarrow> Inr (Eq c x))"

fun apply_criterion :: "('c \<times> crit) list \<Rightarrow> exn + 'c clause list" where
  "apply_criterion [] = Inr []"
| "apply_criterion ((c, v) # rest) =
     (case criterion_clause c v of
        Inl e \<Rightarrow> Inl e
      | Inr cl \<Rightarrow> (case apply_criterion rest of Inl e \<Rightarrow> Inl e | Inr cls \<Rightarrow> Inr (cl # cls)))"

text \<open>
  \<open>_apply_tenant_criteria\<close>: \<open>tenant_col\<close> is the tenant column of the table, if it has one;
  \<open>shared_col\<close> the \<open>target_project_id\<close> of the joined share.
\<close>

definition apply_tenant_criteria ::
  "req_context \<Rightarrow> 'c option \<Rightarrow> 'c \<Rightarrow> bool \<Rightarrow> bool \<Rightarrow> 'c clause list" where
  "apply_tenant_criteria ctx tenant_col shared_col include_null include_shared =
     (case tenant_col of
        None \<Rightarrow> []
      | Some t \<Rightarrow>
          if c_all_tenants ctx then []
          else
            let own = Eq t (opt_str (c_project_id ctx));
                shared = Eq shared_col (opt_str (c_project_id ctx));
                null = Eq t VNull
            in if include_null then
                 (if include_shared \<and> c_project_id ctx \<noteq> None then [Or own (Or shared null)]
                  else [Or own null])
               else
                 (if include_shared \<and> c_project_id ctx \<noteq> None then [Or own shared]
                  else [own]))"

text \<open>\<open>_apply_deleted_criteria\<close>.\<close>

definition apply_deleted_criteria :: "req_context \<Rightarrow> 'c option \<Rightarrow> 'c clause list" where
  "apply_deleted_criteria ctx deleted_col =
     (case deleted_col of
        None \<Rightarrow> []
      | Some d \<Rightarrow> if c_show_deleted ctx then [] else [Eq d (VStr ''0'')])"

text \<open>A string that no operator of a criterion applies to, such as a UUID.\<close>

definition plain :: "string \<Rightarrow> bool" where
  "plain s \<longleftrightarrow> CHR ''%'' \<notin> set s \<and>
     list_all (\<lambda>p. \<not> startswith s p) [''!'', ''<='', ''<'', ''>='', ''>'', ''BETWEEN'']"

lemma criterion_plain [simp]: "plain s \<Longrightarrow> criterion_clause c (CStr s) = Inr (Eq c (VStr s))"
  by (simp add: plain_def criterion_clause_def)

lemma criterion_other [simp]:
  "criterion_clause c (CVal v) = Inr (Eq c v)" "criterion_clause c (CList vs) = Inr (In c vs)"
  by (simp_all add: criterion_clause_def)

section \<open>Statements\<close>

definition matches :: "('r \<Rightarrow> 'c \<Rightarrow> sqlval) \<Rightarrow> 'c clause list \<Rightarrow> 'r \<Rightarrow> bool" where
  "matches col cls r \<longleftrightarrow> list_all (holds col r) cls"

definition select_where :: "('r \<Rightarrow> 'c \<Rightarrow> sqlval) \<Rightarrow> 'c clause list \<Rightarrow> 'r list \<Rightarrow> 'r list" where
  "select_where col cls rows = filter (matches col cls) rows"

text \<open>\<open>_find(one=True)\<close>: LIMIT 2, and anything but one row is the table's NotFound.\<close>

definition fetch_one :: "exn \<Rightarrow> 'r list \<Rightarrow> exn + 'r" where
  "fetch_one nf results = (case take 2 results of [r] \<Rightarrow> Inr r | _ \<Rightarrow> Inl nf)"

text \<open>\<open>_create\<close>: a violated unique constraint is the table's Duplicate.\<close>

definition insert_row :: "('r list \<Rightarrow> bool) \<Rightarrow> exn \<Rightarrow> 'r \<Rightarrow> 'r list \<Rightarrow> exn + 'r list" where
  "insert_row unique dup r rows = (if unique (rows @ [r]) then Inr (rows @ [r]) else Inl dup)"

text \<open>\<open>_update\<close>: duplicates are reported first, then a row count other than one.\<close>

definition update_where ::
  "('r \<Rightarrow> 'c \<Rightarrow> sqlval) \<Rightarrow> ('r list \<Rightarrow> bool) \<Rightarrow> exn \<Rightarrow> exn \<Rightarrow> 'c clause list \<Rightarrow> ('r \<Rightarrow> 'r)
     \<Rightarrow> 'r list \<Rightarrow> exn + 'r list" where
  "update_where col unique dup nf cls f rows =
     (let rows' = map (\<lambda>r. if matches col cls r then f r else r) rows
      in if \<not> unique rows' then Inl dup
         else if length (select_where col cls rows) \<noteq> 1 then Inl nf
         else Inr rows')"

text \<open>The hard branch of \<open>_delete\<close>.\<close>

definition delete_where ::
  "('r \<Rightarrow> 'c \<Rightarrow> sqlval) \<Rightarrow> exn \<Rightarrow> 'c clause list \<Rightarrow> 'r list \<Rightarrow> exn + 'r list" where
  "delete_where col nf cls rows =
     (if length (select_where col cls rows) \<noteq> 1 then Inl nf
      else Inr (filter (\<lambda>r. \<not> matches col cls r) rows))"

lemma matches_simps [simp]:
  "matches col [] r"
  "matches col (cl # cls) r \<longleftrightarrow> holds col r cl \<and> matches col cls r"
  "matches col (cls @ cls') r \<longleftrightarrow> matches col cls r \<and> matches col cls' r"
  by (auto simp: matches_def)

lemma fetch_one_Inr: "fetch_one nf rs = Inr r \<longleftrightarrow> rs = [r]"
  by (cases rs; cases "tl rs") (auto simp: fetch_one_def)

lemma fetch_one_Inl: "fetch_one nf rs = Inl e \<longleftrightarrow> length rs \<noteq> 1 \<and> e = nf"
  by (cases rs; cases "tl rs") (auto simp: fetch_one_def)

lemma apply_tenant_all [simp]: "c_all_tenants ctx \<Longrightarrow> apply_tenant_criteria ctx t s n sh = []"
  by (auto simp: apply_tenant_criteria_def split: option.splits)

section \<open>Facts on LIKE\<close>

lemma sql_like_percent: "sql_like (CHR ''%'' # ps) s \<longleftrightarrow> (\<exists>a b. s = a @ b \<and> sql_like ps b)"
proof (induction s)
  case Nil
  then show ?case by simp
next
  case (Cons c s)
  show ?case
  proof
    assume "sql_like (CHR ''%'' # ps) (c # s)"
    then consider "sql_like ps (c # s)" | "sql_like (CHR ''%'' # ps) s" by auto
    then show "\<exists>a b. c # s = a @ b \<and> sql_like ps b"
    proof cases
      case 1
      then show ?thesis by (metis append_Nil)
    next
      case 2
      with Cons.IH show ?thesis by (metis append_Cons)
    qed
  next
    assume "\<exists>a b. c # s = a @ b \<and> sql_like ps b"
    then obtain a b where ab: "c # s = a @ b" "sql_like ps b" by blast
    show "sql_like (CHR ''%'' # ps) (c # s)"
    proof (cases a)
      case Nil
      with ab show ?thesis by auto
    next
      case (Cons x a')
      with ab Cons.IH show ?thesis by auto
    qed
  qed
qed

lemma sql_like_literal:
  "CHR ''%'' \<notin> set p \<Longrightarrow>
     sql_like p s \<longleftrightarrow> list_all2 (\<lambda>x c. x = CHR ''_'' \<or> x = c) p s"
  by (induction p s rule: sql_like.induct) auto

lemma sql_like_exact:
  assumes "CHR ''%'' \<notin> set p" "CHR ''_'' \<notin> set p"
  shows "sql_like p s \<longleftrightarrow> s = p"
proof -
  have "list_all2 (\<lambda>x c. x = CHR ''_'' \<or> x = c) p s \<longleftrightarrow> list_all2 (=) p s"
    using assms(2) by (induction p arbitrary: s) (auto simp: list_all2_Cons1)
  then show ?thesis using sql_like_literal [OF assms(1)] by (auto simp: list.rel_eq)
qed

lemma sql_like_suffix:
  assumes "CHR ''%'' \<notin> set p"
  shows "suffix p s \<Longrightarrow> sql_like (CHR ''%'' # p) s"
    and "CHR ''_'' \<notin> set p \<Longrightarrow> sql_like (CHR ''%'' # p) s \<longleftrightarrow> suffix p s"
proof -
  have "sql_like p p" using sql_like_literal [OF assms] by (simp add: list_all2_refl)
  then show "sql_like (CHR ''%'' # p) s" if "suffix p s"
    using that unfolding sql_like_percent suffix_def by blast
  show "sql_like (CHR ''%'' # p) s \<longleftrightarrow> suffix p s" if "CHR ''_'' \<notin> set p"
    unfolding sql_like_percent suffix_def using sql_like_exact [OF assms that] by blast
qed

section \<open>Ranges written as digits\<close>

lemma int_str_digits: "0 \<le> n \<Longrightarrow> list_all is_digit (int_str n) \<and> int_str n \<noteq> []"
  using nat_str_digits [of "nat n"] by (simp add: int_str_def)

lemma not_in_digits: "list_all is_digit s \<Longrightarrow> \<not> is_digit c \<Longrightarrow> c \<notin> set s"
  by (auto simp: list_all_iff)

lemma strip_digits: "list_all is_digit s \<Longrightarrow> \<not> is_digit c \<Longrightarrow> strip c s = s"
proof -
  assume d: "list_all is_digit s" "\<not> is_digit c"
  have drop: "dropWhile (\<lambda>x. x = c) t = t" if "set t \<subseteq> set s" for t
    using that not_in_digits [OF d] by (cases t) auto
  show ?thesis by (simp add: strip_def lstrip_def rstrip_def drop)
qed

lemma split_on_append: "c \<notin> set s \<Longrightarrow> split_on c (s @ c # t) = s # split_on c t"
  by (induction s) auto

lemma between_digits:
  assumes "0 \<le> a" "0 \<le> b"
  shows "between_elements (''BETWEEN '' @ int_str a @ '','' @ int_str b) = Inr (int_str a, int_str b)"
proof -
  let ?t = "int_str a @ '','' @ int_str b"
  have d: "list_all is_digit (int_str a)" "list_all is_digit (int_str b)" "int_str a \<noteq> []" "int_str b \<noteq> []"
    using int_str_digits assms by auto
  have nd: "\<not> is_digit CHR '' ''" "\<not> is_digit CHR '',''" by (simp_all add: is_digit_def)
  have "CHR '' '' \<notin> set ?t" using not_in_digits [OF d(1) nd(1)] not_in_digits [OF d(2) nd(1)] by simp
  then have id: "dropWhile (\<lambda>x. x = CHR '' '') u = u" if "set u \<subseteq> set ?t" for u
    using that by (cases u) auto
  have st: "strip CHR '' '' ?t = ?t"
    unfolding strip_def lstrip_def rstrip_def by (simp only: id subset_refl) (subst id; auto)
  have "split_on CHR '','' ?t = [int_str a, int_str b]"
    using split_on_append [OF not_in_digits [OF d(1) nd(2)]]
      split_on_single [OF not_in_digits [OF d(2) nd(2)]] by simp
  then show ?thesis
    unfolding between_elements_def
    using st strip_digits [OF d(1) nd(1)] strip_digits [OF d(2) nd(1)] by simp
qed

lemma between_clause:
  assumes "0 \<le> a" "0 \<le> b"
  shows "criterion_clause c (CStr (''BETWEEN '' @ int_str a @ '','' @ int_str b))
    = Inr (Between c (VStr (int_str a)) (VStr (int_str b)))"
proof -
  have "\<not> is_digit CHR ''%''" by (simp add: is_digit_def)
  then have "CHR ''%'' \<notin> set (int_str a)" "CHR ''%'' \<notin> set (int_str b)"
    using int_str_digits assms not_in_digits by blast+
  then show ?thesis using between_digits [OF assms]
    by (simp add: criterion_clause_def startswith_def)
qed

section \<open>Tables with a primary key\<close>

locale keyed_table =
  fixes col :: "'r \<Rightarrow> 'c \<Rightarrow> sqlval"
    and id_col :: 'c
    and key :: "'r \<Rightarrow> 'k"
    and val :: "'k \<Rightarrow> sqlval"
  assumes key_col: "col r id_col = val (key r)"
    and val_eq: "val a = val b \<longleftrightarrow> a = b"
begin

lemma select_by_key:
  assumes "distinct (map key rows)" "r \<in> set rows" "matches col cls r"
  shows "select_where col (Eq id_col (val (key r)) # cls) rows = [r]"
  using assms
proof (induction rows)
  case Nil
  then show ?case by simp
next
  case (Cons x rows)
  show ?case
  proof (cases "x = r")
    case True
    with Cons.prems have "key y \<noteq> key r" if "y \<in> set rows" for y
      using that by (metis distinct.simps(2) image_eqI list.simps(9) list.set_map)
    then have "filter (matches col (Eq id_col (val (key r)) # cls)) rows = []"
      by (auto simp: filter_empty_conv key_col val_eq)
    with True Cons.prems show ?thesis by (simp add: select_where_def key_col val_eq)
  next
    case False
    with Cons.prems have r: "r \<in> set rows" by simp
    with Cons.prems(1) have "key x \<noteq> key r" by (metis distinct.simps(2) image_eqI list.simps(9) list.set_map)
    with Cons r show ?thesis by (simp add: select_where_def key_col val_eq)
  qed
qed

lemma select_key_unique:
  assumes "distinct (map key rows)"
  shows "length (select_where col (Eq id_col (val k) # cls) rows) \<le> 1"
  using assms
proof (induction rows)
  case Nil
  then show ?case by (simp add: select_where_def)
next
  case (Cons x rows)
  show ?case
  proof (cases "key x = k")
    case True
    with Cons.prems have "\<forall>y \<in> set rows. key y \<noteq> k" by (auto simp: image_iff)
    then have "filter (matches col (Eq id_col (val k) # cls)) rows = []"
      by (auto simp: filter_empty_conv key_col val_eq)
    then show ?thesis by (auto simp: select_where_def)
  next
    case False
    with Cons show ?thesis by (auto simp: select_where_def key_col val_eq)
  qed
qed

lemma select_key_in:
  "r \<in> set (select_where col (Eq id_col (val k) # cls) rows) \<Longrightarrow>
     r \<in> set rows \<and> key r = k \<and> matches col cls r"
  by (auto simp: select_where_def key_col val_eq)

text \<open>An update changes exactly the row with the key, and keeps the keys.\<close>

lemma update_by_key:
  assumes "update_where col unique dup nf (Eq id_col (val k) # cls) f rows = Inr rows'"
    and "\<And>r. key (f r) = key r"
  shows "map key rows' = map key rows"
    and "rows' = map (\<lambda>r. if key r = k \<and> matches col cls r then f r else r) rows"
    and "unique rows'"
  using assms by (auto simp: update_where_def Let_def key_col val_eq split: if_splits)

lemma update_by_key_ex:
  assumes "update_where col unique dup nf (Eq id_col (val k) # cls) f rows = Inr rows'"
  shows "\<exists>r \<in> set rows. key r = k \<and> matches col cls r"
proof -
  from assms have "length (select_where col (Eq id_col (val k) # cls) rows) = 1"
    by (auto simp: update_where_def Let_def split: if_splits)
  then obtain r where "select_where col (Eq id_col (val k) # cls) rows = [r]"
    by (metis One_nat_def length_0_conv length_Suc_conv)
  then have "r \<in> set (select_where col (Eq id_col (val k) # cls) rows)" by simp
  from select_key_in [OF this] show ?thesis by blast
qed

end

end
