(* ===== verification/Env.thy ===== *)
theory Env
  imports Sql
begin

text \<open>
  What the services read from outside the code under \<open>src/\<close>: the configuration, and the
  functions of the libraries the program calls (the policy enforcer of oslo.policy, the UUID
  generator, the regular expression engine used on blacklist patterns, the MD5 digest,
  \<open>strutils.bool_from_string\<close>, what \<open>uuid.UUID\<close> accepts, the IDNA encoding of names that are not ASCII, \<open>random.choice\<close> as the index it picks, \<open>random.random\<close> as the
  numerator over \<open>2 ^ 53\<close> of the number it draws), which stay parameters collected in the record \<open>env\<close>. Then the state of the system: the tables,
  the clock, the number of identifiers handed out and the messages cast to the worker.
  \<open>policy.check\<close> and the context methods \<open>deepcopy\<close>, \<open>elevated\<close> and
  \<open>get_admin_context\<close> follow.
\<close>

record config =
  cf_max_zone_name_len :: nat
  cf_max_recordset_name_len :: nat
  cf_min_ttl :: "int option"
  cf_default_ttl :: int
  cf_default_pool_id :: string
  cf_managed_resource_email :: string
  cf_managed_resource_tenant_id :: string
  cf_soa_refresh_min :: int
  cf_soa_refresh_max :: int
  cf_soa_retry :: int
  cf_soa_expire :: int
  cf_soa_minimum :: int
  cf_quota_zones :: int
  cf_quota_zone_recordsets :: int
  cf_quota_zone_records :: int
  cf_quota_recordset_records :: int
  cf_quota_api_export_size :: int
  cf_threshold_percentage :: int
  cf_poll_timeout :: int
  cf_poll_max_retries :: nat
  cf_poll_retry_interval :: int
  cf_poll_delay :: int
  cf_serial_max_retries :: nat
  cf_export_synchronous :: bool
  cf_query_enforce_tsig :: bool
  cf_max_message_size :: int

text \<open>What \<open>Enforcer.enforce\<close> can answer: the rule passes, fails, or the token's scope does
  not fit the rule (\<open>policy.InvalidScope\<close>).\<close>

datatype enforcement = Permit | Deny | BadScope

text \<open>\<open>re.search\<close> on the blacklist executor: a match, no match, or no answer in time.\<close>

datatype search_outcome = Match | NoMatch | TimedOut

type_synonym target = "(string \<times> sqlval) list"

record env =
  e_conf :: config
  e_enforce :: "string \<Rightarrow> target \<Rightarrow> req_context \<Rightarrow> enforcement"
  e_gen_uuid :: "nat \<Rightarrow> string"
  e_re_search :: "string \<Rightarrow> string \<Rightarrow> search_outcome"
  e_md5 :: "string \<Rightarrow> string"
  e_bool_from_string :: "string \<Rightarrow> bool option"
  e_choice :: "nat \<Rightarrow> nat"
  e_random :: "nat \<Rightarrow> nat"
  e_valid_uuid :: "string \<Rightarrow> bool"
  e_idna :: "string \<Rightarrow> exn + string"

section \<open>The state\<close>

record shared_zone =
  sh_id :: string
  sh_zone_id :: string
  sh_project_id :: string
  sh_target_project_id :: string

record quota_row =
  q_id :: string
  q_tenant_id :: string
  q_resource :: string
  q_hard_limit :: int

record tsigkey =
  k_id :: string
  k_name :: string
  k_algorithm :: string
  k_secret :: string
  k_scope :: string
  k_resource_id :: string

record tld =
  tld_id :: string
  tld_name :: string
  tld_description :: "string option"

record blacklist =
  bl_id :: string
  bl_pattern :: string
  bl_description :: "string option"

text \<open>A ZoneImport or a ZoneExport, by its type.\<close>

record zone_task =
  zt_id :: string
  zt_tenant_id :: "string option"
  zt_type :: string
  zt_zone_id :: "string option"
  zt_status :: string
  zt_message :: "string option"
  zt_location :: "string option"

record transfer_request =
  tr_id :: string
  tr_zone_id :: string
  tr_tenant_id :: "string option"
  tr_target_tenant_id :: "string option"
  tr_key :: string
  tr_status :: string

record transfer_accept =
  ta_id :: string
  ta_zone_id :: string
  ta_tenant_id :: "string option"
  ta_request_id :: string
  ta_key :: string
  ta_status :: string

datatype service_state = UP | DOWN | WARNING | STOPPED

text \<open>A ServiceStatus; \<open>ss_id\<close> is None on an object that no row has been loaded into.\<close>

record service_status =
  ss_id :: "string option"
  ss_created_at :: int
  ss_updated_at :: "int option"
  ss_service_name :: string
  ss_hostname :: string
  ss_heartbeated_at :: "int option"
  ss_status :: service_state
  ss_stats :: string
  ss_capabilities :: string

record db =
  d_zones :: "zone list"
  d_recordsets :: "recordset list"
  d_records :: "rrecord list"
  d_shares :: "shared_zone list"
  d_quotas :: "quota_row list"
  d_tlds :: "tld list"
  d_blacklists :: "blacklist list"
  d_tsigkeys :: "tsigkey list"
  d_pools :: "pool list"
  d_requests :: "transfer_request list"
  d_accepts :: "transfer_accept list"
  d_statuses :: "service_status list"
  d_tasks :: "zone_task list"

text \<open>The casts of \<open>worker/rpcapi.py\<close>.\<close>

datatype worker_msg =
  W_create_zone zone | W_update_zone zone | W_delete_zone zone bool | W_perform_zone_xfr zone
| W_perform_zone_xfr_from zone "zone_master list" | W_recover_shard int int
| W_start_zone_export zone zone_task

record world =
  w_db :: db
  w_now :: int
  w_next :: nat
  w_sent :: "worker_msg list"

type_synonym 'a sys = "(world, 'a) comp"

text \<open>Access to one table, and to the message log.\<close>

definition set_db :: "(db \<Rightarrow> db) \<Rightarrow> world \<Rightarrow> world" where
  "set_db f w = w\<lparr>w_db := f (w_db w)\<rparr>"

definition cast :: "worker_msg \<Rightarrow> unit sys" where
  "cast m = modify (\<lambda>w. w\<lparr>w_sent := w_sent w @ [m]\<rparr>)"

definition new_uuid :: "env \<Rightarrow> string sys" where
  "new_uuid E = (\<lambda>w. (Inr (e_gen_uuid E (w_next w)), w\<lparr>w_next := Suc (w_next w)\<rparr>))"

lemma set_db_simps [simp]:
  "w_db (set_db f w) = f (w_db w)" "w_now (set_db f w) = w_now w"
  "w_next (set_db f w) = w_next w" "w_sent (set_db f w) = w_sent w"
  by (simp_all add: set_db_def)

lemma new_uuid_run [comp_simps, simp]:
  "new_uuid E w = (Inr (e_gen_uuid E (w_next w)), w\<lparr>w_next := Suc (w_next w)\<rparr>)"
  by (simp add: new_uuid_def)

section \<open>Policy\<close>

text \<open>
  \<open>policy.check(rule, ctxt, target, do_raise)\<close>: with \<open>do_raise\<close> a denied rule is
  \<open>Forbidden\<close> and a scope mismatch \<open>InvalidTokenScope\<close>; without it both are False.
\<close>

definition check_result :: "env \<Rightarrow> string \<Rightarrow> req_context \<Rightarrow> target \<Rightarrow> bool \<Rightarrow> exn + bool" where
  "check_result E rule ctx tgt do_raise =
     (case e_enforce E rule tgt ctx of
        Permit \<Rightarrow> Inr True
      | Deny \<Rightarrow> (if do_raise then Inl (Forbidden F_plain) else Inr False)
      | BadScope \<Rightarrow> (if do_raise then Inl (Forbidden InvalidTokenScope) else Inr False))"

definition check :: "env \<Rightarrow> string \<Rightarrow> req_context \<Rightarrow> target \<Rightarrow> ('s, bool) comp" where
  "check E rule ctx tgt = lift (check_result E rule ctx tgt True)"

lemma check_run [comp_simps]: "check E rule ctx tgt s = (check_result E rule ctx tgt True, s)"
  by (simp add: check_def)

lemma check_result_Inr [simp]:
  "check_result E rule ctx tgt True = Inr b \<longleftrightarrow> e_enforce E rule tgt ctx = Permit \<and> b"
  by (auto simp: check_result_def split: enforcement.splits)

lemma check_Inr [simp]:
  "check E rule ctx tgt s = (Inr b, s') \<longleftrightarrow> e_enforce E rule tgt ctx = Permit \<and> b \<and> s' = s"
  by (auto simp: check_run)

lemma check_Inl:
  "check E rule ctx tgt s = (Inl e, s') \<longleftrightarrow>
     s' = s \<and> (e_enforce E rule tgt ctx = Deny \<and> e = Forbidden F_plain \<or>
               e_enforce E rule tgt ctx = BadScope \<and> e = Forbidden InvalidTokenScope)"
  by (auto simp: check_run check_result_def split: enforcement.splits)

section \<open>Contexts\<close>

text \<open>
  The setters of \<open>all_tenants\<close>, \<open>abandon\<close>, \<open>edit_managed_records\<close> and
  \<open>hard_delete\<close> check a policy when they are given a true value, so building a context
  from the dictionary of another one (\<open>deepcopy\<close>) repeats these checks.
\<close>

definition set_all_tenants :: "env \<Rightarrow> bool \<Rightarrow> req_context \<Rightarrow> exn + req_context" where
  "set_all_tenants E v ctx =
     (if v then
        (case check_result E ''all_tenants'' ctx [] True of
           Inl e \<Rightarrow> Inl e | Inr _ \<Rightarrow> Inr (ctx\<lparr>c_all_tenants := True\<rparr>))
      else Inr (ctx\<lparr>c_all_tenants := False\<rparr>))"

definition set_abandon :: "env \<Rightarrow> bool \<Rightarrow> req_context \<Rightarrow> exn + req_context" where
  "set_abandon E v ctx =
     (if v then
        (case check_result E ''abandon_zone'' ctx [] True of
           Inl e \<Rightarrow> Inl e | Inr _ \<Rightarrow> Inr (ctx\<lparr>c_abandon := True\<rparr>))
      else Inr (ctx\<lparr>c_abandon := False\<rparr>))"

definition set_edit_managed_records :: "env \<Rightarrow> bool \<Rightarrow> req_context \<Rightarrow> exn + req_context" where
  "set_edit_managed_records E v ctx =
     (if v then
        (case check_result E ''edit_managed_records'' ctx [] True of
           Inl e \<Rightarrow> Inl e | Inr _ \<Rightarrow> Inr (ctx\<lparr>c_edit_managed_records := True\<rparr>))
      else Inr (ctx\<lparr>c_edit_managed_records := False\<rparr>))"

definition set_hard_delete :: "env \<Rightarrow> bool \<Rightarrow> req_context \<Rightarrow> exn + req_context" where
  "set_hard_delete E v ctx =
     (if v then
        (case check_result E ''hard_delete'' ctx [] True of
           Inl e \<Rightarrow> Inl e | Inr _ \<Rightarrow> Inr (ctx\<lparr>c_hard_delete := True\<rparr>))
      else Inr (ctx\<lparr>c_hard_delete := False\<rparr>))"

definition and_then :: "exn + 'a \<Rightarrow> ('a \<Rightarrow> exn + 'b) \<Rightarrow> exn + 'b" where
  "and_then r f = (case r of Inl e \<Rightarrow> Inl e | Inr x \<Rightarrow> f x)"

lemma and_then_simps [simp]: "and_then (Inl e) f = Inl e" "and_then (Inr x) f = f x"
  by (simp_all add: and_then_def)

lemma and_then_Inr: "and_then r f = Inr y \<longleftrightarrow> (\<exists>x. r = Inr x \<and> f x = Inr y)"
  by (cases r) auto

lemma and_then_Inl: "and_then r f = Inl e \<longleftrightarrow> r = Inl e \<or> (\<exists>x. r = Inr x \<and> f x = Inl e)"
  by (cases r) auto

text \<open>\<open>__init__\<close> sets the four attributes in this order on an object whose other fields are
  already in place.\<close>

definition deepcopy :: "env \<Rightarrow> req_context \<Rightarrow> exn + req_context" where
  "deepcopy E ctx =
     and_then (set_all_tenants E (c_all_tenants ctx)
         (ctx\<lparr>c_all_tenants := False, c_abandon := False, c_edit_managed_records := False,
              c_hard_delete := False\<rparr>))
       (\<lambda>c. and_then (set_abandon E (c_abandon ctx) c)
       (\<lambda>c. and_then (set_edit_managed_records E (c_edit_managed_records ctx) c)
       (\<lambda>c. set_hard_delete E (c_hard_delete ctx) c)))"

definition elevated ::
  "env \<Rightarrow> req_context \<Rightarrow> bool option \<Rightarrow> bool \<Rightarrow> bool \<Rightarrow> bool \<Rightarrow> exn + req_context" where
  "elevated E ctx show_deleted all_tenants edit_managed hard =
     and_then (deepcopy E ctx) (\<lambda>c0.
       let c1 = c0\<lparr>c_is_admin := True, c_roles := c_roles c0 @ [''admin'']\<rparr>;
           c2 = (case show_deleted of None \<Rightarrow> c1 | Some b \<Rightarrow> c1\<lparr>c_show_deleted := b\<rparr>)
       in and_then (if all_tenants then set_all_tenants E True c2 else Inr c2)
       (\<lambda>c3. and_then (if edit_managed then set_edit_managed_records E True c3 else Inr c3)
       (\<lambda>c4. if hard then set_hard_delete E True c4 else Inr c4)))"

text \<open>\<open>context.elevated(all_tenants=True)\<close>, the form central uses before it reads across
  projects.\<close>

definition elevate_all :: "env \<Rightarrow> req_context \<Rightarrow> ('s, req_context) comp" where
  "elevate_all E ctx = lift (elevated E ctx None True False False)"

text \<open>\<open>get_admin_context\<close>: no project, the roles admin and reader.\<close>

definition admin_context :: req_context where
  "admin_context = \<lparr>c_project_id = None, c_all_tenants = False, c_show_deleted = False,
     c_is_admin = True, c_roles = [''admin'', ''reader''], c_request_id = '''', c_abandon = False,
     c_edit_managed_records = False, c_hard_delete = False, c_delete_shares = False,
     c_hide_counts = False, c_tsigkey_id = None\<rparr>"

lemma set_context_Inr:
  "set_all_tenants E v c = Inr c' \<Longrightarrow> c' = c\<lparr>c_all_tenants := v\<rparr>"
  "set_abandon E v c = Inr c' \<Longrightarrow> c' = c\<lparr>c_abandon := v\<rparr>"
  "set_edit_managed_records E v c = Inr c' \<Longrightarrow> c' = c\<lparr>c_edit_managed_records := v\<rparr>"
  "set_hard_delete E v c = Inr c' \<Longrightarrow> c' = c\<lparr>c_hard_delete := v\<rparr>"
  by (auto simp: set_all_tenants_def set_abandon_def set_edit_managed_records_def
      set_hard_delete_def split: sum.splits if_splits)

text \<open>A copied context is the context itself.\<close>

lemma deepcopy_Inr: "deepcopy E ctx = Inr c \<Longrightarrow> c = ctx"
  unfolding deepcopy_def and_then_Inr
  by (auto dest!: set_context_Inr)

lemma elevated_Inr:
  assumes "elevated E ctx None True edit False = Inr c"
  shows "c_all_tenants c" "c_project_id c = c_project_id ctx" "c_show_deleted c = c_show_deleted ctx"
    "c_is_admin c" "c_request_id c = c_request_id ctx" "c_roles c = c_roles ctx @ [''admin'']"
    "edit \<Longrightarrow> c_edit_managed_records c"
  using assms unfolding elevated_def and_then_Inr
  by (auto dest!: deepcopy_Inr set_context_Inr simp: and_then_Inr Let_def split: if_splits)

lemma elevate_all_Inr:
  assumes "elevate_all E ctx s = (Inr c, s')"
  shows "s' = s" "c_all_tenants c" "c_project_id c = c_project_id ctx"
    "c_show_deleted c = c_show_deleted ctx" "c_is_admin c"
  using assms elevated_Inr [of E ctx False c] by (auto simp: elevate_all_def)

end
