(* ===== verification/StorageZones.thy ===== *)
theory StorageZones
  imports Env
begin

text \<open>
  The zone half of \<open>SQLAlchemyStorage\<close> (\<open>storage/sqlalchemy/__init__.py\<close>): finding zones
  through the outer join with their shares, creating, updating, soft-deleting, counting and
  purging them, and the shares themselves. A row of the zones table is a \<open>zone\<close> with no
  changed attributes; the masters and attributes of a zone, which the code keeps in two child
  tables, are stored with their zone. The facts at the end are what central builds on: what a
  lookup by id returns, which rows an update touches, and the invariant \<open>zones_wf\<close> (primary
  keys are distinct, and no two live zones of a pool share a name).
\<close>

section \<open>Columns and constraints\<close>

datatype zone_column =
  ZC_id | ZC_name | ZC_reverse_name | ZC_tenant_id | ZC_pool_id | ZC_type | ZC_status | ZC_action
| ZC_serial | ZC_shard | ZC_parent_zone_id | ZC_deleted | ZC_delayed_notify | ZC_increment_serial
| ZC_deleted_at | ZC_target_project_id

text \<open>A joined row: the zone and the \<open>target_project_id\<close> of one of its shares, if any.\<close>

fun zone_col :: "zone \<times> string option \<Rightarrow> zone_column \<Rightarrow> sqlval" where
  "zone_col (z, t) ZC_id = VStr (z_id z)"
| "zone_col (z, t) ZC_name = VStr (z_name z)"
| "zone_col (z, t) ZC_reverse_name = VStr (rev (z_name z))"
| "zone_col (z, t) ZC_tenant_id = opt_str (z_tenant_id z)"
| "zone_col (z, t) ZC_pool_id = VStr (z_pool_id z)"
| "zone_col (z, t) ZC_type = VStr (zone_type_str (z_type z))"
| "zone_col (z, t) ZC_status = VStr (status_str (z_status z))"
| "zone_col (z, t) ZC_action = VStr (action_str (z_action z))"
| "zone_col (z, t) ZC_serial = VInt (z_serial z)"
| "zone_col (z, t) ZC_shard = VInt (z_shard z)"
| "zone_col (z, t) ZC_parent_zone_id = opt_str (z_parent_zone_id z)"
| "zone_col (z, t) ZC_deleted = VStr (z_deleted z)"
| "zone_col (z, t) ZC_delayed_notify = VBool (z_delayed_notify z)"
| "zone_col (z, t) ZC_increment_serial = VBool (z_increment_serial z)"
| "zone_col (z, t) ZC_deleted_at =
     (case z_deleted_at z of None \<Rightarrow> VNull | Some n \<Rightarrow> VInt n)"
| "zone_col (z, t) ZC_target_project_id = opt_str t"

definition zone_row_col :: "zone \<Rightarrow> zone_column \<Rightarrow> sqlval" where
  "zone_row_col z c = zone_col (z, None) c"

text \<open>\<open>UniqueConstraint('name', 'deleted', 'pool_id')\<close>.\<close>

definition unique_zone_name :: "zone list \<Rightarrow> bool" where
  "unique_zone_name rows \<longleftrightarrow> distinct (map (\<lambda>z. (z_name z, z_deleted z, z_pool_id z)) rows)"

interpretation zone_table: keyed_table zone_row_col ZC_id z_id VStr
  by unfold_locales (simp_all add: zone_row_col_def)

section \<open>Finding zones\<close>

text \<open>\<open>_rname_check\<close>: a name pattern that starts with \<open>*\<close> is looked up reversed.\<close>

fun rname_check :: "(zone_column \<times> crit) list \<Rightarrow> (zone_column \<times> crit) list" where
  "rname_check [] = []"
| "rname_check ((ZC_name, CStr s) # rest) =
     (if startswith s ''*'' then rest @ [(ZC_reverse_name, CStr (rev s))]
      else (ZC_name, CStr s) # rest)"
| "rname_check (cv # rest) = cv # rname_check rest"

text \<open>\<open>tables.zones.outerjoin(tables.shared_zones)\<close>.\<close>

definition zone_join :: "db \<Rightarrow> (zone \<times> string option) list" where
  "zone_join d = concat (map (\<lambda>z.
     (let shs = filter (\<lambda>s. sh_zone_id s = z_id z) (d_shares d) in
      if shs = [] then [(z, None)]
      else map (\<lambda>s. (z, Some (sh_target_project_id s))) shs)) (d_zones d))"

text \<open>The selected columns: the zone with the virtual column \<open>shared\<close>; DISTINCT.\<close>

definition zone_of_join :: "zone \<times> string option \<Rightarrow> zone" where
  "zone_of_join zt = (fst zt)\<lparr>z_shared := snd zt \<noteq> None, z_changed := {}\<rparr>"

definition zone_where ::
  "req_context \<Rightarrow> (zone_column \<times> crit) list \<Rightarrow> bool \<Rightarrow> bool \<Rightarrow> exn + zone_column clause list" where
  "zone_where ctx criterion apply_tenant include_shared =
     and_then (apply_criterion (rname_check criterion)) (\<lambda>cls.
       Inr (cls @ (if apply_tenant
                   then apply_tenant_criteria ctx (Some ZC_tenant_id) ZC_target_project_id
                          True include_shared
                   else [])
                @ apply_deleted_criteria ctx (Some ZC_deleted)))"

definition select_zones :: "zone_column clause list \<Rightarrow> db \<Rightarrow> zone list" where
  "select_zones cls d = remdups (map zone_of_join (select_where zone_col cls (zone_join d)))"

text \<open>\<open>_find_zones\<close> with \<open>one=False\<close> and \<open>one=True\<close>.\<close>

definition find_zones_gen ::
  "req_context \<Rightarrow> (zone_column \<times> crit) list \<Rightarrow> bool \<Rightarrow> zone list sys" where
  "find_zones_gen ctx criterion apply_tenant =
     bind (lift (zone_where ctx criterion apply_tenant True)) (\<lambda>cls.
     gets (\<lambda>w. select_zones cls (w_db w)))"

definition find_zone_gen ::
  "req_context \<Rightarrow> (zone_column \<times> crit) list \<Rightarrow> bool \<Rightarrow> zone sys" where
  "find_zone_gen ctx criterion apply_tenant =
     bind (find_zones_gen ctx criterion apply_tenant) (\<lambda>zs. lift (fetch_one ZoneNotFound zs))"

definition storage_find_zones :: "req_context \<Rightarrow> (zone_column \<times> crit) list \<Rightarrow> zone list sys" where
  "storage_find_zones ctx criterion = find_zones_gen ctx criterion True"

definition storage_find_zone :: "req_context \<Rightarrow> (zone_column \<times> crit) list \<Rightarrow> zone sys" where
  "storage_find_zone ctx criterion = find_zone_gen ctx criterion True"

definition storage_get_zone :: "req_context \<Rightarrow> string \<Rightarrow> bool \<Rightarrow> zone sys" where
  "storage_get_zone ctx zone_id apply_tenant =
     find_zone_gen ctx [(ZC_id, CStr zone_id)] apply_tenant"

text \<open>\<open>count_zones\<close> counts table rows, without the join.\<close>

definition storage_count_zones :: "req_context \<Rightarrow> (zone_column \<times> crit) list \<Rightarrow> int sys" where
  "storage_count_zones ctx criterion =
     bind (lift (apply_criterion criterion)) (\<lambda>cls.
     gets (\<lambda>w. int (length (select_where zone_row_col
        (cls @ apply_tenant_criteria ctx (Some ZC_tenant_id) ZC_target_project_id True False
             @ apply_deleted_criteria ctx (Some ZC_deleted)) (d_zones (w_db w))))))"

section \<open>Writing zones\<close>

text \<open>The attributes a Zone object carries when central creates it; what is missing gets the
  default of its column.\<close>

record zone_request =
  zr_tenant_id :: "string option"
  zr_name :: "string option"
  zr_email :: string
  zr_ttl :: "int option"
  zr_retry :: "int option"
  zr_expire :: "int option"
  zr_minimum :: "int option"
  zr_serial :: "int option"
  zr_description :: "string option"
  zr_type :: zone_type
  zr_attributes :: "(string \<times> string) list option"
  zr_masters :: "zone_master list option"
  zr_recordsets :: "recordset list"

text \<open>\<open>default_shard\<close>: the first three hexadecimal digits of the id.\<close>

definition hex_digit :: "char \<Rightarrow> int option" where
  "hex_digit c =
     (let n = int (of_char c) in
      if 48 \<le> n \<and> n \<le> 57 then Some (n - 48)
      else if 97 \<le> n \<and> n \<le> 102 then Some (n - 87)
      else if 65 \<le> n \<and> n \<le> 70 then Some (n - 55)
      else None)"

definition default_shard :: "string \<Rightarrow> exn + int" where
  "default_shard i =
     (let ds = map hex_digit (take 3 i) in
      if ds = [] \<or> None \<in> set ds then Inl PyValueError
      else Inr (foldl (\<lambda>n d. 16 * n + the d) 0 ds))"

definition default_to :: "'a \<Rightarrow> 'a option \<Rightarrow> 'a" where
  "default_to d x = (case x of None \<Rightarrow> d | Some v \<Rightarrow> v)"

text \<open>The inserted row; \<open>serial\<close>, \<open>refresh\<close>, the parent and the pool are those central has
  put into the object.\<close>

definition zone_row ::
  "config \<Rightarrow> int \<Rightarrow> string \<Rightarrow> int \<Rightarrow> zone_request \<Rightarrow> string option \<Rightarrow> string \<Rightarrow> string option
     \<Rightarrow> int \<Rightarrow> int option \<Rightarrow> zone" where
  "zone_row cf now i shard zr tenant pool_id parent refresh serial =
     \<lparr>z_id = i, z_version = 1, z_shard = shard, z_tenant_id = tenant,
      z_name = default_to '''' (zr_name zr), z_email = zr_email zr,
      z_ttl = Some (default_to (cf_default_ttl cf) (zr_ttl zr)), z_refresh = refresh,
      z_retry = default_to (cf_soa_retry cf) (zr_retry zr),
      z_expire = default_to (cf_soa_expire cf) (zr_expire zr),
      z_minimum = default_to (cf_soa_minimum cf) (zr_minimum zr), z_parent_zone_id = parent,
      z_serial = default_to now serial, z_description = zr_description zr, z_status = PENDING,
      z_action = CREATE, z_pool_id = pool_id, z_type = zr_type zr, z_transferred_at = None,
      z_delayed_notify = False, z_increment_serial = False, z_deleted = ''0'', z_deleted_at = None,
      z_shared = False, z_attributes = default_to [] (zr_attributes zr),
      z_masters = default_to [] (zr_masters zr), z_changed = {}\<rparr>"

definition storage_create_zone ::
  "env \<Rightarrow> zone_request \<Rightarrow> string option \<Rightarrow> string \<Rightarrow> string option \<Rightarrow> int \<Rightarrow> int option \<Rightarrow> zone sys" where
  "storage_create_zone E zr tenant pool_id parent refresh serial =
     bind (new_uuid E) (\<lambda>i.
     bind (lift (default_shard i)) (\<lambda>shard.
     bind (gets w_now) (\<lambda>now.
     let row = zone_row (e_conf E) now i shard zr tenant pool_id parent refresh serial in
     bind (gets w_db) (\<lambda>d.
     bind (lift (insert_row unique_zone_name (Duplicate (Some R_Zone)) row (d_zones d))) (\<lambda>rows.
     seq (modify (set_db (\<lambda>d. d\<lparr>d_zones := rows\<rparr>))) (return row))))))"


text \<open>The clauses of \<open>_update\<close> and \<open>_delete\<close>: the row's id, the tenant, not deleted.\<close>

definition zone_write_where :: "req_context \<Rightarrow> string \<Rightarrow> zone_column clause list" where
  "zone_write_where ctx zone_id =
     Eq ZC_id (VStr zone_id) #
     (apply_tenant_criteria ctx (Some ZC_tenant_id) ZC_target_project_id True False @
      apply_deleted_criteria ctx (Some ZC_deleted))"

text \<open>\<open>obj_get_changes()\<close> written over a row, and the version increment.\<close>

definition write_zone_changes :: "zone \<Rightarrow> zone \<Rightarrow> zone" where
  "write_zone_changes obj row =
     (let ch = z_changed obj in
      row\<lparr>z_version := z_version row + 1,
          z_tenant_id := (if ZA_tenant_id \<in> ch then z_tenant_id obj else z_tenant_id row),
          z_name := (if ZA_name \<in> ch then z_name obj else z_name row),
          z_email := (if ZA_email \<in> ch then z_email obj else z_email row),
          z_ttl := (if ZA_ttl \<in> ch then z_ttl obj else z_ttl row),
          z_refresh := (if ZA_refresh \<in> ch then z_refresh obj else z_refresh row),
          z_retry := (if ZA_retry \<in> ch then z_retry obj else z_retry row),
          z_expire := (if ZA_expire \<in> ch then z_expire obj else z_expire row),
          z_minimum := (if ZA_minimum \<in> ch then z_minimum obj else z_minimum row),
          z_parent_zone_id := (if ZA_parent_zone_id \<in> ch then z_parent_zone_id obj
                               else z_parent_zone_id row),
          z_serial := (if ZA_serial \<in> ch then z_serial obj else z_serial row),
          z_description := (if ZA_description \<in> ch then z_description obj
                            else z_description row),
          z_status := (if ZA_status \<in> ch then z_status obj else z_status row),
          z_action := (if ZA_action \<in> ch then z_action obj else z_action row),
          z_pool_id := (if ZA_pool_id \<in> ch then z_pool_id obj else z_pool_id row),
          z_type := (if ZA_type \<in> ch then z_type obj else z_type row),
          z_transferred_at := (if ZA_transferred_at \<in> ch then z_transferred_at obj
                               else z_transferred_at row),
          z_delayed_notify := (if ZA_delayed_notify \<in> ch then z_delayed_notify obj
                               else z_delayed_notify row),
          z_increment_serial := (if ZA_increment_serial \<in> ch then z_increment_serial obj
                                 else z_increment_serial row),
          z_deleted := (if ZA_deleted \<in> ch then z_deleted obj else z_deleted row),
          z_deleted_at := (if ZA_deleted \<in> ch then z_deleted_at obj else z_deleted_at row),
          z_masters := (if ZA_masters \<in> ch then z_masters obj else z_masters row)\<rparr>)"

text \<open>The row refetched into the object: columns from the table, relations and \<open>shared\<close> as
  they were, no changed attribute left.\<close>

definition refetch_zone :: "zone \<Rightarrow> zone \<Rightarrow> zone" where
  "refetch_zone obj row = row\<lparr>z_shared := z_shared obj, z_attributes := z_attributes obj,
     z_masters := z_masters obj, z_changed := {}\<rparr>"

text \<open>\<open>_update\<close> on the zones table.\<close>

definition update_zone_row :: "req_context \<Rightarrow> zone \<Rightarrow> zone sys" where
  "update_zone_row ctx z =
     bind (gets w_db) (\<lambda>d.
     bind (lift (update_where zone_row_col unique_zone_name (Duplicate (Some R_Zone)) ZoneNotFound
                   (zone_write_where ctx (z_id z)) (write_zone_changes z) (d_zones d))) (\<lambda>rows.
     seq (modify (set_db (\<lambda>d. d\<lparr>d_zones := rows\<rparr>)))
         (let refetched = filter (\<lambda>r. z_id r = z_id z) rows in
          if refetched = [] then raise PyTypeError
          else return (refetch_zone z (hd refetched)))))"

text \<open>The last part of \<open>update_zone\<close>: a new owner becomes the owner of the zone's recordsets
  and records.\<close>

definition retenant :: "string \<Rightarrow> string option \<Rightarrow> db \<Rightarrow> db" where
  "retenant zone_id t d = d\<lparr>
     d_recordsets := map (\<lambda>r. if rs_zone_id r = zone_id then r\<lparr>rs_tenant_id := t\<rparr> else r)
                       (d_recordsets d),
     d_records := map (\<lambda>r. if r_zone_id r = zone_id then r\<lparr>r_tenant_id := t\<rparr> else r)
                    (d_records d)\<rparr>"

definition storage_update_zone :: "req_context \<Rightarrow> zone \<Rightarrow> zone sys" where
  "storage_update_zone ctx z =
     bind (update_zone_row ctx z) (\<lambda>z'.
     seq (if ZA_tenant_id \<in> z_changed z
          then modify (set_db (retenant (z_id z) (z_tenant_id z'))) else return ())
         (return z'))"

text \<open>\<open>increment_serial\<close>: the serial becomes the clock, the flag is cleared.\<close>

definition storage_increment_serial :: "string \<Rightarrow> int sys" where
  "storage_increment_serial zone_id =
     bind (gets w_now) (\<lambda>new_serial.
     seq (modify (set_db (\<lambda>d. d\<lparr>d_zones := map (\<lambda>r. if z_id r = zone_id
            then r\<lparr>z_serial := new_serial, z_increment_serial := False\<rparr> else r) (d_zones d)\<rparr>)))
         (return new_serial))"

text \<open>\<open>_delete\<close> on a soft-delete table, and \<open>delete_zone\<close>.\<close>

definition soft_delete_zone :: "req_context \<Rightarrow> zone \<Rightarrow> zone sys" where
  "soft_delete_zone ctx z =
     bind (gets w_now) (\<lambda>now.
     update_zone_row ctx
       (z_set_status DELETED (z_set_action NONE
          (z_set_deleted (filter (\<lambda>c. c \<noteq> CHR ''-'') (z_id z)) now z))))"

definition storage_delete_zone :: "req_context \<Rightarrow> string \<Rightarrow> zone sys" where
  "storage_delete_zone ctx zone_id =
     bind (find_zone_gen ctx [(ZC_id, CStr zone_id)] True) (soft_delete_zone ctx)"

section \<open>Purging\<close>

text \<open>
  \<open>purge_zone\<close>: the hard branch of \<open>_delete\<close>, with what the foreign keys do: recordsets,
  records and shares of the zone go with it, and children lose their parent.
\<close>

definition drop_zone :: "string \<Rightarrow> db \<Rightarrow> db" where
  "drop_zone zid d = d\<lparr>
     d_zones := map (\<lambda>z. if z_parent_zone_id z = Some zid then z\<lparr>z_parent_zone_id := None\<rparr> else z)
                  (filter (\<lambda>z. z_id z \<noteq> zid) (d_zones d)),
     d_recordsets := filter (\<lambda>r. rs_zone_id r \<noteq> zid) (d_recordsets d),
     d_records := filter (\<lambda>r. r_zone_id r \<noteq> zid) (d_records d),
     d_shares := filter (\<lambda>s. sh_zone_id s \<noteq> zid) (d_shares d)\<rparr>"

definition purge_zone :: "req_context \<Rightarrow> zone \<Rightarrow> unit sys" where
  "purge_zone ctx z =
     bind (gets w_db) (\<lambda>d.
     bind (lift (delete_where zone_row_col ZoneNotFound (zone_write_where ctx (z_id z))
                   (d_zones d))) (\<lambda>_.
     modify (set_db (drop_zone (z_id z)))))"

text \<open>
  \<open>_walk_up_zones\<close>: up to \<open>MAXIMUM_SUBZONE_DEPTH\<close> steps through the parents that are
  being purged too.
\<close>

definition maximum_subzone_depth :: nat where
  "maximum_subzone_depth = 128"

fun walk_up :: "nat \<Rightarrow> (string \<Rightarrow> zone option) \<Rightarrow> zone \<Rightarrow> exn + string option" where
  "walk_up max_steps by_id current =
     (case z_parent_zone_id current of
        None \<Rightarrow> Inr None
      | Some p \<Rightarrow>
          (case by_id p of
             None \<Rightarrow> Inr (Some p)
           | Some parent \<Rightarrow>
               (if max_steps \<le> 1 then Inl (Forbidden IllegalParentZone)
                else walk_up (max_steps - 1) by_id parent)))"

declare walk_up.simps [simp del]

definition walk_up_zones :: "zone \<Rightarrow> (string \<Rightarrow> zone option) \<Rightarrow> exn + string option" where
  "walk_up_zones current by_id = walk_up maximum_subzone_depth by_id current"

text \<open>\<open>{z.id: z for z in zones}\<close>: the last one with an id wins.\<close>

definition zones_by_id :: "zone list \<Rightarrow> string \<Rightarrow> zone option" where
  "zones_by_id zs = map_of (rev (map (\<lambda>z. (z_id z, z)) zs))"

definition reparent_children :: "string \<Rightarrow> string option \<Rightarrow> db \<Rightarrow> db" where
  "reparent_children old new d = d\<lparr>d_zones := map (\<lambda>z.
     if z_parent_zone_id z = Some old then z\<lparr>z_parent_zone_id := new\<rparr> else z) (d_zones d)\<rparr>"

text \<open>\<open>purge_zones\<close>; \<open>None\<close> when there was nothing to purge.\<close>

definition purge_one :: "req_context \<Rightarrow> (string \<Rightarrow> zone option) \<Rightarrow> zone \<Rightarrow> unit sys" where
  "purge_one ctx by_id z =
     bind (lift (walk_up_zones z by_id)) (\<lambda>surviving.
     seq (modify (set_db (reparent_children (z_id z) surviving))) (purge_zone ctx z))"

definition storage_purge_zones ::
  "req_context \<Rightarrow> (zone_column \<times> crit) list \<Rightarrow> nat option \<Rightarrow> int option sys" where
  "storage_purge_zones ctx criterion limit =
     (let ctx = (if ZC_deleted \<in> fst ` set criterion then ctx\<lparr>c_show_deleted := True\<rparr> else ctx) in
      bind (storage_find_zones ctx criterion) (\<lambda>found.
      let zs = (case limit of None \<Rightarrow> found | Some n \<Rightarrow> take n found) in
      if zs = [] then return None
      else seq (for_each zs (purge_one ctx (zones_by_id zs))) (return (Some (int (length zs))))))"

section \<open>Shares\<close>

definition storage_is_zone_shared_with_project :: "string \<Rightarrow> string option \<Rightarrow> bool sys" where
  "storage_is_zone_shared_with_project zone_id project_id =
     gets (\<lambda>w. \<exists>s \<in> set (d_shares (w_db w)). sh_zone_id s = zone_id \<and>
                 Some (sh_target_project_id s) = project_id)"

definition storage_delete_zone_shares :: "string \<Rightarrow> unit sys" where
  "storage_delete_zone_shares zone_id =
     modify (set_db (\<lambda>d. d\<lparr>d_shares := filter (\<lambda>s. sh_zone_id s \<noteq> zone_id) (d_shares d)\<rparr>))"

definition unique_shared_zone :: "shared_zone list \<Rightarrow> bool" where
  "unique_shared_zone rows \<longleftrightarrow>
     distinct (map (\<lambda>s. (sh_zone_id s, sh_project_id s, sh_target_project_id s)) rows)"

definition storage_share_zone :: "env \<Rightarrow> shared_zone \<Rightarrow> shared_zone sys" where
  "storage_share_zone E sh =
     bind (new_uuid E) (\<lambda>i.
     let row = sh\<lparr>sh_id := i\<rparr> in
     bind (gets w_db) (\<lambda>d.
     bind (lift (insert_row unique_shared_zone (Duplicate (Some R_SharedZone)) row
                   (d_shares d))) (\<lambda>rows.
     seq (modify (set_db (\<lambda>d. d\<lparr>d_shares := rows\<rparr>))) (return row))))"

text \<open>\<open>_find_shared_zones(one=True)\<close>: visible to the sharing and to the target project.\<close>

definition storage_get_shared_zone :: "req_context \<Rightarrow> string \<Rightarrow> string \<Rightarrow> shared_zone sys" where
  "storage_get_shared_zone ctx zone_id share_id =
     bind (gets (\<lambda>w. filter (\<lambda>s. sh_id s = share_id \<and> sh_zone_id s = zone_id \<and>
              (c_all_tenants ctx \<or> Some (sh_project_id s) = c_project_id ctx \<or>
               Some (sh_target_project_id s) = c_project_id ctx)) (d_shares (w_db w)))) (\<lambda>shs.
     lift (fetch_one (NotFound (NF_of R_SharedZone)) shs))"

definition storage_unshare_zone :: "req_context \<Rightarrow> string \<Rightarrow> string \<Rightarrow> shared_zone sys" where
  "storage_unshare_zone ctx zone_id share_id =
     bind (storage_get_shared_zone ctx zone_id share_id) (\<lambda>sh.
     seq (modify (set_db (\<lambda>d. d\<lparr>d_shares := filter (\<lambda>s. sh_id s \<noteq> sh_id sh) (d_shares d)\<rparr>)))
         (return sh))"

section \<open>What the statements do\<close>

text \<open>An object loaded from a row: the row, with the virtual column \<open>shared\<close>.\<close>

definition loaded_from :: "zone \<Rightarrow> zone \<Rightarrow> bool" where
  "loaded_from z row \<longleftrightarrow> (\<exists>sh. z = row\<lparr>z_shared := sh, z_changed := {}\<rparr>)"

lemma loaded_from_simps:
  assumes "loaded_from z row"
  shows "z_id z = z_id row" "z_name z = z_name row" "z_tenant_id z = z_tenant_id row"
    "z_pool_id z = z_pool_id row" "z_deleted z = z_deleted row" "z_status z = z_status row"
    "z_action z = z_action row" "z_serial z = z_serial row" "z_type z = z_type row"
    "z_parent_zone_id z = z_parent_zone_id row" "z_changed z = {}" "z_email z = z_email row"
    "z_masters z = z_masters row" "z_attributes z = z_attributes row"
  using assms by (auto simp: loaded_from_def)

definition zone_ids_distinct :: "db \<Rightarrow> bool" where
  "zone_ids_distinct d \<longleftrightarrow> distinct (map z_id (d_zones d))"

lemma zone_join_row: "(z, t) \<in> set (zone_join d) \<Longrightarrow> z \<in> set (d_zones d)"
  by (auto simp: zone_join_def Let_def split: if_splits)

lemma zone_join_share:
  "(z, Some p) \<in> set (zone_join d) \<Longrightarrow>
     \<exists>s \<in> set (d_shares d). sh_zone_id s = z_id z \<and> sh_target_project_id s = p"
  by (auto simp: zone_join_def Let_def split: if_splits)

lemma zone_join_ex:
  assumes "z \<in> set (d_zones d)"
  shows "\<exists>t. (z, t) \<in> set (zone_join d)"
proof -
  let ?shs = "filter (\<lambda>s. sh_zone_id s = z_id z) (d_shares d)"
  let ?j = "if ?shs = [] then [(z, None)] else map (\<lambda>s. (z, Some (sh_target_project_id s))) ?shs"
  have "\<exists>t. (z, t) \<in> set ?j" by (cases ?shs) auto
  moreover from assms have "set ?j \<subseteq> set (zone_join d)"
    unfolding zone_join_def Let_def by auto
  ultimately show ?thesis by blast
qed

lemma zone_col_row:
  "c \<noteq> ZC_target_project_id \<Longrightarrow> zone_col (z, t) c = zone_row_col z c"
  by (cases c) (simp_all add: zone_row_col_def)

lemma select_zones_in:
  "z \<in> set (select_zones cls d) \<longleftrightarrow>
     (\<exists>row t. (row, t) \<in> set (zone_join d) \<and> matches zone_col cls (row, t) \<and>
              z = zone_of_join (row, t))"
  by (force simp: select_zones_def select_where_def)

lemma zone_of_join_loaded: "loaded_from (zone_of_join (row, t)) row"
  by (auto simp: loaded_from_def zone_of_join_def)

lemma storage_get_zone_Inr:
  assumes run: "storage_get_zone ctx i tenant w = (Inr z, w')" and "plain i"
  shows "w' = w" and "\<exists>row \<in> set (d_zones (w_db w)). loaded_from z row \<and> z_id row = i \<and>
     (c_show_deleted ctx \<or> z_deleted row = ''0'')"
proof -
  from run assms(2) have "w' = w \<and> z \<in> set (select_zones
      ([Eq ZC_id (VStr i)] @ (if tenant then apply_tenant_criteria ctx (Some ZC_tenant_id)
         ZC_target_project_id True True else []) @ apply_deleted_criteria ctx (Some ZC_deleted)) (w_db w))"
    by (auto simp: storage_get_zone_def find_zone_gen_def find_zones_gen_def zone_where_def
        bind_Inr_iff fetch_one_Inr and_then_Inr startswith_def)
  then show "w' = w" and "\<exists>row \<in> set (d_zones (w_db w)). loaded_from z row \<and> z_id row = i \<and>
     (c_show_deleted ctx \<or> z_deleted row = ''0'')"
    using zone_of_join_loaded
    by (fastforce simp: select_zones_in apply_deleted_criteria_def dest!: zone_join_row
        split: if_splits)+
qed

lemma storage_get_zone_state: "snd (storage_get_zone ctx i tenant w) = w"
  by (auto simp: storage_get_zone_def find_zone_gen_def find_zones_gen_def bind_run
      split: sum.splits prod.splits)

text \<open>An update leaves every row but the one with the id, and writes the changes to that one.\<close>

lemma update_zone_row_Inr:
  assumes "update_zone_row ctx z w = (Inr z', w')"
  shows "\<exists>row \<in> set (d_zones (w_db w)). z_id row = z_id z \<and>
      matches zone_row_col (tl (zone_write_where ctx (z_id z))) row"
    and "w' = set_db (\<lambda>d. d\<lparr>d_zones := map (\<lambda>r. if z_id r = z_id z \<and>
            matches zone_row_col (tl (zone_write_where ctx (z_id z))) r
          then write_zone_changes z r else r) (d_zones d)\<rparr>) w"
    and "unique_zone_name (d_zones (w_db w'))"
proof -
  from assms obtain rows where
    u: "update_where zone_row_col unique_zone_name (Duplicate (Some R_Zone)) ZoneNotFound
          (Eq ZC_id (VStr (z_id z)) # tl (zone_write_where ctx (z_id z)))
          (write_zone_changes z) (d_zones (w_db w)) = Inr rows"
    and w': "w' = set_db (\<lambda>d. d\<lparr>d_zones := rows\<rparr>) w"
    by (auto simp: update_zone_row_def bind_Inr_iff seq_Inr_iff zone_write_where_def Let_def
        split: if_splits)
  have keep: "z_id (write_zone_changes z r) = z_id r" for r
    by (simp add: write_zone_changes_def Let_def)
  from zone_table.update_by_key_ex [OF u] show
    "\<exists>row \<in> set (d_zones (w_db w)). z_id row = z_id z \<and>
      matches zone_row_col (tl (zone_write_where ctx (z_id z))) row" .
  from zone_table.update_by_key [OF u keep] w' show
    "w' = set_db (\<lambda>d. d\<lparr>d_zones := map (\<lambda>r. if z_id r = z_id z \<and>
            matches zone_row_col (tl (zone_write_where ctx (z_id z))) r
          then write_zone_changes z r else r) (d_zones d)\<rparr>) w"
    "unique_zone_name (d_zones (w_db w'))"
    by (simp_all add: set_db_def)
qed

text \<open>A context that sees every project, and no deleted zone.\<close>

definition sees_all :: "req_context \<Rightarrow> bool" where
  "sees_all ctx \<longleftrightarrow> c_all_tenants ctx \<and> \<not> c_show_deleted ctx"

definition is_shared :: "db \<Rightarrow> zone \<Rightarrow> bool" where
  "is_shared d z \<longleftrightarrow> (\<exists>s \<in> set (d_shares d). sh_zone_id s = z_id z)"

definition load_zone :: "db \<Rightarrow> zone \<Rightarrow> zone" where
  "load_zone d z = z\<lparr>z_shared := is_shared d z, z_changed := {}\<rparr>"

lemma zone_join_shared:
  assumes "(z, t) \<in> set (zone_join d)"
  shows "zone_of_join (z, t) = load_zone d z"
proof -
  from assms have "t \<noteq> None \<longleftrightarrow> is_shared d z"
    by (auto simp: zone_join_def is_shared_def Let_def filter_empty_conv split: if_splits)
  then show ?thesis by (simp only: zone_of_join_def load_zone_def fst_conv snd_conv)
qed

lemma remdups_singleton: "set xs = {x} \<Longrightarrow> remdups xs = [x]"
  by (metis distinct_remdups set_remdups empty_set insert_not_empty list.simps(15) distinct_length_2_or_more
      insertI1 insert_iff list.exhaust list.set_intros(1) list.set_intros(2) singletonD)

lemma zone_id_unique:
  "zone_ids_distinct d \<Longrightarrow> z \<in> set (d_zones d) \<Longrightarrow> z' \<in> set (d_zones d) \<Longrightarrow> z_id z = z_id z' \<Longrightarrow> z = z'"
  unfolding zone_ids_distinct_def by (rule inj_onD [of z_id "set (d_zones d)"]) (simp_all add: distinct_map)

lemma matches_zone_id: "matches zone_row_col [Eq ZC_id (VStr i)] = (\<lambda>r. z_id r = i)"
  by (rule ext) (simp add: zone_row_col_def)

lemma select_zone_by_id:
  assumes "zone_ids_distinct d" "z \<in> set (d_zones d)" "z_deleted z = ''0'' \<or> c_show_deleted ctx"
  shows "select_zones (Eq ZC_id (VStr (z_id z)) # apply_deleted_criteria ctx (Some ZC_deleted)) d
    = [load_zone d z]"
proof -
  let ?cls = "Eq ZC_id (VStr (z_id z)) # apply_deleted_criteria ctx (Some ZC_deleted)"
  from zone_join_ex [OF assms(2)] obtain t where t: "(z, t) \<in> set (zone_join d)" by blast
  have "matches zone_col ?cls (z, t)" using assms(3) by (auto simp: apply_deleted_criteria_def)
  with t zone_join_shared [OF t] have "load_zone d z \<in> set (select_zones ?cls d)"
    by (metis select_zones_in)
  moreover have "z' = load_zone d z" if in': "z' \<in> set (select_zones ?cls d)" for z'
  proof -
    from in' obtain row t where r: "(row, t) \<in> set (zone_join d)" "matches zone_col ?cls (row, t)"
      "z' = zone_of_join (row, t)" by (metis select_zones_in)
    from r(2) have "z_id row = z_id z" by simp
    with assms r(1) have "row = z" by (blast intro: zone_id_unique dest: zone_join_row)
    with r zone_join_shared show ?thesis by simp
  qed
  ultimately have "set (select_zones ?cls d) = {load_zone d z}" by blast
  then show ?thesis unfolding select_zones_def by (metis remdups_singleton set_remdups)
qed

lemma storage_get_zone_ok:
  assumes "zone_ids_distinct (w_db w)" "z \<in> set (d_zones (w_db w))" "z_deleted z = ''0''"
    "plain (z_id z)" "tenant \<Longrightarrow> c_all_tenants ctx"
  shows "storage_get_zone ctx (z_id z) tenant w = (Inr (load_zone (w_db w) z), w)"
proof -
  have "zone_where ctx [(ZC_id, CStr (z_id z))] tenant True =
      Inr (Eq ZC_id (VStr (z_id z)) # apply_deleted_criteria ctx (Some ZC_deleted))"
    using assms(4,5) by (simp add: zone_where_def)
  with select_zone_by_id [OF assms(1,2), of ctx] assms(3) show ?thesis
    by (simp add: storage_get_zone_def find_zone_gen_def find_zones_gen_def bind_run fetch_one_def)
qed

text \<open>An update of the only row with the id succeeds when it keeps the names unique.\<close>

lemma update_zone_row_unique:
  assumes ids: "zone_ids_distinct (w_db w)" 
    and z: "z \<in> set (d_zones (w_db w))" "z_id obj = z_id z"
    and m: "matches zone_row_col (tl (zone_write_where ctx (z_id z))) z"
    and uq': "unique_zone_name (map (\<lambda>r. if r = z then write_zone_changes obj z else r) (d_zones (w_db w)))"
  shows "update_zone_row ctx obj w = (Inr (refetch_zone obj (write_zone_changes obj z)),
     set_db (\<lambda>d. d\<lparr>d_zones := map (\<lambda>r. if r = z then write_zone_changes obj z else r) (d_zones d)\<rparr>) w)"
proof -
  let ?rows = "d_zones (w_db w)"
  let ?cls = "tl (zone_write_where ctx (z_id z))"
  let ?new = "map (\<lambda>r. if r = z then write_zone_changes obj z else r) ?rows"
  have cls: "zone_write_where ctx (z_id obj) = Eq ZC_id (VStr (z_id z)) # ?cls"
    using z(2) by (simp add: zone_write_where_def)
  have sel: "select_where zone_row_col (zone_write_where ctx (z_id obj)) ?rows = [z]"
    unfolding cls using ids z(1) m by (intro zone_table.select_by_key) (simp_all add: zone_ids_distinct_def)
  have mt: "matches zone_row_col (zone_write_where ctx (z_id obj)) r \<longleftrightarrow> r = z" if "r \<in> set ?rows" for r
  proof
    assume "matches zone_row_col (zone_write_where ctx (z_id obj)) r"
    then have "z_id r = z_id z" by (simp add: cls zone_row_col_def)
    with ids that z(1) show "r = z" by (blast intro: zone_id_unique)
  next
    assume "r = z"
    with m show "matches zone_row_col (zone_write_where ctx (z_id obj)) r"
      by (simp add: cls zone_row_col_def)
  qed
  have new: "map (\<lambda>r. if matches zone_row_col (zone_write_where ctx (z_id obj)) r
      then write_zone_changes obj r else r) ?rows = ?new"
    using mt by (intro map_cong) auto
  have "filter (\<lambda>r. z_id r = z_id obj) ?new = [write_zone_changes obj z]"
  proof -
    have keep: "z_id (write_zone_changes obj r) = z_id r" for r
      by (simp add: write_zone_changes_def Let_def)
    have "filter (\<lambda>r. z_id r = z_id obj) ?new
        = map (\<lambda>r. if r = z then write_zone_changes obj z else r) (filter (\<lambda>r. z_id r = z_id z) ?rows)"
      using z(2) keep by (simp add: filter_map comp_def) (rule arg_cong [where f = "map _"], rule filter_cong, auto)
    also have "filter (\<lambda>r. z_id r = z_id z) ?rows = [z]"
      using zone_table.select_by_key [of ?rows z "[]"] ids z(1)
      by (simp add: select_where_def matches_zone_id zone_ids_distinct_def)
    finally show ?thesis by simp
  qed
  moreover have "update_where zone_row_col unique_zone_name (Duplicate (Some R_Zone)) ZoneNotFound
      (zone_write_where ctx (z_id obj)) (write_zone_changes obj) ?rows = Inr ?new"
    unfolding update_where_def Let_def new using sel uq' by simp
  ultimately show ?thesis
    by (simp add: update_zone_row_def bind_run seq_run Let_def set_db_def)
qed

lemma update_zone_row_ok:
  assumes ids: "zone_ids_distinct (w_db w)" and uq: "unique_zone_name (d_zones (w_db w))"
    and z: "z \<in> set (d_zones (w_db w))" "z_id obj = z_id z"
    and m: "matches zone_row_col (tl (zone_write_where ctx (z_id z))) z"
    and key: "z_name (write_zone_changes obj z) = z_name z"
      "z_deleted (write_zone_changes obj z) = z_deleted z"
      "z_pool_id (write_zone_changes obj z) = z_pool_id z"
  shows "update_zone_row ctx obj w = (Inr (refetch_zone obj (write_zone_changes obj z)),
     set_db (\<lambda>d. d\<lparr>d_zones := map (\<lambda>r. if r = z then write_zone_changes obj z else r) (d_zones d)\<rparr>) w)"
proof -
  let ?new = "map (\<lambda>r. if r = z then write_zone_changes obj z else r) (d_zones (w_db w))"
  have "map (\<lambda>z. (z_name z, z_deleted z, z_pool_id z)) ?new
      = map (\<lambda>z. (z_name z, z_deleted z, z_pool_id z)) (d_zones (w_db w))"
    using key by simp
  with uq have "unique_zone_name ?new" by (simp only: unique_zone_name_def)
  with ids z m show ?thesis by (intro update_zone_row_unique)
qed

lemma zone_write_matches:
  "c_all_tenants ctx \<Longrightarrow> z_deleted z = ''0'' \<Longrightarrow>
     matches zone_row_col (tl (zone_write_where ctx (z_id z))) z"
  by (simp add: zone_write_where_def apply_deleted_criteria_def zone_row_col_def)

end
