(* ===== verification/StorageRecords.thy ===== *)
theory StorageRecords
  imports StorageZones
begin

text \<open>
  The recordset and record half of \<open>SQLAlchemyStorage\<close>: creation with the record hash,
  lookup through the join with the live zones, the synchronisation of the records of a recordset
  (\<open>update_recordset\<close>: delete what is gone, update what has an id, create the rest), deletion
  with its cascade, and the counts the quotas read. The queries order by \<open>created_at\<close> and \<open>id\<close>; the tables are lists in
  the order of creation, and with different times of creation that is the order of the lists. A row of the recordsets table has no loaded
  records; an object has.
\<close>

section \<open>Columns and constraints\<close>

datatype rs_column =
  RC_id | RC_zone_id | RC_tenant_id | RC_name | RC_reverse_name | RC_type | RC_none

fun rs_col :: "recordset \<Rightarrow> rs_column \<Rightarrow> sqlval" where
  "rs_col r RC_id = opt_str (rs_id r)"
| "rs_col r RC_zone_id = VStr (rs_zone_id r)"
| "rs_col r RC_tenant_id = opt_str (rs_tenant_id r)"
| "rs_col r RC_name = VStr (rs_name r)"
| "rs_col r RC_reverse_name = VStr (rev (rs_name r))"
| "rs_col r RC_type = VStr (rs_type r)"
| "rs_col r RC_none = VNull"

datatype record_column =
  DC_id | DC_zone_id | DC_recordset_id | DC_tenant_id | DC_managed | DC_status | DC_serial
| DC_managed_plugin_type | DC_managed_plugin_name
| DC_managed_resource_type | DC_managed_resource_id | DC_managed_tenant_id | DC_none

fun record_col :: "rrecord \<Rightarrow> record_column \<Rightarrow> sqlval" where
  "record_col r DC_id = opt_str (r_id r)"
| "record_col r DC_zone_id = VStr (r_zone_id r)"
| "record_col r DC_recordset_id = VStr (r_recordset_id r)"
| "record_col r DC_tenant_id = opt_str (r_tenant_id r)"
| "record_col r DC_managed = VBool (r_managed r)"
| "record_col r DC_status = VStr (status_str (r_status r))"
| "record_col r DC_serial = VInt (r_serial r)"
| "record_col r DC_managed_plugin_type = opt_str (r_managed_plugin_type r)"
| "record_col r DC_managed_plugin_name = opt_str (r_managed_plugin_name r)"
| "record_col r DC_managed_resource_type = opt_str (r_managed_resource_type r)"
| "record_col r DC_managed_resource_id = opt_str (r_managed_resource_id r)"
| "record_col r DC_managed_tenant_id = opt_str (r_managed_tenant_id r)"
| "record_col r DC_none = VNull"

interpretation record_table: keyed_table record_col DC_id r_id opt_str
  by unfold_locales simp_all

interpretation recordset_table: keyed_table rs_col RC_id rs_id opt_str
  by unfold_locales simp_all

definition unique_recordset :: "recordset list \<Rightarrow> bool" where
  "unique_recordset rows \<longleftrightarrow> distinct (map (\<lambda>r. (rs_zone_id r, rs_name r, rs_type r)) rows)"

definition unique_record :: "rrecord list \<Rightarrow> bool" where
  "unique_record rows \<longleftrightarrow> distinct (map r_hash rows)"

text \<open>\<open>tables.zones.c.deleted == '0'\<close> through the join on \<open>zone_id\<close>.\<close>

definition zone_live :: "db \<Rightarrow> string \<Rightarrow> bool" where
  "zone_live d zid \<longleftrightarrow> (\<exists>z \<in> set (d_zones d). z_id z = zid \<and> z_deleted z = ''0'')"

section \<open>Records\<close>

text \<open>\<open>_recalculate_record_hash\<close>: MD5 of \<open>'{}:{}'.format(recordset_id, data)\<close>.\<close>

definition record_hash :: "env \<Rightarrow> rrecord \<Rightarrow> string" where
  "record_hash E r = e_md5 E (r_recordset_id r @ '':'' @ r_data r)"

definition record_where ::
  "req_context \<Rightarrow> (record_column \<times> crit) list \<Rightarrow> bool \<Rightarrow> exn + record_column clause list" where
  "record_where ctx criterion apply_tenant =
     and_then (apply_criterion criterion) (\<lambda>cls.
       Inr (cls @ (if apply_tenant
                   then apply_tenant_criteria ctx (Some DC_tenant_id) DC_none True False else [])))"

definition storage_find_records ::
  "req_context \<Rightarrow> (record_column \<times> crit) list \<Rightarrow> bool \<Rightarrow> rrecord list sys" where
  "storage_find_records ctx criterion apply_tenant =
     bind (lift (record_where ctx criterion apply_tenant)) (\<lambda>cls.
     gets (\<lambda>w. select_where record_col cls (d_records (w_db w))))"

definition storage_find_record :: "req_context \<Rightarrow> (record_column \<times> crit) list \<Rightarrow> rrecord sys" where
  "storage_find_record ctx criterion =
     bind (storage_find_records ctx criterion True) (\<lambda>rs. lift (fetch_one RecordNotFound rs))"

definition storage_create_record ::
  "env \<Rightarrow> req_context \<Rightarrow> string \<Rightarrow> string \<Rightarrow> rrecord \<Rightarrow> rrecord sys" where
  "storage_create_record E ctx zone_id recordset_id r =
     bind (new_uuid E) (\<lambda>i.
     let r1 = r\<lparr>r_tenant_id := c_project_id ctx, r_zone_id := zone_id,
                r_recordset_id := recordset_id\<rparr>;
         row = r1\<lparr>r_hash := record_hash E r1, r_id := Some i, r_version := 1, r_changed := {}\<rparr> in
     bind (gets w_db) (\<lambda>d.
     bind (lift (insert_row unique_record (Duplicate (Some R_Record)) row (d_records d))) (\<lambda>rows.
     seq (modify (set_db (\<lambda>d. d\<lparr>d_records := rows\<rparr>))) (return row))))"

definition record_write_where :: "req_context \<Rightarrow> string \<Rightarrow> record_column clause list" where
  "record_write_where ctx rid =
     Eq DC_id (VStr rid) # apply_tenant_criteria ctx (Some DC_tenant_id) DC_none True False"

definition write_record_changes :: "rrecord \<Rightarrow> rrecord \<Rightarrow> rrecord" where
  "write_record_changes obj row =
     (let ch = r_changed obj in
      row\<lparr>r_version := r_version row + 1,
          r_data := (if RA_data \<in> ch then r_data obj else r_data row),
          r_status := (if RA_status \<in> ch then r_status obj else r_status row),
          r_action := (if RA_action \<in> ch then r_action obj else r_action row),
          r_serial := (if RA_serial \<in> ch then r_serial obj else r_serial row),
          r_hash := (if RA_hash \<in> ch then r_hash obj else r_hash row)\<rparr>)"

text \<open>\<open>update_record\<close>: the hash follows any change.\<close>

definition storage_update_record :: "env \<Rightarrow> req_context \<Rightarrow> rrecord \<Rightarrow> unit sys" where
  "storage_update_record E ctx r =
     (let r1 = (if r_changed r \<noteq> {} then r_touch RA_hash (r\<lparr>r_hash := record_hash E r\<rparr>) else r) in
      bind (gets w_db) (\<lambda>d.
      bind (lift (update_where record_col unique_record (Duplicate (Some R_Record)) RecordNotFound
                    (record_write_where ctx (case r_id r of None \<Rightarrow> '''' | Some i \<Rightarrow> i))
                    (write_record_changes r1) (d_records d))) (\<lambda>rows.
      modify (set_db (\<lambda>d. d\<lparr>d_records := rows\<rparr>)))))"

definition storage_delete_record :: "req_context \<Rightarrow> string \<Rightarrow> unit sys" where
  "storage_delete_record ctx rid =
     bind (storage_find_records ctx [(DC_id, CStr rid)] True) (\<lambda>found.
     bind (lift (fetch_one RecordNotFound found)) (\<lambda>_.
     bind (gets w_db) (\<lambda>d.
     bind (lift (delete_where record_col RecordNotFound (record_write_where ctx rid)
                   (d_records d))) (\<lambda>rows.
     modify (set_db (\<lambda>d. d\<lparr>d_records := rows\<rparr>))))))"

text \<open>\<open>count_records\<close>: records of live zones.\<close>

definition storage_count_records :: "req_context \<Rightarrow> (record_column \<times> crit) list \<Rightarrow> int sys" where
  "storage_count_records ctx criterion =
     bind (lift (record_where ctx criterion True)) (\<lambda>cls.
     gets (\<lambda>w. int (length (filter (\<lambda>r. zone_live (w_db w) (r_zone_id r))
                  (select_where record_col cls (d_records (w_db w)))))))"

section \<open>Recordsets\<close>

text \<open>\<open>_rname_check\<close>, which the finders apply and the count does not.\<close>

fun rs_rname_check :: "(rs_column \<times> crit) list \<Rightarrow> (rs_column \<times> crit) list" where
  "rs_rname_check [] = []"
| "rs_rname_check ((RC_name, CStr s) # rest) =
     (if startswith s ''*'' then rest @ [(RC_reverse_name, CStr (rev s))]
      else (RC_name, CStr s) # rest)"
| "rs_rname_check (cv # rest) = cv # rs_rname_check rest"

text \<open>\<open>_find_recordsets(one=True)\<close>: the row through the join, then its records.\<close>

definition rs_where ::
  "req_context \<Rightarrow> (rs_column \<times> crit) list \<Rightarrow> bool \<Rightarrow> bool \<Rightarrow> exn + rs_column clause list" where
  "rs_where ctx criterion apply_tenant include_null =
     and_then (apply_criterion criterion) (\<lambda>cls.
       Inr (cls @ (if apply_tenant
                   then apply_tenant_criteria ctx (Some RC_tenant_id) RC_none include_null False
                   else [])))"

definition select_recordsets :: "rs_column clause list \<Rightarrow> db \<Rightarrow> recordset list" where
  "select_recordsets cls d =
     filter (\<lambda>r. zone_live d (rs_zone_id r)) (select_where rs_col cls (d_recordsets d))"

definition storage_find_recordset ::
  "req_context \<Rightarrow> (rs_column \<times> crit) list \<Rightarrow> bool \<Rightarrow> recordset sys" where
  "storage_find_recordset ctx criterion apply_tenant =
     bind (lift (rs_where ctx (rs_rname_check criterion) apply_tenant True)) (\<lambda>cls.
     bind (gets (\<lambda>w. select_recordsets cls (w_db w))) (\<lambda>found.
     bind (lift (fetch_one RecordSetNotFound found)) (\<lambda>rs.
     bind (storage_find_records ctx
             [(DC_recordset_id, CVal (opt_str (rs_id rs)))] apply_tenant) (\<lambda>recs.
     return (rs\<lparr>rs_records := recs\<rparr>)))))"

text \<open>\<open>_find_recordsets_with_records\<close>, without paging: the ids from the inner query, then the
  rows with all their records.\<close>

definition storage_find_recordsets ::
  "req_context \<Rightarrow> (rs_column \<times> crit) list \<Rightarrow> bool \<Rightarrow> recordset list sys" where
  "storage_find_recordsets ctx criterion apply_tenant =
     bind (lift (rs_where ctx (rs_rname_check criterion) apply_tenant False)) (\<lambda>cls.
     gets (\<lambda>w. map (\<lambda>rs. rs\<lparr>rs_records :=
                        filter (\<lambda>r. Some (r_recordset_id r) = rs_id rs) (d_records (w_db w))\<rparr>)
                (select_recordsets cls (w_db w))))"

fun create_records ::
  "env \<Rightarrow> req_context \<Rightarrow> string \<Rightarrow> string \<Rightarrow> rrecord list \<Rightarrow> rrecord list sys" where
  "create_records E ctx zone_id recordset_id [] = return []"
| "create_records E ctx zone_id recordset_id (r # rs) =
     bind (storage_create_record E ctx zone_id recordset_id r) (\<lambda>r'.
     bind (create_records E ctx zone_id recordset_id rs) (\<lambda>rs'. return (r' # rs')))"

definition storage_create_recordset ::
  "env \<Rightarrow> req_context \<Rightarrow> string \<Rightarrow> recordset \<Rightarrow> recordset sys" where
  "storage_create_recordset E ctx zone_id rs =
     bind (new_uuid E) (\<lambda>i.
     let row = rs\<lparr>rs_tenant_id := c_project_id ctx, rs_zone_id := zone_id, rs_id := Some i,
                  rs_version := 1, rs_records := [], rs_changed := {}\<rparr> in
     bind (gets w_db) (\<lambda>d.
     bind (lift (insert_row unique_recordset (Duplicate (Some R_RecordSet)) row
                   (d_recordsets d))) (\<lambda>rows.
     seq (modify (set_db (\<lambda>d. d\<lparr>d_recordsets := rows\<rparr>)))
     (bind (create_records E ctx zone_id i (rs_records rs)) (\<lambda>recs.
      return (row\<lparr>rs_records := recs\<rparr>))))))"

definition rs_write_where :: "req_context \<Rightarrow> string \<Rightarrow> rs_column clause list" where
  "rs_write_where ctx i =
     Eq RC_id (VStr i) # apply_tenant_criteria ctx (Some RC_tenant_id) RC_none True False"

text \<open>\<open>obj_get_changes()\<close> without the records, written over a row.\<close>

definition write_rs_changes :: "recordset \<Rightarrow> recordset \<Rightarrow> recordset" where
  "write_rs_changes obj row =
     (let ch = rs_changed obj in
      row\<lparr>rs_version := rs_version row + 1,
          rs_tenant_id := (if RSA_tenant_id \<in> ch then rs_tenant_id obj else rs_tenant_id row),
          rs_zone_id := (if RSA_zone_id \<in> ch then rs_zone_id obj else rs_zone_id row),
          rs_name := (if RSA_name \<in> ch then rs_name obj else rs_name row),
          rs_type := (if RSA_type \<in> ch then rs_type obj else rs_type row),
          rs_ttl := (if RSA_ttl \<in> ch then rs_ttl obj else rs_ttl row),
          rs_description := (if RSA_description \<in> ch then rs_description obj
                             else rs_description row)\<rparr>)"

text \<open>
  The second half of \<open>update_recordset\<close>. A record object is new when it has no id; the ids the
  object keeps are compared with the ids the table has for the recordset.
\<close>

definition sync_delete :: "string list \<Rightarrow> rrecord list \<Rightarrow> string list" where
  "sync_delete have recs = filter (\<lambda>i. Some i \<notin> r_id ` set recs) have"

definition sync_update :: "rrecord list \<Rightarrow> rrecord list" where
  "sync_update recs = filter (\<lambda>r. r_id r \<noteq> None) recs"

definition sync_create :: "rrecord list \<Rightarrow> rrecord list" where
  "sync_create recs = filter (\<lambda>r. r_id r = None) recs"

definition sync_records ::
  "env \<Rightarrow> req_context \<Rightarrow> string \<Rightarrow> string \<Rightarrow> rrecord list \<Rightarrow> unit sys" where
  "sync_records E ctx zone_id recordset_id recs =
     bind (storage_find_records ctx [(DC_recordset_id, CStr recordset_id)] True) (\<lambda>found.
     let have = List.map_filter r_id found in
     seq (for_each (sync_delete have recs) (storage_delete_record ctx))
     (seq (for_each (sync_update recs) (storage_update_record E ctx))
     (for_each (sync_create recs)
        (\<lambda>r. bind (storage_create_record E ctx zone_id recordset_id r) (\<lambda>_. return ())))))"

definition storage_update_recordset :: "env \<Rightarrow> req_context \<Rightarrow> recordset \<Rightarrow> recordset sys" where
  "storage_update_recordset E ctx rs =
     (let i = (case rs_id rs of None \<Rightarrow> '''' | Some i \<Rightarrow> i) in
      bind (gets w_db) (\<lambda>d.
      bind (lift (update_where rs_col unique_recordset (Duplicate (Some R_RecordSet))
                    RecordSetNotFound (rs_write_where ctx i) (write_rs_changes rs)
                    (d_recordsets d))) (\<lambda>rows.
      seq (modify (set_db (\<lambda>d. d\<lparr>d_recordsets := rows\<rparr>)))
      (seq (sync_records E ctx (rs_zone_id rs) i (rs_records rs))
      (return ((hd (filter (\<lambda>r. rs_id r = Some i) rows))
                 \<lparr>rs_records := rs_records rs, rs_changed := {}\<rparr>))))))"

text \<open>\<open>delete_recordset\<close>; the foreign key removes the records.\<close>

definition storage_delete_recordset :: "req_context \<Rightarrow> string \<Rightarrow> recordset sys" where
  "storage_delete_recordset ctx i =
     bind (storage_find_recordset ctx [(RC_id, CStr i)] True) (\<lambda>rs.
     bind (gets w_db) (\<lambda>d.
     bind (lift (delete_where rs_col RecordSetNotFound (rs_write_where ctx i)
                   (d_recordsets d))) (\<lambda>rows.
     seq (modify (set_db (\<lambda>d. d\<lparr>d_recordsets := rows,
                d_records := filter (\<lambda>r. r_recordset_id r \<noteq> i) (d_records d)\<rparr>)))
         (return rs))))"

text \<open>\<open>count_recordsets\<close>: recordsets of live zones.\<close>

definition storage_count_recordsets :: "req_context \<Rightarrow> (rs_column \<times> crit) list \<Rightarrow> int sys" where
  "storage_count_recordsets ctx criterion =
     bind (lift (rs_where ctx criterion True True)) (\<lambda>cls.
     gets (\<lambda>w. int (length (select_recordsets cls (w_db w)))))"

section \<open>What the record statements do\<close>

text \<open>A stored record has an id of its own, the hash of its content, and no changed attribute.\<close>

definition records_wf :: "env \<Rightarrow> rrecord list \<Rightarrow> bool" where
  "records_wf E rows \<longleftrightarrow> distinct (map r_id rows) \<and> unique_record rows \<and>
     (\<forall>r \<in> set rows. r_id r \<noteq> None \<and> r_hash r = record_hash E r \<and> r_changed r = {})"

text \<open>A status report changes action and status only; the row afterwards.\<close>

definition same_content :: "rrecord \<Rightarrow> rrecord \<Rightarrow> bool" where
  "same_content r' r \<longleftrightarrow> (\<exists>a x ch. r' = r\<lparr>r_action := a, r_status := x, r_changed := ch\<rparr> \<and>
     ch \<subseteq> {RA_action, RA_status} \<and> (RA_action \<notin> ch \<longrightarrow> a = r_action r) \<and>
     (RA_status \<notin> ch \<longrightarrow> x = r_status r))"

definition with_status_of :: "rrecord \<Rightarrow> rrecord \<Rightarrow> rrecord" where
  "with_status_of r' r = r\<lparr>r_version := r_version r + 1, r_status := r_status r', r_action := r_action r'\<rparr>"

lemma update_record_status_ok:
  assumes wf: "records_wf E (d_records (w_db w))" and r: "r \<in> set (d_records (w_db w))"
    and same: "same_content r' r" "r_changed r' \<noteq> {}" and all: "c_all_tenants ctx"
  shows "storage_update_record E ctx r' w = (Inr (), set_db (\<lambda>d. d\<lparr>d_records :=
     map (\<lambda>x. if x = r then with_status_of r' r else x) (d_records d)\<rparr>) w)"
proof -
  let ?rows = "d_records (w_db w)"
  let ?obj = "r_touch RA_hash (r'\<lparr>r_hash := record_hash E r'\<rparr>)"
  let ?new = "map (\<lambda>x. if x = r then with_status_of r' r else x) ?rows"
  from same(1) obtain a x ch where r': "r' = r\<lparr>r_action := a, r_status := x, r_changed := ch\<rparr>"
    and ch: "ch \<subseteq> {RA_action, RA_status}" "RA_action \<notin> ch \<longrightarrow> a = r_action r"
      "RA_status \<notin> ch \<longrightarrow> x = r_status r"
    unfolding same_content_def by blast
  from r' have content: "r_id r' = r_id r" "r_data r' = r_data r" "r_recordset_id r' = r_recordset_id r"
    by simp_all
  from wf r obtain i where i: "r_id r = Some i" by (auto simp: records_wf_def)
  have hash: "record_hash E r' = r_hash r" using wf r content by (simp add: records_wf_def record_hash_def)
  have "RA_data \<notin> ch" "RA_serial \<notin> ch" using ch(1) by auto
  with ch hash have "write_record_changes ?obj r = with_status_of r' r"
    unfolding r' by (simp add: write_record_changes_def Let_def r_touch_def with_status_of_def)
  note written = this
  have mt: "matches record_col (record_write_where ctx i) x \<longleftrightarrow> x = r" if "x \<in> set ?rows" for x
  proof -
    have "inj_on r_id (set ?rows)" using wf by (simp add: records_wf_def distinct_map)
    then have "r_id x = Some i \<longleftrightarrow> x = r" using that r i by (auto simp: inj_on_def)
    then show ?thesis using all by (simp add: record_write_where_def)
  qed
  have new: "map (\<lambda>x. if matches record_col (record_write_where ctx i) x
      then write_record_changes ?obj x else x) ?rows = ?new"
    using mt written by (intro map_cong) auto
  have "map r_hash ?new = map r_hash ?rows" by (simp add: with_status_of_def)
  with wf have uq: "unique_record ?new" by (simp only: unique_record_def records_wf_def)
  have "select_where record_col (record_write_where ctx i) ?rows = [r]"
    using record_table.select_by_key [of ?rows r "[]"] wf r i all
    by (simp add: record_write_where_def records_wf_def)
  then have "update_where record_col unique_record (Duplicate (Some R_Record)) RecordNotFound
      (record_write_where ctx i) (write_record_changes ?obj) ?rows = Inr ?new"
    unfolding update_where_def Let_def new using uq by simp
  then show ?thesis
    using same(2) content(1) i by (simp add: storage_update_record_def bind_run Let_def set_db_def)
qed

lemma records_wf_status:
  assumes wf: "records_wf E rows"
  shows "records_wf E (map (\<lambda>x. if x = r then with_status_of r' r else x) rows)"
proof -
  have "map r_id (map (\<lambda>x. if x = r then with_status_of r' r else x) rows) = map r_id rows"
    "map r_hash (map (\<lambda>x. if x = r then with_status_of r' r else x) rows) = map r_hash rows"
    by (simp_all add: with_status_of_def)
  moreover have "\<forall>x \<in> set (map (\<lambda>x. if x = r then with_status_of r' r else x) rows).
      r_id x \<noteq> None \<and> r_hash x = record_hash E x \<and> r_changed x = {}"
    using wf by (auto simp: records_wf_def with_status_of_def record_hash_def)
  ultimately show ?thesis using wf by (simp only: records_wf_def unique_record_def)
qed

end
