(* ===== verification/Quota.thy ===== *)
theory Quota
  imports Env
begin

text \<open>
  \<open>designate/quota/\<close>: the quota driver interface (\<open>base.py\<close>) and its storage driver
  (\<open>impl_storage.py\<close>). Quotas are dictionaries from resource to limit: the configured
  defaults, overridden by the project's rows. \<open>limit_check\<close> raises for an unknown resource at
  the moment it meets it, and otherwise collects what is exceeded; a negative limit is no limit.
\<close>

type_synonym quotas = "string \<rightharpoonup> int"

definition valid_quotas :: "string list" where
  "valid_quotas = [''api_export_size'', ''recordset_records'', ''zone_records'',
     ''zone_recordsets'', ''zones'']"

definition get_default_quotas :: "config \<Rightarrow> quotas" where
  "get_default_quotas cf = [''zones'' \<mapsto> cf_quota_zones cf,
     ''zone_recordsets'' \<mapsto> cf_quota_zone_recordsets cf,
     ''zone_records'' \<mapsto> cf_quota_zone_records cf,
     ''recordset_records'' \<mapsto> cf_quota_recordset_records cf,
     ''api_export_size'' \<mapsto> cf_quota_api_export_size cf]"

text \<open>The rows a context may see for a tenant: \<open>find_quotas(context, {'tenant_id': ...})\<close>.\<close>

definition visible_quotas :: "req_context \<Rightarrow> string \<Rightarrow> quota_row list \<Rightarrow> quota_row list" where
  "visible_quotas ctx tenant rows =
     filter (\<lambda>q. q_tenant_id q = tenant \<and>
              (c_all_tenants ctx \<or> Some (q_tenant_id q) = c_project_id ctx)) rows"

text \<open>\<open>_get_quotas\<close>: the comprehension, in which a later row of the same resource wins.\<close>

definition storage_quotas :: "req_context \<Rightarrow> string \<Rightarrow> db \<Rightarrow> quotas" where
  "storage_quotas ctx tenant d =
     map_of (rev (map (\<lambda>q. (q_resource q, q_hard_limit q)) (visible_quotas ctx tenant (d_quotas d))))"

definition get_quotas :: "env \<Rightarrow> req_context \<Rightarrow> string \<Rightarrow> quotas sys" where
  "get_quotas E ctx tenant =
     gets (\<lambda>w. get_default_quotas (e_conf E) ++ storage_quotas ctx tenant (w_db w))"

fun exceeded :: "quotas \<Rightarrow> (string \<times> int) list \<Rightarrow> exn + string list" where
  "exceeded qs [] = Inr []"
| "exceeded qs ((res, v) # rest) =
     (case qs res of
        None \<Rightarrow> Inl (QuotaResourceUnknown res)
      | Some limit \<Rightarrow>
          (case exceeded qs rest of
             Inl e \<Rightarrow> Inl e
           | Inr out \<Rightarrow> Inr (if 0 \<le> limit \<and> limit < v then res # out else out)))"

text \<open>\<open>resources_exceeded.sort(key=len)\<close> is stable.\<close>

definition limit_check :: "env \<Rightarrow> req_context \<Rightarrow> string \<Rightarrow> (string \<times> int) list \<Rightarrow> unit sys" where
  "limit_check E ctx tenant vals =
     bind (get_quotas E ctx tenant) (\<lambda>qs.
     bind (lift (exceeded qs vals)) (\<lambda>out.
     if out \<noteq> [] then raise (OverQuota (sort_key length out)) else return ()))"

text \<open>
  \<open>get_quota\<close>, \<open>set_quota\<close> and \<open>reset_quotas\<close> of the storage driver work in a copy of
  the context that sees all tenants. The quotas table keeps \<open>(tenant_id, resource)\<close> unique.
\<close>

definition unique_quota :: "quota_row list \<Rightarrow> bool" where
  "unique_quota rows \<longleftrightarrow> distinct (map (\<lambda>q. (q_tenant_id q, q_resource q)) rows)"

definition all_tenants_copy :: "env \<Rightarrow> req_context \<Rightarrow> req_context sys" where
  "all_tenants_copy E ctx =
     bind (lift (deepcopy E ctx)) (\<lambda>c. lift (set_all_tenants E True c))"

definition find_quota :: "req_context \<Rightarrow> string \<Rightarrow> string \<Rightarrow> quota_row sys" where
  "find_quota ctx tenant res =
     bind (gets (\<lambda>w. filter (\<lambda>q. q_resource q = res) (visible_quotas ctx tenant (d_quotas (w_db w)))))
       (\<lambda>rows. lift (fetch_one (NotFound (NF_of R_Quota)) rows))"

definition get_quota :: "env \<Rightarrow> req_context \<Rightarrow> string \<Rightarrow> string \<Rightarrow> quotas sys" where
  "get_quota E ctx tenant res =
     bind (all_tenants_copy E ctx) (\<lambda>c.
     bind (find_quota c tenant res) (\<lambda>q. return [res \<mapsto> q_hard_limit q]))"

definition create_quota :: "env \<Rightarrow> string \<Rightarrow> string \<Rightarrow> int \<Rightarrow> unit sys" where
  "create_quota E tenant res limit =
     bind (new_uuid E) (\<lambda>i.
     bind (gets w_db) (\<lambda>d.
     bind (lift (insert_row unique_quota (Duplicate (Some R_Quota))
             \<lparr>q_id = i, q_tenant_id = tenant, q_resource = res, q_hard_limit = limit\<rparr>
             (d_quotas d))) (\<lambda>rows.
     modify (set_db (\<lambda>d. d\<lparr>d_quotas := rows\<rparr>)))))"

definition update_quota :: "quota_row \<Rightarrow> int \<Rightarrow> unit sys" where
  "update_quota q limit =
     modify (set_db (\<lambda>d. d\<lparr>d_quotas := map (\<lambda>r. if q_id r = q_id q
        then r\<lparr>q_hard_limit := limit\<rparr> else r) (d_quotas d)\<rparr>))"

definition set_quota :: "env \<Rightarrow> req_context \<Rightarrow> string \<Rightarrow> string \<Rightarrow> int \<Rightarrow> quotas sys" where
  "set_quota E ctx tenant res limit =
     bind (all_tenants_copy E ctx) (\<lambda>c.
     seq (raise_if (get_default_quotas (e_conf E) res = None) (QuotaResourceUnknown res))
     (seq (catch (create_quota E tenant res limit)
             (\<lambda>e. case e of
                Duplicate _ \<Rightarrow> Some (bind (find_quota c tenant res) (\<lambda>q. update_quota q limit))
              | _ \<Rightarrow> None))
     (return [res \<mapsto> limit])))"

definition reset_quotas :: "env \<Rightarrow> req_context \<Rightarrow> string \<Rightarrow> unit sys" where
  "reset_quotas E ctx tenant =
     bind (all_tenants_copy E ctx) (\<lambda>c.
     bind (gets (\<lambda>w. visible_quotas c tenant (d_quotas (w_db w)))) (\<lambda>qs.
     for_each qs (\<lambda>q. modify (set_db (\<lambda>d.
        d\<lparr>d_quotas := filter (\<lambda>r. q_id r \<noteq> q_id q) (d_quotas d)\<rparr>)))))"

section \<open>What a check decides\<close>

text \<open>A value fits a limit when the limit is negative or not below it.\<close>

definition fits :: "int \<Rightarrow> int \<Rightarrow> bool" where
  "fits limit v \<longleftrightarrow> limit < 0 \<or> v \<le> limit"

lemma exceeded_Inr:
  "exceeded qs vals = Inr out \<Longrightarrow>
     (\<forall>(r, v) \<in> set vals. qs r \<noteq> None) \<and>
     out = map fst (filter (\<lambda>(r, v). \<not> fits (the (qs r)) v) vals)"
  by (induction qs vals arbitrary: out rule: exceeded.induct)
    (auto simp: fits_def split: option.splits sum.splits if_splits)

lemma exceeded_known:
  "(\<And>r v. (r, v) \<in> set vals \<Longrightarrow> qs r \<noteq> None) \<Longrightarrow> \<exists>out. exceeded qs vals = Inr out"
proof (induction qs vals rule: exceeded.induct)
  case (2 qs res v rest)
  from "2.prems" obtain l where l: "qs res = Some l" by fastforce
  with 2 show ?case by fastforce
qed simp

lemma limit_check_state: "snd (limit_check E ctx tenant vals w) = w"
  by (auto simp: limit_check_def get_quotas_def bind_run split: sum.splits prod.splits)

lemma limit_check_keeps [intro, simp]: "keeps P (limit_check E ctx tenant vals)"
  by (simp add: keeps_def limit_check_state)

lemma limit_check_Inr:
  assumes "limit_check E ctx tenant vals w = (Inr u, w')"
  shows "w' = w"
    and "(r, v) \<in> set vals \<Longrightarrow>
      \<exists>l. (get_default_quotas (e_conf E) ++ storage_quotas ctx tenant (w_db w)) r = Some l \<and> fits l v"
proof -
  let ?qs = "get_default_quotas (e_conf E) ++ storage_quotas ctx tenant (w_db w)"
  from assms have w: "w' = w" and ex: "exceeded ?qs vals = Inr []"
    by (auto simp: limit_check_def get_quotas_def bind_run split: sum.splits if_splits)
  show "w' = w" by (fact w)
  assume mem: "(r, v) \<in> set vals"
  from exceeded_Inr [OF ex] have
    "\<forall>(r, v) \<in> set vals. ?qs r \<noteq> None" "filter (\<lambda>(r, v). \<not> fits (the (?qs r)) v) vals = []"
    by auto
  with mem show "\<exists>l. ?qs r = Some l \<and> fits l v"
    by (force simp: filter_empty_conv)
qed

lemma find_quota_unique:
  assumes "unique_quota (d_quotas (w_db w))" "q \<in> set (d_quotas (w_db w))"
    "q_tenant_id q = tenant" "q_resource q = res" "c_all_tenants ctx"
  shows "find_quota ctx tenant res w = (Inr q, w)"
proof -
  have "filter (\<lambda>q. q_tenant_id q = tenant \<and> q_resource q = res) rows = [q]"
    if "distinct (map (\<lambda>q. (q_tenant_id q, q_resource q)) rows)" "q \<in> set rows" for rows
    using that assms(3,4)
    by (induction rows) (auto simp: filter_empty_conv image_iff)
  with assms have "filter (\<lambda>q. q_resource q = res) (visible_quotas ctx tenant (d_quotas (w_db w))) = [q]"
    by (simp add: visible_quotas_def unique_quota_def conj_commute)
  then show ?thesis by (simp add: find_quota_def bind_run fetch_one_def)
qed

end
