(* ===== verification/Scheduler.thy ===== *)
theory Scheduler
  imports Env
begin

text \<open>
  \<open>designate/scheduler/\<close>: the filters, and \<open>Scheduler.schedule_zone\<close>, which runs the
  configured filters over the pools the context may see and expects exactly one pool to be left.
  The zone is read through its attributes only, which may not be loaded (\<open>None\<close>). The locale
  \<open>pool_filter\<close> is the contract of a filter; every filter of the program is an instance, and
  \<open>filter_chain\<close> says what a chain of such filters can select.
\<close>

type_synonym attrs = "(string \<times> string) list"

section \<open>Pools in storage\<close>

definition visible_pools :: "req_context \<Rightarrow> db \<Rightarrow> pool list" where
  "visible_pools ctx d =
     filter (\<lambda>p. c_all_tenants ctx \<or> p_tenant_id p = c_project_id ctx \<or> p_tenant_id p = None)
       (d_pools d)"

definition storage_find_pools :: "req_context \<Rightarrow> pool list sys" where
  "storage_find_pools ctx = gets (\<lambda>w. visible_pools ctx (w_db w))"

definition storage_get_pool :: "req_context \<Rightarrow> string \<Rightarrow> pool sys" where
  "storage_get_pool ctx pool_id =
     bind (gets (\<lambda>w. filter (\<lambda>p. p_id p = pool_id) (visible_pools ctx (w_db w)))) (\<lambda>ps.
     lift (fetch_one PoolNotFound ps))"

lemma storage_get_pool_Inr:
  "storage_get_pool ctx i w = (Inr p, w') \<Longrightarrow>
     w' = w \<and> p \<in> set (d_pools (w_db w)) \<and> p_id p = i"
  by (auto simp: storage_get_pool_def bind_Inr_iff fetch_one_Inr visible_pools_def
      filter_eq_Cons_iff)

lemma storage_get_pool_Inl:
  "storage_get_pool ctx i w = (Inl e, w') \<Longrightarrow> w' = w \<and> e = PoolNotFound"
  by (auto simp: storage_get_pool_def bind_Inl_iff fetch_one_Inl)

section \<open>The filters\<close>

text \<open>\<open>AttributeListObjectMixin.to_dict\<close> and \<open>get\<close>: the dictionary keeps the last value
  of a key, \<open>get\<close> returns the first.\<close>

definition attrs_to_dict :: "attrs \<Rightarrow> string \<rightharpoonup> string" where
  "attrs_to_dict xs = map_of (rev xs)"

definition attrs_get :: "attrs \<Rightarrow> string \<Rightarrow> string option" where
  "attrs_get xs k = map_of xs k"

text \<open>\<open>objects.Pool(id=...)\<close>: a pool object with nothing but its id.\<close>

definition bare_pool :: "string \<Rightarrow> pool" where
  "bare_pool i = \<lparr>p_id = i, p_name = '''', p_tenant_id = None, p_attributes = [],
     p_ns_records = [], p_nameservers = [], p_targets = [], p_also_notifies = [],
     p_catalog_fqdn = None\<rparr>"

text \<open>\<open>bool_from_string(v, default=v)\<close>: a boolean, or the string itself.\<close>

definition attr_value :: "env \<Rightarrow> string \<Rightarrow> bool + string" where
  "attr_value E v = (case e_bool_from_string E v of Some b \<Rightarrow> Inl b | None \<Rightarrow> Inr v)"

text \<open>\<open>AttributeFilter.evaluate_pool\<close>; the keys of the request are iterated in list form.\<close>

definition evaluate_pool :: "env \<Rightarrow> attrs \<Rightarrow> pool \<Rightarrow> bool" where
  "evaluate_pool E zone_attrs p =
     (let pool_attributes = (attrs_to_dict (p_attributes p))(''pool_id'' := None);
          zone_attributes = attrs_to_dict zone_attrs;
          pool_keys = filter (\<lambda>k. k \<noteq> ''pool_id'') (map fst (p_attributes p));
          zone_keys = map fst zone_attrs
      in if pool_keys = [] then True
         else if \<not> list_all (\<lambda>k. k \<in> set pool_keys) zone_keys then False
         else list_all (\<lambda>k. map_option (attr_value E) (pool_attributes k) =
                            map_option (attr_value E) (zone_attributes k)) zone_keys)"

definition attribute_filter ::
  "env \<Rightarrow> req_context \<Rightarrow> pool list \<Rightarrow> attrs option \<Rightarrow> pool list sys" where
  "attribute_filter E ctx pools zattrs =
     return (filter (evaluate_pool E (case zattrs of None \<Rightarrow> [] | Some a \<Rightarrow> a)) pools)"

definition default_pool_filter ::
  "env \<Rightarrow> req_context \<Rightarrow> pool list \<Rightarrow> attrs option \<Rightarrow> pool list sys" where
  "default_pool_filter E ctx pools zattrs = return [bare_pool (cf_default_pool_id (e_conf E))]"

definition fallback_filter ::
  "env \<Rightarrow> req_context \<Rightarrow> pool list \<Rightarrow> attrs option \<Rightarrow> pool list sys" where
  "fallback_filter E ctx pools zattrs =
     return (if pools = [] then [bare_pool (cf_default_pool_id (e_conf E))] else pools)"

definition in_doubt_default_pool_filter ::
  "env \<Rightarrow> req_context \<Rightarrow> pool list \<Rightarrow> attrs option \<Rightarrow> pool list sys" where
  "in_doubt_default_pool_filter E ctx pools zattrs =
     (if 1 < length pools then
        (\<lambda>w. case storage_get_pool ctx (cf_default_pool_id (e_conf E)) w of
           (Inl e, w') \<Rightarrow> (Inr pools, w')
         | (Inr p, w') \<Rightarrow> (Inr (if p \<in> set pools then [p] else pools), w'))
      else return pools)"

text \<open>
  \<open>PoolIDAttributeFilter\<close>: a missing pool empties the list; a pool that is not among the
  candidates leaves the list as it was.
\<close>

definition pool_id_attribute_filter ::
  "env \<Rightarrow> req_context \<Rightarrow> pool list \<Rightarrow> attrs option \<Rightarrow> pool list sys" where
  "pool_id_attribute_filter E ctx pools zattrs =
     (case zattrs of
        None \<Rightarrow> return pools
      | Some a \<Rightarrow>
          (case attrs_get a ''pool_id'' of
             None \<Rightarrow> return pools
           | Some pool_id \<Rightarrow>
               if pool_id = [] then return pools
               else (\<lambda>w. case storage_get_pool ctx pool_id w of
                       (Inl e, w') \<Rightarrow> (Inr [], w')
                     | (Inr p, w') \<Rightarrow>
                         seq (check E ''zone_create_forced_pool'' ctx [(''id'', VStr (p_id p))])
                           (return (if p \<in> set pools then [p] else pools)) w')))"

definition random_filter ::
  "env \<Rightarrow> req_context \<Rightarrow> pool list \<Rightarrow> attrs option \<Rightarrow> pool list sys" where
  "random_filter E ctx pools zattrs =
     return (if pools \<noteq> [] then [pools ! e_choice E (length pools)] else pools)"

datatype filter_name =
  AttributeFilter | DefaultPoolFilter | FallbackFilter | InDoubtDefaultPoolFilter
| PoolIDAttributeFilter | RandomFilter

fun run_filter ::
  "env \<Rightarrow> filter_name \<Rightarrow> req_context \<Rightarrow> pool list \<Rightarrow> attrs option \<Rightarrow> pool list sys" where
  "run_filter E AttributeFilter = attribute_filter E"
| "run_filter E DefaultPoolFilter = default_pool_filter E"
| "run_filter E FallbackFilter = fallback_filter E"
| "run_filter E InDoubtDefaultPoolFilter = in_doubt_default_pool_filter E"
| "run_filter E PoolIDAttributeFilter = pool_id_attribute_filter E"
| "run_filter E RandomFilter = random_filter E"

section \<open>Scheduling\<close>

fun run_filters ::
  "env \<Rightarrow> filter_name list \<Rightarrow> req_context \<Rightarrow> pool list \<Rightarrow> attrs option \<Rightarrow> pool list sys" where
  "run_filters E [] ctx pools zattrs = return pools"
| "run_filters E (f # fs) ctx pools zattrs =
     bind (run_filter E f ctx pools zattrs) (\<lambda>ps. run_filters E fs ctx ps zattrs)"

definition schedule_zone ::
  "env \<Rightarrow> filter_name list \<Rightarrow> req_context \<Rightarrow> attrs option \<Rightarrow> string sys" where
  "schedule_zone E filters ctx zattrs =
     bind (storage_find_pools ctx) (\<lambda>pools.
     seq (raise_if (filters = []) (ConfigurationError NoFiltersConfigured))
     (bind (run_filters E filters ctx pools zattrs) (\<lambda>ps.
      case ps of
        [] \<Rightarrow> raise (NotFound NoValidPoolFound)
      | [p] \<Rightarrow> return (p_id p)
      | _ \<Rightarrow> raise (ConfigurationError MultiplePoolsFound))))"

section \<open>The contract of a filter\<close>

text \<open>
  A filter leaves the state alone and selects among the candidates, apart from the pools in
  \<open>extra\<close> that it may bring in.
\<close>

locale pool_filter =
  fixes run :: "req_context \<Rightarrow> pool list \<Rightarrow> attrs option \<Rightarrow> pool list sys"
    and extra :: "pool set"
  assumes keeps_state: "snd (run ctx pools zattrs w) = w"
    and selects: "run ctx pools zattrs w = (Inr ps, w') \<Longrightarrow> set ps \<subseteq> set pools \<union> extra"
begin

lemma selects_within:
  "run ctx pools zattrs w = (Inr ps, w') \<Longrightarrow> set pools \<subseteq> A \<Longrightarrow> extra \<subseteq> A \<Longrightarrow>
     set ps \<subseteq> A \<and> w' = w"
  using selects [of ctx pools zattrs w ps w'] keeps_state [of ctx pools zattrs w] by auto

end

interpretation attribute: pool_filter "attribute_filter E" "{}"
  by unfold_locales (auto simp: attribute_filter_def)

interpretation default_pool: pool_filter "default_pool_filter E"
  "{bare_pool (cf_default_pool_id (e_conf E))}"
  by unfold_locales (auto simp: default_pool_filter_def)

interpretation fallback: pool_filter "fallback_filter E"
  "{bare_pool (cf_default_pool_id (e_conf E))}"
  by unfold_locales (auto simp: fallback_filter_def split: if_splits)

interpretation in_doubt: pool_filter "in_doubt_default_pool_filter E" "{}"
proof unfold_locales
  show "snd (in_doubt_default_pool_filter E ctx pools zattrs w) = w" for ctx pools zattrs w
    by (auto simp: in_doubt_default_pool_filter_def split: prod.splits sum.splits
        dest: storage_get_pool_Inr storage_get_pool_Inl)
  show "in_doubt_default_pool_filter E ctx pools zattrs w = (Inr ps, w') \<Longrightarrow>
      set ps \<subseteq> set pools \<union> {}" for ctx pools zattrs w ps w'
    by (auto simp: in_doubt_default_pool_filter_def split: prod.splits sum.splits if_splits)
qed

interpretation forced_pool: pool_filter "pool_id_attribute_filter E" "{}"
proof unfold_locales
  show "snd (pool_id_attribute_filter E ctx pools zattrs w) = w" for ctx pools zattrs w
    by (auto simp: pool_id_attribute_filter_def seq_run check_run
        split: prod.splits sum.splits option.splits
        dest: storage_get_pool_Inr storage_get_pool_Inl)
  show "pool_id_attribute_filter E ctx pools zattrs w = (Inr ps, w') \<Longrightarrow>
      set ps \<subseteq> set pools \<union> {}" for ctx pools zattrs w ps w'
    by (auto simp: pool_id_attribute_filter_def seq_run check_run
        split: prod.splits sum.splits option.splits if_splits)
qed

text \<open>\<open>random.choice\<close> picks an index within the list.\<close>

definition choice_in_range :: "env \<Rightarrow> bool" where
  "choice_in_range E \<longleftrightarrow> (\<forall>n. 0 < n \<longrightarrow> e_choice E n < n)"

lemma random_selects:
  "choice_in_range E \<Longrightarrow> random_filter E ctx pools zattrs w = (Inr ps, w') \<Longrightarrow>
     set ps \<subseteq> set pools \<and> w' = w"
  by (auto simp: random_filter_def choice_in_range_def intro!: nth_mem split: if_splits)

lemma run_filter_within:
  assumes ch: "choice_in_range E"
    and run: "run_filter E f ctx pools zattrs w = (Inr ps, w')"
    and sub: "set pools \<subseteq> A" "bare_pool (cf_default_pool_id (e_conf E)) \<in> A"
  shows "set ps \<subseteq> A \<and> w' = w"
proof (cases f)
  case AttributeFilter
  with run sub show ?thesis using attribute.selects_within [of E] by simp
next
  case DefaultPoolFilter
  with run sub show ?thesis using default_pool.selects_within [of E] by simp
next
  case FallbackFilter
  with run sub show ?thesis using fallback.selects_within [of E] by simp
next
  case InDoubtDefaultPoolFilter
  with run sub show ?thesis using in_doubt.selects_within [of E] by simp
next
  case PoolIDAttributeFilter
  with run sub show ?thesis using forced_pool.selects_within [of E] by simp
next
  case RandomFilter
  with run sub random_selects [OF ch] show ?thesis by fastforce
qed

lemma run_filters_within:
  assumes ch: "choice_in_range E"
  shows "run_filters E fs ctx pools zattrs w = (Inr ps, w') \<Longrightarrow> set pools \<subseteq> A \<Longrightarrow>
     bare_pool (cf_default_pool_id (e_conf E)) \<in> A \<Longrightarrow> set ps \<subseteq> A \<and> w' = w"
proof (induction fs arbitrary: pools w)
  case Nil
  then show ?case by simp
next
  case (Cons f fs)
  from Cons.prems(1) obtain qs v where
    "run_filter E f ctx pools zattrs w = (Inr qs, v)"
    "run_filters E fs ctx qs zattrs v = (Inr ps, w')"
    by (auto simp: bind_Inr_iff)
  with run_filter_within [OF ch, of f ctx pools zattrs w qs v A] Cons.prems(2,3)
    Cons.IH [of qs v] show ?case by auto
qed

lemma schedule_zone_Inr:
  assumes "schedule_zone E filters ctx zattrs w = (Inr i, w')"
  shows "filters \<noteq> [] \<and> (\<exists>p. run_filters E filters ctx (visible_pools ctx (w_db w)) zattrs w
           = (Inr [p], w') \<and> i = p_id p)"
proof -
  from assms obtain ps v where ne: "filters \<noteq> []"
    and r: "run_filters E filters ctx (visible_pools ctx (w_db w)) zattrs w = (Inr ps, v)"
    and c: "(case ps of [] \<Rightarrow> raise (NotFound NoValidPoolFound) | [p] \<Rightarrow> return (p_id p)
             | _ \<Rightarrow> raise (ConfigurationError MultiplePoolsFound)) v = (Inr i, w')"
    by (auto simp: schedule_zone_def storage_find_pools_def bind_Inr_iff seq_Inr_iff split: if_splits)
  from c obtain p where "ps = [p]" "i = p_id p" "v = w'"
    by (cases ps; cases "tl ps") auto
  with ne r show ?thesis by auto
qed

end
