(* ===== verification/Samples.thy ===== *)
theory Samples
  imports StorageRecords
begin

text \<open>
  A small system for the witnesses: a configuration with the defaults of \<open>conf/\<close>, an
  environment whose policies permit everything, whose identifiers are \<open>abc\<close>, \<open>abcd\<close>,
  \<open>abcdd\<close> and so on and whose digest is the identity, and a database with one pool, one zone with a record,
  and its parts to build others from.
\<close>

definition sample_config :: config where
  "sample_config = \<lparr>cf_max_zone_name_len = 255, cf_max_recordset_name_len = 255, cf_min_ttl = None,
     cf_default_ttl = 3600, cf_default_pool_id = ''p1'', cf_managed_resource_email = ''h@e.o'',
     cf_managed_resource_tenant_id = ''t0'', cf_soa_refresh_min = 3500, cf_soa_refresh_max = 3600,
     cf_soa_retry = 600, cf_soa_expire = 86400, cf_soa_minimum = 3600, cf_quota_zones = 10,
     cf_quota_zone_recordsets = 500, cf_quota_zone_records = 500, cf_quota_recordset_records = 20,
     cf_quota_api_export_size = 1000, cf_threshold_percentage = 100, cf_poll_timeout = 30,
     cf_poll_max_retries = 10, cf_poll_retry_interval = 15, cf_poll_delay = 5,
     cf_serial_max_retries = 3, cf_export_synchronous = True, cf_query_enforce_tsig = False,
     cf_max_message_size = 65535\<rparr>"

definition sample_env :: env where
  "sample_env = \<lparr>e_conf = sample_config, e_enforce = (\<lambda>r t c. Permit),
     e_gen_uuid = (\<lambda>n. ''abc'' @ replicate n CHR ''d''), e_re_search = (\<lambda>p s. NoMatch),
     e_md5 = (\<lambda>s. s), e_bool_from_string = (\<lambda>s. None), e_choice = (\<lambda>n. 0), e_random = (\<lambda>n. 0),
     e_valid_uuid = (\<lambda>s. True), e_idna = (\<lambda>s. Inl PyValueError)\<rparr>"

definition tenant_context :: "string \<Rightarrow> req_context" where
  "tenant_context t = admin_context\<lparr>c_project_id := Some t, c_roles := [''member''], c_is_admin := False\<rparr>"

definition worker_context :: req_context where
  "worker_context = admin_context\<lparr>c_all_tenants := True\<rparr>"

definition sample_zone :: "string \<Rightarrow> string \<Rightarrow> string \<Rightarrow> zone" where
  "sample_zone i tenant name = \<lparr>z_id = i, z_version = 1, z_shard = 0, z_tenant_id = Some tenant,
     z_name = name, z_email = ''a@b.c'', z_ttl = Some 3600, z_refresh = 3600, z_retry = 600,
     z_expire = 86400, z_minimum = 3600, z_parent_zone_id = None, z_serial = 5, z_description = None,
     z_status = PENDING, z_action = CREATE, z_pool_id = ''p1'', z_type = PRIMARY,
     z_transferred_at = None, z_delayed_notify = False, z_increment_serial = False,
     z_deleted = ''0'', z_deleted_at = None, z_shared = False, z_attributes = [], z_masters = [],
     z_changed = {}\<rparr>"

definition sample_record :: "string \<Rightarrow> string \<Rightarrow> string \<Rightarrow> string \<Rightarrow> rrecord" where
  "sample_record i zid rsid data = \<lparr>r_id = Some i, r_version = 1, r_tenant_id = Some ''t1'',
     r_zone_id = zid, r_recordset_id = rsid, r_data = data, r_hash = rsid @ '':'' @ data,
     r_managed = False, r_managed_extra = None,
     r_managed_plugin_type = None, r_managed_plugin_name = None, r_managed_resource_type = None, r_managed_resource_region = None,
     r_managed_resource_id = None, r_managed_tenant_id = None, r_description = None,
     r_status = PENDING, r_action = CREATE, r_serial = 5, r_changed = {}\<rparr>"

definition sample_recordset :: "string \<Rightarrow> string \<Rightarrow> string \<Rightarrow> string \<Rightarrow> recordset" where
  "sample_recordset i zid name typ = \<lparr>rs_id = Some i, rs_version = 1, rs_tenant_id = Some ''t1'',
     rs_zone_id = zid, rs_name = name, rs_type = typ, rs_ttl = None, rs_description = None,
     rs_records = [], rs_changed = {}\<rparr>"

definition sample_pool :: pool where
  "sample_pool = \<lparr>p_id = ''p1'', p_name = ''default'', p_tenant_id = None, p_attributes = [],
     p_ns_records = [\<lparr>n_priority = 1, n_hostname = ''ns1.o.''\<rparr>], p_nameservers = [],
     p_targets = [], p_also_notifies = [],
     p_catalog_fqdn = None\<rparr>"

definition empty_db :: db where
  "empty_db = \<lparr>d_zones = [], d_recordsets = [], d_records = [], d_shares = [], d_quotas = [],
     d_tlds = [], d_blacklists = [], d_tsigkeys = [], d_pools = [sample_pool], d_requests = [],
     d_accepts = [], d_statuses = [], d_tasks = []\<rparr>"

definition world_of :: "db \<Rightarrow> world" where
  "world_of d = \<lparr>w_db = d, w_now = 100, w_next = 0, w_sent = []\<rparr>"

definition sample_db :: db where
  "sample_db = empty_db\<lparr>d_zones := [sample_zone ''z1'' ''t1'' ''e.o.''],
     d_recordsets := [sample_recordset ''s1'' ''z1'' ''w.e.o.'' ''A''],
     d_records := [sample_record ''r1'' ''z1'' ''s1'' ''1.2.3.4'']\<rparr>"

lemma sample_sees_all [simp]: "sees_all worker_context"
  by (simp add: sees_all_def worker_context_def admin_context_def)

lemma sample_zone_simps [simp]:
  "z_id (sample_zone i t n) = i" "z_tenant_id (sample_zone i t n) = Some t"
  "z_name (sample_zone i t n) = n" "z_status (sample_zone i t n) = PENDING"
  "z_action (sample_zone i t n) = CREATE" "z_serial (sample_zone i t n) = 5"
  "z_deleted (sample_zone i t n) = ''0''" "z_pool_id (sample_zone i t n) = ''p1''"
  "z_type (sample_zone i t n) = PRIMARY" "z_parent_zone_id (sample_zone i t n) = None"
  "z_changed (sample_zone i t n) = {}" "z_email (sample_zone i t n) = ''a@b.c''"
  by (simp_all add: sample_zone_def)

lemma sample_db_simps [simp]:
  "w_db (world_of d) = d" "w_now (world_of d) = 100" "w_next (world_of d) = 0" "w_sent (world_of d) = []"
  "d_zones sample_db = [sample_zone ''z1'' ''t1'' ''e.o.'']"
  "d_records sample_db = [sample_record ''r1'' ''z1'' ''s1'' ''1.2.3.4'']"
  "d_recordsets sample_db = [sample_recordset ''s1'' ''z1'' ''w.e.o.'' ''A'']"
  "d_shares sample_db = []" "d_pools sample_db = [sample_pool]"
  by (simp_all add: world_of_def sample_db_def empty_db_def)

lemmas sample_defs = sample_zone_def sample_record_def sample_recordset_def sample_db_def
  empty_db_def world_of_def sample_env_def sample_config_def sample_pool_def

end
