(* ===== verification/Decorators.thy ===== *)
theory Decorators
  imports Env
begin

text \<open>
  The wrappers around central's methods: \<open>retry\<close> and \<open>transaction\<close> of
  \<open>storage/__init__.py\<close>, \<open>synchronized_zone\<close>, \<open>notify_type\<close> and
  \<open>expected_exceptions\<close> of \<open>common/decorators/\<close>. Each keeps a piece of thread local
  state beside the state of the wrapped method; a wrapper is a function from computations over
  the pair to computations over the pair, so that wrapped methods can call wrapped methods.
  The deep or shallow copies \<open>retry\<close> makes of the arguments have no counterpart: the values of
  the model cannot be changed in place.
\<close>

section \<open>\<open>retry\<close>\<close>

record retry_state =
  rt_held :: bool
  rt_retries :: nat

definition fresh_retry :: retry_state where
  "fresh_retry = \<lparr>rt_held = False, rt_retries = 0\<rparr>"

text \<open>\<open>_retry_on_deadlock\<close>.\<close>

definition retry_on_deadlock :: "exn \<Rightarrow> bool" where
  "retry_on_deadlock e \<longleftrightarrow> e = DBDeadlock"

text \<open>
  The \<open>while True\<close> of the outermost wrapper. The counter grows with every failed attempt, and
  reaching the bound raises; \<open>cb\<close> is \<open>None\<close> or the filter on exceptions.
\<close>

function retry_loop ::
  "(exn \<Rightarrow> bool) option \<Rightarrow> nat \<Rightarrow> (retry_state \<times> 's, 'a) comp \<Rightarrow> nat \<Rightarrow> 's \<Rightarrow> (exn + 'a) \<times> 's" where
  "retry_loop cb retries f k s =
     (case f (\<lparr>rt_held = True, rt_retries = k\<rparr>, s) of
        (Inr x, (t, s')) \<Rightarrow> (Inr x, s')
      | (Inl e, (t, s')) \<Rightarrow>
          if retries \<le> k + 1 then (Inl e, s')
          else if (case cb of None \<Rightarrow> False | Some g \<Rightarrow> \<not> g e) then (Inl e, s')
          else retry_loop cb retries f (k + 1) s')"
  by pat_completeness auto
termination
  by (relation "measure (\<lambda>(cb, retries, f, k, s). retries - k)") auto

declare retry_loop.simps [simp del]

definition retry ::
  "(exn \<Rightarrow> bool) option \<Rightarrow> nat \<Rightarrow> (retry_state \<times> 's, 'a) comp \<Rightarrow> (retry_state \<times> 's, 'a) comp" where
  "retry cb retries f = (\<lambda>(t, s).
     if rt_held t then f (t, s)
     else (case retry_loop cb retries f (rt_retries t) s of (r, s') \<Rightarrow> (r, (fresh_retry, s'))))"

definition default_retries :: nat where
  "default_retries = 150"

text \<open>\<open>transaction_wrapper\<close>: an exception rolls the tables back and is raised again.\<close>

definition transaction :: "'a sys \<Rightarrow> 'a sys" where
  "transaction f = (\<lambda>w. case f w of
      (Inr x, w') \<Rightarrow> (Inr x, w')
    | (Inl e, w') \<Rightarrow> (Inl e, w'\<lparr>w_db := w_db w\<rparr>))"

text \<open>A method without thread state of its own, below the wrappers.\<close>

definition inner :: "('s, 'a) comp \<Rightarrow> ('t \<times> 's, 'a) comp" where
  "inner m = (\<lambda>(t, s). case m s of (r, s') \<Rightarrow> (r, (t, s')))"

definition transaction_method :: "'a sys \<Rightarrow> (retry_state \<times> world, 'a) comp" where
  "transaction_method f = retry (Some retry_on_deadlock) default_retries (inner (transaction f))"

lemma transaction_Inr: "transaction f w = (Inr x, w') \<longleftrightarrow> f w = (Inr x, w')"
  by (auto simp: transaction_def split: prod.splits sum.splits)

lemma transaction_Inl:
  "transaction f w = (Inl e, w') \<Longrightarrow> w_db w' = w_db w \<and> (\<exists>v. f w = (Inl e, v))"
  by (auto simp: transaction_def split: prod.splits sum.splits)

lemma transaction_cases:
  "fst (transaction f w) = fst (f w)"
  "w_db (snd (transaction f w)) = (case fst (f w) of Inl e \<Rightarrow> w_db w | Inr x \<Rightarrow> w_db (snd (f w)))"
  by (auto simp: transaction_def split: prod.splits sum.splits)

text \<open>The states the attempts start from.\<close>

fun attempt_state :: "('s, 'a) comp \<Rightarrow> nat \<Rightarrow> 's \<Rightarrow> 's" where
  "attempt_state m 0 s = s"
| "attempt_state m (Suc n) s = snd (m (attempt_state m n s))"

lemma attempt_state_shift: "attempt_state m (Suc n) s = attempt_state m n (snd (m s))"
  by (induction n) auto

lemma retry_loop_inner:
  assumes "k < retries"
  shows "\<exists>n. k + n < retries \<and>
     (\<forall>i<n. \<exists>e. fst (m (attempt_state m i s)) = Inl e \<and> g e) \<and>
     retry_loop (Some g) retries (inner m) k s = m (attempt_state m n s) \<and>
     (\<forall>e. fst (m (attempt_state m n s)) = Inl e \<longrightarrow> g e \<longrightarrow> k + n + 1 = retries)"
  using assms
proof (induction "retries - k" arbitrary: k s rule: less_induct)
  case less
  obtain r s' where m: "m s = (r, s')" by (cases "m s")
  show ?case
  proof (cases "(\<exists>e. r = Inl e \<and> g e) \<and> k + 1 < retries")
    case True
    then obtain e where e: "r = Inl e" "g e" by blast
    with True m have step: "retry_loop (Some g) retries (inner m) k s
        = retry_loop (Some g) retries (inner m) (k + 1) s'"
      by (subst retry_loop.simps) (simp add: inner_def)
    from less.hyps [of "k + 1" s'] less.prems True obtain n where
      n: "k + 1 + n < retries" "\<forall>i<n. \<exists>e. fst (m (attempt_state m i s')) = Inl e \<and> g e"
         "retry_loop (Some g) retries (inner m) (k + 1) s' = m (attempt_state m n s')"
         "\<forall>e. fst (m (attempt_state m n s')) = Inl e \<longrightarrow> g e \<longrightarrow> k + 1 + n + 1 = retries"
      by (metis diff_less_mono2 less_add_one)
    have sh: "attempt_state m (Suc j) s = attempt_state m j s'" for j
      by (simp add: attempt_state_shift m del: attempt_state.simps)
    have "\<forall>i<Suc n. \<exists>e. fst (m (attempt_state m i s)) = Inl e \<and> g e"
    proof (intro allI impI)
      fix i assume i: "i < Suc n"
      show "\<exists>e. fst (m (attempt_state m i s)) = Inl e \<and> g e"
      proof (cases i)
        case 0
        with m e show ?thesis by simp
      next
        case (Suc j)
        with i n(2) sh show ?thesis by (auto simp del: attempt_state.simps)
      qed
    qed
    moreover have "k + Suc n < retries" using n(1) by simp
    moreover have "retry_loop (Some g) retries (inner m) k s = m (attempt_state m (Suc n) s)"
      using step n(3) sh [of n] by (simp del: attempt_state.simps)
    moreover have "\<forall>e. fst (m (attempt_state m (Suc n) s)) = Inl e \<longrightarrow> g e \<longrightarrow>
        k + Suc n + 1 = retries"
      using n(4) sh [of n] by (auto simp del: attempt_state.simps)
    ultimately show ?thesis by blast
  next
    case False
    with m less.prems have "retry_loop (Some g) retries (inner m) k s = m s"
      by (subst retry_loop.simps) (auto simp: inner_def split: sum.splits)
    with False m less.prems show ?thesis
      by (intro exI [of _ 0]) auto
  qed
qed

lemma transaction_method_spec:
  assumes "\<not> rt_held t" "rt_retries t = 0"
  shows "\<exists>n<150. (\<forall>i<n. fst (transaction f (attempt_state (transaction f) i w)) = Inl DBDeadlock) \<and>
     transaction_method f (t, w) =
       (let (r, w') = transaction f (attempt_state (transaction f) n w) in (r, (fresh_retry, w'))) \<and>
     (fst (transaction f (attempt_state (transaction f) n w)) = Inl DBDeadlock \<longrightarrow> n = 149)"
proof -
  let ?m = "transaction f"
  have "0 < default_retries" by (simp add: default_retries_def)
  from retry_loop_inner [OF this, of ?m w retry_on_deadlock] obtain n where
    n: "n < 150" "\<forall>i<n. \<exists>e. fst (?m (attempt_state ?m i w)) = Inl e \<and> e = DBDeadlock"
       "retry_loop (Some retry_on_deadlock) default_retries (inner ?m) 0 w
          = ?m (attempt_state ?m n w)"
       "\<forall>e. fst (?m (attempt_state ?m n w)) = Inl e \<longrightarrow> e = DBDeadlock \<longrightarrow> n + 1 = 150"
    by (auto simp: retry_on_deadlock_def default_retries_def)
  have "transaction_method f (t, w) =
       (let (r, w') = ?m (attempt_state ?m n w) in (r, (fresh_retry, w')))"
    using n(3) assms by (simp add: transaction_method_def retry_def Let_def)
  moreover have "fst (?m (attempt_state ?m n w)) = Inl DBDeadlock \<longrightarrow> n = 149"
    using n(4) by simp
  ultimately show ?thesis using n(1,2) by (intro exI [of _ n]) simp
qed

section \<open>\<open>synchronized_zone\<close>\<close>

text \<open>
  The calls made on the coordinator, in order, and \<open>ZoneLockLocal\<close>. The lock of
  \<open>coordination.get_lock\<close> is entered before the name is held and left after it is released.
\<close>

datatype lock_event = Acquire string | Release string

record lock_state =
  lk_held :: "string set"
  lk_events :: "lock_event list"

definition zone_lock_name :: "bool \<Rightarrow> string option \<Rightarrow> exn + string" where
  "zone_lock_name new_zone zone_id =
     (if new_zone then Inr ''create-new-zone''
      else (case zone_id of
          None \<Rightarrow> Inl (OtherError ''Failed to determine zone id for synchronized operation'')
        | Some i \<Rightarrow>
            if i = [] then Inl (OtherError ''Failed to determine zone id for synchronized operation'')
            else Inr (''zone-'' @ i)))"

definition sync_wrapper ::
  "bool \<Rightarrow> string option \<Rightarrow> (lock_state \<times> 's, 'a) comp \<Rightarrow> (lock_state \<times> 's, 'a) comp" where
  "sync_wrapper new_zone zone_id f = (\<lambda>(t, s).
     case zone_lock_name new_zone zone_id of
       Inl e \<Rightarrow> (Inl e, (t, s))
     | Inr name \<Rightarrow>
         if name \<in> lk_held t then f (t, s)
         else
           (case f (t\<lparr>lk_events := lk_events t @ [Acquire name],
                      lk_held := insert name (lk_held t)\<rparr>, s) of
              (r, (t', s')) \<Rightarrow>
                (if name \<in> lk_held t' then r else Inl PyKeyError,
                 (t'\<lparr>lk_held := lk_held t' - {name},
                     lk_events := lk_events t' @ [Release name]\<rparr>, s'))))"

text \<open>\<open>extract_zone_id\<close>: the named arguments first, then the objects among the arguments,
  then a string in the second place.\<close>

datatype sync_arg =
  ZoneArg "string option" | ZoneChildArg "string option" | StrArg string | OtherArg

fun object_zone_id :: "sync_arg list \<Rightarrow> string option \<Rightarrow> string option" where
  "object_zone_id [] cur = cur"
| "object_zone_id (ZoneArg i # rest) cur =
     (if i \<noteq> None \<and> i \<noteq> Some [] then i else object_zone_id rest i)"
| "object_zone_id (ZoneChildArg i # rest) cur =
     (if i \<noteq> None \<and> i \<noteq> Some [] then i else object_zone_id rest i)"
| "object_zone_id (_ # rest) cur = object_zone_id rest cur"

definition truthy_id :: "string option \<Rightarrow> bool" where
  "truthy_id i \<longleftrightarrow> i \<noteq> None \<and> i \<noteq> Some []"

definition extract_zone_id ::
  "sync_arg list \<Rightarrow> (string \<times> sync_arg) list \<Rightarrow> string option" where
  "extract_zone_id args kwargs =
     (let named = (case map_of kwargs ''zone_id'' of
                     Some (StrArg i) \<Rightarrow> Some i
                   | Some _ \<Rightarrow> None
                   | None \<Rightarrow>
                 (case map_of kwargs ''zone'' of Some (ZoneArg i) \<Rightarrow> i | Some _ \<Rightarrow> None | None \<Rightarrow>
                 (case map_of kwargs ''recordset'' of
                     Some (ZoneChildArg i) \<Rightarrow> i | Some _ \<Rightarrow> None | None \<Rightarrow>
                 (case map_of kwargs ''record'' of
                     Some (ZoneChildArg i) \<Rightarrow> i | Some _ \<Rightarrow> None | None \<Rightarrow> None))));
          found = (if truthy_id named then named
                   else object_zone_id (args @ map snd kwargs) named)
      in if truthy_id found then found
         else (case drop 1 args of StrArg i # _ \<Rightarrow> Some i | _ \<Rightarrow> found))"

text \<open>Replaying the calls: a lock is entered while free and left while held.\<close>

fun replay :: "string set \<Rightarrow> lock_event list \<Rightarrow> string set option" where
  "replay held [] = Some held"
| "replay held (Acquire n # es) = (if n \<in> held then None else replay (insert n held) es)"
| "replay held (Release n # es) = (if n \<in> held then replay (held - {n}) es else None)"

definition lock_consistent :: "lock_state \<Rightarrow> bool" where
  "lock_consistent t \<longleftrightarrow> replay {} (lk_events t) = Some (lk_held t)"

text \<open>A method keeps the discipline when, from a consistent state, it ends in a consistent
  state with the locks it started with.\<close>

definition disciplined :: "(lock_state \<times> 's, 'a) comp \<Rightarrow> bool" where
  "disciplined f \<longleftrightarrow> (\<forall>t s. lock_consistent t \<longrightarrow>
     (let t' = fst (snd (f (t, s))) in lock_consistent t' \<and> lk_held t' = lk_held t))"

lemma replay_append:
  "replay held (es @ es') = (case replay held es of None \<Rightarrow> None | Some h \<Rightarrow> replay h es')"
  by (induction held es rule: replay.induct) auto

lemma disciplined_inner [intro]: "disciplined (inner m)"
  by (simp add: disciplined_def inner_def split_beta)

lemma disciplined_bind [intro]:
  assumes "disciplined f" "\<And>x. disciplined (g x)"
  shows "disciplined (bind f g)"
  unfolding disciplined_def
proof (intro allI impI)
  fix t :: lock_state and s :: 'a
  assume c: "lock_consistent t"
  obtain r t' s' where f: "f (t, s) = (r, (t', s'))" by (metis surj_pair)
  from assms(1) c have "let t' = fst (snd (f (t, s))) in lock_consistent t' \<and> lk_held t' = lk_held t"
    unfolding disciplined_def by blast
  with f have t': "lock_consistent t'" "lk_held t' = lk_held t" by (simp_all add: Let_def)
  show "let t' = fst (snd (bind f g (t, s))) in lock_consistent t' \<and> lk_held t' = lk_held t"
  proof (cases r)
    case (Inl e)
    with f t' show ?thesis by (simp add: bind_def)
  next
    case (Inr x)
    from assms(2) [of x] t'(1) have "let u = fst (snd (g x (t', s'))) in
      lock_consistent u \<and> lk_held u = lk_held t'"
      unfolding disciplined_def by blast
    with Inr f t' show ?thesis by (simp add: bind_def)
  qed
qed

lemma disciplined_sync:
  assumes f: "disciplined f"
  shows "disciplined (sync_wrapper new_zone zone_id f)"
  unfolding disciplined_def
proof (intro allI impI)
  fix t :: lock_state and s :: 'a
  assume c: "lock_consistent t"
  show "let t' = fst (snd (sync_wrapper new_zone zone_id f (t, s))) in
      lock_consistent t' \<and> lk_held t' = lk_held t"
  proof (cases "zone_lock_name new_zone zone_id")
    case (Inl e)
    with c show ?thesis by (simp add: sync_wrapper_def)
  next
    case (Inr name)
    show ?thesis
    proof (cases "name \<in> lk_held t")
      case True
      with Inr f c show ?thesis by (simp add: sync_wrapper_def disciplined_def)
    next
      case False
      let ?t = "t\<lparr>lk_events := lk_events t @ [Acquire name], lk_held := insert name (lk_held t)\<rparr>"
      obtain r u s' where r: "f (?t, s) = (r, (u, s'))" by (metis surj_pair)
      have "lock_consistent ?t" using c False by (simp add: lock_consistent_def replay_append)
      with f have "let u = fst (snd (f (?t, s))) in lock_consistent u \<and> lk_held u = lk_held ?t"
        unfolding disciplined_def by blast
      with r have u: "lock_consistent u" "lk_held u = insert name (lk_held t)"
        by (auto simp: Let_def)
      with Inr r False show ?thesis
        by (auto simp: sync_wrapper_def lock_consistent_def replay_append)
    qed
  qed
qed

section \<open>\<open>notify_type\<close>\<close>

text \<open>A notification: its type and payload. \<open>plugin\<close> stands for the payloads the configured
  notification plugin builds from the result.\<close>

type_synonym message = "string \<times> string"

record notify_state =
  nt_stack :: nat
  nt_queue :: "message list"
  nt_emitted :: "message list"

definition notification_wrapper ::
  "string \<Rightarrow> ('a \<Rightarrow> string list) \<Rightarrow> (notify_state \<times> 's, 'a) comp \<Rightarrow> (notify_state \<times> 's, 'a) comp" where
  "notification_wrapper ntype plugin f = (\<lambda>(t, s).
     case f (t\<lparr>nt_stack := nt_stack t + 1\<rparr>, s) of
       (r, (t1, s')) \<Rightarrow>
         let t2 = (case r of
                     Inl e \<Rightarrow> t1
                   | Inr x \<Rightarrow> t1\<lparr>nt_queue := rev (map (Pair ntype) (plugin x)) @ nt_queue t1\<rparr>);
             t3 = t2\<lparr>nt_stack := nt_stack t2 - 1\<rparr>
         in (r, (if nt_stack t3 = 0
                 then t3\<lparr>nt_emitted := nt_emitted t3 @ nt_queue t3, nt_queue := []\<rparr>
                 else t3, s')))"

text \<open>A method that returns to its level of nesting, and below the top only adds to the queue.\<close>

definition queueing :: "(notify_state \<times> 's, 'a) comp \<Rightarrow> bool" where
  "queueing f \<longleftrightarrow> (\<forall>t s. 0 < nt_stack t \<longrightarrow>
     (let t' = fst (snd (f (t, s))) in
        nt_stack t' = nt_stack t \<and> nt_emitted t' = nt_emitted t \<and> suffix (nt_queue t) (nt_queue t')))"

lemma queueing_inner [intro]: "queueing (inner m)"
  by (simp add: queueing_def inner_def split_beta)

lemma queueing_wrapper:
  assumes f: "queueing f"
  shows "queueing (notification_wrapper ntype plugin f)"
  unfolding queueing_def
proof (intro allI impI)
  fix t :: notify_state and s :: 'a
  assume pos: "0 < nt_stack t"
  let ?t = "t\<lparr>nt_stack := nt_stack t + 1\<rparr>"
  obtain r u s' where r: "f (?t, s) = (r, (u, s'))" by (metis surj_pair)
  have "0 < nt_stack ?t" by simp
  with f have "let u = fst (snd (f (?t, s))) in
      nt_stack u = nt_stack ?t \<and> nt_emitted u = nt_emitted ?t \<and> suffix (nt_queue ?t) (nt_queue u)"
    unfolding queueing_def by blast
  with r pos show "let t' = fst (snd (notification_wrapper ntype plugin f (t, s))) in
      nt_stack t' = nt_stack t \<and> nt_emitted t' = nt_emitted t \<and> suffix (nt_queue t) (nt_queue t')"
    by (auto simp: notification_wrapper_def Let_def suffix_def split: sum.splits)
qed

lemma notification_top:
  assumes f: "queueing f" and idle: "nt_stack t = 0" "nt_queue t = []"
    and run: "notification_wrapper ntype plugin f (t, s) = (r, (t', s'))"
  shows "nt_stack t' = 0 \<and> nt_queue t' = [] \<and>
    (\<exists>q. nt_emitted t' = nt_emitted t @
          (case r of Inl e \<Rightarrow> [] | Inr x \<Rightarrow> rev (map (Pair ntype) (plugin x))) @ q \<and>
         nt_queue (fst (snd (f (t\<lparr>nt_stack := 1\<rparr>, s)))) = q)"
proof -
  let ?t = "t\<lparr>nt_stack := 1\<rparr>"
  obtain r1 u s1 where r: "f (?t, s) = (r1, (u, s1))" by (metis surj_pair)
  have "0 < nt_stack ?t" by simp
  with f have "let u = fst (snd (f (?t, s))) in
      nt_stack u = nt_stack ?t \<and> nt_emitted u = nt_emitted ?t \<and> suffix (nt_queue ?t) (nt_queue u)"
    unfolding queueing_def by blast
  with r have u: "nt_stack u = 1" "nt_emitted u = nt_emitted t" by (auto simp: Let_def)
  with run r idle show ?thesis
    by (auto simp: notification_wrapper_def Let_def split: sum.splits)
qed

section \<open>\<open>expected_exceptions\<close>\<close>

text \<open>What leaves an RPC method: the exception itself, or \<open>ExpectedException\<close> around it.\<close>

datatype rpc_exn = Raised exn | ExpectedException exn

definition exception_wrapper ::
  "(nat \<times> 's \<Rightarrow> (rpc_exn + 'a) \<times> (nat \<times> 's)) \<Rightarrow> nat \<times> 's \<Rightarrow> (rpc_exn + 'a) \<times> (nat \<times> 's)" where
  "exception_wrapper f = (\<lambda>(d, s).
     if 1 < d + 1 then f (d + 1, s)
     else (case f (d + 1, s) of
        (Inr x, (_, s')) \<Rightarrow> (Inr x, (0, s'))
      | (Inl (Raised e), (_, s')) \<Rightarrow>
          (Inl (if expected e then ExpectedException e else Raised e), (0, s'))
      | (Inl (ExpectedException e), (_, s')) \<Rightarrow> (Inl (ExpectedException e), (0, s'))))"

lemma exception_wrapper_top:
  assumes "exception_wrapper f (0, s) = (r, (d, s'))"
  shows "d = 0 \<and> (\<forall>e. r = Inl (Raised e) \<longrightarrow> \<not> expected e)"
  using assms by (auto simp: exception_wrapper_def split: prod.splits sum.splits rpc_exn.splits if_splits)

end
