(* ===== verification/CentralValidate.thy ===== *)
theory CentralValidate
  imports Samples Quota Scheduler Decorators
begin

text \<open>
  The checks of \<open>central/service.py\<close> that guard the zone and recordset operations: zone names
  (length, labels, top level domains, blacklist), names and places of recordsets, ownership of
  overlapping zones, TTLs, project ids, TSIG keys of pools and the quotas. Each check is a
  computation that ends with the exception the method raises; none changes the state.
\<close>

section \<open>Zone names\<close>

text \<open>\<open>find_tld(context, {'name': ...})\<close> and \<open>name in tlds\<close>.\<close>

datatype tld_column = TC_id | TC_name

fun tld_col :: "tld \<Rightarrow> tld_column \<Rightarrow> sqlval" where
  "tld_col t TC_name = VStr (tld_name t)"
| "tld_col t TC_id = VStr (tld_id t)"

definition storage_find_tld :: "string \<Rightarrow> tld sys" where
  "storage_find_tld name =
     bind (lift (apply_criterion [(TC_name, CStr name)])) (\<lambda>cls.
     bind (gets (\<lambda>w. select_where tld_col cls (d_tlds (w_db w)))) (\<lambda>found.
     lift (fetch_one TldNotFound found)))"

text \<open>The loop over \<open>zone_labels[i:]\<close>, from the whole name to its last label.\<close>

fun has_tld :: "tld list \<Rightarrow> string list \<Rightarrow> bool" where
  "has_tld tlds [] = False"
| "has_tld tlds (l # ls) = (if join ''.'' (l # ls) \<in> tld_name ` set tlds then True else has_tld tlds ls)"

text \<open>\<open>_is_blacklisted_zone_name\<close>: a pattern that does not answer in time blocks the name.\<close>

fun search_blacklists :: "env \<Rightarrow> string \<Rightarrow> blacklist list \<Rightarrow> bool" where
  "search_blacklists E name [] = False"
| "search_blacklists E name (p # ps) =
     (case e_re_search E (bl_pattern p) name of
        Match \<Rightarrow> True | TimedOut \<Rightarrow> True | NoMatch \<Rightarrow> search_blacklists E name ps)"

definition is_blacklisted_zone_name :: "env \<Rightarrow> string \<Rightarrow> bool sys" where
  "is_blacklisted_zone_name E name = gets (\<lambda>w. search_blacklists E name (d_blacklists (w_db w)))"

definition is_valid_zone_name :: "env \<Rightarrow> req_context \<Rightarrow> string option \<Rightarrow> unit sys" where
  "is_valid_zone_name E ctx zone_name =
     (case zone_name of
        None \<Rightarrow> raise InvalidObject
      | Some name \<Rightarrow>
          seq (raise_if (cf_max_zone_name_len (e_conf E) < length name) InvalidZoneName)
          (let labels = split_on CHR ''.'' (strip CHR ''.'' name) in
           seq (raise_if (length labels \<le> 1) InvalidZoneName)
           (bind (gets (\<lambda>w. d_tlds (w_db w))) (\<lambda>tlds.
            seq (if tlds \<noteq> [] then
                   seq (raise_if (\<not> has_tld tlds labels) InvalidZoneName)
                   (bind (catch (bind (storage_find_tld (lower (rstrip CHR ''.'' name))) (\<lambda>_. return True))
                            (\<lambda>e. if e = TldNotFound then Some (return False) else None)) (\<lambda>same.
                    raise_if same InvalidZoneName))
                 else return ())
            (bind (is_blacklisted_zone_name E name) (\<lambda>black.
             if black then
               (bind (lift (check_result E ''use_blacklisted_zone'' ctx [] False)) (\<lambda>allowed.
                raise_if (\<not> allowed) InvalidZoneName))
             else return ()))))))"

section \<open>Recordsets\<close>

definition is_valid_recordset_name ::
  "env \<Rightarrow> zone \<Rightarrow> string option \<Rightarrow> ('s, unit) comp" where
  "is_valid_recordset_name E z recordset_name =
     (case recordset_name of
        None \<Rightarrow> raise InvalidObject
      | Some name \<Rightarrow>
          seq (raise_if (\<not> endswith name ''.'') PyValueError)
          (seq (raise_if (cf_max_recordset_name_len (e_conf E) < length name) InvalidRecordSetName)
          (raise_if (name \<noteq> z_name z \<and> \<not> endswith name (''.'' @ z_name z))
             InvalidRecordSetLocation)))"

definition is_valid_recordset_placement ::
  "req_context \<Rightarrow> zone \<Rightarrow> string \<Rightarrow> string \<Rightarrow> string option \<Rightarrow> unit sys" where
  "is_valid_recordset_placement ctx z name typ rsid =
     seq (raise_if (typ = ''CNAME'' \<and> name = z_name z) InvalidRecordSetLocation)
     (bind (storage_find_recordsets ctx
              ([(RC_zone_id, CStr (z_id z)), (RC_name, CStr name)] @
               (if typ \<noteq> ''CNAME'' then [(RC_type, CStr ''CNAME'')] else [])) True) (\<lambda>found.
      raise_if ((length found = 1 \<and> rs_id (hd found) \<noteq> rsid) \<or> 1 < length found)
        InvalidRecordSetLocation))"

text \<open>The loop over the child zones: a name that would be valid in a child is refused.\<close>

fun in_no_child :: "env \<Rightarrow> string option \<Rightarrow> zone list \<Rightarrow> unit sys" where
  "in_no_child E name [] = return ()"
| "in_no_child E name (c # cs) =
     (\<lambda>w. case is_valid_recordset_name E c name w of
        (Inl e, w') \<Rightarrow> in_no_child E name cs w'
      | (Inr _, w') \<Rightarrow> (Inl InvalidRecordSetLocation, w'))"

definition is_valid_recordset_placement_subzone ::
  "env \<Rightarrow> req_context \<Rightarrow> zone \<Rightarrow> string \<Rightarrow> unit sys" where
  "is_valid_recordset_placement_subzone E ctx z name =
     bind (elevate_all E ctx) (\<lambda>c.
     if z_name z = name then return ()
     else bind (storage_find_zones c [(ZC_parent_zone_id, CStr (z_id z))]) (\<lambda>children.
          in_no_child E (Some name) children))"

definition is_valid_recordset_records :: "recordset \<Rightarrow> ('s, unit) comp" where
  "is_valid_recordset_records rs =
     raise_if (1 < length (rs_records rs) \<and> rs_type rs = ''CNAME'') (BadRequest BR_plain)"

section \<open>Overlapping zones\<close>

text \<open>\<open>_is_subzone\<close>: the nearest enclosing zone of the pool; \<open>names\<close> are the suffixes of the
  name, from the second label on.\<close>

definition parent_names :: "string \<Rightarrow> string list" where
  "parent_names name =
     (let labels = split_on CHR ''.'' name in
      map (\<lambda>i. join ''.'' (drop i labels)) [1..<length labels])"

fun first_zone_named :: "req_context \<Rightarrow> string \<Rightarrow> string list \<Rightarrow> zone option sys" where
  "first_zone_named ctx pool_id [] = return None"
| "first_zone_named ctx pool_id (n # ns) =
     (\<lambda>w. case storage_find_zone ctx [(ZC_pool_id, CStr pool_id), (ZC_name, CStr n)] w of
        (Inr z, w') \<Rightarrow> (Inr (Some z), w')
      | (Inl e, w') \<Rightarrow> (if e = ZoneNotFound then first_zone_named ctx pool_id ns w' else (Inl e, w')))"

definition is_subzone :: "env \<Rightarrow> req_context \<Rightarrow> string \<Rightarrow> string \<Rightarrow> zone option sys" where
  "is_subzone E ctx name pool_id =
     bind (elevate_all E ctx) (\<lambda>c. first_zone_named c pool_id (parent_names name))"

definition is_superzone :: "env \<Rightarrow> req_context \<Rightarrow> string \<Rightarrow> string \<Rightarrow> zone list sys" where
  "is_superzone E ctx name pool_id =
     bind (elevate_all E ctx) (\<lambda>c.
     storage_find_zones c [(ZC_name, CStr (''%.'' @ name)), (ZC_pool_id, CStr pool_id)])"

text \<open>\<open>_check_zone_ownership_conflicts\<close>: the same name, the nearest enclosing zones, the
  enclosed zones, in any pool.\<close>

fun nearest_owned :: "req_context \<Rightarrow> string option \<Rightarrow> string list \<Rightarrow> unit sys" where
  "nearest_owned ctx tenant [] = return ()"
| "nearest_owned ctx tenant (n # ns) =
     bind (storage_find_zones ctx [(ZC_name, CStr n)]) (\<lambda>ancestors.
     if ancestors = [] then nearest_owned ctx tenant ns
     else raise_if (\<exists>a \<in> set ancestors. z_tenant_id a \<noteq> tenant) (Forbidden IllegalChildZone))"

definition check_zone_ownership_conflicts ::
  "env \<Rightarrow> req_context \<Rightarrow> string \<Rightarrow> string option \<Rightarrow> unit sys" where
  "check_zone_ownership_conflicts E ctx name tenant =
     bind (elevate_all E ctx) (\<lambda>c.
     bind (storage_find_zones c [(ZC_name, CStr name)]) (\<lambda>same.
     seq (raise_if (\<exists>z \<in> set same. z_tenant_id z \<noteq> tenant) (Duplicate (Some R_Zone)))
     (seq (nearest_owned c tenant (parent_names name))
     (bind (storage_find_zones c [(ZC_name, CStr (''%.'' @ name))]) (\<lambda>subzones.
      raise_if (\<exists>z \<in> set subzones. z_tenant_id z \<noteq> tenant) (Forbidden IllegalParentZone))))))"

section \<open>TTLs, projects, pools\<close>

definition is_valid_ttl :: "env \<Rightarrow> req_context \<Rightarrow> int option \<Rightarrow> ('s, unit) comp" where
  "is_valid_ttl E ctx ttl =
     (case (ttl, cf_min_ttl (e_conf E)) of
        (Some t, Some m) \<Rightarrow>
          if t < m then
            catch (bind (check E ''use_low_ttl'' ctx []) (\<lambda>_. return ()))
              (\<lambda>e. case e of Forbidden _ \<Rightarrow> Some (raise InvalidTTL) | _ \<Rightarrow> None)
          else return ()
      | _ \<Rightarrow> return ())"

definition is_valid_project_id :: "string option \<Rightarrow> ('s, unit) comp" where
  "is_valid_project_id p = raise_if (p = None) (BadRequest MissingProjectID)"

text \<open>\<open>find_tsigkey\<close> answers with its NotFound when two keys match as well.\<close>

definition storage_find_tsigkey :: "string \<Rightarrow> string \<Rightarrow> tsigkey sys" where
  "storage_find_tsigkey scope resource_id =
     bind (gets (\<lambda>w. filter (\<lambda>k. k_scope k = scope \<and> k_resource_id k = resource_id)
              (d_tsigkeys (w_db w)))) (\<lambda>found.
     lift (fetch_one TsigKeyNotFound found))"

definition validate_pool_tsig_key :: "env \<Rightarrow> req_context \<Rightarrow> string \<Rightarrow> unit sys" where
  "validate_pool_tsig_key E ctx pool_id =
     (if pool_id = cf_default_pool_id (e_conf E) then return ()
      else catch (bind (storage_find_tsigkey ''POOL'' pool_id) (\<lambda>_. return ()))
             (\<lambda>e. if e = TsigKeyNotFound
                  then Some (bind (storage_get_pool ctx pool_id) (\<lambda>_. raise (BadRequest BR_plain)))
                  else None))"

definition get_pool_ns_records :: "env \<Rightarrow> req_context \<Rightarrow> string \<Rightarrow> pool_ns_record list sys" where
  "get_pool_ns_records E ctx pool_id =
     bind (elevate_all E ctx) (\<lambda>c.
     bind (storage_get_pool c pool_id) (\<lambda>p. return (p_ns_records p)))"

section \<open>Quotas\<close>

definition opt_string :: "string option \<Rightarrow> string" where
  "opt_string x = (case x of None \<Rightarrow> ''None'' | Some s \<Rightarrow> s)"

definition enforce_zone_quota :: "env \<Rightarrow> req_context \<Rightarrow> string option \<Rightarrow> unit sys" where
  "enforce_zone_quota E ctx tenant =
     bind (storage_count_zones ctx
             [(ZC_tenant_id, case tenant of Some t \<Rightarrow> CStr t | None \<Rightarrow> CVal VNull)]) (\<lambda>n.
     limit_check E ctx (opt_string tenant) [(''zones'', n + 1)])"

definition enforce_recordset_quota :: "env \<Rightarrow> req_context \<Rightarrow> zone \<Rightarrow> unit sys" where
  "enforce_recordset_quota E ctx z =
     bind (storage_count_recordsets ctx [(RC_zone_id, CStr (z_id z))]) (\<lambda>n.
     limit_check E ctx (opt_string (z_tenant_id z)) [(''zone_recordsets'', n + 1)])"

definition enforce_record_quota :: "env \<Rightarrow> req_context \<Rightarrow> zone \<Rightarrow> recordset \<Rightarrow> unit sys" where
  "enforce_record_quota E ctx z rs =
     (if rs_managed rs then return ()
      else
        bind (storage_count_records ctx
                [(DC_zone_id, CStr (z_id z)), (DC_managed, CVal (VBool False))]) (\<lambda>zone_records.
        bind (storage_count_records ctx
                [(DC_recordset_id, case rs_id rs of Some i \<Rightarrow> CStr i | None \<Rightarrow> CVal VNull),
                 (DC_managed, CVal (VBool False))]) (\<lambda>recordset_records.
        seq (limit_check E ctx (opt_string (z_tenant_id z))
               [(''zone_records'',
                 zone_records - recordset_records + int (length (rs_records rs)))])
        (limit_check E ctx (opt_string (z_tenant_id z))
           [(''recordset_records'', int (length (rs_records rs)))]))))"

text \<open>\<open>_enforce_catalog_zone_policy\<close>: catalog zones only from \<open>designate-manage\<close>.\<close>

definition enforce_catalog_zone_policy :: "req_context \<Rightarrow> zone_type \<Rightarrow> ('s, unit) comp" where
  "enforce_catalog_zone_policy ctx ztype =
     raise_if (ztype = CATALOG \<and>
               \<not> (c_is_admin ctx \<and> ''admin'' \<in> set (c_roles ctx) \<and>
                  c_request_id ctx = ''designate-manage''))
       (Forbidden F_plain)"

text \<open>\<open>_check_zone_share_permission\<close>: whether the zone is shared with the caller; a zone of
  another project that is not is not found.\<close>

definition check_zone_share_permission :: "req_context \<Rightarrow> zone \<Rightarrow> bool sys" where
  "check_zone_share_permission ctx z =
     (if c_project_id ctx \<noteq> z_tenant_id z \<and> \<not> c_all_tenants ctx then
        bind (storage_is_zone_shared_with_project (z_id z) (c_project_id ctx)) (\<lambda>shared.
        seq (raise_if (\<not> shared) ZoneNotFound) (return shared))
      else return False)"

end
