(* ===== verification/CentralRecordsets.thy ===== *)
theory CentralRecordsets
  imports CentralValidate
begin

text \<open>
  The recordset operations of \<open>central/service.py\<close>: the SOA and NS recordsets central keeps for
  a zone, the three \<open>_..._recordset_in_storage\<close> transactions, which set action, status and
  serial of the records, apply quotas and placement rules and mark the zone for an update, and the
  RPC methods around them with their permission checks. \<open>_update_zone_in_storage\<close>, which they
  all end with, is here too.
\<close>

section \<open>The zone is marked for an update\<close>

definition update_zone_in_storage :: "req_context \<Rightarrow> zone \<Rightarrow> bool \<Rightarrow> bool \<Rightarrow> zone sys" where
  "update_zone_in_storage ctx z increment_serial set_delayed_notify =
     transaction (
       let z1 = z_set_status PENDING (z_set_action UPDATE z);
           z2 = (if increment_serial then z_set_increment_serial True z1 else z1);
           z3 = (if set_delayed_notify then z_set_delayed_notify True z2 else z2)
       in storage_update_zone ctx z3)"

section \<open>Validation\<close>

text \<open>\<open>_validate_recordset\<close>: an existing recordset has its TTL checked when it changes.\<close>

definition checked_ttl :: "recordset \<Rightarrow> int option" where
  "checked_ttl rs =
     (if rs_id rs = None \<or> rs_id rs = Some '''' then rs_ttl rs
      else if RSA_ttl \<in> rs_changed rs then rs_ttl rs else None)"

definition validate_recordset :: "env \<Rightarrow> req_context \<Rightarrow> zone \<Rightarrow> recordset \<Rightarrow> unit sys" where
  "validate_recordset E ctx z rs =
     seq (is_valid_ttl E ctx (checked_ttl rs))
     (seq (is_valid_recordset_name E z (Some (rs_name rs)))
     (seq (is_valid_recordset_placement ctx z (rs_name rs) (rs_type rs) (rs_id rs))
     (seq (is_valid_recordset_placement_subzone E ctx z (rs_name rs))
     (is_valid_recordset_records rs))))"

section \<open>Recordsets in storage\<close>

definition mark_record :: "action \<Rightarrow> int \<Rightarrow> rrecord \<Rightarrow> rrecord" where
  "mark_record a serial r = r_set_serial serial (r_set_status PENDING (r_set_action a r))"

definition change_serial :: "zone \<Rightarrow> bool \<Rightarrow> int sys" where
  "change_serial z increment_serial =
     gets (\<lambda>w. if \<not> increment_serial then z_serial z else w_now w)"

definition create_recordset_in_storage ::
  "env \<Rightarrow> req_context \<Rightarrow> zone \<Rightarrow> recordset \<Rightarrow> bool \<Rightarrow> (recordset \<times> zone) sys" where
  "create_recordset_in_storage E ctx z rs increment_serial =
     transaction (
       seq (enforce_recordset_quota E ctx z)
       (seq (validate_recordset E ctx z rs)
       (seq (if rs_records rs \<noteq> [] then enforce_record_quota E ctx z rs else return ())
       (bind (change_serial z increment_serial) (\<lambda>serial.
        let rs1 = rs\<lparr>rs_records := map (mark_record CREATE serial) (rs_records rs)\<rparr> in
        bind (storage_create_recordset E ctx (z_id z) rs1) (\<lambda>new.
        bind (if rs_records rs \<noteq> [] \<and> increment_serial
              then update_zone_in_storage ctx z increment_serial False else return z) (\<lambda>z'.
        return (new, z'))))))))"

definition update_recordset_in_storage ::
  "env \<Rightarrow> req_context \<Rightarrow> zone \<Rightarrow> recordset \<Rightarrow> bool \<Rightarrow> bool \<Rightarrow> (recordset \<times> zone) sys" where
  "update_recordset_in_storage E ctx z rs increment_serial set_delayed_notify =
     transaction (
       seq (validate_recordset E ctx z rs)
       (bind (change_serial z increment_serial) (\<lambda>serial.
        let rs1 = rs\<lparr>rs_records := map (\<lambda>r. if r_action r = DELETE then r
                       else mark_record UPDATE serial r) (rs_records rs)\<rparr> in
        seq (if rs_records rs \<noteq> [] then enforce_record_quota E ctx z rs1 else return ())
        (bind (storage_update_recordset E ctx rs1) (\<lambda>new.
         bind (if increment_serial
               then update_zone_in_storage ctx z increment_serial set_delayed_notify
               else return z) (\<lambda>z'.
         return (new, z')))))))"

definition delete_recordset_in_storage ::
  "env \<Rightarrow> req_context \<Rightarrow> zone \<Rightarrow> recordset \<Rightarrow> bool \<Rightarrow> (recordset \<times> zone) sys" where
  "delete_recordset_in_storage E ctx z rs increment_serial =
     transaction (
       bind (change_serial z increment_serial) (\<lambda>serial.
       let rs1 = rs\<lparr>rs_records := map (mark_record DELETE serial) (rs_records rs)\<rparr> in
       seq (storage_update_recordset E ctx rs1)
       (bind (if increment_serial then update_zone_in_storage ctx z increment_serial False
              else return z) (\<lambda>z'.
       bind (storage_delete_recordset ctx (opt_string (rs_id rs))) (\<lambda>old. return (old, z'))))))"

section \<open>SOA and NS\<close>

text \<open>\<open>_build_soa_record\<close>: \<open>address.index('@')\<close> fails without an at sign,
  \<open>ns_records[0]\<close> without name servers.\<close>

definition split_at_sign :: "string \<Rightarrow> (string \<times> string) option" where
  "split_at_sign s =
     (case dropWhile (\<lambda>c. c \<noteq> CHR ''@'') s of
        [] \<Rightarrow> None
      | _ # rest \<Rightarrow> Some (takeWhile (\<lambda>c. c \<noteq> CHR ''@'') s, rest))"

definition soa_address :: "string \<Rightarrow> string option" where
  "soa_address email =
     (case split_at_sign email of
        None \<Rightarrow> None
      | Some (user, host) \<Rightarrow> Some (replace CHR ''.'' [CHR 0x5C, CHR ''.''] user @ ''.'' @ host))"

definition build_soa_record :: "zone \<Rightarrow> pool_ns_record list \<Rightarrow> exn + string" where
  "build_soa_record z ns_records =
     (case soa_address (z_email z) of
        None \<Rightarrow> Inl PyValueError
      | Some addr \<Rightarrow>
          (case ns_records of
             [] \<Rightarrow> Inl PyIndexError
           | ns # _ \<Rightarrow> Inr (n_hostname ns @ '' '' @ addr @ ''. '' @ int_str (z_serial z) @ '' '' @
               int_str (z_refresh z) @ '' '' @ int_str (z_retry z) @ '' '' @ int_str (z_expire z) @
               '' '' @ int_str (z_minimum z))))"

text \<open>\<open>objects.Record(data=..., managed=...)\<close> and \<open>objects.RecordSet(name, type, records)\<close>.\<close>

definition new_record :: "string \<Rightarrow> bool \<Rightarrow> rrecord" where
  "new_record data managed = \<lparr>r_id = None, r_version = 1, r_tenant_id = None, r_zone_id = '''',
     r_recordset_id = '''', r_data = data, r_hash = '''', r_managed = managed, r_managed_extra = None,
     r_managed_plugin_type = None, r_managed_plugin_name = None,
     r_managed_resource_type = None, r_managed_resource_region = None,
     r_managed_resource_id = None, r_managed_tenant_id = None,
     r_description = None, r_status = PENDING, r_action = CREATE, r_serial = 1, r_changed = {}\<rparr>"

definition new_recordset :: "string \<Rightarrow> string \<Rightarrow> rrecord list \<Rightarrow> recordset" where
  "new_recordset name typ recs = \<lparr>rs_id = None, rs_version = 1, rs_tenant_id = None, rs_zone_id = '''',
     rs_name = name, rs_type = typ, rs_ttl = None, rs_description = None, rs_records = recs,
     rs_changed = {}\<rparr>"

definition create_soa :: "env \<Rightarrow> req_context \<Rightarrow> zone \<Rightarrow> recordset sys" where
  "create_soa E ctx z =
     bind (get_pool_ns_records E ctx (z_pool_id z)) (\<lambda>ns.
     bind (lift (build_soa_record z ns)) (\<lambda>data.
     bind (create_recordset_in_storage E ctx z
             (new_recordset (z_name z) ''SOA'' [new_record data True]) False) (\<lambda>p.
     return (fst p))))"

definition project_target :: "string option \<Rightarrow> target" where
  "project_target t = [(''project_id'', opt_str t), (''tenant_id'', opt_str t)]"

definition find_recordset ::
  "env \<Rightarrow> req_context \<Rightarrow> (rs_column \<times> crit) list \<Rightarrow> recordset sys" where
  "find_recordset E ctx criterion =
     seq (check E ''find_recordset'' ctx (project_target (c_project_id ctx)))
       (storage_find_recordset ctx criterion True)"

definition update_soa :: "env \<Rightarrow> req_context \<Rightarrow> zone \<Rightarrow> unit sys" where
  "update_soa E ctx z =
     (if z_type z = SECONDARY then return ()
      else
        bind (get_pool_ns_records E ctx (z_pool_id z)) (\<lambda>ns.
        bind (find_recordset E ctx [(RC_zone_id, CStr (z_id z)), (RC_type, CStr ''SOA'')]) (\<lambda>soa.
        case rs_records soa of
          [] \<Rightarrow> raise PyIndexError
        | r # rest \<Rightarrow>
            bind (lift (build_soa_record z ns)) (\<lambda>data.
            bind (update_recordset_in_storage E ctx z
                    (soa\<lparr>rs_records := r_touch RA_data (r\<lparr>r_data := data\<rparr>) # rest\<rparr>) False False) (\<lambda>_.
            return ())))))"

definition create_ns :: "env \<Rightarrow> req_context \<Rightarrow> zone \<Rightarrow> string list \<Rightarrow> unit sys" where
  "create_ns E ctx z ns_records =
     (if z_type z \<noteq> PRIMARY then return ()
      else bind (create_recordset_in_storage E ctx z
                   (new_recordset (z_name z) ''NS'' (map (\<lambda>d. new_record d True) ns_records)) False)
             (\<lambda>_. return ()))"

definition ns_criterion :: "zone \<Rightarrow> (rs_column \<times> crit) list" where
  "ns_criterion z = [(RC_zone_id, CStr (z_id z)), (RC_name, CStr (z_name z)), (RC_type, CStr ''NS'')]"

definition add_ns :: "env \<Rightarrow> req_context \<Rightarrow> zone \<Rightarrow> string \<Rightarrow> bool \<Rightarrow> unit sys" where
  "add_ns E ctx z ns_record increment_serial =
     (\<lambda>w. case find_recordset E ctx (ns_criterion z) w of
        (Inl e, w') \<Rightarrow>
          (if e = RecordSetNotFound then create_ns E ctx z [ns_record] w' else (Inl e, w'))
      | (Inr rs, w') \<Rightarrow>
          bind (update_recordset_in_storage E ctx z
                  (rs\<lparr>rs_records := rs_records rs @ [new_record ns_record True]\<rparr>)
                  increment_serial increment_serial) (\<lambda>_. return ()) w')"

definition delete_ns :: "env \<Rightarrow> req_context \<Rightarrow> zone \<Rightarrow> string \<Rightarrow> bool \<Rightarrow> unit sys" where
  "delete_ns E ctx z ns_record increment_serial =
     bind (find_recordset E ctx (ns_criterion z)) (\<lambda>rs.
     bind (update_recordset_in_storage E ctx z
             (rs\<lparr>rs_records := filter (\<lambda>r. r_data r \<noteq> ns_record) (rs_records rs)\<rparr>)
             increment_serial increment_serial) (\<lambda>_. return ()))"

section \<open>The RPC methods\<close>

definition zone_target :: "string \<Rightarrow> zone \<Rightarrow> target" where
  "zone_target zone_id z =
     [(''zone_id'', VStr zone_id), (''zone_name'', VStr (z_name z))] @ project_target (z_tenant_id z)"

definition create_recordset ::
  "env \<Rightarrow> req_context \<Rightarrow> string \<Rightarrow> recordset \<Rightarrow> bool \<Rightarrow> recordset sys" where
  "create_recordset E ctx zone_id rs increment_serial =
     bind (storage_get_zone ctx zone_id False) (\<lambda>z.
     seq (enforce_catalog_zone_policy ctx (z_type z))
     (bind (check_zone_share_permission ctx z) (\<lambda>shared.
     seq (raise_if (z_action z = DELETE) (BadRequest BR_plain))
     (seq (check E ''create_recordset'' ctx
             (zone_target zone_id z @ [(''zone_type'', VStr (zone_type_str (z_type z))),
                (''zone_shared'', VBool shared), (''recordset_name'', VStr (rs_name rs))]))
     (bind (elevate_all E ctx) (\<lambda>c.
     bind (create_recordset_in_storage E c z rs increment_serial) (\<lambda>p. return (fst p))))))))"

definition recordset_target :: "zone \<Rightarrow> recordset \<Rightarrow> target" where
  "recordset_target z rs =
     [(''recordset_id'', opt_str (rs_id rs)), (''recordset_project_id'', opt_str (rs_tenant_id rs)),
      (''zone_type'', VStr (zone_type_str (z_type z)))]"

definition update_recordset ::
  "env \<Rightarrow> req_context \<Rightarrow> recordset \<Rightarrow> bool \<Rightarrow> recordset sys" where
  "update_recordset E ctx rs increment_serial =
     seq (raise_if (RSA_tenant_id \<in> rs_changed rs) (BadRequest BR_plain))
     (seq (raise_if (RSA_zone_id \<in> rs_changed rs \<or> RSA_zone_name \<in> rs_changed rs)
             (BadRequest BR_plain))
     (seq (raise_if (RSA_type \<in> rs_changed rs) (BadRequest BR_plain))
     (bind (storage_get_zone ctx (rs_zone_id rs) False) (\<lambda>z.
     seq (enforce_catalog_zone_policy ctx (z_type z))
     (bind (check_zone_share_permission ctx z) (\<lambda>shared.
     seq (raise_if (z_action z = DELETE) (BadRequest BR_plain))
     (seq (check E ''update_recordset'' ctx
             (recordset_target z rs @ zone_target (rs_zone_id rs) z @ [(''zone_shared'', VBool shared)]))
     (seq (raise_if (rs_managed rs \<and> \<not> c_edit_managed_records ctx) (BadRequest BR_plain))
     (bind (elevate_all E ctx) (\<lambda>c.
     bind (update_recordset_in_storage E c z rs increment_serial False) (\<lambda>p.
     return (fst p))))))))))))"

definition delete_recordset ::
  "env \<Rightarrow> req_context \<Rightarrow> string \<Rightarrow> string \<Rightarrow> bool \<Rightarrow> recordset sys" where
  "delete_recordset E ctx zone_id recordset_id increment_serial =
     bind (storage_find_recordset ctx [(RC_id, CStr recordset_id), (RC_zone_id, CStr zone_id)] False)
       (\<lambda>rs.
     bind (storage_get_zone ctx zone_id False) (\<lambda>z.
     seq (enforce_catalog_zone_policy ctx (z_type z))
     (seq (raise_if (z_action z = DELETE) (BadRequest BR_plain))
     (seq (check E ''delete_recordset'' ctx (recordset_target z rs @ zone_target zone_id z))
     (seq (raise_if (rs_managed rs \<and> \<not> c_edit_managed_records ctx) (BadRequest BR_plain))
     (bind (elevate_all E ctx) (\<lambda>c.
     bind (delete_recordset_in_storage E c z rs increment_serial) (\<lambda>p. return (fst p)))))))))"

text \<open>\<open>get_recordset\<close>: \<open>zone_id\<close> is missing when the caller does not know the zone.\<close>

definition get_recordset ::
  "env \<Rightarrow> req_context \<Rightarrow> string option \<Rightarrow> string \<Rightarrow> recordset sys" where
  "get_recordset E ctx zone_id recordset_id =
     bind (case zone_id of
             Some zid \<Rightarrow>
               bind (storage_find_recordset ctx
                       [(RC_id, CStr recordset_id), (RC_zone_id, CStr zid)] False) (\<lambda>rs.
               bind (storage_get_zone ctx zid False) (\<lambda>z.
               seq (raise_if (z_id z \<noteq> rs_zone_id rs) RecordSetNotFound) (return (rs, z))))
           | None \<Rightarrow>
               bind (storage_find_recordset ctx [(RC_id, CStr recordset_id)] False) (\<lambda>rs.
               bind (storage_get_zone ctx (rs_zone_id rs) False) (\<lambda>z. return (rs, z)))) (\<lambda>(rs, z).
     bind (check_zone_share_permission ctx z) (\<lambda>shared.
     seq (check E ''get_recordset'' ctx
            (zone_target (z_id z) z @ [(''zone_shared'', VBool shared), (''recordset_id'', opt_str (rs_id rs))]))
     (return rs)))"

definition count_recordsets ::
  "env \<Rightarrow> req_context \<Rightarrow> (rs_column \<times> crit) list \<Rightarrow> int sys" where
  "count_recordsets E ctx criterion =
     seq (check E ''count_recordsets'' ctx
            (let t = (case map_of criterion RC_tenant_id of Some (CStr s) \<Rightarrow> VStr s | _ \<Rightarrow> VNull)
             in [(''project_id'', t), (''tenant_id'', t)]))
       (storage_count_recordsets ctx criterion)"

definition find_records ::
  "env \<Rightarrow> req_context \<Rightarrow> (record_column \<times> crit) list \<Rightarrow> rrecord list sys" where
  "find_records E ctx criterion =
     seq (check E ''find_records'' ctx (project_target (c_project_id ctx)))
       (storage_find_records ctx criterion True)"

end
