(* ===== verification/CentralStatus.thy ===== *)
theory CentralStatus
  imports Samples Decorators
begin

text \<open>
  The status reports of the worker: \<open>update_status\<close>, \<open>_update_record_status\<close> and
  \<open>_update_zone_or_record_status\<close> of \<open>central/service.py\<close>. A report names the action it
  answers; central applies it to the zone when the zone still has that action, and to the
  records of the zone whose serial the report covers. The static method is shared by zones and
  records and is modelled by the assignments it makes.
\<close>

text \<open>\<open>_update_zone_or_record_status\<close>: the new action and the new status, where assigned.\<close>

definition status_assign ::
  "status \<Rightarrow> int \<Rightarrow> status \<Rightarrow> action \<Rightarrow> int \<Rightarrow> action option \<times> status option" where
  "status_assign report serial st act cur =
     (if report = SUCCESS then
        (if st \<in> {PENDING, ERROR} \<and> cur \<le> serial then
           (if act \<in> {CREATE, UPDATE} then (Some NONE, Some ACTIVE)
            else if act = DELETE then (Some NONE, Some DELETED)
            else (None, None))
         else (None, None))
      else if report = ERROR then
        (if st = PENDING \<and> (cur \<le> serial \<or> serial = 0) then (None, Some ERROR)
         else (None, None))
      else if report = NO_ZONE then
        (if act \<in> {CREATE, UPDATE} then (Some CREATE, Some ERROR)
         else if act = DELETE then (Some NONE, Some DELETED)
         else (None, None))
      else (None, None))"

definition zone_status_step :: "status \<Rightarrow> int \<Rightarrow> zone \<Rightarrow> zone" where
  "zone_status_step report serial z =
     (case status_assign report serial (z_status z) (z_action z) (z_serial z) of (a, x) \<Rightarrow>
        (case x of None \<Rightarrow> id | Some x \<Rightarrow> z_set_status x)
          ((case a of None \<Rightarrow> id | Some a \<Rightarrow> z_set_action a) z))"

definition record_status_step :: "status \<Rightarrow> int \<Rightarrow> rrecord \<Rightarrow> rrecord" where
  "record_status_step report serial r =
     (case status_assign report serial (r_status r) (r_action r) (r_serial r) of (a, x) \<Rightarrow>
        (case x of None \<Rightarrow> id | Some x \<Rightarrow> r_set_status x)
          ((case a of None \<Rightarrow> id | Some a \<Rightarrow> r_set_action a) r))"

text \<open>The records a report is about.\<close>

definition record_criterion :: "string \<Rightarrow> status \<Rightarrow> int \<Rightarrow> (record_column \<times> crit) list" where
  "record_criterion zone_id report serial =
     (DC_zone_id, CStr zone_id) #
     (if report = SUCCESS then
        [(DC_status, CList [VStr (status_str PENDING), VStr (status_str ERROR)]),
         (DC_serial, CStr (''<='' @ int_str serial))]
      else if report = ERROR \<and> serial = 0 then
        [(DC_status, CStr (status_str PENDING))]
      else if report = ERROR then
        [(DC_status, CStr (status_str PENDING)), (DC_serial, CStr (''<='' @ int_str serial))]
      else [])"

definition update_record_status ::
  "env \<Rightarrow> req_context \<Rightarrow> string \<Rightarrow> status \<Rightarrow> int \<Rightarrow> unit sys" where
  "update_record_status E ctx zone_id report serial =
     bind (storage_find_records ctx (record_criterion zone_id report serial) True) (\<lambda>records.
     for_each (map (record_status_step report serial) records) (\<lambda>r.
       if r_changed r \<noteq> {} then storage_update_record E ctx r else return ()))"

text \<open>The status \<open>update_status\<close> goes on with, and the zone after the report.\<close>

definition effective_status :: "zone \<Rightarrow> status \<Rightarrow> action option \<Rightarrow> status" where
  "effective_status z report act =
     (if (act = None \<or> act = Some (z_action z)) \<and> z_action z = DELETE \<and> z_status z \<noteq> ERROR
      then NO_ZONE else report)"

definition reported_zone :: "zone \<Rightarrow> status \<Rightarrow> int \<Rightarrow> action option \<Rightarrow> zone" where
  "reported_zone z report serial act =
     (if act = None \<or> act = Some (z_action z)
      then zone_status_step (effective_status z report act) serial z else z)"

definition update_status ::
  "env \<Rightarrow> req_context \<Rightarrow> string \<Rightarrow> status \<Rightarrow> int \<Rightarrow> action option \<Rightarrow> zone sys" where
  "update_status E ctx zone_id report serial act =
     transaction (
       bind (storage_get_zone ctx zone_id True) (\<lambda>z.
       let report' = effective_status z report act;
           z' = reported_zone z report serial act in
       bind (if z_status z' = DELETED
             then seq (storage_delete_zone ctx (z_id z')) (return z')
             else storage_update_zone ctx z') (\<lambda>z2.
       seq (update_record_status E ctx zone_id report' serial) (return z2))))"

section \<open>What a report does\<close>

lemma same_contentI:
  assumes "r' = r\<lparr>r_action := a, r_status := x, r_changed := ch\<rparr>" "ch \<subseteq> {RA_action, RA_status}"
    "RA_action \<notin> ch \<Longrightarrow> a = r_action r" "RA_status \<notin> ch \<Longrightarrow> x = r_status r"
  shows "same_content r' r"
  unfolding same_content_def using assms by blast

lemma record_status_step_same:
  assumes ch: "r_changed r = {}"
  shows "same_content (record_status_step report serial r) r"
proof -
  obtain a x where ax: "status_assign report serial (r_status r) (r_action r) (r_serial r) = (a, x)"
    by fastforce
  let ?a = "case a of None \<Rightarrow> r_action r | Some a \<Rightarrow> a"
  let ?x = "case x of None \<Rightarrow> r_status r | Some x \<Rightarrow> x"
  let ?ch = "(if a = None then {} else {RA_action}) \<union> (if x = None then {} else {RA_status})"
  have "record_status_step report serial r = r\<lparr>r_action := ?a, r_status := ?x, r_changed := ?ch\<rparr>"
    using ch by (cases a; cases x) (simp_all add: record_status_step_def ax r_sets insert_commute)
  then show ?thesis by (rule same_contentI) (auto split: option.splits if_splits)
qed

definition covered :: "string \<Rightarrow> status \<Rightarrow> int \<Rightarrow> rrecord \<Rightarrow> bool" where
  "covered zone_id report serial r \<longleftrightarrow> r_zone_id r = zone_id \<and>
     (report = SUCCESS \<longrightarrow> r_status r \<in> {PENDING, ERROR} \<and> r_serial r \<le> serial) \<and>
     (report = ERROR \<longrightarrow> r_status r = PENDING \<and> (serial = 0 \<or> r_serial r \<le> serial))"

definition after_report :: "status \<Rightarrow> int \<Rightarrow> rrecord \<Rightarrow> rrecord" where
  "after_report report serial r =
     (if r_changed (record_status_step report serial r) = {} then r
      else with_status_of (record_status_step report serial r) r)"

lemma plain_status [simp]: "plain (status_str x)"
  by (cases x) (simp_all add: plain_def startswith_def)

lemma status_str_literals [simp]:
  "status_str x = ''PENDING'' \<longleftrightarrow> x = PENDING" "status_str x = ''ERROR'' \<longleftrightarrow> x = ERROR"
  "plain ''PENDING''"
  using plain_status [of PENDING] by (cases x; simp)+

lemma int_str_no_percent: "0 \<le> n \<Longrightarrow> CHR ''%'' \<notin> set (int_str n)"
  using nat_str_digits [of "nat n"] by (auto simp: int_str_def list_all_iff is_digit_def)

lemma select_covered:
  assumes "plain zone_id" "report \<in> {SUCCESS, ERROR} \<Longrightarrow> 0 \<le> serial" "c_all_tenants ctx"
  shows "storage_find_records ctx (record_criterion zone_id report serial) True w =
     (Inr (filter (covered zone_id report serial) (d_records (w_db w))), w)"
proof -
  have le: "criterion_clause DC_serial (CStr (''<='' @ int_str serial)) = Inr (Le DC_serial (VStr (int_str serial)))"
    if "report \<in> {SUCCESS, ERROR}" using int_str_no_percent [OF assms(2) [OF that]] by (simp add: criterion_clause_def startswith_def)
  have "\<exists>cls. record_where ctx (record_criterion zone_id report serial) True = Inr cls \<and>
      matches record_col cls = covered zone_id report serial"
    using assms le
    by (cases report) (auto simp: record_where_def record_criterion_def covered_def fun_eq_iff)
  then show ?thesis
    by (auto simp: storage_find_records_def bind_run select_where_def)
qed

lemma update_records_loop:
  assumes "records_wf E (d_records (w_db w))" "c_all_tenants ctx"
    "set rs \<subseteq> set (d_records (w_db w))" "distinct rs"
  shows "for_each (map (record_status_step report serial) rs)
      (\<lambda>r. if r_changed r \<noteq> {} then storage_update_record E ctx r else return ()) w =
    (Inr (), set_db (\<lambda>d. d\<lparr>d_records :=
       map (\<lambda>r. if r \<in> set rs then after_report report serial r else r) (d_records d)\<rparr>) w)"
  using assms
proof (induction rs arbitrary: w)
  case Nil
  then show ?case by (simp add: set_db_def)
next
  case (Cons r rs)
  let ?step = "record_status_step report serial"
  let ?rows = "d_records (w_db w)"
  let ?rows1 = "map (\<lambda>x. if x = r then after_report report serial r else x) ?rows"
  let ?w1 = "set_db (\<lambda>d. d\<lparr>d_records := ?rows1\<rparr>) w"
  from Cons.prems have r: "r \<in> set ?rows" "r_changed r = {}" by (auto simp: records_wf_def)
  note same = record_status_step_same [OF r(2), of report serial]
  have head: "(if r_changed (?step r) \<noteq> {} then storage_update_record E ctx (?step r) else return ()) w
      = (Inr (), ?w1)"
  proof (cases "r_changed (?step r) = {}")
    case True
    then have "after_report report serial r = r" by (simp add: after_report_def)
    then have "?rows1 = ?rows" by (simp add: map_idI)
    with True show ?thesis by (simp add: set_db_def)
  next
    case False
    with update_record_status_ok [OF Cons.prems(1) r(1) same _ Cons.prems(2)]
    show ?thesis by (simp add: after_report_def set_db_def)
  qed
  have wf1: "records_wf E ?rows1"
    using records_wf_status [OF Cons.prems(1), of r "?step r"] Cons.prems(1)
    by (simp add: after_report_def cong: if_cong)
  have id1: "r_id (after_report report serial r) = r_id r"
    by (simp add: after_report_def with_status_of_def)
  have apart: "after_report report serial r \<notin> set rs"
  proof
    assume mem: "after_report report serial r \<in> set rs"
    with Cons.prems(3) have "after_report report serial r \<in> set ?rows" by auto
    moreover have "inj_on r_id (set ?rows)" using Cons.prems(1) by (simp add: records_wf_def distinct_map)
    ultimately have "after_report report serial r = r" using r(1) id1 by (auto simp: inj_on_def)
    with mem Cons.prems(4) show False by simp
  qed
  have "set rs \<subseteq> set ?rows1" using Cons.prems(3,4) by (auto simp: image_iff)
  with Cons.IH [of ?w1] wf1 Cons.prems(2,4) have tail:
    "for_each (map ?step rs) (\<lambda>r. if r_changed r \<noteq> {} then storage_update_record E ctx r else return ()) ?w1
      = (Inr (), set_db (\<lambda>d. d\<lparr>d_records :=
          map (\<lambda>r. if r \<in> set rs then after_report report serial r else r) (d_records d)\<rparr>) ?w1)"
    by simp
  have "map (\<lambda>r. if r \<in> set rs then after_report report serial r else r) ?rows1
      = map (\<lambda>x. if x \<in> set (r # rs) then after_report report serial x else x) ?rows"
    using apart Cons.prems(4) by auto
  with head tail show ?case by (simp add: seq_run set_db_def del: map_map map_eq_conv)
qed

lemma update_record_status_run:
  assumes "records_wf E (d_records (w_db w))" "c_all_tenants ctx" "plain zone_id"
    "report \<in> {SUCCESS, ERROR} \<Longrightarrow> 0 \<le> serial"
  shows "update_record_status E ctx zone_id report serial w = (Inr (), set_db (\<lambda>d. d\<lparr>d_records :=
     map (\<lambda>r. if covered zone_id report serial r then after_report report serial r else r)
       (d_records d)\<rparr>) w)"
proof -
  let ?rs = "filter (covered zone_id report serial) (d_records (w_db w))"
  have "distinct ?rs" using assms(1) by (auto simp: records_wf_def distinct_map intro: distinct_filter)
  with update_records_loop [OF assms(1,2), of ?rs report serial] select_covered [OF assms(3,4,2)]
  show ?thesis
    by (simp add: update_record_status_def bind_run set_db_def cong: if_cong map_cong)
qed

section \<open>The whole of \<open>update_status\<close>\<close>

definition store_wf :: "env \<Rightarrow> db \<Rightarrow> bool" where
  "store_wf E d \<longleftrightarrow> zone_ids_distinct d \<and> unique_zone_name (d_zones d) \<and> records_wf E (d_records d)"

text \<open>The action and status a report leaves a zone with.\<close>

definition reported_state :: "zone \<Rightarrow> status \<Rightarrow> int \<Rightarrow> action option \<Rightarrow> action \<times> status" where
  "reported_state z report serial act =
     (if act = None \<or> act = Some (z_action z) then
        (case status_assign (effective_status z report act) serial (z_status z) (z_action z)
                (z_serial z) of (a, x) \<Rightarrow>
           (case a of None \<Rightarrow> z_action z | Some a \<Rightarrow> a, case x of None \<Rightarrow> z_status z | Some x \<Rightarrow> x))
      else (z_action z, z_status z))"

definition zone_written :: "action \<Rightarrow> status \<Rightarrow> zone \<Rightarrow> zone" where
  "zone_written a x z = z\<lparr>z_version := z_version z + 1, z_status := x, z_action := a\<rparr>"

definition zone_soft_deleted :: "int \<Rightarrow> zone \<Rightarrow> zone" where
  "zone_soft_deleted now z = z\<lparr>z_version := z_version z + 1, z_status := DELETED, z_action := NONE,
     z_deleted := filter (\<lambda>c. c \<noteq> CHR ''-'') (z_id z), z_deleted_at := Some now\<rparr>"

lemma effective_status_load [simp]: "effective_status (load_zone d z) report act = effective_status z report act"
  by (simp add: effective_status_def load_zone_def)

lemma reported_zone_load:
  assumes "reported_state z report serial act = (a, x)"
  shows "\<exists>ch \<subseteq> {ZA_status, ZA_action}. (ZA_status \<notin> ch \<longrightarrow> x = z_status z) \<and>
     (ZA_action \<notin> ch \<longrightarrow> a = z_action z) \<and>
     reported_zone (load_zone d z) report serial act =
       (load_zone d z)\<lparr>z_status := x, z_action := a, z_changed := ch\<rparr>"
proof (cases "act = None \<or> act = Some (z_action z)")
  case False
  then have "reported_zone (load_zone d z) report serial act = load_zone d z"
    by (auto simp: reported_zone_def load_zone_def)
  moreover have "load_zone d z = (load_zone d z)\<lparr>z_status := z_status z, z_action := z_action z, z_changed := {}\<rparr>"
    by (simp add: load_zone_def)
  moreover have "a = z_action z" "x = z_status z"
    using assms False by (auto simp: reported_state_def)
  ultimately show ?thesis by (intro exI [of _ "{}"]) simp
next
  case True
  obtain a1 x1 where ax: "status_assign (effective_status z report act) serial (z_status z) (z_action z)
      (z_serial z) = (a1, x1)" by fastforce
  let ?ch = "(if a1 = None then {} else {ZA_action}) \<union> (if x1 = None then {} else {ZA_status})"
  from True assms ax have a: "a = (case a1 of None \<Rightarrow> z_action z | Some a \<Rightarrow> a)"
    and x: "x = (case x1 of None \<Rightarrow> z_status z | Some x \<Rightarrow> x)"
    by (auto simp: reported_state_def)
  have "reported_zone (load_zone d z) report serial act
      = zone_status_step (effective_status z report act) serial (load_zone d z)"
    using True by (simp add: reported_zone_def load_zone_def effective_status_def)
  also have "\<dots> = (load_zone d z)\<lparr>z_status := x, z_action := a, z_changed := ?ch\<rparr>"
    using ax by (cases a1; cases x1) (simp_all add: zone_status_step_def load_zone_def z_sets a x insert_commute)
  finally show ?thesis using a x by (intro exI [of _ ?ch]) auto
qed

lemma write_status_changes:
  assumes "ch \<subseteq> {ZA_status, ZA_action}" "ZA_status \<notin> ch \<longrightarrow> x = z_status z" "ZA_action \<notin> ch \<longrightarrow> a = z_action z"
  shows "write_zone_changes ((load_zone d z)\<lparr>z_status := x, z_action := a, z_changed := ch\<rparr>) z = zone_written a x z"
proof -
  have "c \<notin> ch" if "c \<noteq> ZA_status" "c \<noteq> ZA_action" for c using assms(1) that by blast
  with assms(2,3) show ?thesis
    by (simp add: write_zone_changes_def Let_def load_zone_def zone_written_def)
qed

lemma update_status_run:
  assumes wf: "store_wf E (w_db w)" and ctx: "sees_all ctx"
    and z: "z \<in> set (d_zones (w_db w))" "z_deleted z = ''0''" "plain (z_id z)"
    and serial: "0 \<le> serial"
    and st: "reported_state z report serial act = (a, x)" "x \<noteq> DELETED"
  shows "\<exists>z' w'. update_status E ctx (z_id z) report serial act w = (Inr z', w') \<and>
     z_action z' = a \<and> z_status z' = x \<and>
     d_zones (w_db w') = map (\<lambda>r. if r = z then zone_written a x z else r) (d_zones (w_db w)) \<and>
     d_records (w_db w') = map (\<lambda>r. if covered (z_id z) (effective_status z report act) serial r
        then after_report (effective_status z report act) serial r else r) (d_records (w_db w)) \<and>
     w_sent w' = w_sent w"
proof -
  let ?d = "w_db w"
  let ?rep = "effective_status z report act"
  from wf have wfs: "zone_ids_distinct ?d" "unique_zone_name (d_zones ?d)" "records_wf E (d_records ?d)"
    by (auto simp: store_wf_def)
  have all: "c_all_tenants ctx" using ctx by (simp add: sees_all_def)
  from reported_zone_load [OF st(1), of ?d] obtain ch where
    ch: "ch \<subseteq> {ZA_status, ZA_action}" "ZA_status \<notin> ch \<longrightarrow> x = z_status z" "ZA_action \<notin> ch \<longrightarrow> a = z_action z"
    and obj: "reported_zone (load_zone ?d z) report serial act =
       (load_zone ?d z)\<lparr>z_status := x, z_action := a, z_changed := ch\<rparr>" by blast
  let ?obj = "(load_zone ?d z)\<lparr>z_status := x, z_action := a, z_changed := ch\<rparr>"
  note written = write_status_changes [OF ch, of ?d]
  let ?w1 = "set_db (\<lambda>d. d\<lparr>d_zones := map (\<lambda>r. if r = z then zone_written a x z else r) (d_zones d)\<rparr>) w"
  have "update_zone_row ctx ?obj w = (Inr (refetch_zone ?obj (zone_written a x z)), ?w1)"
    using update_zone_row_ok [OF wfs(1,2) z(1), of ?obj ctx] zone_write_matches [OF all z(2)] written
    by (simp add: load_zone_def zone_written_def)
  moreover have "ZA_tenant_id \<notin> z_changed ?obj" using ch(1) by auto
  ultimately have upd: "storage_update_zone ctx ?obj w = (Inr (refetch_zone ?obj (zone_written a x z)), ?w1)"
    by (simp add: storage_update_zone_def bind_run seq_run)
  have recs: "update_record_status E ctx (z_id z) ?rep serial ?w1 = (Inr (), set_db (\<lambda>d. d\<lparr>d_records :=
     map (\<lambda>r. if covered (z_id z) ?rep serial r then after_report ?rep serial r else r) (d_records d)\<rparr>) ?w1)"
    using wfs(3) all z(3) serial by (intro update_record_status_run) simp_all
  have get: "storage_get_zone ctx (z_id z) True w = (Inr (load_zone ?d z), w)"
    using wfs(1) z all by (intro storage_get_zone_ok)
  from get upd recs obj st(2) show ?thesis
    by (simp add: update_status_def transaction_def bind_run seq_run Let_def refetch_zone_def zone_written_def)
qed

text \<open>The soft delete, when no other zone of the pool was deleted under the same name and mark.\<close>

lemma storage_delete_zone_ok:
  assumes ids: "zone_ids_distinct (w_db w)" and ctx: "sees_all ctx"
    and z: "z \<in> set (d_zones (w_db w))" "z_deleted z = ''0''" "plain (z_id z)"
    and uq: "unique_zone_name (map (\<lambda>r. if r = z then zone_soft_deleted (w_now w) z else r) (d_zones (w_db w)))"
  shows "\<exists>z'. storage_delete_zone ctx (z_id z) w = (Inr z', set_db (\<lambda>d. d\<lparr>d_zones :=
     map (\<lambda>r. if r = z then zone_soft_deleted (w_now w) z else r) (d_zones d)\<rparr>) w)"
proof -
  let ?obj = "z_set_status DELETED (z_set_action NONE
     (z_set_deleted (filter (\<lambda>c. c \<noteq> CHR ''-'') (z_id z)) (w_now w) (load_zone (w_db w) z)))"
  have all: "c_all_tenants ctx" using ctx by (simp add: sees_all_def)
  have obj: "z_id ?obj = z_id z" by (simp add: z_sets load_zone_def)
  have written: "write_zone_changes ?obj z = zone_soft_deleted (w_now w) z"
    by (simp add: write_zone_changes_def Let_def z_sets load_zone_def zone_soft_deleted_def)
  have get: "find_zone_gen ctx [(ZC_id, CStr (z_id z))] True w = (Inr (load_zone (w_db w) z), w)"
    using storage_get_zone_ok [OF ids z, of True ctx] all by (simp add: storage_get_zone_def)
  have "update_zone_row ctx ?obj w = (Inr (refetch_zone ?obj (zone_soft_deleted (w_now w) z)),
      set_db (\<lambda>d. d\<lparr>d_zones := map (\<lambda>r. if r = z then zone_soft_deleted (w_now w) z else r) (d_zones d)\<rparr>) w)"
    using update_zone_row_unique [OF ids z(1) obj zone_write_matches [OF all z(2)]] uq
    unfolding written by simp
  moreover have "z_id (load_zone (w_db w) z) = z_id z" by (simp add: load_zone_def)
  ultimately show ?thesis
    using get by (simp add: storage_delete_zone_def soft_delete_zone_def bind_run)
qed

lemma update_status_delete_run:
  assumes wf: "store_wf E (w_db w)" and ctx: "sees_all ctx"
    and z: "z \<in> set (d_zones (w_db w))" "z_deleted z = ''0''" "plain (z_id z)"
    and serial: "effective_status z report act \<in> {SUCCESS, ERROR} \<Longrightarrow> 0 \<le> serial"
    and st: "reported_state z report serial act = (a, DELETED)"
    and uq: "unique_zone_name (map (\<lambda>r. if r = z then zone_soft_deleted (w_now w) z else r) (d_zones (w_db w)))"
  shows "\<exists>z' w'. update_status E ctx (z_id z) report serial act w = (Inr z', w') \<and>
     d_zones (w_db w') = map (\<lambda>r. if r = z then zone_soft_deleted (w_now w) z else r) (d_zones (w_db w)) \<and>
     d_records (w_db w') = map (\<lambda>r. if covered (z_id z) (effective_status z report act) serial r
        then after_report (effective_status z report act) serial r else r) (d_records (w_db w))"
proof -
  let ?d = "w_db w"
  let ?rep = "effective_status z report act"
  from wf have wfs: "zone_ids_distinct ?d" "records_wf E (d_records ?d)" by (auto simp: store_wf_def)
  have all: "c_all_tenants ctx" using ctx by (simp add: sees_all_def)
  from reported_zone_load [OF st, of ?d] obtain ch where
    obj: "reported_zone (load_zone ?d z) report serial act =
       (load_zone ?d z)\<lparr>z_status := DELETED, z_action := a, z_changed := ch\<rparr>" by blast
  let ?w1 = "set_db (\<lambda>d. d\<lparr>d_zones :=
     map (\<lambda>r. if r = z then zone_soft_deleted (w_now w) z else r) (d_zones d)\<rparr>) w"
  from storage_delete_zone_ok [OF wfs(1) ctx z uq] obtain z1 where
    del: "storage_delete_zone ctx (z_id z) w = (Inr z1, ?w1)" by blast
  have recs: "update_record_status E ctx (z_id z) ?rep serial ?w1 = (Inr (), set_db (\<lambda>d. d\<lparr>d_records :=
     map (\<lambda>r. if covered (z_id z) ?rep serial r then after_report ?rep serial r else r) (d_records d)\<rparr>) ?w1)"
    using wfs(2) all z(3) serial by (intro update_record_status_run) simp_all
  have get: "storage_get_zone ctx (z_id z) True w = (Inr (load_zone ?d z), w)"
    using wfs(1) z all by (intro storage_get_zone_ok)
  have "z_id ((load_zone ?d z)\<lparr>z_status := DELETED, z_action := a, z_changed := ch\<rparr>) = z_id z"
    by (simp add: load_zone_def)
  with get del recs obj show ?thesis
    by (simp add: update_status_def transaction_def bind_run seq_run Let_def)
qed

section \<open>Properties\<close>

definition record_written :: "action \<Rightarrow> status \<Rightarrow> rrecord \<Rightarrow> rrecord" where
  "record_written a x r = r\<lparr>r_version := r_version r + 1, r_status := x, r_action := a\<rparr>"

lemma after_report_success:
  assumes "r_changed r = {}" "r_status r \<in> {PENDING, ERROR}" "r_serial r \<le> serial"
  shows "after_report SUCCESS serial r =
    (if r_action r \<in> {CREATE, UPDATE} then record_written NONE ACTIVE r
     else if r_action r = DELETE then record_written NONE DELETED r else r)"
  using assms by (cases "r_action r")
    (auto simp: after_report_def record_status_step_def status_assign_def r_sets with_status_of_def
      record_written_def)

text \<open>C2: a success report that answers the action the zone still has, with a serial that covers the
  zone's, makes a created or updated zone ACTIVE with no action left; exactly the zone's pending or
  failed records with a covered serial follow (deleted ones become DELETED), and every other row of
  both tables is left as it was.\<close>

theorem update_status_success:
  assumes "store_wf E (w_db w)" "sees_all ctx"
    and z: "z \<in> set (d_zones (w_db w))" "z_deleted z = ''0''" "plain (z_id z)"
    and "act = None \<or> act = Some (z_action z)"
    and "z_status z \<in> {PENDING, ERROR}" "z_action z \<in> {CREATE, UPDATE}"
    and "z_serial z \<le> serial" "0 \<le> serial"
  shows "\<exists>z' w'. update_status E ctx (z_id z) SUCCESS serial act w = (Inr z', w') \<and>
     z_action z' = NONE \<and> z_status z' = ACTIVE \<and>
     d_zones (w_db w') = map (\<lambda>r. if r = z then zone_written NONE ACTIVE z else r) (d_zones (w_db w)) \<and>
     d_records (w_db w') = map (\<lambda>r.
       if r_zone_id r = z_id z \<and> r_status r \<in> {PENDING, ERROR} \<and> r_serial r \<le> serial
       then (if r_action r \<in> {CREATE, UPDATE} then record_written NONE ACTIVE r
             else if r_action r = DELETE then record_written NONE DELETED r else r)
       else r) (d_records (w_db w))"
proof -
  have eff: "effective_status z SUCCESS act = SUCCESS"
    using assms(8) by (auto simp: effective_status_def)
  have st: "reported_state z SUCCESS serial act = (NONE, ACTIVE)"
    using assms(6-9) eff by (auto simp: reported_state_def status_assign_def)
  have "r_changed r = {}" if "r \<in> set (d_records (w_db w))" for r
    using assms(1) that by (auto simp: store_wf_def records_wf_def)
  then have "map (\<lambda>r. if covered (z_id z) SUCCESS serial r then after_report SUCCESS serial r else r)
      (d_records (w_db w)) = map (\<lambda>r.
       if r_zone_id r = z_id z \<and> r_status r \<in> {PENDING, ERROR} \<and> r_serial r \<le> serial
       then (if r_action r \<in> {CREATE, UPDATE} then record_written NONE ACTIVE r
             else if r_action r = DELETE then record_written NONE DELETED r else r)
       else r) (d_records (w_db w))"
    by (intro map_cong) (auto simp: covered_def after_report_success)
  with update_status_run [OF assms(1,2) z assms(10) st] show ?thesis by (simp only: eff) blast
qed

lemma sample_store_wf: "store_wf sample_env sample_db"
  by (simp add: store_wf_def zone_ids_distinct_def unique_zone_name_def records_wf_def
      unique_record_def record_hash_def sample_defs)

lemma plain_z1 [simp]: "plain ''z1''"
  by (simp add: plain_def startswith_def)

theorem update_status_success_witness:
  "\<exists>z' w'. update_status sample_env worker_context ''z1'' SUCCESS 5 (Some CREATE) (world_of sample_db)
     = (Inr z', w') \<and> map z_status (d_zones (w_db w')) = [ACTIVE] \<and>
     map r_status (d_records (w_db w')) = [ACTIVE]"
proof -
  let ?z = "sample_zone ''z1'' ''t1'' ''e.o.''"
  have "store_wf sample_env (w_db (world_of sample_db))"
    using sample_store_wf by (simp add: world_of_def)
  from update_status_success [OF this sample_sees_all, of ?z "Some CREATE" 5] show ?thesis
    by (force simp: zone_written_def record_written_def sample_record_def)
qed

text \<open>a report for an action the zone no longer has leaves the zone's action and status as they
  are; only its version moves.\<close>

theorem update_status_stale:
  assumes "store_wf E (w_db w)" "sees_all ctx"
    and z: "z \<in> set (d_zones (w_db w))" "z_deleted z = ''0''" "plain (z_id z)"
    and "b \<noteq> z_action z" "z_status z \<noteq> DELETED" "0 \<le> serial"
  shows "\<exists>z' w'. update_status E ctx (z_id z) report serial (Some b) w = (Inr z', w') \<and>
     z_action z' = z_action z \<and> z_status z' = z_status z \<and>
     d_zones (w_db w') = map (\<lambda>r. if r = z then z\<lparr>z_version := z_version z + 1\<rparr> else r) (d_zones (w_db w))"
proof -
  have st: "reported_state z report serial (Some b) = (z_action z, z_status z)"
    using assms(6) by (auto simp: reported_state_def)
  have wr: "zone_written (z_action z) (z_status z) z = z\<lparr>z_version := z_version z + 1\<rparr>"
    by (simp add: zone_written_def)
  from update_status_run [OF assms(1,2) z assms(8) st assms(7)] show ?thesis
    unfolding wr by blast
qed

theorem update_status_stale_witness:
  "\<exists>z' w'. update_status sample_env worker_context ''z1'' NO_ZONE 0 (Some UPDATE) (world_of sample_db)
     = (Inr z', w') \<and> map z_status (d_zones (w_db w')) = [PENDING]"
proof -
  have "store_wf sample_env (w_db (world_of sample_db))" using sample_store_wf by simp
  from update_status_stale [OF this sample_sees_all, of "sample_zone ''z1'' ''t1'' ''e.o.''" UPDATE 0 NO_ZONE]
  show ?thesis by force
qed

text \<open>C12: a zone that is being deleted (action DELETE, its deletion not failed so far) is removed by every
  report on that action, whatever status and serial it carries, an ERROR report included: its row is
  soft deleted although the nameservers may still have the zone, and no other row of the zones changes.\<close>

theorem update_status_error_deletes:
  assumes "store_wf E (w_db w)" "sees_all ctx"
    and z: "z \<in> set (d_zones (w_db w))" "z_deleted z = ''0''" "plain (z_id z)"
    and act: "act = None \<or> act = Some DELETE" "z_action z = DELETE" "z_status z \<noteq> ERROR"
    and uq: "unique_zone_name (map (\<lambda>r. if r = z then zone_soft_deleted (w_now w) z else r) (d_zones (w_db w)))"
  shows "\<exists>z' w'. update_status E ctx (z_id z) report serial act w = (Inr z', w') \<and>
     d_zones (w_db w') = map (\<lambda>r. if r = z then zone_soft_deleted (w_now w) z else r) (d_zones (w_db w))"
proof -
  have eff: "effective_status z report act = NO_ZONE" using act by (auto simp: effective_status_def)
  then have "reported_state z report serial act = (NONE, DELETED)"
    using act by (auto simp: reported_state_def status_assign_def)
  from update_status_delete_run [OF assms(1,2) z _ this uq] eff show ?thesis by auto
qed

definition deleting_db :: "status \<Rightarrow> db" where
  "deleting_db x = sample_db\<lparr>d_zones := [(sample_zone ''z1'' ''t1'' ''e.o.'')\<lparr>z_action := DELETE, z_status := x\<rparr>]\<rparr>"

lemma deleting_wf: "store_wf sample_env (w_db (world_of (deleting_db x)))"
  using sample_store_wf
  by (simp add: store_wf_def deleting_db_def zone_ids_distinct_def unique_zone_name_def)

theorem update_status_error_deletes_witness:
  "list_all (\<lambda>report. \<exists>z' w'. update_status sample_env worker_context ''z1'' report (-1) (Some DELETE)
     (world_of (deleting_db PENDING)) = (Inr z', w') \<and> map z_deleted (d_zones (w_db w')) = [''z1''])
   [ERROR, SUCCESS, NO_ZONE]"
proof -
  let ?z = "(sample_zone ''z1'' ''t1'' ''e.o.'')\<lparr>z_action := DELETE, z_status := PENDING\<rparr>"
  have "unique_zone_name (map (\<lambda>r. if r = ?z then zone_soft_deleted 100 ?z else r)
      (d_zones (deleting_db PENDING)))"
    by (simp add: deleting_db_def unique_zone_name_def)
  then have "\<exists>z' w'. update_status sample_env worker_context ''z1'' report (-1) (Some DELETE)
     (world_of (deleting_db PENDING)) = (Inr z', w') \<and> map z_deleted (d_zones (w_db w')) = [''z1'']" for report
    using update_status_error_deletes [OF deleting_wf sample_sees_all, of ?z PENDING "Some DELETE" report "-1"]
    by (force simp: deleting_db_def zone_soft_deleted_def)
  then show ?thesis by simp
qed

text \<open>once a deletion has failed (action DELETE, status ERROR), the success report of a
  deletion, which carries the serial 0, does not delete the zone: it stays in DELETE and ERROR.\<close>

theorem update_status_failed_deletion_stays:
  assumes "store_wf E (w_db w)" "sees_all ctx"
    and z: "z \<in> set (d_zones (w_db w))" "z_deleted z = ''0''" "plain (z_id z)"
    and "act = None \<or> act = Some DELETE" "z_action z = DELETE" "z_status z = ERROR" "0 < z_serial z"
  shows "\<exists>z' w'. update_status E ctx (z_id z) SUCCESS 0 act w = (Inr z', w') \<and>
     d_zones (w_db w') = map (\<lambda>r. if r = z then z\<lparr>z_version := z_version z + 1\<rparr> else r) (d_zones (w_db w))"
proof -
  have st: "reported_state z SUCCESS 0 act = (DELETE, ERROR)"
    using assms(6-9) by (auto simp: reported_state_def status_assign_def effective_status_def)
  have "zone_written DELETE ERROR z = z\<lparr>z_version := z_version z + 1\<rparr>"
    using assms(7,8) by (simp add: zone_written_def)
  with update_status_run [OF assms(1,2) z _ st] show ?thesis by (simp only:) auto
qed

theorem update_status_failed_deletion_stays_witness:
  "\<exists>z' w'. update_status sample_env worker_context ''z1'' SUCCESS 0 (Some DELETE)
     (world_of (deleting_db ERROR)) = (Inr z', w') \<and> map z_status (d_zones (w_db w')) = [ERROR]"
  using update_status_failed_deletion_stays [OF deleting_wf sample_sees_all,
    of "(sample_zone ''z1'' ''t1'' ''e.o.'')\<lparr>z_action := DELETE, z_status := ERROR\<rparr>" ERROR "Some DELETE"]
  by (force simp: deleting_db_def)

end
