(* ===== verification/CentralZones.thy ===== *)
theory CentralZones
  imports CentralRecordsets CentralStatus
begin

text \<open>
  The zone operations of \<open>central/service.py\<close>: creating a zone (the checks, the scheduler, the
  parent and the children, the row with its SOA and NS recordsets, the casts to the worker),
  reading, updating, deleting or abandoning, purging, sharing, moving to another pool, and
  transferring to another project.
\<close>

section \<open>SOA refresh, serial, catalog\<close>

text \<open>\<open>random.random()\<close> is \<open>k / 2 ^ 53\<close>; \<open>int\<close> cuts the fraction off.\<close>

definition generate_soa_refresh_interval :: "env \<Rightarrow> int sys" where
  "generate_soa_refresh_interval E =
     gets (\<lambda>w. cf_soa_refresh_min (e_conf E) +
       ((cf_soa_refresh_max (e_conf E) - cf_soa_refresh_min (e_conf E)) * int (e_random E (w_next w)))
         div 2 ^ 53)"

definition increment_zone_serial :: "env \<Rightarrow> req_context \<Rightarrow> zone \<Rightarrow> int sys" where
  "increment_zone_serial E ctx z =
     transaction (
       bind (storage_increment_serial (z_id z)) (\<lambda>serial.
       seq (update_soa E ctx (z_set_serial serial z)) (return serial)))"

definition get_catalog_zone :: "req_context \<Rightarrow> string \<Rightarrow> zone sys" where
  "get_catalog_zone ctx pool_id =
     storage_find_zone ctx [(ZC_pool_id, CStr pool_id), (ZC_type, CStr (zone_type_str CATALOG))]"

definition ensure_catalog_zone_serial_increment :: "req_context \<Rightarrow> zone \<Rightarrow> unit sys" where
  "ensure_catalog_zone_serial_increment ctx z =
     (if z_type z = CATALOG then return ()
      else
        bind (storage_get_pool ctx (z_pool_id z)) (\<lambda>p.
        catch (bind (get_catalog_zone ctx (p_id p)) (\<lambda>cat.
               bind (update_zone_in_storage ctx cat True False) (\<lambda>_. return ())))
          (\<lambda>e. if e = ZoneNotFound then Some (return ()) else None)))"

section \<open>Creating\<close>

definition get_zone_ns_records ::
  "env \<Rightarrow> req_context \<Rightarrow> string option \<Rightarrow> pool_ns_record list sys" where
  "get_zone_ns_records E ctx zone_id =
     bind (case zone_id of
             None \<Rightarrow> seq (check E ''get_zone_ns_records'' ctx [])
                       (return (cf_default_pool_id (e_conf E)))
           | Some i \<Rightarrow>
               bind (storage_get_zone ctx i True) (\<lambda>z.
               seq (check E ''get_zone_ns_records'' ctx (zone_target i z)) (return (z_pool_id z))))
       (\<lambda>pool_id.
     bind (elevate_all E ctx) (\<lambda>c.
     bind (storage_get_pool c pool_id) (\<lambda>p. return (p_ns_records p))))"

definition create_zone_in_storage ::
  "env \<Rightarrow> req_context \<Rightarrow> zone_request \<Rightarrow> string option \<Rightarrow> string \<Rightarrow> string option \<Rightarrow> int \<Rightarrow> int option
     \<Rightarrow> zone sys" where
  "create_zone_in_storage E ctx zr tenant pool_id parent refresh serial =
     transaction (
       bind (storage_create_zone E zr tenant pool_id parent refresh serial) (\<lambda>z.
       bind (get_zone_ns_records E ctx (Some (z_id z))) (\<lambda>ns.
       seq (bind (create_soa E ctx z) (\<lambda>_. return ()))
       (seq (create_ns E ctx z (map n_hostname ns))
       (seq (for_each (zr_recordsets zr) (\<lambda>rs.
               bind (create_recordset_in_storage E ctx z rs False) (\<lambda>_. return ())))
       (seq (ensure_catalog_zone_serial_increment ctx z)
       (return z)))))))"

text \<open>\<open>update_zone\<close> and \<open>_update_zone\<close>; \<open>orig\<close> holds the original values of the object.\<close>

definition update_zone :: "env \<Rightarrow> req_context \<Rightarrow> zone \<Rightarrow> zone \<Rightarrow> bool \<Rightarrow> zone sys" where
  "update_zone E ctx orig z increment_serial =
     seq (check E ''update_zone'' ctx (zone_target (z_id orig) orig))
     (seq (enforce_catalog_zone_policy ctx (z_type z))
     (seq (raise_if (ZA_tenant_id \<in> z_changed z) (BadRequest BR_plain))
     (seq (raise_if (ZA_name \<in> z_changed z) (BadRequest BR_plain))
     (seq (is_valid_ttl E ctx (if ZA_ttl \<in> z_changed z then z_ttl z else None))
     (bind (update_zone_in_storage ctx z increment_serial False) (\<lambda>z'.
      seq (if z_type z' = SECONDARY \<and> ZA_masters \<in> z_changed z
           then cast (W_perform_zone_xfr z') else return ())
      (return z')))))))"

definition create_zone_now ::
  "env \<Rightarrow> req_context \<Rightarrow> zone_request \<Rightarrow> string option \<Rightarrow> string \<Rightarrow> string option \<Rightarrow> zone list \<Rightarrow> zone sys" where
  "create_zone_now E ctx zr tenant pool_id parent subzones =
     (let serial = (if zr_type zr = SECONDARY \<and> zr_serial zr = None then Some 1 else zr_serial zr) in
      bind (generate_soa_refresh_interval E) (\<lambda>refresh.
      bind (create_zone_in_storage E ctx zr tenant pool_id parent refresh serial) (\<lambda>z.
      seq (if z_type z \<noteq> CATALOG then cast (W_create_zone z) else return ())
      (seq (if z_type z = SECONDARY then cast (W_perform_zone_xfr z) else return ())
      (seq (for_each subzones (\<lambda>s.
              bind (update_zone E ctx s (z_set_parent_zone_id (Some (z_id z)) s) True)
                (\<lambda>_. return ())))
      (return z))))))"

text \<open>\<open>zone.tenant_id or context.project_id\<close>.\<close>

definition requested_tenant :: "req_context \<Rightarrow> zone_request \<Rightarrow> string option" where
  "requested_tenant ctx zr =
     (if zr_tenant_id zr = None \<or> zr_tenant_id zr = Some '''' then c_project_id ctx
      else zr_tenant_id zr)"

definition create_zone ::
  "env \<Rightarrow> filter_name list \<Rightarrow> req_context \<Rightarrow> zone_request \<Rightarrow> zone sys" where
  "create_zone E filters ctx zr =
     (let tenant = requested_tenant ctx zr; name = default_to '''' (zr_name zr) in
      seq (check E ''create_zone'' ctx (project_target tenant @ [(''zone_name'', opt_str (zr_name zr))]))
      (seq (enforce_catalog_zone_policy ctx (zr_type zr))
      (seq (is_valid_project_id tenant)
      (seq (enforce_zone_quota E ctx tenant)
      (seq (is_valid_zone_name E ctx (zr_name zr))
      (seq (is_valid_ttl E ctx (zr_ttl zr))
      (seq (check_zone_ownership_conflicts E ctx name tenant)
      (bind (schedule_zone E filters ctx (zr_attributes zr)) (\<lambda>pool_id.
      seq (validate_pool_tsig_key E ctx pool_id)
      (bind (is_subzone E ctx name pool_id) (\<lambda>parent_zone.
      seq (raise_if (\<exists>p \<in> set_option parent_zone. z_tenant_id p \<noteq> tenant) (Forbidden IllegalChildZone))
      (bind (is_superzone E ctx name pool_id) (\<lambda>subzones.
      seq (raise_if (\<exists>s \<in> set subzones. z_tenant_id s \<noteq> tenant) (Forbidden IllegalParentZone))
      (bind (get_pool_ns_records E ctx pool_id) (\<lambda>ns.
      seq (raise_if (ns = []) (ConfigurationError NoServersConfigured))
      (create_zone_now E ctx zr tenant pool_id (map_option z_id parent_zone) subzones))))))))))))))))"

section \<open>Reading\<close>

definition get_zone :: "env \<Rightarrow> req_context \<Rightarrow> string \<Rightarrow> bool \<Rightarrow> zone sys" where
  "get_zone E ctx zone_id tenant =
     bind (storage_get_zone ctx zone_id tenant) (\<lambda>z.
     bind (if c_project_id ctx \<noteq> z_tenant_id z \<and> \<not> c_all_tenants ctx then
             bind (storage_is_zone_shared_with_project zone_id (c_project_id ctx)) (\<lambda>shared.
             seq (raise_if (\<not> shared) ZoneNotFound) (return shared))
           else return False) (\<lambda>shared.
     seq (check E ''get_zone'' ctx (zone_target zone_id z @ [(''zone_shared'', VBool shared)]))
     (return z)))"

text \<open>\<open>criterion['type'] = '!CATALOG'\<close> replaces a type the caller asked for.\<close>

definition find_zones :: "env \<Rightarrow> req_context \<Rightarrow> (zone_column \<times> crit) list \<Rightarrow> zone list sys" where
  "find_zones E ctx criterion =
     seq (check E ''find_zones'' ctx (project_target (c_project_id ctx)))
     (storage_find_zones ctx
        (if ''admin'' \<notin> set (c_roles ctx)
         then filter (\<lambda>(c, v). c \<noteq> ZC_type) criterion @ [(ZC_type, CStr ''!CATALOG'')]
         else criterion))"

definition count_zones :: "env \<Rightarrow> req_context \<Rightarrow> (zone_column \<times> crit) list \<Rightarrow> int sys" where
  "count_zones E ctx criterion =
     seq (check E ''count_zones'' ctx
            (let t = (case map_of criterion ZC_tenant_id of Some (CStr s) \<Rightarrow> VStr s | _ \<Rightarrow> VNull)
             in [(''project_id'', t), (''tenant_id'', t)]))
       (storage_count_zones ctx criterion)"

section \<open>Deleting\<close>

definition delete_zone_in_storage :: "req_context \<Rightarrow> zone \<Rightarrow> zone sys" where
  "delete_zone_in_storage ctx z =
     transaction (
       bind (storage_update_zone ctx (z_set_status PENDING (z_set_action DELETE z))) (\<lambda>z'.
       seq (ensure_catalog_zone_serial_increment ctx z') (return z')))"

definition delete_zone :: "env \<Rightarrow> req_context \<Rightarrow> string \<Rightarrow> zone sys" where
  "delete_zone E ctx zone_id =
     bind (storage_get_zone ctx zone_id True) (\<lambda>z.
     seq (enforce_catalog_zone_policy ctx (z_type z))
     (seq (check E (if c_abandon ctx then ''abandon_zone'' else ''delete_zone'') ctx
             (zone_target zone_id z))
     (seq (raise_if (z_shared z \<and> \<not> c_delete_shares ctx) ZoneShared)
     (bind (elevate_all E ctx) (\<lambda>c.
      bind (storage_count_zones c [(ZC_parent_zone_id, CStr zone_id)]) (\<lambda>children.
      seq (raise_if (0 < children) ZoneHasSubZone)
      (seq (if z_shared z \<and> c_delete_shares ctx then storage_delete_zone_shares (z_id z)
            else return ())
      (if c_abandon ctx then storage_delete_zone ctx (z_id z)
       else bind (delete_zone_in_storage ctx z) (\<lambda>z'.
            seq (cast (W_delete_zone z' (c_hard_delete ctx))) (return z'))))))))))"

text \<open>\<open>purge_zones\<close>: the criterion itself is the policy's target.\<close>

fun crit_val :: "crit \<Rightarrow> sqlval" where
  "crit_val (CStr s) = VStr s"
| "crit_val (CVal v) = v"
| "crit_val (CList vs) = VNull"

definition purge_zones ::
  "env \<Rightarrow> req_context \<Rightarrow> target \<Rightarrow> (zone_column \<times> crit) list \<Rightarrow> nat option \<Rightarrow> int option sys" where
  "purge_zones E ctx tgt criterion limit =
     seq (check E ''purge_zones'' ctx tgt) (storage_purge_zones ctx criterion limit)"

section \<open>Sharing\<close>

definition share_zone :: "env \<Rightarrow> req_context \<Rightarrow> string \<Rightarrow> string \<Rightarrow> shared_zone sys" where
  "share_zone E ctx zone_id target_project =
     transaction (
       bind (storage_get_zone ctx zone_id True) (\<lambda>z.
       seq (check E ''share_zone'' ctx (project_target (z_tenant_id z)))
       (seq (enforce_catalog_zone_policy ctx (z_type z))
       (seq (is_valid_project_id (c_project_id ctx))
       (seq (raise_if (z_tenant_id z = Some target_project) (BadRequest BR_plain))
       (storage_share_zone E \<lparr>sh_id = '''', sh_zone_id = zone_id,
          sh_project_id = opt_string (c_project_id ctx), sh_target_project_id = target_project\<rparr>))))))"

definition get_shared_zone :: "env \<Rightarrow> req_context \<Rightarrow> string \<Rightarrow> string \<Rightarrow> shared_zone sys" where
  "get_shared_zone E ctx zone_id share_id =
     bind (storage_get_shared_zone ctx zone_id share_id) (\<lambda>sh.
     seq (check E ''get_zone_share'' ctx (project_target (Some (sh_project_id sh)))) (return sh))"

definition unshare_zone :: "env \<Rightarrow> req_context \<Rightarrow> string \<Rightarrow> string \<Rightarrow> shared_zone sys" where
  "unshare_zone E ctx zone_id share_id =
     transaction (
       bind (get_shared_zone E ctx zone_id share_id) (\<lambda>sh.
       seq (check E ''unshare_zone'' ctx (project_target (Some (sh_project_id sh))))
       (bind (elevate_all E ctx) (\<lambda>c.
        bind (storage_count_zones c [(ZC_parent_zone_id, CStr (sh_zone_id sh)),
                (ZC_tenant_id, CStr (sh_target_project_id sh))]) (\<lambda>children.
        seq (raise_if (0 < children) SharedZoneHasSubZone)
        (bind (elevate_all E ctx) (\<lambda>c2.
         bind (storage_count_recordsets c2 [(RC_zone_id, CStr (sh_zone_id sh)),
                 (RC_tenant_id, CStr (sh_target_project_id sh))]) (\<lambda>owned.
         seq (raise_if (0 < owned) SharedZoneHasRecordSets)
         (storage_unshare_zone ctx zone_id share_id)))))))))"

section \<open>Moving to another pool\<close>

definition pool_move_zone ::
  "env \<Rightarrow> filter_name list \<Rightarrow> req_context \<Rightarrow> string \<Rightarrow> string option \<Rightarrow> zone sys" where
  "pool_move_zone E filters ctx zone_id target_pool_id =
     seq (check E ''pool_move_zone'' ctx
            ((''zone_id'', VStr zone_id) # project_target (c_project_id ctx)))
     (bind (storage_get_zone ctx zone_id True) (\<lambda>z.
     bind (case target_pool_id of
             Some p \<Rightarrow> return (p, z)
           | None \<Rightarrow>
               bind (schedule_zone E filters ctx (Some (z_attributes z))) (\<lambda>p.
               seq (raise_if (p = z_pool_id z) (BadRequest BR_plain))
               (return (p, z_set_pool_id p z)))) (\<lambda>(pool_id, z1).
     bind (elevate_all E ctx) (\<lambda>c.
     seq (catch (bind (storage_get_pool c pool_id) (\<lambda>_. return ()))
            (\<lambda>e. if e = PoolNotFound then Some (raise (BadRequest BR_plain)) else None))
     (seq (validate_pool_tsig_key E ctx pool_id)
     (bind (get_pool_ns_records E ctx pool_id) (\<lambda>target_ns.
     seq (raise_if (target_ns = []) (ConfigurationError NoServersConfigured))
     (bind (get_pool_ns_records E ctx (z_pool_id z)) (\<lambda>orig_ns.
     let target = remdups (map n_hostname target_ns); orig = remdups (map n_hostname orig_ns) in
     seq (for_each (filter (\<lambda>h. h \<notin> set orig) target) (\<lambda>h. add_ns E c z1 h False))
     (seq (for_each (filter (\<lambda>h. h \<notin> set target) orig) (\<lambda>h. delete_ns E c z1 h False))
     (bind (update_zone_in_storage ctx (z_set_pool_id pool_id z1) False False) (\<lambda>z2.
     bind (generate_soa_refresh_interval E) (\<lambda>refresh.
     let z3 = z_set_status PENDING (z_set_action UPDATE (z_set_refresh refresh z2)) in
     seq (cast (W_update_zone z3)) (return z3))))))))))))))"

end
