(* ===== verification/CentralFacts.thy ===== *)
theory CentralFacts
  imports CentralZones
begin

text \<open>
  What the checks of central establish and what its operations leave alone. First the checks
  that only read. Then the frame of the recordset and zone operations on the zones table: they
  keep id, name, owner and deletion mark of every row (\<open>zone_keys\<close>). Then the lookups by
  name, and what \<open>_check_zone_ownership_conflicts\<close> shows about a name.
\<close>

section \<open>Checks that only read\<close>

lemma readonly_check [keeps_rules]: "readonly (check E r c t)"
  by (simp add: check_def keeps_rules)

lemma readonly_elevate [keeps_rules]: "readonly (elevate_all E ctx)"
  by (simp add: elevate_all_def keeps_rules)

lemma readonly_find_zones [keeps_rules]:
  "readonly (storage_find_zones ctx c)" "readonly (storage_find_zone ctx c)"
  "readonly (storage_get_zone ctx i b)" "readonly (storage_count_zones ctx c)"
  by (simp_all add: storage_find_zones_def storage_find_zone_def storage_get_zone_def
      find_zone_gen_def find_zones_gen_def storage_count_zones_def keeps_rules)

lemma readonly_find_records [keeps_rules]:
  "readonly (storage_find_records ctx cr b)" "readonly (storage_find_recordset ctx cs b)"
  "readonly (storage_find_recordsets ctx cs b)" "readonly (storage_count_records ctx cr)"
  "readonly (storage_count_recordsets ctx cs)"
  by (simp_all add: storage_find_records_def storage_find_recordset_def storage_find_recordsets_def
      storage_count_records_def storage_count_recordsets_def keeps_rules)

lemma readonly_limit_check [keeps_rules]: "readonly (limit_check E ctx t vs)"
  by (simp add: readonly_def limit_check_state)

lemma readonly_get_pool [keeps_rules]:
  "readonly (storage_get_pool ctx i)" "readonly (get_pool_ns_records E ctx i)"
  by (simp_all add: storage_get_pool_def get_pool_ns_records_def keeps_rules)

lemma readonly_quota [keeps_rules]:
  "readonly (enforce_zone_quota E ctx t)" "readonly (enforce_recordset_quota E ctx z)"
  "readonly (enforce_record_quota E ctx z rs)"
  by (simp_all add: enforce_zone_quota_def enforce_recordset_quota_def enforce_record_quota_def
      keeps_rules)

lemma readonly_names [keeps_rules]:
  "readonly (is_valid_recordset_name E z n)" "readonly (is_blacklisted_zone_name E s)"
  "readonly (is_valid_project_id t)" "readonly (is_valid_ttl E ctx ttl)"
  "readonly (enforce_catalog_zone_policy ctx ty)" "readonly (check_zone_share_permission ctx z)"
  by (auto simp: is_valid_recordset_name_def is_blacklisted_zone_name_def is_valid_project_id_def
      is_valid_ttl_def enforce_catalog_zone_policy_def check_zone_share_permission_def
      storage_is_zone_shared_with_project_def Let_def
      intro!: keeps_rules split: option.splits exn.splits)

lemma readonly_in_no_child [keeps_rules]: "readonly (in_no_child E n cs)"
proof (induction cs)
  case (Cons c cs)
  show ?case unfolding readonly_def
  proof
    fix w :: world
    obtain r w' where v: "is_valid_recordset_name E c n w = (r, w')" by fastforce
    then have "w' = w" using readonly_names(1) by (rule readonlyD [rotated])
    with v Cons show "snd (in_no_child E n (c # cs) w) = w"
      by (cases r) (auto simp: readonly_def)
  qed
qed (simp add: readonly_def)

lemma readonly_placement [keeps_rules]:
  "readonly (is_valid_recordset_placement ctx z n ty i)"
  "readonly (is_valid_recordset_placement_subzone E ctx z n)"
  "readonly (is_valid_recordset_records rs)"
  by (simp_all add: is_valid_recordset_placement_def is_valid_recordset_placement_subzone_def
      is_valid_recordset_records_def keeps_rules)

lemma readonly_validate [keeps_rules]: "readonly (validate_recordset E ctx z rs)"
  by (simp add: validate_recordset_def keeps_rules)

lemma readonly_first_zone_named [keeps_rules]: "readonly (first_zone_named ctx p ns)"
proof (induction ns)
  case (Cons n ns)
  show ?case unfolding readonly_def
  proof
    fix w :: world
    obtain r w' where v: "storage_find_zone ctx [(ZC_pool_id, CStr p), (ZC_name, CStr n)] w = (r, w')"
      by fastforce
    then have "w' = w" using readonly_find_zones(2) by (rule readonlyD [rotated])
    with v Cons show "snd (first_zone_named ctx p (n # ns) w) = w"
      by (cases r) (auto simp: readonly_def)
  qed
qed (simp add: readonly_def)

lemma readonly_nearest_owned [keeps_rules]: "readonly (nearest_owned ctx t ns)"
proof (induction ns)
  case Nil
  show ?case unfolding nearest_owned.simps by (rule keeps_rules)
next
  case (Cons n ns)
  then show ?case unfolding nearest_owned.simps by (intro keeps_rules) simp_all
qed

lemma readonly_overlap [keeps_rules]:
  "readonly (is_subzone E ctx n p)" "readonly (is_superzone E ctx n p)"
  "readonly (check_zone_ownership_conflicts E ctx n t)"
  by (simp_all add: is_subzone_def is_superzone_def check_zone_ownership_conflicts_def keeps_rules)

lemma readonly_zone_name [keeps_rules]: "readonly (is_valid_zone_name E ctx n)"
  by (auto simp: is_valid_zone_name_def storage_find_tld_def Let_def
      intro!: keeps_rules split: option.splits if_splits)

lemma readonly_tsig [keeps_rules]: "readonly (validate_pool_tsig_key E ctx p)"
  by (auto simp: validate_pool_tsig_key_def storage_find_tsigkey_def
      intro!: keeps_rules split: if_splits)

lemma readonly_run_filter [keeps_rules]: "readonly (run_filter E f ctx ps a)"
  using attribute.keeps_state [of E] default_pool.keeps_state [of E] fallback.keeps_state [of E]
    in_doubt.keeps_state [of E] forced_pool.keeps_state [of E]
  by (cases f) (simp_all add: readonly_def random_filter_def)

lemma readonly_run_filters [keeps_rules]: "readonly (run_filters E fs ctx ps a)"
proof (induction fs arbitrary: ps)
  case Nil
  show ?case unfolding run_filters.simps by (rule keeps_rules)
next
  case (Cons f fs)
  show ?case unfolding run_filters.simps by (intro keeps_rules Cons)
qed

lemma readonly_schedule [keeps_rules]: "readonly (schedule_zone E fs ctx a)"
proof -
  have "readonly (case ps of [] \<Rightarrow> raise (NotFound NoValidPoolFound) | [p] \<Rightarrow> return (p_id p)
      | _ \<Rightarrow> raise (ConfigurationError MultiplePoolsFound))" for ps
    by (cases ps; cases "tl ps") (auto simp: keeps_rules)
  then show ?thesis
    unfolding schedule_zone_def storage_find_pools_def by (intro keeps_rules)
qed

section \<open>The frame of the writing operations\<close>

text \<open>Identity, name, owner and deletion mark of the zones.\<close>

definition zone_key :: "zone \<Rightarrow> string \<times> string \<times> string option \<times> string" where
  "zone_key z = (z_id z, z_name z, z_tenant_id z, z_deleted z)"

definition zone_keys :: "db \<Rightarrow> (string \<times> string \<times> string option \<times> string) list" where
  "zone_keys d = map zone_key (d_zones d)"

text \<open>A computation that leaves a part of the database as it is, and the rules for it.\<close>

definition keeps_of :: "(db \<Rightarrow> 'b) \<Rightarrow> 'a sys \<Rightarrow> bool" where
  "keeps_of p m \<longleftrightarrow> (\<forall>K. keeps (\<lambda>w. p (w_db w) = K) m)"

abbreviation keeps_keys :: "'a sys \<Rightarrow> bool" where
  "keeps_keys \<equiv> keeps_of zone_keys"

lemma keeps_keysD: "keeps_of p m \<Longrightarrow> p (w_db (snd (m w))) = p (w_db w)"
  by (simp add: keeps_of_def keeps_def)

lemma keeps_keysI: "(\<And>w. p (w_db (snd (m w))) = p (w_db w)) \<Longrightarrow> keeps_of p m"
  by (simp add: keeps_of_def keeps_def)

lemma kk_readonly: "readonly m \<Longrightarrow> keeps_of p m"
  by (simp add: keeps_of_def readonly_keeps)

lemma kk_bind: "keeps_of p m \<Longrightarrow> (\<And>x. keeps_of p (f x)) \<Longrightarrow> keeps_of p (bind m f)"
  by (simp add: keeps_of_def keeps_bind)

lemma kk_bind_value:
  "keeps_of p m \<Longrightarrow> (\<And>s x s'. m s = (Inr x, s') \<Longrightarrow> Q x) \<Longrightarrow> (\<And>x. Q x \<Longrightarrow> keeps_of p (f x)) \<Longrightarrow>
     keeps_of p (bind m f)"
  unfolding keeps_of_def by (intro allI keeps_bind_value [where Q = Q]) auto

lemma kk_seq: "keeps_of p m \<Longrightarrow> keeps_of p k \<Longrightarrow> keeps_of p (seq m k)"
  by (simp add: seq_def kk_bind)

lemma kk_catch: "keeps_of p m \<Longrightarrow> (\<And>e k. h e = Some k \<Longrightarrow> keeps_of p k) \<Longrightarrow> keeps_of p (catch m h)"
  by (simp add: keeps_of_def keeps_catch)

lemma kk_if: "(b \<Longrightarrow> keeps_of p m) \<Longrightarrow> (\<not> b \<Longrightarrow> keeps_of p k) \<Longrightarrow> keeps_of p (if b then m else k)"
  by simp

lemma kk_for_each: "(\<And>x. x \<in> set xs \<Longrightarrow> keeps_of p (f x)) \<Longrightarrow> keeps_of p (for_each xs f)"
  by (simp add: keeps_of_def keeps_for_each)

lemma kk_modify: "(\<And>w. p (w_db (f w)) = p (w_db w)) \<Longrightarrow> keeps_of p (modify f)"
  by (intro keeps_keysI) simp

lemma kk_basic:
  "keeps_of p (return x)" "keeps_of p (raise e)" "keeps_of p (gets f)" "keeps_of p (raise_if b e)"
  "keeps_of p (lift r)" "keeps_of p (new_uuid E)" "keeps_of p (cast msg)"
  by (intro keeps_keysI; simp add: cast_def)+

lemma kk_transaction: "keeps_of p m \<Longrightarrow> keeps_of p (transaction m)"
proof (rule keeps_keysI)
  fix w assume "keeps_of p m"
  then have "p (w_db (snd (m w))) = p (w_db w)" by (rule keeps_keysD)
  then show "p (w_db (snd (transaction m w))) = p (w_db w)"
    by (simp add: transaction_cases split: sum.splits)
qed

lemmas kk_rules = kk_basic kk_bind kk_seq kk_catch kk_if kk_for_each kk_transaction

lemma kk_records:
  "keeps_keys (storage_create_record E ctx zid rsid r)" "keeps_keys (storage_update_record E ctx r)"
  "keeps_keys (storage_delete_record ctx i)"
  unfolding storage_create_record_def storage_update_record_def storage_delete_record_def Let_def
  by ((intro kk_rules kk_modify; simp add: zone_keys_def kk_readonly keeps_rules)+)

lemma kk_create_records: "keeps_keys (create_records E ctx zid rsid rs)"
proof (induction rs)
  case Nil
  show ?case unfolding create_records.simps by (rule kk_rules)
next
  case (Cons r rs)
  then show ?case unfolding create_records.simps by (intro kk_rules kk_records)
qed

lemma kk_recordsets:
  "keeps_keys (storage_create_recordset E ctx zid rs)" "keeps_keys (storage_update_recordset E ctx rs)"
  "keeps_keys (storage_delete_recordset ctx i)"
  unfolding storage_create_recordset_def storage_update_recordset_def sync_records_def
    storage_delete_recordset_def Let_def
  by ((intro kk_rules kk_modify kk_records kk_create_records;
      simp add: zone_keys_def kk_readonly keeps_rules)+)

text \<open>An update of a zone keeps the keys when it changes none of them.\<close>

definition key_free :: "zone \<Rightarrow> bool" where
  "key_free z \<longleftrightarrow> {ZA_name, ZA_tenant_id, ZA_deleted} \<inter> z_changed z = {}"

lemma kk_storage_update_zone:
  assumes "key_free z"
  shows "keeps_keys (storage_update_zone ctx z)"
proof (rule keeps_keysI)
  fix w
  have free: "ZA_name \<notin> z_changed z" "ZA_tenant_id \<notin> z_changed z" "ZA_deleted \<notin> z_changed z"
    using assms by (auto simp: key_free_def)
  then have key: "zone_key (write_zone_changes z r) = zone_key r" for r
    by (simp add: zone_key_def write_zone_changes_def Let_def)
  obtain r w' where run: "update_zone_row ctx z w = (r, w')" by fastforce
  have "zone_keys (w_db w') = zone_keys (w_db w)"
  proof (cases r)
    case (Inr z')
    with run have "w' = set_db (\<lambda>d. d\<lparr>d_zones := map (\<lambda>r. if z_id r = z_id z \<and>
            matches zone_row_col (tl (zone_write_where ctx (z_id z))) r
          then write_zone_changes z r else r) (d_zones d)\<rparr>) w" using update_zone_row_Inr(2) by blast
    with key show ?thesis by (simp add: zone_keys_def)
  next
    case (Inl e)
    with run key show ?thesis
      by (auto simp: update_zone_row_def bind_Inl_iff seq_Inl_iff Let_def zone_keys_def update_where_def
          split: if_splits)
  qed
  with run free show "zone_keys (w_db (snd (storage_update_zone ctx z w))) = zone_keys (w_db w)"
    by (cases r) (simp_all add: storage_update_zone_def bind_run seq_run)
qed

lemma kk_update_zone_in_storage:
  "key_free z \<Longrightarrow> keeps_keys (update_zone_in_storage ctx z inc dly)"
  unfolding update_zone_in_storage_def Let_def
  by (intro kk_transaction kk_storage_update_zone) (auto simp: key_free_def z_sets)

lemma kk_recordset_in_storage:
  assumes "key_free z"
  shows "keeps_keys (create_recordset_in_storage E ctx z rs inc)"
    "keeps_keys (update_recordset_in_storage E ctx z rs inc dly)"
    "keeps_keys (delete_recordset_in_storage E ctx z rs inc)"
  unfolding create_recordset_in_storage_def update_recordset_in_storage_def change_serial_def
    delete_recordset_in_storage_def Let_def
  by (intro kk_rules kk_recordsets kk_update_zone_in_storage [OF assms] kk_readonly keeps_rules)+


section \<open>Lookups across projects\<close>

definition live_zones :: "db \<Rightarrow> zone set" where
  "live_zones d = {z \<in> set (d_zones d). z_deleted z = ''0''}"

lemma find_zones_all:
  assumes ctx: "sees_all c" and crit: "apply_criterion (rname_check cr) = Inr cls"
    and plain: "\<And>row t. matches zone_col cls (row, t) = matches zone_row_col cls row"
  shows "\<exists>zs. storage_find_zones c cr w = (Inr zs, w) \<and>
     set zs = load_zone (w_db w) ` {z \<in> live_zones (w_db w). matches zone_row_col cls z}"
proof -
  let ?d = "w_db w"
  let ?cls = "cls @ apply_deleted_criteria c (Some ZC_deleted)"
  have run: "storage_find_zones c cr w = (Inr (select_zones ?cls ?d), w)"
    using ctx crit by (simp add: storage_find_zones_def find_zones_gen_def zone_where_def bind_run sees_all_def)
  have cls: "matches zone_col ?cls (row, t) \<longleftrightarrow> matches zone_row_col cls row \<and> z_deleted row = ''0''" for row t
    using plain ctx by (simp add: apply_deleted_criteria_def sees_all_def)
  have "set (select_zones ?cls ?d) = load_zone ?d ` {z \<in> live_zones ?d. matches zone_row_col cls z}"
  proof (intro equalityI subsetI)
    fix z assume "z \<in> set (select_zones ?cls ?d)"
    then obtain row t where r: "(row, t) \<in> set (zone_join ?d)" "matches zone_col ?cls (row, t)"
      "z = zone_of_join (row, t)" by (metis select_zones_in)
    then have "z = load_zone ?d row" "row \<in> set (d_zones ?d)"
      using zone_join_shared zone_join_row by blast+
    with r(2) cls show "z \<in> load_zone ?d ` {z \<in> live_zones ?d. matches zone_row_col cls z}"
      by (auto simp: live_zones_def)
  next
    fix z assume "z \<in> load_zone ?d ` {z \<in> live_zones ?d. matches zone_row_col cls z}"
    then obtain row where row: "row \<in> set (d_zones ?d)" "z_deleted row = ''0''"
      "matches zone_row_col cls row" "z = load_zone ?d row" by (auto simp: live_zones_def)
    from zone_join_ex [OF row(1)] obtain t where t: "(row, t) \<in> set (zone_join ?d)" by blast
    with row cls zone_join_shared [OF t] show "z \<in> set (select_zones ?cls ?d)"
      by (metis select_zones_in)
  qed
  with run show ?thesis by blast
qed

text \<open>Names without the characters that a criterion reads as operators.\<close>

definition name_ok :: "string \<Rightarrow> bool" where
  "name_ok n \<longleftrightarrow> lower n = n \<and> set n \<inter> set ''%*!<>'' = {}"

lemma lower_no_B: "lower n = n \<Longrightarrow> CHR ''B'' \<notin> set n"
proof
  assume l: "lower n = n" and "CHR ''B'' \<in> set n"
  then obtain i where i: "i < length n" "n ! i = CHR ''B''" by (auto simp: in_set_conv_nth)
  have "lower n ! i = lower_char CHR ''B''" using i by (simp add: lower_def)
  moreover have "(of_char (lower_char CHR ''B'') :: nat) \<noteq> of_char CHR ''B''"
    by (simp add: lower_char_def)
  then have "lower_char CHR ''B'' \<noteq> CHR ''B''" by (rule contrapos_nn) simp
  ultimately show False using l i by simp
qed

lemma name_ok_plain: "name_ok n \<Longrightarrow> plain n"
  using lower_no_B [of n]
  by (cases n) (auto simp: name_ok_def plain_def startswith_def)

lemma name_ok_star: "name_ok n \<Longrightarrow> \<not> startswith n ''*''"
  by (cases n) (auto simp: name_ok_def startswith_def)

lemma name_ok_suffix: "name_ok (a @ b) \<Longrightarrow> name_ok b"
  by (auto simp: name_ok_def lower_def)

lemma find_zones_named:
  assumes "sees_all c" "name_ok n"
  shows "\<exists>zs. storage_find_zones c [(ZC_name, CStr n)] w = (Inr zs, w) \<and>
     set zs = load_zone (w_db w) ` {z \<in> live_zones (w_db w). z_name z = n}"
proof -
  have "apply_criterion (rname_check [(ZC_name, CStr n)]) = Inr [Eq ZC_name (VStr n)]"
    using assms(2) by (simp add: name_ok_star name_ok_plain)
  from find_zones_all [OF assms(1) this] show ?thesis by (simp add: zone_row_col_def)
qed

lemma find_zones_below:
  assumes "sees_all c" "name_ok n"
  shows "\<exists>zs. storage_find_zones c [(ZC_name, CStr (''%.'' @ n))] w = (Inr zs, w) \<and>
     set zs = load_zone (w_db w) ` {z \<in> live_zones (w_db w). sql_like (''%.'' @ n) (z_name z)}"
proof -
  have "apply_criterion (rname_check [(ZC_name, CStr (''%.'' @ n))]) = Inr [Like ZC_name (''%.'' @ n)]"
    by (simp add: criterion_clause_def startswith_def)
  from find_zones_all [OF assms(1) this] show ?thesis by (simp add: zone_row_col_def)
qed

section \<open>Overlapping names\<close>

text \<open>The same name, or one name encloses the other.\<close>

definition overlap :: "string \<Rightarrow> string \<Rightarrow> bool" where
  "overlap a b \<longleftrightarrow> a = b \<or> suffix (''.'' @ a) b \<or> suffix (''.'' @ b) a"

text \<open>Live zones with overlapping names have one owner.\<close>

definition separated :: "db \<Rightarrow> bool" where
  "separated d \<longleftrightarrow> (\<forall>x \<in> live_zones d. \<forall>y \<in> live_zones d.
     overlap (z_name x) (z_name y) \<longrightarrow> z_tenant_id x = z_tenant_id y)"

lemma parent_names_iff: "n \<in> set (parent_names name) \<longleftrightarrow> suffix (''.'' @ n) name"
  using split_on_suffix_iff [of "CHR ''.''" n name]
  by (fastforce simp: parent_names_def Let_def)

lemma drop_join_suffix:
  assumes "i < j" "j < length ls"
  shows "suffix (''.'' @ join ''.'' (drop j ls)) (join ''.'' (drop i ls))"
proof -
  have "drop i ls = take (j - i) (drop i ls) @ drop j ls"
    using assms by (metis append_take_drop_id drop_drop le_add_diff_inverse2 less_imp_le)
  moreover have "take (j - i) (drop i ls) \<noteq> []" "drop j ls \<noteq> []" using assms by auto
  ultimately have "join ''.'' (drop i ls)
      = join ''.'' (take (j - i) (drop i ls)) @ ''.'' @ join ''.'' (drop j ls)"
    using join_append by metis
  then show ?thesis by (auto simp: suffix_def)
qed

lemma parent_names_sorted: "sorted_wrt (\<lambda>a b. suffix (''.'' @ b) a) (parent_names name)"
  unfolding parent_names_def Let_def sorted_wrt_map
  by (rule sorted_wrt_mono_rel [OF _ sorted_wrt_upt]) (simp add: drop_join_suffix [simplified])

lemma nearest_owned_Inr:
  assumes "nearest_owned c t ns w = (Inr u, w')" "sees_all c" "separated (w_db w)"
    "\<forall>n \<in> set ns. name_ok n" "sorted_wrt (\<lambda>a b. suffix (''.'' @ b) a) ns"
    "x \<in> live_zones (w_db w)" "z_name x \<in> set ns"
  shows "z_tenant_id x = t"
  using assms
proof (induction ns)
  case Nil
  then show ?case by simp
next
  case (Cons n ns)
  from find_zones_named [of c n w] Cons.prems(2,4) obtain zs where
    zs: "storage_find_zones c [(ZC_name, CStr n)] w = (Inr zs, w)"
      "set zs = load_zone (w_db w) ` {z \<in> live_zones (w_db w). z_name z = n}" by auto
  show ?case
  proof (cases "zs = []")
    case True
    with zs(2) Cons.prems(6) have "z_name x \<noteq> n" by auto
    moreover have "nearest_owned c t ns w = (Inr u, w')"
      using Cons.prems(1) zs(1) True by (simp add: bind_run)
    ultimately show ?thesis using Cons by simp
  next
    case False
    with Cons.prems(1) zs(1) have own: "\<forall>a \<in> set zs. z_tenant_id a = t"
      by (auto simp: bind_run split: if_splits)
    from False zs(2) obtain y where y: "y \<in> live_zones (w_db w)" "z_name y = n"
      by (metis (mono_tags, lifting) empty_Collect_eq image_empty set_empty)
    then have ty: "z_tenant_id y = t" using own zs(2) by (force simp: load_zone_def)
    have "overlap (z_name x) (z_name y)"
    proof (cases "z_name x = n")
      case True
      with y show ?thesis by (simp add: overlap_def)
    next
      case False
      with Cons.prems(5,7) y show ?thesis by (auto simp: overlap_def)
    qed
    with Cons.prems(3,6) y ty show ?thesis by (auto simp: separated_def)
  qed
qed

text \<open>The steps of a successful check, all in the same state.\<close>

lemma ownership_steps:
  assumes run: "check_zone_ownership_conflicts E ctx name t w = (Inr u, w')"
  shows "\<exists>c zs u1. elevate_all E ctx w = (Inr c, w) \<and>
    storage_find_zones c [(ZC_name, CStr name)] w = (Inr zs, w) \<and> (\<forall>z \<in> set zs. z_tenant_id z = t) \<and>
    nearest_owned c t (parent_names name) w = (Inr u1, w) \<and>
    bind (storage_find_zones c [(ZC_name, CStr (''%.'' @ name))]) (\<lambda>subzones.
        raise_if (\<exists>z \<in> set subzones. z_tenant_id z \<noteq> t) (Forbidden IllegalParentZone)) w = (Inr u, w')"
proof -
  from run obtain c v where c': "elevate_all E ctx w = (Inr c, v)"
    and r1: "bind (storage_find_zones c [(ZC_name, CStr name)]) (\<lambda>same.
        seq (raise_if (\<exists>z \<in> set same. z_tenant_id z \<noteq> t) (Duplicate (Some R_Zone)))
        (seq (nearest_owned c t (parent_names name))
        (bind (storage_find_zones c [(ZC_name, CStr (''%.'' @ name))]) (\<lambda>subzones.
         raise_if (\<exists>z \<in> set subzones. z_tenant_id z \<noteq> t) (Forbidden IllegalParentZone))))) v = (Inr u, w')"
    unfolding check_zone_ownership_conflicts_def bind_Inr_iff by blast
  from c' have v: "v = w" using readonly_elevate by (rule readonlyD [rotated])
  with c' have c: "elevate_all E ctx w = (Inr c, w)" by simp
  from r1 obtain zs v1 where z': "storage_find_zones c [(ZC_name, CStr name)] w = (Inr zs, v1)"
    and r2: "seq (raise_if (\<exists>z \<in> set zs. z_tenant_id z \<noteq> t) (Duplicate (Some R_Zone)))
        (seq (nearest_owned c t (parent_names name))
        (bind (storage_find_zones c [(ZC_name, CStr (''%.'' @ name))]) (\<lambda>subzones.
         raise_if (\<exists>z \<in> set subzones. z_tenant_id z \<noteq> t) (Forbidden IllegalParentZone)))) v1 = (Inr u, w')"
    unfolding bind_Inr_iff v by blast
  from z' have v1: "v1 = w" using readonly_find_zones(1) by (rule readonlyD [rotated])
  with z' have zs: "storage_find_zones c [(ZC_name, CStr name)] w = (Inr zs, w)" by simp
  from r2 v1 obtain u1 w1 where same: "\<forall>z \<in> set zs. z_tenant_id z = t"
    and near: "nearest_owned c t (parent_names name) w = (Inr u1, w1)"
    and below: "bind (storage_find_zones c [(ZC_name, CStr (''%.'' @ name))]) (\<lambda>subzones.
        raise_if (\<exists>z \<in> set subzones. z_tenant_id z \<noteq> t) (Forbidden IllegalParentZone)) w1 = (Inr u, w')"
    unfolding seq_Inr_iff raise_if_iffs by blast
  have "w1 = w" using near readonly_nearest_owned by (rule readonlyD [rotated])
  with c zs same near below show ?thesis by blast
qed

lemma ownership_below:
  assumes run: "check_zone_ownership_conflicts E ctx name t w = (Inr u, w')"
    and "\<not> c_show_deleted ctx" "name_ok name"
    and x: "x \<in> live_zones (w_db w)" "sql_like (''%.'' @ name) (z_name x)"
  shows "z_tenant_id x = t"
proof -
  from ownership_steps [OF run] obtain c w1 zs where c: "elevate_all E ctx w = (Inr c, w)"
    and below: "bind (storage_find_zones c [(ZC_name, CStr (''%.'' @ name))]) (\<lambda>subzones.
        raise_if (\<exists>z \<in> set subzones. z_tenant_id z \<noteq> t) (Forbidden IllegalParentZone)) w = (Inr u, w')"
    by blast
  have ctx: "sees_all c" using elevate_all_Inr [OF c] assms(2) by (simp add: sees_all_def)
  from find_zones_below [OF ctx assms(3), of w] below obtain ys where
    "set ys = load_zone (w_db w) ` {z \<in> live_zones (w_db w). sql_like (''%.'' @ name) (z_name z)}"
    "\<forall>z \<in> set ys. z_tenant_id z = t" by (auto simp: bind_run split: if_splits)
  with x show ?thesis by (force simp: load_zone_def)
qed

text \<open>What a successful check says about a name and its owner.\<close>

lemma ownership_check:
  assumes run: "check_zone_ownership_conflicts E ctx name t w = (Inr u, w')"
    and "\<not> c_show_deleted ctx" "name_ok name" "separated (w_db w)"
    and x: "x \<in> live_zones (w_db w)" "overlap name (z_name x)"
  shows "z_tenant_id x = t"
proof -
  from ownership_steps [OF run] obtain c zs u1 where c: "elevate_all E ctx w = (Inr c, w)"
    and zs: "storage_find_zones c [(ZC_name, CStr name)] w = (Inr zs, w)"
    and same: "\<forall>z \<in> set zs. z_tenant_id z = t"
    and near: "nearest_owned c t (parent_names name) w = (Inr u1, w)" by blast
  have ctx: "sees_all c" using elevate_all_Inr [OF c] assms(2) by (simp add: sees_all_def)
  from find_zones_named [OF ctx assms(3), of w] zs have
    named: "set zs = load_zone (w_db w) ` {z \<in> live_zones (w_db w). z_name z = name}" by auto
  consider "z_name x = name" | "suffix (''.'' @ z_name x) name" | "suffix (''.'' @ name) (z_name x)"
    using x(2) by (auto simp: overlap_def)
  then show ?thesis
  proof cases
    case 1
    with x(1) named same show ?thesis by (force simp: load_zone_def)
  next
    case 2
    have "\<forall>n \<in> set (parent_names name). name_ok n"
      using assms(3) name_ok_suffix by (auto simp: parent_names_iff suffix_def) (metis append.assoc append_Cons append_Nil)
    with 2 near show ?thesis
      by (intro nearest_owned_Inr [OF near ctx assms(4) _ parent_names_sorted x(1)])
        (simp_all add: parent_names_iff)
  next
    case 3
    have "CHR ''%'' \<notin> set (''.'' @ name)" using assms(3) by (auto simp: name_ok_def)
    then have "sql_like (''%.'' @ name) (z_name x)" using 3 sql_like_suffix(1) by simp
    with ownership_below [OF run assms(2,3) x(1)] show ?thesis by blast
  qed
qed

section \<open>Creating a zone\<close>

lemma select_zones_fresh: "z \<in> set (select_zones cls d) \<Longrightarrow> z_changed z = {}"
  by (auto simp: select_zones_in zone_of_join_def)

lemma find_zone_key_free:
  assumes "storage_find_zone ctx cr w = (Inr z, w')"
  shows "key_free z"
proof -
  from assms obtain cls where "select_zones cls (w_db w) = [z]"
    by (auto simp: storage_find_zone_def find_zone_gen_def find_zones_gen_def bind_Inr_iff fetch_one_Inr)
  then have "z_changed z = {}" by (intro select_zones_fresh [of z cls "w_db w"]) simp
  then show ?thesis by (simp add: key_free_def)
qed

lemma find_zones_fresh:
  "storage_find_zones ctx cr w = (Inr zs, w') \<Longrightarrow> z \<in> set zs \<Longrightarrow> z_changed z = {}"
  by (auto simp: storage_find_zones_def find_zones_gen_def bind_Inr_iff dest: select_zones_fresh)

lemma kk_catalog_update:
  "keeps_keys (bind (get_catalog_zone ctx i) (\<lambda>cat.
     bind (update_zone_in_storage ctx cat True False) (\<lambda>_. return ())))"
proof (rule kk_bind_value [where Q = key_free])
  show "keeps_keys (get_catalog_zone ctx i)"
    by (simp add: get_catalog_zone_def kk_readonly keeps_rules)
  show "key_free cat" if "get_catalog_zone ctx i s = (Inr cat, s')" for s cat s'
    using that unfolding get_catalog_zone_def by (rule find_zone_key_free)
  show "keeps_keys (bind (update_zone_in_storage ctx cat True False) (\<lambda>_. return ()))"
    if "key_free cat" for cat
    by (intro kk_bind kk_update_zone_in_storage kk_basic that)
qed

lemma kk_ensure_catalog: "keeps_keys (ensure_catalog_zone_serial_increment ctx z)"
  unfolding ensure_catalog_zone_serial_increment_def
  by (rule kk_if, rule kk_basic, rule kk_bind, simp add: kk_readonly keeps_rules, rule kk_catch,
      rule kk_catalog_update) (auto simp: kk_basic split: if_splits)

lemma kk_create_soa: "key_free z \<Longrightarrow> keeps_keys (create_soa E ctx z)"
  unfolding create_soa_def
  by (intro kk_rules kk_recordset_in_storage) (simp_all add: kk_readonly keeps_rules)

lemma kk_create_ns: "key_free z \<Longrightarrow> keeps_keys (create_ns E ctx z ns)"
  unfolding create_ns_def by (intro kk_rules kk_recordset_in_storage)

lemma kk_get_zone_ns_records: "keeps_keys (get_zone_ns_records E ctx i)"
  unfolding get_zone_ns_records_def
  by (intro kk_readonly readonly_bind readonly_option readonly_seq)
    (simp_all add: keeps_rules)

lemma kk_update_zone: "key_free z \<Longrightarrow> keeps_keys (update_zone E ctx orig z inc)"
  unfolding update_zone_def
  by (intro kk_rules kk_update_zone_in_storage) (simp_all add: kk_readonly keeps_rules)

lemma storage_create_zone_Inr:
  assumes "storage_create_zone E zr tenant pool_id parent refresh serial w = (Inr z, w')"
  shows "\<exists>i shard. z = zone_row (e_conf E) (w_now w) i shard zr tenant pool_id parent refresh serial \<and>
      i = e_gen_uuid E (w_next w) \<and>
      w' = set_db (\<lambda>d. d\<lparr>d_zones := d_zones d @ [z]\<rparr>) (w\<lparr>w_next := Suc (w_next w)\<rparr>) \<and>
      unique_zone_name (d_zones (w_db w) @ [z])"
  using assms
  by (auto simp: storage_create_zone_def bind_Inr_iff seq_Inr_iff Let_def insert_row_def set_db_def
      split: if_splits)

lemma create_zone_in_storage_Inr:
  assumes run: "create_zone_in_storage E ctx zr tenant pool_id parent refresh serial w = (Inr z, w')"
  shows "zone_keys (w_db w') = zone_keys (w_db w) @ [zone_key z] \<and>
    (\<exists>i shard. z = zone_row (e_conf E) (w_now w) i shard zr tenant pool_id parent refresh serial)"
proof -
  from run obtain z0 w0 where
    new: "storage_create_zone E zr tenant pool_id parent refresh serial w = (Inr z0, w0)"
    and rest: "bind (get_zone_ns_records E ctx (Some (z_id z0))) (\<lambda>ns.
       seq (bind (create_soa E ctx z0) (\<lambda>_. return ()))
       (seq (create_ns E ctx z0 (map n_hostname ns))
       (seq (for_each (zr_recordsets zr) (\<lambda>rs.
               bind (create_recordset_in_storage E ctx z0 rs False) (\<lambda>_. return ())))
       (seq (ensure_catalog_zone_serial_increment ctx z0)
       (return z0))))) w0 = (Inr z, w')"
    unfolding create_zone_in_storage_def transaction_Inr bind_Inr_iff by blast
  from storage_create_zone_Inr [OF new] have
    z0: "\<exists>i shard. z0 = zone_row (e_conf E) (w_now w) i shard zr tenant pool_id parent refresh serial"
    and w0: "zone_keys (w_db w0) = zone_keys (w_db w) @ [zone_key z0]"
    by (auto simp: zone_keys_def)
  have free: "key_free z0" using z0 by (auto simp: key_free_def zone_row_def)
  have "keeps_keys (bind (get_zone_ns_records E ctx (Some (z_id z0))) (\<lambda>ns.
       seq (bind (create_soa E ctx z0) (\<lambda>_. return ()))
       (seq (create_ns E ctx z0 (map n_hostname ns))
       (seq (for_each (zr_recordsets zr) (\<lambda>rs.
               bind (create_recordset_in_storage E ctx z0 rs False) (\<lambda>_. return ())))
       (seq (ensure_catalog_zone_serial_increment ctx z0)
       (return z0))))))"
    by (intro kk_rules kk_get_zone_ns_records kk_create_soa kk_create_ns kk_recordset_in_storage
        kk_ensure_catalog free)
  from keeps_keysD [OF this, of w0] rest have "zone_keys (w_db w') = zone_keys (w_db w0)" by simp
  moreover from rest have "z = z0" by (auto simp: bind_Inr_iff seq_Inr_iff)
  ultimately show ?thesis using w0 z0 by simp
qed

lemma create_zone_now_Inr:
  assumes run: "create_zone_now E ctx zr tenant pool_id parent subzones w = (Inr z, w')"
    and fresh: "\<forall>s \<in> set subzones. z_changed s = {}"
  shows "zone_keys (w_db w') = zone_keys (w_db w) @ [zone_key z] \<and>
    (\<exists>now i shard refresh serial.
       z = zone_row (e_conf E) now i shard zr tenant pool_id parent refresh serial)"
proof -
  let ?serial = "if zr_type zr = SECONDARY \<and> zr_serial zr = None then Some 1 else zr_serial zr"
  from run obtain refresh z0 w0 where
    new: "create_zone_in_storage E ctx zr tenant pool_id parent refresh ?serial w = (Inr z0, w0)"
    and rest: "seq (if z_type z0 \<noteq> CATALOG then cast (W_create_zone z0) else return ())
      (seq (if z_type z0 = SECONDARY then cast (W_perform_zone_xfr z0) else return ())
      (seq (for_each subzones (\<lambda>s.
              bind (update_zone E ctx s (z_set_parent_zone_id (Some (z_id z0)) s) True)
                (\<lambda>_. return ())))
      (return z0))) w0 = (Inr z, w')"
    by (auto simp: create_zone_now_def generate_soa_refresh_interval_def Let_def bind_Inr_iff)
  have "key_free (z_set_parent_zone_id p s)" if "s \<in> set subzones" for s p
    using fresh that by (auto simp: key_free_def z_sets)
  then have "keeps_keys (seq (if z_type z0 \<noteq> CATALOG then cast (W_create_zone z0) else return ())
      (seq (if z_type z0 = SECONDARY then cast (W_perform_zone_xfr z0) else return ())
      (seq (for_each subzones (\<lambda>s.
              bind (update_zone E ctx s (z_set_parent_zone_id (Some (z_id z0)) s) True)
                (\<lambda>_. return ())))
      (return z0))))"
    by (intro kk_rules kk_update_zone)
  from keeps_keysD [OF this, of w0] rest have "zone_keys (w_db w') = zone_keys (w_db w0)" by simp
  moreover from rest have "z = z0" by (auto simp: seq_Inr_iff)
  ultimately show ?thesis using create_zone_in_storage_Inr [OF new]
    by (simp only:) blast
qed

text \<open>Any run: it either stopped at a check, with the state as it was, or passed them all.\<close>

lemma seq_ro:
  assumes "seq m k w = (r, w')" "readonly m"
    and "\<And>e. r = Inl e \<Longrightarrow> w' = w \<Longrightarrow> R" "\<And>x. m w = (Inr x, w) \<Longrightarrow> k w = (r, w') \<Longrightarrow> R"
  shows R
proof -
  obtain q v where m: "m w = (q, v)" by fastforce
  with assms(2) have "v = w" by (rule readonlyD)
  with m assms(1,3,4) show R by (cases q) (auto simp: seq_run)
qed

lemma bind_ro:
  assumes "bind m f w = (r, w')" "readonly m"
    and "\<And>e. r = Inl e \<Longrightarrow> w' = w \<Longrightarrow> R" "\<And>x. m w = (Inr x, w) \<Longrightarrow> f x w = (r, w') \<Longrightarrow> R"
  shows R
proof -
  obtain q v where m: "m w = (q, v)" by fastforce
  with assms(2) have "v = w" by (rule readonlyD)
  with m assms(1,3,4) show R by (cases q) (auto simp: bind_run)
qed

lemma create_zone_cases:
  assumes run: "create_zone E fs ctx zr w = (r, w')"
  obtains e where "r = Inl e" "w' = w"
  | pool_id parent subzones u v where
      "check_zone_ownership_conflicts E ctx (default_to '''' (zr_name zr)) (requested_tenant ctx zr) w
         = (Inr u, w)"
      "enforce_zone_quota E ctx (requested_tenant ctx zr) w = (Inr v, w)"
      "is_superzone E ctx (default_to '''' (zr_name zr)) pool_id w = (Inr subzones, w)"
      "create_zone_now E ctx zr (requested_tenant ctx zr) pool_id parent subzones w = (r, w')"
  using run unfolding create_zone_def Let_def
  by (elim seq_ro bind_ro) ((rule keeps_rules; fail) | blast)+

end
