(* ===== verification/CentralProps.thy ===== *)
theory CentralProps
  imports CentralFacts
begin

text \<open>
  Properties of central's zone and recordset operations, over the facts of \<open>CentralFacts\<close>:
  overlapping zones keep one owner, quotas hold after a creation, a zone with children is not
  deleted, CNAME recordsets stay alone at their name, and a failed recordset operation leaves
  the database as it was.
\<close>

section \<open>Zones\<close>

lemma overlap_sym: "overlap a b \<longleftrightarrow> overlap b a"
  by (auto simp: overlap_def)

lemma separated_keys:
  "separated d \<longleftrightarrow> (\<forall>(i, n, t, x) \<in> set (zone_keys d). \<forall>(j, m, u, y) \<in> set (zone_keys d).
     x = ''0'' \<longrightarrow> y = ''0'' \<longrightarrow> overlap n m \<longrightarrow> t = u)"
  by (auto simp: separated_def zone_keys_def zone_key_def live_zones_def)

lemma is_superzone_fresh:
  assumes "is_superzone E ctx n p w = (Inr zs, w')" "z \<in> set zs"
  shows "z_changed z = {}"
  using assms by (auto simp: is_superzone_def bind_Inr_iff dest: find_zones_fresh)

text \<open>Whatever the outcome, at most one zone appears, and only after the checks.\<close>

lemma create_zone_now_keys:
  assumes run: "create_zone_now E ctx zr tenant pool_id parent subzones w = (r, w')"
    and fresh: "\<forall>s \<in> set subzones. z_changed s = {}"
  shows "zone_keys (w_db w') = zone_keys (w_db w) \<or>
    (\<exists>i. zone_keys (w_db w') = zone_keys (w_db w) @ [(i, default_to [] (zr_name zr), tenant, ''0'')])"
proof -
  let ?serial = "if zr_type zr = SECONDARY \<and> zr_serial zr = None then Some 1 else zr_serial zr"
  obtain refresh where ref: "generate_soa_refresh_interval E w = (Inr refresh, w)"
    by (simp add: generate_soa_refresh_interval_def)
  obtain q w0 where
    new: "create_zone_in_storage E ctx zr tenant pool_id parent refresh ?serial w = (q, w0)" by fastforce
  show ?thesis
  proof (cases q)
    case (Inl e)
    with new have "w_db w0 = w_db w"
      unfolding create_zone_in_storage_def by (blast dest: transaction_Inl)
    moreover have "w' = w0" using run ref new Inl by (simp add: create_zone_now_def Let_def bind_run)
    ultimately show ?thesis by simp
  next
    case (Inr z0)
    have "key_free (z_set_parent_zone_id p s)" if "s \<in> set subzones" for s p
      using fresh that by (auto simp: key_free_def z_sets)
    then have "keeps_keys (seq (if z_type z0 \<noteq> CATALOG then cast (W_create_zone z0) else return ())
        (seq (if z_type z0 = SECONDARY then cast (W_perform_zone_xfr z0) else return ())
        (seq (for_each subzones (\<lambda>s.
                bind (update_zone E ctx s (z_set_parent_zone_id (Some (z_id z0)) s) True)
                  (\<lambda>_. return ())))
        (return z0))))"
      by (intro kk_rules kk_update_zone)
    from keeps_keysD [OF this, of w0] have "zone_keys (w_db w') = zone_keys (w_db w0)"
      using run ref new Inr by (simp add: create_zone_now_def Let_def bind_run)
    moreover have "zone_keys (w_db w0) = zone_keys (w_db w) @ [zone_key z0]"
      and "\<exists>i. zone_key z0 = (i, default_to [] (zr_name zr), tenant, ''0'')"
      using create_zone_in_storage_Inr [of E ctx zr tenant pool_id parent refresh ?serial w z0 w0] new Inr
      by (auto simp: zone_key_def zone_row_def)
    ultimately show ?thesis by auto
  qed
qed

text \<open>C1: creating a zone never lets two projects own overlapping live zones: if the live zones
  whose names coincide or enclose one another have one owner before a call of \<open>create_zone\<close>,
  they have one owner after it, in every pool, whatever the scheduler picked and wherever the
  call failed.\<close>

theorem create_zone_separated:
  assumes name: "zr_name zr = Some n" "name_ok n" and ctx: "\<not> c_show_deleted ctx"
    and sep: "separated (w_db w)"
  shows "separated (w_db (snd (create_zone E fs ctx zr w)))"
proof -
  let ?t = "requested_tenant ctx zr"
  obtain r w' where run: "create_zone E fs ctx zr w = (r, w')" by fastforce
  from run show ?thesis
  proof (cases rule: create_zone_cases)
    case (1 e)
    with run sep show ?thesis by simp
  next
    case (2 pool_id parent subzones u v)
    have n: "default_to [] (zr_name zr) = n" using name by (simp add: default_to_def)
    have "\<forall>s \<in> set subzones. z_changed s = {}" using is_superzone_fresh [OF 2(3)] by blast
    from create_zone_now_keys [OF 2(4) this] have keys: "zone_keys (w_db w') = zone_keys (w_db w) \<or>
        (\<exists>i. zone_keys (w_db w') = zone_keys (w_db w) @ [(i, n, ?t, ''0'')])" unfolding n .
    note owned = ownership_check [OF 2(1) ctx _ sep, unfolded n, OF name(2)]
    have old: "own = ?t" if k: "(i, m, own, x) \<in> set (zone_keys (w_db w))" "x = ''0''" "overlap n m" for i m own x
    proof -
      from k obtain y where "y \<in> live_zones (w_db w)" "z_name y = m" "z_tenant_id y = own"
        by (auto simp: zone_keys_def zone_key_def live_zones_def)
      with owned [of y] k(3) show ?thesis by simp
    qed
    from keys show ?thesis
    proof (elim disjE exE)
      assume "zone_keys (w_db w') = zone_keys (w_db w)"
      with sep run show ?thesis by (simp add: separated_keys)
    next
      fix i assume k: "zone_keys (w_db w') = zone_keys (w_db w) @ [(i, n, ?t, ''0'')]"
      have "separated (w_db w')"
        unfolding separated_keys k
        using sep [unfolded separated_keys] old overlap_sym by fastforce
      with run show ?thesis by simp
    qed
  qed
qed

definition sample_request :: "string \<Rightarrow> zone_request" where
  "sample_request n = \<lparr>zr_tenant_id = None, zr_name = Some n, zr_email = ''a@b.c'', zr_ttl = None,
     zr_retry = None, zr_expire = None, zr_minimum = None, zr_serial = None, zr_description = None,
     zr_type = PRIMARY, zr_attributes = None, zr_masters = None, zr_recordsets = []\<rparr>"

lemma sample_name_ok [simp]: "name_ok ''e.o.''" "name_ok ''a.e.o.''" "name_ok ''a_b.o.''"
  by (simp_all add: name_ok_def lower_def lower_char_def)

lemma separated_single: "d_zones d = [z] \<Longrightarrow> separated d"
  by (auto simp: separated_def live_zones_def)

theorem create_zone_separated_witness:
  "separated (w_db (snd (create_zone sample_env [DefaultPoolFilter] (tenant_context ''t2'')
     (sample_request ''a.e.o.'') (world_of sample_db))))"
proof (rule create_zone_separated)
  show "zr_name (sample_request ''a.e.o.'') = Some ''a.e.o.''" by (simp add: sample_request_def)
  show "\<not> c_show_deleted (tenant_context ''t2'')" by (simp add: tenant_context_def admin_context_def)
  show "separated (w_db (world_of sample_db))" by (simp add: separated_single)
qed simp

text \<open>The zones a project owns, and its limit.\<close>

definition owned_zones :: "string \<Rightarrow> db \<Rightarrow> nat" where
  "owned_zones t d = length (filter (\<lambda>z. z_deleted z = ''0'' \<and> z_tenant_id z = Some t) (d_zones d))"

definition zone_quota :: "env \<Rightarrow> req_context \<Rightarrow> string \<Rightarrow> db \<Rightarrow> int option" where
  "zone_quota E ctx t d = (get_default_quotas (e_conf E) ++ storage_quotas ctx t d) ''zones''"

lemma owned_zones_keys:
  "owned_zones t d = length (filter (\<lambda>(i, n, u, x). x = ''0'' \<and> u = Some t) (zone_keys d))"
  by (simp add: owned_zones_def zone_keys_def zone_key_def filter_map comp_def)

lemma count_owned_zones:
  assumes "plain t" "c_all_tenants ctx \<or> c_project_id ctx = Some t" "\<not> c_show_deleted ctx"
  shows "storage_count_zones ctx [(ZC_tenant_id, CStr t)] w = (Inr (int (owned_zones t (w_db w))), w)"
proof -
  have "matches zone_row_col (Eq ZC_tenant_id (VStr t) # apply_tenant_criteria ctx (Some ZC_tenant_id)
      ZC_target_project_id True False @ apply_deleted_criteria ctx (Some ZC_deleted))
    = (\<lambda>z. z_deleted z = ''0'' \<and> z_tenant_id z = Some t)"
    using assms(2,3) by (auto simp: fun_eq_iff apply_tenant_criteria_def apply_deleted_criteria_def
        zone_row_col_def)
  then show ?thesis
    using assms(1) by (simp add: storage_count_zones_def bind_run owned_zones_def select_where_def)
qed

text \<open>C5: \<open>create_zone\<close> respects the quota of zones: when the project's limit is not negative, the
  project has afterwards no more live zones than the limit in force, or than it had before,
  provided the caller acts for the project or sees all of them.\<close>

theorem create_zone_quota:
  assumes t: "requested_tenant ctx zr = Some t" "plain t"
    and ctx: "c_all_tenants ctx \<or> c_project_id ctx = Some t" "\<not> c_show_deleted ctx"
    and limit: "zone_quota E ctx t (w_db w) = Some l" "0 \<le> l"
  shows "int (owned_zones t (w_db (snd (create_zone E fs ctx zr w)))) \<le> max l (int (owned_zones t (w_db w)))"
proof -
  obtain r w' where run: "create_zone E fs ctx zr w = (r, w')" by fastforce
  from run show ?thesis
  proof (cases rule: create_zone_cases)
    case (2 pool_id parent subzones u v)
    have "limit_check E ctx t [(''zones'', int (owned_zones t (w_db w)) + 1)] w = (Inr v, w)"
      using 2(2) t count_owned_zones [OF t(2) ctx, of w]
      by (simp add: enforce_zone_quota_def bind_run opt_string_def)
    from limit_check_Inr(2) [OF this, of "''zones''"] limit have
      "int (owned_zones t (w_db w)) + 1 \<le> l" by (auto simp: zone_quota_def fits_def)
    moreover have "\<forall>s \<in> set subzones. z_changed s = {}" using is_superzone_fresh [OF 2(3)] by blast
    from create_zone_now_keys [OF 2(4) this] have "owned_zones t (w_db w') \<le> owned_zones t (w_db w) + 1"
      by (auto simp: owned_zones_keys)
    ultimately show ?thesis using run by simp
  qed (simp add: run)
qed

theorem create_zone_quota_witness:
  "int (owned_zones ''t1'' (w_db (snd (create_zone sample_env [DefaultPoolFilter] (tenant_context ''t1'')
     (sample_request ''a.e.o.'') (world_of sample_db))))) \<le> 10"
proof -
  have "d_quotas sample_db = []" by (simp add: sample_db_def empty_db_def)
  then have l: "zone_quota sample_env (tenant_context ''t1'') ''t1'' (w_db (world_of sample_db)) = Some 10"
    by (simp add: zone_quota_def storage_quotas_def visible_quotas_def get_default_quotas_def
        sample_env_def sample_config_def)
  have "owned_zones ''t1'' (w_db (world_of sample_db)) = 1" by (simp add: owned_zones_def)
  with create_zone_quota [OF _ _ _ _ l, of "sample_request ''a.e.o.''" "[DefaultPoolFilter]"]
  show ?thesis
    by (simp add: requested_tenant_def sample_request_def tenant_context_def admin_context_def
        plain_def startswith_def)
qed

text \<open>a zone that a foreign project's zone name only resembles is refused: the underscore of a
  zone name is a wildcard in the LIKE pattern, so a live zone of another project that matches
  \<open>%.<name>\<close> blocks the creation even when it is no subzone of the name.\<close>

theorem create_zone_wildcard_refused:
  assumes "zr_name zr = Some n" "name_ok n" "\<not> c_show_deleted ctx"
    and "y \<in> live_zones (w_db w)" "sql_like (''%.'' @ n) (z_name y)"
    and "z_tenant_id y \<noteq> requested_tenant ctx zr"
  shows "\<exists>e. fst (create_zone E fs ctx zr w) = Inl e"
proof -
  let ?t = "requested_tenant ctx zr"
  obtain r w' where run: "create_zone E fs ctx zr w = (r, w')" by fastforce
  from run show ?thesis
  proof (cases rule: create_zone_cases)
    case (2 pool_id parent subzones u v)
    from 2(1) assms(1) have chk: "check_zone_ownership_conflicts E ctx n ?t w = (Inr u, w)"
      by (simp add: default_to_def)
    show ?thesis using ownership_below [OF chk assms(3,2,4,5)] assms(6) by simp
  qed (simp add: run)
qed

definition wildcard_db :: db where
  "wildcard_db = empty_db\<lparr>d_zones := [sample_zone ''z1'' ''t1'' ''x.axb.o.'']\<rparr>"

theorem create_zone_wildcard_refused_witness:
  "\<not> overlap ''a_b.o.'' ''x.axb.o.'' \<and>
   (\<exists>e. fst (create_zone sample_env [DefaultPoolFilter] (tenant_context ''t2'')
      (sample_request ''a_b.o.'') (world_of wildcard_db)) = Inl e)"
proof
  show "\<not> overlap ''a_b.o.'' ''x.axb.o.''"
    by (simp add: overlap_def suffix_def append_eq_Cons_conv)
  show "\<exists>e. fst (create_zone sample_env [DefaultPoolFilter] (tenant_context ''t2'')
      (sample_request ''a_b.o.'') (world_of wildcard_db)) = Inl e"
    by (rule create_zone_wildcard_refused [where n = "''a_b.o.''" and y = "sample_zone ''z1'' ''t1'' ''x.axb.o.''"])
      (simp_all add: sample_request_def tenant_context_def admin_context_def live_zones_def
        wildcard_db_def requested_tenant_def)
qed

text \<open>a zone whose name starts with the upper case letters \<open>BETWEEN\<close> cannot be created: the
  lookup by name reads the name as the range operator of a criterion and fails.\<close>

theorem create_zone_between_fails:
  assumes "zr_name zr = Some (''BETWEEN'' @ s)" "CHR ''%'' \<notin> set s" "CHR '' '' \<notin> set s"
  shows "\<exists>e. fst (create_zone E fs ctx zr w) = Inl e"
proof -
  obtain r w' where run: "create_zone E fs ctx zr w = (r, w')" by fastforce
  have "dropWhile (\<lambda>c. c \<noteq> CHR '' '') (''BETWEEN'' @ s) = []" using assms(3) by auto
  then have "between_elements (''BETWEEN'' @ s) = Inl PyIndexError"
    unfolding between_elements_def by (simp only: list.case)
  then have "criterion_clause ZC_name (CStr (''BETWEEN'' @ s)) = Inl PyIndexError"
    using assms(2) by (simp add: criterion_clause_def startswith_def)
  then have find: "storage_find_zones c [(ZC_name, CStr (''BETWEEN'' @ s))] w = (Inl PyIndexError, w)" for c w
    by (simp add: storage_find_zones_def find_zones_gen_def zone_where_def bind_run startswith_def)
  from run show ?thesis
  proof (cases rule: create_zone_cases)
    case (2 pool_id parent subzones u v)
    from 2(1) assms(1) find show ?thesis
      by (simp add: default_to_def check_zone_ownership_conflicts_def bind_run
          split: prod.splits sum.splits)
  qed (simp add: run)
qed

theorem create_zone_between_fails_witness:
  "\<exists>e. fst (create_zone sample_env [DefaultPoolFilter] (tenant_context ''t2'')
     (sample_request ''BETWEEN.org.'') (world_of sample_db)) = Inl e"
  by (rule create_zone_between_fails [where s = "''.org.''"]) (simp_all add: sample_request_def)


section \<open>Deleting\<close>

lemma count_children:
  assumes "sees_all c" "plain i" "y \<in> live_zones (w_db w)" "z_parent_zone_id y = Some i"
  shows "\<exists>n. storage_count_zones c [(ZC_parent_zone_id, CStr i)] w = (Inr n, w) \<and> 0 < n"
proof -
  let ?cls = "Eq ZC_parent_zone_id (VStr i) # apply_deleted_criteria c (Some ZC_deleted)"
  have "matches zone_row_col ?cls y"
    using assms by (simp add: apply_deleted_criteria_def zone_row_col_def sees_all_def live_zones_def)
  then have "y \<in> set (select_where zone_row_col ?cls (d_zones (w_db w)))"
    using assms(3) by (simp add: select_where_def live_zones_def)
  then have "0 < length (select_where zone_row_col ?cls (d_zones (w_db w)))"
    by (rule length_pos_if_in_set)
  with assms(1,2) show ?thesis by (simp add: storage_count_zones_def bind_run sees_all_def)
qed

text \<open>C8: a zone that still has a live child zone, in whatever project, is neither deleted nor
  abandoned: \<open>delete_zone\<close> fails and the database is untouched.\<close>

theorem delete_zone_keeps_parents:
  assumes ctx: "\<not> c_show_deleted ctx" and "plain zone_id"
    and y: "y \<in> live_zones (w_db w)" "z_parent_zone_id y = Some zone_id"
  shows "\<exists>e. delete_zone E ctx zone_id w = (Inl e, w)"
proof -
  obtain r w' where run: "delete_zone E ctx zone_id w = (r, w')" by fastforce
  then have "(\<exists>e. r = Inl e \<and> w' = w) \<or> (\<exists>c children u. elevate_all E ctx w = (Inr c, w) \<and>
      storage_count_zones c [(ZC_parent_zone_id, CStr zone_id)] w = (Inr children, w) \<and>
      raise_if (0 < children) ZoneHasSubZone w = (Inr u, w))"
    unfolding delete_zone_def
    by - ((erule seq_ro bind_ro, rule keeps_rules, blast)+, blast)
  moreover have False if "elevate_all E ctx w = (Inr c, w)"
    "storage_count_zones c [(ZC_parent_zone_id, CStr zone_id)] w = (Inr children, w)"
    "raise_if (0 < children) ZoneHasSubZone w = (Inr u, w)" for c children u
  proof -
    have "sees_all c" using elevate_all_Inr [OF that(1)] ctx by (simp add: sees_all_def)
    from count_children [OF this assms(2) y] that(2,3) show False by (auto split: if_splits)
  qed
  ultimately show ?thesis using run by blast
qed

definition family_db :: db where
  "family_db = empty_db\<lparr>d_zones := [sample_zone ''z1'' ''t1'' ''e.o.'',
     (sample_zone ''z2'' ''t2'' ''a.e.o.'')\<lparr>z_parent_zone_id := Some ''z1''\<rparr>]\<rparr>"

theorem delete_zone_keeps_parents_witness:
  "\<exists>e. delete_zone sample_env (tenant_context ''t1'') ''z1'' (world_of family_db)
     = (Inl e, world_of family_db)"
  by (rule delete_zone_keeps_parents
        [where y = "(sample_zone ''z2'' ''t2'' ''a.e.o.'')\<lparr>z_parent_zone_id := Some ''z1''\<rparr>"])
    (simp_all add: tenant_context_def admin_context_def live_zones_def family_db_def)

section \<open>Recordsets\<close>

lemma bind_return_db:
  "w_db (snd (bind m (\<lambda>p. return (f p)) w)) = w_db (snd (m w))"
  by (auto simp: bind_run split: prod.splits sum.splits)

lemma transaction_db:
  "w_db (snd (transaction m w)) = w_db w \<or> (\<exists>x. fst (transaction m w) = Inr x)"
  by (auto simp: transaction_def split: prod.splits sum.splits)

text \<open>C6: the recordset operations are atomic: \<open>create_recordset\<close>, \<open>update_recordset\<close> and
  \<open>delete_recordset\<close> either succeed or leave every table as it was.\<close>

theorem recordset_operations_atomic:
  "(w_db (snd (create_recordset E ctx zone_id rs inc w)) = w_db w \<or>
      (\<exists>x. fst (create_recordset E ctx zone_id rs inc w) = Inr x)) \<and>
   (w_db (snd (update_recordset E ctx rs inc w)) = w_db w \<or>
      (\<exists>x. fst (update_recordset E ctx rs inc w) = Inr x)) \<and>
   (w_db (snd (delete_recordset E ctx zone_id rsid inc w)) = w_db w \<or>
      (\<exists>x. fst (delete_recordset E ctx zone_id rsid inc w) = Inr x))"
proof -
  have last: "bind (transaction m) (\<lambda>p. return (fst p)) w = (r, w') \<Longrightarrow>
      w_db w' = w_db w \<or> (\<exists>x. r = Inr x)" for r w' and m :: "(recordset \<times> zone) sys" and w
    using transaction_db [of m w]
    by (cases "transaction m w") (auto simp: bind_run split: sum.splits)
  show ?thesis
  proof (intro conjI)
    obtain r w' where run: "create_recordset E ctx zone_id rs inc w = (r, w')" by fastforce
    then have "w_db w' = w_db w \<or> (\<exists>x. r = Inr x)"
      unfolding create_recordset_def create_recordset_in_storage_def
      by - ((erule seq_ro bind_ro, rule keeps_rules, blast)+, erule last)
    with run show "w_db (snd (create_recordset E ctx zone_id rs inc w)) = w_db w \<or>
      (\<exists>x. fst (create_recordset E ctx zone_id rs inc w) = Inr x)" by simp
  next
    obtain r w' where run: "update_recordset E ctx rs inc w = (r, w')" by fastforce
    then have "w_db w' = w_db w \<or> (\<exists>x. r = Inr x)"
      unfolding update_recordset_def update_recordset_in_storage_def
      by - ((erule seq_ro bind_ro, rule keeps_rules, blast)+, erule last)
    with run show "w_db (snd (update_recordset E ctx rs inc w)) = w_db w \<or>
      (\<exists>x. fst (update_recordset E ctx rs inc w) = Inr x)" by simp
  next
    obtain r w' where run: "delete_recordset E ctx zone_id rsid inc w = (r, w')" by fastforce
    then have "w_db w' = w_db w \<or> (\<exists>x. r = Inr x)"
      unfolding delete_recordset_def delete_recordset_in_storage_def
      by - ((erule seq_ro bind_ro, rule keeps_rules, blast)+, erule last)
    with run show "w_db (snd (delete_recordset E ctx zone_id rsid inc w)) = w_db w \<or>
      (\<exists>x. fst (delete_recordset E ctx zone_id rsid inc w) = Inr x)" by simp
  qed
qed


text \<open>A CNAME recordset is alone at its name in its zone; recordsets have an id.\<close>

definition cname_alone :: "recordset list \<Rightarrow> bool" where
  "cname_alone rows \<longleftrightarrow> (\<forall>a \<in> set rows. rs_id a \<noteq> None) \<and>
     (\<forall>a \<in> set rows. \<forall>b \<in> set rows.
        rs_zone_id a = rs_zone_id b \<longrightarrow> rs_name a = rs_name b \<longrightarrow> rs_type a = ''CNAME'' \<longrightarrow> a = b)"

lemma keeps_recordsets_records: "keeps_of d_recordsets (create_records E ctx zid rsid rs)"
proof (induction rs)
  case Nil
  show ?case unfolding create_records.simps by (rule kk_rules)
next
  case (Cons r rs)
  have "keeps_of d_recordsets (storage_create_record E ctx zid rsid r)"
    unfolding storage_create_record_def Let_def by (intro kk_rules kk_modify) simp
  with Cons show ?case unfolding create_records.simps by (intro kk_rules)
qed

lemma keeps_recordsets_zone:
  assumes "ZA_tenant_id \<notin> z_changed z"
  shows "keeps_of d_recordsets (update_zone_in_storage ctx z inc dly)"
proof -
  have "keeps_of d_recordsets (update_zone_row ctx z')" for z'
    unfolding update_zone_row_def Let_def by (intro kk_rules kk_modify) simp
  then show ?thesis
    using assms unfolding update_zone_in_storage_def storage_update_zone_def Let_def
    by (intro kk_rules) (auto simp: z_sets split: if_splits)
qed

lemma storage_create_recordset_rows:
  assumes "storage_create_recordset E ctx zid rs w = (Inr new, w')"
  shows "\<exists>row. d_recordsets (w_db w') = d_recordsets (w_db w) @ [row] \<and> rs_zone_id row = zid \<and>
     rs_name row = rs_name rs \<and> rs_type row = rs_type rs \<and> rs_id row \<noteq> None"
proof -
  let ?row = "rs\<lparr>rs_tenant_id := c_project_id ctx, rs_zone_id := zid, rs_id := Some (e_gen_uuid E (w_next w)),
                  rs_version := 1, rs_records := [], rs_changed := {}\<rparr>"
  let ?w1 = "set_db (\<lambda>d. d\<lparr>d_recordsets := d_recordsets (w_db w) @ [?row]\<rparr>) (w\<lparr>w_next := Suc (w_next w)\<rparr>)"
  from assms obtain recs w2 where
    "create_records E ctx zid (e_gen_uuid E (w_next w)) (rs_records rs) ?w1 = (Inr recs, w2)" "w' = w2"
    by (auto simp: storage_create_recordset_def bind_Inr_iff seq_Inr_iff Let_def insert_row_def
        split: if_splits)
  with keeps_keysD [OF keeps_recordsets_records, of E ctx zid "e_gen_uuid E (w_next w)" "rs_records rs" ?w1]
  have "d_recordsets (w_db w') = d_recordsets (w_db w) @ [?row]" by simp
  then show ?thesis by (intro exI [of _ ?row]) simp
qed

lemma create_in_storage_rows:
  assumes run: "create_recordset_in_storage E c z rs inc w = (Inr p, w')" and "z_changed z = {}"
  shows "is_valid_recordset_placement c z (rs_name rs) (rs_type rs) (rs_id rs) w = (Inr (), w) \<and>
    (\<exists>row. d_recordsets (w_db w') = d_recordsets (w_db w) @ [row] \<and> rs_zone_id row = z_id z \<and>
     rs_name row = rs_name rs \<and> rs_type row = rs_type rs \<and> rs_id row \<noteq> None)"
proof -
  let ?rs1 = "\<lambda>serial. rs\<lparr>rs_records := map (mark_record CREATE serial) (rs_records rs)\<rparr>"
  from run obtain serial w1 u v where
    val: "validate_recordset E c z rs w = (Inr u, w)"
    and rest: "bind (storage_create_recordset E c (z_id z) (?rs1 serial)) (\<lambda>new.
        bind (if rs_records rs \<noteq> [] \<and> inc
              then update_zone_in_storage c z inc False else return z) (\<lambda>z'.
        return (new, z'))) w = (Inr p, w')"
    unfolding create_recordset_in_storage_def transaction_Inr change_serial_def Let_def
    by - ((erule seq_ro bind_ro, (intro keeps_rules; fail), (simp; fail))+, blast)
  from rest obtain new w2 where
    new: "storage_create_recordset E c (z_id z) (?rs1 serial) w = (Inr new, w2)"
    and upd: "bind (if rs_records rs \<noteq> [] \<and> inc
              then update_zone_in_storage c z inc False else return z) (\<lambda>z'. return (new, z')) w2 = (Inr p, w')"
    unfolding bind_Inr_iff by blast
  have "keeps_of d_recordsets (bind (if rs_records rs \<noteq> [] \<and> inc
              then update_zone_in_storage c z inc False else return z) (\<lambda>z'. return (new, z')))"
    using assms(2) by (intro kk_rules keeps_recordsets_zone) simp
  from keeps_keysD [OF this, of w2] upd have same: "d_recordsets (w_db w') = d_recordsets (w_db w2)" by simp
  from val have "is_valid_recordset_placement c z (rs_name rs) (rs_type rs) (rs_id rs) w = (Inr (), w)"
    unfolding validate_recordset_def
    by - ((erule seq_ro, rule keeps_rules, (simp; fail))+, auto)
  with storage_create_recordset_rows [OF new] same show ?thesis by auto
qed

text \<open>The lookup of \<open>_is_valid_recordset_placement\<close>: all rows of the live zone at the name.\<close>

lemma placement_lookup:
  assumes "c_all_tenants c" "plain (z_id z)" "plain name" "plain (rev name)" "zone_live (w_db w) (z_id z)"
    and ok: "is_valid_recordset_placement c z name typ None w = (Inr u, w')"
    and ids: "\<forall>a \<in> set (d_recordsets (w_db w)). rs_id a \<noteq> None"
    and a: "a \<in> set (d_recordsets (w_db w))" "rs_zone_id a = z_id z" "rs_name a = name"
  shows "typ \<noteq> ''CNAME'' \<and> rs_type a \<noteq> ''CNAME''"
proof (rule ccontr)
  assume contra: "\<not> (typ \<noteq> ''CNAME'' \<and> rs_type a \<noteq> ''CNAME'')"
  let ?cr = "[(RC_zone_id, CStr (z_id z)), (RC_name, CStr name)] @
               (if typ \<noteq> ''CNAME'' then [(RC_type, CStr ''CNAME'')] else [])"
  have pc: "plain ''CNAME''" by (simp add: plain_def startswith_def)
  obtain cls where cls: "rs_where c (rs_rname_check ?cr) True False = Inr cls"
    and m: "\<And>r. matches rs_col cls r \<longleftrightarrow> rs_zone_id r = z_id z \<and> rs_name r = name \<and>
               (typ \<noteq> ''CNAME'' \<longrightarrow> rs_type r = ''CNAME'')"
    using assms(1-4) pc
    by (cases "startswith name ''*''"; cases "typ = ''CNAME''") (auto simp: rs_where_def)
  have "a \<in> set (select_recordsets cls (w_db w))"
    using a contra m assms(5) by (auto simp: select_recordsets_def select_where_def)
  moreover from ok cls have "select_recordsets cls (w_db w) = []"
    using ids
    by (cases "select_recordsets cls (w_db w)"; cases "tl (select_recordsets cls (w_db w))")
      (auto simp: is_valid_recordset_placement_def storage_find_recordsets_def bind_run seq_run
        select_recordsets_def select_where_def filter_eq_Cons_iff split: if_splits sum.splits)
  ultimately show False by simp
qed

text \<open>C7: CNAME recordsets stay alone: \<open>create_recordset\<close> keeps the invariant that a name which
  carries a CNAME in a zone carries no other recordset there.\<close>

theorem create_recordset_cname_alone:
  assumes inv: "cname_alone (d_recordsets (w_db w))"
    and rs: "rs_id rs = None" "plain (rs_name rs)" "plain (rev (rs_name rs))"
    and ctx: "plain zone_id" "\<not> c_show_deleted ctx"
  shows "cname_alone (d_recordsets (w_db (snd (create_recordset E ctx zone_id rs inc w))))"
proof -
  obtain r w' where run: "create_recordset E ctx zone_id rs inc w = (r, w')" by fastforce
  then consider e where "r = Inl e" "w_db w' = w_db w" | z c p where
    "storage_get_zone ctx zone_id False w = (Inr z, w)" "elevate_all E ctx w = (Inr c, w)"
    "create_recordset_in_storage E c z rs inc w = (Inr p, w')"
  proof -
    have "(\<exists>e. r = Inl e \<and> w_db w' = w_db w) \<or> (\<exists>z c. storage_get_zone ctx zone_id False w = (Inr z, w) \<and>
      elevate_all E ctx w = (Inr c, w) \<and>
      bind (create_recordset_in_storage E c z rs inc) (\<lambda>p. return (fst p)) w = (r, w'))"
      using run unfolding create_recordset_def
      by - ((erule seq_ro bind_ro, rule keeps_rules, blast)+, blast)
    then show ?thesis
    proof (elim disjE exE conjE)
      fix z c assume get: "storage_get_zone ctx zone_id False w = (Inr z, w)" "elevate_all E ctx w = (Inr c, w)"
        and st: "bind (create_recordset_in_storage E c z rs inc) (\<lambda>p. return (fst p)) w = (r, w')"
      obtain q w1 where q: "create_recordset_in_storage E c z rs inc w = (q, w1)" by fastforce
      show ?thesis
      proof (cases q)
        case (Inl e)
        then have "w_db w1 = w_db w" using q unfolding create_recordset_in_storage_def
          by (blast dest: transaction_Inl)
        with q Inl st show ?thesis by (intro that(1) [of e]) (auto simp: bind_run)
      next
        case (Inr p)
        with q st get that(2) show ?thesis by (simp add: bind_run)
      qed
    qed (use that(1) in blast)
  qed
  then show ?thesis
  proof cases
    case 1
    with run inv show ?thesis by simp
  next
    case 2
    from storage_get_zone_Inr(2) [OF 2(1) ctx(1)] ctx(2) obtain zr where
      zr: "zr \<in> set (d_zones (w_db w))" "loaded_from z zr" "z_id zr = zone_id" "z_deleted zr = ''0''" by auto
    have z: "z_changed z = {}" "z_id z = zone_id" "zone_live (w_db w) (z_id z)"
      using zr loaded_from_simps [OF zr(2)] by (auto simp: zone_live_def)
    from create_in_storage_rows [OF 2(3) z(1)] obtain row where
      ok: "is_valid_recordset_placement c z (rs_name rs) (rs_type rs) None w = (Inr (), w)"
      and row: "d_recordsets (w_db w') = d_recordsets (w_db w) @ [row]" "rs_zone_id row = z_id z"
        "rs_name row = rs_name rs" "rs_type row = rs_type rs" "rs_id row \<noteq> None"
      using rs(1) by auto
    have "c_all_tenants c" using elevate_all_Inr [OF 2(2)] by simp
    note look = placement_lookup [OF this _ rs(2,3) z(3) ok]
    have "rs_type row \<noteq> ''CNAME'' \<and> rs_type a \<noteq> ''CNAME''"
      if "a \<in> set (d_recordsets (w_db w))" "rs_zone_id a = z_id z" "rs_name a = rs_name rs" for a
      using look [OF _ _ that] inv ctx(1) z(2) row(4) by (simp add: cname_alone_def)
    then show ?thesis using run inv row by (auto simp: cname_alone_def)
  qed
qed

theorem create_recordset_cname_alone_witness:
  "cname_alone (d_recordsets (w_db (snd (create_recordset sample_env (tenant_context ''t1'') ''z1''
     (new_recordset ''w.e.o.'' ''CNAME'' [new_record ''x.o.'' False]) True (world_of sample_db)))))"
  by (rule create_recordset_cname_alone)
    (simp_all add: cname_alone_def sample_recordset_def new_recordset_def plain_def startswith_def
      tenant_context_def admin_context_def)


end
