(* ===== verification/DecoratorProps.thy ===== *)
theory DecoratorProps
  imports Samples Decorators
begin

text \<open>
  What callers of the wrapped methods can rely on: a transaction is retried on deadlocks only, a
  bounded number of times, and takes effect all or nothing; a zone lock is taken once and given back
  whatever the method does; notifications leave in one batch when the outermost method is done.
\<close>

section \<open>Transactions\<close>

lemma attempt_state_db: "w_db (attempt_state (transaction f) n w) = w_db w"
  if "\<forall>i<n. fst (transaction f (attempt_state (transaction f) i w)) = Inl DBDeadlock"
  using that by (induction n) (auto simp: transaction_cases)

text \<open>C10: a transaction method entered at the top is its \<open>n\<close>-th run, counted from 0: every earlier run
  of the body ended in a deadlock and was rolled back, the \<open>n\<close>-th did not or was the 150th. The caller
  gets the result of that run and the world it left, in which the tables are as before the first
  run when the result is an error and as the body made them when it is not; the retry state is
  reset. So the body runs at most 150 times and again only after a deadlock.\<close>

theorem transaction_retries:
  assumes "\<not> rt_held t" "rt_retries t = 0"
  shows "\<exists>n<150. let run = attempt_state (transaction f) n w in
     (\<forall>i<n. fst (f (attempt_state (transaction f) i w)) = Inl DBDeadlock) \<and>
     (fst (f run) = Inl DBDeadlock \<longrightarrow> n = 149) \<and>
     w_db run = w_db w \<and>
     transaction_method f (t, w) = (fst (f run), fresh_retry, snd (transaction f run)) \<and>
     w_db (snd (transaction f run)) = (case fst (f run) of Inl e \<Rightarrow> w_db w | Inr x \<Rightarrow> w_db (snd (f run)))"
proof -
  from transaction_method_spec [OF assms, of f w] obtain n where n: "n < 150"
    "\<forall>i<n. fst (transaction f (attempt_state (transaction f) i w)) = Inl DBDeadlock"
    "transaction_method f (t, w) = (let (r, w') = transaction f (attempt_state (transaction f) n w)
       in (r, (fresh_retry, w')))"
    "fst (transaction f (attempt_state (transaction f) n w)) = Inl DBDeadlock \<longrightarrow> n = 149" by blast
  have db: "w_db (attempt_state (transaction f) n w) = w_db w" using n(2) by (rule attempt_state_db)
  with n show ?thesis
    unfolding Let_def by (intro exI [of _ n] conjI) (simp_all add: transaction_cases split_beta split: sum.split)
qed

text \<open>A body that meets a deadlock twice is run three times, and its third result is the answer.\<close>

definition flaky :: "unit sys" where
  "flaky w = (if w_next w < 2 then (Inl DBDeadlock, w\<lparr>w_next := w_next w + 1\<rparr>) else (Inr (), w))"

lemma flaky_runs:
  "w_next (attempt_state (transaction flaky) 0 (world_of empty_db)) = 0"
  "w_next (attempt_state (transaction flaky) 1 (world_of empty_db)) = 1"
  "w_next (attempt_state (transaction flaky) 2 (world_of empty_db)) = 2"
  by code_simp+

theorem transaction_retries_witness:
  "fst (transaction_method flaky (fresh_retry, world_of empty_db)) = Inr () \<and>
   w_next (snd (snd (transaction_method flaky (fresh_retry, world_of empty_db)))) = 2"
proof -
  let ?run = "\<lambda>n. attempt_state (transaction flaky) n (world_of empty_db)"
  have "\<not> rt_held fresh_retry" "rt_retries fresh_retry = 0" by (simp_all add: fresh_retry_def)
  from transaction_retries [OF this, where w = "world_of empty_db" and f = flaky] obtain n where
    n: "\<forall>i<n. fst (flaky (?run i)) = Inl DBDeadlock" "fst (flaky (?run n)) = Inl DBDeadlock \<longrightarrow> n = 149"
      "transaction_method flaky (fresh_retry, world_of empty_db) =
         (fst (flaky (?run n)), fresh_retry, snd (transaction flaky (?run n)))"
    unfolding Let_def by blast
  have "fst (flaky (?run 2)) = Inr ()" by (simp only: flaky_def [of "?run 2"] flaky_runs) simp
  with n(1) have "n \<le> 2" by (metis Inl_Inr_False not_le)
  moreover have "fst (flaky (?run i)) = Inl DBDeadlock" if "i < 2" for i
    using that flaky_runs by (auto simp: flaky_def less_2_cases_iff)
  ultimately have "n = 2" using n(2) by (cases "n < 2") auto
  moreover have "fst (flaky (?run 2)) = Inr () \<and> w_next (snd (transaction flaky (?run 2))) = 2" by code_simp
  ultimately show ?thesis using n(3) by simp
qed

section \<open>Zone locks\<close>

text \<open>C11: a method wrapped for a zone takes the zone's lock exactly when the thread does not hold it,
  runs inside it, and afterwards the thread holds the locks it held before, whether the method
  returned or raised; every call on the coordinator takes a free lock or gives back a held one. A
  call without a zone id raises and touches no lock.\<close>

theorem zone_lock_discipline:
  assumes "disciplined f" "lock_consistent t"
  shows "case sync_wrapper new_zone zone_id f (t, s) of (r, t', s') \<Rightarrow>
     lock_consistent t' \<and> lk_held t' = lk_held t \<and>
     (case zone_lock_name new_zone zone_id of
        Inl e \<Rightarrow> r = Inl e \<and> t' = t \<and> s' = s
      | Inr name \<Rightarrow>
          if name \<in> lk_held t then (r, t', s') = f (t, s)
          else (case f (t\<lparr>lk_events := lk_events t @ [Acquire name],
                          lk_held := insert name (lk_held t)\<rparr>, s) of
                  (r1, t1, s1) \<Rightarrow> r = r1 \<and> s' = s1 \<and>
                    lk_events t' = lk_events t1 @ [Release name]))"
proof -
  have inside: "name \<in> lk_held (fst (snd (f (t\<lparr>lk_events := lk_events t @ [Acquire name],
      lk_held := insert name (lk_held t)\<rparr>, s))))" if "name \<notin> lk_held t" for name
  proof -
    let ?t = "t\<lparr>lk_events := lk_events t @ [Acquire name], lk_held := insert name (lk_held t)\<rparr>"
    have "lock_consistent ?t" using assms(2) that by (simp add: lock_consistent_def replay_append)
    with assms(1) have "lk_held (fst (snd (f (?t, s)))) = lk_held ?t"
      unfolding disciplined_def Let_def by blast
    then show ?thesis by simp
  qed
  obtain r t' s' where run: "sync_wrapper new_zone zone_id f (t, s) = (r, t', s')" by (metis surj_pair)
  from disciplined_sync [OF assms(1), of new_zone zone_id] assms(2)
  have "lock_consistent (fst (snd (sync_wrapper new_zone zone_id f (t, s)))) \<and>
      lk_held (fst (snd (sync_wrapper new_zone zone_id f (t, s)))) = lk_held t"
    unfolding disciplined_def Let_def by blast
  with run have "lock_consistent t' \<and> lk_held t' = lk_held t" by simp
  moreover have "case zone_lock_name new_zone zone_id of
        Inl e \<Rightarrow> r = Inl e \<and> t' = t \<and> s' = s
      | Inr name \<Rightarrow>
          if name \<in> lk_held t then (r, t', s') = f (t, s)
          else (case f (t\<lparr>lk_events := lk_events t @ [Acquire name],
                          lk_held := insert name (lk_held t)\<rparr>, s) of
                  (r1, t1, s1) \<Rightarrow> r = r1 \<and> s' = s1 \<and> lk_events t' = lk_events t1 @ [Release name])"
    using run inside by (auto simp: sync_wrapper_def split_beta split: sum.splits if_splits)
  ultimately show ?thesis using run by simp
qed

text \<open>A method locked for a zone that calls another one locked for the same zone.\<close>

theorem zone_lock_discipline_witness:
  "lk_events (fst (snd (sync_wrapper False (Some ''z'') (sync_wrapper False (Some ''z'') (inner (raise BadAction)))
     (\<lparr>lk_held = {}, lk_events = []\<rparr>, 0 :: nat)))) = [Acquire ''zone-z'', Release ''zone-z'']"
proof -
  let ?f = "sync_wrapper False (Some ''z'') (inner (raise BadAction)) :: (lock_state \<times> nat, unit) comp"
  have "disciplined ?f" by (intro disciplined_sync disciplined_inner)
  moreover have "lock_consistent \<lparr>lk_held = {}, lk_events = []\<rparr>" by (simp add: lock_consistent_def)
  ultimately show ?thesis
    using zone_lock_discipline [where f = ?f and t = "\<lparr>lk_held = {}, lk_events = []\<rparr>" and new_zone = False
        and zone_id = "Some ''z''" and s = 0]
    by (simp add: zone_lock_name_def split_beta sync_wrapper_def inner_def)
qed

section \<open>Notifications\<close>

text \<open>the outermost notifying method emits, when it returns, its own messages followed by those
  its nested methods queued, and when it raises only the latter; the queue and the nesting level are
  empty again in both cases.\<close>

theorem notifications_in_one_batch:
  assumes "queueing f" "nt_stack t = 0" "nt_queue t = []"
  shows "case notification_wrapper ntype plugin f (t, s) of (r, t', s') \<Rightarrow>
     nt_stack t' = 0 \<and> nt_queue t' = [] \<and> r = fst (f (t\<lparr>nt_stack := 1\<rparr>, s)) \<and>
     nt_emitted t' = nt_emitted t @
       (case r of Inl e \<Rightarrow> [] | Inr x \<Rightarrow> rev (map (Pair ntype) (plugin x))) @
       nt_queue (fst (snd (f (t\<lparr>nt_stack := 1\<rparr>, s))))"
proof -
  obtain r t' s' where run: "notification_wrapper ntype plugin f (t, s) = (r, t', s')" by (metis surj_pair)
  then have "r = fst (f (t\<lparr>nt_stack := 1\<rparr>, s))"
    using assms(2) by (auto simp: notification_wrapper_def Let_def split: prod.splits)
  with notification_top [OF assms run] run show ?thesis by auto
qed

theorem notifications_in_one_batch_witness:
  "nt_emitted (fst (snd (notification_wrapper ''outer'' (\<lambda>_. [''a''])
      (notification_wrapper ''inner'' (\<lambda>_. [''b'']) (inner (return ())))
      (\<lparr>nt_stack = 0, nt_queue = [], nt_emitted = []\<rparr>, 0 :: nat)))) = [(''outer'', ''a''), (''inner'', ''b'')]"
proof -
  let ?f = "notification_wrapper ''inner'' (\<lambda>_. [''b'']) (inner (return ())) :: (notify_state \<times> nat, unit) comp"
  have "queueing ?f" by (intro queueing_wrapper queueing_inner)
  from notifications_in_one_batch [OF this, where t = "\<lparr>nt_stack = 0, nt_queue = [], nt_emitted = []\<rparr>"
    and ntype = "''outer''" and plugin = "\<lambda>_. [''a'']" and s = 0]
  show ?thesis by (simp add: split_beta notification_wrapper_def inner_def)
qed

end
