(* ===== verification/Dnsutils.thy ===== *)
theory Dnsutils
  imports CentralRecordsets
begin

text \<open>
  \<open>designate/dnsutils.py\<close> and the pure helpers of \<open>designate/utils.py\<close>: the mailbox of a SOA
  record read back as an email address, the transfer of a zone from a list of servers, host and port strings, merging of nested dictionaries, paging
  parameters and the propagation time. dnspython objects appear as the data the code reads from
  them; resolving a host and requesting a transfer are parameters.
\<close>

section \<open>SOA mailboxes\<close>

text \<open>\<open>_soa_to_normal\<close>: the loop over the parts, with the mailbox collected so far.\<close>

fun soa_parts :: "string \<Rightarrow> string list \<Rightarrow> string \<times> string" where
  "soa_parts mbox [] = (mbox, '''')"
| "soa_parts mbox (p # ps) =
     (if endswith p [CHR 0x5C] then soa_parts (mbox @ butlast p @ ''.'') ps
      else (mbox @ p, join ''.'' ps))"

definition soa_to_normal :: "string \<Rightarrow> string" where
  "soa_to_normal soa =
     (case soa_parts '''' (split_on CHR ''.'' soa) of (mbox, domain) \<Rightarrow>
        if domain \<noteq> '''' then mbox @ ''@'' @ domain else mbox)"

lemma replace_Nil [simp]: "replace c r [] = []"
  by (simp add: replace_def)

lemma replace_Cons [simp]: "replace c r (x # xs) = (if x = c then r else [x]) @ replace c r xs"
  by (simp add: replace_def)

lemma split_escaped:
  "split_on CHR ''.'' (replace CHR ''.'' [CHR 0x5C, CHR ''.''] u) =
     map (\<lambda>x. x @ [CHR 0x5C]) (butlast (split_on CHR ''.'' u)) @ [last (split_on CHR ''.'' u)]"
proof (induction u)
  case Nil
  then show ?case by simp
next
  case (Cons x u)
  obtain w ws where sp: "split_on CHR ''.'' u = w # ws" by (meson neq_Nil_conv split_on_ne)
  show ?case using Cons sp by (cases ws) auto
qed

lemma soa_parts_escaped:
  assumes "\<And>l. l \<in> set ls \<Longrightarrow> CHR 0x5C \<notin> set l" "ls \<noteq> []"
  shows "soa_parts mbox (map (\<lambda>x. x @ [CHR 0x5C]) (butlast ls) @ [last ls] @ rest)
    = (mbox @ join ''.'' ls, join ''.'' rest)"
  using assms
proof (induction ls arbitrary: mbox)
  case Nil
  then show ?case by simp
next
  case (Cons l ls)
  show ?case
  proof (cases ls)
    case Nil
    have "\<not> endswith l [CHR 0x5C]" using Cons.prems(1) [of l] by (auto simp: endswith_def suffix_def)
    with Nil show ?thesis by simp
  next
    case (Cons m ms)
    with Cons.IH [of "mbox @ l @ ''.''"] Cons.prems show ?thesis by (simp add: join_Cons)
  qed
qed

text \<open>the mailbox central writes into a SOA record reads back as the email address it was
  built from: \<open>_soa_to_normal\<close> undoes the escaping of \<open>_build_soa_record\<close> for every address
  whose local part has no backslash and whose domain is not empty, dots included.\<close>

theorem soa_mailbox_roundtrip:
  assumes "CHR ''@'' \<notin> set user" "CHR 0x5C \<notin> set user" "host \<noteq> ''''"
  shows "map_option soa_to_normal (soa_address (user @ ''@'' @ host)) = Some (user @ ''@'' @ host)"
proof -
  let ?esc = "replace CHR ''.'' [CHR 0x5C, CHR ''.''] user"
  have "dropWhile (\<lambda>c. c \<noteq> CHR ''@'') (user @ ''@'' @ host) = ''@'' @ host"
    "takeWhile (\<lambda>c. c \<noteq> CHR ''@'') (user @ ''@'' @ host) = user"
    using assms(1) by (induction user) auto
  then have addr: "soa_address (user @ ''@'' @ host) = Some (?esc @ CHR ''.'' # host)"
    by (simp add: soa_address_def split_at_sign_def)
  let ?ls = "split_on CHR ''.'' user"
  have no: "CHR 0x5C \<notin> set l" if "l \<in> set ?ls" for l
  proof -
    have "set l \<subseteq> set user" using that
    proof (induction user arbitrary: l)
      case (Cons x user)
      obtain w ws where "split_on CHR ''.'' user = w # ws" by (meson neq_Nil_conv split_on_ne)
      with Cons show ?case by (auto split: if_splits) (metis list.set_intros(1) subsetD)+
    qed simp
    with assms(2) show ?thesis by blast
  qed
  have "split_on CHR ''.'' (?esc @ CHR ''.'' # host) =
      map (\<lambda>x. x @ [CHR 0x5C]) (butlast ?ls) @ [last ?ls] @ split_on CHR ''.'' host"
    by (simp add: split_on_append_sep split_escaped)
  then have "soa_parts '''' (split_on CHR ''.'' (?esc @ CHR ''.'' # host)) = (user, host)"
    using soa_parts_escaped [OF no, where mbox = "[]" and rest = "split_on CHR ''.'' host"] by simp
  with addr assms(3) show ?thesis by (simp add: soa_to_normal_def)
qed

theorem soa_mailbox_roundtrip_witness:
  "map_option soa_to_normal (soa_address ''first.last@example.org'') = Some ''first.last@example.org''"
  using soa_mailbox_roundtrip [of "''first.last''" "''example.org''"] by simp

section \<open>Transfers\<close>

datatype 'z xfr_outcome = XfrZone 'z | XfrTimeout | XfrFormError | XfrOSError | XfrOther

text \<open>The inner loop over the addresses of one server, then the loop over the servers in their
  shuffled order; resolving a server happens outside the \<open>try\<close>.\<close>

fun try_addresses :: "(string \<Rightarrow> int \<Rightarrow> 'z xfr_outcome) \<Rightarrow> int \<Rightarrow> string list \<Rightarrow> 'z option" where
  "try_addresses xfr port [] = None"
| "try_addresses xfr port (a # as) =
     (case xfr a port of XfrZone z \<Rightarrow> Some z | _ \<Rightarrow> try_addresses xfr port as)"

fun do_axfr ::
  "(string \<Rightarrow> exn + string list) \<Rightarrow> (string \<Rightarrow> int \<Rightarrow> 'z xfr_outcome) \<Rightarrow> zone_master list \<Rightarrow> exn + 'z" where
  "do_axfr resolve xfr [] = Inl XFRFailure"
| "do_axfr resolve xfr (srv # servers) =
     (case resolve (m_host srv) of
        Inl e \<Rightarrow> Inl e
      | Inr addresses \<Rightarrow>
          (case try_addresses xfr (m_port srv) addresses of
             Some z \<Rightarrow> Inr z
           | None \<Rightarrow> do_axfr resolve xfr servers))"

lemma try_addresses_None:
  "try_addresses xfr port as = None \<longleftrightarrow> (\<forall>a \<in> set as. \<forall>z. xfr a port \<noteq> XfrZone z)"
  by (induction as) (auto split: xfr_outcome.splits)

lemma try_addresses_Some:
  "try_addresses xfr port as = Some z \<Longrightarrow> \<exists>a \<in> set as. xfr a port = XfrZone z"
  by (induction as) (auto split: xfr_outcome.splits)

text \<open>when every server resolves, a transfer returns a zone that some address of some server
  delivered, and fails with XFRFailure exactly when no address of any server delivers one.\<close>

theorem do_axfr_complete:
  assumes "\<forall>s \<in> set servers. \<exists>as. resolve (m_host s) = Inr as"
  shows "(\<forall>z. do_axfr resolve xfr servers = Inr z \<longrightarrow>
      (\<exists>s \<in> set servers. \<exists>as. resolve (m_host s) = Inr as \<and> (\<exists>a \<in> set as. xfr a (m_port s) = XfrZone z))) \<and>
    (do_axfr resolve xfr servers = Inl XFRFailure \<longleftrightarrow>
      (\<forall>s \<in> set servers. \<forall>as. resolve (m_host s) = Inr as \<longrightarrow>
         (\<forall>a \<in> set as. \<forall>z. xfr a (m_port s) \<noteq> XfrZone z)))"
  using assms
proof (induction servers)
  case Nil
  then show ?case by simp
next
  case (Cons s servers)
  from Cons.prems obtain as where as: "resolve (m_host s) = Inr as" by auto
  have IH: "(\<forall>z. do_axfr resolve xfr servers = Inr z \<longrightarrow>
      (\<exists>s \<in> set servers. \<exists>as. resolve (m_host s) = Inr as \<and> (\<exists>a \<in> set as. xfr a (m_port s) = XfrZone z))) \<and>
    (do_axfr resolve xfr servers = Inl XFRFailure \<longleftrightarrow>
      (\<forall>s \<in> set servers. \<forall>as. resolve (m_host s) = Inr as \<longrightarrow>
         (\<forall>a \<in> set as. \<forall>z. xfr a (m_port s) \<noteq> XfrZone z)))"
    using Cons.prems by (intro Cons.IH) simp
  show ?case
  proof (cases "try_addresses xfr (m_port s) as")
    case None
    then have "do_axfr resolve xfr (s # servers) = do_axfr resolve xfr servers" using as by simp
    then show ?thesis using IH None [unfolded try_addresses_None] as by force
  next
    case (Some z)
    then have "do_axfr resolve xfr (s # servers) = Inr z" using as by simp
    then show ?thesis using try_addresses_Some [OF Some] as by force
  qed
qed

theorem do_axfr_complete_witness:
  "do_axfr (\<lambda>h. Inr [h]) (\<lambda>a p. if a = ''b'' then XfrZone (7 :: nat) else XfrTimeout)
     [\<lparr>m_host = ''a'', m_port = 53\<rparr>, \<lparr>m_host = ''b'', m_port = 53\<rparr>] = Inr 7 \<and>
   do_axfr (\<lambda>h. Inr [h]) (\<lambda>a p. XfrTimeout :: nat xfr_outcome) [\<lparr>m_host = ''a'', m_port = 53\<rparr>]
     = Inl XFRFailure"
  using do_axfr_complete [of "[\<lparr>m_host = ''a'', m_port = 53\<rparr>]" "\<lambda>h. Inr [h]"
    "\<lambda>a p. XfrTimeout :: nat xfr_outcome"] by simp

text \<open>a server whose name does not resolve ends the whole transfer: after any servers that
  resolved but delivered nothing, its error leaves \<open>do_axfr\<close>, whatever the later servers hold.\<close>

theorem do_axfr_unresolvable:
  assumes "\<forall>s \<in> set before. \<exists>as. resolve (m_host s) = Inr as \<and> try_addresses xfr (m_port s) as = None"
    and "resolve (m_host s) = Inl e"
  shows "do_axfr resolve xfr (before @ s # later) = Inl e"
  using assms by (induction before) auto

theorem do_axfr_unresolvable_witness:
  "do_axfr (\<lambda>h. if h = ''b'' then Inl (OtherError ''gaierror'') else Inr [h])
     (\<lambda>a p. if a = ''a'' then XfrTimeout else XfrZone (7 :: nat))
     [\<lparr>m_host = ''a'', m_port = 53\<rparr>, \<lparr>m_host = ''b'', m_port = 53\<rparr>, \<lparr>m_host = ''c'', m_port = 53\<rparr>]
     = Inl (OtherError ''gaierror'')"
  using do_axfr_unresolvable [of "[\<lparr>m_host = ''a'', m_port = 53\<rparr>]"
    "\<lambda>h. if h = ''b'' then Inl (OtherError ''gaierror'') else Inr [h]"
    "\<lambda>a p. if a = ''a'' then XfrTimeout else XfrZone (7 :: nat)"
    "\<lparr>m_host = ''b'', m_port = 53\<rparr>" "OtherError ''gaierror''" "[\<lparr>m_host = ''c'', m_port = 53\<rparr>]"]
  by simp

section \<open>Helpers of \<open>utils.py\<close>\<close>

text \<open>\<open>int(s)\<close>: surrounding blanks, a sign, digits in groups joined by single underscores.\<close>

definition is_blank :: "char \<Rightarrow> bool" where
  "is_blank c \<longleftrightarrow> c = CHR '' '' \<or> (9 \<le> (of_char c :: nat) \<and> (of_char c :: nat) \<le> 13)"

definition strip_blanks :: "string \<Rightarrow> string" where
  "strip_blanks s = rev (dropWhile is_blank (rev (dropWhile is_blank s)))"

definition py_int :: "string \<Rightarrow> int option" where
  "py_int s =
     (let t = strip_blanks s;
          (neg, body) = (case t of c # rest \<Rightarrow> if c = CHR ''-'' then (True, rest)
                                   else if c = CHR ''+'' then (False, rest) else (False, t)
                         | [] \<Rightarrow> (False, []));
          groups = split_on CHR ''_'' body
      in if list_all (\<lambda>g. g \<noteq> [] \<and> list_all is_digit g) groups
         then map_option (\<lambda>n. if neg then - n else n) (digits_value (concat groups)) else None)"

text \<open>\<open>split_host_port\<close>: both the missing colon and a port that is no number are ValueErrors.\<close>

definition split_host_port :: "string \<Rightarrow> int \<Rightarrow> string \<times> int" where
  "split_host_port s default_port =
     (case dropWhile (\<lambda>c. c \<noteq> CHR '':'') s of
        [] \<Rightarrow> (s, default_port)
      | _ # rest \<Rightarrow>
          (case py_int rest of
             Some port \<Rightarrow> (takeWhile (\<lambda>c. c \<noteq> CHR '':'') s, port)
           | None \<Rightarrow> (s, default_port)))"

lemma digit_not_special:
  "is_digit c \<Longrightarrow> \<not> is_blank c" "is_digit c \<Longrightarrow> c \<noteq> CHR ''-''" "is_digit c \<Longrightarrow> c \<noteq> CHR ''+''"
  "is_digit c \<Longrightarrow> c \<noteq> CHR ''_''"
  by (auto simp: is_digit_def is_blank_def)

lemma strip_blanks_digits:
  assumes "list_all is_digit s"
  shows "strip_blanks s = s"
proof -
  have id: "dropWhile is_blank t = t" if "list_all is_digit t" for t
    using that by (cases t) (auto simp: digit_not_special)
  have "list_all is_digit (rev s)" using assms by (simp add: list_all_iff)
  then show ?thesis using id [OF assms] id by (simp add: strip_blanks_def)
qed

lemma py_int_int_str: "0 \<le> n \<Longrightarrow> py_int (int_str n) = Some n"
proof -
  assume n: "0 \<le> n"
  have d: "list_all is_digit (int_str n)" "int_str n \<noteq> []"
    using n nat_str_digits [of "nat n"] by (auto simp: int_str_def)
  then have "CHR ''_'' \<notin> set (int_str n)" using digit_not_special(4) by (auto simp: list_all_iff)
  then have g: "split_on CHR ''_'' (int_str n) = [int_str n]" by (rule split_on_single)
  obtain c rest where c: "int_str n = c # rest" using d(2) by (cases "int_str n") auto
  then have "is_digit c" using d(1) by simp
  then have "c \<noteq> CHR ''-''" "c \<noteq> CHR ''+''" by (auto dest: digit_not_special)
  then have "(case int_str n of c # rest \<Rightarrow> if c = CHR ''-'' then (True, rest)
        else if c = CHR ''+'' then (False, rest) else (False, int_str n)
      | [] \<Rightarrow> (False, [])) = (False, int_str n)" using c by simp
  with g d n show ?thesis by (simp add: py_int_def strip_blanks_digits Let_def)
qed

text \<open>\<open>split_host_port\<close> inverts the string \<open>host:port\<close> for a host without a colon and a port
  that is not negative, and gives a host without a colon the default port.\<close>

theorem split_host_port_roundtrip:
  assumes "CHR '':'' \<notin> set host" "0 \<le> port"
  shows "split_host_port (host @ '':'' @ int_str port) d = (host, port) \<and>
     split_host_port host d = (host, d)"
proof -
  have "dropWhile (\<lambda>c. c \<noteq> CHR '':'') (host @ '':'' @ int_str port) = '':'' @ int_str port"
    "takeWhile (\<lambda>c. c \<noteq> CHR '':'') (host @ '':'' @ int_str port) = host"
    "dropWhile (\<lambda>c. c \<noteq> CHR '':'') host = []"
    using assms(1) by (induction host) auto
  then show ?thesis using py_int_int_str [OF assms(2)] by (simp only: split_host_port_def) simp
qed

theorem split_host_port_roundtrip_witness:
  "split_host_port ''ns1.org:5354'' 53 = (''ns1.org'', 5354)"
proof -
  have "int_str 5354 = ''5354''" by code_simp
  with split_host_port_roundtrip [of "''ns1.org''" 5354 53] show ?thesis by simp
qed

text \<open>\<open>deep_dict_merge\<close> on nested dictionaries with string keys, kept as association lists in
  insertion order; the first argument is a dictionary in every call the code makes.\<close>

datatype dict = Leaf string | Dict "(string \<times> dict) list"

fun assoc_set :: "string \<Rightarrow> dict \<Rightarrow> (string \<times> dict) list \<Rightarrow> (string \<times> dict) list" where
  "assoc_set k v [] = [(k, v)]"
| "assoc_set k v ((k', v') # rest) =
     (if k = k' then (k, v) # rest else (k', v') # assoc_set k v rest)"

fun deep_dict_merge :: "(string \<times> dict) list \<Rightarrow> dict \<Rightarrow> dict"
and merge_items :: "(string \<times> dict) list \<Rightarrow> (string \<times> dict) list \<Rightarrow> (string \<times> dict) list" where
  "deep_dict_merge a (Leaf s) = Leaf s"
| "deep_dict_merge a (Dict b) = Dict (merge_items a b)"
| "merge_items a [] = a"
| "merge_items a ((k, v) # rest) =
     merge_items (assoc_set k (case map_of a k of
         Some (Dict d) \<Rightarrow> deep_dict_merge d v | _ \<Rightarrow> v) a) rest"

lemma map_of_assoc_set: "map_of (assoc_set k v xs) = (map_of xs)(k \<mapsto> v)"
  by (induction k v xs rule: assoc_set.induct) (auto simp: fun_eq_iff)

text \<open>\<open>deep_dict_merge\<close> at any key: a key that only the first dictionary has keeps its value; a
  key of the second one takes its value, merged into the first one's when that is a dictionary.\<close>

theorem deep_dict_merge_lookup:
  assumes "distinct (map fst b)"
  shows "map_of (merge_items a b) k =
     (case map_of b k of
        None \<Rightarrow> map_of a k
      | Some v \<Rightarrow> Some (case map_of a k of Some (Dict d) \<Rightarrow> deep_dict_merge d v | _ \<Rightarrow> v))"
  using assms
proof (induction b arbitrary: a)
  case Nil
  then show ?case by simp
next
  case (Cons kv b)
  obtain l v where kv: "kv = (l, v)" by (cases kv)
  with Cons.prems have "map_of b l = None" by (auto simp: map_of_eq_None_iff)
  with Cons kv show ?case
    by (auto simp: map_of_assoc_set split: option.splits dict.splits)
qed

theorem deep_dict_merge_lookup_witness:
  "map_of (merge_items [(''a'', Leaf ''1''), (''b'', Leaf ''2'')] [(''a'', Leaf ''3'')]) ''a'' = Some (Leaf ''3'')"
  using deep_dict_merge_lookup [of "[(''a'', Leaf ''3'')]" "[(''a'', Leaf ''1''), (''b'', Leaf ''2'')]" "''a''"]
  by simp

definition max_prop_time :: "int \<Rightarrow> int \<Rightarrow> int \<Rightarrow> int \<Rightarrow> int" where
  "max_prop_time timeout max_retries retry_interval delay =
     timeout * max_retries + max_retries * retry_interval + delay"

text \<open>\<open>get_paging_params\<close>: a limit is a number or a text; \<open>sys.maxsize\<close> is \<open>2 ^ 63 - 1\<close>.\<close>

datatype limit_param = NoLimit | LimitInt int | LimitStr string

definition check_limit :: "int \<Rightarrow> limit_param \<Rightarrow> exn + limit_param" where
  "check_limit max_limit limit =
     (let checked = (\<lambda>n. if n \<le> 0 \<or> 2 ^ 63 - 1 < n then Inl (BadRequest InvalidLimit) else Inr limit) in
      case limit of
        NoLimit \<Rightarrow> Inr NoLimit
      | LimitStr s \<Rightarrow>
          if lower s = ''max'' then Inr (LimitInt max_limit)
          else if s = [] then Inr limit
          else (case py_int s of None \<Rightarrow> Inl (BadRequest InvalidLimit) | Some n \<Rightarrow> checked n)
      | LimitInt n \<Rightarrow> if n = 0 then Inr limit else checked n)"

definition get_paging_params ::
  "req_context \<Rightarrow> int \<Rightarrow> string option \<Rightarrow> limit_param \<Rightarrow> string option \<Rightarrow> string option
     \<Rightarrow> string list option \<Rightarrow> exn + string option \<times> limit_param \<times> string option \<times> string option" where
  "get_paging_params ctx max_limit marker limit skey sdir skeys =
     and_then (check_limit max_limit limit) (\<lambda>limit'.
     if sdir \<notin> {None, Some '''', Some ''asc'', Some ''desc''} then Inl (BadRequest InvalidSortDir)
     else (case skeys of
        None \<Rightarrow> Inr (marker, limit', None, None)
      | Some keys \<Rightarrow>
          if skey \<noteq> None \<and> skey \<noteq> Some '''' \<and> the skey \<notin> set keys
          then Inl (BadRequest InvalidSortKey)
          else if skey = Some ''tenant_id'' \<and> \<not> c_all_tenants ctx
          then Inr (marker, limit', None, sdir)
          else Inr (marker, limit', skey, sdir)))"

text \<open>paging accepts limits far above the configured maximum: every limit from 1 to
  \<open>sys.maxsize\<close> passes unchanged, although the error for a rejected limit names the configured
  maximum as the upper bound; nothing else that is a number passes, except a literal zero.\<close>

theorem check_limit_bounds:
  "(check_limit m (LimitInt n) = Inr (LimitInt n)) \<longleftrightarrow> 0 \<le> n \<and> n \<le> 2 ^ 63 - 1"
  by (auto simp: check_limit_def)

end
