(* ===== verification/FieldTypes.thy ===== *)
theory FieldTypes
  imports Dnsutils
begin

text \<open>
  The field types of \<open>objects/fields.py\<close> and the regular expressions of \<open>common/constants.py\<close> they
  use. A field is a function that coerces a value; a \<open>ValueError\<close> is \<open>Inl PyValueError\<close>. Each
  regular expression is a recogniser of the strings it matches: the classes, the bounded repetitions and
  the look-arounds are written out, and a literal separator outside the class of its neighbours makes
  the match unique. Characters are ASCII. The address parsers of dnspython and netaddr are parameters.
\<close>

section \<open>Results\<close>

definition ebind :: "exn + 'a \<Rightarrow> ('a \<Rightarrow> exn + 'b) \<Rightarrow> exn + 'b" where
  "ebind r f = (case r of Inl e \<Rightarrow> Inl e | Inr x \<Rightarrow> f x)"

text \<open>\<open>raise ValueError\<close> when the condition holds.\<close>

definition bad_if :: "bool \<Rightarrow> exn + 'a \<Rightarrow> exn + 'a" where
  "bad_if b r = (if b then Inl PyValueError else r)"

lemma ebind_simps [simp]: "ebind (Inr x) f = f x" "ebind (Inl e) f = Inl e"
  by (simp_all add: ebind_def)

lemma ebind_Inr_iff [simp]: "ebind r f = Inr y \<longleftrightarrow> (\<exists>x. r = Inr x \<and> f x = Inr y)"
  by (cases r) simp_all

lemma bad_if_Inr_iff [simp]: "bad_if b r = Inr y \<longleftrightarrow> \<not> b \<and> r = Inr y"
  by (simp add: bad_if_def)

lemma bad_if_simps [simp]: "bad_if False r = r" "bad_if True r = Inl PyValueError"
  by (simp_all add: bad_if_def)

section \<open>Character classes\<close>

definition code_of :: "char \<Rightarrow> nat" where
  "code_of c = of_char c"

definition is_upper :: "char \<Rightarrow> bool" where
  "is_upper c \<longleftrightarrow> 65 \<le> code_of c \<and> code_of c \<le> 90"

definition is_alpha :: "char \<Rightarrow> bool" where
  "is_alpha c \<longleftrightarrow> is_upper c \<or> (97 \<le> code_of c \<and> code_of c \<le> 122)"

definition is_alnum :: "char \<Rightarrow> bool" where
  "is_alnum c \<longleftrightarrow> is_alpha c \<or> is_digit c"

text \<open>\<open>[A-Za-z0-9_\-]\<close>\<close>

definition label_char :: "char \<Rightarrow> bool" where
  "label_char c \<longleftrightarrow> is_alnum c \<or> c = CHR ''_'' \<or> c = CHR ''-''"

definition is_hex :: "char \<Rightarrow> bool" where
  "is_hex c \<longleftrightarrow> is_digit c \<or> (65 \<le> code_of c \<and> code_of c \<le> 70) \<or> (97 \<le> code_of c \<and> code_of c \<le> 102)"

text \<open>\<open>str.isspace\<close>\<close>

definition is_space :: "char \<Rightarrow> bool" where
  "is_space c \<longleftrightarrow> c = CHR '' '' \<or> (9 \<le> code_of c \<and> code_of c \<le> 13) \<or> (28 \<le> code_of c \<and> code_of c \<le> 31)"

abbreviation (input) newline :: char where "newline \<equiv> CHR 0x0A"
abbreviation (input) quote :: char where "quote \<equiv> CHR 0x22"
abbreviation (input) backslash :: char where "backslash \<equiv> CHR 0x5C"

text \<open>\<open>sub in s\<close>\<close>

fun contains :: "string \<Rightarrow> string \<Rightarrow> bool" where
  "contains sub [] \<longleftrightarrow> sub = []"
| "contains sub (c # s) \<longleftrightarrow> startswith (c # s) sub \<or> contains sub s"

text \<open>\<open>s.split(c, n)\<close>\<close>

fun split_max :: "nat \<Rightarrow> char \<Rightarrow> string \<Rightarrow> string list" where
  "split_max 0 c s = [s]"
| "split_max (Suc n) c s =
     (case dropWhile (\<lambda>x. x \<noteq> c) s of
        [] \<Rightarrow> [s]
      | _ # rest \<Rightarrow> takeWhile (\<lambda>x. x \<noteq> c) s # split_max n c rest)"

section \<open>Regular expressions\<close>

text \<open>One label: \<open>(?!\-)[A-Za-z0-9_\-]{1,63}(?<!\-)\<close>.\<close>

definition label_ok :: "string \<Rightarrow> bool" where
  "label_ok l \<longleftrightarrow> l \<noteq> [] \<and> length l \<le> 63 \<and> list_all label_char l \<and> hd l \<noteq> CHR ''-'' \<and> last l \<noteq> CHR ''-''"

text \<open>Labels, each followed by a dot.\<close>

definition re_zonename :: "string \<Rightarrow> bool" where
  "re_zonename s =
     (let ls = split_on dot s
      in length s < 255 \<and> 2 \<le> length ls \<and> last ls = [] \<and> list_all label_ok (butlast ls))"

definition re_hostname :: "string \<Rightarrow> bool" where
  "re_hostname s =
     (let ls = split_on dot s
      in length s < 255 \<and> 2 \<le> length ls \<and> last ls = [] \<and>
         (hd ls = ''*'' \<or> label_ok (hd ls)) \<and> list_all label_ok (tl (butlast ls)))"

text \<open>\<open>\_[A-Za-z0-9_\-]{1,63}\<close>\<close>

definition srv_label :: "string \<Rightarrow> bool" where
  "srv_label l \<longleftrightarrow> (case l of [] \<Rightarrow> False
     | c # r \<Rightarrow> c = CHR ''_'' \<and> r \<noteq> [] \<and> length r \<le> 63 \<and> list_all label_char r)"

definition re_srv_host_name :: "string \<Rightarrow> bool" where
  "re_srv_host_name s =
     (let ls = split_on dot s
      in 2 \<le> length ls \<and> list_all srv_label (take 2 ls) \<and> re_zonename (join ''.'' (drop 2 ls)))"

definition re_tldname :: "string \<Rightarrow> bool" where
  "re_tldname s \<longleftrightarrow> length s < 255 \<and> list_all label_ok (split_on dot s)"

definition re_sshfp_fingerprint :: "string \<Rightarrow> bool" where
  "re_sshfp_fingerprint s \<longleftrightarrow> list_all is_hex s \<and> (10 \<le> length s \<and> length s \<le> 40 \<or> length s = 64)"

definition re_naptr_flags :: "string \<Rightarrow> bool" where
  "re_naptr_flags s \<longleftrightarrow> list_all (\<lambda>c. c \<in> set ''APSUapsu'') s"

definition re_naptr_service :: "string \<Rightarrow> bool" where
  "re_naptr_service s \<longleftrightarrow> s = [] \<or>
     (case split_on CHR ''+'' s of
        [] \<Rightarrow> False
      | g # gs \<Rightarrow> g \<noteq> [] \<and> is_alpha (hd g) \<and> list_all is_alnum g \<and>
          list_all (\<lambda>h. h \<noteq> [] \<and> is_alpha (hd h) \<and> list_all is_alnum h \<and> length h \<le> 32) gs)"

text \<open>
  \<open>^(([^0-9i\\])(.*)\2((.+)|(\\[1-9]))?\2(i?))?\Z\<close>: a delimiter, then \<open>x\<close>, which consists of two strings
  without a newline around a second delimiter, then the third delimiter and possibly an \<open>i\<close>. The
  delimiter is not an \<open>i\<close>, so the last character tells whether there is one.
\<close>

definition re_naptr_regexp :: "string \<Rightarrow> bool" where
  "re_naptr_regexp s =
     (case s of
        [] \<Rightarrow> True
      | d # rest \<Rightarrow>
          \<not> is_digit d \<and> d \<noteq> CHR ''i'' \<and> d \<noteq> backslash \<and>
          (let body = (if rest \<noteq> [] \<and> last rest = CHR ''i'' then butlast rest else rest);
               x = butlast body
           in body \<noteq> [] \<and> last body = d \<and> d \<in> set x \<and> newline \<notin> set (remove1 d x)))"

text \<open>The expressions without \<open>\Z\<close> match a prefix.\<close>

definition re_kvp :: "string \<Rightarrow> bool" where
  "re_kvp s =
     (case s of
        [] \<Rightarrow> False
      | c # r \<Rightarrow> is_space c \<and> takeWhile is_alnum r \<noteq> [] \<and>
          (case dropWhile is_alnum r of e # v # _ \<Rightarrow> e = CHR ''='' \<and> is_alnum v | _ \<Rightarrow> False))"

definition mail_char :: "char \<Rightarrow> bool" where
  "mail_char c \<longleftrightarrow> label_char c"

definition re_url_mail :: "string \<Rightarrow> bool" where
  "re_url_mail s =
     (startswith s ''mailto:'' \<and>
      (let r = drop 7 s; user = takeWhile mail_char r; after = dropWhile mail_char r
       in user \<noteq> [] \<and>
          (case after of
             [] \<Rightarrow> False
           | c # t \<Rightarrow>
               c = CHR ''@'' \<or>
               (c = CHR ''+'' \<and> takeWhile mail_char t \<noteq> [] \<and>
                (case dropWhile mail_char t of [] \<Rightarrow> False | e # _ \<Rightarrow> e = CHR ''@'')))))"

definition re_url_http :: "string \<Rightarrow> bool" where
  "re_url_http s \<longleftrightarrow>
     startswith s ''http://'' \<and> CHR ''/'' \<in> set (takeWhile (\<lambda>c. c \<noteq> newline) (drop 7 s)) \<or>
     startswith s ''https://'' \<and> CHR ''/'' \<in> set (takeWhile (\<lambda>c. c \<noteq> newline) (drop 8 s))"

definition re_cert_type :: "string \<Rightarrow> bool" where
  "re_cert_type s \<longleftrightarrow> s \<noteq> [] \<and> (list_all is_upper s \<or> list_all is_digit s)"

definition re_cert_algo :: "string \<Rightarrow> bool" where
  "re_cert_algo s \<longleftrightarrow>
     3 \<le> length s \<and> is_upper (hd s) \<and> (is_upper (last s) \<or> is_digit (last s)) \<and>
       list_all (\<lambda>c. is_upper c \<or> is_digit c \<or> c = CHR ''-'') s \<or>
     s \<noteq> [] \<and> list_all is_digit s"

section \<open>Fields\<close>

definition integer_field :: "int \<Rightarrow> int \<Rightarrow> int \<Rightarrow> exn + int" where
  "integer_field lo hi n = bad_if (n < lo) (bad_if (hi < n) (Inr n))"

definition string_field :: "nat option \<Rightarrow> string \<Rightarrow> exn + string" where
  "string_field max_length s =
     (case max_length of None \<Rightarrow> Inr s | Some m \<Rightarrow> bad_if (m \<noteq> 0 \<and> m < length s) (Inr s))"

definition labels_fit :: "string \<Rightarrow> bool" where
  "labels_fit s \<longleftrightarrow> list_all (\<lambda>l. length l \<le> 63) (split_on dot s)"

definition domain_field :: "nat option \<Rightarrow> string \<Rightarrow> exn + string" where
  "domain_field max_length s =
     ebind (string_field max_length s) (\<lambda>s.
     bad_if (\<not> labels_fit s) (bad_if (\<not> endswith s ''.'') (bad_if (\<not> re_zonename s) (Inr s))))"

definition host_field :: "nat option \<Rightarrow> string \<Rightarrow> exn + string" where
  "host_field max_length s =
     ebind (string_field max_length s) (\<lambda>s.
     bad_if (\<not> labels_fit s) (bad_if (\<not> endswith s ''.'') (bad_if (\<not> re_hostname s) (Inr s))))"

definition srv_field :: "nat option \<Rightarrow> string \<Rightarrow> exn + string" where
  "srv_field max_length s =
     ebind (string_field max_length s) (\<lambda>s.
     bad_if (\<not> labels_fit s) (bad_if (\<not> endswith s ''.'') (bad_if (\<not> re_srv_host_name s) (Inr s))))"

definition email_field :: "nat option \<Rightarrow> string \<Rightarrow> exn + string" where
  "email_field max_length s =
     ebind (string_field max_length s) (\<lambda>s.
     bad_if (count_list s CHR ''@'' \<noteq> 1)
       (bad_if (\<not> re_zonename (replace CHR ''@'' ''.'' s @ ''.'')) (Inr s)))"

definition txt_field :: "string \<Rightarrow> exn + string" where
  "txt_field s = bad_if (endswith s [backslash]) (Inr s)"

definition sshfp_field :: "string \<Rightarrow> exn + string" where
  "sshfp_field s = bad_if (\<not> re_sshfp_fingerprint s) (Inr s)"

definition tld_field :: "nat option \<Rightarrow> string \<Rightarrow> exn + string" where
  "tld_field max_length s = ebind (string_field max_length s) (\<lambda>s. bad_if (\<not> re_tldname s) (Inr s))"

definition naptr_flags_field :: "string \<Rightarrow> exn + string" where
  "naptr_flags_field s = bad_if (255 < length s) (bad_if (\<not> re_naptr_flags s) (Inr s))"

definition naptr_service_field :: "string \<Rightarrow> exn + string" where
  "naptr_service_field s = bad_if (255 < length s) (bad_if (\<not> re_naptr_service s) (Inr s))"

definition naptr_regexp_field :: "string \<Rightarrow> exn + string" where
  "naptr_regexp_field s =
     bad_if (255 < length s) (if s \<noteq> [] then bad_if (\<not> re_naptr_regexp s) (Inr s) else Inr s)"

definition cert_type_field :: "string \<Rightarrow> exn + string" where
  "cert_type_field s = bad_if (\<not> re_cert_type s) (Inr s)"

definition cert_algo_field :: "string \<Rightarrow> exn + string" where
  "cert_algo_field s = bad_if (\<not> re_cert_algo s) (Inr s)"

text \<open>A domain name without its last dot, inside a CAA property.\<close>

definition caa_domain :: "string \<Rightarrow> exn + unit" where
  "caa_domain idn = bad_if (\<not> labels_fit idn) (bad_if (\<not> re_zonename (idn @ ''.'')) (Inr ()))"

definition caa_property_field :: "string \<Rightarrow> exn + string" where
  "caa_property_field s =
     (case split_max 1 CHR '' '' s of
        [tag, val] \<Rightarrow>
          if tag = ''issue'' \<or> tag = ''issuewild'' then
            (let entries = split_on CHR '';'' val
             in ebind (caa_domain (hd entries)) (\<lambda>_.
                bad_if (\<not> list_all re_kvp (tl entries)) (Inr s)))
          else if tag = ''iodef'' then
            (if re_url_mail val then ebind (caa_domain (split_on CHR ''@'' val ! 1)) (\<lambda>_. Inr s)
             else if re_url_http val then ebind (caa_domain (split_on CHR ''/'' val ! 2)) (\<lambda>_. Inr s)
             else Inl PyValueError)
          else Inl PyValueError
      | _ \<Rightarrow> Inl PyIndexError)"

text \<open>\<open>dns.ipv4.inet_aton\<close> and \<open>dns.ipv6.inet_aton\<close> accept or raise, netaddr gives the text of the address it
  has parsed.\<close>

record addr_env =
  dns_ipv4 :: "string \<Rightarrow> bool"
  dns_ipv6 :: "string \<Rightarrow> bool"
  net_ipv4 :: "string \<Rightarrow> string option"
  net_ipv6 :: "string \<Rightarrow> string option"

definition ipv4_field :: "addr_env \<Rightarrow> string \<Rightarrow> exn + string" where
  "ipv4_field A s =
     bad_if (\<not> dns_ipv4 A s) (case net_ipv4 A s of None \<Rightarrow> Inl PyValueError | Some t \<Rightarrow> Inr t)"

definition ipv6_field :: "addr_env \<Rightarrow> string \<Rightarrow> exn + string" where
  "ipv6_field A s = (case net_ipv6 A s of None \<Rightarrow> Inl PyValueError | Some t \<Rightarrow> Inr t)"

definition ip_field :: "addr_env \<Rightarrow> string \<Rightarrow> exn + string" where
  "ip_field A s =
     (case net_ipv4 A s of Some t \<Rightarrow> Inr t
      | None \<Rightarrow> (case net_ipv6 A s of Some t \<Rightarrow> Inr t | None \<Rightarrow> Inl PyValueError))"

definition ip_or_host_field :: "addr_env \<Rightarrow> string \<Rightarrow> exn + string" where
  "ip_or_host_field A s =
     (case ip_field A s of
        Inr t \<Rightarrow> Inr t
      | Inl e \<Rightarrow> if e = PyValueError then bad_if (\<not> re_zonename s) (Inr s) else Inl e)"

text \<open>\<open>compiles\<close> is \<open>re.compile\<close> accepting the pattern.\<close>

definition denylist_field :: "(string \<Rightarrow> bool) \<Rightarrow> nat option \<Rightarrow> string \<Rightarrow> exn + string" where
  "denylist_field compiles max_length s =
     ebind (string_field max_length s) (\<lambda>s. bad_if (s = []) (bad_if (\<not> compiles s) (Inr s)))"

lemmas field_defs =
  integer_field_def string_field_def domain_field_def host_field_def srv_field_def email_field_def
  txt_field_def sshfp_field_def tld_field_def naptr_flags_field_def naptr_service_field_def
  naptr_regexp_field_def cert_type_field_def cert_algo_field_def

text \<open>A field that has no address in it returns the value it was given.\<close>

lemma field_same:
  "integer_field lo hi n = Inr n' \<Longrightarrow> n' = n"
  "domain_field m s = Inr t \<Longrightarrow> t = s"
  "host_field m s = Inr t \<Longrightarrow> t = s"
  "srv_field m s = Inr t \<Longrightarrow> t = s"
  "caa_property_field s = Inr t \<Longrightarrow> t = s"
  by (auto simp: field_defs caa_property_field_def Let_def split: option.splits list.splits if_splits)

end
