(* ===== verification/DnsZones.thy ===== *)
theory DnsZones
  imports FieldTypes
begin

text \<open>
  Zones built from dnspython zones, \<open>from_dnspython_zone\<close> and its helpers in \<open>designate/dnsutils.py\<close>.
  The objects are made with their attributes, and the fields coerce them: a name, an address or a
  number outside the limits of its field is a \<open>ValueError\<close>.
\<close>

text \<open>What the code reads of an rdataset and of a zone: an SOA rdataset with its ttl and the fields
  of its first record, and the nodes in order.\<close>

record dns_soa =
  so_ttl :: int
  so_rname :: string
  so_serial :: int
  so_retry :: int
  so_expire :: int

record dns_rdataset =
  rd_type :: string
  rd_ttl :: int
  rd_texts :: "string list"

record dns_zone =
  dz_origin :: string
  dz_soa :: "dns_soa option"
  dz_nodes :: "(string \<times> dns_rdataset list) list"

text \<open>\<open>RecordSet(**values)\<close> with its records, once the values are within their fields.\<close>

definition recordset_of_rdataset :: "string \<Rightarrow> dns_rdataset \<Rightarrow> recordset" where
  "recordset_of_rdataset rname rdataset =
     (new_recordset rname (rd_type rdataset) (map (\<lambda>t. new_record t False) (rd_texts rdataset)))
        \<lparr>rs_ttl := (if rd_ttl rdataset \<noteq> 0 then Some (rd_ttl rdataset) else None)\<rparr>"

definition dnspythonrecord_to_recordset :: "string \<Rightarrow> dns_rdataset \<Rightarrow> exn + recordset" where
  "dnspythonrecord_to_recordset rname rdataset =
     and_then (host_field (Some 255) rname) (\<lambda>_.
     and_then (if rd_ttl rdataset \<noteq> 0 then integer_field 0 2147483647 (rd_ttl rdataset) else Inr 0) (\<lambda>_.
     Inr (recordset_of_rdataset rname rdataset)))"

text \<open>The two loops, over the names and the rdatasets of a name.\<close>

fun collect_all :: "('a \<Rightarrow> exn + 'b) \<Rightarrow> 'a list \<Rightarrow> exn + 'b list" where
  "collect_all f [] = Inr []"
| "collect_all f (x # xs) = and_then (f x) (\<lambda>y. and_then (collect_all f xs) (\<lambda>ys. Inr (y # ys)))"

definition node_items :: "(string \<times> dns_rdataset list) list \<Rightarrow> (string \<times> dns_rdataset) list" where
  "node_items nodes = concat (map (\<lambda>(rname, rdatasets). map (Pair rname) rdatasets) nodes)"

definition dnspyrecords_to_recordsetlist :: "(string \<times> dns_rdataset list) list \<Rightarrow> exn + recordset list" where
  "dnspyrecords_to_recordsetlist nodes =
     collect_all (\<lambda>(rname, rdataset). dnspythonrecord_to_recordset rname rdataset) (node_items nodes)"

text \<open>The fields of \<open>Zone\<close> that are given.\<close>

definition zone_values_ok :: "dns_zone \<Rightarrow> dns_soa \<Rightarrow> int option \<Rightarrow> exn + unit" where
  "zone_values_ok dz soa ttl =
     and_then (domain_field (Some 255) (dz_origin dz)) (\<lambda>_.
     and_then (email_field (Some 255) (soa_to_normal (so_rname soa))) (\<lambda>_.
     and_then (case ttl of None \<Rightarrow> Inr 0 | Some t \<Rightarrow> integer_field 0 2147483647 t) (\<lambda>_.
     and_then (integer_field 0 4294967295 (so_serial soa)) (\<lambda>_.
     and_then (integer_field 0 2147483647 (so_retry soa)) (\<lambda>_.
     and_then (integer_field 0 2147483647 (so_expire soa)) (\<lambda>_. Inr ()))))))"

definition from_dnspython_zone :: "config \<Rightarrow> dns_zone \<Rightarrow> exn + zone_request" where
  "from_dnspython_zone cf dz =
     (case dz_soa dz of
        None \<Rightarrow> Inl (BadRequest BR_plain)
      | Some soa \<Rightarrow>
          let ttl = (if so_ttl soa = 0 then cf_min_ttl cf else Some (so_ttl soa)) in
          and_then (zone_values_ok dz soa ttl) (\<lambda>_.
          and_then (dnspyrecords_to_recordsetlist (dz_nodes dz)) (\<lambda>rrsets.
          Inr \<lparr>zr_tenant_id = None, zr_name = Some (dz_origin dz),
            zr_email = soa_to_normal (so_rname soa), zr_ttl = ttl,
            zr_retry = Some (so_retry soa), zr_expire = Some (so_expire soa), zr_minimum = None,
            zr_serial = Some (so_serial soa), zr_description = None, zr_type = PRIMARY,
            zr_attributes = None, zr_masters = None, zr_recordsets = rrsets\<rparr>)))"

lemma collect_all_Inr:
  "(\<And>x y. f x = Inr y \<Longrightarrow> y = g x) \<Longrightarrow> collect_all f xs = Inr ys \<Longrightarrow> ys = map g xs"
  by (induction xs arbitrary: ys) (auto simp: and_then_Inr)

lemma dnspyrecords_Inr:
  assumes "dnspyrecords_to_recordsetlist nodes = Inr rrsets"
  shows "rrsets = map (\<lambda>(rname, rdataset). recordset_of_rdataset rname rdataset) (node_items nodes)"
  by (rule collect_all_Inr [OF _ assms [unfolded dnspyrecords_to_recordsetlist_def]])
     (auto simp: dnspythonrecord_to_recordset_def and_then_Inr)

lemma from_dnspython_zone_Inr:
  assumes "from_dnspython_zone cf dz = Inr zr"
  obtains soa where "dz_soa dz = Some soa" "zr_serial zr = Some (so_serial soa)" "zr_tenant_id zr = None"
    "zr_recordsets zr = map (\<lambda>(rname, rdataset). recordset_of_rdataset rname rdataset) (node_items (dz_nodes dz))"
  using assms by (auto simp: from_dnspython_zone_def and_then_Inr Let_def dest!: dnspyrecords_Inr
      split: option.splits)

end
