(* ===== verification/Worker.thy ===== *)
theory Worker
  imports Complex_Main CentralStatus CentralZones DnsZones
begin

text \<open>
  The worker: \<open>worker/tasks/base.py\<close>, \<open>worker/tasks/zone.py\<close>, \<open>worker/processing.py\<close> and the RPC
  handlers of \<open>worker/service.py\<close>. The worker carries a zone's pending action to the targets of its
  pool, polls the nameservers for the serial, and reports the outcome to central. What the network and
  the backend plug-ins answer is an argument: for each attempt, whether a call to a target went
  through, what a poll of a nameserver gave, and the database as the worker found it. A report is the
  message that \<open>UpdateStatus\<close> casts; \<open>deliver\<close> is central's handler of it.
\<close>

section \<open>Thresholds\<close>

definition percentage :: "nat \<Rightarrow> nat \<Rightarrow> rat" where
  "percentage part whole = (if whole = 0 then 0 else 100 * of_nat part / of_nat whole)"

definition compare_threshold :: "config \<Rightarrow> nat \<Rightarrow> nat \<Rightarrow> bool" where
  "compare_threshold cf successes whole \<longleftrightarrow> of_int (cf_threshold_percentage cf) \<le> percentage successes whole"

section \<open>Reports\<close>

record report =
  rp_zone_id :: string
  rp_status :: status
  rp_serial :: int
  rp_action :: action

text \<open>\<open>UpdateStatus\<close>: the message built from the worker's copy of the zone, and its handler.\<close>

definition update_status_task :: "zone \<Rightarrow> report" where
  "update_status_task z = \<lparr>rp_zone_id = z_id z, rp_status = z_status z, rp_serial = z_serial z,
     rp_action = z_action z\<rparr>"

definition deliver :: "env \<Rightarrow> req_context \<Rightarrow> report \<Rightarrow> zone sys" where
  "deliver E ctx r = update_status E ctx (rp_zone_id r) (rp_status r) (rp_serial r) (Some (rp_action r))"

section \<open>The executor\<close>

text \<open>\<open>Executor.do\<close> turns a BadAction into no result; \<open>run\<close> collects the results in the order of the
  tasks and ends with the first other exception. The tasks run on threads; the ones modelled here
  only read the database.\<close>

definition executor_do :: "'a sys \<Rightarrow> 'a option sys" where
  "executor_do task = catch (bind task (\<lambda>x. return (Some x)))
     (\<lambda>e. if e = BadAction then Some (return None) else None)"

fun executor_run :: "'a sys list \<Rightarrow> 'a option list sys" where
  "executor_run [] = return []"
| "executor_run (t # ts) =
     bind (executor_do t) (\<lambda>r. bind (executor_run ts) (\<lambda>rs. return (r # rs)))"

section \<open>Actions on targets\<close>

text \<open>The calls of one attempt; \<open>Notify\<close> carries the name of the zone the NOTIFY is for.\<close>

datatype target_call = BackendCreate | BackendDelete | BackendUpdate | Notify string

definition target_calls :: "action \<Rightarrow> zone \<Rightarrow> zone option \<Rightarrow> target_call list" where
  "target_calls act z catalog =
     (case catalog of
        None \<Rightarrow>
          if act = CREATE then [BackendCreate, Notify (z_name z)]
          else if act = DELETE then [BackendDelete]
          else [BackendUpdate, Notify (z_name z)]
      | Some c \<Rightarrow>
          if act = CREATE \<or> act = DELETE \<or> z_type z = CATALOG then [Notify (z_name c)]
          else [Notify (z_name z)])"

text \<open>Calls run until one raises; the calls that were made are kept.\<close>

fun run_calls :: "(target_call \<Rightarrow> bool) \<Rightarrow> target_call list \<Rightarrow> bool \<times> target_call list" where
  "run_calls ok [] = (True, [])"
| "run_calls ok (c # cs) =
     (if ok c then (case run_calls ok cs of (r, made) \<Rightarrow> (r, c # made)) else (False, [c]))"

fun try_target ::
  "nat \<Rightarrow> nat \<Rightarrow> (nat \<Rightarrow> target_call \<Rightarrow> bool) \<Rightarrow> target_call list \<Rightarrow> bool \<times> target_call list" where
  "try_target 0 attempt ok calls = (False, [])"
| "try_target (Suc n) attempt ok calls =
     (case run_calls (ok attempt) calls of
        (True, made) \<Rightarrow> (True, made)
      | (False, made) \<Rightarrow>
          (case try_target n (Suc attempt) ok calls of (r, later) \<Rightarrow> (r, made @ later)))"

definition storage_get_tsigkey :: "string \<Rightarrow> tsigkey sys" where
  "storage_get_tsigkey i =
     bind (gets (\<lambda>w. filter (\<lambda>k. k_id k = i) (d_tsigkeys (w_db w)))) (\<lambda>ks.
     lift (fetch_one TsigKeyNotFound ks))"

text \<open>\<open>_resolve_tsig_key\<close> of a target, an empty id counting as none.\<close>

definition resolve_tsig_key :: "string option \<Rightarrow> tsigkey option sys" where
  "resolve_tsig_key i =
     (case i of
        None \<Rightarrow> return None
      | Some i \<Rightarrow> if i = [] then return None
                  else bind (storage_get_tsigkey i) (\<lambda>k. return (Some k)))"

definition catalog_of_pool :: "req_context \<Rightarrow> string \<Rightarrow> zone option sys" where
  "catalog_of_pool ctx pool_id =
     catch (bind (get_catalog_zone ctx pool_id) (\<lambda>c. return (Some c)))
       (\<lambda>e. if e = ZoneNotFound then Some (return None) else None)"

definition zone_action_on_target ::
  "env \<Rightarrow> req_context \<Rightarrow> zone \<Rightarrow> (nat \<Rightarrow> target_call \<Rightarrow> bool) \<Rightarrow> pool_target
     \<Rightarrow> (bool \<times> target_call list) sys" where
  "zone_action_on_target E ctx z ok t =
     bind (storage_get_pool ctx (z_pool_id z)) (\<lambda>p.
     bind (catalog_of_pool ctx (p_id p)) (\<lambda>catalog.
     catch
       (bind (resolve_tsig_key (t_tsigkey_id t)) (\<lambda>_.
        return (try_target (cf_poll_max_retries (e_conf E)) 0 ok (target_calls (z_action z) z catalog))))
       (\<lambda>e. if e = TsigKeyNotFound then Some (return (False, [])) else None)))"

text \<open>\<open>ZoneActor\<close>: the verdict on the targets, with the report of a failure.\<close>

definition actor_threshold :: "config \<Rightarrow> zone \<Rightarrow> bool option list \<Rightarrow> bool \<times> report option" where
  "actor_threshold cf z results =
     (if compare_threshold cf (count_list results (Some True)) (length results) then (True, None)
      else (False, Some (update_status_task (z_set_status ERROR z))))"

definition zone_actor ::
  "env \<Rightarrow> req_context \<Rightarrow> pool \<Rightarrow> zone \<Rightarrow> (pool_target \<Rightarrow> nat \<Rightarrow> target_call \<Rightarrow> bool)
     \<Rightarrow> (bool \<times> report option) sys" where
  "zone_actor E ctx p z ok =
     bind (executor_run (map (\<lambda>t. bind (zone_action_on_target E ctx z (ok t) t) (\<lambda>r. return (fst r)))
             (p_targets p))) (\<lambda>results.
     return (actor_threshold (e_conf E) z results))"

section \<open>Polling\<close>

text \<open>\<open>DNSQueryResult\<close>; \<open>None\<close> for the initial one, whose \<open>results\<close> is the number 0.\<close>

record dns_query_result =
  dq_positives :: nat
  dq_no_zones :: nat
  dq_consensus_serial :: int
  dq_results :: "int option list option"

text \<open>The body of the loop of \<open>parse_query_results\<close> over positives, no_zones and low_serial.\<close>

definition parse_step :: "zone \<Rightarrow> int option \<Rightarrow> nat \<times> nat \<times> int \<Rightarrow> nat \<times> nat \<times> int" where
  "parse_step z result acc =
     (case acc of (positives, no_zones, low_serial) \<Rightarrow>
        (case result of
           None \<Rightarrow> (positives, no_zones, low_serial)
         | Some serial \<Rightarrow>
             if z_action z = DELETE then
               (if serial = 0 then (positives + 1, no_zones + 1, low_serial)
                else (positives, no_zones, low_serial))
             else if z_serial z \<le> serial then
               (positives + 1, no_zones,
                if low_serial = 0 \<or> serial < low_serial then serial else low_serial)
             else if serial = 0 then (positives, no_zones + 1, low_serial)
             else (positives, no_zones, low_serial)))"

definition parse_query_results :: "int option list \<Rightarrow> zone \<Rightarrow> dns_query_result" where
  "parse_query_results results z =
     (case fold (parse_step z) results (0, 0, 0) of (positives, no_zones, low_serial) \<Rightarrow>
        \<lparr>dq_positives = positives, dq_no_zones = no_zones, dq_consensus_serial = low_serial,
          dq_results = Some results\<rparr>)"

text \<open>What a query of a nameserver gives: the serial (0 for no answer), a timeout, another failure.\<close>

datatype poll_answer = PollSerial int | PollTimeout | PollFailure

definition poll_for_zone :: "poll_answer \<Rightarrow> int option" where
  "poll_for_zone a = (case a of PollSerial n \<Rightarrow> Some n | PollTimeout \<Rightarrow> None | PollFailure \<Rightarrow> None)"

text \<open>\<open>is_current_action_valid\<close>: any failure of the lookup but ZoneNotFound lets the task go on.\<close>

definition is_current_action_valid :: "req_context \<Rightarrow> action \<Rightarrow> zone \<Rightarrow> world \<Rightarrow> bool" where
  "is_current_action_valid ctx act z w =
     (if act = DELETE then True
      else (case fst (storage_get_zone ctx (z_id z) True w) of
              Inr z' \<Rightarrow> \<not> (z_action z' = DELETE \<or> z_action z' = NONE)
            | Inl e \<Rightarrow> if e = ZoneNotFound then act = CREATE else True))"

text \<open>\<open>_do_poll\<close>: \<open>answers\<close> gives what each nameserver answers at each attempt, \<open>seen\<close> the system
  the worker finds after it.\<close>

fun poll_attempts ::
  "nat \<Rightarrow> nat \<Rightarrow> config \<Rightarrow> req_context \<Rightarrow> pool \<Rightarrow> zone \<Rightarrow> (nat \<Rightarrow> pool_nameserver \<Rightarrow> poll_answer)
     \<Rightarrow> (nat \<Rightarrow> world) \<Rightarrow> dns_query_result \<Rightarrow> dns_query_result" where
  "poll_attempts 0 attempt cf ctx p z answers seen last_result = last_result"
| "poll_attempts (Suc n) attempt cf ctx p z answers seen last_result =
     (let results = map (\<lambda>ns. poll_for_zone (answers attempt ns)) (p_nameservers p);
          query_result = parse_query_results results z
      in if compare_threshold cf (dq_positives query_result) (length results) then query_result
         else if \<not> is_current_action_valid ctx (z_action z) z (seen attempt) then query_result
         else poll_attempts n (Suc attempt) cf ctx p z answers seen query_result)"

fun resolve_nameserver_tsig_keys :: "pool_nameserver list \<Rightarrow> unit sys" where
  "resolve_nameserver_tsig_keys [] = return ()"
| "resolve_nameserver_tsig_keys (ns # nss) =
     bind (resolve_tsig_key (ns_tsigkey_id ns)) (\<lambda>_. resolve_nameserver_tsig_keys nss)"

definition do_poll ::
  "env \<Rightarrow> req_context \<Rightarrow> pool \<Rightarrow> zone \<Rightarrow> (nat \<Rightarrow> pool_nameserver \<Rightarrow> poll_answer) \<Rightarrow> (nat \<Rightarrow> world)
     \<Rightarrow> dns_query_result sys" where
  "do_poll E ctx p z answers seen =
     seq (resolve_nameserver_tsig_keys (p_nameservers p))
       (return (poll_attempts (cf_poll_max_retries (e_conf E)) 0 (e_conf E) ctx p z answers seen
          \<lparr>dq_positives = 0, dq_no_zones = 0, dq_consensus_serial = 0, dq_results = None\<rparr>))"

definition poll_on_failure :: "status \<Rightarrow> zone \<Rightarrow> zone" where
  "poll_on_failure error_status z =
     (let z1 = z_set_status error_status z
      in if error_status = NO_ZONE then z_set_action CREATE z1 else z1)"

definition poll_on_success :: "dns_query_result \<Rightarrow> status \<Rightarrow> zone \<Rightarrow> zone" where
  "poll_on_success q st z = z_set_serial (dq_consensus_serial q) (z_set_status st z)"

text \<open>\<open>_threshold_met\<close>; taking the length of the initial result is a TypeError.\<close>

definition poll_threshold_met :: "config \<Rightarrow> zone \<Rightarrow> dns_query_result \<Rightarrow> exn + bool \<times> status" where
  "poll_threshold_met cf z q =
     (case dq_results q of
        None \<Rightarrow> Inl PyTypeError
      | Some results \<Rightarrow>
          let whole = length results in
          if \<not> compare_threshold cf (whole - dq_no_zones q) whole \<and> z_action z \<noteq> DELETE
          then Inr (False, NO_ZONE)
          else if \<not> compare_threshold cf (dq_positives q) whole then Inr (False, ERROR)
          else Inr (True, SUCCESS))"

definition zone_poller ::
  "env \<Rightarrow> req_context \<Rightarrow> pool \<Rightarrow> zone \<Rightarrow> (nat \<Rightarrow> pool_nameserver \<Rightarrow> poll_answer) \<Rightarrow> (nat \<Rightarrow> world)
     \<Rightarrow> (bool \<times> report) sys" where
  "zone_poller E ctx p z answers seen =
     bind (catch (bind (do_poll E ctx p z answers seen) (\<lambda>q. return (Some q)))
             (\<lambda>e. if e = TsigKeyNotFound then Some (return None) else None)) (\<lambda>r.
     case r of
       None \<Rightarrow> return (False, update_status_task (poll_on_failure ERROR z))
     | Some q \<Rightarrow>
         bind (lift (poll_threshold_met (e_conf E) z q)) (\<lambda>(success, st).
         return (success,
           update_status_task (if success then poll_on_success q st z else poll_on_failure st z))))"

text \<open>\<open>ZoneAction\<close>: targets, then the poll; a deletion polls for the serial 0. The reports of the
  two stages are collected.\<close>

definition zone_action ::
  "env \<Rightarrow> req_context \<Rightarrow> pool \<Rightarrow> zone \<Rightarrow> action \<Rightarrow> (pool_target \<Rightarrow> nat \<Rightarrow> target_call \<Rightarrow> bool)
     \<Rightarrow> (nat \<Rightarrow> pool_nameserver \<Rightarrow> poll_answer) \<Rightarrow> (nat \<Rightarrow> world) \<Rightarrow> (bool \<times> report list) sys" where
  "zone_action E ctx p z act ok answers seen =
     bind (zone_actor E ctx p z ok) (\<lambda>(done, rep).
     if \<not> done then return (False, case rep of None \<Rightarrow> [] | Some r \<Rightarrow> [r])
     else
       bind (zone_poller E ctx p (if act = DELETE then z_set_serial 0 z else z) answers seen)
         (\<lambda>(success, r). return (success, [r])))"


section \<open>The serial of a zone on a server\<close>

datatype rcode = NOERROR | NXDOMAIN | REFUSED | SERVFAIL | OtherRcode

record answer_rrset =
  an_name :: string
  an_in_soa :: bool
  an_serial :: int

record dns_response =
  dr_rcode :: rcode
  dr_answer :: "answer_rrset list"
  dr_authoritative :: bool

text \<open>\<open>_make_and_send_soa_message\<close>: EAGAIN, a timeout and a bad response give no response, every
  other exception leaves the task.\<close>

datatype soa_outcome = SoaResponse dns_response | SoaAgain | SoaTimeout | SoaBadResponse | SoaRaises exn

definition make_and_send_soa_message :: "soa_outcome \<Rightarrow> exn + dns_response option" where
  "make_and_send_soa_message o1 =
     (case o1 of SoaResponse r \<Rightarrow> Inr (Some r) | SoaRaises e \<Rightarrow> Inl e | _ \<Rightarrow> Inr None)"

text \<open>One pass of the loop: the new status, the serial found, and whether the loop breaks.\<close>

definition serial_step :: "zone \<Rightarrow> dns_response option \<Rightarrow> status \<Rightarrow> status \<times> int option \<times> bool" where
  "serial_step z response st =
     (case response of
        None \<Rightarrow> (st, None, False)
      | Some r \<Rightarrow>
          if dr_rcode r \<in> {NXDOMAIN, REFUSED, SERVFAIL} \<or> dr_answer r = [] then
            (if z_serial z = 0 \<and> z_action z \<in> {DELETE, NONE} then (NO_ZONE, Some 0, True)
             else (NO_ZONE, None, False))
          else if \<not> dr_authoritative r then (st, None, True)
          else if dr_rcode r \<noteq> NOERROR then (st, None, False)
          else (case dr_answer r of
                  [a] \<Rightarrow> if an_name a = z_name z \<and> an_in_soa a then (SUCCESS, Some (an_serial a), True)
                         else (st, None, False)
                | _ \<Rightarrow> (st, None, False)))"

fun zone_serial_loop ::
  "nat \<Rightarrow> nat \<Rightarrow> zone \<Rightarrow> (nat \<Rightarrow> soa_outcome) \<Rightarrow> status \<Rightarrow> exn + status \<times> int option" where
  "zone_serial_loop 0 attempt z outcome st = Inr (st, None)"
| "zone_serial_loop (Suc n) attempt z outcome st =
     (case make_and_send_soa_message (outcome attempt) of
        Inl e \<Rightarrow> Inl e
      | Inr response \<Rightarrow>
          (case serial_step z response st of
             (st', found, stop) \<Rightarrow>
               if stop then Inr (st', found) else zone_serial_loop n (Suc attempt) z outcome st'))"

definition get_zone_serial :: "config \<Rightarrow> zone \<Rightarrow> (nat \<Rightarrow> soa_outcome) \<Rightarrow> exn + status \<times> int option" where
  "get_zone_serial cf z outcome = zone_serial_loop (cf_serial_max_retries cf) 0 z outcome ERROR"

section \<open>Recovery\<close>

text \<open>\<open>f'BETWEEN {begin},{end}'\<close> and \<open>'<%s' % n\<close>.\<close>

definition shard_range :: "int \<Rightarrow> int \<Rightarrow> crit" where
  "shard_range begin_shard end_shard = CStr (''BETWEEN '' @ int_str begin_shard @ '','' @ int_str end_shard)"

definition recoverable_zones :: "env \<Rightarrow> req_context \<Rightarrow> int \<Rightarrow> int \<Rightarrow> zone list sys" where
  "recoverable_zones E ctx b e =
     (let cf = e_conf E;
          prop_time = max_prop_time (cf_poll_timeout cf) (int (cf_poll_max_retries cf))
                        (cf_poll_retry_interval cf) (cf_poll_delay cf) in
      bind (storage_find_zones ctx [(ZC_shard, shard_range b e), (ZC_status, CStr (status_str ERROR))])
        (\<lambda>error_zones.
      bind (gets w_now) (\<lambda>now.
      bind (storage_find_zones ctx [(ZC_shard, shard_range b e), (ZC_status, CStr (status_str PENDING)),
              (ZC_serial, CStr (''<'' @ int_str (now - prop_time)))]) (\<lambda>stale_zones.
      return (error_zones @ stale_zones)))))"

definition recover_shard :: "env \<Rightarrow> req_context \<Rightarrow> int \<Rightarrow> int \<Rightarrow> unit sys" where
  "recover_shard E ctx b e =
     bind (recoverable_zones E ctx b e) (\<lambda>zones.
     for_each zones (\<lambda>z.
       if z_action z = CREATE then cast (W_create_zone z)
       else if z_action z = UPDATE then cast (W_update_zone z)
       else if z_action z = DELETE then cast (W_delete_zone z False)
       else return ()))"

section \<open>Exports\<close>

record zone_export =
  ze_id :: string
  ze_status :: string
  ze_message :: "string option"
  ze_location :: "string option"

definition determine_export_method :: "env \<Rightarrow> req_context \<Rightarrow> zone_export \<Rightarrow> int \<Rightarrow> zone_export sys" where
  "determine_export_method E ctx export sz =
     (if cf_export_synchronous (e_conf E) then
        catch
          (seq (limit_check E ctx (case c_project_id ctx of None \<Rightarrow> [] | Some p \<Rightarrow> p)
                  [(''api_export_size'', sz)])
            (return (export\<lparr>ze_location :=
                Some (''designate://v2/zones/tasks/exports/'' @ ze_id export @ ''/export''),
              ze_status := ''COMPLETE''\<rparr>)))
          (\<lambda>e. case e of
             OverQuota _ \<Rightarrow> Some (return (export\<lparr>ze_status := ''ERROR'',
               ze_message := Some ''Zone is too large to export''\<rparr>))
           | _ \<Rightarrow> None)
      else return (export\<lparr>ze_status := ''ERROR'', ze_message := Some ''No suitable method for export''\<rparr>))"

text \<open>The export that \<open>ExportZone\<close> hands to \<open>update_zone_export\<close>.\<close>

definition export_zone :: "env \<Rightarrow> req_context \<Rightarrow> zone \<Rightarrow> zone_export \<Rightarrow> zone_export sys" where
  "export_zone E ctx z export =
     bind (storage_count_recordsets ctx [(RC_zone_id, CStr (z_id z))]) (\<lambda>n.
     determine_export_method E ctx export n)"

section \<open>Transfers in\<close>

text \<open>\<open>ZoneXfr\<close>: the worker's object after \<open>zone.update(from_dnspython_zone(...))\<close>, with \<open>name\<close> and
  \<open>masters\<close> reset to unchanged; the recordsets travel with the update.\<close>


definition zone_updated_from :: "zone_request \<Rightarrow> int \<Rightarrow> zone \<Rightarrow> zone" where
  "zone_updated_from zr now z =
     (let z1 = z\<lparr>z_name := default_to (z_name z) (zr_name zr), z_email := zr_email zr,
            z_ttl := zr_ttl zr, z_serial := default_to (z_serial z) (zr_serial zr),
            z_retry := default_to (z_retry z) (zr_retry zr),
            z_expire := default_to (z_expire z) (zr_expire zr), z_transferred_at := Some now\<rparr>
      in z1\<lparr>z_changed := (z_changed z \<union> {ZA_email, ZA_ttl, ZA_serial, ZA_retry, ZA_expire,
                ZA_transferred_at}) - {ZA_name, ZA_masters}\<rparr>)"

definition zone_xfr ::
  "config \<Rightarrow> (string \<Rightarrow> exn + string list) \<Rightarrow> (string \<Rightarrow> int \<Rightarrow> dns_zone xfr_outcome) \<Rightarrow> int \<Rightarrow> zone
     \<Rightarrow> zone_master list \<Rightarrow> exn + (zone \<times> recordset list) option" where
  "zone_xfr cf resolve xfr now z servers =
     (if z_type z \<noteq> SECONDARY then Inr None
      else (case do_axfr resolve xfr (if servers = [] then z_masters z else servers) of
              Inl e \<Rightarrow> if e = XFRFailure then Inr None else Inl e
            | Inr dz \<Rightarrow>
                and_then (from_dnspython_zone cf dz) (\<lambda>zr.
                Inr (Some (zone_updated_from zr now z, zr_recordsets zr)))))"

end
