(* ===== verification/WorkerProps.thy ===== *)
theory WorkerProps
  imports "HOL-Library.Multiset" Worker CentralFacts
begin

text \<open>
  What the worker's tasks achieve: thresholds in whole numbers, what a successful poll means and what
  its report does at central, the retries of a target, which zones a recovery picks up, and the
  verdicts of a serial query.
\<close>

section \<open>Facts on polls\<close>

lemma percentage_le: "part \<le> part' \<Longrightarrow> percentage part whole \<le> percentage part' whole"
  by (simp add: percentage_def divide_right_mono)

text \<open>The threshold in whole numbers, as the code means it.\<close>

lemma compare_threshold_iff:
  "compare_threshold cf part whole \<longleftrightarrow>
     (if whole = 0 then cf_threshold_percentage cf \<le> 0
      else cf_threshold_percentage cf * int whole \<le> 100 * int part)"
proof (cases "whole = 0")
  case True
  then show ?thesis by (simp add: compare_threshold_def percentage_def)
next
  case False
  then have "(0 :: rat) < of_nat whole" by simp
  then have "compare_threshold cf part whole \<longleftrightarrow>
      (of_int (cf_threshold_percentage cf) * of_nat whole :: rat) \<le> 100 * of_nat part"
    using False by (simp add: compare_threshold_def percentage_def pos_le_divide_eq)
  also have "\<dots> \<longleftrightarrow> (of_int (cf_threshold_percentage cf * int whole) :: rat) \<le> of_int (100 * int part)"
    by simp
  finally show ?thesis using False by (simp only: of_int_le_iff) simp
qed

definition up_to_date :: "zone \<Rightarrow> int option list \<Rightarrow> int list" where
  "up_to_date z results = filter (\<lambda>n. z_serial z \<le> n) (List.map_filter id results)"

lemma up_to_date_simps [simp]:
  "up_to_date z [] = []" "up_to_date z (None # rs) = up_to_date z rs"
  "up_to_date z (Some n # rs) = (if z_serial z \<le> n then n # up_to_date z rs else up_to_date z rs)"
  by (simp_all add: up_to_date_def)

lemma parse_step_simps:
  "parse_step z None acc = acc"
  "z_action z \<noteq> DELETE \<Longrightarrow> parse_step z (Some s) (p, n, low) =
     (if z_serial z \<le> s then (p + 1, n, if low = 0 \<or> s < low then s else low)
      else if s = 0 then (p, n + 1, low) else (p, n, low))"
  "z_action z = DELETE \<Longrightarrow> parse_step z (Some s) (p, n, low) =
     (if s = 0 then (p + 1, n + 1, low) else (p, n, low))"
  by (simp_all add: parse_step_def split: prod.split)

text \<open>For an action other than DELETE and a serial above 0: positives counts the nameservers that
  are up to date, and the consensus serial is the lowest of theirs.\<close>

lemma parse_fold:
  assumes "z_action z \<noteq> DELETE" "0 < z_serial z"
  shows "fold (parse_step z) results (p, n, low) = (p', n', low') \<Longrightarrow> low = 0 \<or> z_serial z \<le> low \<Longrightarrow>
     p' = p + length (up_to_date z results) \<and>
     n' = n + length (filter (\<lambda>r. r = Some 0) results) \<and>
     low' = (if low = 0
             then (if up_to_date z results = [] then 0 else Min (set (up_to_date z results)))
             else Min (insert low (set (up_to_date z results))))"
proof (induction results arbitrary: p n low)
  case Nil
  then show ?case by simp
next
  case (Cons r results)
  show ?case
  proof (cases r)
    case None
    with Cons.prems have "fold (parse_step z) results (p, n, low) = (p', n', low')"
      by (simp add: parse_step_simps)
    from Cons.IH [OF this Cons.prems(2)] None show ?thesis by (simp only:) simp
  next
    case (Some s)
    show ?thesis
    proof (cases "z_serial z \<le> s")
      case True
      let ?low = "if low = 0 \<or> s < low then s else low"
      have "?low \<noteq> 0" "z_serial z \<le> ?low" using assms(2) True Cons.prems(2) by auto
      moreover have "fold (parse_step z) results (p + 1, n, ?low) = (p', n', low')"
        using Cons.prems(1) Some True assms(1) by (simp add: parse_step_simps)
      moreover have "s \<noteq> 0" using True assms(2) by simp
      moreover have "Min (insert low (insert s A)) = Min (insert ?low A)" if "finite A" "low \<noteq> 0" for A
        using that by (cases "A = {}") (auto simp: min_def)
      moreover have "Min (insert s A) = Min (insert ?low A)" if "low = 0" for A using that by simp
      ultimately show ?thesis using Cons.IH [of "p + 1" n ?low] Some True by (auto split: if_splits)
    next
      case False
      have "fold (parse_step z) results (p, if s = 0 then n + 1 else n, low) = (p', n', low')"
        using Cons.prems(1) Some False assms(1) by (simp add: parse_step_simps split: if_splits)
      with Cons.IH [OF this Cons.prems(2)] Some False show ?thesis by auto
    qed
  qed
qed


lemma parse_query_results_spec:
  assumes "z_action z \<noteq> DELETE" "0 < z_serial z"
  shows "dq_positives (parse_query_results results z) = length (up_to_date z results)"
    "dq_no_zones (parse_query_results results z) = length (filter (\<lambda>r. r = Some 0) results)"
    "dq_consensus_serial (parse_query_results results z) =
       (if up_to_date z results = [] then 0 else Min (set (up_to_date z results)))"
    "dq_results (parse_query_results results z) = Some results"
proof -
  obtain p n low where f: "fold (parse_step z) results (0, 0, 0) = (p, n, low)" by (metis prod.collapse)
  from parse_fold [OF assms this] f show
    "dq_positives (parse_query_results results z) = length (up_to_date z results)"
    "dq_no_zones (parse_query_results results z) = length (filter (\<lambda>r. r = Some 0) results)"
    "dq_consensus_serial (parse_query_results results z) =
       (if up_to_date z results = [] then 0 else Min (set (up_to_date z results)))"
    "dq_results (parse_query_results results z) = Some results"
    by (simp_all add: parse_query_results_def)
qed

text \<open>The result of the last attempt that was made.\<close>

lemma poll_attempts_parsed:
  "poll_attempts n k cf ctx p z answers seen q = q \<or>
   (\<exists>results. poll_attempts n k cf ctx p z answers seen q = parse_query_results results z \<and>
      (\<exists>j. results = map (\<lambda>ns. poll_for_zone (answers j ns)) (p_nameservers p)))"
proof (induction n arbitrary: k q)
  case 0
  then show ?case by simp
next
  case (Suc n)
  then show ?case by (simp add: Let_def) metis
qed

lemma tsig_readonly [keeps_rules]:
  "readonly (resolve_tsig_key i)" "readonly (resolve_nameserver_tsig_keys nss)"
proof -
  show r: "readonly (resolve_tsig_key i)" for i
    unfolding resolve_tsig_key_def storage_get_tsigkey_def by (intro keeps_rules)
  show "readonly (resolve_nameserver_tsig_keys nss)"
  proof (induction nss)
    case Nil
    show ?case by (simp only: resolve_nameserver_tsig_keys.simps keeps_rules)
  next
    case (Cons ns nss)
    then show ?case unfolding resolve_nameserver_tsig_keys.simps by (intro readonly_bind r)
  qed
qed

lemma poll_threshold_met_True:
  assumes "poll_threshold_met cf z q = Inr (True, st)"
  shows "st = SUCCESS \<and> (\<exists>rs. dq_results q = Some rs \<and>
     compare_threshold cf (dq_positives q) (length rs))"
proof (cases "dq_results q")
  case None
  with assms show ?thesis by (simp add: poll_threshold_met_def)
next
  case (Some rs)
  with assms show ?thesis by (simp add: poll_threshold_met_def Let_def split: if_splits)
qed

lemma zone_poller_success:
  assumes "zone_poller E ctx p z answers seen w = (Inr (True, r), w')"
  shows "\<exists>j results. results = map (\<lambda>ns. poll_for_zone (answers j ns)) (p_nameservers p) \<and>
     compare_threshold (e_conf E) (dq_positives (parse_query_results results z)) (length results) \<and>
     r = \<lparr>rp_zone_id = z_id z, rp_status = SUCCESS,
          rp_serial = dq_consensus_serial (parse_query_results results z), rp_action = z_action z\<rparr>"
proof -
  let ?init = "\<lparr>dq_positives = 0, dq_no_zones = 0, dq_consensus_serial = 0, dq_results = None\<rparr>"
  let ?q = "poll_attempts (cf_poll_max_retries (e_conf E)) 0 (e_conf E) ctx p z answers seen ?init"
  from assms obtain st where t: "poll_threshold_met (e_conf E) z ?q = Inr (True, st)"
    and r: "r = update_status_task (poll_on_success ?q st z)"
    by (auto simp: zone_poller_def do_poll_def bind_Inr_iff catch_Inr_iff seq_Inr_iff
        split: option.splits if_splits)
  from poll_threshold_met_True [OF t] obtain rs where st: "st = SUCCESS" and
    q: "dq_results ?q = Some rs" "compare_threshold (e_conf E) (dq_positives ?q) (length rs)" by blast
  from q(1) have "?q \<noteq> ?init" by (metis dns_query_result.select_convs(4) option.discI)
  with poll_attempts_parsed obtain results j where res: "?q = parse_query_results results z"
    "results = map (\<lambda>ns. poll_for_zone (answers j ns)) (p_nameservers p)" by metis
  have "dq_results (parse_query_results results z) = Some results"
    by (auto simp: parse_query_results_def split: prod.splits)
  then have "rs = results" using q(1) res(1) by simp
  with r res st q show ?thesis by (auto simp: update_status_task_def poll_on_success_def z_sets)
qed


lemma up_to_date_ge: "n \<in> set (up_to_date z results) \<Longrightarrow> z_serial z \<le> n"
  by (induction results rule: list.induct) (auto simp: up_to_date_def)

lemma compare_threshold_positive:
  "0 < cf_threshold_percentage cf \<Longrightarrow> compare_threshold cf part whole \<Longrightarrow> 0 < part"
  by (cases part) (auto simp: compare_threshold_iff mult_le_0_iff not_le split: if_splits)

text \<open>The nameservers that served the worker's serial, or a later one, at an attempt.\<close>

definition serving ::
  "(nat \<Rightarrow> pool_nameserver \<Rightarrow> poll_answer) \<Rightarrow> nat \<Rightarrow> zone \<Rightarrow> pool_nameserver list \<Rightarrow> pool_nameserver list" where
  "serving answers j z nss =
     filter (\<lambda>ns. case answers j ns of PollSerial n \<Rightarrow> z_serial z \<le> n | _ \<Rightarrow> False) nss"

lemma length_up_to_date:
  "length (up_to_date z (map (\<lambda>ns. poll_for_zone (answers j ns)) nss)) = length (serving answers j z nss)"
  by (induction nss) (auto simp: poll_for_zone_def serving_def split: poll_answer.splits)

lemma poll_success_quorum:
  assumes poll: "zone_poller E ctx p z answers seen w = (Inr (True, r), w')"
    and thr: "0 < cf_threshold_percentage (e_conf E)" and z: "0 < z_serial z" "z_action z \<noteq> DELETE"
  shows "(\<exists>j. cf_threshold_percentage (e_conf E) * int (length (p_nameservers p)) \<le>
        100 * int (length (serving answers j z (p_nameservers p)))) \<and>
     rp_zone_id r = z_id z \<and> rp_status r = SUCCESS \<and> rp_action r = z_action z \<and> z_serial z \<le> rp_serial r"
proof -
  from zone_poller_success [OF poll] obtain j results where
    res: "results = map (\<lambda>ns. poll_for_zone (answers j ns)) (p_nameservers p)"
    and met: "compare_threshold (e_conf E) (dq_positives (parse_query_results results z)) (length results)"
    and r: "r = \<lparr>rp_zone_id = z_id z, rp_status = SUCCESS,
          rp_serial = dq_consensus_serial (parse_query_results results z), rp_action = z_action z\<rparr>" by blast
  note spec = parse_query_results_spec [OF z(2,1), of results]
  have pos: "0 < length (up_to_date z results)"
    using compare_threshold_positive [OF thr met] spec(1) by simp
  then have "rp_serial r \<in> set (up_to_date z results)" using spec(3) r by (simp add: Min_in)
  then have "z_serial z \<le> rp_serial r" by (rule up_to_date_ge)
  moreover have "cf_threshold_percentage (e_conf E) * int (length (p_nameservers p)) \<le>
      100 * int (length (up_to_date z results))"
    using met spec(1) res by (auto simp: compare_threshold_iff split: if_splits)
  ultimately show ?thesis unfolding res length_up_to_date using r by auto
qed

section \<open>Properties\<close>

text \<open>C3: when the poller reports success for a created or updated zone, at some attempt at least
  the configured percentage of the pool's nameservers served the worker's serial or a later one, and
  delivering the report to central makes the zone ACTIVE, as long as central's zone still has that
  action and no later serial.\<close>

theorem poll_success_activates:
  assumes poll: "zone_poller E ctx p zw answers seen w = (Inr (True, r), w')"
    and "0 < cf_threshold_percentage (e_conf E)" "0 < z_serial zw"
    and db: "store_wf E (w_db wc)" "sees_all ctx'"
    and z: "z \<in> set (d_zones (w_db wc))" "z_deleted z = ''0''" "plain (z_id z)"
      "z_status z \<in> {PENDING, ERROR}" "z_action z \<in> {CREATE, UPDATE}"
    and same: "z_id zw = z_id z" "z_action zw = z_action z" "z_serial z \<le> z_serial zw"
  shows "(\<exists>j. cf_threshold_percentage (e_conf E) * int (length (p_nameservers p)) \<le>
        100 * int (length (serving answers j zw (p_nameservers p)))) \<and>
     (\<exists>z' wc'. deliver E ctx' r wc = (Inr z', wc') \<and> z_status z' = ACTIVE \<and> z_action z' = NONE \<and>
       d_zones (w_db wc') = map (\<lambda>x. if x = z then zone_written NONE ACTIVE z else x) (d_zones (w_db wc)))"
proof -
  have "z_action zw \<noteq> DELETE" using z(5) same(2) by auto
  note q = poll_success_quorum [OF poll assms(2,3) this]
  have s: "z_serial z \<le> rp_serial r" "0 \<le> rp_serial r" using q same(3) assms(3) by simp_all
  have "deliver E ctx' r wc = update_status E ctx' (z_id z) SUCCESS (rp_serial r) (Some (z_action z)) wc"
    using q same by (simp add: deliver_def)
  with update_status_run [OF db z(1-3) s(2), of SUCCESS "Some (z_action z)" NONE ACTIVE] q
  show ?thesis using z(4,5) s(1)
    by (auto simp: reported_state_def status_assign_def effective_status_def)
qed

definition one_nameserver :: pool where
  "one_nameserver = sample_pool\<lparr>p_nameservers := [\<lparr>ns_id = ''n1'', ns_host = ''h'', ns_port = 53,
     ns_tsigkey_id = None\<rparr>]\<rparr>"

lemma sample_poll:
  "zone_poller sample_env worker_context one_nameserver (sample_zone ''z1'' ''t1'' ''e.o.'')
     (\<lambda>j ns. if j = 0 then PollTimeout else PollSerial 5) (\<lambda>_. world_of sample_db) (world_of sample_db)
   = (Inr (True, \<lparr>rp_zone_id = ''z1'', rp_status = SUCCESS, rp_serial = 5, rp_action = CREATE\<rparr>),
      world_of sample_db)"
  by code_simp

theorem poll_success_activates_witness:
  "\<exists>z' w'. deliver sample_env worker_context \<lparr>rp_zone_id = ''z1'', rp_status = SUCCESS, rp_serial = 5,
       rp_action = CREATE\<rparr> (world_of sample_db) = (Inr z', w') \<and> z_status z' = ACTIVE"
proof -
  have "store_wf sample_env (w_db (world_of sample_db))" using sample_store_wf by simp
  from poll_success_activates [OF sample_poll _ _ this sample_sees_all, of "sample_zone ''z1'' ''t1'' ''e.o.''"]
  show ?thesis by (force simp: sample_env_def sample_config_def)
qed

text \<open>a poll that finds an updated zone missing on the nameservers reports NO_ZONE with the action
  CREATE; central still has the action UPDATE, so the report leaves the zone's status and action as
  they are.\<close>

theorem missing_zone_report_ignored:
  assumes poll: "zone_poller E ctx p zw answers seen w = (Inr (False, r), w')" and "rp_status r = NO_ZONE"
    and db: "store_wf E (w_db wc)" "sees_all ctx'"
    and z: "z \<in> set (d_zones (w_db wc))" "z_deleted z = ''0''" "plain (z_id z)"
      "z_action z = UPDATE" "z_status z \<noteq> DELETED"
    and zw: "z_id zw = z_id z" "0 \<le> z_serial zw"
  shows "rp_action r = CREATE \<and>
     (\<exists>z' wc'. deliver E ctx' r wc = (Inr z', wc') \<and> z_action z' = UPDATE \<and> z_status z' = z_status z \<and>
       d_zones (w_db wc') =
         map (\<lambda>x. if x = z then z\<lparr>z_version := z_version z + 1\<rparr> else x) (d_zones (w_db wc)))"
proof -
  from poll obtain st where "r = update_status_task (poll_on_failure st zw)"
    by (auto simp: zone_poller_def bind_Inr_iff split: option.splits if_splits)
  with assms(2) have r: "rp_zone_id r = z_id zw" "rp_action r = CREATE" "rp_serial r = z_serial zw"
    by (auto simp: update_status_task_def poll_on_failure_def Let_def z_sets split: if_splits)
  have st: "reported_state z NO_ZONE (rp_serial r) (Some CREATE) = (z_action z, z_status z)"
    using z(4) by (simp add: reported_state_def)
  have "zone_written UPDATE (z_status z) z = z\<lparr>z_version := z_version z + 1\<rparr>"
    using z(4) by (simp add: zone_written_def)
  moreover have "0 \<le> rp_serial r" using r zw by simp
  ultimately show ?thesis
    using update_status_run [OF db z(1-3) _ st z(5)] r assms(2) zw z(4) by (fastforce simp: deliver_def)
qed


definition updating_zone :: zone where
  "updating_zone = (sample_zone ''z1'' ''t1'' ''e.o.'')\<lparr>z_action := UPDATE\<rparr>"

definition updating_db :: db where
  "updating_db = sample_db\<lparr>d_zones := [updating_zone]\<rparr>"

lemma missing_poll:
  "zone_poller sample_env worker_context one_nameserver updating_zone (\<lambda>j ns. PollSerial 0)
     (\<lambda>_. world_of updating_db) (world_of updating_db)
   = (Inr (False, \<lparr>rp_zone_id = ''z1'', rp_status = NO_ZONE, rp_serial = 5, rp_action = CREATE\<rparr>),
      world_of updating_db)"
  by code_simp

theorem missing_zone_report_ignored_witness:
  "\<exists>z' w'. deliver sample_env worker_context \<lparr>rp_zone_id = ''z1'', rp_status = NO_ZONE, rp_serial = 5,
       rp_action = CREATE\<rparr> (world_of updating_db) = (Inr z', w') \<and>
     map z_status (d_zones (w_db w')) = [PENDING]"
proof -
  have "store_wf sample_env (w_db (world_of updating_db))"
    using sample_store_wf
    by (simp add: store_wf_def updating_db_def updating_zone_def zone_ids_distinct_def unique_zone_name_def)
  from missing_zone_report_ignored [OF missing_poll _ this sample_sees_all, of updating_zone]
  show ?thesis by (force simp: updating_zone_def updating_db_def)
qed

text \<open>The retries of a target: it succeeds exactly when some allowed attempt gets every call through.\<close>

lemma run_calls_fst: "fst (run_calls ok cs) \<longleftrightarrow> (\<forall>c \<in> set cs. ok c)"
  by (induction cs) (auto split: prod.splits)

lemma run_calls_made: "\<exists>rest. cs = snd (run_calls ok cs) @ rest"
  by (induction cs) (auto split: prod.splits)

lemma try_target_fst:
  "fst (try_target n k ok cs) \<longleftrightarrow> (\<exists>j. k \<le> j \<and> j < k + n \<and> (\<forall>c \<in> set cs. ok j c))"
proof (induction n arbitrary: k)
  case 0
  then show ?case by simp
next
  case (Suc n)
  have "fst (try_target (Suc n) k ok cs) \<longleftrightarrow>
      (\<forall>c \<in> set cs. ok k c) \<or> fst (try_target n (Suc k) ok cs)"
    using run_calls_fst [of "ok k" cs] by (auto split: prod.splits bool.splits)
  also have "\<dots> \<longleftrightarrow> (\<forall>c \<in> set cs. ok k c) \<or> (\<exists>j. Suc k \<le> j \<and> j < Suc k + n \<and> (\<forall>c \<in> set cs. ok j c))"
    by (simp only: Suc.IH)
  also have "\<dots> \<longleftrightarrow> (\<exists>j. k \<le> j \<and> j < k + Suc n \<and> (\<forall>c \<in> set cs. ok j c))"
  proof
    assume "(\<forall>c \<in> set cs. ok k c) \<or> (\<exists>j. Suc k \<le> j \<and> j < Suc k + n \<and> (\<forall>c \<in> set cs. ok j c))"
    then show "\<exists>j. k \<le> j \<and> j < k + Suc n \<and> (\<forall>c \<in> set cs. ok j c)"
    proof
      assume "\<forall>c \<in> set cs. ok k c"
      then show ?thesis by (intro exI [of _ k]) simp
    next
      assume "\<exists>j. Suc k \<le> j \<and> j < Suc k + n \<and> (\<forall>c \<in> set cs. ok j c)"
      then obtain j where "Suc k \<le> j" "j < Suc k + n" "\<forall>c \<in> set cs. ok j c" by blast
      then show ?thesis by (intro exI [of _ j]) simp
    qed
  next
    assume "\<exists>j. k \<le> j \<and> j < k + Suc n \<and> (\<forall>c \<in> set cs. ok j c)"
    then obtain j where j: "k \<le> j" "j < k + Suc n" "\<forall>c \<in> set cs. ok j c" by blast
    show "(\<forall>c \<in> set cs. ok k c) \<or> (\<exists>j. Suc k \<le> j \<and> j < Suc k + n \<and> (\<forall>c \<in> set cs. ok j c))"
    proof (cases "j = k")
      case True
      with j show ?thesis by simp
    next
      case False
      with j have "Suc k \<le> j \<and> j < Suc k + n \<and> (\<forall>c \<in> set cs. ok j c)" by simp
      then show ?thesis by blast
    qed
  qed
  finally show ?case .
qed

lemma try_target_calls: "count_list (snd (try_target n k ok cs)) c \<le> n * count_list cs c"
proof (induction n arbitrary: k)
  case 0
  then show ?case by simp
next
  case (Suc n)
  obtain r made where m: "run_calls (ok k) cs = (r, made)" by fastforce
  from run_calls_made [of cs "ok k"] m obtain rest where "cs = made @ rest" by auto
  then have "count_list made c \<le> count_list cs c" by (metis count_list_append le_add1)
  with Suc.IH [of "Suc k"] m show ?case by (auto split: prod.splits bool.splits)
qed

text \<open>the action on a target succeeds exactly when, within the allowed attempts, one attempt gets
  all its calls through (the backend's and the NOTIFY's, in that order), and no call is made more
  often than there are attempts.\<close>

theorem target_attempts:
  "(fst (try_target n 0 ok (target_calls act z catalog)) \<longleftrightarrow>
      (\<exists>j. j < n \<and> list_all (ok j) (target_calls act z catalog))) \<and>
   count_list (snd (try_target n 0 ok (target_calls act z catalog))) c \<le> n"
proof -
  have "count_list (target_calls act z catalog) c \<le> 1"
    by (auto simp: target_calls_def split: option.split)
  then have "n * count_list (target_calls act z catalog) c \<le> n" by simp
  with try_target_calls [of n 0 ok "target_calls act z catalog" c]
  have "count_list (snd (try_target n 0 ok (target_calls act z catalog))) c \<le> n" by (rule le_trans)
  then show ?thesis by (auto simp: try_target_fst list_all_iff)
qed

section \<open>Recovery\<close>

lemma shard_clause:
  "0 \<le> a \<Longrightarrow> 0 \<le> b \<Longrightarrow>
     criterion_clause c (shard_range a b) = Inr (Between c (VStr (int_str a)) (VStr (int_str b)))"
  unfolding shard_range_def by (rule between_clause)

lemma serial_clause:
  assumes "0 \<le> n"
  shows "criterion_clause c (CStr (''<'' @ int_str n)) = Inr (Lt c (VStr (int_str n)))"
proof -
  obtain x rest where s: "int_str n = x # rest" using int_str_digits [OF assms] by (cases "int_str n") auto
  have "\<not> is_digit CHR ''%''" "\<not> is_digit CHR ''=''" by (simp_all add: is_digit_def)
  then have "CHR ''%'' \<notin> set (int_str n)" "CHR ''='' \<notin> set (int_str n)"
    using int_str_digits assms not_in_digits by blast+
  then show ?thesis using s by (simp add: criterion_clause_def startswith_def)
qed


text \<open>The message that carries on a zone's pending action.\<close>

definition recovery_message :: "zone \<Rightarrow> worker_msg option" where
  "recovery_message z =
     (case z_action z of
        CREATE \<Rightarrow> Some (W_create_zone z)
      | UPDATE \<Rightarrow> Some (W_update_zone z)
      | DELETE \<Rightarrow> Some (W_delete_zone z False)
      | NONE \<Rightarrow> None)"

lemma for_each_recovery:
  "for_each zones (\<lambda>z. if z_action z = CREATE then cast (W_create_zone z)
       else if z_action z = UPDATE then cast (W_update_zone z)
       else if z_action z = DELETE then cast (W_delete_zone z False)
       else return ()) w = (Inr (), w\<lparr>w_sent := w_sent w @ List.map_filter recovery_message zones\<rparr>)"
proof (induction zones arbitrary: w)
  case Nil
  then show ?case by (simp add: map_filter_simps)
next
  case (Cons z zones)
  then show ?case
    by (cases "z_action z") (simp_all add: seq_run cast_def recovery_message_def map_filter_simps)
qed

definition propagation_time :: "config \<Rightarrow> int" where
  "propagation_time cf = max_prop_time (cf_poll_timeout cf) (int (cf_poll_max_retries cf))
     (cf_poll_retry_interval cf) (cf_poll_delay cf)"

definition needs_recovery :: "config \<Rightarrow> int \<Rightarrow> int \<Rightarrow> int \<Rightarrow> zone \<Rightarrow> bool" where
  "needs_recovery cf now b e z \<longleftrightarrow> b \<le> z_shard z \<and> z_shard z \<le> e \<and>
     (z_status z = ERROR \<or> z_status z = PENDING \<and> z_serial z < now - propagation_time cf)"

lemma storage_find_zones_distinct:
  "storage_find_zones c cr w = (Inr zs, w') \<Longrightarrow> distinct zs"
  by (auto simp: storage_find_zones_def find_zones_gen_def comp_iffs select_zones_def)

lemma recoverable_zones_run:
  assumes ctx: "sees_all ctx" and nn: "0 \<le> b" "0 \<le> e" "propagation_time (e_conf E) \<le> w_now w"
  shows "\<exists>zs. recoverable_zones E ctx b e w = (Inr zs, w) \<and> distinct zs \<and>
     set zs = load_zone (w_db w) ` {z \<in> live_zones (w_db w). needs_recovery (e_conf E) (w_now w) b e z}"
proof -
  let ?n = "w_now w - propagation_time (e_conf E)"
  let ?between = "Between ZC_shard (VStr (int_str b)) (VStr (int_str e))"
  have n: "0 \<le> ?n" using nn(3) by simp
  have rn: "rname_check [(ZC_shard, x), (ZC_status, y)] = [(ZC_shard, x), (ZC_status, y)]"
    "rname_check [(ZC_shard, x), (ZC_status, y), (ZC_serial, u)] = [(ZC_shard, x), (ZC_status, y), (ZC_serial, u)]"
    for x y u by simp_all
  have c1: "apply_criterion (rname_check [(ZC_shard, shard_range b e), (ZC_status, CStr (status_str ERROR))])
      = Inr [?between, Eq ZC_status (VStr (status_str ERROR))]"
    unfolding rn by (simp add: shard_clause [OF nn(1,2)] del: status_str.simps)
  have c2: "apply_criterion (rname_check [(ZC_shard, shard_range b e), (ZC_status, CStr (status_str PENDING)),
        (ZC_serial, CStr (''<'' @ int_str ?n))])
      = Inr [?between, Eq ZC_status (VStr (status_str PENDING)), Lt ZC_serial (VStr (int_str ?n))]"
    unfolding rn by (simp add: shard_clause [OF nn(1,2)] serial_clause [OF n, simplified] del: status_str.simps)
  from find_zones_all [OF ctx c1, of w] obtain zs1 where
    z1: "storage_find_zones ctx [(ZC_shard, shard_range b e), (ZC_status, CStr (status_str ERROR))] w = (Inr zs1, w)"
    "set zs1 = load_zone (w_db w) ` {z \<in> live_zones (w_db w).
       matches zone_row_col [?between, Eq ZC_status (VStr (status_str ERROR))] z}"
    by (auto simp: zone_row_col_def)
  from find_zones_all [OF ctx c2, of w] obtain zs2 where
    z2: "storage_find_zones ctx [(ZC_shard, shard_range b e), (ZC_status, CStr (status_str PENDING)),
        (ZC_serial, CStr (''<'' @ int_str ?n))] w = (Inr zs2, w)"
    "set zs2 = load_zone (w_db w) ` {z \<in> live_zones (w_db w).
       matches zone_row_col [?between, Eq ZC_status (VStr (status_str PENDING)), Lt ZC_serial (VStr (int_str ?n))] z}"
    by (auto simp: zone_row_col_def)
  have m: "matches zone_row_col [?between, Eq ZC_status (VStr (status_str ERROR))] z \<longleftrightarrow>
        b \<le> z_shard z \<and> z_shard z \<le> e \<and> z_status z = ERROR"
      "matches zone_row_col [?between, Eq ZC_status (VStr (status_str PENDING)),
          Lt ZC_serial (VStr (int_str ?n))] z \<longleftrightarrow>
        b \<le> z_shard z \<and> z_shard z \<le> e \<and> z_status z = PENDING \<and> z_serial z < ?n" for z
    using nn n by (auto simp: zone_row_col_def val_lt_def simp del: status_str.simps)
  have "recoverable_zones E ctx b e w = (Inr (zs1 @ zs2), w)"
    using z1(1) z2(1) by (simp add: recoverable_zones_def propagation_time_def bind_run Let_def)
  moreover have "set (zs1 @ zs2) = load_zone (w_db w) `
      {z \<in> live_zones (w_db w). needs_recovery (e_conf E) (w_now w) b e z}"
    unfolding set_append z1(2) z2(2) m needs_recovery_def image_Un [symmetric]
    by (rule arg_cong [where f = "(`) (load_zone (w_db w))"]) blast
  moreover have "z_status z = ERROR" if "z \<in> set zs1" for z
    using that unfolding z1(2) m by (auto simp: load_zone_def)
  moreover have "z_status z = PENDING" if "z \<in> set zs2" for z
    using that unfolding z2(2) m by (auto simp: load_zone_def)
  ultimately show ?thesis
    using storage_find_zones_distinct [OF z1(1)] storage_find_zones_distinct [OF z2(1)]
    by (intro exI [of _ "zs1 @ zs2"]) fastforce
qed

lemma mset_map_filter_cong: "mset xs = mset ys \<Longrightarrow> mset (List.map_filter f xs) = mset (List.map_filter f ys)"
  unfolding List.map_filter_def mset_map mset_filter by simp

text \<open>C13: a recovery of a range of shards changes no table and sends exactly one message for each live
  zone of the range that has a pending action and is in ERROR, or has been PENDING longer than a change
  can take to propagate: the message repeats that action (create, update, delete) for the zone as it
  is stored, and no other message is sent.\<close>

theorem recover_shard_messages:
  assumes "sees_all ctx" "0 \<le> b" "0 \<le> e" "propagation_time (e_conf E) \<le> w_now w"
    and ids: "zone_ids_distinct (w_db w)"
  shows "\<exists>msgs. recover_shard E ctx b e w = (Inr (), w\<lparr>w_sent := w_sent w @ msgs\<rparr>) \<and>
     mset msgs = mset (List.map_filter (\<lambda>z. case z_action z of
           CREATE \<Rightarrow> Some (W_create_zone z) | UPDATE \<Rightarrow> Some (W_update_zone z)
         | DELETE \<Rightarrow> Some (W_delete_zone z False) | NONE \<Rightarrow> None)
       (map (load_zone (w_db w)) (filter (\<lambda>z. z_deleted z = ''0'' \<and>
          needs_recovery (e_conf E) (w_now w) b e z) (d_zones (w_db w)))))"
proof -
  let ?rows = "filter (\<lambda>z. z_deleted z = ''0'' \<and> needs_recovery (e_conf E) (w_now w) b e z) (d_zones (w_db w))"
  from recoverable_zones_run [OF assms(1-4)] obtain zs where
    zs: "recoverable_zones E ctx b e w = (Inr zs, w)" "distinct zs" "set zs = load_zone (w_db w) `
      {z \<in> live_zones (w_db w). needs_recovery (e_conf E) (w_now w) b e z}" by blast
  have run: "recover_shard E ctx b e w =
      (Inr (), w\<lparr>w_sent := w_sent w @ List.map_filter recovery_message zs\<rparr>)"
    unfolding recover_shard_def bind_run zs(1) by (simp add: for_each_recovery)
  have "distinct (map (z_id \<circ> load_zone (w_db w)) ?rows)"
    using ids by (simp add: zone_ids_distinct_def distinct_map_filter comp_def load_zone_def)
  then have d: "distinct (map (load_zone (w_db w)) ?rows)"
    unfolding map_map [symmetric] by (rule distinct_map [THEN iffD1, THEN conjunct1])
  have "{z \<in> live_zones (w_db w). needs_recovery (e_conf E) (w_now w) b e z} = set ?rows"
    unfolding live_zones_def set_filter by blast
  then have "set zs = set (map (load_zone (w_db w)) ?rows)" unfolding zs(3) set_map by simp
  then have "mset zs = mset (map (load_zone (w_db w)) ?rows)"
    by (rule set_eq_iff_mset_eq_distinct [OF zs(2) d, THEN iffD1])
  note msgs = mset_map_filter_cong [OF this, of recovery_message]
  show ?thesis
    unfolding recovery_message_def [abs_def, symmetric] by (intro exI conjI, rule run) (rule msgs)
qed

theorem recover_shard_messages_witness:
  "\<exists>msgs. recover_shard sample_env worker_context 0 4095 ((world_of sample_db)\<lparr>w_now := 1000\<rparr>) =
     (Inr (), (world_of sample_db)\<lparr>w_now := 1000, w_sent := msgs\<rparr>) \<and>
     count (mset msgs) (W_create_zone (load_zone sample_db (sample_zone ''z1'' ''t1'' ''e.o.''))) = 1"
proof -
  have t: "propagation_time (e_conf sample_env) \<le> w_now ((world_of sample_db)\<lparr>w_now := 1000\<rparr>)"
    by (simp add: propagation_time_def max_prop_time_def sample_env_def sample_config_def)
  have "zone_ids_distinct (w_db ((world_of sample_db)\<lparr>w_now := 1000\<rparr>))"
    using sample_store_wf by (simp add: store_wf_def)
  from recover_shard_messages [OF sample_sees_all _ _ t this, of 0 4095] obtain msgs where
    m: "recover_shard sample_env worker_context 0 4095 ((world_of sample_db)\<lparr>w_now := 1000\<rparr>) =
        (Inr (), (world_of sample_db)\<lparr>w_now := 1000, w_sent := msgs\<rparr>)"
      "mset msgs = mset (List.map_filter (\<lambda>z. case z_action z of
           CREATE \<Rightarrow> Some (W_create_zone z) | UPDATE \<Rightarrow> Some (W_update_zone z)
         | DELETE \<Rightarrow> Some (W_delete_zone z False) | NONE \<Rightarrow> None)
       (map (load_zone sample_db) (filter (\<lambda>z. z_deleted z = ''0'' \<and>
          needs_recovery (e_conf sample_env) 1000 0 4095 z) (d_zones sample_db))))"
    by (auto simp: world_of_def)
  have "needs_recovery (e_conf sample_env) 1000 0 4095 (sample_zone ''z1'' ''t1'' ''e.o.'')"
    by (simp add: needs_recovery_def propagation_time_def max_prop_time_def sample_env_def sample_config_def
        sample_zone_def)
  moreover have "z_action (load_zone sample_db (sample_zone ''z1'' ''t1'' ''e.o.'')) = CREATE"
    by (simp add: load_zone_def)
  moreover have "d_zones sample_db = [sample_zone ''z1'' ''t1'' ''e.o.'']" by simp
  ultimately show ?thesis using m by (intro exI [of _ msgs]) (simp add: map_filter_simps)
qed

section \<open>Serial queries\<close>

definition tells_absence :: "soa_outcome \<Rightarrow> bool" where
  "tells_absence out = (case out of
     SoaResponse r \<Rightarrow> dr_rcode r \<in> {NXDOMAIN, REFUSED, SERVFAIL} \<or> dr_answer r = [] | _ \<Rightarrow> False)"

definition tells_serial :: "zone \<Rightarrow> soa_outcome \<Rightarrow> int \<Rightarrow> bool" where
  "tells_serial z out n = (case out of
     SoaResponse r \<Rightarrow> dr_authoritative r \<and> dr_rcode r = NOERROR \<and>
       (\<exists>a. dr_answer r = [a] \<and> an_name a = z_name z \<and> an_in_soa a \<and> an_serial a = n) | _ \<Rightarrow> False)"

lemma serial_step_cases:
  assumes "make_and_send_soa_message out = Inr response" "serial_step z response st = (st', found, stop)"
  shows "(st' = SUCCESS \<and> stop \<and> (\<exists>n. found = Some n \<and> tells_serial z out n)) \<or>
     (st' = NO_ZONE \<and> tells_absence out \<and>
        (if stop then found = Some 0 \<and> z_serial z = 0 \<and> z_action z \<in> {DELETE, NONE} else found = None)) \<or>
     (st' = st \<and> found = None)"
  using assms
  by (auto simp: make_and_send_soa_message_def serial_step_def tells_absence_def tells_serial_def
      split: soa_outcome.splits option.splits if_splits list.splits)

lemma zone_serial_loop_verdict:
  assumes "zone_serial_loop n k z outcome st = Inr (st', found)"
    and "st = ERROR \<or> st = NO_ZONE \<and> (\<exists>j<k. tells_absence (outcome j))"
  shows "(st' = SUCCESS \<and> (\<exists>j<k + n. \<exists>m. found = Some m \<and> tells_serial z (outcome j) m)) \<or>
     (st' = NO_ZONE \<and> (\<exists>j<k + n. tells_absence (outcome j)) \<and>
        (found = None \<or> found = Some 0 \<and> z_serial z = 0 \<and> z_action z \<in> {DELETE, NONE})) \<or>
     (st' = ERROR \<and> found = None)"
  using assms
proof (induction n arbitrary: k st)
  case 0
  then show ?case by auto
next
  case (Suc n)
  from Suc.prems(1) obtain response st1 found1 stop where
    r: "make_and_send_soa_message (outcome k) = Inr response" "serial_step z response st = (st1, found1, stop)"
    by (auto split: sum.splits prod.splits)
  note step = serial_step_cases [OF r]
  show ?case
  proof (cases stop)
    case True
    with Suc.prems r have "st' = st1" "found = found1" by auto
    have here: "\<exists>j<k + Suc n. tells_absence (outcome j)"
      if "tells_absence (outcome k) \<or> (\<exists>j<k. tells_absence (outcome j))"
      using that by (meson less_add_same_cancel1 trans_less_add1 zero_less_Suc)
    have "k < k + Suc n" by simp
    with step True Suc.prems(2) here \<open>st' = st1\<close> \<open>found = found1\<close> show ?thesis by metis
  next
    case False
    with Suc.prems(1) r have run: "zone_serial_loop n (Suc k) z outcome st1 = Inr (st', found)" by simp
    have "st1 = ERROR \<or> st1 = NO_ZONE \<and> (\<exists>j<Suc k. tells_absence (outcome j))"
      using step False Suc.prems(2) by (auto intro: less_SucI)
    from Suc.IH [OF run this] show ?thesis by simp
  qed
qed

text \<open>the verdict of a serial query rests on what the server said within the allowed attempts:
  SUCCESS comes with the serial of an authoritative answer for this very zone, NO_ZONE with a
  response that denies the zone (and the serial 0 only for a zone being deleted), and ERROR
  carries no serial.\<close>

theorem zone_serial_verdict:
  assumes "get_zone_serial cf z outcome = Inr (st, found)"
  shows "(st = SUCCESS \<and> (\<exists>j<cf_serial_max_retries cf. \<exists>n. found = Some n \<and> tells_serial z (outcome j) n)) \<or>
     (st = NO_ZONE \<and> (\<exists>j<cf_serial_max_retries cf. tells_absence (outcome j)) \<and>
        (found = None \<or> found = Some 0 \<and> z_serial z = 0 \<and> z_action z \<in> {DELETE, NONE})) \<or>
     (st = ERROR \<and> found = None)"
  using zone_serial_loop_verdict [of "cf_serial_max_retries cf" 0 z outcome ERROR st found] assms
  by (simp add: get_zone_serial_def)

text \<open>A timeout, then an answer.\<close>

definition slow_server :: "nat \<Rightarrow> soa_outcome" where
  "slow_server j = (if j = 0 then SoaTimeout else SoaResponse \<lparr>dr_rcode = NOERROR,
     dr_answer = [\<lparr>an_name = ''e.o.'', an_in_soa = True, an_serial = 9\<rparr>], dr_authoritative = True\<rparr>)"

lemma slow_server_run:
  "get_zone_serial sample_config (sample_zone ''z1'' ''t1'' ''e.o.'') slow_server = Inr (SUCCESS, Some 9)"
  by code_simp

theorem zone_serial_verdict_witness:
  "\<exists>j<3. tells_serial (sample_zone ''z1'' ''t1'' ''e.o.'') (slow_server j) 9"
  using zone_serial_verdict [OF slow_server_run] by (simp add: sample_config_def)


end
