(* ===== verification/CentralTransfers.thy ===== *)
theory CentralTransfers
  imports CentralZones
begin

text \<open>
  Transfers of a zone to another project: \<open>create_zone_transfer_request\<close>, its get, update and delete,
  \<open>create_zone_transfer_accept\<close> and its get, from \<open>central/service.py\<close>, with their storage. A
  request carries a random key; whoever knows it, and may, accepts the request once and becomes the
  owner of the zone with everything in it.
\<close>

section \<open>Storage\<close>

datatype request_column = TR_id | TR_zone_id | TR_status

fun request_col :: "transfer_request \<Rightarrow> request_column \<Rightarrow> sqlval" where
  "request_col r TR_id = VStr (tr_id r)"
| "request_col r TR_zone_id = VStr (tr_zone_id r)"
| "request_col r TR_status = VStr (tr_status r)"

interpretation request_table: keyed_table request_col TR_id tr_id VStr
  by unfold_locales simp_all

text \<open>\<open>_find_zone_transfer_requests\<close>: a request belongs to the asking and to the target project;
  without a project (and without \<open>all_tenants\<close>) nothing is looked up and an empty object comes
  back, here \<open>None\<close>.\<close>

definition request_visible :: "req_context \<Rightarrow> db \<Rightarrow> transfer_request \<Rightarrow> bool" where
  "request_visible ctx d r \<longleftrightarrow>
     (\<exists>z \<in> set (d_zones d). z_id z = tr_zone_id r) \<and>
     (c_all_tenants ctx \<or> tr_tenant_id r = c_project_id ctx \<or> tr_target_tenant_id r = c_project_id ctx)"

definition find_request ::
  "req_context \<Rightarrow> (request_column \<times> crit) list \<Rightarrow> transfer_request option sys" where
  "find_request ctx criterion =
     (if \<not> c_all_tenants ctx \<and> (c_project_id ctx = None \<or> c_project_id ctx = Some []) then return None
      else
        bind (lift (apply_criterion criterion)) (\<lambda>cls.
        bind (gets (\<lambda>w. select_where request_col cls
                (filter (request_visible ctx (w_db w)) (d_requests (w_db w))))) (\<lambda>rs.
        bind (lift (fetch_one (NotFound (NF_of R_ZoneTransferRequest)) rs)) (\<lambda>r. return (Some r)))))"

text \<open>Reading an attribute of the empty object.\<close>

definition loaded_request :: "transfer_request option \<Rightarrow> exn + transfer_request" where
  "loaded_request r = (case r of None \<Rightarrow> Inl (OtherError ''NotImplementedError'') | Some r \<Rightarrow> Inr r)"

definition storage_get_transfer_request :: "req_context \<Rightarrow> string \<Rightarrow> transfer_request option sys" where
  "storage_get_transfer_request ctx i = find_request ctx [(TR_id, CStr i)]"

definition storage_create_transfer_request ::
  "env \<Rightarrow> req_context \<Rightarrow> transfer_request \<Rightarrow> transfer_request sys" where
  "storage_create_transfer_request E ctx r =
     bind (catch (bind (find_request ctx [(TR_zone_id, CStr (tr_zone_id r)), (TR_status, CStr ''ACTIVE'')])
                    (\<lambda>_. return True))
             (\<lambda>e. if e = NotFound (NF_of R_ZoneTransferRequest) then Some (return False) else None)) (\<lambda>found.
     if found then raise (Duplicate (Some R_ZoneTransferRequest))
     else
       bind (new_uuid E) (\<lambda>i.
       let row = r\<lparr>tr_id := i\<rparr> in
       seq (modify (set_db (\<lambda>d. d\<lparr>d_requests := d_requests d @ [row]\<rparr>))) (return row)))"

text \<open>\<open>_update\<close> restricts a write to rows of the caller's project, or of any with \<open>all_tenants\<close>;
  only the status changes in the code modelled here.\<close>

definition storage_update_transfer_request :: "req_context \<Rightarrow> transfer_request \<Rightarrow> transfer_request sys" where
  "storage_update_transfer_request ctx r =
     bind (gets w_db) (\<lambda>d.
     let mine = (\<lambda>x. tr_id x = tr_id r \<and> (c_all_tenants ctx \<or> tr_tenant_id x = c_project_id ctx
                        \<or> tr_tenant_id x = None)) in
     seq (raise_if (length (filter mine (d_requests d)) \<noteq> 1) (NotFound (NF_of R_ZoneTransferRequest)))
     (seq (modify (set_db (\<lambda>d. d\<lparr>d_requests := map (\<lambda>x. if mine x then r else x) (d_requests d)\<rparr>)))
       (return r)))"

definition storage_delete_transfer_request :: "req_context \<Rightarrow> string \<Rightarrow> transfer_request sys" where
  "storage_delete_transfer_request ctx i =
     bind (storage_get_transfer_request ctx i) (\<lambda>found.
     bind (lift (loaded_request found)) (\<lambda>r.
     bind (gets w_db) (\<lambda>d.
     let mine = (\<lambda>x. tr_id x = tr_id r \<and> (c_all_tenants ctx \<or> tr_tenant_id x = c_project_id ctx
                        \<or> tr_tenant_id x = None)) in
     seq (raise_if (length (filter mine (d_requests d)) \<noteq> 1) (NotFound (NF_of R_ZoneTransferRequest)))
     (seq (modify (set_db (\<lambda>d. d\<lparr>d_requests := filter (\<lambda>x. \<not> mine x) (d_requests d)\<rparr>)))
       (return r)))))"

definition storage_create_transfer_accept :: "env \<Rightarrow> transfer_accept \<Rightarrow> transfer_accept sys" where
  "storage_create_transfer_accept E a =
     bind (new_uuid E) (\<lambda>i.
     let row = a\<lparr>ta_id := i\<rparr> in
     seq (modify (set_db (\<lambda>d. d\<lparr>d_accepts := d_accepts d @ [row]\<rparr>))) (return row))"

definition storage_update_transfer_accept :: "req_context \<Rightarrow> transfer_accept \<Rightarrow> transfer_accept sys" where
  "storage_update_transfer_accept ctx a =
     bind (gets w_db) (\<lambda>d.
     let mine = (\<lambda>x. ta_id x = ta_id a \<and> (c_all_tenants ctx \<or> ta_tenant_id x = c_project_id ctx
                        \<or> ta_tenant_id x = None)) in
     seq (raise_if (length (filter mine (d_accepts d)) \<noteq> 1) (NotFound (NF_of R_ZoneTransferAccept)))
     (seq (modify (set_db (\<lambda>d. d\<lparr>d_accepts := map (\<lambda>x. if mine x then a else x) (d_accepts d)\<rparr>)))
       (return a)))"

definition storage_get_transfer_accept :: "req_context \<Rightarrow> string \<Rightarrow> transfer_accept sys" where
  "storage_get_transfer_accept ctx i =
     bind (gets (\<lambda>w. filter (\<lambda>a. ta_id a = i \<and> (c_all_tenants ctx \<or> ta_tenant_id a = c_project_id ctx
             \<or> ta_tenant_id a = None)) (d_accepts (w_db w)))) (\<lambda>found.
     lift (fetch_one (NotFound (NF_of R_ZoneTransferAccept)) found))"

section \<open>Requests\<close>

text \<open>\<open>_transfer_key_generator\<close>: \<open>picks\<close> are the indices \<open>SystemRandom.choice\<close> draws.\<close>

definition transfer_key_chars :: string where
  "transfer_key_chars = ''ABCDEFGHIJKLMNOPQRSTUVWXYZ0123456789''"

definition transfer_key_generator :: "(nat \<Rightarrow> nat) \<Rightarrow> nat \<Rightarrow> string" where
  "transfer_key_generator picks n = map (\<lambda>i. transfer_key_chars ! (picks i mod length transfer_key_chars)) [0..<n]"

definition create_zone_transfer_request ::
  "env \<Rightarrow> (nat \<Rightarrow> nat) \<Rightarrow> req_context \<Rightarrow> transfer_request \<Rightarrow> transfer_request sys" where
  "create_zone_transfer_request E picks ctx r =
     transaction (
       bind (get_zone E ctx (tr_zone_id r) True) (\<lambda>z.
       seq (enforce_catalog_zone_policy ctx (z_type z))
       (seq (raise_if (z_action z = DELETE) (BadRequest BR_plain))
       (seq (check E ''create_zone_transfer_request'' ctx (project_target (z_tenant_id z)))
       (let r1 = r\<lparr>tr_key := transfer_key_generator picks 8,
                   tr_tenant_id := (if tr_tenant_id r = None then c_project_id ctx else tr_tenant_id r)\<rparr> in
        seq (is_valid_project_id (tr_tenant_id r1))
        (storage_create_transfer_request E ctx r1))))))"

definition get_zone_transfer_request :: "env \<Rightarrow> req_context \<Rightarrow> string \<Rightarrow> transfer_request sys" where
  "get_zone_transfer_request E ctx i =
     bind (elevate_all E ctx) (\<lambda>c.
     bind (storage_get_transfer_request c i) (\<lambda>found.
     bind (lift (loaded_request found)) (\<lambda>r.
     seq (check E ''get_zone_transfer_request'' ctx
            [(''target_project_id'', opt_str (tr_target_tenant_id r)), (''project_id'', opt_str (tr_tenant_id r)),
             (''target_tenant_id'', opt_str (tr_target_tenant_id r)), (''tenant_id'', opt_str (tr_tenant_id r))])
       (return r))))"

text \<open>\<open>changed_zone\<close> says whether \<open>zone_id\<close> is among the changed attributes.\<close>

definition update_zone_transfer_request ::
  "env \<Rightarrow> req_context \<Rightarrow> transfer_request \<Rightarrow> bool \<Rightarrow> transfer_request sys" where
  "update_zone_transfer_request E ctx r changed_zone =
     transaction (
       seq (raise_if changed_zone (BadRequest InvalidOperation))
       (seq (check E ''update_zone_transfer_request'' ctx (project_target (tr_tenant_id r)))
       (storage_update_transfer_request ctx r)))"

definition delete_zone_transfer_request :: "env \<Rightarrow> req_context \<Rightarrow> string \<Rightarrow> transfer_request sys" where
  "delete_zone_transfer_request E ctx i =
     transaction (
       bind (storage_get_transfer_request ctx i) (\<lambda>found.
       bind (lift (loaded_request found)) (\<lambda>r.
       seq (check E ''delete_zone_transfer_request'' ctx (project_target (tr_tenant_id r)))
       (storage_delete_transfer_request ctx i))))"

section \<open>Accepts\<close>

text \<open>\<open>try: m; except: h; raise\<close>.\<close>

definition on_error :: "'a sys \<Rightarrow> unit sys \<Rightarrow> 'a sys" where
  "on_error m h = catch m (\<lambda>e. Some (seq h (raise e)))"

definition hand_over :: "env \<Rightarrow> req_context \<Rightarrow> req_context \<Rightarrow> transfer_request \<Rightarrow> string option \<Rightarrow> unit sys" where
  "hand_over E ctx c r tenant =
     bind (storage_get_zone c (tr_zone_id r) True) (\<lambda>z.
     seq (raise_if (z_action z = DELETE) (BadRequest BR_plain))
     (seq (enforce_zone_quota E ctx tenant)
     (bind (storage_update_zone c (z_set_tenant_id tenant z)) (\<lambda>_. return ()))))"

text \<open>The part of the method from the insertion of the accept on.\<close>

definition store_accept ::
  "env \<Rightarrow> req_context \<Rightarrow> req_context \<Rightarrow> transfer_request \<Rightarrow> transfer_accept \<Rightarrow> string option \<Rightarrow> transfer_accept sys" where
  "store_accept E ctx c r a tenant =
     bind (storage_create_transfer_accept E (a\<lparr>ta_zone_id := tr_zone_id r, ta_tenant_id := tenant\<rparr>)) (\<lambda>acc.
     seq (on_error (hand_over E ctx c r tenant)
            (bind (storage_update_transfer_accept ctx (acc\<lparr>ta_status := ''ERROR''\<rparr>)) (\<lambda>_. return ())))
     (bind (storage_update_transfer_accept ctx (acc\<lparr>ta_status := ''COMPLETE''\<rparr>)) (\<lambda>acc'.
      bind (storage_update_transfer_request c (r\<lparr>tr_status := ''COMPLETE''\<rparr>)) (\<lambda>_.
      return acc'))))"

definition create_zone_transfer_accept ::
  "env \<Rightarrow> req_context \<Rightarrow> transfer_accept \<Rightarrow> transfer_accept sys" where
  "create_zone_transfer_accept E ctx a =
     transaction (
       bind (elevate_all E ctx) (\<lambda>c.
       bind (get_zone_transfer_request E ctx (ta_request_id a)) (\<lambda>r.
       seq (raise_if (tr_status r \<noteq> ''ACTIVE'') InvaildZoneTransfer)
       (seq (raise_if (tr_key r \<noteq> ta_key a) (Forbidden IncorrectZoneTransferKey))
       (seq (check E ''create_zone_transfer_accept'' ctx
              [(''target_project_id'', opt_str (tr_target_tenant_id r)),
               (''target_tenant_id'', opt_str (tr_target_tenant_id r))])
       (let tenant = (if ta_tenant_id a = None then c_project_id ctx else ta_tenant_id a) in
        seq (is_valid_project_id tenant) (store_accept E ctx c r a tenant)))))))"

definition get_zone_transfer_accept :: "env \<Rightarrow> req_context \<Rightarrow> string \<Rightarrow> transfer_accept sys" where
  "get_zone_transfer_accept E ctx i =
     bind (storage_get_transfer_accept ctx i) (\<lambda>a.
     seq (check E ''get_zone_transfer_accept'' ctx (project_target (ta_tenant_id a))) (return a))"

end
