(* ===== verification/TransferProps.thy ===== *)
theory TransferProps
  imports CentralTransfers CentralFacts Samples
begin

text \<open>
  What an accepted transfer does: it takes the key and an active request, hands the zone with its
  recordsets and records to the accepting project, and uses the request up; a refused one changes
  nothing.
\<close>

definition accepting_tenant :: "req_context \<Rightarrow> transfer_accept \<Rightarrow> string option" where
  "accepting_tenant ctx a = (if ta_tenant_id a = None then c_project_id ctx else ta_tenant_id a)"

definition given_to :: "string option \<Rightarrow> zone \<Rightarrow> zone" where
  "given_to t z = z\<lparr>z_version := z_version z + 1, z_tenant_id := t\<rparr>"

lemma find_request_Inr:
  assumes "find_request ctx [(TR_id, CStr i)] w = (Inr (Some r), w')" "plain i"
  shows "w' = w \<and> r \<in> set (d_requests (w_db w)) \<and> tr_id r = i"
proof -
  from assms have "w' = w" "select_where request_col [Eq TR_id (VStr i)]
      (filter (request_visible ctx (w_db w)) (d_requests (w_db w))) = [r]"
    by (auto simp: find_request_def bind_Inr_iff fetch_one_Inr split: if_splits)
  then have "w' = w" "r \<in> set (select_where request_col [Eq TR_id (VStr i)]
      (filter (request_visible ctx (w_db w)) (d_requests (w_db w))))" by simp_all
  then show ?thesis by (simp add: select_where_def)
qed

lemma readonly_get_request [keeps_rules]: "readonly (get_zone_transfer_request E ctx i)"
  unfolding get_zone_transfer_request_def storage_get_transfer_request_def find_request_def
  by (intro keeps_rules)

lemma get_request_Inr:
  assumes "get_zone_transfer_request E ctx i w = (Inr r, w')" "plain i"
  shows "r \<in> set (d_requests (w_db w)) \<and> tr_id r = i"
proof -
  from assms(1) obtain c v found v' where "elevate_all E ctx w = (Inr c, v)"
    "find_request c [(TR_id, CStr i)] v = (Inr found, v')" "loaded_request found = Inr r"
    by (auto simp: get_zone_transfer_request_def storage_get_transfer_request_def bind_Inr_iff seq_Inr_iff)
  moreover from this(1) have "v = w" by (rule elevate_all_Inr(1))
  ultimately show ?thesis using find_request_Inr assms(2)
    by (cases found) (auto simp: loaded_request_def)
qed

lemma write_tenant:
  "write_zone_changes (z_set_tenant_id t (load_zone d z)) z = given_to t z"
  by (simp add: write_zone_changes_def Let_def z_sets load_zone_def given_to_def)

lemma hand_over_Inr:
  assumes run: "hand_over E ctx c r tenant w = (Inr u, w')"
    and wf: "zone_ids_distinct (w_db w)" "unique_zone_name (d_zones (w_db w))" "plain (tr_zone_id r)"
    and c: "sees_all c"
  shows "\<exists>z \<in> set (d_zones (w_db w)). z_id z = tr_zone_id r \<and> z_deleted z = ''0'' \<and> z_action z \<noteq> DELETE \<and>
     w_db w' = retenant (z_id z) tenant ((w_db w)\<lparr>d_zones :=
       map (\<lambda>x. if x = z then given_to tenant z else x) (d_zones (w_db w))\<rparr>)"
proof -
  from run obtain z0 v where z0: "storage_get_zone c (tr_zone_id r) True w = (Inr z0, w)"
      "z_action z0 \<noteq> DELETE" "storage_update_zone c (z_set_tenant_id tenant z0) w = (Inr v, w')"
    unfolding hand_over_def
    by - ((erule bind_ro seq_ro, (intro keeps_rules; fail), (simp; fail))+, auto simp: bind_Inr_iff split: if_splits)
  from storage_get_zone_Inr(2) [OF z0(1) wf(3)] c obtain z where
    z: "z \<in> set (d_zones (w_db w))" "loaded_from z0 z" "z_id z = tr_zone_id r" "z_deleted z = ''0''"
    by (auto simp: sees_all_def)
  have "storage_get_zone c (z_id z) True w = (Inr (load_zone (w_db w) z), w)"
    using wf z c by (intro storage_get_zone_ok) (simp_all add: sees_all_def)
  with z0(1) z(3) have z0z: "z0 = load_zone (w_db w) z" by simp
  let ?obj = "z_set_tenant_id tenant (load_zone (w_db w) z)"
  have id: "z_id ?obj = z_id z" by (simp add: z_sets load_zone_def)
  have m: "matches zone_row_col (tl (zone_write_where c (z_id z))) z"
    using c z(4) by (intro zone_write_matches) (simp_all add: sees_all_def)
  have "update_zone_row c ?obj w = (Inr (refetch_zone ?obj (given_to tenant z)),
     set_db (\<lambda>d. d\<lparr>d_zones := map (\<lambda>x. if x = z then given_to tenant z else x) (d_zones d)\<rparr>) w)"
    using update_zone_row_ok [OF wf(1,2) z(1) id m]
    by (simp add: write_tenant given_to_def)
  with z0(3) have "w_db w' = retenant (z_id z) tenant ((w_db w)\<lparr>d_zones :=
       map (\<lambda>x. if x = z then given_to tenant z else x) (d_zones (w_db w))\<rparr>)"
    by (auto simp: storage_update_zone_def z0z bind_Inr_iff seq_Inr_iff id z_sets refetch_zone_def
        given_to_def load_zone_def)
  moreover have "z_action z \<noteq> DELETE" using z0(2) z0z by (simp add: load_zone_def)
  ultimately show ?thesis using z by blast
qed

lemma update_accept_Inr:
  "storage_update_transfer_accept ctx a w = (Inr x, w') \<Longrightarrow>
     \<exists>rows. w' = set_db (\<lambda>d. d\<lparr>d_accepts := rows\<rparr>) w"
  by (auto simp: storage_update_transfer_accept_def bind_Inr_iff seq_Inr_iff Let_def set_db_def)

lemma update_request_Inr:
  assumes "storage_update_transfer_request c r w = (Inr x, w')" "c_all_tenants c"
  shows "w' = set_db (\<lambda>d. d\<lparr>d_requests := map (\<lambda>x. if tr_id x = tr_id r then r else x) (d_requests d)\<rparr>) w"
  using assms by (auto simp: storage_update_transfer_request_def bind_Inr_iff seq_Inr_iff Let_def set_db_def)

lemma create_accept_Inr:
  "storage_create_transfer_accept E a w = (Inr x, w') \<Longrightarrow>
     w_db w' = (w_db w)\<lparr>d_accepts := d_accepts (w_db w) @ [x]\<rparr>"
  by (auto simp: storage_create_transfer_accept_def bind_Inr_iff seq_Inr_iff Let_def)

lemma accept_steps:
  assumes run: "create_zone_transfer_accept E ctx a w = (Inr x, w')"
  obtains c r acc w1 w2 w3 acc' y where
    "elevate_all E ctx w = (Inr c, w)" "get_zone_transfer_request E ctx (ta_request_id a) w = (Inr r, w)"
    "tr_status r = ''ACTIVE''" "tr_key r = ta_key a" "accepting_tenant ctx a \<noteq> None"
    "w_db w1 = (w_db w)\<lparr>d_accepts := d_accepts (w_db w) @ [acc]\<rparr>"
    "hand_over E ctx c r (accepting_tenant ctx a) w1 = (Inr (), w2)"
    "storage_update_transfer_accept ctx (acc\<lparr>ta_status := ''COMPLETE''\<rparr>) w2 = (Inr acc', w3)"
    "storage_update_transfer_request c (r\<lparr>tr_status := ''COMPLETE''\<rparr>) w3 = (Inr y, w')"
proof -
  have "\<exists>c r. elevate_all E ctx w = (Inr c, w) \<and>
    get_zone_transfer_request E ctx (ta_request_id a) w = (Inr r, w) \<and>
    tr_status r = ''ACTIVE'' \<and> tr_key r = ta_key a \<and> accepting_tenant ctx a \<noteq> None \<and>
    store_accept E ctx c r a (accepting_tenant ctx a) w = (Inr x, w')"
    using run
    unfolding create_zone_transfer_accept_def transaction_Inr Let_def accepting_tenant_def [symmetric]
      is_valid_project_id_def
    by - ((erule bind_ro seq_ro, (intro keeps_rules; fail), (simp; fail))+,
          intro exI conjI, assumption, assumption, (simp split: if_splits; fail)+)
  then obtain c r where c: "elevate_all E ctx w = (Inr c, w)"
    "get_zone_transfer_request E ctx (ta_request_id a) w = (Inr r, w)"
    and rest: "tr_status r = ''ACTIVE''" "tr_key r = ta_key a" "accepting_tenant ctx a \<noteq> None"
    "store_accept E ctx c r a (accepting_tenant ctx a) w = (Inr x, w')" by blast
  from rest(4) obtain acc w1 w2 acc' w3 y where
    "storage_create_transfer_accept E (a\<lparr>ta_zone_id := tr_zone_id r, ta_tenant_id := accepting_tenant ctx a\<rparr>) w
       = (Inr acc, w1)"
    "hand_over E ctx c r (accepting_tenant ctx a) w1 = (Inr (), w2)"
    "storage_update_transfer_accept ctx (acc\<lparr>ta_status := ''COMPLETE''\<rparr>) w2 = (Inr acc', w3)"
    "storage_update_transfer_request c (r\<lparr>tr_status := ''COMPLETE''\<rparr>) w3 = (Inr y, w')"
    by (auto simp: store_accept_def bind_Inr_iff seq_Inr_iff on_error_def catch_Inr_iff)
  with that c rest(1-3) create_accept_Inr show ?thesis by blast
qed

text \<open>Requests and zones a transfer can rely on: ids are ids.\<close>

definition transfers_wf :: "db \<Rightarrow> bool" where
  "transfers_wf d \<longleftrightarrow> zone_ids_distinct d \<and> unique_zone_name (d_zones d) \<and>
     distinct (map tr_id (d_requests d)) \<and> (\<forall>r \<in> set (d_requests d). plain (tr_zone_id r))"

text \<open>An accept that succeeds meets an active request.\<close>

lemma accept_needs_active:
  assumes "create_zone_transfer_accept E ctx a w = (Inr x, w')" "plain (ta_request_id a)"
  shows "\<exists>r \<in> set (d_requests (w_db w)). tr_id r = ta_request_id a \<and> tr_status r = ''ACTIVE''"
  using assms(1)
proof (rule accept_steps)
  fix r :: transfer_request
  assume "get_zone_transfer_request E ctx (ta_request_id a) w = (Inr r, w)" "tr_status r = ''ACTIVE''"
  with get_request_Inr [OF _ assms(2)] show ?thesis by blast
qed

lemma transfer_effect:
  assumes run: "create_zone_transfer_accept E ctx a w = (Inr acc, w')"
    and wf: "transfers_wf (w_db w)" "plain (ta_request_id a)" "\<not> c_show_deleted ctx"
  shows "\<exists>r \<in> set (d_requests (w_db w)). \<exists>z \<in> set (d_zones (w_db w)). accepting_tenant ctx a \<noteq> None \<and>
     tr_id r = ta_request_id a \<and> tr_status r = ''ACTIVE'' \<and> tr_key r = ta_key a \<and>
     z_id z = tr_zone_id r \<and> z_deleted z = ''0'' \<and> z_action z \<noteq> DELETE \<and>
     d_zones (w_db w') = map (\<lambda>x. if x = z then given_to (accepting_tenant ctx a) z else x) (d_zones (w_db w)) \<and>
     d_recordsets (w_db w') = map (\<lambda>s. if rs_zone_id s = z_id z
        then s\<lparr>rs_tenant_id := accepting_tenant ctx a\<rparr> else s) (d_recordsets (w_db w)) \<and>
     d_records (w_db w') = map (\<lambda>x. if r_zone_id x = z_id z
        then x\<lparr>r_tenant_id := accepting_tenant ctx a\<rparr> else x) (d_records (w_db w)) \<and>
     d_requests (w_db w') = map (\<lambda>x. if x = r then r\<lparr>tr_status := ''COMPLETE''\<rparr> else x) (d_requests (w_db w))"
  using run
proof (rule accept_steps)
  fix c r acc1 acc' w1 w2 w3 y
  assume c: "elevate_all E ctx w = (Inr c, w)" and get: "get_zone_transfer_request E ctx (ta_request_id a) w = (Inr r, w)"
    and r: "tr_status r = ''ACTIVE''" "tr_key r = ta_key a" "accepting_tenant ctx a \<noteq> None"
    and w1: "w_db w1 = (w_db w)\<lparr>d_accepts := d_accepts (w_db w) @ [acc1]\<rparr>"
    and hand: "hand_over E ctx c r (accepting_tenant ctx a) w1 = (Inr (), w2)"
    and up: "storage_update_transfer_accept ctx (acc1\<lparr>ta_status := ''COMPLETE''\<rparr>) w2 = (Inr acc', w3)"
      "storage_update_transfer_request c (r\<lparr>tr_status := ''COMPLETE''\<rparr>) w3 = (Inr y, w')"
  have sees: "sees_all c" "c_all_tenants c" using elevate_all_Inr [OF c] wf(3) by (simp_all add: sees_all_def)
  have rr: "r \<in> set (d_requests (w_db w))" "tr_id r = ta_request_id a"
    using get_request_Inr [OF get wf(2)] by simp_all
  have "zone_ids_distinct (w_db w1)" "unique_zone_name (d_zones (w_db w1))" "plain (tr_zone_id r)"
    using wf(1) rr(1) w1 by (simp_all add: transfers_wf_def zone_ids_distinct_def)
  from hand_over_Inr [OF hand this sees(1)] w1 obtain z where z: "z \<in> set (d_zones (w_db w))"
    "z_id z = tr_zone_id r" "z_deleted z = ''0''" "z_action z \<noteq> DELETE"
    and w2: "w_db w2 = retenant (z_id z) (accepting_tenant ctx a) ((w_db w1)\<lparr>d_zones :=
       map (\<lambda>x. if x = z then given_to (accepting_tenant ctx a) z else x) (d_zones (w_db w))\<rparr>)" by auto
  from update_accept_Inr [OF up(1)] obtain rows where w3: "w3 = set_db (\<lambda>d. d\<lparr>d_accepts := rows\<rparr>) w2" by blast
  have inj: "inj_on tr_id (set (d_requests (w_db w)))" using wf(1) by (simp add: transfers_wf_def distinct_map)
  have "map (\<lambda>x. if tr_id x = tr_id r then r\<lparr>tr_status := ''COMPLETE''\<rparr> else x) (d_requests (w_db w)) =
      map (\<lambda>x. if x = r then r\<lparr>tr_status := ''COMPLETE''\<rparr> else x) (d_requests (w_db w))"
    using inj rr(1) by (intro map_cong) (auto dest: inj_onD)
  with update_request_Inr [OF up(2) sees(2)] w3 w2 w1
  have fin: "d_zones (w_db w') = map (\<lambda>x. if x = z then given_to (accepting_tenant ctx a) z else x) (d_zones (w_db w))"
    "d_recordsets (w_db w') = map (\<lambda>s. if rs_zone_id s = z_id z
        then s\<lparr>rs_tenant_id := accepting_tenant ctx a\<rparr> else s) (d_recordsets (w_db w))"
    "d_records (w_db w') = map (\<lambda>x. if r_zone_id x = z_id z
        then x\<lparr>r_tenant_id := accepting_tenant ctx a\<rparr> else x) (d_records (w_db w))"
    "d_requests (w_db w') = map (\<lambda>x. if x = r then r\<lparr>tr_status := ''COMPLETE''\<rparr> else x) (d_requests (w_db w))"
    by (simp_all add: retenant_def)
  show ?thesis
    by (rule bexI [OF bexI [OF _ z(1)] rr(1)]) (intro conjI r z rr(2) fin)
qed

lemma create_accept_failed:
  "create_zone_transfer_accept E ctx a w = (Inl e, w') \<Longrightarrow> w_db w' = w_db w"
  unfolding create_zone_transfer_accept_def by (simp add: transaction_Inl)

text \<open>C9: accepting a transfer is all or nothing. A failure leaves every table as it was; a success
  takes the key of an active request, gives the live zone of the request with its recordsets and
  records to the accepting project, marks the request COMPLETE and touches no other row of these
  tables; and the same request cannot be accepted again by anyone.\<close>

theorem transfer_accept:
  assumes "transfers_wf (w_db w)" "plain (ta_request_id a)" "\<not> c_show_deleted ctx"
  shows "case create_zone_transfer_accept E ctx a w of
      (Inl e, w') \<Rightarrow> w_db w' = w_db w
    | (Inr acc, w') \<Rightarrow>
        (\<exists>r \<in> set (d_requests (w_db w)). \<exists>z \<in> set (d_zones (w_db w)). accepting_tenant ctx a \<noteq> None \<and>
          tr_id r = ta_request_id a \<and> tr_status r = ''ACTIVE'' \<and> tr_key r = ta_key a \<and>
          z_id z = tr_zone_id r \<and> z_deleted z = ''0'' \<and> z_action z \<noteq> DELETE \<and>
          d_zones (w_db w') = map (\<lambda>x. if x = z then given_to (accepting_tenant ctx a) z else x) (d_zones (w_db w)) \<and>
          d_recordsets (w_db w') = map (\<lambda>s. if rs_zone_id s = z_id z
            then s\<lparr>rs_tenant_id := accepting_tenant ctx a\<rparr> else s) (d_recordsets (w_db w)) \<and>
          d_records (w_db w') = map (\<lambda>x. if r_zone_id x = z_id z
            then x\<lparr>r_tenant_id := accepting_tenant ctx a\<rparr> else x) (d_records (w_db w)) \<and>
          d_requests (w_db w') = map (\<lambda>x. if x = r then r\<lparr>tr_status := ''COMPLETE''\<rparr> else x) (d_requests (w_db w))) \<and>
        (\<forall>E2 ctx2 b. ta_request_id b = ta_request_id a \<longrightarrow>
          (\<exists>e. fst (create_zone_transfer_accept E2 ctx2 b w') = Inl e))"
proof -
  have once: "\<exists>e. fst (create_zone_transfer_accept E2 ctx2 b w') = Inl e"
    if run: "create_zone_transfer_accept E ctx a w = (Inr acc, w')" and b: "ta_request_id b = ta_request_id a"
    for acc w' E2 ctx2 b
  proof (rule ccontr)
    assume "\<nexists>e. fst (create_zone_transfer_accept E2 ctx2 b w') = Inl e"
    then obtain x w2 where "create_zone_transfer_accept E2 ctx2 b w' = (Inr x, w2)"
      by (metis obj_sumE prod.collapse)
    from accept_needs_active [OF this] assms(2) b obtain r2 where
      r2: "r2 \<in> set (d_requests (w_db w'))" "tr_id r2 = ta_request_id a" "tr_status r2 = ''ACTIVE''" by auto
    from transfer_effect [OF run assms] obtain r where
      r: "r \<in> set (d_requests (w_db w))" "tr_id r = ta_request_id a"
      "d_requests (w_db w') = map (\<lambda>x. if x = r then r\<lparr>tr_status := ''COMPLETE''\<rparr> else x) (d_requests (w_db w))"
      by blast
    from r2(1) r(3) obtain x where x: "x \<in> set (d_requests (w_db w))"
      "r2 = (if x = r then r\<lparr>tr_status := ''COMPLETE''\<rparr> else x)" by auto
    have "inj_on tr_id (set (d_requests (w_db w)))" using assms(1) by (simp add: transfers_wf_def distinct_map)
    moreover have "tr_id x = tr_id r" using x(2) r2(2) r(2) by (simp split: if_splits)
    ultimately have "x = r" using x(1) r(1) by (blast dest: inj_onD)
    with x(2) r2(3) show False by simp
  qed
  obtain q w' where run: "create_zone_transfer_accept E ctx a w = (q, w')" by fastforce
  show ?thesis
  proof (cases q)
    case (Inl e)
    with run create_accept_failed show ?thesis by simp
  next
    case (Inr acc)
    with run transfer_effect [OF _ assms] once show ?thesis by simp
  qed
qed

definition offered_db :: db where
  "offered_db = sample_db\<lparr>d_requests := [\<lparr>tr_id = ''q1'', tr_zone_id = ''z1'', tr_tenant_id = Some ''t1'',
     tr_target_tenant_id = None, tr_key = ''K'', tr_status = ''ACTIVE''\<rparr>]\<rparr>"

definition sample_accept :: transfer_accept where
  "sample_accept = \<lparr>ta_id = '''', ta_zone_id = '''', ta_tenant_id = Some ''t2'', ta_request_id = ''q1'',
     ta_key = ''K'', ta_status = ''ACTIVE''\<rparr>"

lemma sample_accept_run:
  "\<not> isl (fst (create_zone_transfer_accept sample_env (tenant_context ''t2'') sample_accept (world_of offered_db)))"
  by code_simp

theorem transfer_accept_witness:
  "map z_tenant_id (d_zones (w_db (snd (create_zone_transfer_accept sample_env (tenant_context ''t2'')
     sample_accept (world_of offered_db))))) = [Some ''t2'']"
proof -
  have wf: "transfers_wf (w_db (world_of offered_db))" "plain (ta_request_id sample_accept)"
    "\<not> c_show_deleted (tenant_context ''t2'')"
    by (simp_all add: transfers_wf_def offered_db_def zone_ids_distinct_def unique_zone_name_def
        sample_accept_def plain_def startswith_def tenant_context_def admin_context_def)
  obtain acc w' where run: "create_zone_transfer_accept sample_env (tenant_context ''t2'') sample_accept
      (world_of offered_db) = (Inr acc, w')" using sample_accept_run by (metis isl_def prod.collapse obj_sumE)
  from transfer_accept [OF wf, of sample_env] run show ?thesis
    by (auto simp: offered_db_def given_to_def accepting_tenant_def sample_accept_def)
qed


end
