(* ===== verification/Paging.thy ===== *)
theory Paging
  imports Sql "HOL-Library.Product_Lexorder" "HOL-Library.List_Lexorder"
begin

text \<open>
  Sorted and paged queries: \<open>sort_query\<close>, \<open>paginate_query\<close> and \<open>check_marker\<close> of
  \<open>storage/sqlalchemy/utils.py\<close>, the list branch of \<open>_find\<close> that uses them, and the
  generator \<open>_iter\<close> of \<open>producer/tasks.py\<close> that walks through the pages. A column is given by
  its accessor; \<open>attr\<close> finds the accessor of a column name. ORDER BY puts NULL first, as MySQL and
  SQLite do. The locale \<open>paged_table\<close> is the interface of a table whose default sort column is a
  time stamp that is never NULL; its lemma on a page is what the walks of the producer rest on.
\<close>

section \<open>The order of the values of a column\<close>

fun sql_rank :: "sqlval \<Rightarrow> nat \<times> int \<times> nat list" where
  "sql_rank VNull = (0, 0, [])"
| "sql_rank (VBool b) = (1, of_bool b, [])"
| "sql_rank (VInt n) = (2, n, [])"
| "sql_rank (VStr s) = (3, 0, map of_char s)"

lemma sql_rank_inject [simp]: "sql_rank x = sql_rank y \<longleftrightarrow> x = y"
proof -
  have "map (of_char :: char \<Rightarrow> nat) s = map of_char t \<Longrightarrow> s = t" for s t
    by (simp add: inj_map_eq_map inj_def)
  then show ?thesis by (cases x; cases y) auto
qed

instantiation sqlval :: linorder
begin

definition less_eq_sqlval :: "sqlval \<Rightarrow> sqlval \<Rightarrow> bool" where
  "less_eq_sqlval x y \<longleftrightarrow> sql_rank x \<le> sql_rank y"

definition less_sqlval :: "sqlval \<Rightarrow> sqlval \<Rightarrow> bool" where
  "less_sqlval x y \<longleftrightarrow> sql_rank x < sql_rank y"

instance
proof
  fix x y z :: sqlval
  show "x < y \<longleftrightarrow> x \<le> y \<and> \<not> y \<le> x"
    unfolding less_eq_sqlval_def less_sqlval_def by (rule less_le_not_le)
  show "x \<le> x" "x \<le> y \<or> y \<le> x" by (auto simp: less_eq_sqlval_def)
  show "x \<le> z" if "x \<le> y" "y \<le> z" using that unfolding less_eq_sqlval_def by (rule order_trans)
  show "x = y" if "x \<le> y" "y \<le> x" using that sql_rank_inject by (auto simp: less_eq_sqlval_def)
qed

end

lemma sqlval_less_simps [simp]:
  "VInt a < VInt b \<longleftrightarrow> a < b" "VInt a \<le> VInt b \<longleftrightarrow> a \<le> b"
  by (auto simp: less_sqlval_def less_eq_sqlval_def)

lemma sqlval_less_str: "VStr a < VStr b \<longleftrightarrow> (map of_char a :: nat list) < map of_char b"
  by (simp add: less_sqlval_def)

lemma val_lt_order [simp]:
  "val_lt (VInt i) (VInt j) \<longleftrightarrow> VInt i < VInt j"
  "val_lt (VStr a) (VStr b) \<longleftrightarrow> VStr a < VStr b"
proof -
  have eq: "lexordp_eq xs ys \<longleftrightarrow> xs \<le> ys" for xs ys :: "nat list"
    by (auto simp: lexordp_eq_conv_lexord lexordp_conv_lexord list_le_def list_less_def)
  show "val_lt (VInt i) (VInt j) \<longleftrightarrow> VInt i < VInt j" by (auto simp: val_lt_def)
  show "val_lt (VStr a) (VStr b) \<longleftrightarrow> VStr a < VStr b"
    by (auto simp: val_lt_def str_le_def eq sqlval_less_str)
qed

section \<open>Sorting\<close>

datatype sort_direction = Asc | Desc

definition sort_direction_of :: "string \<Rightarrow> exn + sort_direction" where
  "sort_direction_of d =
     (if d = ''asc'' then Inr Asc else if d = ''desc'' then Inr Desc else Inl PyValueError)"

text \<open>\<open>oslo_db.sqlalchemy.utils.InvalidSortKey\<close>, which the callers translate.\<close>

definition oslo_InvalidSortKey :: exn where
  "oslo_InvalidSortKey = OtherError ''InvalidSortKey''"

text \<open>\<open>sort_query\<close> with one direction for all columns, as every caller has it: the accessors of
  the sort columns; for each column the direction is looked at first.\<close>

fun sort_columns ::
  "(string \<Rightarrow> ('r \<Rightarrow> sqlval) option) \<Rightarrow> string \<Rightarrow> string list \<Rightarrow> exn + ('r \<Rightarrow> sqlval) list" where
  "sort_columns attr d [] = Inr []"
| "sort_columns attr d (k # ks) =
     (case sort_direction_of d of
        Inl e \<Rightarrow> Inl e
      | Inr _ \<Rightarrow>
          (case attr k of
             None \<Rightarrow> Inl oslo_InvalidSortKey
           | Some c \<Rightarrow>
               (case sort_columns attr d ks of Inl e \<Rightarrow> Inl e | Inr cs \<Rightarrow> Inr (c # cs))))"

definition sort_values :: "('r \<Rightarrow> sqlval) list \<Rightarrow> 'r \<Rightarrow> sqlval list" where
  "sort_values cols r = map (\<lambda>c. c r) cols"

definition order_rows :: "('r \<Rightarrow> sqlval) list \<Rightarrow> sort_direction \<Rightarrow> 'r list \<Rightarrow> 'r list" where
  "order_rows cols d rows =
     (case d of Asc \<Rightarrow> sort_key (sort_values cols) rows
              | Desc \<Rightarrow> rev (sort_key (sort_values cols) rows))"

section \<open>Pages\<close>

text \<open>The clauses \<open>paginate_query\<close> builds from the marker's row: an OR over the columns, of the
  AND of equality on the earlier columns and a comparison on this one.\<close>

definition marker_criteria ::
  "('r \<Rightarrow> sqlval) list \<Rightarrow> sort_direction \<Rightarrow> 'r \<Rightarrow> ('r \<Rightarrow> sqlval) clause list list" where
  "marker_criteria cols d m =
     map (\<lambda>i. map (\<lambda>c. Eq c (c m)) (take i cols) @
              (let c = cols ! i in [if d = Desc then Lt c (c m) else Gt c (c m)]))
       [0..<length cols]"

definition after_marker :: "('r \<Rightarrow> sqlval) list \<Rightarrow> sort_direction \<Rightarrow> 'r \<Rightarrow> 'r \<Rightarrow> bool" where
  "after_marker cols d m r \<longleftrightarrow>
     list_ex (\<lambda>cls. matches (\<lambda>r c. c r) cls r) (marker_criteria cols d m)"

text \<open>\<open>paginate_query\<close> on the rows the WHERE has selected so far.\<close>

definition paginate ::
  "(string \<Rightarrow> ('r \<Rightarrow> sqlval) option) \<Rightarrow> nat option \<Rightarrow> string list \<Rightarrow> 'r option \<Rightarrow> string \<Rightarrow> 'r list
     \<Rightarrow> exn + 'r list" where
  "paginate attr limit sort_keys marker sort_dir rows =
     (case sort_columns attr sort_dir sort_keys of
        Inl e \<Rightarrow> Inl e
      | Inr cols \<Rightarrow>
          let d = (if sort_dir = ''desc'' then Desc else Asc);
              kept = (case marker of None \<Rightarrow> rows | Some m \<Rightarrow> filter (after_marker cols d m) rows);
              sorted = order_rows cols d kept
          in Inr (case limit of None \<Rightarrow> sorted | Some n \<Rightarrow> take n sorted))"

text \<open>\<open>check_marker\<close>: the row with the marker's id, of the whole table; a marker the column type
  does not take is an \<open>InvalidMarker\<close>.\<close>

definition check_marker ::
  "(string \<Rightarrow> bool) \<Rightarrow> ('r \<Rightarrow> string) \<Rightarrow> string \<Rightarrow> 'r list \<Rightarrow> exn + 'r" where
  "check_marker valid_uuid key marker table =
     (if \<not> valid_uuid marker then Inl (BadRequest InvalidMarker)
      else case filter (\<lambda>r. key r = marker) table of
             [] \<Rightarrow> Inl (BadRequest MarkerNotFound) | r # _ \<Rightarrow> Inr r)"

text \<open>What a caller of a list query passes; \<open>a or b\<close> on an optional string.\<close>

record page_args =
  pg_marker :: "string option"
  pg_limit :: "nat option"
  pg_sort_key :: "string option"
  pg_sort_dir :: "string option"

definition first_page :: page_args where
  "first_page = \<lparr>pg_marker = None, pg_limit = None, pg_sort_key = None, pg_sort_dir = None\<rparr>"

definition or_default :: "string option \<Rightarrow> string \<Rightarrow> string" where
  "or_default x d = (case x of None \<Rightarrow> d | Some s \<Rightarrow> if s = [] then d else s)"

text \<open>\<open>_find\<close> with \<open>one=False\<close>: \<open>rows\<close> are those the criteria select from \<open>table\<close>.\<close>

definition find_page ::
  "(string \<Rightarrow> bool) \<Rightarrow> (string \<Rightarrow> ('r \<Rightarrow> sqlval) option) \<Rightarrow> ('r \<Rightarrow> string) \<Rightarrow> page_args \<Rightarrow> 'r list \<Rightarrow> 'r list
     \<Rightarrow> exn + 'r list" where
  "find_page valid_uuid attr key pg table rows =
     (let by = or_default (pg_sort_key pg) ''created_at'';
          dir = or_default (pg_sort_dir pg) ''asc''
      in case (case pg_marker pg of None \<Rightarrow> Inr None
               | Some m \<Rightarrow> (case check_marker valid_uuid key m table of
                              Inl e \<Rightarrow> Inl e | Inr r \<Rightarrow> Inr (Some r))) of
           Inl e \<Rightarrow> Inl e
         | Inr marker \<Rightarrow>
             (case paginate attr (pg_limit pg) [by, ''id''] marker dir rows of
                Inl e \<Rightarrow> Inl (if e = oslo_InvalidSortKey then BadRequest InvalidSortKey
                              else if e = PyValueError then BadRequest ValueErrorBR else e)
              | Inr rs \<Rightarrow> Inr rs))"

section \<open>Walking through the pages\<close>

text \<open>
  \<open>_iter\<close>, with the body of the loop that consumes it: a generator fetches the next page when the
  body has finished with the last row of the one before. The result tells whether the pages ended
  within the fuel.
\<close>

fun iter_pages ::
  "nat \<Rightarrow> (string option \<Rightarrow> ('s, 'r list) comp) \<Rightarrow> ('r \<Rightarrow> string) \<Rightarrow> string option
     \<Rightarrow> ('r \<Rightarrow> ('s, unit) comp) \<Rightarrow> ('s, bool) comp" where
  "iter_pages 0 fetch key marker body = return False"
| "iter_pages (Suc fuel) fetch key marker body =
     bind (fetch marker) (\<lambda>items.
       if items = [] then return True
       else seq (for_each items body)
                (iter_pages fuel fetch key (Some (key (last items))) body))"

lemma for_each_steps:
  assumes "\<And>b x s. \<exists>c. xs = b @ x # c \<Longrightarrow> I b s \<Longrightarrow> \<exists>s'. body x s = (Inr (), s') \<and> I (b @ [x]) s'"
    and "I [] s"
  shows "\<exists>s'. for_each xs body s = (Inr (), s') \<and> I xs s'"
  using assms
proof (induction xs arbitrary: s I)
  case Nil
  then show ?case by simp
next
  case (Cons x xs)
  have "\<exists>c. x # xs = [] @ x # c" by simp
  from Cons.prems(1) [OF this Cons.prems(2)] obtain s1
    where s1: "body x s = (Inr (), s1)" "I [x] s1" by auto
  have "\<exists>s'. for_each xs body s1 = (Inr (), s') \<and> I (x # xs) s'"
  proof (rule Cons.IH [of "\<lambda>b. I (x # b)"])
    fix b y s
    assume "\<exists>c. xs = b @ y # c" "I (x # b) s"
    then show "\<exists>s'. body y s = (Inr (), s') \<and> I (x # (b @ [y])) s'"
      using Cons.prems(1) [of "x # b" y s] by auto
  qed (use s1 in simp)
  with s1 show ?case by (auto simp: seq_run)
qed

text \<open>
  The walk visits every row once, in order, when the page behind the rows already visited is the
  next part of the list, whatever the body does to the state in between.
\<close>

lemma iter_pages_all:
  assumes fetch: "\<And>b c s. L = b @ c \<Longrightarrow> I b s \<Longrightarrow>
      fetch (if b = [] then None else Some (key (last b))) s = (Inr (take n c), s)"
    and body: "\<And>b x c s. L = b @ x # c \<Longrightarrow> I b s \<Longrightarrow>
      \<exists>s'. body x s = (Inr (), s') \<and> I (b @ [x]) s'"
    and "0 < n" "length L < fuel" "I [] s"
  shows "\<exists>s'. iter_pages fuel fetch key None body s = (Inr True, s') \<and> I L s'"
proof -
  have "\<exists>s'. iter_pages fuel fetch key (if b = [] then None else Some (key (last b))) body s
      = (Inr True, s') \<and> I L s'"
    if "L = b @ c" "I b s" "length c < fuel" for fuel b c s
    using that
  proof (induction fuel arbitrary: b c s)
    case 0
    then show ?case by simp
  next
    case (Suc fuel)
    note page = fetch [OF Suc.prems(1,2)]
    show ?case
    proof (cases "c = []")
      case True
      with page Suc.prems show ?thesis by (simp add: bind_run)
    next
      case False
      let ?p = "take n c" and ?r = "drop n c"
      have L: "L = (b @ ?p) @ ?r" using Suc.prems(1) by simp
      have ne: "?p \<noteq> []" using False \<open>0 < n\<close> by simp
      have "\<exists>s'. for_each ?p body s = (Inr (), s') \<and> I (b @ ?p) s'"
      proof (rule for_each_steps [of ?p "\<lambda>a. I (b @ a)"])
        fix a x s
        assume "\<exists>d. ?p = a @ x # d" and I: "I (b @ a) s"
        then obtain d where "?p = a @ x # d" by blast
        with L have "L = (b @ a) @ x # (d @ ?r)" by simp
        from body [OF this I] show "\<exists>s'. body x s = (Inr (), s') \<and> I (b @ a @ [x]) s'" by simp
      qed (use Suc.prems in simp)
      then obtain s1 where s1: "for_each ?p body s = (Inr (), s1)" "I (b @ ?p) s1" by blast
      have "length ?r < fuel" using Suc.prems(3) False \<open>0 < n\<close> by (cases c) auto
      from Suc.IH [OF L s1(2) this] page s1(1) ne show ?thesis
        by (simp add: bind_run seq_run)
    qed
  qed
  from this [of "[]" L s fuel] assms(4,5) show ?thesis by simp
qed

section \<open>Tables in the order of their creation\<close>

lemma filter_unique:
  "distinct (map f xs) \<Longrightarrow> x \<in> set xs \<Longrightarrow> (\<And>y. y \<in> set xs \<Longrightarrow> P y \<longleftrightarrow> f y = f x) \<Longrightarrow> filter P xs = [x]"
proof (induction xs)
  case Nil
  then show ?case by simp
next
  case (Cons y ys)
  show ?case
  proof (cases "y = x")
    case True
    with Cons.prems have "\<not> P z" if "z \<in> set ys" for z
      using that by (metis distinct.simps(2) image_eqI list.set_intros(2) list.set_map list.simps(9))
    with True Cons.prems show ?thesis by (simp add: filter_empty_conv)
  next
    case False
    with Cons.prems have "x \<in> set ys" by simp
    with Cons.prems have "f y \<noteq> f x" by (metis distinct.simps(2) image_eqI list.set_map list.simps(9))
    with Cons show ?thesis by auto
  qed
qed

locale paged_table =
  fixes attr :: "string \<Rightarrow> ('r \<Rightarrow> sqlval) option"
    and key :: "'r \<Rightarrow> string"
    and stamp :: "'r \<Rightarrow> int"
  assumes created: "attr ''created_at'' = Some (\<lambda>r. VInt (stamp r))"
    and id: "attr ''id'' = Some (\<lambda>r. VStr (key r))"
begin

abbreviation cols :: "('r \<Rightarrow> sqlval) list" where
  "cols \<equiv> [\<lambda>r. VInt (stamp r), \<lambda>r. VStr (key r)]"

lemma after_marker_iff: "after_marker cols Asc m r \<longleftrightarrow> sort_values cols m < sort_values cols r"
  by (auto simp: after_marker_def marker_criteria_def sort_values_def Let_def upt_rec)

lemma sort_values_inj: "sort_values cols a = sort_values cols b \<Longrightarrow> key a = key b"
  by (simp add: sort_values_def)

text \<open>The default order, and a page of it.\<close>

definition in_order :: "'r list \<Rightarrow> 'r list" where
  "in_order rows = sort_key (sort_values cols) rows"

lemma in_order_set [simp]: "set (in_order rows) = set rows" "length (in_order rows) = length rows"
  by (simp_all add: in_order_def)

lemma in_order_map_key: "distinct (map key rows) \<Longrightarrow> distinct (map key (in_order rows))"
  by (metis distinct_map in_order_def distinct_sort in_order_set(1))

lemma in_order_split:
  assumes "distinct (map key rows)" "in_order rows = before @ m # behind"
  shows "filter (after_marker cols Asc m) (in_order rows) = behind"
proof -
  have s: "sorted (map (sort_values cols) (before @ m # behind))"
    using assms(2) by (metis in_order_def sorted_sort_key)
  have d: "distinct (map key (before @ m # behind))"
    using in_order_map_key [OF assms(1)] assms(2) by simp
  have "\<not> sort_values cols m < sort_values cols x" if "x \<in> set (before @ [m])" for x
    using s that by (auto simp: sorted_append not_less)
  moreover have "sort_values cols m < sort_values cols x" if "x \<in> set behind" for x
  proof -
    from s that have "sort_values cols m \<le> sort_values cols x" by (auto simp: sorted_append)
    moreover from d that have "key m \<noteq> key x" by auto
    then have "sort_values cols m \<noteq> sort_values cols x" using sort_values_inj by blast
    ultimately show ?thesis by simp
  qed
  ultimately show ?thesis unfolding assms(2) after_marker_iff
    by (simp add: filter_empty_conv filter_id_conv)
qed

lemma filter_in_order: "filter P (in_order rows) = in_order (filter P rows)"
  by (simp add: in_order_def filter_sort)

lemma find_page_first:
  "find_page v attr key (first_page\<lparr>pg_limit := limit\<rparr>) table rows
     = Inr (case limit of None \<Rightarrow> in_order rows | Some n \<Rightarrow> take n (in_order rows))"
  by (simp add: find_page_def first_page_def paginate_def sort_direction_of_def created id
      order_rows_def in_order_def or_default_def Let_def cong: option.case_cong)

lemma find_page_next:
  assumes "v (key m)" "filter (\<lambda>r. key r = key m) table = [m']" "sort_values cols m' = sort_values cols m"
    and "distinct (map key rows)" "in_order rows = before @ m # behind"
  shows "find_page v attr key (first_page\<lparr>pg_limit := Some n, pg_marker := Some (key m)\<rparr>) table rows
     = Inr (take n behind)"
proof -
  have "after_marker cols Asc m' = after_marker cols Asc m"
    by (rule ext) (simp add: after_marker_iff assms(3))
  then have "sort_key (sort_values cols) (filter (after_marker cols Asc m') rows) = behind"
    using in_order_split [OF assms(4,5)] filter_in_order [of _ rows] by (simp add: in_order_def)
  with assms(1,2) show ?thesis
    by (simp add: find_page_def first_page_def check_marker_def paginate_def sort_direction_of_def
        created id order_rows_def Let_def or_default_def)
qed

text \<open>
  The next page when the rows visited so far have been rewritten without moving in the order: it is
  the next part of the selection as it was at the start.
\<close>

lemma find_page_rewritten:
  assumes rows: "distinct (map key rows)" "in_order (filter P rows) = b @ c"
    and g: "\<And>r. r \<in> set rows \<Longrightarrow> sort_values cols (g r) = sort_values cols r"
    and same: "\<And>r. r \<in> set rows \<Longrightarrow> r \<notin> set b \<Longrightarrow> g r = r"
    and v: "b \<noteq> [] \<Longrightarrow> v (key (last b))"
  shows "find_page v attr key
      (first_page\<lparr>pg_limit := Some n, pg_marker := if b = [] then None else Some (key (last b))\<rparr>)
      (map g rows) (filter P (map g rows)) = Inr (take n c)"
proof (cases "b = []")
  case True
  with same have "map g rows = rows" by (intro map_idI) simp
  with True rows(2) show ?thesis
    using find_page_first [of v "Some n" rows "filter P rows"] by (simp add: first_page_def)
next
  case False
  let ?m = "last b"
  from rows(2) False have split: "in_order (filter P rows) = butlast b @ ?m # c"
    by simp
  have mem: "?m \<in> set rows"
    by (metis False UnI1 filter_is_subset in_order_set(1) last_in_set rows(2) set_append subsetD)
  have key: "key (g r) = key r" if "r \<in> set rows" for r
    using g [OF that] by (simp add: sort_values_def)
  have dk: "distinct (map key (map g rows))"
    using rows(1) key by (metis (mono_tags, lifting) list.map_comp map_eq_conv comp_apply)
  have marker: "filter (\<lambda>r. key r = key ?m) (map g rows) = [g ?m]"
    using dk mem key by (intro filter_unique [where f = key]) auto
  let ?after = "after_marker cols Asc"
  have at: "?after (g ?m) = ?after ?m" by (rule ext) (simp add: after_marker_iff g [OF mem])
  have moved: "?after ?m (g r) \<longleftrightarrow> ?after ?m r" if "r \<in> set rows" for r
    using g [OF that] by (simp add: after_marker_iff)
  have sorted: "sorted (map (sort_values cols) (butlast b @ ?m # c))"
    using split by (metis in_order_def sorted_sort_key)
  have early: "\<not> ?after ?m r" if "r \<in> set b" for r
  proof -
    from that False have "r \<in> set (butlast b) \<or> r = ?m"
      by (metis append_butlast_last_id in_set_conv_decomp rotate1.simps(2) set_ConsD set_rotate1)
    with sorted show ?thesis by (auto simp: after_marker_iff sorted_append not_less)
  qed
  have "filter (\<lambda>r. ?after ?m r \<and> P r) (map g rows) = filter (\<lambda>r. ?after ?m r \<and> P r) rows"
  proof -
    have "filter (\<lambda>r. ?after ?m (g r) \<and> P (g r)) rows = filter (\<lambda>r. ?after ?m r \<and> P r) rows"
      using moved early same by (intro filter_cong) metis+
    moreover have "map g (filter (\<lambda>r. ?after ?m r \<and> P r) rows) = filter (\<lambda>r. ?after ?m r \<and> P r) rows"
      using early same by (intro map_idI) auto
    ultimately show ?thesis by (simp add: filter_map comp_def)
  qed
  then have "in_order (filter (?after (g ?m)) (filter P (map g rows)))
      = filter (?after ?m) (in_order (filter P rows))"
    by (simp add: at filter_in_order filter_filter conj_commute)
  also have "\<dots> = c"
    using in_order_split [OF distinct_map_filter [OF rows(1)] split] .
  finally have "sort_key (sort_values cols) (filter (?after (g ?m)) (filter P (map g rows))) = c"
    by (simp add: in_order_def)
  with marker False v show ?thesis
    by (simp add: find_page_def first_page_def check_marker_def paginate_def sort_direction_of_def
        created id order_rows_def Let_def or_default_def)
qed

end

end
