(* ===== verification/ZoneLists.thy ===== *)
theory ZoneLists
  imports CentralZones Paging
begin

text \<open>
  Zones in pages, and the requests that start a zone transfer: \<open>find_zones\<close> of storage and central
  with marker, limit, sort key and direction, and \<open>xfr_zone\<close>. The columns \<open>created_at\<close> and
  \<open>updated_at\<close>, which no other part of the model reads, are given as functions of the zone's id.
\<close>

section \<open>Pages of zones\<close>

definition zone_attr ::
  "(string \<Rightarrow> int) \<Rightarrow> (string \<Rightarrow> int option) \<Rightarrow> string \<Rightarrow> (zone \<Rightarrow> sqlval) option" where
  "zone_attr created updated = map_of
     [(''id'', \<lambda>z. VStr (z_id z)), (''version'', \<lambda>z. VInt (z_version z)),
      (''created_at'', \<lambda>z. VInt (created (z_id z))),
      (''updated_at'', \<lambda>z. case updated (z_id z) of None \<Rightarrow> VNull | Some n \<Rightarrow> VInt n),
      (''deleted'', \<lambda>z. VStr (z_deleted z)),
      (''deleted_at'', \<lambda>z. case z_deleted_at z of None \<Rightarrow> VNull | Some n \<Rightarrow> VInt n),
      (''shard'', \<lambda>z. VInt (z_shard z)), (''tenant_id'', \<lambda>z. opt_str (z_tenant_id z)),
      (''name'', \<lambda>z. VStr (z_name z)), (''email'', \<lambda>z. VStr (z_email z)),
      (''description'', \<lambda>z. opt_str (z_description z)), (''type'', \<lambda>z. VStr (zone_type_str (z_type z))),
      (''transferred_at'', \<lambda>z. case z_transferred_at z of None \<Rightarrow> VNull | Some n \<Rightarrow> VInt n),
      (''ttl'', \<lambda>z. case z_ttl z of None \<Rightarrow> VNull | Some n \<Rightarrow> VInt n),
      (''serial'', \<lambda>z. VInt (z_serial z)), (''refresh'', \<lambda>z. VInt (z_refresh z)),
      (''retry'', \<lambda>z. VInt (z_retry z)), (''expire'', \<lambda>z. VInt (z_expire z)),
      (''minimum'', \<lambda>z. VInt (z_minimum z)), (''status'', \<lambda>z. VStr (status_str (z_status z))),
      (''parent_zone_id'', \<lambda>z. opt_str (z_parent_zone_id z)),
      (''action'', \<lambda>z. VStr (action_str (z_action z))), (''pool_id'', \<lambda>z. VStr (z_pool_id z)),
      (''reverse_name'', \<lambda>z. VStr (rev (z_name z))),
      (''delayed_notify'', \<lambda>z. VBool (z_delayed_notify z)),
      (''increment_serial'', \<lambda>z. VBool (z_increment_serial z))]"

interpretation zone_pages: paged_table "zone_attr created updated" z_id "\<lambda>z. created (z_id z)"
  for created :: "string \<Rightarrow> int" and updated :: "string \<Rightarrow> int option"
  by unfold_locales (simp_all add: zone_attr_def)

text \<open>What a list of zones reads beside the rows.\<close>

record zone_times =
  zt_created :: "string \<Rightarrow> int"
  zt_updated :: "string \<Rightarrow> int option"

definition storage_find_zones_page ::
  "env \<Rightarrow> zone_times \<Rightarrow> req_context \<Rightarrow> (zone_column \<times> crit) list \<Rightarrow> page_args \<Rightarrow> zone list sys" where
  "storage_find_zones_page E T ctx criterion pg =
     bind (lift (zone_where ctx criterion True True)) (\<lambda>cls.
     bind (gets w_db) (\<lambda>d.
     lift (find_page (e_valid_uuid E) (zone_attr (zt_created T) (zt_updated T)) z_id pg
             (d_zones d) (select_zones cls d))))"

definition find_zones_page ::
  "env \<Rightarrow> zone_times \<Rightarrow> req_context \<Rightarrow> (zone_column \<times> crit) list \<Rightarrow> page_args \<Rightarrow> zone list sys" where
  "find_zones_page E T ctx criterion pg =
     seq (check E ''find_zones'' ctx (project_target (c_project_id ctx)))
     (storage_find_zones_page E T ctx
        (if ''admin'' \<notin> set (c_roles ctx)
         then filter (\<lambda>(c, v). c \<noteq> ZC_type) criterion @ [(ZC_type, CStr ''!CATALOG'')]
         else criterion) pg)"

section \<open>Transfers on request\<close>

text \<open>\<open>xfr_zone\<close>: the master is drawn from the zone's; \<open>ask\<close> is the serial the worker finds there.\<close>

definition xfr_zone ::
  "env \<Rightarrow> (zone \<Rightarrow> zone_master \<Rightarrow> int option) \<Rightarrow> req_context \<Rightarrow> string \<Rightarrow> unit sys" where
  "xfr_zone E ask ctx zone_id =
     bind (storage_get_zone ctx zone_id True) (\<lambda>z.
     seq (check E ''xfr_zone'' ctx (zone_target zone_id z))
     (seq (raise_if (z_type z \<noteq> SECONDARY) (BadRequest BR_plain))
     (seq (raise_if (z_masters z = []) PyIndexError)
     (case ask z (z_masters z ! e_choice E (length (z_masters z))) of
        None \<Rightarrow> return ()
      | Some serial \<Rightarrow>
          if z_serial z < serial then cast (W_perform_zone_xfr z) else return ()))))"

section \<open>The rows a query selects\<close>

lemma remdups_replicate: "0 < n \<Longrightarrow> x \<notin> set ys \<Longrightarrow> remdups (replicate n x @ ys) = x # remdups ys"
proof (induction n)
  case (Suc n)
  then show ?case by (cases n) simp_all
qed simp

definition row_join :: "shared_zone list \<Rightarrow> zone \<Rightarrow> (zone \<times> string option) list" where
  "row_join shares z =
     (let shs = filter (\<lambda>s. sh_zone_id s = z_id z) shares in
      if shs = [] then [(z, None)] else map (\<lambda>s. (z, Some (sh_target_project_id s))) shs)"

lemma row_join_loaded:
  "\<exists>n>0. map zone_of_join (row_join (d_shares d) z) = replicate n (load_zone d z)"
proof -
  let ?shs = "filter (\<lambda>s. sh_zone_id s = z_id z) (d_shares d)"
  have sh: "is_shared d z \<longleftrightarrow> ?shs \<noteq> []" by (auto simp: is_shared_def filter_empty_conv)
  have "map zone_of_join (row_join (d_shares d) z)
      = replicate (if ?shs = [] then 1 else length ?shs) (load_zone d z)"
    using sh by (auto simp: row_join_def Let_def zone_of_join_def load_zone_def comp_def map_replicate_const)
  moreover have "0 < (if ?shs = [] then 1 else length ?shs)" by simp
  ultimately show ?thesis by blast
qed

text \<open>Without a condition on shares, the query returns each row once, in the order of the table.\<close>

lemma select_zones_rows:
  assumes ids: "zone_ids_distinct d"
    and plain: "\<And>z t. matches zone_col cls (z, t) = matches zone_row_col cls z"
  shows "select_zones cls d = map (load_zone d) (filter (matches zone_row_col cls) (d_zones d))"
proof -
  have "remdups (map zone_of_join (filter (matches zone_col cls) (concat (map (row_join (d_shares d)) rows))))
      = map (load_zone d) (filter (matches zone_row_col cls) rows)"
    if "distinct (map z_id rows)" for rows
    using that
  proof (induction rows)
    case Nil
    then show ?case by simp
  next
    case (Cons z rows)
    have fst: "\<forall>zt \<in> set (row_join (d_shares d) z). fst zt = z" for z
      by (auto simp: row_join_def Let_def)
    have rest: "load_zone d z \<notin> set (map zone_of_join
        (filter (matches zone_col cls) (concat (map (row_join (d_shares d)) rows))))"
    proof
      assume "load_zone d z \<in> set (map zone_of_join
        (filter (matches zone_col cls) (concat (map (row_join (d_shares d)) rows))))"
      then obtain y zt where y: "y \<in> set rows" "zt \<in> set (row_join (d_shares d) y)"
        "load_zone d z = zone_of_join zt" by auto
      with fst [of y] have "z_id z = z_id y"
        by (metis (no_types, lifting) loaded_from_simps(1) zone_of_join_loaded load_zone_def
            prod.collapse zone.select_convs(1) zone.surjective zone.update_convs(24,27))
      with Cons.prems y(1) show False by auto
    qed
    show ?case
    proof (cases "matches zone_row_col cls z")
      case True
      then have "filter (matches zone_col cls) (row_join (d_shares d) z) = row_join (d_shares d) z"
        using fst [of z] plain by (intro filter_True) (metis prod.collapse)
      with True Cons rest row_join_loaded [of d z] show ?thesis
        by (auto simp: remdups_replicate)
    next
      case False
      then have "filter (matches zone_col cls) (row_join (d_shares d) z) = []"
        using fst [of z] plain by (intro filter_False) (metis prod.collapse)
      with False Cons show ?thesis by simp
    qed
  qed
  moreover have "zone_join d = concat (map (row_join (d_shares d)) (d_zones d))"
    unfolding zone_join_def row_join_def Let_def ..
  ultimately show ?thesis
    using ids by (simp add: select_zones_def select_where_def zone_ids_distinct_def)
qed

end
