(* ===== verification/ServiceStatuses.thy ===== *)
theory ServiceStatuses
  imports Env Paging Samples
begin

text \<open>
  The service statuses: the rows the heartbeats write. Storage methods
  (\<open>find_service_status(es)\<close>, \<open>create_\<close>, \<open>update_\<close>, \<open>delete_service_status\<close> of
  \<open>storage/sqlalchemy/__init__.py\<close>), the central methods of the same names, which create the row when
  there is none, and the heartbeat emitter. The table has neither a tenant nor a deleted column.
\<close>

section \<open>Storage\<close>

datatype ss_column = SC_id | SC_service_name | SC_hostname | SC_status

fun service_state_str :: "service_state \<Rightarrow> string" where
  "service_state_str UP = ''UP''"
| "service_state_str DOWN = ''DOWN''"
| "service_state_str WARNING = ''WARNING''"
| "service_state_str STOPPED = ''STOPPED''"

fun ss_col :: "service_status \<Rightarrow> ss_column \<Rightarrow> sqlval" where
  "ss_col s SC_id = opt_str (ss_id s)"
| "ss_col s SC_service_name = VStr (ss_service_name s)"
| "ss_col s SC_hostname = VStr (ss_hostname s)"
| "ss_col s SC_status = VStr (service_state_str (ss_status s))"

interpretation ss_table: keyed_table ss_col SC_id ss_id opt_str
  by unfold_locales simp_all

definition opt_int :: "int option \<Rightarrow> sqlval" where
  "opt_int x = (case x of None \<Rightarrow> VNull | Some n \<Rightarrow> VInt n)"

definition ss_key :: "service_status \<Rightarrow> string" where
  "ss_key s = (case ss_id s of None \<Rightarrow> [] | Some i \<Rightarrow> i)"

definition ss_attr :: "string \<Rightarrow> (service_status \<Rightarrow> sqlval) option" where
  "ss_attr = map_of
     [(''id'', \<lambda>s. VStr (ss_key s)), (''created_at'', \<lambda>s. VInt (ss_created_at s)),
      (''updated_at'', \<lambda>s. opt_int (ss_updated_at s)), (''service_name'', \<lambda>s. VStr (ss_service_name s)),
      (''hostname'', \<lambda>s. VStr (ss_hostname s)), (''heartbeated_at'', \<lambda>s. opt_int (ss_heartbeated_at s)),
      (''status'', \<lambda>s. VStr (service_state_str (ss_status s)))]"

interpretation ss_pages: paged_table ss_attr ss_key ss_created_at
  by unfold_locales (simp_all add: ss_attr_def)

text \<open>\<open>UniqueConstraint('service_name', 'hostname')\<close>.\<close>

definition unique_service_status :: "service_status list \<Rightarrow> bool" where
  "unique_service_status rows \<longleftrightarrow> distinct (map (\<lambda>s. (ss_service_name s, ss_hostname s)) rows)"

abbreviation ServiceStatusNotFound :: exn where
  "ServiceStatusNotFound \<equiv> NotFound (NF_of R_ServiceStatus)"

definition storage_find_service_statuses ::
  "env \<Rightarrow> (ss_column \<times> crit) list \<Rightarrow> page_args \<Rightarrow> service_status list sys" where
  "storage_find_service_statuses E criterion pg =
     bind (lift (apply_criterion criterion)) (\<lambda>cls.
     bind (gets (\<lambda>w. d_statuses (w_db w))) (\<lambda>rows.
     lift (find_page (e_valid_uuid E) ss_attr ss_key pg rows (select_where ss_col cls rows))))"

definition storage_find_service_status :: "(ss_column \<times> crit) list \<Rightarrow> service_status sys" where
  "storage_find_service_status criterion =
     bind (lift (apply_criterion criterion)) (\<lambda>cls.
     bind (gets (\<lambda>w. select_where ss_col cls (d_statuses (w_db w)))) (\<lambda>rs.
     lift (fetch_one ServiceStatusNotFound rs)))"

text \<open>An object that was loaded before brings its id and times along; otherwise the defaults of the
  columns apply.\<close>

definition storage_create_service_status :: "env \<Rightarrow> service_status \<Rightarrow> service_status sys" where
  "storage_create_service_status E s =
     bind (case ss_id s of Some i \<Rightarrow> return s
           | None \<Rightarrow> bind (new_uuid E) (\<lambda>i. bind (gets w_now) (\<lambda>now.
               return (s\<lparr>ss_id := Some i, ss_created_at := now, ss_updated_at := None\<rparr>)))) (\<lambda>row.
     bind (gets w_db) (\<lambda>d.
     bind (lift (insert_row (\<lambda>rows. unique_service_status rows \<and> distinct (map ss_id rows))
                   (Duplicate (Some R_ServiceStatus)) row (d_statuses d))) (\<lambda>rows.
     seq (modify (set_db (\<lambda>d. d\<lparr>d_statuses := rows\<rparr>))) (return row))))"

text \<open>\<open>db_status.update(dict(service_status))\<close>: the attributes set on the object replace those of
  the row; \<open>updated_at\<close> is the clock when the object does not bring one.\<close>

definition merge_service_status :: "int \<Rightarrow> service_status \<Rightarrow> service_status \<Rightarrow> service_status" where
  "merge_service_status now s row =
     (if ss_id s = None
      then s\<lparr>ss_id := ss_id row, ss_created_at := ss_created_at row, ss_updated_at := Some now\<rparr>
      else s)"

definition storage_update_service_status :: "service_status \<Rightarrow> service_status \<Rightarrow> service_status sys" where
  "storage_update_service_status s db_status =
     bind (gets w_now) (\<lambda>now.
     bind (gets w_db) (\<lambda>d.
     bind (lift (update_where ss_col unique_service_status (Duplicate (Some R_ServiceStatus))
             ServiceStatusNotFound [Eq SC_id (opt_str (ss_id db_status))]
             (merge_service_status now s) (d_statuses d))) (\<lambda>rows.
     seq (modify (set_db (\<lambda>d. d\<lparr>d_statuses := rows\<rparr>)))
         (return (merge_service_status now s db_status)))))"

definition storage_delete_service_status :: "service_status \<Rightarrow> service_status sys" where
  "storage_delete_service_status s =
     bind (gets w_db) (\<lambda>d.
     bind (lift (delete_where ss_col ServiceStatusNotFound [Eq SC_id (opt_str (ss_id s))]
             (d_statuses d))) (\<lambda>rows.
     seq (modify (set_db (\<lambda>d. d\<lparr>d_statuses := rows\<rparr>))) (return s)))"

section \<open>Central\<close>

definition find_service_statuses ::
  "env \<Rightarrow> req_context \<Rightarrow> (ss_column \<times> crit) list \<Rightarrow> page_args \<Rightarrow> service_status list sys" where
  "find_service_statuses E ctx criterion pg =
     seq (check E ''find_service_statuses'' ctx []) (storage_find_service_statuses E criterion pg)"

definition find_service_status ::
  "env \<Rightarrow> req_context \<Rightarrow> (ss_column \<times> crit) list \<Rightarrow> service_status sys" where
  "find_service_status E ctx criterion =
     seq (check E ''find_service_status'' ctx []) (storage_find_service_status criterion)"

text \<open>The criterion by which update and delete look the row up.\<close>

definition status_criterion :: "service_status \<Rightarrow> (ss_column \<times> crit) list" where
  "status_criterion s =
     [(SC_service_name, CStr (ss_service_name s)), (SC_hostname, CStr (ss_hostname s))] @
     (case ss_id s of None \<Rightarrow> [] | Some i \<Rightarrow> [(SC_id, CStr i)])"

definition update_service_status :: "env \<Rightarrow> req_context \<Rightarrow> service_status \<Rightarrow> service_status sys" where
  "update_service_status E ctx s =
     seq (check E ''update_service_status'' ctx [])
     (catch (bind (storage_find_service_status (status_criterion s)) (storage_update_service_status s))
        (\<lambda>e. if e = ServiceStatusNotFound then Some (storage_create_service_status E s) else None))"

definition delete_service_status :: "env \<Rightarrow> req_context \<Rightarrow> service_status \<Rightarrow> unit sys" where
  "delete_service_status E ctx s =
     seq (check E ''delete_service_status'' ctx [])
     (catch (bind (storage_find_service_status (status_criterion s)) (\<lambda>db_status.
             bind (storage_delete_service_status db_status) (\<lambda>_. return ())))
        (\<lambda>e. if e = ServiceStatusNotFound then Some (return ()) else None))"

section \<open>Heartbeats\<close>

text \<open>\<open>_emit_heartbeat\<close> and \<open>stop\<close> of \<open>heartbeat_emitter.py\<close> with the RPC emitter.\<close>

definition heartbeat :: "string \<Rightarrow> string \<Rightarrow> service_state \<Rightarrow> int \<Rightarrow> service_status" where
  "heartbeat service host st now =
     \<lparr>ss_id = None, ss_created_at = now, ss_updated_at = None, ss_service_name = service,
      ss_hostname = host, ss_heartbeated_at = Some now, ss_status = st, ss_stats = ''{}'',
      ss_capabilities = ''{}''\<rparr>"

definition emit_heartbeat :: "env \<Rightarrow> string \<Rightarrow> string \<Rightarrow> unit sys" where
  "emit_heartbeat E service host =
     bind (gets w_now) (\<lambda>now.
     bind (update_service_status E admin_context (heartbeat service host UP now)) (\<lambda>_. return ()))"

definition stop_heartbeat :: "env \<Rightarrow> string \<Rightarrow> string \<Rightarrow> unit sys" where
  "stop_heartbeat E service host =
     bind (gets w_now) (\<lambda>now.
     catch (bind (update_service_status E admin_context (heartbeat service host STOPPED now))
              (\<lambda>_. return ()))
       (\<lambda>e. Some (return ())))"

section \<open>What the operations do\<close>

text \<open>Rows with an id each, one per service and host, whose names no query operator applies to.\<close>

definition statuses_wf :: "env \<Rightarrow> service_status list \<Rightarrow> bool" where
  "statuses_wf E rows \<longleftrightarrow> distinct (map ss_id rows) \<and> unique_service_status rows \<and>
     list_all (\<lambda>s. ss_id s \<noteq> None \<and> plain (ss_service_name s) \<and> plain (ss_hostname s) \<and>
                   plain (ss_key s) \<and> e_valid_uuid E (ss_key s)) rows"

lemma statuses_wf_row:
  assumes "statuses_wf E rows" "s \<in> set rows"
  shows "ss_id s = Some (ss_key s)" "plain (ss_service_name s)" "plain (ss_hostname s)"
    "plain (ss_key s)" "e_valid_uuid E (ss_key s)"
  using assms by (auto simp: statuses_wf_def list_all_iff ss_key_def)

lemma statuses_wf_keys: "statuses_wf E rows \<Longrightarrow> distinct (map ss_key rows)"
proof -
  assume wf: "statuses_wf E rows"
  then have "map ss_id rows = map (Some \<circ> ss_key) rows"
    by (intro map_cong) (simp_all add: statuses_wf_row(1))
  with wf have "distinct (map Some (map ss_key rows))" by (simp add: statuses_wf_def)
  then show ?thesis by (metis distinct_map)
qed

lemma map_over_rows:
  "(\<And>r. r \<in> set rows \<Longrightarrow> f (g r) = f r) \<Longrightarrow> map f (map g rows) = map f rows"
  by simp

lemma unique_status_map:
  assumes "\<And>s. s \<in> set rows \<Longrightarrow> (ss_service_name (g s), ss_hostname (g s)) = (ss_service_name s, ss_hostname s)"
  shows "unique_service_status (map g rows) \<longleftrightarrow> unique_service_status rows"
  unfolding unique_service_status_def by (subst map_over_rows) (rule assms, simp_all)

lemma statuses_wf_map:
  assumes "statuses_wf E rows"
    and "\<And>s. s \<in> set rows \<Longrightarrow> ss_id (g s) = ss_id s \<and> ss_service_name (g s) = ss_service_name s \<and>
        ss_hostname (g s) = ss_hostname s"
  shows "statuses_wf E (map g rows)"
proof -
  have "distinct (map ss_id (map g rows))"
    using assms by (subst map_over_rows) (simp_all add: statuses_wf_def)
  moreover have "unique_service_status (map g rows)"
    using assms unique_status_map [of rows g] by (simp add: statuses_wf_def)
  moreover have "ss_key (g s) = ss_key s" if "s \<in> set rows" for s
    using assms(2) [OF that] by (simp add: ss_key_def)
  then have "list_all (\<lambda>s. ss_id s \<noteq> None \<and> plain (ss_service_name s) \<and> plain (ss_hostname s) \<and>
      plain (ss_key s) \<and> e_valid_uuid E (ss_key s)) (map g rows)"
    using assms by (auto simp: statuses_wf_def list_all_iff)
  ultimately show ?thesis unfolding statuses_wf_def by blast
qed

lemma find_status_row:
  assumes wf: "statuses_wf E (d_statuses (w_db w))" and s: "s \<in> set (d_statuses (w_db w))"
  shows "storage_find_service_status (status_criterion s) w = (Inr s, w)"
proof -
  note row = statuses_wf_row [OF wf s]
  have "apply_criterion (status_criterion s) = Inr [Eq SC_service_name (VStr (ss_service_name s)),
      Eq SC_hostname (VStr (ss_hostname s)), Eq SC_id (VStr (ss_key s))]"
    using row by (simp add: status_criterion_def)
  moreover have "select_where ss_col [Eq SC_service_name (VStr (ss_service_name s)),
      Eq SC_hostname (VStr (ss_hostname s)), Eq SC_id (VStr (ss_key s))] (d_statuses (w_db w)) = [s]"
    unfolding select_where_def
  proof (rule filter_unique [where f = ss_key, OF statuses_wf_keys [OF wf] s])
    fix y assume y: "y \<in> set (d_statuses (w_db w))"
    have "ss_key y = ss_key s \<Longrightarrow> y = s"
      using statuses_wf_keys [OF wf] y s by (auto simp: distinct_map inj_on_def)
    then show "matches ss_col [Eq SC_service_name (VStr (ss_service_name s)),
      Eq SC_hostname (VStr (ss_hostname s)), Eq SC_id (VStr (ss_key s))] y \<longleftrightarrow> ss_key y = ss_key s"
      using statuses_wf_row(1) [OF wf y] row(1) by auto
  qed
  ultimately show ?thesis by (simp add: storage_find_service_status_def bind_run fetch_one_def)
qed

lemma update_status_row:
  assumes perm: "e_enforce E ''update_service_status'' [] ctx = Permit"
    and wf: "statuses_wf E (d_statuses (w_db w))" and r: "r \<in> set (d_statuses (w_db w))"
    and s: "ss_id s = ss_id r" "ss_service_name s = ss_service_name r" "ss_hostname s = ss_hostname r"
  shows "update_service_status E ctx s w =
    (Inr s, set_db (\<lambda>d. d\<lparr>d_statuses := map (\<lambda>x. if ss_key x = ss_key r then s else x) (d_statuses d)\<rparr>) w)"
proof -
  let ?rows = "d_statuses (w_db w)"
  have crit: "status_criterion s = status_criterion r" using s by (simp add: status_criterion_def)
  have id: "ss_id r = Some (ss_key r)" by (rule statuses_wf_row(1) [OF wf r])
  have mt: "matches ss_col [Eq SC_id (VStr (ss_key r))] x \<longleftrightarrow> ss_key x = ss_key r"
    if "x \<in> set ?rows" for x using statuses_wf_row(1) [OF wf that] by simp
  have sel: "select_where ss_col [Eq SC_id (VStr (ss_key r))] ?rows = [r]"
    unfolding select_where_def
    by (rule filter_unique [where f = ss_key, OF statuses_wf_keys [OF wf] r mt])
  have new: "map (\<lambda>x. if matches ss_col [Eq SC_id (VStr (ss_key r))] x
      then merge_service_status (w_now w) s x else x) ?rows
      = map (\<lambda>x. if ss_key x = ss_key r then s else x) ?rows"
    using mt id s(1) by (intro map_cong) (auto simp: merge_service_status_def)
  have "x = r" if "x \<in> set ?rows" "ss_key x = ss_key r" for x
    using statuses_wf_keys [OF wf] that r by (auto simp: distinct_map inj_on_def)
  then have "unique_service_status (map (\<lambda>x. if ss_key x = ss_key r then s else x) ?rows)"
    using s wf by (subst unique_status_map) (auto simp: statuses_wf_def)
  with sel have "update_where ss_col unique_service_status (Duplicate (Some R_ServiceStatus))
      ServiceStatusNotFound [Eq SC_id (VStr (ss_key r))] (merge_service_status (w_now w) s) ?rows
      = Inr (map (\<lambda>x. if ss_key x = ss_key r then s else x) ?rows)"
    unfolding update_where_def Let_def new by (simp only: simp_thms if_False list.size)  simp
  then have "storage_update_service_status s r w =
    (Inr s, set_db (\<lambda>d. d\<lparr>d_statuses := map (\<lambda>x. if ss_key x = ss_key r then s else x) (d_statuses d)\<rparr>) w)"
    using id s(1)
    by (simp add: storage_update_service_status_def bind_run seq_run merge_service_status_def set_db_def)
  then show ?thesis
    using find_status_row [OF wf r] perm crit
    by (simp add: update_service_status_def seq_run bind_run catch_def check_run check_result_def)
qed

lemma delete_status_row:
  assumes perm: "e_enforce E ''delete_service_status'' [] ctx = Permit"
    and wf: "statuses_wf E (d_statuses (w_db w))" and r: "r \<in> set (d_statuses (w_db w))"
  shows "delete_service_status E ctx r w =
    (Inr (), set_db (\<lambda>d. d\<lparr>d_statuses := filter (\<lambda>x. ss_key x \<noteq> ss_key r) (d_statuses d)\<rparr>) w)"
proof -
  let ?rows = "d_statuses (w_db w)"
  have mt: "matches ss_col [Eq SC_id (VStr (ss_key r))] x \<longleftrightarrow> ss_key x = ss_key r"
    if "x \<in> set ?rows" for x using statuses_wf_row(1) [OF wf that] by simp
  have "select_where ss_col [Eq SC_id (VStr (ss_key r))] ?rows = [r]"
    unfolding select_where_def
    by (rule filter_unique [where f = ss_key, OF statuses_wf_keys [OF wf] r mt])
  moreover have "filter (\<lambda>x. \<not> matches ss_col [Eq SC_id (VStr (ss_key r))] x) ?rows
      = filter (\<lambda>x. ss_key x \<noteq> ss_key r) ?rows"
    using mt by (intro filter_cong) auto
  ultimately have "storage_delete_service_status r w =
    (Inr r, set_db (\<lambda>d. d\<lparr>d_statuses := filter (\<lambda>x. ss_key x \<noteq> ss_key r) (d_statuses d)\<rparr>) w)"
    using statuses_wf_row(1) [OF wf r]
    by (simp add: storage_delete_service_status_def bind_run seq_run delete_where_def set_db_def)
  then show ?thesis
    using find_status_row [OF wf r] perm
    by (simp add: delete_service_status_def seq_run bind_run catch_def check_run check_result_def)
qed

end
