(* ===== verification/Coordination.thy ===== *)
theory Coordination
  imports Prelude "HOL-Library.List_Lexorder"
begin

text \<open>
  The \<open>Partitioner\<close> of \<open>coordination.py\<close>, by which the producers share the shards out: the range of a
  member, the recalculation when the group changes, and the callbacks that hand the result to the
  periodic tasks. The members are what the group of tooz answers, byte strings here as \<open>string\<close>. The
  events of one partitioner form a step relation; a callback is a number, and the state records the
  partitions each callback was last called with.
\<close>

section \<open>The range of a member\<close>

fun index_of :: "'a list \<Rightarrow> 'a \<Rightarrow> nat option" where
  "index_of [] x = None"
| "index_of (y # ys) x = (if y = x then Some 0 else map_option Suc (index_of ys x))"

text \<open>\<open>int(math.ceil(float(partitions) / float(members)))\<close>.\<close>

definition partition_size :: "nat \<Rightarrow> nat \<Rightarrow> nat" where
  "partition_size partition_count member_count = (partition_count + member_count - 1) div member_count"

definition partition :: "string list \<Rightarrow> string \<Rightarrow> int list \<Rightarrow> exn + int list" where
  "partition members me partitions =
     (if members = [] then Inl (OtherError ''ZeroDivisionError'')
      else case index_of members me of
             None \<Rightarrow> Inl PyValueError
           | Some my_index \<Rightarrow>
               (let size = partition_size (length partitions) (length members);
                    my_start = size * my_index
                in Inr (take size (drop my_start partitions))))"

text \<open>\<open>_update_partitions\<close>: the members in alphabetical order, so that all agree.\<close>

definition by_name :: "string list \<Rightarrow> string list" where
  "by_name members = sort_key (map (of_char :: char \<Rightarrow> nat)) members"

definition update_partitions :: "string list \<Rightarrow> string \<Rightarrow> int list \<Rightarrow> exn + int list" where
  "update_partitions members me partitions = partition (by_name members) me partitions"

section \<open>The partitioner\<close>

record partitioner =
  pt_me :: string
  pt_partitions :: "int list"
  pt_backend :: bool
  pt_started :: bool
  pt_mine :: "int list option"
  pt_callbacks :: "nat list"
  pt_seen :: "nat \<Rightarrow> int list option"

definition new_partitioner :: "bool \<Rightarrow> string \<Rightarrow> int list \<Rightarrow> partitioner" where
  "new_partitioner backend me partitions =
     \<lparr>pt_me = me, pt_partitions = partitions, pt_backend = backend, pt_started = False,
      pt_mine = None, pt_callbacks = [], pt_seen = (\<lambda>_. None)\<rparr>"

definition run_callbacks :: "partitioner \<Rightarrow> partitioner" where
  "run_callbacks p =
     p\<lparr>pt_seen := (\<lambda>c. if c \<in> set (pt_callbacks p) then pt_mine p else pt_seen p c)\<rparr>"

text \<open>\<open>start\<close>; \<open>members\<close> is what the group answers.\<close>

definition start_partitioner :: "string list \<Rightarrow> partitioner \<Rightarrow> exn + partitioner" where
  "start_partitioner members p =
     (if pt_backend p then
        (case update_partitions members (pt_me p) (pt_partitions p) of
           Inl e \<Rightarrow> Inl e
         | Inr mine \<Rightarrow> Inr (p\<lparr>pt_mine := Some mine, pt_started := True\<rparr>))
      else
        Inr ((run_callbacks (p\<lparr>pt_mine := Some (pt_partitions p)\<rparr>))\<lparr>pt_started := True\<rparr>))"

definition watch_partition_change :: "nat \<Rightarrow> partitioner \<Rightarrow> partitioner" where
  "watch_partition_change c p =
     (let p' = p\<lparr>pt_callbacks := pt_callbacks p @ [c]\<rparr>
      in if pt_started p then p'\<lparr>pt_seen := (pt_seen p)(c := pt_mine p)\<rparr> else p')"

definition unwatch_partition_change :: "nat \<Rightarrow> partitioner \<Rightarrow> exn + partitioner" where
  "unwatch_partition_change c p =
     (if c \<in> set (pt_callbacks p) then Inr (p\<lparr>pt_callbacks := remove1 c (pt_callbacks p)\<rparr>)
      else Inl PyValueError)"

text \<open>\<open>_on_group_change\<close>: when the recalculation raises, nothing was assigned yet.\<close>

definition on_group_change :: "string list \<Rightarrow> partitioner \<Rightarrow> exn + partitioner" where
  "on_group_change members p =
     (case update_partitions members (pt_me p) (pt_partitions p) of
        Inl e \<Rightarrow> Inl e
      | Inr mine \<Rightarrow> Inr (run_callbacks (p\<lparr>pt_mine := Some mine\<rparr>)))"

text \<open>
  The producer service starts the partitioner before it subscribes its tasks; the group events are
  watched from \<open>start\<close> on.
\<close>

inductive pt_step :: "partitioner \<Rightarrow> partitioner \<Rightarrow> bool" where
  starts: "\<not> pt_started p \<Longrightarrow> start_partitioner members p = Inr p' \<Longrightarrow> pt_step p p'"
| watches: "pt_started p \<Longrightarrow> pt_step p (watch_partition_change c p)"
| unwatches: "unwatch_partition_change c p = Inr p' \<Longrightarrow> pt_step p p'"
| changes: "pt_started p \<Longrightarrow> pt_backend p \<Longrightarrow> on_group_change members p = Inr p' \<Longrightarrow> pt_step p p'"

section \<open>Facts\<close>

lemma index_of_nth: "distinct xs \<Longrightarrow> i < length xs \<Longrightarrow> index_of xs (xs ! i) = Some i"
proof (induction xs arbitrary: i)
  case (Cons x xs)
  then show ?case by (cases i) auto
qed simp

lemma by_name_facts [simp]:
  "set (by_name ms) = set ms" "length (by_name ms) = length ms" "by_name ms = [] \<longleftrightarrow> ms = []"
  "distinct (by_name ms) = distinct ms"
  by (simp_all add: by_name_def flip: length_0_conv)

text \<open>The chunks of a list, cut at equal sizes, put it together again.\<close>

lemma chunks_take:
  "concat (map (\<lambda>i. take k (drop (k * i) ps)) [0..<n]) = take (k * n) ps"
proof (induction n)
  case (Suc n)
  then show ?case by (simp add: take_add [symmetric] algebra_simps)
qed simp

lemma partition_size_covers: "0 < m \<Longrightarrow> n \<le> partition_size n m * m"
proof -
  assume m: "0 < m"
  have "n + m - 1 = partition_size n m * m + (n + m - 1) mod m"
    by (simp add: partition_size_def)
  moreover have "(n + m - 1) mod m \<le> m - 1" using m by (simp add: Suc_leI le_diff_conv less_Suc_eq_le [symmetric])
  ultimately show ?thesis using m by linarith
qed

lemma partition_nth:
  assumes "distinct members" "i < length members"
  shows "partition members (members ! i) partitions =
    (let size = partition_size (length partitions) (length members)
     in Inr (take size (drop (size * i) partitions)))"
  using assms index_of_nth [OF assms] by (auto simp: partition_def Let_def)

end
