(* ===== verification/Producer.thy ===== *)
theory Producer
  imports ZoneLists ServiceStatuses Coordination
begin

text \<open>
  The periodic tasks of \<open>producer/tasks.py\<close>. A task works on the shards its partitioner has given it
  (\<open>my_partitions\<close>), reads zones or service statuses from central in pages or in one batch, and
  calls central or the worker for each. The calls are the functions of central in this development;
  the serial the worker reports for a master (\<open>ask\<close>) and the notifier (\<open>emit\<close>) are parameters. The
  fuel of the loops over pages only bounds the number of pages.
\<close>

record task_config =
  tk_per_page :: nat
  tk_batch_size :: nat
  tk_time_threshold :: int
  tk_interval :: int

section \<open>The task's shards\<close>

definition my_range :: "int list option \<Rightarrow> exn + int \<times> int" where
  "my_range my_partitions =
     (case my_partitions of
        None \<Rightarrow> Inl PyTypeError
      | Some [] \<Rightarrow> Inl PyIndexError
      | Some ps \<Rightarrow> Inr (hd ps, last ps))"

definition filter_between :: "'c \<Rightarrow> int list option \<Rightarrow> exn + ('c \<times> crit) list" where
  "filter_between col my_partitions =
     and_then (my_range my_partitions) (\<lambda>(a, b).
       Inr [(col, CStr (''BETWEEN '' @ int_str a @ '','' @ int_str b))])"

text \<open>\<open>get_admin_context()\<close> and \<open>ctxt.all_tenants = True\<close>.\<close>

definition producer_context :: "env \<Rightarrow> ('s, req_context) comp" where
  "producer_context E = lift (set_all_tenants E True admin_context)"

definition page_of :: "task_config \<Rightarrow> string option \<Rightarrow> page_args" where
  "page_of cf marker = first_page\<lparr>pg_limit := Some (tk_per_page cf), pg_marker := marker\<rparr>"

text \<open>\<open>_iter_zones\<close>: the shard clause joins the criterion.\<close>

definition iter_zones ::
  "env \<Rightarrow> zone_times \<Rightarrow> task_config \<Rightarrow> nat \<Rightarrow> int list option \<Rightarrow> req_context
     \<Rightarrow> (zone_column \<times> crit) list \<Rightarrow> (zone \<Rightarrow> unit sys) \<Rightarrow> bool sys" where
  "iter_zones E T cf fuel my_partitions ctx criterion body =
     bind (lift (filter_between ZC_shard my_partitions)) (\<lambda>between.
     iter_pages fuel (\<lambda>marker. find_zones_page E T ctx (criterion @ between) (page_of cf marker))
       z_id None body)"

section \<open>Zone tasks\<close>

text \<open>\<open>DeletedZonePurgeTask\<close>.\<close>

definition deleted_zone_purge :: "env \<Rightarrow> task_config \<Rightarrow> int list option \<Rightarrow> unit sys" where
  "deleted_zone_purge E cf my_partitions =
     bind (lift (my_range my_partitions)) (\<lambda>(a, b).
     bind (gets w_now) (\<lambda>now.
     bind (lift (filter_between ZC_shard my_partitions)) (\<lambda>between.
     bind (producer_context E) (\<lambda>ctx.
     let criterion = between @ [(ZC_deleted, CStr ''!0''),
           (ZC_deleted_at, CStr (''<='' @ int_str (now - tk_time_threshold cf)))] in
     bind (purge_zones E ctx
             [(''shard'', crit_val (snd (hd between))), (''deleted'', VStr ''!0''),
              (''deleted_at'', VStr (''<='' @ int_str (now - tk_time_threshold cf)))]
             criterion (Some (tk_batch_size cf))) (\<lambda>_. return ())))))"

text \<open>\<open>PeriodicExistsTask\<close>: two events per zone.\<close>

definition periodic_exists ::
  "env \<Rightarrow> zone_times \<Rightarrow> task_config \<Rightarrow> nat \<Rightarrow> (string \<Rightarrow> zone \<Rightarrow> int \<times> int \<Rightarrow> unit sys)
     \<Rightarrow> int list option \<Rightarrow> bool sys" where
  "periodic_exists E T cf fuel emit my_partitions =
     bind (lift (my_range my_partitions)) (\<lambda>_.
     bind (producer_context E) (\<lambda>ctx.
     bind (gets w_now) (\<lambda>now.
     let period = (now - tk_interval cf, now) in
     iter_zones E T cf fuel my_partitions ctx []
       (\<lambda>z. seq (emit ''dns.domain.exists'' z period) (emit ''dns.zone.exists'' z period)))))"

text \<open>\<open>PeriodicSecondaryRefreshTask\<close>.\<close>

definition refresh_zone ::
  "env \<Rightarrow> (zone \<Rightarrow> zone_master \<Rightarrow> int option) \<Rightarrow> req_context \<Rightarrow> zone \<Rightarrow> unit sys" where
  "refresh_zone E ask ctx z =
     (case z_transferred_at z of
        None \<Rightarrow> return ()
      | Some transferred \<Rightarrow>
          bind (gets w_now) (\<lambda>now.
          if z_refresh z < now - transferred then xfr_zone E ask ctx (z_id z) else return ()))"

definition periodic_secondary_refresh ::
  "env \<Rightarrow> zone_times \<Rightarrow> task_config \<Rightarrow> nat \<Rightarrow> (zone \<Rightarrow> zone_master \<Rightarrow> int option) \<Rightarrow> int list option
     \<Rightarrow> bool sys" where
  "periodic_secondary_refresh E T cf fuel ask my_partitions =
     bind (lift (my_range my_partitions)) (\<lambda>_.
     bind (producer_context E) (\<lambda>ctx.
     iter_zones E T cf fuel my_partitions ctx [(ZC_type, CStr (zone_type_str SECONDARY))]
       (refresh_zone E ask ctx)))"

text \<open>One batch of zones, the one that has waited longest first.\<close>

definition oldest_first :: "task_config \<Rightarrow> page_args" where
  "oldest_first cf =
     \<lparr>pg_marker = None, pg_limit = Some (tk_batch_size cf), pg_sort_key = Some ''updated_at'',
      pg_sort_dir = Some ''asc''\<rparr>"

text \<open>\<open>PeriodicGenerateDelayedNotifyTask\<close>; \<open>z\<close> is the zone as it was loaded.\<close>

definition send_delayed_notify :: "env \<Rightarrow> req_context \<Rightarrow> zone \<Rightarrow> unit sys" where
  "send_delayed_notify E ctx z =
     (if z_action z = DELETE then return ()
      else
        let z1 = (if z_action z = NONE then z_set_status PENDING (z_set_action UPDATE z) else z);
            z2 = z_set_delayed_notify False z1
        in seq (cast (W_update_zone z1))
             (bind (update_zone E ctx z z2 True) (\<lambda>_. return ())))"

definition generate_delayed_notify ::
  "env \<Rightarrow> zone_times \<Rightarrow> task_config \<Rightarrow> int list option \<Rightarrow> unit sys" where
  "generate_delayed_notify E T cf my_partitions =
     bind (producer_context E) (\<lambda>ctx.
     bind (lift (filter_between ZC_shard my_partitions)) (\<lambda>between.
     bind (find_zones_page E T ctx
             (between @ [(ZC_delayed_notify, CVal (VBool True)), (ZC_increment_serial, CVal (VBool False))])
             (oldest_first cf)) (\<lambda>zones.
     for_each zones (send_delayed_notify E ctx))))"

text \<open>\<open>PeriodicIncrementSerialTask\<close>; the call serialises the zone, so the new serial stays with
  central and the zone that is sent to the worker has the serial it was loaded with.\<close>

definition increment_one_serial :: "env \<Rightarrow> req_context \<Rightarrow> zone \<Rightarrow> unit sys" where
  "increment_one_serial E ctx z =
     (if z_action z = DELETE then return ()
      else
        bind (increment_zone_serial E ctx z) (\<lambda>serial.
        if z_delayed_notify z then return ()
        else cast (W_update_zone
               (if z_action z = NONE then z_set_status PENDING (z_set_action UPDATE z) else z))))"

definition periodic_increment_serial ::
  "env \<Rightarrow> zone_times \<Rightarrow> task_config \<Rightarrow> int list option \<Rightarrow> unit sys" where
  "periodic_increment_serial E T cf my_partitions =
     bind (producer_context E) (\<lambda>ctx.
     bind (lift (filter_between ZC_shard my_partitions)) (\<lambda>between.
     bind (find_zones_page E T ctx (between @ [(ZC_increment_serial, CVal (VBool True))])
             (oldest_first cf)) (\<lambda>zones.
     for_each zones (increment_one_serial E ctx))))"

text \<open>\<open>WorkerPeriodicRecovery\<close>.\<close>

definition worker_periodic_recovery :: "env \<Rightarrow> int list option \<Rightarrow> unit sys" where
  "worker_periodic_recovery E my_partitions =
     bind (lift (my_range my_partitions)) (\<lambda>(a, b).
     bind (producer_context E) (\<lambda>ctx. cast (W_recover_shard a b)))"

section \<open>Service status tasks\<close>

definition iter_service_statuses ::
  "env \<Rightarrow> task_config \<Rightarrow> nat \<Rightarrow> req_context \<Rightarrow> (ss_column \<times> crit) list
     \<Rightarrow> (service_status \<Rightarrow> unit sys) \<Rightarrow> bool sys" where
  "iter_service_statuses E cf fuel ctx criterion body =
     iter_pages fuel (\<lambda>marker. find_service_statuses E ctx criterion (page_of cf marker)) ss_key None body"

text \<open>\<open>PeriodicCheckServiceStatusTask\<close>.\<close>

definition check_one_status :: "env \<Rightarrow> task_config \<Rightarrow> req_context \<Rightarrow> service_status \<Rightarrow> unit sys" where
  "check_one_status E cf ctx s =
     (case ss_heartbeated_at s of
        None \<Rightarrow> return ()
      | Some beat \<Rightarrow>
          bind (gets w_now) (\<lambda>now.
          if tk_time_threshold cf < now - beat
          then bind (update_service_status E ctx (s\<lparr>ss_status := DOWN\<rparr>)) (\<lambda>_. return ())
          else return ()))"

definition check_service_status :: "env \<Rightarrow> task_config \<Rightarrow> nat \<Rightarrow> bool sys" where
  "check_service_status E cf fuel =
     bind (producer_context E) (\<lambda>ctx.
     iter_service_statuses E cf fuel ctx [(SC_status, CStr (service_state_str UP))]
       (check_one_status E cf ctx))"

text \<open>\<open>PeriodicCleanupStoppedServiceStatusTask\<close>: \<open>except MarkerNotFound: pass\<close>.\<close>

definition until_marker_lost :: "bool sys \<Rightarrow> bool sys" where
  "until_marker_lost m =
     catch m (\<lambda>e. if e = BadRequest MarkerNotFound then Some (return True) else None)"

definition delete_stale_down_services :: "env \<Rightarrow> task_config \<Rightarrow> nat \<Rightarrow> req_context \<Rightarrow> bool sys" where
  "delete_stale_down_services E cf fuel ctx =
     (if tk_time_threshold cf \<le> 0 then return True
      else
        bind (gets (\<lambda>w. w_now w - tk_time_threshold cf)) (\<lambda>threshold.
        until_marker_lost (
          iter_service_statuses E cf fuel ctx [(SC_status, CStr (service_state_str DOWN))]
            (\<lambda>s. case ss_heartbeated_at s of
                    None \<Rightarrow> return ()
                  | Some beat \<Rightarrow>
                      if beat < threshold then delete_service_status E ctx s else return ()))))"

definition delete_stopped_services :: "env \<Rightarrow> task_config \<Rightarrow> nat \<Rightarrow> req_context \<Rightarrow> bool sys" where
  "delete_stopped_services E cf fuel ctx =
     until_marker_lost (
       iter_service_statuses E cf fuel ctx [(SC_status, CStr (service_state_str STOPPED))]
         (delete_service_status E ctx))"

definition cleanup_stopped_service_status :: "env \<Rightarrow> task_config \<Rightarrow> nat \<Rightarrow> bool sys" where
  "cleanup_stopped_service_status E cf fuel =
     bind (producer_context E) (\<lambda>ctx.
     seq (delete_stopped_services E cf fuel ctx) (delete_stale_down_services E cf fuel ctx))"

end
