(* ===== verification/ProducerProps.thy ===== *)
theory ProducerProps
  imports Producer Samples "HOL-Library.Multiset"
begin

text \<open>
  What the partitioner and the periodic tasks guarantee: the ranges of the members are the list of
  shards cut into pieces, so every zone is the business of exactly one producer; subscribed tasks
  always know the current range; stale services are marked as down, all of them, while the cleanup of
  stopped ones removes a page per run; due secondary zones are transferred once each.
\<close>

section \<open>Sharing the shards out\<close>

definition shards :: "nat \<Rightarrow> int list" where
  "shards n = map int [0..<n]"

text \<open>\<open>z\<close> is selected by the shard criterion of the producer \<open>me\<close>.\<close>

definition takes_zone :: "string list \<Rightarrow> nat \<Rightarrow> zone \<Rightarrow> string \<Rightarrow> bool" where
  "takes_zone members n z me =
     (case and_then (update_partitions members me (shards n)) (\<lambda>mine.
             and_then (filter_between ZC_shard (Some mine)) apply_criterion) of
        Inl _ \<Rightarrow> False | Inr cls \<Rightarrow> matches zone_row_col cls z)"

lemma shard_chunk: "take k (drop j (shards n)) = map int [j..<min n (j + k)]"
proof (cases "j + k \<le> n")
  case True
  then show ?thesis by (simp add: shards_def take_map drop_map min_def)
next
  case False
  then show ?thesis by (simp add: shards_def take_map drop_map min_def)
qed

lemma last_ints: "a < b \<Longrightarrow> last (map int [a..<b]) = int (b - 1)"
  by (cases b) (simp_all add: last_map)

lemma takes_zone_index:
  assumes "distinct members" "i < length members" and shard: "z_shard z = int s"
  shows "takes_zone members n z (by_name members ! i) \<longleftrightarrow>
    (let k = partition_size n (length members) in k * i \<le> s \<and> s < min n (k * i + k))"
proof -
  let ?k = "partition_size n (length members)"
  let ?lo = "?k * i" and ?hi = "min n (?k * i + ?k)"
  have part: "update_partitions members (by_name members ! i) (shards n) = Inr (map int [?lo..<?hi])"
    using assms(1,2) shard_chunk [of ?k ?lo n]
    by (simp add: update_partitions_def partition_nth Let_def shards_def)
  show ?thesis
  proof (cases "?lo < ?hi")
    case True
    then have ne: "[?lo..<?hi] = ?lo # [Suc ?lo..<?hi]" by (rule upt_conv_Cons)
    then have "map int [?lo..<?hi] = int ?lo # map int [Suc ?lo..<?hi]" by simp
    moreover have "last (map int [?lo..<?hi]) = int (?hi - 1)" using True by (rule last_ints)
    ultimately have "my_range (Some (map int [?lo..<?hi])) = Inr (int ?lo, int (?hi - 1))"
      unfolding my_range_def by simp
    then have "filter_between ZC_shard (Some (map int [?lo..<?hi]))
        = Inr [(ZC_shard, CStr (''BETWEEN '' @ int_str (int ?lo) @ '','' @ int_str (int (?hi - 1))))]"
      unfolding filter_between_def by simp
    then have "and_then (filter_between ZC_shard (Some (map int [?lo..<?hi]))) apply_criterion
        = Inr [Between ZC_shard (VStr (int_str (int ?lo))) (VStr (int_str (int (?hi - 1))))]"
      using between_clause [of "int ?lo" "int (?hi - 1)" ZC_shard] by simp
    then have "takes_zone members n z (by_name members ! i) \<longleftrightarrow> int ?lo \<le> int s \<and> int s \<le> int (?hi - 1)"
      unfolding takes_zone_def part by (simp add: zone_row_col_def shard)
    also have "\<dots> \<longleftrightarrow> ?lo \<le> s \<and> s < ?hi"
      unfolding of_nat_le_iff using True by linarith
    finally show ?thesis by (simp only: Let_def)
  next
    case False
    then have "[?lo..<?hi] = []" unfolding upt_eq_Nil_conv by linarith
    then have "map int [?lo..<?hi] = []" by (simp only: list.map)
    then have "\<not> takes_zone members n z (by_name members ! i)"
      unfolding takes_zone_def part and_then_simps
      by (simp only: filter_between_def my_range_def option.case list.case and_then_simps sum.case) simp
    with False show ?thesis by (auto simp: Let_def)
  qed
qed

text \<open>C14: Every zone belongs to exactly one producer: whatever the members of the group are (distinct,
  at least one), exactly one of them has a range of shards whose BETWEEN criterion selects a zone whose
  shard is below the number of shards.\<close>

theorem one_producer_per_zone:
  assumes "distinct members" "members \<noteq> []" "0 \<le> z_shard z" "z_shard z < int n"
  shows "length (filter (takes_zone members n z) members) = 1"
proof -
  let ?ms = "by_name members" and ?m = "length members"
  let ?k = "partition_size n ?m"
  obtain s where s: "z_shard z = int s" "s < n" using assms(3,4) by (metis nonneg_int_cases of_nat_less_iff)
  have cover: "n \<le> ?k * ?m" using assms(2) by (intro partition_size_covers) simp
  then have k: "0 < ?k" using s(2) by (cases ?k) auto
  have below: "s div ?k < ?m" 
    using s(2) cover by (intro less_mult_imp_div_less) (simp add: mult.commute)
  have iff: "takes_zone members n z (?ms ! i) \<longleftrightarrow> i = s div ?k" if "i < ?m" for i
  proof -
    have "takes_zone members n z (?ms ! i) \<longleftrightarrow> ?k * i \<le> s \<and> s < ?k * i + ?k"
      using takes_zone_index [OF assms(1) that s(1), of n] s(2) by (auto simp: Let_def)
    also have "\<dots> \<longleftrightarrow> i = s div ?k"
    proof
      assume "?k * i \<le> s \<and> s < ?k * i + ?k"
      then show "i = s div ?k" by (intro div_nat_eqI [symmetric]) (simp_all add: mult.commute)
    next
      assume "i = s div ?k"
      then show "?k * i \<le> s \<and> s < ?k * i + ?k"
        using dividend_less_times_div [OF k, of s] by (simp add: algebra_simps)
    qed
    finally show ?thesis .
  qed
  have "filter (takes_zone members n z) ?ms = [?ms ! (s div ?k)]"
  proof (rule filter_unique [where f = "\<lambda>x. x"])
    show "distinct (map (\<lambda>x. x) ?ms)" using assms(1) by simp
    show "?ms ! (s div ?k) \<in> set ?ms" using below by (metis by_name_facts(2) nth_mem)
    fix y assume "y \<in> set ?ms"
    then obtain i where "i < ?m" "y = ?ms ! i" by (metis by_name_facts(2) in_set_conv_nth)
    then show "takes_zone members n z y \<longleftrightarrow> y = ?ms ! (s div ?k)"
      using iff assms(1) below by (simp add: nth_eq_iff_index_eq)
  qed
  moreover have "mset ?ms = mset members" by (simp add: by_name_def)
  then have "length (filter (takes_zone members n z) ?ms) = length (filter (takes_zone members n z) members)"
    by (metis mset_filter size_mset)
  ultimately show ?thesis by simp
qed

theorem one_producer_per_zone_witness:
  "length (filter (takes_zone [''b'', ''a'', ''c''] 4096 (sample_zone ''z1'' ''t1'' ''e.o.'')) [''b'', ''a'', ''c'']) = 1"
  using one_producer_per_zone [of "[''b'', ''a'', ''c'']" "sample_zone ''z1'' ''t1'' ''e.o.''" 4096]
  by (simp add: sample_zone_def)

text \<open>With more members than the shards can be cut for, the last ones get an empty range (65
  producers on 4096 shards leave the last with none), and every task that works on shards then ends
  with the IndexError of \<open>_my_range\<close> before it does anything.\<close>

theorem idle_producer_fails:
  assumes "distinct members" "i < length members" "n \<le> partition_size n (length members) * i"
  shows "update_partitions members (by_name members ! i) (shards n) = Inr [] \<and>
    worker_periodic_recovery E (Some []) w = (Inl PyIndexError, w) \<and>
    deleted_zone_purge E cf (Some []) w = (Inl PyIndexError, w) \<and>
    periodic_exists E T cf fuel emit (Some []) w = (Inl PyIndexError, w) \<and>
    periodic_secondary_refresh E T cf fuel ask (Some []) w = (Inl PyIndexError, w)"
proof -
  have "update_partitions members (by_name members ! i) (shards n) = Inr []"
    using assms partition_nth [of "by_name members" i "shards n"]
    by (simp add: update_partitions_def Let_def shards_def)
  then show ?thesis
    by (simp add: worker_periodic_recovery_def deleted_zone_purge_def periodic_exists_def
        periodic_secondary_refresh_def my_range_def bind_run)
qed

definition many_members :: "string list" where
  "many_members = map (\<lambda>k. replicate k CHR ''a'') [0..<65]"

theorem idle_producer_fails_witness:
  "update_partitions many_members (by_name many_members ! 64) (shards 4096) = Inr [] \<and>
   worker_periodic_recovery sample_env (Some []) (world_of sample_db) = (Inl PyIndexError, world_of sample_db)"
proof -
  have "distinct many_members"
    unfolding many_members_def by (simp add: distinct_map inj_on_def)
  then show ?thesis
    using idle_producer_fails [of many_members 64 4096 sample_env "world_of sample_db"]
    by (simp add: many_members_def partition_size_def)
qed

section \<open>Subscribed tasks\<close>

lemma pt_step_invariant:
  assumes "pt_step p p'"
    and "pt_callbacks p \<noteq> [] \<longrightarrow> pt_started p"
    and "list_all (\<lambda>c. pt_seen p c = pt_mine p) (pt_callbacks p)"
  shows "(pt_callbacks p' \<noteq> [] \<longrightarrow> pt_started p') \<and>
    list_all (\<lambda>c. pt_seen p' c = pt_mine p') (pt_callbacks p')"
  using assms
proof (induction rule: pt_step.induct)
  case (starts p members p')
  then show ?case
    by (auto simp: start_partitioner_def run_callbacks_def split: if_splits sum.splits)
next
  case (watches p c)
  then show ?case by (auto simp: watch_partition_change_def Let_def list_all_iff)
next
  case (unwatches c p p')
  then show ?case
    by (auto simp: unwatch_partition_change_def list_all_iff split: if_splits dest: notin_set_remove1)
next
  case (changes p members p')
  then show ?case
    by (auto simp: on_group_change_def run_callbacks_def list_all_iff split: sum.splits)
qed

text \<open>Whatever happens to the group and whoever subscribes and unsubscribes, once the partitioner
  was started before its subscribers (as the producer does), every subscribed task was last told the
  partitioner's current range; also after a group change whose recalculation failed.\<close>

theorem subscribers_up_to_date:
  assumes "pt_step\<^sup>*\<^sup>* (new_partitioner backend me partitions) p"
  shows "list_all (\<lambda>c. pt_seen p c = pt_mine p) (pt_callbacks p)"
proof -
  from assms have "(pt_callbacks p \<noteq> [] \<longrightarrow> pt_started p) \<and>
      list_all (\<lambda>c. pt_seen p c = pt_mine p) (pt_callbacks p)"
  proof (induction rule: rtranclp_induct)
    case base
    then show ?case by (simp add: new_partitioner_def)
  next
    case (step p p')
    from step.IH pt_step_invariant [OF step.hyps(2)] show ?case by blast
  qed
  then show ?thesis ..
qed

definition sample_partitioner :: partitioner where
  "sample_partitioner = watch_partition_change 7
     (case start_partitioner [''b'', ''a''] (new_partitioner True ''a'' [0, 1, 2]) of
        Inl _ \<Rightarrow> new_partitioner True ''a'' [] | Inr p \<Rightarrow> p)"

theorem subscribers_up_to_date_witness:
  "list_all (\<lambda>c. pt_seen sample_partitioner c = pt_mine sample_partitioner) (pt_callbacks sample_partitioner) \<and>
   pt_callbacks sample_partitioner = [7] \<and> pt_mine sample_partitioner = Some [0, 1]"
proof -
  let ?start = "start_partitioner [''b'', ''a''] (new_partitioner True ''a'' [0, 1, 2])"
  have ok: "case ?start of Inl _ \<Rightarrow> False | Inr p \<Rightarrow> pt_started p" "\<not> pt_started (new_partitioner True ''a'' [0, 1, 2])"
    by code_simp+
  then obtain p where p: "?start = Inr p" "pt_started p" by (auto split: sum.splits)
  have "pt_step (new_partitioner True ''a'' [0, 1, 2]) p" using ok(2) p(1) by (rule pt_step.starts)
  moreover have "pt_step p sample_partitioner"
    unfolding sample_partitioner_def p(1) sum.case using p(2) by (rule pt_step.watches)
  ultimately have "pt_step\<^sup>*\<^sup>* (new_partitioner True ''a'' [0, 1, 2]) sample_partitioner" by simp
  from subscribers_up_to_date [OF this]
  have "list_all (\<lambda>c. pt_seen sample_partitioner c = pt_mine sample_partitioner) (pt_callbacks sample_partitioner)" .
  moreover have "pt_callbacks sample_partitioner = [7] \<and> pt_mine sample_partitioner = Some [0, 1]"
    by code_simp
  ultimately show ?thesis by blast
qed

section \<open>Service statuses\<close>

lemma producer_context_run:
  "e_enforce E = (\<lambda>_ _ _. Permit) \<Longrightarrow> producer_context E s = (Inr (admin_context\<lparr>c_all_tenants := True\<rparr>), s)"
  by (simp add: producer_context_def set_all_tenants_def check_result_def)

definition is_stale :: "task_config \<Rightarrow> int \<Rightarrow> service_status \<Rightarrow> bool" where
  "is_stale cf now s = (case ss_heartbeated_at s of None \<Rightarrow> False | Some b \<Rightarrow> tk_time_threshold cf < now - b)"

text \<open>What the check makes of a row.\<close>

definition marked_down :: "task_config \<Rightarrow> int \<Rightarrow> service_status \<Rightarrow> service_status" where
  "marked_down cf now s = (if ss_status s = UP \<and> is_stale cf now s then s\<lparr>ss_status := DOWN\<rparr> else s)"

lemma status_selected:
  "select_where ss_col [Eq SC_status (VStr (service_state_str st))] rows = filter (\<lambda>s. ss_status s = st) rows"
proof -
  have "service_state_str a = service_state_str b \<longleftrightarrow> a = b" for a b by (cases a; cases b; simp)
  then show ?thesis unfolding select_where_def by (intro filter_cong) simp_all
qed

lemma status_plain: "plain (service_state_str st)"
  by (cases st) (simp_all add: plain_def startswith_def)

lemma service_page:
  assumes "e_enforce E = (\<lambda>_ _ _. Permit)"
  shows "find_service_statuses E ctx [(SC_status, CStr (service_state_str st))] pg w =
    (find_page (e_valid_uuid E) ss_attr ss_key pg (d_statuses (w_db w))
       (filter (\<lambda>s. ss_status s = st) (d_statuses (w_db w))), w)"
  using assms status_plain [of st]
  by (simp add: find_service_statuses_def storage_find_service_statuses_def bind_run seq_run check_run
      check_result_def status_selected)

text \<open>The table when the rows of \<open>b\<close> have been looked at.\<close>

definition checked :: "task_config \<Rightarrow> int \<Rightarrow> service_status list \<Rightarrow> service_status \<Rightarrow> service_status" where
  "checked cf now b s = (if s \<in> set b then marked_down cf now s else s)"

lemma marked_down_keeps [simp]:
  "ss_id (marked_down cf now s) = ss_id s" "ss_key (marked_down cf now s) = ss_key s"
  "ss_service_name (marked_down cf now s) = ss_service_name s"
  "ss_hostname (marked_down cf now s) = ss_hostname s"
  "ss_created_at (marked_down cf now s) = ss_created_at s"
  by (simp_all add: marked_down_def ss_key_def)

lemma checked_keeps [simp]:
  "ss_id (checked cf now b s) = ss_id s" "ss_key (checked cf now b s) = ss_key s"
  "ss_service_name (checked cf now b s) = ss_service_name s"
  "ss_hostname (checked cf now b s) = ss_hostname s"
  "ss_created_at (checked cf now b s) = ss_created_at s"
  by (simp_all add: checked_def)

lemma check_one_step:
  assumes perm: "e_enforce E = (\<lambda>_ _ _. Permit)" and wf: "statuses_wf E rows"
    and x: "x \<in> set rows" "x \<notin> set b" "ss_status x = UP"
    and w: "w' = set_db (\<lambda>d. d\<lparr>d_statuses := map (checked cf (w_now w) b) rows\<rparr>) w"
  shows "check_one_status E cf ctx x w' =
    (Inr (), set_db (\<lambda>d. d\<lparr>d_statuses := map (checked cf (w_now w) (b @ [x])) rows\<rparr>) w)"
proof -
  let ?now = "w_now w"
  have now: "w_now w' = ?now" and tab: "d_statuses (w_db w') = map (checked cf ?now b) rows"
    using w by simp_all
  have unmoved: "checked cf ?now b x = x" using x(2) by (simp add: checked_def)
  have key: "y = x" if "y \<in> set rows" "ss_key y = ss_key x" for y
    using statuses_wf_keys [OF wf] that x(1) by (auto simp: distinct_map inj_on_def)
  show ?thesis
  proof (cases "is_stale cf ?now x")
    case False
    then have "marked_down cf ?now x = x" by (simp add: marked_down_def)
    then have "map (checked cf ?now (b @ [x])) rows = map (checked cf ?now b) rows"
      by (intro map_cong) (auto simp: checked_def)
    with False now w show ?thesis
      by (auto simp: check_one_status_def is_stale_def bind_run split: option.splits)
  next
    case True
    let ?x = "x\<lparr>ss_status := DOWN\<rparr>"
    have "statuses_wf E (map (checked cf ?now b) rows)" by (rule statuses_wf_map [OF wf]) simp
    then have upd: "update_service_status E ctx ?x w' = (Inr ?x, set_db (\<lambda>d. d\<lparr>d_statuses :=
        map (\<lambda>y. if ss_key y = ss_key x then ?x else y) (d_statuses d)\<rparr>) w')"
      using perm tab unmoved image_eqI [of x "checked cf ?now b" x "set rows", OF _ x(1)]
      by (intro update_status_row) simp_all
    have "map (\<lambda>y. if ss_key y = ss_key x then ?x else y) (map (checked cf ?now b) rows)
        = map (checked cf ?now (b @ [x])) rows"
      using True x key by (auto simp: checked_def marked_down_def ss_key_def)
    with upd True now w tab show ?thesis
      by (auto simp: check_one_status_def is_stale_def bind_run set_db_def split: option.splits)
  qed
qed

text \<open>C15: The check for stale services reaches all of them, although it rewrites the rows it pages
  through: with a positive page size and permission, it ends after at most one page per row, every
  status that is UP with a heartbeat older than the threshold is DOWN, and nothing else has changed.\<close>

theorem check_service_status_complete:
  assumes perm: "e_enforce E = (\<lambda>_ _ _. Permit)"
    and wf: "statuses_wf E (d_statuses (w_db w))"
    and "0 < tk_per_page cf" "length (d_statuses (w_db w)) < fuel"
  shows "check_service_status E cf fuel w =
    (Inr True, set_db (\<lambda>d. d\<lparr>d_statuses := map (marked_down cf (w_now w)) (d_statuses d)\<rparr>) w)"
proof -
  let ?rows = "d_statuses (w_db w)"
  let ?ctx = "admin_context\<lparr>c_all_tenants := True\<rparr>"
  let ?P = "\<lambda>s. ss_status s = UP"
  let ?L = "ss_pages.in_order (filter ?P ?rows)"
  let ?at = "\<lambda>b. set_db (\<lambda>d. d\<lparr>d_statuses := map (checked cf (w_now w) b) ?rows\<rparr>) w"
  let ?fetch = "\<lambda>marker. find_service_statuses E ?ctx [(SC_status, CStr (service_state_str UP))] (page_of cf marker)"
  have dk: "distinct (map ss_key ?rows)" by (rule statuses_wf_keys [OF wf])
  have dL: "distinct ?L"
    using ss_pages.in_order_map_key [OF distinct_map_filter [OF dk]] by (simp add: distinct_map)
  have inL: "x \<in> set ?rows \<and> ss_status x = UP" if "x \<in> set ?L" for x using that by simp
  have "\<exists>s'. iter_pages fuel ?fetch ss_key None (check_one_status E cf ?ctx) w = (Inr True, s') \<and>
      (\<lambda>b s. s = ?at b) ?L s'"
  proof (rule iter_pages_all [where n = "tk_per_page cf" and I = "\<lambda>b s. s = ?at b"])
    fix b c s assume L: "?L = b @ c" and s: "s = ?at b"
    have b_rows: "b \<noteq> [] \<Longrightarrow> last b \<in> set ?rows" using L inL by (metis UnI1 last_in_set set_append)
    have "find_page (e_valid_uuid E) ss_attr ss_key
        (first_page\<lparr>pg_limit := Some (tk_per_page cf),
           pg_marker := if b = [] then None else Some (ss_key (last b))\<rparr>)
        (map (checked cf (w_now w) b) ?rows) (filter ?P (map (checked cf (w_now w) b) ?rows))
      = Inr (take (tk_per_page cf) c)"
      using b_rows statuses_wf_row(5) [OF wf]
      by (intro ss_pages.find_page_rewritten [OF dk L]) (simp_all add: sort_values_def checked_def)
    then show "?fetch (if b = [] then None else Some (ss_key (last b))) s
        = (Inr (take (tk_per_page cf) c), s)"
      unfolding service_page [OF perm] page_of_def by (simp add: s)
  next
    fix b x c s assume L: "?L = b @ x # c" and s: "s = ?at b"
    have "x \<in> set ?L" "x \<notin> set b" using L dL by auto
    with inL have x: "x \<in> set ?rows" "x \<notin> set b" "ss_status x = UP" by blast+
    from check_one_step [OF perm wf x s]
    show "\<exists>s'. check_one_status E cf ?ctx x s = (Inr (), s') \<and> s' = ?at (b @ [x])" by blast
  next
    show "length ?L < fuel"
      using le_less_trans [OF length_filter_le assms(4)] by simp
    have "checked cf (w_now w) [] = (\<lambda>s. s)" by (rule ext) (simp add: checked_def)
    then show "w = ?at []" by (simp add: set_db_def)
  qed (use assms(3) in simp)
  moreover have "map (checked cf (w_now w) ?L) ?rows = map (marked_down cf (w_now w)) ?rows"
    by (intro map_cong) (auto simp: checked_def marked_down_def)
  ultimately show ?thesis
    by (simp add: check_service_status_def iter_service_statuses_def bind_run set_db_def
        producer_context_run [OF perm])
qed

definition sample_status :: "string \<Rightarrow> service_state \<Rightarrow> int \<Rightarrow> service_status" where
  "sample_status i st beat = (heartbeat ''worker'' i st beat)\<lparr>ss_id := Some i\<rparr>"

definition sample_task :: task_config where
  "sample_task = \<lparr>tk_per_page = 1, tk_batch_size = 10, tk_time_threshold = 30, tk_interval = 60\<rparr>"

definition sample_statuses :: world where
  "sample_statuses = world_of (empty_db\<lparr>d_statuses :=
     [sample_status ''h1'' UP 50, sample_status ''h2'' STOPPED 50, sample_status ''h3'' UP 60,
      sample_status ''h4'' STOPPED 80, sample_status ''h5'' UP 90]\<rparr>)"

theorem check_service_status_complete_witness:
  "fst (check_service_status sample_env sample_task 9 sample_statuses) = Inr True \<and>
   map ss_status (d_statuses (w_db (snd (check_service_status sample_env sample_task 9 sample_statuses))))
     = [DOWN, STOPPED, DOWN, STOPPED, UP]"
proof -
  have "statuses_wf sample_env (d_statuses (w_db sample_statuses))" by code_simp
  moreover have "e_enforce sample_env = (\<lambda>_ _ _. Permit)" by (simp add: sample_env_def)
  ultimately have run: "check_service_status sample_env sample_task 9 sample_statuses =
    (Inr True, set_db (\<lambda>d. d\<lparr>d_statuses :=
       map (marked_down sample_task (w_now sample_statuses)) (d_statuses d)\<rparr>) sample_statuses)"
    by (intro check_service_status_complete)
      (simp_all add: sample_task_def sample_statuses_def world_of_def empty_db_def)
  show ?thesis unfolding run by code_simp
qed

text \<open>The order of creation, with the id between rows of the same moment.\<close>

definition by_creation :: "service_status list \<Rightarrow> service_status list" where
  "by_creation rows = sort_key (\<lambda>s. [VInt (ss_created_at s), VStr (ss_key s)]) rows"

lemma in_order_by_creation: "ss_pages.in_order = by_creation"
proof -
  have "sort_values ss_pages.cols = (\<lambda>s. [VInt (ss_created_at s), VStr (ss_key s)])"
    by (rule ext) (simp add: sort_values_def)
  then show ?thesis by (intro ext) (simp add: ss_pages.in_order_def by_creation_def)
qed

lemma statuses_wf_filter: "statuses_wf E rows \<Longrightarrow> statuses_wf E (filter P rows)"
  by (auto simp: statuses_wf_def unique_service_status_def list_all_iff distinct_map_filter)

lemma delete_page:
  assumes perm: "e_enforce E = (\<lambda>_ _ _. Permit)" and wf: "statuses_wf E (d_statuses (w_db w))"
    and page: "distinct page" "set page \<subseteq> set (d_statuses (w_db w))"
  shows "for_each page (delete_service_status E ctx) w =
    (Inr (), set_db (\<lambda>d. d\<lparr>d_statuses := filter (\<lambda>s. s \<notin> set page) (d_statuses d)\<rparr>) w)"
proof -
  let ?rows = "d_statuses (w_db w)"
  let ?at = "\<lambda>b. set_db (\<lambda>d. d\<lparr>d_statuses := filter (\<lambda>s. s \<notin> set b) (d_statuses d)\<rparr>) w"
  have "\<exists>s'. for_each page (delete_service_status E ctx) w = (Inr (), s') \<and> s' = ?at page"
  proof (rule for_each_steps [where I = "\<lambda>b s. s = ?at b"])
    fix b x s assume "\<exists>c. page = b @ x # c" and s: "s = ?at b"
    with page have x: "x \<in> set ?rows" "x \<notin> set b" by auto
    have tab: "d_statuses (w_db s) = filter (\<lambda>s. s \<notin> set b) ?rows" using s by simp
    have key: "ss_key y = ss_key x \<longleftrightarrow> y = x" if "y \<in> set ?rows" for y
      using statuses_wf_keys [OF wf] that x(1) by (auto simp: distinct_map inj_on_def)
    have "delete_service_status E ctx x s =
      (Inr (), set_db (\<lambda>d. d\<lparr>d_statuses := filter (\<lambda>y. ss_key y \<noteq> ss_key x) (d_statuses d)\<rparr>) s)"
      using perm x tab statuses_wf_filter [OF wf] by (intro delete_status_row) simp_all
    moreover have "filter (\<lambda>y. ss_key y \<noteq> ss_key x) (filter (\<lambda>s. s \<notin> set b) ?rows)
        = filter (\<lambda>s. s \<notin> set (b @ [x])) ?rows"
      using key by (auto intro!: filter_cong)
    ultimately show "\<exists>s'. delete_service_status E ctx x s = (Inr (), s') \<and> s' = ?at (b @ [x])"
      using s tab by (simp add: set_db_def)
  qed (simp add: set_db_def)
  then show ?thesis by blast
qed

text \<open>The cleanup of stopped services removes the first page of them and no more: it deletes the
  row its marker names, so the request for the second page answers MarkerNotFound, which the task
  takes for the end. Whatever the number of stopped services, one run deletes as many as one page
  holds, in the order of their creation, and keeps every other row.\<close>

theorem cleanup_removes_one_page:
  assumes perm: "e_enforce E = (\<lambda>_ _ _. Permit)" and wf: "statuses_wf E (d_statuses (w_db w))"
    and n: "0 < tk_per_page cf" "2 \<le> fuel"
  shows "delete_stopped_services E cf fuel ctx w =
    (Inr True, set_db (\<lambda>d. d\<lparr>d_statuses := filter (\<lambda>s. s \<notin> set (take (tk_per_page cf)
       (by_creation (filter (\<lambda>s. ss_status s = STOPPED) (d_statuses d))))) (d_statuses d)\<rparr>) w)"
proof -
  let ?rows = "d_statuses (w_db w)"
  let ?L = "by_creation (filter (\<lambda>s. ss_status s = STOPPED) ?rows)"
  let ?page = "take (tk_per_page cf) ?L"
  let ?fetch = "\<lambda>marker. find_service_statuses E ctx [(SC_status, CStr (service_state_str STOPPED))] (page_of cf marker)"
  let ?w = "set_db (\<lambda>d. d\<lparr>d_statuses := filter (\<lambda>s. s \<notin> set ?page) (d_statuses d)\<rparr>) w"
  obtain f where f: "fuel = Suc (Suc f)" using n(2) by (metis add_2_eq_Suc le_Suc_ex)
  note order = ss_pages.find_page_first [unfolded in_order_by_creation]
    ss_pages.in_order_map_key [unfolded in_order_by_creation]
    ss_pages.in_order_set [unfolded in_order_by_creation]
  have first: "?fetch None w = (Inr ?page, w)"
    unfolding service_page [OF perm] page_of_def
    using order(1) [of "e_valid_uuid E" "Some (tk_per_page cf)"] by (simp add: first_page_def)
  have keys: "distinct (map ss_key ?rows)" by (rule statuses_wf_keys [OF wf])
  show ?thesis
  proof (cases "?page = []")
    case True
    then have "set_db (\<lambda>d. d\<lparr>d_statuses := filter (\<lambda>s. s \<notin> set ?page) (d_statuses d)\<rparr>) w = w"
      by (simp only: list.set empty_iff not_False_eq_True filter_True) (simp add: set_db_def)
    with True first f show ?thesis
      by (simp add: delete_stopped_services_def until_marker_lost_def iter_service_statuses_def catch_def
          bind_run set_db_def)
  next
    case False
    have page: "distinct ?page" "set ?page \<subseteq> set ?rows"
      using order(2) [OF distinct_map_filter [OF keys]] set_take_subset [of _ ?L] order(3)
      by (auto simp: distinct_map)
    have last: "last ?page \<in> set ?page" using False by (rule last_in_set)
    then have lr: "last ?page \<in> set ?rows" using page(2) by blast
    have gone: "filter (\<lambda>r. ss_key r = ss_key (last ?page)) (filter (\<lambda>s. s \<notin> set ?page) ?rows) = []"
    proof -
      have "r = last ?page" if "r \<in> set ?rows" "ss_key r = ss_key (last ?page)" for r
        using keys that lr by (auto simp: distinct_map inj_on_def)
      with last show ?thesis by (auto simp: filter_empty_conv)
    qed
    have "?fetch (Some (ss_key (last ?page))) ?w = (Inl (BadRequest MarkerNotFound), ?w)"
      unfolding service_page [OF perm] page_of_def
      using gone statuses_wf_row(5) [OF wf lr]
      by (simp add: find_page_def first_page_def check_marker_def)
    then have "iter_pages fuel ?fetch ss_key None (delete_service_status E ctx) w
        = (Inl (BadRequest MarkerNotFound), ?w)"
      using first False delete_page [OF perm wf page] f by (simp add: bind_run seq_run)
    then show ?thesis
      by (simp add: delete_stopped_services_def until_marker_lost_def iter_service_statuses_def catch_def
          set_db_def)
  qed
qed

theorem cleanup_removes_one_page_witness:
  "map ss_id (d_statuses (w_db (snd (delete_stopped_services sample_env sample_task 5 worker_context
     sample_statuses)))) = [Some ''h1'', Some ''h3'', Some ''h4'', Some ''h5'']"
proof -
  have "statuses_wf sample_env (d_statuses (w_db sample_statuses))" by code_simp
  moreover have "e_enforce sample_env = (\<lambda>_ _ _. Permit)" by (simp add: sample_env_def)
  ultimately have "delete_stopped_services sample_env sample_task 5 worker_context sample_statuses =
    (Inr True, set_db (\<lambda>d. d\<lparr>d_statuses := filter (\<lambda>s. s \<notin> set (take (tk_per_page sample_task)
       (by_creation (filter (\<lambda>s. ss_status s = STOPPED) (d_statuses d))))) (d_statuses d)\<rparr>) sample_statuses)"
    by (intro cleanup_removes_one_page) (simp_all add: sample_task_def)
  then show ?thesis by (simp only: snd_conv) code_simp
qed

end
