(* ===== verification/RefreshProps.thy ===== *)
theory RefreshProps
  imports ProducerProps
begin

text \<open>
  Walking through the zones of a range of shards: which zones the producer's pages hold, the refresh of
  secondary zones built on it, and what the NULLs of \<open>updated_at\<close> do to a walk in that order.
\<close>

section \<open>The zones of a producer\<close>

definition zones_by_creation :: "zone_times \<Rightarrow> zone list \<Rightarrow> zone list" where
  "zones_by_creation T zs = sort_key (\<lambda>z. [VInt (zt_created T (z_id z)), VStr (z_id z)]) zs"

lemma zones_in_order: "zone_pages.in_order (zt_created T) = zones_by_creation T"
proof -
  have "sort_values (zone_pages.cols (zt_created T)) = (\<lambda>z. [VInt (zt_created T (z_id z)), VStr (z_id z)])"
    by (rule ext) (simp add: sort_values_def)
  then show ?thesis by (intro ext) (simp add: zone_pages.in_order_def zones_by_creation_def)
qed

text \<open>Live zones of a type whose shard lies in a range, as the query returns them.\<close>

definition zones_of_range :: "zone_times \<Rightarrow> zone_type \<Rightarrow> int \<Rightarrow> int \<Rightarrow> db \<Rightarrow> zone list" where
  "zones_of_range T ty a b d =
     zones_by_creation T (map (load_zone d)
       (filter (\<lambda>z. z_type z = ty \<and> a \<le> z_shard z \<and> z_shard z \<le> b \<and> z_deleted z = ''0'') (d_zones d)))"

definition zones_ok :: "env \<Rightarrow> db \<Rightarrow> bool" where
  "zones_ok E d \<longleftrightarrow> zone_ids_distinct d \<and>
     list_all (\<lambda>z. plain (z_id z) \<and> e_valid_uuid E (z_id z)) (d_zones d)"

abbreviation every_project :: req_context where
  "every_project \<equiv> admin_context\<lparr>c_all_tenants := True\<rparr>"

lemma range_criterion:
  assumes "0 \<le> a" "0 \<le> b"
  shows "zone_where every_project [(ZC_type, CStr (zone_type_str ty)),
      (ZC_shard, CStr (''BETWEEN '' @ int_str a @ '','' @ int_str b))] True True
    = Inr [Eq ZC_type (VStr (zone_type_str ty)), Between ZC_shard (VStr (int_str a)) (VStr (int_str b)),
           Eq ZC_deleted (VStr ''0'')]"
proof -
  have "plain (zone_type_str ty)" by (cases ty) (simp_all add: plain_def startswith_def)
  moreover have "criterion_clause ZC_shard (CStr (''BETWEEN '' @ int_str a @ '','' @ int_str b))
      = Inr (Between ZC_shard (VStr (int_str a)) (VStr (int_str b)))"
    using assms by (rule between_clause)
  ultimately show ?thesis
    by (simp add: zone_where_def apply_deleted_criteria_def admin_context_def)
qed

lemma range_page:
  assumes perm: "e_enforce E = (\<lambda>_ _ _. Permit)" and ids: "zone_ids_distinct (w_db w)"
    and "0 \<le> a" "0 \<le> b"
  shows "find_zones_page E T every_project ([(ZC_type, CStr (zone_type_str ty))] @
      [(ZC_shard, CStr (''BETWEEN '' @ int_str a @ '','' @ int_str b))]) pg w =
    (find_page (e_valid_uuid E) (zone_attr (zt_created T) (zt_updated T)) z_id pg (d_zones (w_db w))
      (map (load_zone (w_db w)) (filter (\<lambda>z. z_type z = ty \<and> a \<le> z_shard z \<and> z_shard z \<le> b \<and>
         z_deleted z = ''0'') (d_zones (w_db w)))), w)"
proof -
  let ?cls = "[Eq ZC_type (VStr (zone_type_str ty)), Between ZC_shard (VStr (int_str a)) (VStr (int_str b)),
           Eq ZC_deleted (VStr ''0'')]"
  have "select_zones ?cls (w_db w) = map (load_zone (w_db w)) (filter (matches zone_row_col ?cls) (d_zones (w_db w)))"
    by (rule select_zones_rows [OF ids]) (simp add: zone_row_col_def)
  moreover have "filter (matches zone_row_col ?cls) (d_zones (w_db w)) = filter (\<lambda>z. z_type z = ty \<and>
      a \<le> z_shard z \<and> z_shard z \<le> b \<and> z_deleted z = ''0'') (d_zones (w_db w))"
    using assms(3,4) by (intro filter_cong) (auto simp: zone_row_col_def)
  ultimately show ?thesis
    using perm range_criterion [OF assms(3,4), of ty]
    by (simp add: find_zones_page_def storage_find_zones_page_def seq_run bind_run check_run
        check_result_def admin_context_def)
qed

text \<open>The page behind the zones visited so far.\<close>

lemma range_next_page:
  assumes perm: "e_enforce E = (\<lambda>_ _ _. Permit)" and ok: "zones_ok E (w_db w)"
    and "0 \<le> a" "0 \<le> b" and L: "zones_of_range T ty a b (w_db w) = before @ behind"
  shows "find_zones_page E T every_project ([(ZC_type, CStr (zone_type_str ty))] @
      [(ZC_shard, CStr (''BETWEEN '' @ int_str a @ '','' @ int_str b))])
      (page_of cf (if before = [] then None else Some (z_id (last before)))) w
    = (Inr (take (tk_per_page cf) behind), w)"
proof -
  let ?d = "w_db w"
  let ?rows = "map (load_zone ?d) (filter (\<lambda>z. z_type z = ty \<and> a \<le> z_shard z \<and> z_shard z \<le> b \<and>
      z_deleted z = ''0'') (d_zones ?d))"
  have ids: "zone_ids_distinct ?d" using ok by (simp add: zones_ok_def)
  have L': "zone_pages.in_order (zt_created T) ?rows = before @ behind"
    using L by (simp add: zones_of_range_def zones_in_order)
  have lid [simp]: "z_id (load_zone ?d z) = z_id z" for z by (simp add: load_zone_def)
  have dk: "distinct (map z_id ?rows)"
    using ids by (simp add: zone_ids_distinct_def comp_def distinct_map_filter)
  show ?thesis
  proof (cases "before = []")
    case True
    then show ?thesis
      unfolding range_page [OF perm ids assms(3,4)] page_of_def
      using zone_pages.find_page_first [of "e_valid_uuid E" "zt_created T" "zt_updated T" "Some (tk_per_page cf)"
          "d_zones ?d" ?rows] L' by (simp add: first_page_def)
  next
    case False
    then have split: "zone_pages.in_order (zt_created T) ?rows = butlast before @ last before # behind"
      using L' by simp
    have "last before \<in> set (zone_pages.in_order (zt_created T) ?rows)" unfolding split by simp
    then have "last before \<in> set ?rows" by (simp only: zone_pages.in_order_set)
    then obtain row where row: "row \<in> set (d_zones ?d)" "last before = load_zone ?d row" by auto
    have "filter (\<lambda>r. z_id r = z_id (last before)) (d_zones ?d) = [row]"
      unfolding row(2) lid
      using ids row(1) by (intro filter_unique [where f = z_id]) (simp_all add: zone_ids_distinct_def)
    moreover have "e_valid_uuid E (z_id (last before))"
      using ok row(1) by (simp add: zones_ok_def list_all_iff row(2))
    moreover have "sort_values (zone_pages.cols (zt_created T)) row
        = sort_values (zone_pages.cols (zt_created T)) (last before)"
      by (simp add: sort_values_def row(2))
    ultimately have "find_page (e_valid_uuid E) (zone_attr (zt_created T) (zt_updated T)) z_id
        (first_page\<lparr>pg_limit := Some (tk_per_page cf), pg_marker := Some (z_id (last before))\<rparr>)
        (d_zones ?d) ?rows = Inr (take (tk_per_page cf) behind)"
      using zone_pages.find_page_next [OF _ _ _ dk split] by blast
    with False show ?thesis
      unfolding range_page [OF perm ids assms(3,4)] page_of_def by simp
  qed
qed

text \<open>A walk whose body leaves the tables alone visits every zone of the range.\<close>

lemma iter_zones_all:
  assumes perm: "e_enforce E = (\<lambda>_ _ _. Permit)" and ok: "zones_ok E (w_db w)"
    and mine: "mine \<noteq> []" "0 \<le> hd mine" "0 \<le> last mine"
    and n: "0 < tk_per_page cf" "length (d_zones (w_db w)) < fuel"
    and L: "L = zones_of_range T ty (hd mine) (last mine) (w_db w)"
    and db: "\<And>b s. I b s \<Longrightarrow> w_db s = w_db w"
    and body: "\<And>b x c s. L = b @ x # c \<Longrightarrow> I b s \<Longrightarrow> \<exists>s'. body x s = (Inr (), s') \<and> I (b @ [x]) s'"
    and start: "I [] w"
  shows "\<exists>s'. iter_zones E T cf fuel (Some mine) every_project [(ZC_type, CStr (zone_type_str ty))] body w
    = (Inr True, s') \<and> I L s'"
proof -
  let ?between = "[(ZC_shard, CStr (''BETWEEN '' @ int_str (hd mine) @ '','' @ int_str (last mine)))]"
  have range: "filter_between ZC_shard (Some mine) = Inr ?between"
    using mine(1) by (cases mine) (simp_all add: filter_between_def my_range_def)
  have "\<exists>s'. iter_pages fuel (\<lambda>marker. find_zones_page E T every_project
      ([(ZC_type, CStr (zone_type_str ty))] @ ?between) (page_of cf marker)) z_id None body w = (Inr True, s') \<and> I L s'"
  proof (rule iter_pages_all [where n = "tk_per_page cf" and I = I])
    fix b c s assume split: "L = b @ c" and I: "I b s"
    note same = db [OF I]
    show "find_zones_page E T every_project ([(ZC_type, CStr (zone_type_str ty))] @ ?between)
        (page_of cf (if b = [] then None else Some (z_id (last b)))) s = (Inr (take (tk_per_page cf) c), s)"
      using split ok by (intro range_next_page [OF perm _ mine(2,3)]) (simp_all add: same L)
  next
    show "length L < fuel"
      unfolding L zones_of_range_def zones_by_creation_def
      using le_less_trans [OF length_filter_le n(2)] by simp
  qed (use body start n(1) in auto)
  then show ?thesis by (simp add: iter_zones_def bind_run range)
qed

section \<open>Refreshing secondary zones\<close>

text \<open>The serial the worker finds at the master that is drawn.\<close>

definition master_serial :: "env \<Rightarrow> (zone \<Rightarrow> zone_master \<Rightarrow> int option) \<Rightarrow> zone \<Rightarrow> int option" where
  "master_serial E ask z = ask z (z_masters z ! e_choice E (length (z_masters z)))"

definition refresh_due :: "int \<Rightarrow> zone \<Rightarrow> bool" where
  "refresh_due now z = (case z_transferred_at z of None \<Rightarrow> False | Some t \<Rightarrow> z_refresh z < now - t)"

definition refresh_message ::
  "env \<Rightarrow> (zone \<Rightarrow> zone_master \<Rightarrow> int option) \<Rightarrow> int \<Rightarrow> zone \<Rightarrow> worker_msg list" where
  "refresh_message E ask now z =
     (if refresh_due now z then
        (case master_serial E ask z of
           None \<Rightarrow> [] | Some n \<Rightarrow> if z_serial z < n then [W_perform_zone_xfr z] else [])
      else [])"

lemma refresh_zone_run:
  assumes perm: "e_enforce E = (\<lambda>_ _ _. Permit)" and ok: "zones_ok E (w_db w)"
    and z: "z \<in> set (zones_of_range T SECONDARY a b (w_db w))" "z_masters z \<noteq> []"
    and s: "s = w\<lparr>w_sent := msgs\<rparr>"
  shows "refresh_zone E ask every_project z s
    = (Inr (), w\<lparr>w_sent := msgs @ refresh_message E ask (w_now w) z\<rparr>)"
proof -
  let ?d = "w_db w"
  from z(1) obtain row where row: "row \<in> set (d_zones ?d)" "z = load_zone ?d row" "z_deleted row = ''0''"
    "z_type row = SECONDARY"
    by (auto simp: zones_of_range_def zones_by_creation_def)
  have lz: "z_id z = z_id row" "z_type z = SECONDARY" using row by (simp_all add: load_zone_def)
  have "storage_get_zone every_project (z_id row) True s = (Inr (load_zone (w_db s) row), s)"
    using ok row(1,3) s by (intro storage_get_zone_ok) (auto simp: zones_ok_def list_all_iff)
  then have get: "storage_get_zone every_project (z_id z) True s = (Inr z, s)"
    unfolding lz(1) using row(2) s by simp
  show ?thesis
  proof (cases "refresh_due (w_now w) z")
    case False
    then show ?thesis
      using s by (auto simp: refresh_zone_def refresh_due_def refresh_message_def bind_run split: option.splits)
  next
    case True
    then obtain t where t: "z_transferred_at z = Some t" "z_refresh z < w_now w - t"
      by (auto simp: refresh_due_def split: option.splits)
    have "refresh_zone E ask every_project z s = xfr_zone E ask every_project (z_id z) s"
      using t s by (simp add: refresh_zone_def bind_run)
    also have "\<dots> = (Inr (), s\<lparr>w_sent := w_sent s @ refresh_message E ask (w_now w) z\<rparr>)"
      using True z(2) lz(2)
      by (auto simp: xfr_zone_def get bind_run seq_run check_run check_result_def refresh_message_def
          master_serial_def cast_def perm split: option.splits)
    also have "\<dots> = (Inr (), w\<lparr>w_sent := msgs @ refresh_message E ask (w_now w) z\<rparr>)"
      using s by simp
    finally show ?thesis .
  qed
qed

text \<open>C16: The refresh of secondary zones walks through every live SECONDARY zone of the producer's
  shards once, in the order of creation, and the worker is told to transfer exactly those whose last
  transfer is longer ago than their refresh interval and whose master has a higher serial; nothing
  else is sent and no table changes. (Every zone needs a master: drawing one from an empty list would
  end the task.)\<close>

theorem secondary_refresh_messages:
  assumes perm: "e_enforce E = (\<lambda>_ _ _. Permit)" and ok: "zones_ok E (w_db w)"
    and mine: "mine \<noteq> []" "0 \<le> hd mine" "0 \<le> last mine"
    and n: "0 < tk_per_page cf" "length (d_zones (w_db w)) < fuel"
    and L: "L = zones_of_range T SECONDARY (hd mine) (last mine) (w_db w)"
    and masters: "list_all (\<lambda>z. z_masters z \<noteq> []) L"
  shows "periodic_secondary_refresh E T cf fuel ask (Some mine) w
    = (Inr True, w\<lparr>w_sent := w_sent w @ concat (map (refresh_message E ask (w_now w)) L)\<rparr>)"
proof -
  let ?at = "\<lambda>b. w\<lparr>w_sent := w_sent w @ concat (map (refresh_message E ask (w_now w)) b)\<rparr>"
  have "\<exists>s'. iter_zones E T cf fuel (Some mine) every_project [(ZC_type, CStr (zone_type_str SECONDARY))]
      (refresh_zone E ask every_project) w = (Inr True, s') \<and> s' = ?at L"
  proof (rule iter_zones_all [where I = "\<lambda>b s. s = ?at b", OF perm ok mine n L])
    fix b x c s assume split: "L = b @ x # c" and s: "s = ?at b"
    have "x \<in> set L" using split by simp
    with masters have x: "x \<in> set (zones_of_range T SECONDARY (hd mine) (last mine) (w_db w))" "z_masters x \<noteq> []"
      unfolding L by (auto simp: list_all_iff)
    from refresh_zone_run [OF perm ok x s, of ask]
    show "\<exists>s'. refresh_zone E ask every_project x s = (Inr (), s') \<and> s' = ?at (b @ [x])" by simp
  qed simp_all
  moreover have "\<exists>r. my_range (Some mine) = Inr r"
    using mine(1) by (cases mine) (simp_all add: my_range_def)
  ultimately show ?thesis
    by (auto simp: periodic_secondary_refresh_def bind_run producer_context_run [OF perm])
qed

definition sample_secondary :: "string \<Rightarrow> int \<Rightarrow> zone" where
  "sample_secondary i t = (sample_zone i ''t1'' (i @ ''.o.''))\<lparr>z_type := SECONDARY,
     z_transferred_at := Some t, z_refresh := 60, z_masters := [\<lparr>m_host = ''m'', m_port = 53\<rparr>]\<rparr>"

definition sample_secondaries :: world where
  "sample_secondaries = world_of (empty_db\<lparr>d_zones :=
     [sample_secondary ''z1'' 10, sample_secondary ''z2'' 90, sample_secondary ''z3'' 20]\<rparr>)"

definition sample_times :: zone_times where
  "sample_times = \<lparr>zt_created = (\<lambda>i. if i = ''z1'' then 7 else 3), zt_updated = (\<lambda>i. if i = ''z2'' then Some 5 else None)\<rparr>"

theorem secondary_refresh_messages_witness:
  "w_sent (snd (periodic_secondary_refresh sample_env sample_times sample_task 9 (\<lambda>z m. Some 8)
     (Some [0, 1]) sample_secondaries))
   = [W_perform_zone_xfr (sample_secondary ''z3'' 20), W_perform_zone_xfr (sample_secondary ''z1'' 10)]"
proof -
  let ?L = "zones_of_range sample_times SECONDARY 0 1 (w_db sample_secondaries)"
  have "zones_ok sample_env (w_db sample_secondaries)" "list_all (\<lambda>z. z_masters z \<noteq> []) ?L"
    unfolding zones_ok_def zone_ids_distinct_def by code_simp+
  moreover have "e_enforce sample_env = (\<lambda>_ _ _. Permit)" by (simp add: sample_env_def)
  ultimately have "periodic_secondary_refresh sample_env sample_times sample_task 9 (\<lambda>z m. Some 8)
      (Some [0, 1]) sample_secondaries = (Inr True, sample_secondaries\<lparr>w_sent := w_sent sample_secondaries @
        concat (map (refresh_message sample_env (\<lambda>z m. Some 8) (w_now sample_secondaries)) ?L)\<rparr>)"
    by (intro secondary_refresh_messages)
      (simp_all add: sample_task_def sample_secondaries_def empty_db_def)
  then show ?thesis by (simp only: snd_conv) code_simp
qed

section \<open>Walking in the order of updated_at\<close>

text \<open>A page that is asked for behind a zone that was never updated, in ascending order of
  \<open>updated_at\<close>, holds only zones that were never updated either: the comparison with the marker's
  NULL selects nothing, so the zones that were updated, which come behind, are on no page.\<close>

theorem null_marker_hides_zones:
  assumes run: "find_zones_page E T ctx criterion \<lparr>pg_marker = Some m, pg_limit = limit,
      pg_sort_key = Some ''updated_at'', pg_sort_dir = Some ''asc''\<rparr> w = (Inr zs, w')"
    and null: "zt_updated T m = None"
  shows "list_all (\<lambda>z. zt_updated T (z_id z) = None) zs"
proof -
  let ?attr = "zone_attr (zt_created T) (zt_updated T)"
  let ?col = "\<lambda>z. case zt_updated T (z_id z) of None \<Rightarrow> VNull | Some n \<Rightarrow> VInt n"
  let ?cols = "[?col, \<lambda>z. VStr (z_id z)]"
  from run obtain rows where page: "find_page (e_valid_uuid E) ?attr z_id \<lparr>pg_marker = Some m,
      pg_limit = limit, pg_sort_key = Some ''updated_at'', pg_sort_dir = Some ''asc''\<rparr>
      (d_zones (w_db w)) rows = Inr zs"
    by (auto simp: find_zones_page_def storage_find_zones_page_def comp_iffs)
  have attr: "?attr ''updated_at'' = Some ?col" "?attr ''id'' = Some (\<lambda>z. VStr (z_id z))"
    by (simp_all add: zone_attr_def)
  from page obtain r where r: "check_marker (e_valid_uuid E) z_id m (d_zones (w_db w)) = Inr r"
    by (auto simp: find_page_def split: sum.splits)
  then obtain rest where "filter (\<lambda>z. z_id z = m) (d_zones (w_db w)) = r # rest"
    by (auto simp: check_marker_def split: if_splits list.splits)
  then have "r \<in> set (filter (\<lambda>z. z_id z = m) (d_zones (w_db w)))" by simp
  then have rm: "z_id r = m" by simp
  from page r have "set zs \<subseteq> set (filter (after_marker ?cols Asc r) rows)"
    using set_take_subset
    by (fastforce simp: find_page_def paginate_def attr or_default_def sort_direction_of_def order_rows_def
        Let_def split: option.splits)
  moreover have "zt_updated T (z_id z) = None" if "after_marker ?cols Asc r z" for z
    using that rm null
    by (auto simp: after_marker_def marker_criteria_def Let_def upt_rec val_lt_def split: option.splits)
  ultimately show ?thesis by (auto simp: list_all_iff)
qed

theorem null_marker_hides_zones_witness:
  "list_all (\<lambda>z. zt_updated sample_times (z_id z) = None)
     (case fst (find_zones_page sample_env sample_times worker_context [] \<lparr>pg_marker = Some ''z1'',
        pg_limit = Some 5, pg_sort_key = Some ''updated_at'', pg_sort_dir = Some ''asc''\<rparr> sample_secondaries) of
        Inl _ \<Rightarrow> [] | Inr zs \<Rightarrow> zs) \<and>
   fst (find_zones_page sample_env sample_times worker_context [] \<lparr>pg_marker = Some ''z1'',
        pg_limit = Some 5, pg_sort_key = Some ''updated_at'', pg_sort_dir = Some ''asc''\<rparr> sample_secondaries)
     = Inr [sample_secondary ''z3'' 20]"
proof -
  have run: "fst (find_zones_page sample_env sample_times worker_context [] \<lparr>pg_marker = Some ''z1'',
        pg_limit = Some 5, pg_sort_key = Some ''updated_at'', pg_sort_dir = Some ''asc''\<rparr> sample_secondaries)
     = Inr [sample_secondary ''z3'' 20]" by code_simp
  then obtain w' where "find_zones_page sample_env sample_times worker_context [] \<lparr>pg_marker = Some ''z1'',
        pg_limit = Some 5, pg_sort_key = Some ''updated_at'', pg_sort_dir = Some ''asc''\<rparr> sample_secondaries
     = (Inr [sample_secondary ''z3'' 20], w')" by (metis prod.collapse)
  from null_marker_hides_zones [OF this] run show ?thesis by (simp add: sample_times_def)
qed

end
