(* ===== verification/Mdns.thy ===== *)
theory Mdns
  imports CentralZones Dnsutils "HOL-Library.List_Lexorder"
begin

text \<open>
  MiniDNS: the request handler of \<open>mdns/handler.py\<close>, with the storage methods only it uses
  (\<open>find_recordsets_axfr\<close>, \<open>get_catalog_zone_records\<close>), and the middleware of
  \<open>dnsmiddleware.py\<close> around it. A request is what dnspython has decoded; the handler yields responses,
  a list here. Three things of dnspython are parameters, in the record \<open>dns_env\<close>: whether
  \<open>rrset.from_text_list\<close> accepts a record, whether a renderer that holds some rrsets has room for one
  more (\<open>room\<close>, for the maximum size of the message), and the SOA serial a resolver finds.
\<close>

section \<open>Messages\<close>

datatype mdns_opcode = OP_QUERY | OP_NOTIFY | OP_OTHER

record question =
  qs_name :: string
  qs_rdtype :: string
  qs_in :: bool

record dns_request =
  rq_opcode :: mdns_opcode
  rq_question :: "question list"
  rq_had_tsig :: bool
  rq_keyname :: string
  rq_context :: req_context
  rq_addr :: string
  rq_tsigkey :: "tsigkey option"

datatype mdns_rcode = Rc_noerror | Rc_formerr | Rc_servfail | Rc_refused | Rc_notauth

text \<open>Name, TTL, type and data, the arguments of \<open>from_text_list\<close>.\<close>

type_synonym rrset_text = "string \<times> int option \<times> string \<times> string list"

datatype dns_out =
  Out_rcode mdns_rcode            \<comment> \<open>a response without an answer\<close>
| Out_answer "rrset_text list"    \<comment> \<open>an authoritative answer\<close>
| Out_notify                      \<comment> \<open>an authoritative response to a NOTIFY\<close>
| Out_packet "rrset_text list"    \<comment> \<open>a rendered message of a transfer\<close>

record dns_env =
  de_parses :: "rrset_text \<Rightarrow> bool"
  de_room :: "int \<Rightarrow> rrset_text list \<Rightarrow> rrset_text \<Rightarrow> bool"
  de_serial :: "string \<Rightarrow> string \<Rightarrow> exn + int"

section \<open>Which zone is meant\<close>

text \<open>\<open>_zone_criterion_from_request\<close>.\<close>

definition zone_criterion_from_request ::
  "env \<Rightarrow> dns_request \<Rightarrow> (zone_column \<times> crit) list \<Rightarrow> exn + (zone_column \<times> crit) list" where
  "zone_criterion_from_request E rq criterion =
     (case rq_tsigkey rq of
        None \<Rightarrow>
          if cf_query_enforce_tsig (e_conf E) then Inl (Forbidden F_plain)
          else Inr (criterion @ [(ZC_pool_id, CStr (cf_default_pool_id (e_conf E)))])
      | Some k \<Rightarrow>
          if k_scope k = ''POOL'' then Inr (criterion @ [(ZC_pool_id, CStr (k_resource_id k))])
          else if k_scope k = ''ZONE'' then Inr (criterion @ [(ZC_id, CStr (k_resource_id k))])
          else Inl (OtherError ''NotImplementedError''))"

text \<open>The names \<open>'.'.join(labels[i:])\<close> for \<open>i\<close> up to the last label but one.\<close>

definition ancestor_names :: "string \<Rightarrow> string list" where
  "ancestor_names name =
     (let labels = split_on dot name
      in map (\<lambda>i. join ''.'' (drop i labels)) [0..<length labels - 1])"

fun first_zone ::
  "req_context \<Rightarrow> (zone_column \<times> crit) list \<Rightarrow> string list \<Rightarrow> zone option sys" where
  "first_zone ctx pool_criterion [] = return None"
| "first_zone ctx pool_criterion (n # ns) =
     catch (bind (storage_find_zone ctx (pool_criterion @ [(ZC_name, CStr n)])) (\<lambda>z. return (Some z)))
       (\<lambda>e. if e = ZoneNotFound then Some (first_zone ctx pool_criterion ns) else None)"

definition find_zone_by_ancestor_walk :: "env \<Rightarrow> dns_request \<Rightarrow> string \<Rightarrow> zone option sys" where
  "find_zone_by_ancestor_walk E rq name =
     bind (lift (zone_criterion_from_request E rq [])) (\<lambda>pool_criterion.
     first_zone (rq_context rq) pool_criterion (ancestor_names name))"

section \<open>NOTIFY\<close>

definition master_data :: "zone_master \<Rightarrow> string" where
  "master_data m = m_host m @ '':'' @ int_str (m_port m)"

fun master_by_ip :: "zone_master list \<Rightarrow> string \<Rightarrow> zone_master option" where
  "master_by_ip [] host = None"
| "master_by_ip (m # ms) host =
     (if host = fst (split_host_port (master_data m) 53) then Some m else master_by_ip ms host)"

definition get_master_by_ip :: "zone \<Rightarrow> string \<Rightarrow> zone_master option" where
  "get_master_by_ip z host = master_by_ip (z_masters z) host"

fun first_with_master :: "zone list \<Rightarrow> string \<Rightarrow> (zone \<times> zone_master) option" where
  "first_with_master [] addr = None"
| "first_with_master (z # zs) addr =
     (case get_master_by_ip z addr of
        Some m \<Rightarrow> Some (z, m) | None \<Rightarrow> first_with_master zs addr)"

text \<open>\<open>_handle_notify\<close>; the criterion \<open>deleted: False\<close> reaches the database as 0, which equals the
  text \<open>'0'\<close> of a row that is not deleted.\<close>

definition handle_notify :: "env \<Rightarrow> dns_env \<Rightarrow> dns_request \<Rightarrow> dns_out list sys" where
  "handle_notify E D rq =
     (case rq_question rq of
        [q] \<Rightarrow>
          bind (storage_find_zones (rq_context rq) [(ZC_name, CStr (qs_name q)),
                  (ZC_type, CStr (zone_type_str SECONDARY)), (ZC_deleted, CVal (VStr ''0''))]) (\<lambda>zones.
          if zones = [] then return [Out_rcode Rc_notauth]
          else
            case first_with_master zones (rq_addr rq) of
              None \<Rightarrow> return [Out_rcode Rc_refused]
            | Some (z, m) \<Rightarrow>
                bind (lift (de_serial D (z_name z) (rq_addr rq))) (\<lambda>serial.
                seq (if serial = z_serial z then return () else cast (W_perform_zone_xfr_from z [m]))
                  (return [Out_notify])))
      | _ \<Rightarrow> return [Out_rcode Rc_formerr])"

section \<open>Transfers\<close>

text \<open>A row of \<open>find_recordsets_axfr\<close>.\<close>

record axfr_row =
  ax_id :: string
  ax_type :: string
  ax_ttl :: "int option"
  ax_name :: string
  ax_data :: string

text \<open>The join of records and recordsets, records that are being deleted left out, ordered by the
  recordset's id.\<close>

definition axfr_rows :: "rs_column clause list \<Rightarrow> db \<Rightarrow> axfr_row list" where
  "axfr_rows cls d =
     sort_key (\<lambda>row. map (of_char :: char \<Rightarrow> nat) (ax_id row))
       (concat (map (\<lambda>r.
          map (\<lambda>rs. \<lparr>ax_id = r_recordset_id r, ax_type = rs_type rs, ax_ttl = rs_ttl rs,
                     ax_name = rs_name rs, ax_data = r_data r\<rparr>)
            (filter (\<lambda>rs. rs_id rs = Some (r_recordset_id r) \<and> matches rs_col cls rs) (d_recordsets d)))
          (filter (\<lambda>r. r_action r \<noteq> DELETE) (d_records d))))"

definition find_recordsets_axfr :: "(rs_column \<times> crit) list \<Rightarrow> axfr_row list sys" where
  "find_recordsets_axfr criterion =
     bind (lift (apply_criterion (rs_rname_check criterion))) (\<lambda>cls.
     gets (\<lambda>w. axfr_rows cls (w_db w)))"

text \<open>\<open>get_catalog_zone_records\<close>: name, type and the records' data of each recordset; the SOA
  recordset in front is repeated at the end.\<close>

definition get_catalog_zone_records ::
  "req_context \<Rightarrow> pool \<Rightarrow> (string \<times> string \<times> string list) list sys" where
  "get_catalog_zone_records ctx p =
     bind (get_catalog_zone ctx (p_id p)) (\<lambda>catalog_zone.
     bind (storage_find_zones ctx [(ZC_pool_id, CStr (p_id p)), (ZC_type, CStr ''!CATALOG'')]) (\<lambda>zones.
     bind (storage_find_recordset ctx
             [(RC_zone_id, CStr (z_id catalog_zone)), (RC_type, CStr ''SOA'')] True) (\<lambda>soa.
     case p_catalog_fqdn p of
       None \<Rightarrow> raise PyAttributeError
     | Some fqdn \<Rightarrow>
         let soa_rs = (rs_name soa, ''SOA'', map r_data (rs_records soa)) in
         return ([soa_rs, (fqdn, ''NS'', [''invalid.'']), (''version.'' @ fqdn, ''TXT'', [''2''])] @
           map (\<lambda>z. (z_id z @ ''.zones.'' @ rs_name soa, ''PTR'', [z_name z]))
             (filter (\<lambda>z. z_action z \<noteq> DELETE) zones) @ [soa_rs]))))"

text \<open>What \<open>rrset.from_text_list\<close> is called with for each record of the transfer.\<close>

definition axfr_rrset :: "zone \<Rightarrow> axfr_row \<Rightarrow> rrset_text" where
  "axfr_rrset z row =
     (ax_name row, (case ax_ttl row of None \<Rightarrow> z_ttl z | Some t \<Rightarrow> Some t), ax_type row, [ax_data row])"

definition axfr_content :: "req_context \<Rightarrow> zone \<Rightarrow> rrset_text list sys" where
  "axfr_content ctx z =
     (if z_type z \<noteq> CATALOG then
        bind (find_recordsets_axfr [(RC_zone_id, CStr (z_id z)), (RC_type, CStr ''SOA'')]) (\<lambda>soa_records.
        bind (find_recordsets_axfr [(RC_zone_id, CStr (z_id z)), (RC_type, CStr ''!SOA'')]) (\<lambda>records.
        seq (raise_if (soa_records = []) PyIndexError)
          (return (map (axfr_rrset z) (hd soa_records # records @ [hd soa_records])))))
      else
        bind (storage_get_pool ctx (z_pool_id z)) (\<lambda>p.
        bind (get_catalog_zone_records ctx p) (\<lambda>recordsets.
        seq (raise_if (\<exists>(n, ty, rd) \<in> set recordsets. rd = []) PyIndexError)
          (return (map (\<lambda>(n, ty, rd). (n, z_ttl z, ty, [hd rd])) recordsets)))))"

definition tsig_rrsize :: int where
  "tsig_rrsize = 10 + 64 + 160 + 1"

definition get_max_message_size :: "env \<Rightarrow> bool \<Rightarrow> int" where
  "get_max_message_size E had_tsig =
     (let size = min 65535 (cf_max_message_size (e_conf E))
      in if had_tsig then size - tsig_rrsize else size)"

text \<open>
  The rendering loop: \<open>current\<close> is what the renderer holds, empty when there is none. A record that
  does not parse is skipped; a TooBig ends the packet and the record is tried on a new one; a TooBig on
  an empty packet aborts the transfer with SERVFAIL.
\<close>

fun render_axfr ::
  "(rrset_text \<Rightarrow> bool) \<Rightarrow> (rrset_text list \<Rightarrow> rrset_text \<Rightarrow> bool) \<Rightarrow> rrset_text list \<Rightarrow> rrset_text list
     \<Rightarrow> dns_out list" where
  "render_axfr parses room current [] = (if current = [] then [] else [Out_packet current])"
| "render_axfr parses room current (r # rs) =
     (if \<not> parses r then render_axfr parses room current rs
      else if room current r then render_axfr parses room (current @ [r]) rs
      else if current = [] then [Out_rcode Rc_servfail]
      else if room [] r then Out_packet current # render_axfr parses room [r] rs
      else [Out_packet current, Out_rcode Rc_servfail])"

definition refuse_if :: "(exn \<Rightarrow> bool) \<Rightarrow> dns_out list sys \<Rightarrow> dns_out list sys" where
  "refuse_if P m = catch m (\<lambda>e. if P e then Some (return [Out_rcode Rc_refused]) else None)"

definition is_forbidden :: "exn \<Rightarrow> bool" where
  "is_forbidden e = (case e of Forbidden _ \<Rightarrow> True | _ \<Rightarrow> False)"

definition is_not_found :: "exn \<Rightarrow> bool" where
  "is_not_found e = (case e of NotFound _ \<Rightarrow> True | _ \<Rightarrow> False)"

text \<open>The zone a transfer is for; the errors of this part only are answered with REFUSED.\<close>

definition axfr_zone :: "env \<Rightarrow> dns_request \<Rightarrow> string \<Rightarrow> zone option sys" where
  "axfr_zone E rq name =
     catch (bind (lift (zone_criterion_from_request E rq [(ZC_name, CStr name)])) (\<lambda>criterion.
            bind (storage_find_zone (rq_context rq) criterion) (\<lambda>z. return (Some z))))
       (\<lambda>e. if e = ZoneNotFound \<or> is_forbidden e then Some (return None) else None)"

definition handle_axfr :: "env \<Rightarrow> dns_env \<Rightarrow> dns_request \<Rightarrow> question \<Rightarrow> dns_out list sys" where
  "handle_axfr E D rq q =
     bind (axfr_zone E rq (qs_name q)) (\<lambda>found.
     case found of
       None \<Rightarrow> return [Out_rcode Rc_refused]
     | Some z \<Rightarrow>
         bind (axfr_content (rq_context rq) z) (\<lambda>rrsets.
         return (render_axfr (de_parses D) (de_room D (get_max_message_size E (rq_had_tsig rq))) [] rrsets)))"

section \<open>Queries\<close>

text \<open>\<open>_convert_to_rrset\<close>: \<open>recordset.ttl or zone.ttl\<close>; records being deleted are left out.\<close>

definition convert_to_rrset :: "dns_env \<Rightarrow> zone \<Rightarrow> recordset \<Rightarrow> rrset_text option" where
  "convert_to_rrset D z rs =
     (let ttl = (if rs_ttl rs = None \<or> rs_ttl rs = Some 0 then z_ttl z else rs_ttl rs);
          rdata = map r_data (filter (\<lambda>r. r_action r \<noteq> DELETE) (rs_records rs));
          rrset = (rs_name rs, ttl, rs_type rs, rdata)
      in if rdata = [] then None else if de_parses D rrset then Some rrset else None)"

definition handle_record_query :: "env \<Rightarrow> dns_env \<Rightarrow> dns_request \<Rightarrow> question \<Rightarrow> dns_out list sys" where
  "handle_record_query E D rq q =
     refuse_if (\<lambda>e. is_not_found e \<or> is_forbidden e) (
       bind (find_zone_by_ancestor_walk E rq (qs_name q)) (\<lambda>found.
       case found of
         None \<Rightarrow> raise ZoneNotFound
       | Some z \<Rightarrow>
           bind (storage_find_recordset (rq_context rq) [(RC_zone_id, CStr (z_id z)),
                   (RC_name, CStr (qs_name q)), (RC_type, CStr (qs_rdtype q))] True) (\<lambda>rs.
           return [Out_answer (case convert_to_rrset D z rs of None \<Rightarrow> [] | Some rr \<Rightarrow> [rr])])))"

text \<open>\<open>__call__\<close>.\<close>

definition handle_request :: "env \<Rightarrow> dns_env \<Rightarrow> dns_request \<Rightarrow> dns_out list sys" where
  "handle_request E D rq =
     (case rq_opcode rq of
        OP_QUERY \<Rightarrow>
          (case rq_question rq of
             [q] \<Rightarrow>
               if \<not> qs_in q then return [Out_rcode Rc_refused]
               else if qs_rdtype q = ''AXFR'' \<or> qs_rdtype q = ''IXFR'' then handle_axfr E D rq q
               else handle_record_query E D rq q
           | _ \<Rightarrow> return [Out_rcode Rc_refused])
      | OP_NOTIFY \<Rightarrow> handle_notify E D rq
      | OP_OTHER \<Rightarrow> return [Out_rcode Rc_refused])"

section \<open>Middleware\<close>

datatype tk_column = TK_id | TK_name

fun tk_col :: "tsigkey \<Rightarrow> tk_column \<Rightarrow> sqlval" where
  "tk_col k TK_id = VStr (k_id k)"
| "tk_col k TK_name = VStr (k_name k)"

definition find_tsigkey_named :: "string \<Rightarrow> tsigkey sys" where
  "find_tsigkey_named name =
     bind (lift (apply_criterion [(TK_name, CStr name)])) (\<lambda>cls.
     bind (gets (\<lambda>w. select_where tk_col cls (d_tsigkeys (w_db w)))) (\<lambda>ks.
     lift (fetch_one TsigKeyNotFound ks)))"

text \<open>\<open>TsigKeyring.get\<close>: \<open>decode\<close> is the base64 decoder.\<close>

definition keyring_get :: "(string \<Rightarrow> exn + 'b) \<Rightarrow> string \<Rightarrow> 'b option sys" where
  "keyring_get decode name =
     catch (bind (find_tsigkey_named name) (\<lambda>k. bind (lift (decode (k_secret k))) (\<lambda>b. return (Some b))))
       (\<lambda>e. if e = TsigKeyNotFound then Some (return None) else None)"

text \<open>
  \<open>TsigInfoMiddleware\<close>: the key of a signed request is attached to it. When it is not there any more,
  \<open>__call__\<close> hands a single message back, over which the caller's loop cannot iterate.
\<close>

definition tsig_info :: "(dns_request \<Rightarrow> dns_out list sys) \<Rightarrow> dns_request \<Rightarrow> dns_out list sys" where
  "tsig_info application rq =
     (if \<not> rq_had_tsig rq then application rq
      else
        bind (catch (bind (find_tsigkey_named (rq_keyname rq)) (\<lambda>k. return (Some k)))
                (\<lambda>e. if e = TsigKeyNotFound then Some (return None) else None)) (\<lambda>found.
        case found of
          None \<Rightarrow> raise PyTypeError
        | Some k \<Rightarrow> application (rq\<lparr>rq_tsigkey := Some k,
                       rq_context := (rq_context rq)\<lparr>c_tsigkey_id := Some (k_id k)\<rparr>\<rparr>)))"

text \<open>\<open>SerializationMiddleware\<close>: \<open>decode\<close> is \<open>from_wire\<close> with the keyring, None when it raises; the
  request gets an admin context that sees every project.\<close>

definition serialization ::
  "env \<Rightarrow> ('b \<Rightarrow> dns_request option) \<Rightarrow> (dns_request \<Rightarrow> dns_out list sys) \<Rightarrow> 'b \<Rightarrow> dns_out option list sys" where
  "serialization E decode application payload =
     bind (lift (set_all_tenants E True admin_context)) (\<lambda>ctxt.
     case decode payload of
       None \<Rightarrow> return [None]
     | Some rq \<Rightarrow>
         bind (application (rq\<lparr>rq_context := ctxt, rq_tsigkey := None\<rparr>)) (\<lambda>out. return (map Some out)))"

definition dns_application ::
  "env \<Rightarrow> dns_env \<Rightarrow> ('b \<Rightarrow> dns_request option) \<Rightarrow> 'b \<Rightarrow> dns_out option list sys" where
  "dns_application E D decode payload =
     serialization E decode (tsig_info (handle_request E D)) payload"

end
