(* ===== verification/MdnsProps.thy ===== *)
theory MdnsProps
  imports "HOL-Library.Multiset" Mdns ZoneLists CentralFacts Samples
begin

text \<open>
  What MiniDNS guarantees: a transfer gives out one zone, of the requester's pool or key, with all its
  records and the SOA around them, in packets that fit; a NOTIFY starts a transfer only when it comes
  from a configured master, which an IPv6 master never does.
\<close>

section \<open>Rendering\<close>

text \<open>A packet as it is filled: every record fits in behind the ones before it.\<close>

fun fills :: "(rrset_text list \<Rightarrow> rrset_text \<Rightarrow> bool) \<Rightarrow> rrset_text list \<Rightarrow> rrset_text list \<Rightarrow> bool" where
  "fills room current [] = True"
| "fills room current (r # rs) = (room current r \<and> fills room (current @ [r]) rs)"

lemma fills_snoc: "fills room c (rs @ [r]) \<longleftrightarrow> fills room c rs \<and> room (c @ rs) r"
  by (induction rs arbitrary: c) auto

definition packets_of :: "dns_out list \<Rightarrow> rrset_text list list" where
  "packets_of out = concat (map (\<lambda>x. case x of Out_packet p \<Rightarrow> [p] | _ \<Rightarrow> []) out)"

lemma packets_of_simps [simp]:
  "packets_of [] = []" "packets_of (Out_packet p # out) = p # packets_of out"
  "packets_of (Out_rcode c # out) = packets_of out"
  by (simp_all add: packets_of_def)

lemma packets_of_set: "p \<in> set (packets_of out) \<longleftrightarrow> Out_packet p \<in> set out"
  by (auto simp: packets_of_def split: dns_out.splits)

text \<open>
  The specification of a rendering: the packets hold \<open>content\<close> but for a \<open>rest\<close>, each was filled within
  its room, and the transfer is aborted with SERVFAIL exactly when the rest starts with a record that
  has no room in an empty packet.
\<close>

definition rendered ::
  "(rrset_text list \<Rightarrow> rrset_text \<Rightarrow> bool) \<Rightarrow> dns_out list \<Rightarrow> rrset_text list \<Rightarrow> rrset_text list \<Rightarrow> bool" where
  "rendered room out content rest \<longleftrightarrow>
     concat (packets_of out) @ rest = content \<and>
     list_all (\<lambda>p. p \<noteq> [] \<and> fills room [] p) (packets_of out) \<and>
     (if rest = [] then out = map Out_packet (packets_of out)
      else \<not> room [] (hd rest) \<and> out = map Out_packet (packets_of out) @ [Out_rcode Rc_servfail])"

lemma rendered_packet:
  "rendered room out content rest \<Longrightarrow> p \<noteq> [] \<Longrightarrow> fills room [] p \<Longrightarrow>
     rendered room (Out_packet p # out) (p @ content) rest"
  by (auto simp: rendered_def split: if_splits)

lemma rendered_abort: "\<not> room [] r \<Longrightarrow> rendered room [Out_rcode Rc_servfail] (r # rs) (r # rs)"
  by (simp add: rendered_def)

lemma render_axfr_spec:
  "fills room [] current \<Longrightarrow>
     \<exists>rest. rendered room (render_axfr parses room current rs) (current @ filter parses rs) rest"
proof (induction parses room current rs rule: render_axfr.induct)
  case (1 parses room current)
  have "rendered room [] [] []" by (simp add: rendered_def)
  with 1 rendered_packet [of room "[]" "[]" "[]" current] show ?case by (cases "current = []") auto
next
  case (2 parses room current r rs)
  consider (skip) "\<not> parses r" | (add) "parses r" "room current r"
    | (abort) "parses r" "\<not> room current r" "current = []"
    | (split) "parses r" "\<not> room current r" "current \<noteq> []" "room [] r"
    | (full) "parses r" "\<not> room current r" "current \<noteq> []" "\<not> room [] r" by blast
  then show ?case
  proof cases
    case skip
    with 2(1) 2(4) show ?thesis by simp
  next
    case add
    with 2(2) 2(4) show ?thesis by (simp add: fills_snoc)
  next
    case abort
    with rendered_abort [of room r "filter parses rs"] show ?thesis by auto
  next
    case split
    with 2(3) obtain rest where
      "rendered room (render_axfr parses room [r] rs) ([r] @ filter parses rs) rest" by auto
    from rendered_packet [OF this split(3) 2(4)] split show ?thesis by auto
  next
    case full
    from full(4) have "rendered room [Out_rcode Rc_servfail] (r # filter parses rs) (r # filter parses rs)"
      by (rule rendered_abort)
    from rendered_packet [OF this full(3) 2(4)] full show ?thesis by auto
  qed
qed

section \<open>The zone of a request\<close>

text \<open>What a request may see: the zones of the pool or the zone its key belongs to; without a key,
  the default pool, unless keys are enforced.\<close>

definition in_scope :: "env \<Rightarrow> dns_request \<Rightarrow> zone \<Rightarrow> bool" where
  "in_scope E rq z =
     (case rq_tsigkey rq of
        None \<Rightarrow> \<not> cf_query_enforce_tsig (e_conf E) \<and> z_pool_id z = cf_default_pool_id (e_conf E)
      | Some k \<Rightarrow> k_scope k = ''POOL'' \<and> z_pool_id z = k_resource_id k \<or>
                  k_scope k = ''ZONE'' \<and> z_id z = k_resource_id k)"

text \<open>The identifiers a request brings along are plain ones.\<close>

definition plain_scope :: "env \<Rightarrow> dns_request \<Rightarrow> bool" where
  "plain_scope E rq \<longleftrightarrow> plain (cf_default_pool_id (e_conf E)) \<and>
     (case rq_tsigkey rq of None \<Rightarrow> True | Some k \<Rightarrow> plain (k_resource_id k))"

lemma scope_criterion:
  assumes "zone_criterion_from_request E rq criterion = Inr cr" "plain_scope E rq"
  shows "\<exists>c v. cr = criterion @ [(c, CStr v)] \<and> (c = ZC_pool_id \<or> c = ZC_id) \<and> plain v \<and>
    (\<forall>z t. zone_col (z, t) c = VStr v \<longrightarrow> in_scope E rq z)"
  using assms
  by (auto simp: zone_criterion_from_request_def plain_scope_def in_scope_def split: option.splits if_splits)

lemma find_zone_loaded:
  assumes run: "storage_find_zone ctx cr w = (Inr z, w')" and nd: "\<not> c_show_deleted ctx"
    and c: "apply_criterion (rname_check cr) = Inr cls" "cl \<in> set cls"
  shows "w' = w \<and> (\<exists>row t. (row, t) \<in> set (zone_join (w_db w)) \<and> loaded_from z row \<and> z_deleted row = ''0'' \<and>
    holds zone_col (row, t) cl)"
proof -
  let ?tenant = "apply_tenant_criteria ctx (Some ZC_tenant_id) ZC_target_project_id True True"
  from run c(1) have w': "w' = w" and sel: "select_zones
      (cls @ ?tenant @ apply_deleted_criteria ctx (Some ZC_deleted)) (w_db w) = [z]"
    by (auto simp: storage_find_zone_def find_zone_gen_def find_zones_gen_def zone_where_def
        bind_Inr_iff fetch_one_Inr and_then_Inr)
  have "z \<in> set (select_zones (cls @ ?tenant @ apply_deleted_criteria ctx (Some ZC_deleted)) (w_db w))"
    unfolding sel by simp
  then obtain row t where "(row, t) \<in> set (zone_join (w_db w))" "z = zone_of_join (row, t)"
    "matches zone_col (cls @ ?tenant @ apply_deleted_criteria ctx (Some ZC_deleted)) (row, t)"
    unfolding select_zones_in by blast
  moreover from this nd c(2) have "z_deleted row = ''0''" "holds zone_col (row, t) cl"
    by (auto simp: apply_deleted_criteria_def matches_def list_all_iff)
  moreover have "loaded_from z row" unfolding calculation(2) by (rule zone_of_join_loaded)
  ultimately show ?thesis using w' by blast
qed

text \<open>The zone a transfer is for lies in the scope of the request, whatever name was asked for.\<close>

lemma axfr_zone_in_scope:
  assumes run: "axfr_zone E rq n w = (Inr (Some z), w')" and scope: "plain_scope E rq"
    and nd: "\<not> c_show_deleted (rq_context rq)"
  shows "w' = w \<and> (\<exists>row \<in> set (d_zones (w_db w)). loaded_from z row \<and> z_deleted row = ''0'' \<and> in_scope E rq row)"
proof -
  from run obtain cr where cr: "zone_criterion_from_request E rq [(ZC_name, CStr n)] = Inr cr"
    "storage_find_zone (rq_context rq) cr w = (Inr z, w')"
    by (auto simp: axfr_zone_def catch_Inr_iff bind_Inr_iff split: if_splits)
  from scope_criterion [OF cr(1) scope] obtain c v where c: "cr = [(ZC_name, CStr n), (c, CStr v)]"
    "c = ZC_pool_id \<or> c = ZC_id" "plain v" "\<And>z t. zone_col (z, t) c = VStr v \<Longrightarrow> in_scope E rq z" by auto
  from cr(2) obtain cls where cls: "apply_criterion (rname_check cr) = Inr cls"
    by (auto simp: storage_find_zone_def find_zone_gen_def find_zones_gen_def zone_where_def
        bind_Inr_iff and_then_Inr)
  then have "Eq c (VStr v) \<in> set cls"
    using c(2,3) by (auto simp: c(1) split: if_splits sum.splits)
  from find_zone_loaded [OF cr(2) nd cls this] c(4) show ?thesis
    by (auto dest: zone_join_row)
qed

section \<open>What a transfer holds\<close>

text \<open>The records of a zone that are not being deleted, as a transfer writes them.\<close>

definition zone_rrsets :: "db \<Rightarrow> zone \<Rightarrow> rrset_text set" where
  "zone_rrsets d z = {rr. \<exists>r \<in> set (d_records d). \<exists>rs \<in> set (d_recordsets d).
     r_action r \<noteq> DELETE \<and> rs_id rs = Some (r_recordset_id r) \<and> rs_zone_id rs = z_id z \<and>
     rr = (rs_name rs, (case rs_ttl rs of None \<Rightarrow> z_ttl z | Some t \<Rightarrow> Some t), rs_type rs, [r_data r])}"

text \<open>The same as a list, each record once for every row it has.\<close>

definition zone_records :: "db \<Rightarrow> zone \<Rightarrow> rrset_text list" where
  "zone_records d z = concat (map (\<lambda>r. map (\<lambda>rs.
       (rs_name rs, (case rs_ttl rs of None \<Rightarrow> z_ttl z | Some t \<Rightarrow> Some t), rs_type rs, [r_data r]))
     (filter (\<lambda>rs. rs_id rs = Some (r_recordset_id r) \<and> rs_zone_id rs = z_id z) (d_recordsets d)))
     (filter (\<lambda>r. r_action r \<noteq> DELETE) (d_records d)))"

lemma set_zone_records: "set (zone_records d z) = zone_rrsets d z"
  by (auto simp: zone_records_def zone_rrsets_def)

lemma axfr_rows_others:
  "mset (map (axfr_rrset z) (axfr_rows [Eq RC_zone_id (VStr (z_id z)), Neq RC_type (VStr ''SOA'')] d)) =
     mset (filter (\<lambda>rr. fst (snd (snd rr)) \<noteq> ''SOA'') (zone_records d z))"
proof -
  let ?type = "\<lambda>rr :: rrset_text. fst (snd (snd rr)) \<noteq> ''SOA''"
  let ?m = "matches rs_col [Eq RC_zone_id (VStr (z_id z)), Neq RC_type (VStr ''SOA'')]"
  let ?row = "\<lambda>r rs. \<lparr>ax_id = r_recordset_id r, ax_type = rs_type rs, ax_ttl = rs_ttl rs,
      ax_name = rs_name rs, ax_data = r_data r\<rparr>"
  let ?text = "\<lambda>r rs. (rs_name rs, (case rs_ttl rs of None \<Rightarrow> z_ttl z | Some t \<Rightarrow> Some t), rs_type rs, [r_data r])"
  let ?rows = "\<lambda>r. map (?row r) (filter (\<lambda>rs. rs_id rs = Some (r_recordset_id r) \<and> ?m rs) (d_recordsets d))"
  let ?texts = "\<lambda>r. map (?text r)
      (filter (\<lambda>rs. rs_id rs = Some (r_recordset_id r) \<and> rs_zone_id rs = z_id z) (d_recordsets d))"
  have "map (axfr_rrset z) (map (?row r) (filter (\<lambda>rs. rs_id rs = Some (r_recordset_id r) \<and> ?m rs) rows)) =
      filter ?type (map (?text r) (filter (\<lambda>rs. rs_id rs = Some (r_recordset_id r) \<and> rs_zone_id rs = z_id z) rows))"
    for r rows by (induction rows) (auto simp: axfr_rrset_def)
  then have step: "map (axfr_rrset z) (?rows r) = filter ?type (?texts r)" for r .
  have "map (axfr_rrset z) (concat (map ?rows recs)) = filter ?type (concat (map ?texts recs))" for recs
  proof (induction recs)
    case (Cons r recs)
    then show ?case unfolding list.map concat.simps map_append filter_append step by (rule arg_cong)
  qed simp
  then show ?thesis unfolding axfr_rows_def zone_records_def mset_map mset_sort by (metis mset_map)
qed

lemma axfr_rows_set:
  "row \<in> set (axfr_rows cls d) \<longleftrightarrow>
     (\<exists>r \<in> set (d_records d). \<exists>rs \<in> set (d_recordsets d). r_action r \<noteq> DELETE \<and>
        rs_id rs = Some (r_recordset_id r) \<and> matches rs_col cls rs \<and>
        row = \<lparr>ax_id = r_recordset_id r, ax_type = rs_type rs, ax_ttl = rs_ttl rs,
               ax_name = rs_name rs, ax_data = r_data r\<rparr>)"
  by (auto simp: axfr_rows_def)

lemma readonly_axfr_content: "readonly (axfr_content ctx z)"
  by (auto simp: axfr_content_def find_recordsets_axfr_def get_catalog_zone_records_def
      get_catalog_zone_def Let_def intro!: keeps_rules split: option.splits)

text \<open>The content of a zone's transfer: the first SOA record, everything else, the SOA again.\<close>

lemma axfr_content_zone:
  assumes run: "axfr_content ctx z w = (Inr content, w')" and z: "z_type z \<noteq> CATALOG" "plain (z_id z)"
  shows "\<exists>soa others. content = soa # others @ [soa] \<and> w' = w \<and>
    set (soa # others) \<subseteq> zone_rrsets (w_db w) z \<and> fst (snd (snd soa)) = ''SOA'' \<and>
    mset others = mset (filter (\<lambda>rr. fst (snd (snd rr)) \<noteq> ''SOA'') (zone_records (w_db w) z))"
proof -
  let ?zone = "Eq RC_zone_id (VStr (z_id z))"
  let ?soa = "axfr_rows [?zone, Eq RC_type (VStr ''SOA'')] (w_db w)"
  let ?rest = "axfr_rows [?zone, Neq RC_type (VStr ''SOA'')] (w_db w)"
  have types: "criterion_clause RC_type (CStr ''SOA'') = Inr (Eq RC_type (VStr ''SOA''))"
    "criterion_clause RC_type (CStr ''!SOA'') = Inr (Neq RC_type (VStr ''SOA''))"
    by (simp_all add: criterion_clause_def startswith_def)
  have crit: "apply_criterion (rs_rname_check [(RC_zone_id, CStr (z_id z)), (RC_type, CStr ''SOA'')])
      = Inr [?zone, Eq RC_type (VStr ''SOA'')]"
    "apply_criterion (rs_rname_check [(RC_zone_id, CStr (z_id z)), (RC_type, CStr ''!SOA'')])
      = Inr [?zone, Neq RC_type (VStr ''SOA'')]"
    using z(2) by (simp_all add: types)
  have rows: "find_recordsets_axfr [(RC_zone_id, CStr (z_id z)), (RC_type, CStr ''SOA'')] w = (Inr ?soa, w)"
    "find_recordsets_axfr [(RC_zone_id, CStr (z_id z)), (RC_type, CStr ''!SOA'')] w = (Inr ?rest, w)"
    unfolding find_recordsets_axfr_def crit by (simp_all add: bind_run)
  from run z(1) have c: "?soa \<noteq> []" "w' = w"
    "content = map (axfr_rrset z) (hd ?soa # ?rest @ [hd ?soa])"
    by (auto simp: axfr_content_def rows bind_run seq_run split: if_splits)
  have in_zone: "axfr_rrset z row \<in> zone_rrsets (w_db w) z"
    if "row \<in> set (axfr_rows (?zone # cls) (w_db w))" for row cls
    using that by (force simp: axfr_rows_set zone_rrsets_def axfr_rrset_def)
  have hd: "hd ?soa \<in> set ?soa" using c(1) by (rule hd_in_set)
  have soa: "axfr_rrset z (hd ?soa) \<in> zone_rrsets (w_db w) z" by (rule in_zone [OF hd])
  have soa_type: "ax_type (hd ?soa) = ''SOA''" using hd unfolding axfr_rows_set by auto
  show ?thesis
    using c soa soa_type axfr_rows_others [of z "w_db w"] in_zone
    by (intro exI [of _ "axfr_rrset z (hd ?soa)"] exI [of _ "map (axfr_rrset z) ?rest"])
      (auto simp: axfr_rrset_def)
qed

text \<open>C17: A zone transfer stays within its scope: whatever name is asked for, what it sends is a live
  zone of the pool, or the very zone, that the TSIG key of the request belongs to (of the default pool
  for an unsigned request, and none at all when keys are enforced), and unless that is a catalog zone,
  every record in the packets is a record of that zone which is not being deleted.\<close>

theorem axfr_stays_in_scope:
  assumes run: "handle_axfr E D rq q w = (Inr out, w')" and p: "p \<in> set (packets_of out)"
    and scope: "plain_scope E rq" "\<not> c_show_deleted (rq_context rq)"
    and ids: "list_all (\<lambda>z. plain (z_id z)) (d_zones (w_db w))"
  shows "w' = w \<and> (\<exists>z \<in> set (d_zones (w_db w)). z_deleted z = ''0'' \<and> in_scope E rq z \<and>
    (z_type z = CATALOG \<or> set p \<subseteq> zone_rrsets (w_db w) z))"
proof -
  let ?room = "de_room D (get_max_message_size E (rq_had_tsig rq))"
  from run p obtain z content w1 where z: "axfr_zone E rq (qs_name q) w = (Inr (Some z), w1)"
    and content: "axfr_content (rq_context rq) z w1 = (Inr content, w')"
    and out: "out = render_axfr (de_parses D) ?room [] content"
    by (auto simp: handle_axfr_def bind_Inr_iff packets_of_def split: option.splits)
  from axfr_zone_in_scope [OF z scope] obtain row where w1: "w1 = w" and
    row: "row \<in> set (d_zones (w_db w))" "loaded_from z row" "z_deleted row = ''0''" "in_scope E rq row" by blast
  note same = loaded_from_simps [OF row(2)]
  have ttl: "z_ttl z = z_ttl row" using row(2) by (auto simp: loaded_from_def)
  obtain rest where "rendered ?room out (filter (de_parses D) content) rest"
    using render_axfr_spec [of ?room "[]" "de_parses D" content] out by auto
  then have "set (concat (packets_of out) @ rest) = set (filter (de_parses D) content)"
    by (simp only: rendered_def)
  with p have sub: "set p \<subseteq> set content" by auto
  show ?thesis
  proof (cases "z_type z = CATALOG")
    case True
    then have "w' = w" using readonlyD [OF readonly_axfr_content content] w1 by simp
    with True row same show ?thesis by auto
  next
    case False
    have "plain (z_id z)" using ids row(1) same(1) by (simp add: list_all_iff)
    from axfr_content_zone [OF content False this] obtain soa others where
      c: "content = soa # others @ [soa]" "w' = w1" "set (soa # others) \<subseteq> zone_rrsets (w_db w1) z" by blast
    have "zone_rrsets (w_db w) z = zone_rrsets (w_db w) row" unfolding zone_rrsets_def same(1) ttl ..
    with c sub w1 row show ?thesis by auto
  qed
qed

lemma axfr_zone_found:
  assumes ctx: "sees_all (rq_context rq)" and unsigned: "rq_tsigkey rq = None"
    "\<not> cf_query_enforce_tsig (e_conf E)"
    and names: "name_ok n" "plain (cf_default_pool_id (e_conf E))"
    and wf: "zone_ids_distinct (w_db w)" "unique_zone_name (d_zones (w_db w))"
    and z: "z \<in> set (d_zones (w_db w))" "z_name z = n" "z_pool_id z = cf_default_pool_id (e_conf E)"
      "z_deleted z = ''0''"
  shows "axfr_zone E rq n w = (Inr (Some (load_zone (w_db w) z)), w)"
proof -
  let ?pool = "cf_default_pool_id (e_conf E)"
  let ?cr = "[(ZC_name, CStr n), (ZC_pool_id, CStr ?pool)]"
  let ?cls = "[Eq ZC_name (VStr n), Eq ZC_pool_id (VStr ?pool), Eq ZC_deleted (VStr ''0'')]"
  have "zone_where (rq_context rq) ?cr True True = Inr ?cls"
    using ctx names by (simp add: zone_where_def name_ok_star name_ok_plain apply_deleted_criteria_def sees_all_def)
  moreover have "select_zones ?cls (w_db w) = [load_zone (w_db w) z]"
  proof -
    have "select_zones ?cls (w_db w) = map (load_zone (w_db w)) (filter (matches zone_row_col ?cls) (d_zones (w_db w)))"
      by (rule select_zones_rows [OF wf(1)]) (simp add: zone_row_col_def)
    also have "filter (matches zone_row_col ?cls) (d_zones (w_db w)) = [z]"
      using wf(2) z
      by (intro filter_unique [where f = "\<lambda>z. (z_name z, z_deleted z, z_pool_id z)"])
        (auto simp: unique_zone_name_def zone_row_col_def)
    finally show ?thesis by simp
  qed
  ultimately have "storage_find_zone (rq_context rq) ?cr w = (Inr (load_zone (w_db w) z), w)"
    by (simp add: storage_find_zone_def find_zone_gen_def find_zones_gen_def bind_run fetch_one_def)
  then show ?thesis
    using unsigned by (simp add: axfr_zone_def zone_criterion_from_request_def catch_def bind_run)
qed

lemma axfr_content_runs:
  assumes z: "z_type z \<noteq> CATALOG" "plain (z_id z)"
    and soa: "rr \<in> zone_rrsets (w_db w) z" "fst (snd (snd rr)) = ''SOA''"
  shows "\<exists>content. axfr_content ctx z w = (Inr content, w)"
proof -
  let ?soa = "[Eq RC_zone_id (VStr (z_id z)), Eq RC_type (VStr ''SOA'')]"
  from soa obtain r rs where "r \<in> set (d_records (w_db w))" "rs \<in> set (d_recordsets (w_db w))"
    "r_action r \<noteq> DELETE" "rs_id rs = Some (r_recordset_id r)" "rs_zone_id rs = z_id z" "rs_type rs = ''SOA''"
    by (auto simp: zone_rrsets_def)
  then have "\<exists>row. row \<in> set (axfr_rows ?soa (w_db w))"
    unfolding axfr_rows_set by (intro exI bexI [of _ r] bexI [of _ rs] conjI refl) auto
  then have ne: "axfr_rows ?soa (w_db w) \<noteq> []" by auto
  have types: "criterion_clause RC_type (CStr ''SOA'') = Inr (Eq RC_type (VStr ''SOA''))"
    "criterion_clause RC_type (CStr ''!SOA'') = Inr (Neq RC_type (VStr ''SOA''))"
    by (simp_all add: criterion_clause_def startswith_def)
  have "apply_criterion (rs_rname_check [(RC_zone_id, CStr (z_id z)), (RC_type, CStr ''SOA'')]) = Inr ?soa"
    "apply_criterion (rs_rname_check [(RC_zone_id, CStr (z_id z)), (RC_type, CStr ''!SOA'')])
      = Inr [Eq RC_zone_id (VStr (z_id z)), Neq RC_type (VStr ''SOA'')]"
    using z(2) by (simp_all add: types)
  then have "find_recordsets_axfr [(RC_zone_id, CStr (z_id z)), (RC_type, CStr ''SOA'')] w
      = (Inr (axfr_rows ?soa (w_db w)), w)"
    "\<exists>rows. find_recordsets_axfr [(RC_zone_id, CStr (z_id z)), (RC_type, CStr ''!SOA'')] w = (Inr rows, w)"
    unfolding find_recordsets_axfr_def by (simp_all only: bind_run run_basic prod.case sum.case) blast
  then show ?thesis using ne z(1) by (auto simp: axfr_content_def bind_run seq_run)
qed

text \<open>C18: An unsigned transfer request for a zone of the default pool is answered with the whole zone:
  when dnspython accepts each of the zone's records and each of them fits into a message that holds
  nothing else, the packets hold, in this order, the SOA, the zone's other records that are not being
  deleted, each exactly once, and the SOA again, and no packet holds more than it has room for.\<close>

theorem axfr_complete:
  assumes ctx: "sees_all (rq_context rq)" and unsigned: "rq_tsigkey rq = None"
    "\<not> cf_query_enforce_tsig (e_conf E)"
    and names: "name_ok (qs_name q)" "plain (cf_default_pool_id (e_conf E))"
    and wf: "zone_ids_distinct (w_db w)" "unique_zone_name (d_zones (w_db w))"
    and z: "z \<in> set (d_zones (w_db w))" "z_name z = qs_name q" "z_pool_id z = cf_default_pool_id (e_conf E)"
      "z_deleted z = ''0''" "z_type z \<noteq> CATALOG" "plain (z_id z)"
    and soa: "rr \<in> set (zone_records (w_db w) z)" "fst (snd (snd rr)) = ''SOA''"
    and D: "list_all (\<lambda>r. de_parses D r \<and> de_room D (get_max_message_size E (rq_had_tsig rq)) [] r)
      (zone_records (w_db w) z)"
  shows "\<exists>packets first others. handle_axfr E D rq q w = (Inr (map Out_packet packets), w) \<and>
    concat packets = first # others @ [first] \<and>
    first \<in> set (zone_records (w_db w) z) \<and> fst (snd (snd first)) = ''SOA'' \<and>
    mset others = mset (filter (\<lambda>rr. fst (snd (snd rr)) \<noteq> ''SOA'') (zone_records (w_db w) z)) \<and>
    list_all (fills (de_room D (get_max_message_size E (rq_had_tsig rq))) []) packets"
proof -
  let ?z = "load_zone (w_db w) z"
  let ?room = "de_room D (get_max_message_size E (rq_had_tsig rq))"
  have lz: "z_id ?z = z_id z" "z_ttl ?z = z_ttl z" "z_type ?z = z_type z" by (simp_all add: load_zone_def)
  have same: "zone_records (w_db w) ?z = zone_records (w_db w) z" "zone_rrsets (w_db w) ?z = zone_rrsets (w_db w) z"
    unfolding zone_records_def zone_rrsets_def lz by simp_all
  note found = axfr_zone_found [OF ctx unsigned names wf z(1-4)]
  obtain content where content: "axfr_content (rq_context rq) ?z w = (Inr content, w)"
    using axfr_content_runs [of ?z rr w] z(5,6) soa same lz by (auto simp: set_zone_records)
  from axfr_content_zone [OF this] z(5,6) same lz obtain first others where
    c: "content = first # others @ [first]" "first \<in> zone_rrsets (w_db w) z" "fst (snd (snd first)) = ''SOA''"
      "mset others = mset (filter (\<lambda>rr. fst (snd (snd rr)) \<noteq> ''SOA'') (zone_records (w_db w) z))" by auto
  have "set content \<subseteq> set (zone_records (w_db w) z)"
    using c(2) mset_eq_setD [OF c(4)] by (auto simp: c(1) set_zone_records)
  then have D: "\<forall>r \<in> set content. de_parses D r \<and> ?room [] r" using D by (auto simp: list_all_iff)
  let ?out = "render_axfr (de_parses D) ?room [] content"
  obtain rest where r: "rendered ?room ?out (filter (de_parses D) content) rest"
    using render_axfr_spec [of ?room "[]" "de_parses D" content] by auto
  have all: "filter (de_parses D) content = content" using D by simp
  from r have "rest \<noteq> [] \<Longrightarrow> hd rest \<in> set content \<and> \<not> ?room [] (hd rest)"
    unfolding rendered_def all
    by (metis (no_types, lifting) Un_iff hd_in_set set_append)
  with D have "rest = []" by blast
  with r all have out: "?out = map Out_packet (packets_of ?out)" "concat (packets_of ?out) = content"
    "list_all (fills ?room []) (packets_of ?out)"
    by (auto simp: rendered_def list_all_iff)
  have "handle_axfr E D rq q w = (Inr ?out, w)"
    using found content by (simp add: handle_axfr_def bind_run)
  with out c show ?thesis
    by (intro exI [of _ "packets_of ?out"] exI [of _ first] exI [of _ others]) (auto simp: set_zone_records)
qed

section \<open>A small name server\<close>

definition sample_secondary_zone :: zone where
  "sample_secondary_zone = (sample_zone ''z2'' ''t1'' ''s.o.'')\<lparr>z_type := SECONDARY,
     z_masters := [\<lparr>m_host = ''1.1.1.1'', m_port = 53\<rparr>]\<rparr>"

definition sample_axfr :: world where
  "sample_axfr = world_of (empty_db\<lparr>d_zones := [sample_zone ''z1'' ''t1'' ''e.o.'', sample_secondary_zone],
     d_recordsets := [sample_recordset ''s1'' ''z1'' ''w.e.o.'' ''A'', sample_recordset ''s0'' ''z1'' ''e.o.'' ''SOA''],
     d_records := [sample_record ''r1'' ''z1'' ''s1'' ''1.2.3.4'', sample_record ''r2'' ''z1'' ''s1'' ''1.2.3.5'',
       sample_record ''r0'' ''z1'' ''s0'' ''ns h 5 1 2 3 4'']\<rparr>)"

definition sample_request :: "mdns_opcode \<Rightarrow> string \<Rightarrow> string \<Rightarrow> dns_request" where
  "sample_request oc n addr = \<lparr>rq_opcode = oc, rq_question = [\<lparr>qs_name = n, qs_rdtype = ''AXFR'', qs_in = True\<rparr>],
     rq_had_tsig = False, rq_keyname = [], rq_context = worker_context, rq_addr = addr, rq_tsigkey = None\<rparr>"

definition sample_dns :: dns_env where
  "sample_dns = \<lparr>de_parses = (\<lambda>_. True), de_room = (\<lambda>n c r. length c < 3 \<and> fst (snd (snd r)) \<noteq> ''TXT''), de_serial = (\<lambda>z a. Inr 9)\<rparr>"

lemma sample_axfr_run:
  "fst (handle_axfr sample_env sample_dns (sample_request OP_QUERY ''e.o.'' ''9.9.9.9'')
      \<lparr>qs_name = ''e.o.'', qs_rdtype = ''AXFR'', qs_in = True\<rparr> sample_axfr) =
   Inr [Out_packet [(''e.o.'', Some 3600, ''SOA'', [''ns h 5 1 2 3 4'']),
          (''w.e.o.'', Some 3600, ''A'', [''1.2.3.4'']), (''w.e.o.'', Some 3600, ''A'', [''1.2.3.5''])],
        Out_packet [(''e.o.'', Some 3600, ''SOA'', [''ns h 5 1 2 3 4''])]]"
  by code_simp

theorem axfr_stays_in_scope_witness:
  "list_ex (\<lambda>z. z_deleted z = ''0'' \<and> in_scope sample_env (sample_request OP_QUERY ''e.o.'' ''9.9.9.9'') z \<and>
     (z_type z = CATALOG \<or> set [(''e.o.'', Some 3600, ''SOA'', [''ns h 5 1 2 3 4''])]
        \<subseteq> zone_rrsets (w_db sample_axfr) z)) (d_zones (w_db sample_axfr))"
proof -
  let ?rq = "sample_request OP_QUERY ''e.o.'' ''9.9.9.9''"
  let ?q = "\<lparr>qs_name = ''e.o.'', qs_rdtype = ''AXFR'', qs_in = True\<rparr>"
  let ?p = "[(''e.o.'', Some 3600, ''SOA'', [''ns h 5 1 2 3 4''])]"
  obtain out w' where run: "handle_axfr sample_env sample_dns ?rq ?q sample_axfr = (Inr out, w')"
    "?p \<in> set (packets_of out)"
    using sample_axfr_run by (cases "handle_axfr sample_env sample_dns ?rq ?q sample_axfr") auto
  have "plain_scope sample_env ?rq" "\<not> c_show_deleted (rq_context ?rq)"
    "list_all (\<lambda>z. plain (z_id z)) (d_zones (w_db sample_axfr))" by code_simp+
  from axfr_stays_in_scope [OF run this] show ?thesis by (auto simp: list_ex_iff)
qed

theorem axfr_complete_witness:
  "\<exists>packets first others. handle_axfr sample_env sample_dns (sample_request OP_QUERY ''e.o.'' ''9.9.9.9'')
      \<lparr>qs_name = ''e.o.'', qs_rdtype = ''AXFR'', qs_in = True\<rparr> sample_axfr = (Inr (map Out_packet packets), sample_axfr) \<and>
    concat packets = first # others @ [first] \<and> fst (snd (snd first)) = ''SOA'' \<and>
    mset others = mset [(''w.e.o.'', Some 3600, ''A'', [''1.2.3.4'']), (''w.e.o.'', Some 3600, ''A'', [''1.2.3.5''])] \<and>
    list_all (\<lambda>p. length p \<le> 3) packets"
proof -
  let ?rq = "sample_request OP_QUERY ''e.o.'' ''9.9.9.9''"
  let ?q = "\<lparr>qs_name = ''e.o.'', qs_rdtype = ''AXFR'', qs_in = True\<rparr>"
  let ?z = "sample_zone ''z1'' ''t1'' ''e.o.''"
  have facts: "sees_all (rq_context ?rq)" "rq_tsigkey ?rq = None" "\<not> cf_query_enforce_tsig (e_conf sample_env)"
    "name_ok (qs_name ?q)" "plain (cf_default_pool_id (e_conf sample_env))"
    "zone_ids_distinct (w_db sample_axfr)" "unique_zone_name (d_zones (w_db sample_axfr))"
    unfolding zone_ids_distinct_def unique_zone_name_def name_ok_def by code_simp+
  have z: "?z \<in> set (d_zones (w_db sample_axfr))" "z_name ?z = qs_name ?q"
    "z_pool_id ?z = cf_default_pool_id (e_conf sample_env)" "z_deleted ?z = ''0''" "z_type ?z \<noteq> CATALOG" "plain (z_id ?z)"
    by code_simp+
  have records: "zone_records (w_db sample_axfr) ?z = [(''w.e.o.'', Some 3600, ''A'', [''1.2.3.4'']),
      (''w.e.o.'', Some 3600, ''A'', [''1.2.3.5'']), (''e.o.'', Some 3600, ''SOA'', [''ns h 5 1 2 3 4''])]"
    by code_simp
  have soa: "(''e.o.'', Some 3600, ''SOA'', [''ns h 5 1 2 3 4'']) \<in> set (zone_records (w_db sample_axfr) ?z)"
    unfolding records by simp
  have D: "list_all (\<lambda>r. de_parses sample_dns r \<and> de_room sample_dns (get_max_message_size sample_env (rq_had_tsig ?rq)) [] r)
      (zone_records (w_db sample_axfr) ?z)"
    unfolding records by (simp add: sample_dns_def)
  have fills: "fills (de_room sample_dns n) [] p \<Longrightarrow> length p \<le> 3" for n p
    by (cases p rule: rev_cases) (auto simp: fills_snoc sample_dns_def)
  from axfr_complete [OF facts z soa _ D] obtain packets first others where
    run: "handle_axfr sample_env sample_dns ?rq ?q sample_axfr = (Inr (map Out_packet packets), sample_axfr)"
      "concat packets = first # others @ [first]" "fst (snd (snd first)) = ''SOA''"
      "mset others = mset (filter (\<lambda>rr. fst (snd (snd rr)) \<noteq> ''SOA'') (zone_records (w_db sample_axfr) ?z))"
      "list_all (fills (de_room sample_dns (get_max_message_size sample_env (rq_had_tsig ?rq))) []) packets" by auto
  from run(5) have "list_all (\<lambda>p. length p \<le> 3) packets"
    by (rule list.pred_mono_strong) (rule fills)
  with run(1-3) run(4) [unfolded records] show ?thesis
    by (intro exI [of _ packets] exI [of _ first] exI [of _ others]) simp
qed

section \<open>NOTIFY\<close>




lemma dropWhile_to: "c \<in> set s \<Longrightarrow> \<exists>b. dropWhile (\<lambda>x. x \<noteq> c) s = c # b"
  by (induction s) auto

lemma split_on_keeps: "x \<in> set s \<Longrightarrow> x \<noteq> c \<Longrightarrow> \<exists>g \<in> set (split_on c s). x \<in> set g"
proof (induction s)
  case (Cons y s)
  obtain v vs where sp: "split_on c s = v # vs" by (meson neq_Nil_conv split_on_ne)
  with Cons show ?case by auto
qed simp

lemma strip_blanks_keeps: "x \<in> set s \<Longrightarrow> \<not> is_blank x \<Longrightarrow> x \<in> set (strip_blanks s)"
proof -
  have keep: "x \<in> set t \<Longrightarrow> \<not> is_blank x \<Longrightarrow> x \<in> set (dropWhile is_blank t)" for t
    by (induction t) auto
  assume "x \<in> set s" "\<not> is_blank x"
  then show ?thesis using keep unfolding strip_blanks_def by simp
qed

lemma py_int_colon: "CHR '':'' \<in> set s \<Longrightarrow> py_int s = None"
proof -
  assume "CHR '':'' \<in> set s"
  moreover have nb: "\<not> is_blank CHR '':''" "\<not> is_digit CHR '':''" by (simp_all add: is_blank_def is_digit_def)
  ultimately have t: "CHR '':'' \<in> set (strip_blanks s)" using strip_blanks_keeps by blast
  then obtain c rest where c: "strip_blanks s = c # rest" by (cases "strip_blanks s") auto
  have "\<exists>g \<in> set (split_on CHR ''_'' b). \<not> (g \<noteq> [] \<and> list_all is_digit g)" if "CHR '':'' \<in> set b" for b
    using split_on_keeps [OF that, of "CHR ''_''"] nb(2) by (auto simp: list_all_iff)
  then have no: "\<not> list_all (\<lambda>g. g \<noteq> [] \<and> list_all is_digit g) (split_on CHR ''_'' b)"
    if "CHR '':'' \<in> set b" for b using that by (auto simp: list_all_iff)
  from t c have "c = CHR ''-'' \<or> c = CHR ''+'' \<Longrightarrow> CHR '':'' \<in> set rest" by auto
  then show ?thesis using no [of rest] no [of "c # rest"] t c by (auto simp: py_int_def Let_def)
qed

text \<open>A NOTIFY from an IPv6 master is refused, even from the only master its zone has: the master
  is compared after cutting its \<open>host:port\<close> string at the first colon, which for a host with colons
  gives the whole string, port included.\<close>

theorem notify_ipv6_master_refused:
  assumes q: "rq_question rq = [q]"
    and zs: "storage_find_zones (rq_context rq) [(ZC_name, CStr (qs_name q)),
      (ZC_type, CStr (zone_type_str SECONDARY)), (ZC_deleted, CVal (VStr ''0''))] w = (Inr zs, w)" "zs \<noteq> []"
    and m: "list_all (\<lambda>z. z_masters z = [m]) zs" "CHR '':'' \<in> set (m_host m)" "rq_addr rq = m_host m"
  shows "handle_notify E D rq w = (Inr [Out_rcode Rc_refused], w)"
proof -
  have "dropWhile (\<lambda>c. c \<noteq> CHR '':'') (m_host m @ '':'' @ int_str (m_port m))
      = dropWhile (\<lambda>c. c \<noteq> CHR '':'') (m_host m) @ '':'' @ int_str (m_port m)"
    using m(2) by (simp add: dropWhile_append1)
  moreover obtain b where b: "dropWhile (\<lambda>c. c \<noteq> CHR '':'') (m_host m) = CHR '':'' # b"
    using dropWhile_to [OF m(2)] by blast
  ultimately have "split_host_port (master_data m) 53 = (master_data m, 53)"
    using py_int_colon [of "b @ '':'' @ int_str (m_port m)"] by (simp add: split_host_port_def master_data_def)
  then have "m_host m \<noteq> fst (split_host_port (master_data m) 53)" by (simp add: master_data_def)
  then have none: "get_master_by_ip z (rq_addr rq) = None" if "z_masters z = [m]" for z
    using that m(3) by (simp add: get_master_by_ip_def)
  from m(1) have "first_with_master zs (rq_addr rq) = None"
    by (induction zs) (simp_all add: none)
  with zs q show ?thesis by (simp add: handle_notify_def bind_run)
qed

definition ipv6_master :: world where
  "ipv6_master = world_of (empty_db\<lparr>d_zones :=
     [sample_secondary_zone\<lparr>z_masters := [\<lparr>m_host = ''fd00::1'', m_port = 53\<rparr>]\<rparr>]\<rparr>)"

theorem notify_ipv6_master_refused_witness:
  "fst (handle_notify sample_env sample_dns (sample_request OP_NOTIFY ''s.o.'' ''fd00::1'') ipv6_master)
     = Inr [Out_rcode Rc_refused]"
proof -
  let ?rq = "sample_request OP_NOTIFY ''s.o.'' ''fd00::1''"
  let ?q = "\<lparr>qs_name = ''s.o.'', qs_rdtype = ''AXFR'', qs_in = True\<rparr>"
  let ?m = "\<lparr>m_host = ''fd00::1'', m_port = 53\<rparr>"
  let ?find = "storage_find_zones (rq_context ?rq) [(ZC_name, CStr (qs_name ?q)),
      (ZC_type, CStr (zone_type_str SECONDARY)), (ZC_deleted, CVal (VStr ''0''))] ipv6_master"
  have "case fst ?find of Inl _ \<Rightarrow> False | Inr zs \<Rightarrow> zs \<noteq> [] \<and> list_all (\<lambda>z. z_masters z = [?m]) zs" by code_simp
  moreover have "snd ?find = ipv6_master"
    by (simp add: storage_find_zones_def find_zones_gen_def bind_run split: sum.splits)
  ultimately obtain zs where "?find = (Inr zs, ipv6_master)" "zs \<noteq> []" "list_all (\<lambda>z. z_masters z = [?m]) zs"
    by (cases "fst ?find") (auto simp: prod_eq_iff)
  moreover have "rq_question ?rq = [?q]" "CHR '':'' \<in> set (m_host ?m)" "rq_addr ?rq = m_host ?m" by code_simp+
  ultimately show ?thesis using notify_ipv6_master_refused by (metis fst_conv)
qed

end
