(* ===== verification/DnsTcp.thy ===== *)
theory DnsTcp
  imports Prelude "HOL-Library.Word"
begin

text \<open>
  DNS over TCP as \<open>DNSService\<close> in \<open>service.py\<close> serves it: a connection carries queries and responses
  behind a 16 bit length, in network order. A connection is the list of the segments its socket will
  deliver; \<open>recv(n)\<close> answers at most \<open>n\<close> bytes of the first one and nothing once the client has
  closed. The application is a parameter: it maps a query to the responses it yields, in order, and
  tells whether it raised after them; \<open>'s\<close> is the state it works on.
\<close>

type_synonym bytes = "8 word list"

type_synonym 's application = "bytes \<Rightarrow> 's \<Rightarrow> (bytes option list \<times> bool) \<times> 's"

section \<open>Lengths\<close>

text \<open>\<open>struct.pack('!H', n)\<close> and \<open>struct.unpack('!H', b)\<close>; \<open>None\<close> is a \<open>struct.error\<close>.\<close>

definition pack_length :: "nat \<Rightarrow> bytes option" where
  "pack_length n =
     (if n < 65536 then Some [word_of_nat (n div 256), word_of_nat (n mod 256)] else None)"

fun unpack_length :: "bytes \<Rightarrow> nat option" where
  "unpack_length [hi, lo] = Some (256 * unat hi + unat lo)"
| "unpack_length _ = None"

lemma unpack_pack: "pack_length n = Some b \<Longrightarrow> unpack_length b = Some n"
proof -
  assume p: "pack_length n = Some b"
  then have n: "n < 65536" and b: "b = [word_of_nat (n div 256), word_of_nat (n mod 256)]"
    by (auto simp: pack_length_def split: if_splits)
  have "n div 256 < 2 ^ 8" using n by simp
  then show ?thesis unfolding b by (simp add: unat_of_nat take_bit_eq_mod)
qed

section \<open>Receiving\<close>

fun recv :: "nat \<Rightarrow> bytes list \<Rightarrow> bytes \<times> bytes list" where
  "recv n [] = ([], [])"
| "recv n (c # cs) = (take n c, if drop n c = [] then cs else drop n c # cs)"

definition tcp_recv_max_size :: nat where
  "tcp_recv_max_size = 65535"

text \<open>The inner loop: until the buffer holds the expected number of bytes, or nothing comes.\<close>

function read_query :: "nat \<Rightarrow> bytes list \<Rightarrow> bytes \<Rightarrow> bytes \<times> bytes list" where
  "read_query want segments buf =
     (if length buf < want then
        (let (data, segments') = recv (min (want - length buf) tcp_recv_max_size) segments
         in if data = [] then (buf, segments') else read_query want segments' (buf @ data))
      else (buf, segments))"
  by auto
termination
  by (relation "measure (\<lambda>(want, segments, buf). want - length buf)")
     (auto simp: diff_less_mono2 simp flip: length_greater_0_conv)

declare read_query.simps [simp del]

section \<open>A connection\<close>

datatype tcp_end = Closed | StructError | Raised

text \<open>\<open>for response in self.app(...)\<close>: \<open>None\<close> is skipped, a response too long for its length ends the
  connection.\<close>

fun send_responses :: "bytes option list \<Rightarrow> bytes \<Rightarrow> bytes \<times> bool" where
  "send_responses [] sent = (sent, True)"
| "send_responses (None # rs) sent = send_responses rs sent"
| "send_responses (Some r # rs) sent =
     (case pack_length (length r) of
        None \<Rightarrow> (sent, False)
      | Some p \<Rightarrow> send_responses rs (sent @ p @ r))"

lemma recv_size: "sum_list (map length (snd (recv n cs))) + length (fst (recv n cs)) = sum_list (map length cs)"
  by (cases cs) auto

lemma read_query_size:
  "sum_list (map length (snd (read_query n cs buf))) \<le> sum_list (map length cs)"
proof (induction n cs buf rule: read_query.induct)
  case (1 n cs buf)
  show ?case
  proof (cases "length buf < n")
    case False
    then show ?thesis by (subst read_query.simps) simp
  next
    case True
    let ?r = "recv (min (n - length buf) tcp_recv_max_size) cs"
    have "sum_list (map length (snd ?r)) \<le> sum_list (map length cs)"
      using recv_size [of "min (n - length buf) tcp_recv_max_size" cs] by simp
    with 1 [OF True, of ?r "fst ?r" "snd ?r"] True show ?thesis
      by (subst read_query.simps) (auto simp: Let_def split_beta)
  qed
qed

function tcp_connection ::
  "'s application \<Rightarrow> bytes list \<Rightarrow> 's \<Rightarrow> bytes \<Rightarrow> tcp_end \<times> bytes \<times> 's" where
  "tcp_connection app segments s sent =
     (let (raw, segments1) = recv 2 segments
      in if raw = [] then (Closed, sent, s)
         else case unpack_length raw of
                None \<Rightarrow> (StructError, sent, s)
              | Some want \<Rightarrow>
                  (let (query, segments2) = read_query want segments1 [];
                       ((responses, raised), s') = app query s;
                       (sent', packed) = send_responses responses sent
                   in if \<not> packed then (StructError, sent', s')
                      else if raised then (Raised, sent', s')
                      else tcp_connection app segments2 s' sent'))"
  by auto
termination
proof (relation "measure (\<lambda>(app, segments, s, sent). sum_list (map length segments))")
  fix app :: "'s application" and segments s sent p raw segments1 want q query segments2 pp
    resp responses raised s' sp sent' packed
  assume p: "p = recv 2 segments" "(raw, segments1) = p" "raw \<noteq> []"
    and q: "q = read_query want segments1 []" "(query, segments2) = q"
  have "sum_list (map length segments2) \<le> sum_list (map length segments1)"
    using read_query_size [of want segments1 "[]"] q by (metis snd_conv)
  moreover have "sum_list (map length segments1) < sum_list (map length segments)"
  proof -
    have "recv 2 segments = (raw, segments1)" using p by simp
    then show ?thesis using recv_size [of 2 segments] p(3) by (cases raw) auto
  qed
  ultimately show "((app, segments2, s', sent'), app, segments, s, sent)
      \<in> measure (\<lambda>(app, segments, s, sent). sum_list (map length segments))" by simp
qed simp

declare tcp_connection.simps [simp del]

section \<open>What a connection does\<close>

text \<open>A message on the wire: the high and the low byte of its length, and the message.\<close>

definition frame :: "bytes \<Rightarrow> bytes" where
  "frame b = [word_of_nat (length b div 256), word_of_nat (length b mod 256)] @ b"

text \<open>The queries one after the other, without a connection: the responses the client is owed, up to the
  first that has no 16 bit length and to the first query whose handling raised.\<close>

fun owed :: "'s application \<Rightarrow> bytes list \<Rightarrow> 's \<Rightarrow> tcp_end \<times> bytes list \<times> 's" where
  "owed app [] s = (Closed, [], s)"
| "owed app (q # qs) s =
     (let ((responses, raised), s') = app q s;
          present = List.map_filter id responses;
          sendable = takeWhile (\<lambda>r. length r < 65536) present
      in if sendable \<noteq> present then (StructError, sendable, s')
         else if raised then (Raised, sendable, s')
         else (case owed app qs s' of (e, more, s'') \<Rightarrow> (e, sendable @ more, s'')))"

lemma send_responses_frames:
  "send_responses rs sent = (let present = List.map_filter id rs; sendable = takeWhile (\<lambda>r. length r < 65536) present
     in (sent @ concat (map frame sendable), sendable = present))"
proof (induction rs sent rule: send_responses.induct)
  case (3 r rs sent)
  then show ?case
    by (cases "length r < 65536") (simp_all add: pack_length_def map_filter_simps Let_def frame_def)
qed (simp_all add: map_filter_simps Let_def)

text \<open>A query as it arrives: cut into non-empty segments, the first of which has the length whole.\<close>

definition arrives :: "bytes \<Rightarrow> bytes list \<Rightarrow> bool" where
  "arrives q segments \<longleftrightarrow> length q < 65536 \<and> concat segments = frame q \<and>
     list_all (\<lambda>c. c \<noteq> []) segments \<and> segments \<noteq> [] \<and> 2 \<le> length (hd segments)"

lemma read_query_segments:
  assumes "list_all (\<lambda>c. c \<noteq> []) cs" "length buf + length (concat cs) < 65536"
  shows "read_query (length buf + length (concat cs)) (cs @ later) buf = (buf @ concat cs, later)"
  using assms
proof (induction cs arbitrary: buf)
  case Nil
  then show ?case by (simp add: read_query.simps)
next
  case (Cons c cs)
  let ?n = "min (length (concat (c # cs))) tcp_recv_max_size"
  have "length c \<le> ?n" using Cons.prems(2) by (simp add: tcp_recv_max_size_def)
  then have "recv ?n ((c # cs) @ later) = (c, cs @ later)" by simp
  moreover have "read_query (length (buf @ c) + length (concat cs)) (cs @ later) (buf @ c)
      = ((buf @ c) @ concat cs, later)"
    using Cons.prems by (intro Cons.IH) simp_all
  ultimately show ?case
    using Cons.prems(1) by (subst read_query.simps) (simp add: add.assoc)
qed

lemma arrives_cases:
  assumes "arrives q segments"
  obtains p first rest where "segments = (p @ first) # rest" "pack_length (length q) = Some p"
    "length p = 2" "first @ concat rest = q" "list_all (\<lambda>c. c \<noteq> []) rest"
proof -
  obtain c rest where c: "segments = c # rest" "2 \<le> length c" using assms by (cases segments) (auto simp: arrives_def)
  obtain p where p: "pack_length (length q) = Some p" "length p = 2"
    using assms by (auto simp: arrives_def pack_length_def)
  have "c @ concat rest = p @ q" using assms c p by (auto simp: arrives_def frame_def pack_length_def)
  then have "take 2 (c @ concat rest) = take 2 (p @ q)" "drop 2 (c @ concat rest) = drop 2 (p @ q)"
    by simp_all
  with c(2) p(2) have "take 2 c = p" "drop 2 c @ concat rest = q" by simp_all
  then obtain first where "c = p @ first" "first @ concat rest = q" by (metis append_take_drop_id)
  moreover have "list_all (\<lambda>c. c \<noteq> []) rest" using assms c by (simp add: arrives_def)
  ultimately show thesis using that c(1) p by blast
qed

lemma connection_reads_query:
  assumes "arrives q segments"
  shows "tcp_connection app (segments @ later) s sent =
    (let ((responses, raised), s') = app q s;
         (sent', packed) = send_responses responses sent
     in if \<not> packed then (StructError, sent', s')
        else if raised then (Raised, sent', s')
        else tcp_connection app later s' sent')"
proof -
  from arrives_cases [OF assms] obtain p first rest where
    seg: "segments = (p @ first) # rest" "pack_length (length q) = Some p" "length p = 2"
      "first @ concat rest = q" "list_all (\<lambda>c. c \<noteq> []) rest" by metis
  let ?segs = "(if first = [] then rest else first # rest)"
  have r: "recv 2 (segments @ later) = (p, ?segs @ later)" using seg by simp
  have q: "concat ?segs = q" using seg(4) by auto
  moreover have "list_all (\<lambda>c. c \<noteq> []) ?segs" using seg(5) by simp
  ultimately have "read_query (length q) (?segs @ later) [] = (q, later)"
    using read_query_segments [of ?segs "[]" later] assms by (simp add: arrives_def)
  moreover have "unpack_length p = Some (length q)" using seg(2) by (rule unpack_pack)
  moreover have "p \<noteq> []" using seg(3) by auto
  ultimately show ?thesis by (subst tcp_connection.simps) (simp add: r Let_def)
qed

text \<open>C20: A connection serves pipelined queries as if they came one by one: however the network cuts
  each query into segments, as long as its two length bytes arrive together, the application is given
  exactly the queries that were sent, in order, and the bytes sent back are the responses, each behind
  its length as two bytes with the high one first, up to the first response of 65536 bytes or more, or
  the first exception. (The connection loop terminates on every input.)\<close>

theorem tcp_connection_serves:
  assumes "list_all (\<lambda>(q, segments). arrives q segments) requests"
    and "owed app (map fst requests) s = (how, responses, s')"
  shows "tcp_connection app (concat (map snd requests)) s sent = (how, sent @ concat (map
    (\<lambda>r. word_of_nat (length r div 256) # word_of_nat (length r mod 256) # r) responses), s')"
  using assms
proof (induction requests arbitrary: s sent responses)
  case Nil
  then show ?case by (simp add: tcp_connection.simps)
next
  case (Cons r requests)
  obtain rs raised s1 where app: "app (fst r) s = ((rs, raised), s1)" by (metis prod.exhaust)
  let ?present = "List.map_filter id rs"
  let ?sendable = "takeWhile (\<lambda>r. length r < 65536) ?present"
  let ?out = "sent @ concat (map frame ?sendable)"
  have first: "arrives (fst r) (snd r)" using Cons.prems(1) by (simp add: split_beta)
  have step: "tcp_connection app (concat (map snd (r # requests))) s sent =
      (if ?sendable \<noteq> ?present then (StructError, ?out, s1) else if raised then (Raised, ?out, s1)
       else tcp_connection app (concat (map snd requests)) s1 ?out)"
    using connection_reads_query [OF first, of app "concat (map snd requests)" s sent]
    by (simp add: app send_responses_frames Let_def)
  have frames: "concat (map (\<lambda>r. word_of_nat (length r div 256) # word_of_nat (length r mod 256) # r) xs)
      = concat (map frame xs)" for xs :: "bytes list" by (induction xs) (simp_all add: frame_def)
  show ?case
  proof (cases "?sendable = ?present \<and> \<not> raised")
    case False
    with Cons.prems(2) step show ?thesis by (auto simp: app Let_def frames split: if_splits)
  next
    case True
    obtain e more s2 where rest: "owed app (map fst requests) s1 = (e, more, s2)" by (metis prod.exhaust)
    from True Cons.prems(2) have "how = e" "responses = ?sendable @ more" "s' = s2"
      by (auto simp: app rest Let_def)
    have "list_all (\<lambda>(q, segments). arrives q segments) requests" using Cons.prems(1) by simp
    note Cons.IH [OF this rest [folded \<open>how = e\<close> \<open>s' = s2\<close>], of ?out]
    with True step \<open>responses = ?sendable @ more\<close> show ?thesis by (simp add: frames)
  qed
qed

definition echo :: "nat application" where
  "echo q n = (([None, Some (q @ q)], False), Suc n)"

theorem tcp_connection_serves_witness:
  "tcp_connection echo [[0, 2, 7], [8], [0, 0]] 0 [] = (Closed, [0, 4, 7, 8, 7, 8, 0, 0], 2)"
proof -
  have "list_all (\<lambda>(q, segments). arrives q segments) [([7, 8], [[0, 2, 7], [8]]), ([], [[0, 0]])]"
    by (simp add: arrives_def frame_def)
  moreover have "owed echo (map fst [([7, 8], [[0, 2, 7], [8]]), ([], [[0, 0]])]) 0 = (Closed, [[7, 8, 7, 8], []], 2)"
    by (simp add: echo_def map_filter_simps)
  ultimately show ?thesis using tcp_connection_serves [of _ echo 0 Closed "[[7, 8, 7, 8], []]" 2 "[]"] by fastforce
qed

text \<open>When the first segment of a query holds only one of the two length bytes, the connection is
  ended as an invalid packet, whatever follows: the length is unpacked from a single \<open>recv(2)\<close>.\<close>

theorem tcp_split_length_ends:
  "tcp_connection app ([b] # later) s sent = (StructError, sent, s)"
  by (subst tcp_connection.simps) simp

section \<open>UDP\<close>

text \<open>\<open>_dns_handle_udp_query\<close>: the datagrams sent before the application ended or raised.\<close>

definition udp_query :: "'s application \<Rightarrow> bytes \<Rightarrow> 's \<Rightarrow> bytes list \<times> 's" where
  "udp_query app query s =
     (let ((responses, raised), s') = app query s in (map the (filter (\<lambda>r. r \<noteq> None) responses), s'))"

end
