(* ===== verification/Rrdata.thy ===== *)
theory Rrdata
  imports FieldTypes "HOL-Library.AList"
begin

text \<open>
  The record types of \<open>objects/rrdata_*.py\<close>: the fields of each type as a constructor, \<open>from_string\<close>,
  which takes the text of a record apart and assigns the fields, and the coercion every assignment runs
  (\<open>rr_coerce\<close>), which \<open>validate\<close> runs again on the finished object. A \<open>from_string\<close> converts all the
  parts of the text before \<open>rr_coerce\<close> checks them; the code interleaves the two, but all of their errors
  are \<open>ValueError\<close>s except the IndexError of a CAA property, which comes last there too.
\<close>

section \<open>The types\<close>

record svcb =
  sv_priority :: int
  sv_target :: string
  sv_alpn :: "string option"
  sv_ech :: "string option"
  sv_ipv4hint :: "string option"
  sv_ipv6hint :: "string option"
  sv_port :: "string option"
  sv_no_default_alpn :: bool
  sv_mandatory :: "string option"
  sv_dohpath :: "string option"

datatype rdata =
  RR_A string
| RR_AAAA string
| RR_CNAME string
| RR_NS string
| RR_PTR string
| RR_MX int string
| RR_SRV int int int string
| RR_SOA string string int int int int int
| RR_SSHFP int int string
| RR_NAPTR int int string string string string
| RR_CAA int string
| RR_CERT string int string string
| RR_TLSA int int int string
| RR_TXT string
| RR_SPF string
| RR_SVCB svcb
| RR_HTTPS svcb

fun rr_type :: "rdata \<Rightarrow> string" where
  "rr_type (RR_A a) = ''A''"
| "rr_type (RR_AAAA a) = ''AAAA''"
| "rr_type (RR_CNAME n) = ''CNAME''"
| "rr_type (RR_NS n) = ''NS''"
| "rr_type (RR_PTR n) = ''PTR''"
| "rr_type (RR_MX p x) = ''MX''"
| "rr_type (RR_SRV p w q t) = ''SRV''"
| "rr_type (RR_SOA m r s f t x n) = ''SOA''"
| "rr_type (RR_SSHFP a f p) = ''SSHFP''"
| "rr_type (RR_NAPTR u p f s r t) = ''NAPTR''"
| "rr_type (RR_CAA f p) = ''CAA''"
| "rr_type (RR_CERT t k a c) = ''CERT''"
| "rr_type (RR_TLSA u s m c) = ''TLSA''"
| "rr_type (RR_TXT t) = ''TXT''"
| "rr_type (RR_SPF t) = ''SPF''"
| "rr_type (RR_SVCB s) = ''SVCB''"
| "rr_type (RR_HTTPS s) = ''HTTPS''"

definition rr_types :: "string list" where
  "rr_types = [''A'', ''AAAA'', ''CNAME'', ''NS'', ''PTR'', ''MX'', ''SRV'', ''SOA'', ''SSHFP'', ''NAPTR'',
     ''CAA'', ''CERT'', ''TLSA'', ''TXT'', ''SPF'', ''SVCB'', ''HTTPS'']"

section \<open>Coercion of the fields\<close>

definition option_field :: "nat option \<Rightarrow> string option \<Rightarrow> exn + unit" where
  "option_field m v = (case v of None \<Rightarrow> Inr () | Some s \<Rightarrow> ebind (string_field m s) (\<lambda>_. Inr ()))"

definition svcb_coerce :: "svcb \<Rightarrow> exn + svcb" where
  "svcb_coerce s =
     ebind (option_field (Some 255) (sv_alpn s)) (\<lambda>_.
     ebind (option_field (Some 255) (sv_ech s)) (\<lambda>_.
     ebind (option_field (Some 255) (sv_ipv4hint s)) (\<lambda>_.
     ebind (option_field (Some 255) (sv_ipv6hint s)) (\<lambda>_.
     ebind (option_field (Some 10) (sv_port s)) (\<lambda>_.
     ebind (option_field (Some 255) (sv_mandatory s)) (\<lambda>_.
     ebind (option_field (Some 255) (sv_dohpath s)) (\<lambda>_.
     ebind (integer_field 0 65535 (sv_priority s)) (\<lambda>p.
     ebind (domain_field (Some 255) (sv_target s)) (\<lambda>t. Inr (s\<lparr>sv_priority := p, sv_target := t\<rparr>))))))))))"

fun rr_coerce :: "addr_env \<Rightarrow> rdata \<Rightarrow> exn + rdata" where
  "rr_coerce A (RR_A a) = ebind (ipv4_field A a) (\<lambda>t. Inr (RR_A t))"
| "rr_coerce A (RR_AAAA a) = ebind (ipv6_field A a) (\<lambda>t. Inr (RR_AAAA t))"
| "rr_coerce A (RR_CNAME n) = ebind (domain_field (Some 255) n) (\<lambda>n. Inr (RR_CNAME n))"
| "rr_coerce A (RR_NS n) = ebind (domain_field (Some 255) n) (\<lambda>n. Inr (RR_NS n))"
| "rr_coerce A (RR_PTR n) = ebind (domain_field (Some 255) n) (\<lambda>n. Inr (RR_PTR n))"
| "rr_coerce A (RR_MX p x) =
     ebind (integer_field 0 65535 p) (\<lambda>p.
     ebind (string_field (Some 255) x) (\<lambda>x. Inr (RR_MX p x)))"
| "rr_coerce A (RR_SRV p w q t) =
     ebind (integer_field 0 65535 p) (\<lambda>p.
     ebind (integer_field 0 65535 w) (\<lambda>w.
     ebind (integer_field 0 65535 q) (\<lambda>q.
     ebind (domain_field (Some 255) t) (\<lambda>t. Inr (RR_SRV p w q t)))))"
| "rr_coerce A (RR_SOA m r s f t x n) =
     ebind (domain_field (Some 255) m) (\<lambda>m.
     ebind (domain_field (Some 255) r) (\<lambda>r.
     ebind (integer_field 1 4294967295 s) (\<lambda>s.
     ebind (integer_field 0 2147483647 f) (\<lambda>f.
     ebind (integer_field 0 2147483647 t) (\<lambda>t.
     ebind (integer_field 0 2147483647 x) (\<lambda>x.
     ebind (integer_field 0 2147483647 n) (\<lambda>n. Inr (RR_SOA m r s f t x n))))))))"
| "rr_coerce A (RR_SSHFP a f p) =
     ebind (integer_field 0 4 a) (\<lambda>a.
     ebind (integer_field 0 2 f) (\<lambda>f.
     ebind (sshfp_field p) (\<lambda>p. Inr (RR_SSHFP a f p))))"
| "rr_coerce A (RR_NAPTR u p f s r t) =
     ebind (integer_field 0 65535 u) (\<lambda>u.
     ebind (integer_field 0 65535 p) (\<lambda>p.
     ebind (naptr_flags_field f) (\<lambda>f.
     ebind (naptr_service_field s) (\<lambda>s.
     ebind (naptr_regexp_field r) (\<lambda>r.
     ebind (domain_field (Some 255) t) (\<lambda>t. Inr (RR_NAPTR u p f s r t)))))))"
| "rr_coerce A (RR_CAA f p) =
     ebind (integer_field 0 1 f) (\<lambda>f.
     ebind (caa_property_field p) (\<lambda>p. Inr (RR_CAA f p)))"
| "rr_coerce A (RR_CERT t k a c) =
     ebind (cert_type_field t) (\<lambda>t.
     ebind (integer_field 0 65535 k) (\<lambda>k.
     ebind (cert_algo_field a) (\<lambda>a. Inr (RR_CERT t k a c))))"
| "rr_coerce A (RR_TLSA u s m c) =
     ebind (integer_field 0 255 u) (\<lambda>u.
     ebind (integer_field 0 255 s) (\<lambda>s.
     ebind (integer_field 0 255 m) (\<lambda>m.
     ebind (string_field (Some 65535) c) (\<lambda>c. Inr (RR_TLSA u s m c)))))"
| "rr_coerce A (RR_TXT t) = ebind (txt_field t) (\<lambda>t. Inr (RR_TXT t))"
| "rr_coerce A (RR_SPF t) = Inr (RR_SPF t)"
| "rr_coerce A (RR_SVCB s) = ebind (svcb_coerce s) (\<lambda>s. Inr (RR_SVCB s))"
| "rr_coerce A (RR_HTTPS s) = ebind (svcb_coerce s) (\<lambda>s. Inr (RR_HTTPS s))"

section \<open>Parts of a record\<close>

text \<open>\<open>int(s)\<close> as an error value.\<close>

definition int_of :: "string \<Rightarrow> exn + int" where
  "int_of s = (case py_int s of None \<Rightarrow> Inl PyValueError | Some n \<Rightarrow> Inr n)"

text \<open>\<open>repr(int(s)) == s\<close> or an error.\<close>

definition canonical_int :: "string \<Rightarrow> exn + int" where
  "canonical_int s = ebind (int_of s) (\<lambda>n. bad_if (int_str n \<noteq> s) (Inr n))"

definition wrapped :: "string \<Rightarrow> bool" where
  "wrapped s \<longleftrightarrow> startswith s [quote] \<and> endswith s [quote]"

definition missing_quote :: "string \<Rightarrow> bool" where
  "missing_quote s \<longleftrightarrow>
     startswith s [quote] \<and> \<not> endswith s [quote] \<or> \<not> startswith s [quote] \<and> endswith s [quote]"

text \<open>\<open>NAPTR._strip_double_quotes\<close>: \<open>value[1:-1]\<close>.\<close>

definition strip_double_quotes :: "string \<Rightarrow> string" where
  "strip_double_quotes s = (if wrapped s then butlast (drop 1 s) else s)"

text \<open>A quote with no backslash before it, \<open>prev\<close> being the character before the string.\<close>

fun unescaped_quote :: "char \<Rightarrow> string \<Rightarrow> bool" where
  "unescaped_quote prev [] \<longleftrightarrow> False"
| "unescaped_quote prev (c # s) \<longleftrightarrow> (c = quote \<and> prev \<noteq> backslash) \<or> unescaped_quote c s"

text \<open>The loop over the string stripped of its quotes; for the first character \<open>strip_value[-1]\<close> is the
  last one, but the first character is never a quote.\<close>

definition bad_quoting :: "string \<Rightarrow> bool" where
  "bad_quoting s = (let t = strip quote s in t \<noteq> [] \<and> unescaped_quote (last t) t)"

text \<open>\<open>TXT._validate_record_single_string\<close>.\<close>

definition txt_single :: "string \<Rightarrow> exn + unit" where
  "txt_single s =
     bad_if (255 < length s)
       (bad_if (newline \<in> set s)
         (bad_if (missing_quote s)
           (if \<not> wrapped s then bad_if (list_ex is_space s) (Inr ())
            else bad_if (bad_quoting s) (Inr ()))))"

text \<open>\<open>s.split(a + b)\<close> for a separator of three characters, here \<open>" "\<close>.\<close>

fun split_quotes :: "string \<Rightarrow> string list" where
  "split_quotes (a # b # c # s) =
     (if a = quote \<and> b = CHR '' '' \<and> c = quote then [] # split_quotes s
      else (case split_quotes (b # c # s) of w # ws \<Rightarrow> (a # w) # ws | [] \<Rightarrow> [[a]]))"
| "split_quotes s = [s]"

fun all_ok :: "('a \<Rightarrow> exn + unit) \<Rightarrow> 'a list \<Rightarrow> exn + unit" where
  "all_ok f [] = Inr ()"
| "all_ok f (x # xs) = ebind (f x) (\<lambda>_. all_ok f xs)"

definition txt_strings :: "string \<Rightarrow> exn + unit" where
  "txt_strings s =
     (if 255 < length s then
        (let stripped = strip quote s
         in bad_if (\<not> wrapped s \<and> \<not> contains [quote, CHR '' '', quote] stripped)
              (all_ok (\<lambda>w. txt_single (quote # w @ [quote])) (split_quotes stripped)))
      else txt_single s)"

definition spf_string :: "string \<Rightarrow> exn + unit" where
  "spf_string s =
     bad_if (newline \<in> set s)
       (if \<not> startswith s [quote] \<and> \<not> endswith s [quote] then bad_if (list_ex is_space s) (Inr ())
        else bad_if (bad_quoting s) (Inr ()))"

text \<open>\<open>base64.b64decode\<close> without validation: characters outside the alphabet are skipped; \<open>q\<close> is the
  position in a group of four, \<open>pads\<close> the padding seen since the last data character.\<close>

definition base64_char :: "char \<Rightarrow> bool" where
  "base64_char c \<longleftrightarrow> is_alnum c \<or> c = CHR ''+'' \<or> c = CHR ''/''"

fun b64_ok :: "nat \<Rightarrow> nat \<Rightarrow> string \<Rightarrow> bool" where
  "b64_ok q pads [] \<longleftrightarrow> q = 0"
| "b64_ok q pads (c # s) \<longleftrightarrow>
     (if c = CHR ''='' then
        (if 2 \<le> q then (if 4 \<le> q + pads + 1 then True else b64_ok q (pads + 1) s) else b64_ok q pads s)
      else if base64_char c then b64_ok ((q + 1) mod 4) 0 s
      else b64_ok q pads s)"

text \<open>\<open>str.split()\<close>\<close>

definition words :: "string \<Rightarrow> string list" where
  "words s = filter (\<lambda>w. w \<noteq> []) (split_on CHR '' '' (map (\<lambda>c. if is_space c then CHR '' '' else c) s))"

section \<open>Parameters of SVCB and HTTPS\<close>

datatype svcb_value = SvTrue | SvText string

fun sv_text :: "svcb_value \<Rightarrow> string" where
  "sv_text (SvText s) = s"
| "sv_text SvTrue = []"

text \<open>\<open>_svcbparams_to_dict\<close>; a dictionary is an association list in insertion order.\<close>

fun svcb_params :: "(string \<times> svcb_value) list \<Rightarrow> string list \<Rightarrow> exn + (string \<times> svcb_value) list" where
  "svcb_params result [] = Inr result"
| "svcb_params result (p # ps) =
     (if p = ''no-default-alpn'' then svcb_params (AList.update p SvTrue result) ps
      else if CHR ''='' \<notin> set p then Inl PyValueError
      else
        (let parts = split_on CHR ''='' p in
         if 1 < length (tl parts) then
           (if startswith p ''ech'' then
              svcb_params (AList.update (hd parts)
                (SvText (concat (map (\<lambda>el. if el = [] then ''='' else el) (tl parts)))) result) ps
            else svcb_params result ps)
         else svcb_params (AList.update (hd parts) (SvText (parts ! 1)) result) ps))"

definition alpn_values :: "string list" where
  "alpn_values = [''h3'', ''h2'', ''h2c'', ''http/1.1'', ''http/1.0'']"

text \<open>The validators; \<open>keys\<close> are the keys of the dictionary.\<close>

definition validate_param :: "addr_env \<Rightarrow> string list \<Rightarrow> string \<Rightarrow> string \<Rightarrow> exn + unit" where
  "validate_param A keys name v =
     (if name = ''alpn'' then bad_if (\<not> list_all (\<lambda>x. x \<in> set alpn_values) (split_on CHR '','' v)) (Inr ())
      else if name = ''ipv4hint'' then bad_if (\<not> list_all (dns_ipv4 A) (split_on CHR '','' v)) (Inr ())
      else if name = ''ipv6hint'' then bad_if (\<not> list_all (dns_ipv6 A) (split_on CHR '','' v)) (Inr ())
      else if name = ''ech'' then bad_if (backslash \<in> set v) (bad_if (\<not> b64_ok 0 0 v) (Inr ()))
      else if name = ''port'' then bad_if (v = [] \<or> \<not> list_all is_digit v) (Inr ())
      else if name = ''mandatory'' then
        (let vs = split_on CHR '','' v
         in bad_if (\<not> list_all (\<lambda>x. x \<in> set keys) vs \<or> length keys < length vs) (Inr ()))
      else if name = ''dohpath'' then
        bad_if (\<not> startswith v ''/'') (bad_if (length v < 7) (bad_if (\<not> contains ''{?dns}'' v) (Inr ())))
      else Inr ())"

definition set_param :: "string \<Rightarrow> string \<Rightarrow> svcb \<Rightarrow> svcb" where
  "set_param name v s =
     (let text = Some (name @ ''='' @ v) in
      if name = ''alpn'' then s\<lparr>sv_alpn := text\<rparr>
      else if name = ''port'' then s\<lparr>sv_port := text\<rparr>
      else if name = ''ipv4hint'' then s\<lparr>sv_ipv4hint := text\<rparr>
      else if name = ''ipv6hint'' then s\<lparr>sv_ipv6hint := text\<rparr>
      else if name = ''mandatory'' then s\<lparr>sv_mandatory := text\<rparr>
      else if name = ''ech'' then s\<lparr>sv_ech := text\<rparr>
      else if name = ''dohpath'' then s\<lparr>sv_dohpath := text\<rparr>
      else s)"

text \<open>The loop over the dictionary; \<open>allowed\<close> is \<open>self.params\<close>.\<close>

fun svcb_loop :: "addr_env \<Rightarrow> string list \<Rightarrow> string list \<Rightarrow> (string \<times> svcb_value) list \<Rightarrow> svcb \<Rightarrow> exn + svcb" where
  "svcb_loop A allowed keys [] s = Inr s"
| "svcb_loop A allowed keys ((name, v) # ps) s =
     (if name \<notin> set allowed then Inl PyValueError
      else if name = ''no-default-alpn'' then
        (if ''alpn'' \<in> set keys then svcb_loop A allowed keys ps (s\<lparr>sv_no_default_alpn := True\<rparr>)
         else Inl PyValueError)
      else ebind (validate_param A keys name (sv_text v)) (\<lambda>_.
           svcb_loop A allowed keys ps (set_param name (sv_text v) s)))"

definition https_params :: "string list" where
  "https_params = [''alpn'', ''ipv4hint'', ''ipv6hint'', ''port'', ''ech'', ''no-default-alpn'', ''mandatory'']"

definition no_svcb :: svcb where
  "no_svcb = \<lparr>sv_priority = 0, sv_target = [], sv_alpn = None, sv_ech = None, sv_ipv4hint = None,
     sv_ipv6hint = None, sv_port = None, sv_no_default_alpn = False, sv_mandatory = None, sv_dohpath = None\<rparr>"

definition svcb_from_string :: "addr_env \<Rightarrow> string list \<Rightarrow> string \<Rightarrow> exn + svcb" where
  "svcb_from_string A allowed value =
     (case split_on CHR '' '' value of
        priority # target # params \<Rightarrow>
          ebind (svcb_params [] params) (\<lambda>d.
          ebind (svcb_loop A allowed (map fst d) d no_svcb) (\<lambda>s.
          ebind (int_of priority) (\<lambda>p. Inr (s\<lparr>sv_priority := p, sv_target := target\<rparr>))))
      | _ \<Rightarrow> Inl PyValueError)"

section \<open>\<open>from_string\<close>\<close>

definition cert_number :: "string list \<Rightarrow> int \<Rightarrow> string \<Rightarrow> exn + unit" where
  "cert_number mnemonics hi s =
     (if s \<in> set mnemonics then Inr ()
      else ebind (int_of s) (\<lambda>n. bad_if (n < 0 \<or> hi < n) (Inr ())))"

definition valid_certs :: "string list" where
  "valid_certs = [''PKIX'', ''SPKI'', ''PGP'', ''IPKIX'', ''ISPKI'', ''IPGP'', ''ACPKIX'', ''IACPKIX'',
     ''URI'', ''OID'', ''DPKIX'', ''DPTR'']"

definition valid_algos :: "string list" where
  "valid_algos = [''RSAMD5'', ''DSA'', ''RSASHA1'', ''DSA-NSEC3-SHA1'', ''RSASHA1-NSEC3-SHA1'',
     ''RSASHA256'', ''RSASHA512'', ''ECC-GOST'', ''ECDSAP256SHA256'', ''ECDSAP384SHA384'', ''ED25519'', ''ED448'']"

definition cert_certificate :: "string \<Rightarrow> exn + unit" where
  "cert_certificate s =
     bad_if (newline \<in> set s) (bad_if (\<not> b64_ok 0 0 (filter (\<lambda>c. c \<noteq> CHR '' '') s)) (Inr ()))"

definition tlsa_length :: "int \<Rightarrow> nat option" where
  "tlsa_length m = (if m = 1 then Some 64 else if m = 2 then Some 128 else None)"

definition tlsa_from_string :: "string \<Rightarrow> exn + rdata" where
  "tlsa_from_string value =
     (case words (filter (\<lambda>c. c \<noteq> CHR ''('' \<and> c \<noteq> CHR '')'') value) of
        usage # selector # matching_type # certs \<Rightarrow>
          bad_if (certs = [])
          (let certificate = concat certs
           in bad_if (length certificate mod 2 \<noteq> 0)
              (ebind (int_of matching_type) (\<lambda>m.
               bad_if (case tlsa_length m of None \<Rightarrow> False | Some n \<Rightarrow> length certificate \<noteq> n)
               (bad_if (\<not> list_all is_hex certificate)
               (ebind (int_of usage) (\<lambda>u.
                ebind (int_of selector) (\<lambda>s. Inr (RR_TLSA u s m (lower certificate)))))))))
      | _ \<Rightarrow> Inl PyValueError)"

definition mx_from_string :: "string \<Rightarrow> exn + rdata" where
  "mx_from_string value =
     (case split_on CHR '' '' value of
        [p, x] \<Rightarrow> ebind (canonical_int p) (\<lambda>p. bad_if (\<not> endswith x ''.'') (Inr (RR_MX p x)))
      | _ \<Rightarrow> Inl PyValueError)"

definition srv_from_string :: "string \<Rightarrow> exn + rdata" where
  "srv_from_string value =
     (case split_on CHR '' '' value of
        [p, w, q, t] \<Rightarrow> ebind (int_of p) (\<lambda>p. ebind (int_of w) (\<lambda>w. ebind (int_of q) (\<lambda>q. Inr (RR_SRV p w q t))))
      | _ \<Rightarrow> Inl PyValueError)"

definition soa_from_string :: "string \<Rightarrow> exn + rdata" where
  "soa_from_string value =
     (case split_on CHR '' '' value of
        [m, r, s, f, t, x, n] \<Rightarrow>
          ebind (int_of s) (\<lambda>s. ebind (int_of f) (\<lambda>f. ebind (int_of t) (\<lambda>t. ebind (int_of x) (\<lambda>x.
          ebind (int_of n) (\<lambda>n. Inr (RR_SOA m r s f t x n))))))
      | _ \<Rightarrow> Inl PyValueError)"

definition sshfp_from_string :: "string \<Rightarrow> exn + rdata" where
  "sshfp_from_string value =
     (case split_on CHR '' '' value of
        [a, f, p] \<Rightarrow> ebind (canonical_int a) (\<lambda>a. ebind (canonical_int f) (\<lambda>f. Inr (RR_SSHFP a f p)))
      | _ \<Rightarrow> Inl PyValueError)"

definition naptr_from_string :: "string \<Rightarrow> exn + rdata" where
  "naptr_from_string value =
     (case split_on CHR '' '' value of
        [u, p, f, s, r, t] \<Rightarrow> ebind (int_of u) (\<lambda>u. ebind (int_of p) (\<lambda>p.
          Inr (RR_NAPTR u p (strip_double_quotes f) (strip_double_quotes s) (strip_double_quotes r) t)))
      | _ \<Rightarrow> Inl PyValueError)"

definition caa_from_string :: "string \<Rightarrow> exn + rdata" where
  "caa_from_string value =
     (case split_max 1 CHR '' '' value of
        [f, p] \<Rightarrow> ebind (int_of f) (\<lambda>f. Inr (RR_CAA f p))
      | _ \<Rightarrow> Inl PyValueError)"

definition cert_from_string :: "string \<Rightarrow> exn + rdata" where
  "cert_from_string value =
     (case split_max 3 CHR '' '' value of
        [t, k, a, c] \<Rightarrow>
          ebind (cert_number valid_certs 65535 t) (\<lambda>_. ebind (int_of k) (\<lambda>k.
          ebind (cert_number valid_algos 255 a) (\<lambda>_. ebind (cert_certificate c) (\<lambda>_. Inr (RR_CERT t k a c)))))
      | _ \<Rightarrow> Inl PyValueError)"

lemmas from_string_defs = mx_from_string_def srv_from_string_def soa_from_string_def sshfp_from_string_def
  naptr_from_string_def caa_from_string_def cert_from_string_def

text \<open>The text taken apart: what is assigned to the fields.\<close>

definition rr_parse :: "addr_env \<Rightarrow> string \<Rightarrow> string \<Rightarrow> exn + rdata" where
  "rr_parse A typ value =
     (if typ = ''A'' then Inr (RR_A value)
      else if typ = ''AAAA'' then Inr (RR_AAAA value)
      else if typ = ''CNAME'' then Inr (RR_CNAME value)
      else if typ = ''NS'' then Inr (RR_NS value)
      else if typ = ''PTR'' then Inr (RR_PTR value)
      else if typ = ''MX'' then mx_from_string value
      else if typ = ''SRV'' then srv_from_string value
      else if typ = ''SOA'' then soa_from_string value
      else if typ = ''SSHFP'' then sshfp_from_string value
      else if typ = ''NAPTR'' then naptr_from_string value
      else if typ = ''CAA'' then caa_from_string value
      else if typ = ''CERT'' then cert_from_string value
      else if typ = ''TLSA'' then tlsa_from_string value
      else if typ = ''TXT'' then ebind (txt_strings value) (\<lambda>_. Inr (RR_TXT value))
      else if typ = ''SPF'' then ebind (spf_string value) (\<lambda>_. Inr (RR_SPF value))
      else if typ = ''SVCB'' then
        ebind (svcb_from_string A (https_params @ [''dohpath'']) value) (\<lambda>s. Inr (RR_SVCB s))
      else if typ = ''HTTPS'' then ebind (svcb_from_string A https_params value) (\<lambda>s. Inr (RR_HTTPS s))
      else Inl PyKeyError)"

definition rr_from_string :: "addr_env \<Rightarrow> string \<Rightarrow> string \<Rightarrow> exn + rdata" where
  "rr_from_string A typ value = ebind (rr_parse A typ value) (rr_coerce A)"

end
