(* ===== verification/RrdataProps.thy ===== *)
theory RrdataProps
  imports Rrdata
begin

text \<open>
  What the record types guarantee: a record that has been accepted is within the limits of its type, its
  fields printed in their order are accepted again and give the same record, and which texts of several
  quoted strings a TXT record takes.
\<close>

section \<open>Texts that are taken apart again\<close>

abbreviation (input) blank :: char where "blank \<equiv> CHR '' ''"

definition unspaced :: "string \<Rightarrow> bool" where
  "unspaced s \<longleftrightarrow> blank \<notin> set s"

lemma digits_unspaced: "list_all is_digit s \<Longrightarrow> unspaced s"
  by (induction s) (auto simp: unspaced_def is_digit_def)

lemma int_str_unspaced [simp]: "unspaced (int_str n)"
proof -
  have "unspaced (nat_str m)" for m using nat_str_digits [of m] by (simp add: digits_unspaced)
  then show ?thesis by (simp add: int_str_def unspaced_def)
qed

lemma split_parts: "split_on blank s = ws \<Longrightarrow> list_all unspaced ws"
  using split_on_no_sep [of _ blank s] by (auto simp: list_all_iff unspaced_def)

lemma split_joined: "ws \<noteq> [] \<Longrightarrow> list_all unspaced ws \<Longrightarrow> split_on blank (join '' '' ws) = ws"
  by (rule split_on_join) (auto simp: list_all_iff unspaced_def)

lemma split_max_cons:
  "unspaced a \<Longrightarrow> split_max (Suc n) blank (a @ blank # b) = a # split_max n blank b"
proof -
  assume "unspaced a"
  then have "takeWhile (\<lambda>x. x \<noteq> blank) (a @ blank # b) = a" "dropWhile (\<lambda>x. x \<noteq> blank) (a @ blank # b) = blank # b"
    by (induction a) (auto simp: unspaced_def)
  then show ?thesis by simp
qed

lemma split_max_parts:
  "split_max n c s = ws \<Longrightarrow> list_all (\<lambda>w. c \<notin> set w) (butlast ws)"
proof (induction n c s arbitrary: ws rule: split_max.induct)
  case (2 n c s)
  have ne: "split_max n c t \<noteq> []" for t by (cases n) (auto split: list.splits)
  have "c \<notin> set (takeWhile (\<lambda>x. x \<noteq> c) s)" by (auto dest: set_takeWhileD)
  with 2 ne show ?case by (auto split: list.splits)
qed simp

lemma int_of_Inr [simp]: "int_of s = Inr n \<longleftrightarrow> py_int s = Some n"
  by (auto simp: int_of_def split: option.splits)

lemma int_of_int_str: "0 \<le> n \<Longrightarrow> int_of (int_str n) = Inr n"
  by (simp add: int_of_def py_int_int_str)

lemma canonical_int_str: "0 \<le> n \<Longrightarrow> canonical_int (int_str n) = Inr n"
  by (simp add: canonical_int_def int_of_int_str)

lemma integer_field_iff [simp]: "integer_field lo hi n = Inr m \<longleftrightarrow> m = n \<and> lo \<le> n \<and> n \<le> hi"
  by (auto simp: integer_field_def bad_if_def)

lemma string_field_iff [simp]:
  "string_field (Some m) s = Inr t \<longleftrightarrow> t = s \<and> (m = 0 \<or> length s \<le> m)"
  by (auto simp: string_field_def bad_if_def)

section \<open>Printing\<close>

definition quoted :: "string \<Rightarrow> string" where
  "quoted s = quote # s @ [quote]"

lemma strip_quoted [simp]: "strip_double_quotes (quoted s) = s"
  by (simp add: strip_double_quotes_def quoted_def wrapped_def startswith_def endswith_def suffix_def)

definition svcb_text :: "svcb \<Rightarrow> string" where
  "svcb_text s = join '' '' ([int_str (sv_priority s), sv_target s] @
     concat (map (\<lambda>v. case v of None \<Rightarrow> [] | Some t \<Rightarrow> [t])
       [sv_alpn s, sv_ech s, sv_ipv4hint s, sv_ipv6hint s, sv_port s,
        if sv_no_default_alpn s then Some ''no-default-alpn'' else None, sv_mandatory s, sv_dohpath s]))"

fun rr_text :: "rdata \<Rightarrow> string" where
  "rr_text (RR_A a) = a"
| "rr_text (RR_AAAA a) = a"
| "rr_text (RR_CNAME n) = n"
| "rr_text (RR_NS n) = n"
| "rr_text (RR_PTR n) = n"
| "rr_text (RR_MX p x) = join '' '' [int_str p, x]"
| "rr_text (RR_SRV p w q t) = join '' '' [int_str p, int_str w, int_str q, t]"
| "rr_text (RR_SOA m r s f t x n) = join '' '' [m, r, int_str s, int_str f, int_str t, int_str x, int_str n]"
| "rr_text (RR_SSHFP a f p) = join '' '' [int_str a, int_str f, p]"
| "rr_text (RR_NAPTR u p f s r t) = join '' '' [int_str u, int_str p, quoted f, quoted s, quoted r, t]"
| "rr_text (RR_CAA f p) = join '' '' [int_str f, p]"
| "rr_text (RR_CERT t k a c) = join '' '' [t, int_str k, a, c]"
| "rr_text (RR_TLSA u s m c) = join '' '' [int_str u, int_str s, int_str m, c]"
| "rr_text (RR_TXT t) = t"
| "rr_text (RR_SPF t) = t"
| "rr_text (RR_SVCB s) = svcb_text s"
| "rr_text (RR_HTTPS s) = svcb_text s"

text \<open>What the address parsers are relied on for: the text they give is an address with that text.\<close>

definition addresses_stable :: "addr_env \<Rightarrow> bool" where
  "addresses_stable A \<longleftrightarrow>
     (\<forall>s t. net_ipv4 A s = Some t \<longrightarrow> dns_ipv4 A t \<and> net_ipv4 A t = Some t) \<and>
     (\<forall>s t. net_ipv6 A s = Some t \<longrightarrow> net_ipv6 A t = Some t)"

lemma hex_lower: "is_hex c \<Longrightarrow> is_hex (lower_char c)"
  by (auto simp: is_hex_def is_digit_def lower_char_def code_of_def of_char_of)

lemma lower_idem [simp]: "lower (lower s) = lower s"
  by (auto simp: lower_def lower_char_def of_char_of)

lemma hex_chars: "is_hex c \<Longrightarrow> \<not> is_space c \<and> c \<noteq> CHR ''('' \<and> c \<noteq> CHR '')''"
  by (auto simp: is_hex_def is_space_def is_digit_def code_of_def)

lemma digit_chars: "is_digit c \<Longrightarrow> \<not> is_space c \<and> c \<noteq> CHR ''('' \<and> c \<noteq> CHR '')''"
  by (auto simp: is_space_def is_digit_def code_of_def)

text \<open>Words that are split off again: without white space and parentheses.\<close>

definition solid :: "string \<Rightarrow> bool" where
  "solid s \<longleftrightarrow> s \<noteq> [] \<and> list_all (\<lambda>c. \<not> is_space c \<and> c \<noteq> CHR ''('' \<and> c \<noteq> CHR '')'') s"

lemma solid_int_str: "0 \<le> n \<Longrightarrow> solid (int_str n)"
  using nat_str_digits [of "nat n"] digit_chars by (auto simp: solid_def int_str_def list_all_iff)

lemma join_chars: "c \<in> set (join '' '' ws) \<Longrightarrow> c = blank \<or> (\<exists>w \<in> set ws. c \<in> set w)"
  by (induction "'' ''" ws rule: join.induct) auto

lemma words_joined:
  assumes "ws \<noteq> []" "list_all solid ws"
  shows "words (filter (\<lambda>c. c \<noteq> CHR ''('' \<and> c \<noteq> CHR '')'') (join '' '' ws)) = ws"
proof -
  let ?sp = "\<lambda>c. if is_space c then blank else c"
  have chars: "c = blank \<or> \<not> is_space c \<and> c \<noteq> CHR ''('' \<and> c \<noteq> CHR '')''" if "c \<in> set (join '' '' ws)" for c
    using join_chars [OF that] assms(2) by (auto simp: solid_def list_all_iff)
  then have "filter (\<lambda>c. c \<noteq> CHR ''('' \<and> c \<noteq> CHR '')'') (join '' '' ws) = join '' '' ws"
    by (intro filter_True) auto
  moreover have "map ?sp (join '' '' ws) = join '' '' ws" by (rule map_idI) (use chars in auto)
  moreover have "split_on blank (join '' '' ws) = ws"
    using assms by (intro split_joined) (auto simp: list_all_iff solid_def unspaced_def is_space_def)
  moreover have "filter (\<lambda>w. w \<noteq> []) ws = ws" using assms(2) by (auto simp: list_all_iff solid_def intro!: filter_True)
  ultimately show ?thesis using assms(2) by (simp add: words_def)
qed


section \<open>Accepted records are stable\<close>

lemma strip_double_quotes_unspaced: "unspaced s \<Longrightarrow> unspaced (quoted (strip_double_quotes s))"
  by (auto simp: unspaced_def strip_double_quotes_def quoted_def dest: in_set_butlastD in_set_dropD)

lemma tlsa_shape:
  assumes "tlsa_from_string value = Inr rr"
  obtains u s m c where "rr = RR_TLSA u s m (lower c)" "list_all is_hex c" "c \<noteq> []" "length c mod 2 = 0"
    "case tlsa_length m of None \<Rightarrow> True | Some n \<Rightarrow> length c = n"
proof -
  let ?ws = "words (filter (\<lambda>c. c \<noteq> CHR ''('' \<and> c \<noteq> CHR '')'') value)"
  from assms obtain a b d cs where ws: "?ws = a # b # d # cs" "cs \<noteq> []"
    by (auto simp: tlsa_from_string_def split: list.splits)
  have "set ?ws \<subseteq> {w. w \<noteq> []}" by (auto simp: words_def)
  then have "\<forall>c \<in> set cs. c \<noteq> []" unfolding ws(1) by auto
  with ws(2) have "concat cs \<noteq> []" by (cases cs) auto
  moreover from assms ws obtain u s m where got: "py_int d = Some m" "list_all is_hex (concat cs)"
    "length (concat cs) mod 2 = 0" "rr = RR_TLSA u s m (lower (concat cs))"
    "\<not> (case tlsa_length m of None \<Rightarrow> False | Some n \<Rightarrow> length (concat cs) \<noteq> n)"
    by (simp add: tlsa_from_string_def Let_def del: list_all_append length_concat) metis
  moreover have "case tlsa_length m of None \<Rightarrow> True | Some n \<Rightarrow> length (concat cs) = n"
    using got(5) by (cases "tlsa_length m") auto
  ultimately show thesis by (intro that)
qed

lemma tlsa_again:
  assumes "list_all is_hex c" "c \<noteq> []" "length c mod 2 = 0"
    "case tlsa_length m of None \<Rightarrow> True | Some n \<Rightarrow> length c = n" "0 \<le> u" "0 \<le> s" "0 \<le> m"
  shows "tlsa_from_string (rr_text (RR_TLSA u s m (lower c))) = Inr (RR_TLSA u s m (lower c))"
proof -
  have hex: "list_all is_hex (lower c)" "length (lower c) = length c" "lower c \<noteq> []"
    using assms(1,2) hex_lower by (auto simp: lower_def list_all_iff)
  have "solid (lower c)" using hex hex_chars by (auto simp: solid_def list_all_iff)
  then have "list_all solid [int_str u, int_str s, int_str m, lower c]"
    using assms(5-7) by (simp add: solid_int_str)
  from words_joined [OF _ this] show ?thesis
    using assms hex by (auto simp: tlsa_from_string_def Let_def int_of_int_str split: option.splits)
qed

lemma cert_unspaced:
  assumes "rr_parse A ''CERT'' value = Inr (RR_CERT t k a c)"
  shows "unspaced t" "unspaced a" "cert_number valid_certs 65535 t = Inr ()"
    "cert_number valid_algos 255 a = Inr ()" "cert_certificate c = Inr ()"
  using assms split_max_parts [of 3 blank "value"]
  by (auto simp: rr_parse_def from_string_defs unspaced_def split: list.splits)


text \<open>A case distinction on the parts of a text, as a statement about the parts.\<close>

lemma split_is:
  "ws \<noteq> [] \<Longrightarrow> split_on blank v = ws \<longleftrightarrow> v = join '' '' ws \<and> list_all unspaced ws"
  using split_parts [of v ws] split_joined [of ws] join_split_on [of blank v] by auto

lemma parts_of:
  "(case split_on blank v of [a, b] \<Rightarrow> f2 a b | _ \<Rightarrow> Inl e) = Inr y \<longleftrightarrow>
     (\<exists>a b. split_on blank v = [a, b] \<and> f2 a b = Inr y)"
  "(case split_on blank v of [a, b, c] \<Rightarrow> f3 a b c | _ \<Rightarrow> Inl e) = Inr y \<longleftrightarrow>
     (\<exists>a b c. split_on blank v = [a, b, c] \<and> f3 a b c = Inr y)"
  "(case split_on blank v of [a, b, c, d] \<Rightarrow> f4 a b c d | _ \<Rightarrow> Inl e) = Inr y \<longleftrightarrow>
     (\<exists>a b c d. split_on blank v = [a, b, c, d] \<and> f4 a b c d = Inr y)"
  "(case split_on blank v of [a, b, c, d, g, h] \<Rightarrow> f6 a b c d g h | _ \<Rightarrow> Inl e) = Inr y \<longleftrightarrow>
     (\<exists>a b c d g h. split_on blank v = [a, b, c, d, g, h] \<and> f6 a b c d g h = Inr y)"
  "(case split_on blank v of [a, b, c, d, g, h, i] \<Rightarrow> f7 a b c d g h i | _ \<Rightarrow> Inl e) = Inr y \<longleftrightarrow>
     (\<exists>a b c d g h i. split_on blank v = [a, b, c, d, g, h, i] \<and> f7 a b c d g h i = Inr y)"
  by (auto split: list.splits)

lemma rr_parse_of:
  "rr_parse A ''A'' v = Inr (RR_A v)" "rr_parse A ''AAAA'' v = Inr (RR_AAAA v)"
  "rr_parse A ''CNAME'' v = Inr (RR_CNAME v)" "rr_parse A ''NS'' v = Inr (RR_NS v)"
  "rr_parse A ''PTR'' v = Inr (RR_PTR v)"
  "rr_parse A ''MX'' v = Inr rr \<longleftrightarrow> (\<exists>p x n. split_on blank v = [p, x] \<and> canonical_int p = Inr n \<and>
     endswith x ''.'' \<and> rr = RR_MX n x)"
  "rr_parse A ''SRV'' v = Inr rr \<longleftrightarrow> (\<exists>a b c t p w q. split_on blank v = [a, b, c, t] \<and>
     py_int a = Some p \<and> py_int b = Some w \<and> py_int c = Some q \<and> rr = RR_SRV p w q t)"
  "rr_parse A ''SOA'' v = Inr rr \<longleftrightarrow> (\<exists>m r a b c d e n1 n2 n3 n4 n5.
     split_on blank v = [m, r, a, b, c, d, e] \<and> py_int a = Some n1 \<and> py_int b = Some n2 \<and>
     py_int c = Some n3 \<and> py_int d = Some n4 \<and> py_int e = Some n5 \<and> rr = RR_SOA m r n1 n2 n3 n4 n5)"
  "rr_parse A ''SSHFP'' v = Inr rr \<longleftrightarrow> (\<exists>a b c n k. split_on blank v = [a, b, c] \<and>
     canonical_int a = Inr n \<and> canonical_int b = Inr k \<and> rr = RR_SSHFP n k c)"
  "rr_parse A ''NAPTR'' v = Inr rr \<longleftrightarrow> (\<exists>a b f s r t u p. split_on blank v = [a, b, f, s, r, t] \<and>
     py_int a = Some u \<and> py_int b = Some p \<and>
     rr = RR_NAPTR u p (strip_double_quotes f) (strip_double_quotes s) (strip_double_quotes r) t)"
  "rr_parse A ''CAA'' v = Inr rr \<longleftrightarrow> (\<exists>a p n. split_max 1 blank v = [a, p] \<and> py_int a = Some n \<and> rr = RR_CAA n p)"
  "rr_parse A ''CERT'' v = Inr rr \<longleftrightarrow> (\<exists>t a c k n. split_max 3 blank v = [t, k, a, c] \<and>
     cert_number valid_certs 65535 t = Inr () \<and> py_int k = Some n \<and> cert_number valid_algos 255 a = Inr () \<and>
     cert_certificate c = Inr () \<and> rr = RR_CERT t n a c)"
  "rr_parse A ''TLSA'' v = tlsa_from_string v"
  "rr_parse A ''TXT'' v = ebind (txt_strings v) (\<lambda>_. Inr (RR_TXT v))"
  "rr_parse A ''SPF'' v = ebind (spf_string v) (\<lambda>_. Inr (RR_SPF v))"
  "rr_parse A ''HTTPS'' v = ebind (svcb_from_string A https_params v) (\<lambda>s. Inr (RR_HTTPS s))"
  "rr_parse A ''SVCB'' v = ebind (svcb_from_string A (https_params @ [''dohpath'']) v) (\<lambda>s. Inr (RR_SVCB s))"
proof -
  show "rr_parse A ''CAA'' v = Inr rr \<longleftrightarrow> (\<exists>a p n. split_max 1 blank v = [a, p] \<and> py_int a = Some n \<and> rr = RR_CAA n p)"
    by (auto simp: rr_parse_def from_string_defs split: list.splits)
  show "rr_parse A ''CERT'' v = Inr rr \<longleftrightarrow> (\<exists>t a c k n. split_max 3 blank v = [t, k, a, c] \<and>
     cert_number valid_certs 65535 t = Inr () \<and> py_int k = Some n \<and> cert_number valid_algos 255 a = Inr () \<and>
     cert_certificate c = Inr () \<and> rr = RR_CERT t n a c)"
    by (auto simp: rr_parse_def from_string_defs split: list.splits)
qed (auto simp: rr_parse_def from_string_defs parts_of)


lemma field_keeps:
  "txt_field t = Inr x \<Longrightarrow> x = t" "sshfp_field t = Inr x \<Longrightarrow> x = t" "naptr_flags_field t = Inr x \<Longrightarrow> x = t"
  "naptr_service_field t = Inr x \<Longrightarrow> x = t" "naptr_regexp_field t = Inr x \<Longrightarrow> x = t"
  "cert_type_field t = Inr x \<Longrightarrow> x = t" "cert_algo_field t = Inr x \<Longrightarrow> x = t" "svcb_coerce s = Inr s' \<Longrightarrow> s' = s"
proof -
  show "svcb_coerce s = Inr s' \<Longrightarrow> s' = s" by (auto simp: svcb_coerce_def dest!: field_same(2))
qed (auto simp: field_defs split: if_splits)

lemma coerce_same:
  assumes "rr_coerce A raw = Inr rr"
  shows "rr_type rr = rr_type raw" "rr_type raw \<noteq> ''A'' \<Longrightarrow> rr_type raw \<noteq> ''AAAA'' \<Longrightarrow> rr = raw"
  using assms by (cases raw; auto dest!: field_same field_keeps)+

lemma coerce_again:
  assumes "rr_coerce A raw = Inr rr" "addresses_stable A"
  shows "rr_coerce A rr = Inr rr"
proof (cases "rr_type raw \<in> {''A'', ''AAAA''}")
  case False
  then show ?thesis using coerce_same(2) [OF assms(1)] assms(1) by simp
next
  case True
  then show ?thesis
    using assms by (cases raw) (auto simp: addresses_stable_def ipv4_field_def ipv6_field_def split: option.splits)
qed

lemma parse_type: "rr_parse A typ v = Inr rr \<Longrightarrow> rr_type rr = typ"
  by (auto simp: rr_parse_def from_string_defs tlsa_from_string_def Let_def split: if_splits list.splits)

text \<open>Numbers of an accepted record are not negative, so they are printed as digits.\<close>

lemma numeric_again:
  "rr_coerce A (RR_MX p x) = Inr rr \<Longrightarrow> unspaced x \<Longrightarrow> endswith x ''.'' \<Longrightarrow>
     rr_parse A ''MX'' (rr_text (RR_MX p x)) = Inr (RR_MX p x)"
  "rr_coerce A (RR_SRV p w q t) = Inr rr \<Longrightarrow> unspaced t \<Longrightarrow>
     rr_parse A ''SRV'' (rr_text (RR_SRV p w q t)) = Inr (RR_SRV p w q t)"
  "rr_coerce A (RR_SOA m r n1 n2 n3 n4 n5) = Inr rr \<Longrightarrow> unspaced m \<Longrightarrow> unspaced r \<Longrightarrow>
     rr_parse A ''SOA'' (rr_text (RR_SOA m r n1 n2 n3 n4 n5)) = Inr (RR_SOA m r n1 n2 n3 n4 n5)"
  "rr_coerce A (RR_SSHFP a f c) = Inr rr \<Longrightarrow> unspaced c \<Longrightarrow>
     rr_parse A ''SSHFP'' (rr_text (RR_SSHFP a f c)) = Inr (RR_SSHFP a f c)"
  "rr_coerce A (RR_NAPTR u p fl s g t) = Inr rr \<Longrightarrow> list_all unspaced [quoted fl, quoted s, quoted g, t] \<Longrightarrow>
     rr_parse A ''NAPTR'' (rr_text (RR_NAPTR u p fl s g t)) = Inr (RR_NAPTR u p fl s g t)"
  by (auto simp: rr_parse_of split_joined canonical_int_str py_int_int_str simp del: join.simps)

lemma split_max_numeric:
  "unspaced a \<Longrightarrow> split_max (Suc 0) blank (join '' '' [a, b]) = [a, b]"
  "unspaced a \<Longrightarrow> unspaced b \<Longrightarrow> unspaced c \<Longrightarrow> split_max 3 blank (join '' '' [a, b, c, d]) = [a, b, c, d]"
  by (simp_all add: numeral_3_eq_3 split_max_cons del: split_max.simps(2))

lemma parse_again:
  assumes "rr_parse A typ v = Inr raw" "rr_coerce A raw = Inr raw" "typ \<notin> {''SVCB'', ''HTTPS''}"
  shows "rr_parse A typ (rr_text raw) = Inr raw"
proof -
  note parts = split_parts [of v] and quotes = strip_double_quotes_unspaced
  have p: "rr_parse A (rr_type raw) v = Inr raw" "typ = rr_type raw" using assms(1) parse_type by auto
  show ?thesis
  proof (cases raw)
    case (RR_MX p x)
    with p parts numeric_again(1) [of A p x raw] assms(2) show ?thesis by (auto simp: rr_parse_of(6))
  next
    case (RR_SRV p w q t)
    with p parts numeric_again(2) [of A p w q t raw] assms(2) show ?thesis by (auto simp: rr_parse_of(7))
  next
    case (RR_SOA m r a b c d e)
    with p parts numeric_again(3) [of A m r a b c d e raw] assms(2) show ?thesis by (auto simp: rr_parse_of(8))
  next
    case (RR_SSHFP a f c)
    with p parts numeric_again(4) [of A a f c raw] assms(2) show ?thesis by (auto simp: rr_parse_of(9))
  next
    case (RR_NAPTR u q fl s g t)
    with p parts quotes numeric_again(5) [of A u q fl s g t raw] assms(2) show ?thesis by (auto simp: rr_parse_of(10))
  next
    case (RR_CAA n q)
    with assms(2) p show ?thesis by (auto simp: rr_parse_of(11) split_max_numeric py_int_int_str simp del: join.simps split_max.simps)
  next
    case (RR_CERT t k a c)
    with p have "rr_parse A ''CERT'' v = Inr (RR_CERT t k a c)" by simp
    note c = cert_unspaced [OF this]
    with RR_CERT assms(2) show ?thesis unfolding p(2)
      by (auto simp: rr_parse_of(12) split_max_numeric py_int_int_str simp del: join.simps split_max.simps)
  next
    case (RR_TLSA u s m c)
    with p have t: "tlsa_from_string v = Inr raw" by (simp add: rr_parse_of(13))
    obtain x where x: "c = lower x" "list_all is_hex x" "x \<noteq> []" "length x mod 2 = 0"
      "case tlsa_length m of None \<Rightarrow> True | Some n \<Rightarrow> length x = n"
      by (rule tlsa_shape [OF t]) (use RR_TLSA that in simp)
    moreover from assms(2) RR_TLSA have "0 \<le> u" "0 \<le> s" "0 \<le> m" by simp_all
    ultimately have "tlsa_from_string (rr_text (RR_TLSA u s m c)) = Inr (RR_TLSA u s m c)"
      using tlsa_again [of x m u s] by simp
    with RR_TLSA p(2) show ?thesis by (simp add: rr_parse_of(13))
  next
    case (RR_SVCB s)
    with p(2) assms(3) show ?thesis by simp
  next
    case (RR_HTTPS s)
    with p(2) assms(3) show ?thesis by simp
  qed (use p in \<open>auto simp: rr_parse_of\<close>)
qed


text \<open>C23: A record text that is accepted stays accepted: the fields of the object, printed in the order
  of the record's presentation, are accepted again and give the same object, for every record type but
  SVCB and HTTPS. So what was normalised on the way in (addresses, the hexadecimal data of TLSA, the quotes
  of NAPTR, leading zeros) is normalised once.\<close>

theorem accepted_record_stable:
  assumes "rr_from_string A typ v = Inr rr" "addresses_stable A" "typ \<notin> {''SVCB'', ''HTTPS''}"
  shows "rr_type rr = typ \<and> rr_from_string A typ (rr_text rr) = Inr rr"
proof -
  from assms(1) obtain raw where raw: "rr_parse A typ v = Inr raw" "rr_coerce A raw = Inr rr"
    by (auto simp: rr_from_string_def)
  have again: "rr_coerce A rr = Inr rr" using coerce_again raw(2) assms(2) by blast
  have ty: "rr_type rr = typ" using coerce_same(1) [OF raw(2)] parse_type [OF raw(1)] by simp
  have "rr_parse A typ (rr_text rr) = Inr rr"
  proof (cases "typ \<in> {''A'', ''AAAA''}")
    case True
    with ty show ?thesis by (cases rr) (auto simp: rr_parse_of)
  next
    case False
    with coerce_same(2) [OF raw(2)] parse_type [OF raw(1)] have "rr = raw" by auto
    with raw(1) again assms(3) show ?thesis using parse_again by simp
  qed
  with ty again show ?thesis by (simp add: rr_from_string_def)
qed


text \<open>Addresses as they are, with netaddr keeping a text and dnspython accepting all but the empty one.\<close>

definition plain_addresses :: addr_env where
  "plain_addresses = \<lparr>dns_ipv4 = (\<lambda>s. s \<noteq> []), dns_ipv6 = (\<lambda>s. s \<noteq> []),
     net_ipv4 = (\<lambda>s. if s = [] then None else Some s), net_ipv6 = (\<lambda>s. if s = [] then None else Some s)\<rparr>"

theorem accepted_record_stable_witness:
  "rr_from_string plain_addresses ''NAPTR'' (rr_text (RR_NAPTR 10 0 ''S'' ''SIP+D2U'' ''!^.*$!x!'' ''a.org.''))
     = Inr (RR_NAPTR 10 0 ''S'' ''SIP+D2U'' ''!^.*$!x!'' ''a.org.'')"
proof -
  have run: "rr_from_string plain_addresses ''NAPTR''
      (''010 0 S SIP+D2U '' @ quoted ''!^.*$!x!'' @ '' a.org.'')
     = Inr (RR_NAPTR 10 0 ''S'' ''SIP+D2U'' ''!^.*$!x!'' ''a.org.'')"
    by code_simp
  have "addresses_stable plain_addresses" by (simp add: addresses_stable_def plain_addresses_def)
  from accepted_record_stable [OF run this] show ?thesis by simp
qed

section \<open>Accepted records are within the limits of their type\<close>

text \<open>An absolute domain name: labels of 1 to 63 characters, each followed by a dot, 254 characters in
  all.\<close>

definition dns_name :: "string \<Rightarrow> bool" where
  "dns_name n \<longleftrightarrow> length n \<le> 254 \<and> n \<noteq> [] \<and> last n = dot \<and> list_all label_ok (split_on dot (butlast n))"

definition unsigned :: "nat \<Rightarrow> int \<Rightarrow> bool" where
  "unsigned w n \<longleftrightarrow> 0 \<le> n \<and> n < 2 ^ w"

definition svcb_limits :: "svcb \<Rightarrow> bool" where
  "svcb_limits s \<longleftrightarrow> unsigned 16 (sv_priority s) \<and> dns_name (sv_target s) \<and>
     (sv_no_default_alpn s \<longrightarrow> sv_alpn s \<noteq> None)"

fun rr_limits :: "addr_env \<Rightarrow> rdata \<Rightarrow> bool" where
  "rr_limits A (RR_A a) \<longleftrightarrow> dns_ipv4 A a \<and> net_ipv4 A a = Some a"
| "rr_limits A (RR_AAAA a) \<longleftrightarrow> net_ipv6 A a = Some a"
| "rr_limits A (RR_CNAME n) \<longleftrightarrow> dns_name n"
| "rr_limits A (RR_NS n) \<longleftrightarrow> dns_name n"
| "rr_limits A (RR_PTR n) \<longleftrightarrow> dns_name n"
| "rr_limits A (RR_MX p x) \<longleftrightarrow> unsigned 16 p \<and> length x \<le> 255 \<and> endswith x ''.'' \<and> unspaced x"
| "rr_limits A (RR_SRV p w q t) \<longleftrightarrow> list_all (unsigned 16) [p, w, q] \<and> dns_name t"
| "rr_limits A (RR_SOA m r s f t x n) \<longleftrightarrow>
     dns_name m \<and> dns_name r \<and> unsigned 32 s \<and> s \<noteq> 0 \<and> list_all (unsigned 31) [f, t, x, n]"
| "rr_limits A (RR_SSHFP a f p) \<longleftrightarrow> a \<in> {0..4} \<and> f \<in> {0..2} \<and> list_all is_hex p \<and> 10 \<le> length p \<and> length p \<le> 64"
| "rr_limits A (RR_NAPTR u p f s r t) \<longleftrightarrow>
     list_all (unsigned 16) [u, p] \<and> list_all (\<lambda>x. length x \<le> 255) [f, s, r] \<and>
     list_all (\<lambda>c. c \<in> set ''APSUapsu'') f \<and> dns_name t"
| "rr_limits A (RR_CAA f p) \<longleftrightarrow> f \<in> {0, 1} \<and>
     list_ex (\<lambda>tag. startswith p (tag @ '' '')) [''issue'', ''issuewild'', ''iodef'']"
| "rr_limits A (RR_CERT t k a c) \<longleftrightarrow> unsigned 16 k \<and> newline \<notin> set c \<and>
     (t \<in> set valid_certs \<or> (\<exists>n \<in> {0..65535}. py_int t = Some n)) \<and>
     (a \<in> set valid_algos \<or> (\<exists>n \<in> {0..255}. py_int a = Some n))"
| "rr_limits A (RR_TLSA u s m c) \<longleftrightarrow>
     list_all (unsigned 8) [u, s, m] \<and> list_all is_hex c \<and> lower c = c \<and> even (length c) \<and> c \<noteq> [] \<and>
     (m = 1 \<longrightarrow> length c = 64) \<and> (m = 2 \<longrightarrow> length c = 128)"
| "rr_limits A (RR_TXT t) \<longleftrightarrow> \<not> endswith t [backslash] \<and> newline \<notin> set t"
| "rr_limits A (RR_SPF t) \<longleftrightarrow> newline \<notin> set t"
| "rr_limits A (RR_SVCB s) \<longleftrightarrow> svcb_limits s"
| "rr_limits A (RR_HTTPS s) \<longleftrightarrow> svcb_limits s \<and> sv_dohpath s = None"

lemma domain_field_iff: "domain_field (Some 255) n = Inr t \<longleftrightarrow> t = n \<and> dns_name n"
proof (cases "n = [] \<or> last n \<noteq> dot")
  case True
  then have "\<not> endswith n ''.''" by (auto simp: endswith_def suffix_def)
  with True show ?thesis by (auto simp: domain_field_def dns_name_def)
next
  case False
  then obtain m where m: "n = m @ ''.''" by (metis append_butlast_last_id)
  let ?ls = "split_on dot m"
  have sp: "split_on dot n = ?ls @ [[]]" by (simp add: m split_on_append_sep)
  have "re_zonename n \<longleftrightarrow> length n < 255 \<and> list_all label_ok ?ls"
    by (simp add: re_zonename_def sp Suc_le_eq)
  moreover have "list_all label_ok ?ls \<Longrightarrow> labels_fit n"
    by (auto simp: labels_fit_def sp list_all_iff label_ok_def)
  ultimately show ?thesis by (auto simp: domain_field_def dns_name_def m)
qed

lemma svcb_loop_alpn:
  assumes "svcb_loop A allowed keys ps s = Inr s'"
  shows "sv_no_default_alpn s' \<Longrightarrow> sv_no_default_alpn s \<or> ''alpn'' \<in> set keys"
    "''alpn'' \<in> fst ` set ps \<or> sv_alpn s \<noteq> None \<Longrightarrow> sv_alpn s' \<noteq> None"
    "''dohpath'' \<notin> set allowed \<Longrightarrow> sv_dohpath s' = sv_dohpath s"
  using assms
proof (induction A allowed keys ps s rule: svcb_loop.induct)
  case (2 A allowed keys name v ps s)
  {
    case 1
    with 2 show ?case by (auto simp: set_param_def Let_def split: if_splits)
  next
    case 2
    with "2.IH" show ?case by (auto simp: set_param_def Let_def split: if_splits)
  next
    case 3
    with 2 show ?case by (auto simp: set_param_def Let_def split: if_splits)
  }
qed auto


lemma svcb_accepted:
  assumes "svcb_from_string A allowed v = Inr raw" "svcb_coerce raw = Inr s"
  shows "svcb_limits s" "''dohpath'' \<notin> set allowed \<Longrightarrow> sv_dohpath s = None"
proof -
  from assms(1) obtain d s0 p t where run: "svcb_loop A allowed (map fst d) d no_svcb = Inr s0"
    "raw = s0\<lparr>sv_priority := p, sv_target := t\<rparr>"
    by (auto simp: svcb_from_string_def split: list.splits)
  have s: "s = raw" using assms(2) by (rule field_keeps(8))
  have "sv_no_default_alpn s0 \<Longrightarrow> sv_alpn s0 \<noteq> None"
    using svcb_loop_alpn(1,2) [OF run(1)] by (auto simp: no_svcb_def)
  moreover have "unsigned 16 (sv_priority raw)" "dns_name (sv_target raw)"
    using assms(2) by (auto simp: svcb_coerce_def unsigned_def domain_field_iff)
  ultimately show "svcb_limits s" by (simp add: svcb_limits_def s run(2))
  show "sv_dohpath s = None" if "''dohpath'' \<notin> set allowed"
    using svcb_loop_alpn(3) [OF run(1) that] by (simp add: s run(2) no_svcb_def)
qed

lemma strip_keeps: "x \<in> set s \<Longrightarrow> x \<noteq> c \<Longrightarrow> x \<in> set (strip c s)"
proof -
  have keep: "x \<in> set t \<Longrightarrow> x \<noteq> c \<Longrightarrow> x \<in> set (dropWhile (\<lambda>y. y = c) t)" for t
    by (induction t) auto
  assume "x \<in> set s" "x \<noteq> c"
  then show ?thesis by (simp add: strip_def rstrip_def lstrip_def keep)
qed

lemma split_quotes_keeps:
  "x \<in> set s \<Longrightarrow> x \<noteq> quote \<Longrightarrow> x \<noteq> blank \<Longrightarrow> \<exists>w \<in> set (split_quotes s). x \<in> set w"
proof (induction s rule: split_quotes.induct)
  case (1 a b c s)
  show ?case
  proof (cases "a = quote \<and> b = blank \<and> c = quote")
    case True
    with 1 show ?thesis by auto
  next
    case False
    with 1 show ?thesis by (cases "x = a") (auto split: list.splits)
  qed
qed auto

lemma all_ok_Inr [simp]: "all_ok f xs = Inr () \<longleftrightarrow> list_all (\<lambda>x. f x = Inr ()) xs"
  by (induction xs) auto

lemma txt_single_newline: "txt_single s = Inr u \<Longrightarrow> newline \<notin> set s"
  by (auto simp: txt_single_def)

lemma txt_newline: "txt_strings s = Inr u \<Longrightarrow> newline \<notin> set s"
proof
  assume ok: "txt_strings s = Inr u" and n: "newline \<in> set s"
  show False
  proof (cases "255 < length s")
    case True
    obtain w where w: "w \<in> set (split_quotes (strip quote s))" "newline \<in> set w"
      using split_quotes_keeps [of newline "strip quote s"] strip_keeps [OF n, of quote] by auto
    with ok True have "txt_single (quote # w @ [quote]) = Inr ()"
      by (auto simp: txt_strings_def Let_def list_all_iff)
    from txt_single_newline [OF this] w(2) show False by simp
  next
    case False
    with ok n show False by (auto simp: txt_strings_def dest: txt_single_newline)
  qed
qed

lemma caa_tag:
  assumes "caa_property_field p = Inr q"
  shows "list_ex (\<lambda>tag. startswith p (tag @ '' '')) [''issue'', ''issuewild'', ''iodef'']"
proof -
  from assms obtain tag val where sp: "split_max (Suc 0) blank p = [tag, val]"
    "tag \<in> set [''issue'', ''issuewild'', ''iodef'']"
    by (auto simp: caa_property_field_def Let_def simp del: split_max.simps split: list.splits if_splits)
  from sp(1) have "p = tag @ blank # val"
  proof (cases "dropWhile (\<lambda>x. x \<noteq> blank) p")
    case (Cons c r)
    then have "c = blank" using hd_dropWhile [of "\<lambda>x. x \<noteq> blank" p] by simp
    with Cons sp(1) takeWhile_dropWhile_id [of "\<lambda>x. x \<noteq> blank" p] show ?thesis by auto
  qed auto
  with sp(2) show ?thesis by (auto simp: startswith_def)
qed


lemma cert_limits:
  assumes "rr_parse A ''CERT'' v = Inr (RR_CERT t k a c)" "rr_coerce A (RR_CERT t k a c) = Inr rr"
  shows "rr_limits A (RR_CERT t k a c)"
proof -
  have num: "x \<in> set ms \<or> (\<exists>n \<in> {0..hi}. py_int x = Some n)" if "cert_number ms hi x = Inr ()" for ms hi x
    using that by (auto simp: cert_number_def int_of_def split: if_splits option.splits)
  show ?thesis
    using cert_unspaced [OF assms(1)] num assms(2) by (auto simp: cert_certificate_def unsigned_def)
qed

lemma tlsa_limits:
  assumes "tlsa_from_string v = Inr (RR_TLSA u s m c)" "rr_coerce A (RR_TLSA u s m c) = Inr rr"
  shows "rr_limits A (RR_TLSA u s m c)"
proof -
  obtain x where x: "c = lower x" "list_all is_hex x" "x \<noteq> []" "length x mod 2 = 0"
    "case tlsa_length m of None \<Rightarrow> True | Some n \<Rightarrow> length x = n"
    by (rule tlsa_shape [OF assms(1)]) (use that in simp)
  have hex: "list_all is_hex c" using x hex_lower by (auto simp: lower_def list_all_iff)
  have len: "length c = length x" "c \<noteq> []" "lower c = c" using x(3) unfolding x(1) by (simp_all, simp_all add: lower_def)
  have dig: "(m = 1 \<longrightarrow> length c = 64) \<and> (m = 2 \<longrightarrow> length c = 128)"
    using x(5) len(1) by (auto simp: tlsa_length_def split: if_splits)
  show ?thesis using assms(2) hex len dig x(4) by (auto simp: unsigned_def even_iff_mod_2_eq_zero)
qed

text \<open>C22: A record whose text is accepted has the type it was read for and is within the limits of that
  type, as \<open>rr_limits\<close> lists them. Addresses are written as netaddr writes them. The names of CNAME, NS,
  PTR, SRV, SOA and NAPTR and the targets of SVCB and HTTPS have labels of 1 to 63 characters and at most
  254 characters in all; of the exchange of an MX only the final dot, the absence of blanks and a
  length of at most 255 are known. The numbers of MX, SRV and NAPTR, the priority of SVCB and HTTPS and
  the key tag of CERT fit 16 bits, the three numbers of TLSA 8, the serial of a SOA 32 without being
  0 and its intervals 31; SSHFP has an algorithm of at most 4, a type of at most 2 and 10 to 64
  hexadecimal digits; the texts of NAPTR have at most 255 characters and its flags are of A, P, S and U;
  CAA has the flag 0 or 1 and one of three tags; type and algorithm of CERT are mnemonics or
  numbers in range; the data of TLSA are pairs of lower-case hexadecimal digits, of the length of their
  digest when there is one; TXT and SPF hold no line break and TXT does not end in a backslash; SVCB
  has no-default-alpn only with alpn, and HTTPS has no path. The other parameters of SVCB and HTTPS,
  the port for one, are not limited.\<close>

theorem accepted_record_limits:
  assumes "rr_from_string A typ v = Inr rr" "addresses_stable A"
  shows "rr_type rr = typ \<and> rr_limits A rr"
proof -
  from assms(1) obtain raw where raw: "rr_parse A typ v = Inr raw" "rr_coerce A raw = Inr rr"
    by (auto simp: rr_from_string_def)
  note again = coerce_again [OF raw(2) assms(2)]
  have ty: "rr_type rr = typ" using coerce_same(1) [OF raw(2)] parse_type [OF raw(1)] by simp
  have p: "rr_parse A (rr_type rr) v = Inr rr" if "rr_type rr \<notin> {''A'', ''AAAA''}"
    using coerce_same [OF raw(2)] raw(1) parse_type [OF raw(1)] that by auto
  have "rr_limits A rr"
  proof (cases rr)
    case (RR_A a)
    with again show ?thesis by (auto simp: ipv4_field_def split: option.splits)
  next
    case (RR_AAAA a)
    with again show ?thesis by (auto simp: ipv6_field_def split: option.splits)
  next
    case (RR_MX q x)
    with p again split_parts [of v] show ?thesis by (auto simp: unsigned_def rr_parse_of(6))
  next
    case (RR_SOA m r n f t x e)
    with again show ?thesis by (auto simp: unsigned_def domain_field_iff)
  next
    case (RR_SSHFP a f c)
    with again show ?thesis by (auto simp: sshfp_field_def re_sshfp_fingerprint_def)
  next
    case (RR_NAPTR u q f s r t)
    with again show ?thesis
      by (auto simp: unsigned_def domain_field_iff naptr_flags_field_def naptr_service_field_def
          naptr_regexp_field_def re_naptr_flags_def split: if_splits)
  next
    case (RR_CAA f q)
    with again caa_tag [of q q] show ?thesis by auto
  next
    case (RR_CERT t k a c)
    with p again cert_limits [of A v t k a c] show ?thesis by simp
  next
    case (RR_TLSA u s m c)
    with p again tlsa_limits [of v u s m c A] show ?thesis by (simp add: rr_parse_of(13))
  next
    case (RR_TXT t)
    with p again show ?thesis by (auto simp: rr_parse_of txt_field_def dest: txt_newline)
  next
    case (RR_SPF t)
    with p show ?thesis by (auto simp: rr_parse_of spf_string_def)
  next
    case (RR_SVCB s)
    with p again svcb_accepted(1) [of A _ v s s] show ?thesis by (auto simp: rr_parse_of)
  next
    case (RR_HTTPS s)
    with p again svcb_accepted [of A https_params v s s] show ?thesis
      by (auto simp: rr_parse_of https_params_def)
  qed (use again in \<open>auto simp: unsigned_def domain_field_iff\<close>)
  with ty show ?thesis by simp
qed

theorem accepted_record_limits_witness:
  "rr_limits plain_addresses (RR_SOA ''ns.o.'' ''h.o.'' 4294967295 0 1 2 3) \<and>
   rr_limits plain_addresses (RR_MX 10 ''a..b.'')"
proof -
  have mx: "rr_from_string plain_addresses ''MX'' ''10 a..b.'' = Inr (RR_MX 10 ''a..b.'')" by code_simp
  have run: "rr_from_string plain_addresses ''SOA'' ''ns.o. h.o. 4294967295 0 1 2 3''
      = Inr (RR_SOA ''ns.o.'' ''h.o.'' 4294967295 0 1 2 3)" by code_simp
  have "addresses_stable plain_addresses" by (simp add: addresses_stable_def plain_addresses_def)
  from accepted_record_limits [OF run this] accepted_record_limits [OF mx this] show ?thesis by simp
qed

section \<open>TXT records of several strings\<close>

text \<open>The presentation of a TXT record: each string in quotes, blanks between them.\<close>

definition txt_value :: "string list \<Rightarrow> string" where
  "txt_value ws = join '' '' (map quoted ws)"

definition txt_chunk :: "string \<Rightarrow> bool" where
  "txt_chunk w \<longleftrightarrow> w \<noteq> [] \<and> quote \<notin> set w \<and> newline \<notin> set w \<and> length w \<le> 253"

abbreviation (input) between :: string where "between \<equiv> [quote, blank, quote]"

lemma txt_value_inner: "ws \<noteq> [] \<Longrightarrow> txt_value ws = quote # join between ws @ [quote]"
  by (induction "between" ws rule: join.induct) (auto simp: txt_value_def quoted_def)

lemma chunk_ends: "txt_chunk w \<Longrightarrow> w \<noteq> [] \<and> hd w \<noteq> quote \<and> last w \<noteq> quote"
  unfolding txt_chunk_def by (metis hd_in_set last_in_set)

lemma inner_ends:
  assumes "ws \<noteq> []" "list_all txt_chunk ws"
  shows "join between ws \<noteq> []" "hd (join between ws) \<noteq> quote" "last (join between ws) \<noteq> quote"
  using assms
proof (induction "between" ws rule: join.induct)
  case (3 w v ws)
  {
    case 1
    then show ?case by simp
  next
    case 2
    then show ?case using chunk_ends [of w] by simp
  next
    case 3
    with "3.hyps" show ?case by simp
  }
qed (auto dest: chunk_ends)

lemma strip_value:
  assumes "ws \<noteq> []" "list_all txt_chunk ws"
  shows "strip quote (txt_value ws) = join between ws"
proof -
  let ?j = "join between ws"
  obtain c r where j: "?j = c # r" "c \<noteq> quote" using inner_ends(1,2) [OF assms] by (cases ?j) auto
  obtain r' d where e: "?j = r' @ [d]" "d \<noteq> quote" using inner_ends(1,3) [OF assms] by (metis append_butlast_last_id)
  have "lstrip quote (txt_value ws) = ?j @ [quote]"
    using j by (simp add: txt_value_inner [OF assms(1)] lstrip_def)
  then show ?thesis using e by (simp add: strip_def rstrip_def)
qed

lemma split_quotes_chunk: "quote \<notin> set w \<Longrightarrow> split_quotes (w @ between @ t) = w # split_quotes t"
proof (induction w)
  case (Cons a w)
  obtain b c s where "w @ between @ t = b # c # s" by (cases w; cases "tl w") auto
  with Cons show ?case by (cases "a # w @ between @ t" rule: split_quotes.cases) auto
qed simp

lemma split_quotes_last: "quote \<notin> set w \<Longrightarrow> split_quotes w = [w]"
  by (induction w rule: split_quotes.induct) auto

lemma split_inner: "ws \<noteq> [] \<Longrightarrow> list_all txt_chunk ws \<Longrightarrow> split_quotes (join between ws) = ws"
  by (induction "between" ws rule: join.induct)
    (auto simp: split_quotes_chunk [simplified] split_quotes_last txt_chunk_def)


lemma opening_quote: "unescaped_quote p (w @ between @ t)"
  by (induction w arbitrary: p) auto

lemma no_quote: "quote \<notin> set w \<Longrightarrow> \<not> unescaped_quote p w"
  by (induction w arbitrary: p) auto

text \<open>A TXT record of quoted strings without quotes in them, each at most 253 characters long, is
  accepted when it is a single string or when the whole text is longer than 255 characters; several
  strings that are short together are refused.\<close>

theorem txt_several_strings:
  assumes "ws \<noteq> []" "list_all txt_chunk ws"
  shows "rr_from_string A ''TXT'' (txt_value ws) =
    (if length ws = 1 \<or> 255 < length (txt_value ws) then Inr (RR_TXT (txt_value ws)) else Inl PyValueError)"
proof -
  let ?v = "txt_value ws"
  have v: "?v = quote # join between ws @ [quote]" using assms(1) by (rule txt_value_inner)
  then have wrap: "wrapped ?v" "\<not> missing_quote ?v" "\<not> endswith ?v [backslash]"
    by (auto simp: wrapped_def missing_quote_def startswith_def endswith_def suffix_def)
  have one: "txt_single (quote # w @ [quote]) = Inr ()" if "txt_chunk w" for w
    using that strip_value [of "[w]"] no_quote [of w]
    by (auto simp: txt_single_def wrapped_def missing_quote_def startswith_def endswith_def suffix_def
        bad_quoting_def Let_def txt_value_def quoted_def txt_chunk_def)
  have "txt_strings ?v = (if length ws = 1 \<or> 255 < length ?v then Inr () else Inl PyValueError)"
  proof (cases "255 < length ?v")
    case True
    have "list_all (\<lambda>w. txt_single (quote # w @ [quote]) = Inr ()) (split_quotes (strip quote ?v))"
      using assms one by (simp add: strip_value split_inner list_all_iff)
    with True wrap show ?thesis by (simp add: txt_strings_def Let_def)
  next
    case False
    show ?thesis
    proof (cases "length ws = 1")
      case True
      then obtain w where "ws = [w]" by (cases ws) auto
      with assms False one show ?thesis by (simp add: txt_strings_def txt_value_def quoted_def)
    next
      case several: False
      with assms(1) obtain w u us where ws: "ws = w # u # us" by (metis One_nat_def length_Cons list.exhaust list.size(3))
      have "bad_quoting ?v"
        using opening_quote [of _ w "join between (u # us)"] inner_ends(1) [OF assms]
        by (simp add: bad_quoting_def strip_value [OF assms(1,2), unfolded ws] ws Let_def)
      with False several wrap show ?thesis by (auto simp: txt_strings_def txt_single_def bad_if_def)
    qed
  qed
  with wrap(3) show ?thesis by (auto simp: rr_from_string_def rr_parse_of txt_field_def)
qed

theorem txt_several_strings_witness:
  "rr_from_string plain_addresses ''TXT'' (txt_value [''v=spf1'', ''-all'']) = Inl PyValueError \<and>
   (let long = txt_value [replicate 200 CHR ''a'', replicate 60 CHR ''b'']
    in rr_from_string plain_addresses ''TXT'' long = Inr (RR_TXT long))"
  using txt_several_strings [of "[''v=spf1'', ''-all'']" plain_addresses]
    txt_several_strings [of "[replicate 200 CHR ''a'', replicate 60 CHR ''b'']" plain_addresses]
  by (simp add: txt_chunk_def txt_value_def quoted_def numeral_eq_Suc)

end
