(* ===== verification/Validation.thy ===== *)
theory Validation
  imports RrdataProps Objects
begin

text \<open>
  Validation of the objects the API and central accept: \<open>RecordSet.validate\<close>, \<open>Zone.validate\<close>,
  \<open>TsigKey.validate\<close>, and the fields of TLDs and blacklists. \<open>DesignateObject.validate\<close> coerces every
  attribute once more; attributes that were coerced by the same field when they were assigned are not
  repeated here, so what is left of it are the fields a record type replaces, the records themselves and
  the attributes that have to be set.
\<close>

section \<open>Recordsets\<close>

text \<open>How \<open>RecordSet.validate\<close> ends; everything but \<open>RV_ok\<close> is an InvalidObject. \<open>RV_records\<close> has the
  positions of the records in the paths of its errors.\<close>

datatype rs_verdict = RV_ok | RV_type | RV_records "nat list" | RV_field | RV_crash exn

text \<open>The test for SVCB records in a recordset below \<open>_dns\<close>.\<close>

definition svcb_dns_check :: "string \<Rightarrow> rdata \<Rightarrow> exn + unit" where
  "svcb_dns_check name rr =
     (case rr of
        RR_SVCB s \<Rightarrow>
          if contains ''_dns'' name then
            (case sv_alpn s of
               None \<Rightarrow> Inl PyAttributeError
             | Some t \<Rightarrow>
                 bad_if (list_ex (\<lambda>a. a \<in> {''h2'', ''h3''} \<and> sv_dohpath s = None) (split_on CHR '','' (drop 5 t)))
                   (Inr ()))
          else Inr ()
      | _ \<Rightarrow> Inr ())"

definition check_record :: "addr_env \<Rightarrow> recordset \<Rightarrow> string \<Rightarrow> exn + rdata" where
  "check_record A rs v =
     ebind (rr_from_string A (rs_type rs) v) (\<lambda>rr.
     ebind (svcb_dns_check (rs_name rs) rr) (\<lambda>_. Inr rr))"

text \<open>The loop over the records: error positions and parsed records.\<close>

fun check_records :: "addr_env \<Rightarrow> recordset \<Rightarrow> nat \<Rightarrow> rrecord list \<Rightarrow> exn + nat list \<times> rdata list" where
  "check_records A rs i [] = Inr ([], [])"
| "check_records A rs i (r # recs) =
     (case check_record A rs (r_data r) of
        Inr rr \<Rightarrow> ebind (check_records A rs (i + 1) recs) (\<lambda>(bad, good). Inr (bad, rr # good))
      | Inl e \<Rightarrow>
          if e = PyValueError \<or> e = PyTypeError \<or> e = PyAttributeError
          then ebind (check_records A rs (i + 1) recs) (\<lambda>(bad, good). Inr (i # bad, good))
          else Inl e)"

text \<open>\<open>get_recordset_schema_changes\<close>: the field of the name.\<close>

definition name_field :: "string \<Rightarrow> string \<Rightarrow> exn + string" where
  "name_field t name =
     (if t = ''NS'' then domain_field None name
      else if t = ''SRV'' then srv_field (Some 255) name
      else host_field (Some 255) name)"

definition rs_fields_ok :: "recordset \<Rightarrow> bool" where
  "rs_fields_ok rs \<longleftrightarrow>
     name_field (rs_type rs) (rs_name rs) = Inr (rs_name rs) \<and>
     (case rs_ttl rs of None \<Rightarrow> True | Some n \<Rightarrow> integer_field 0 2147483647 n = Inr n) \<and>
     (case rs_description rs of None \<Rightarrow> True | Some s \<Rightarrow> string_field (Some 160) s = Inr s)"

definition records_valid :: "addr_env \<Rightarrow> rdata list \<Rightarrow> bool" where
  "records_valid A rrs \<longleftrightarrow> list_all (\<lambda>rr. rr_coerce A rr = Inr rr) rrs"

text \<open>\<open>RecordSet.validate\<close>; \<open>supported\<close> is the option \<open>supported_record_type\<close>.\<close>

definition validate_recordset :: "addr_env \<Rightarrow> string list \<Rightarrow> recordset \<Rightarrow> rs_verdict" where
  "validate_recordset A supported rs =
     (if rs_type rs \<notin> set rr_types \<or> rs_type rs \<notin> set supported then RV_type
      else
        case check_records A rs 0 (rs_records rs) of
          Inl e \<Rightarrow> RV_crash e
        | Inr (bad, good) \<Rightarrow>
            if \<not> rs_fields_ok rs \<or> \<not> records_valid A good then RV_field
            else if bad \<noteq> [] then RV_records bad
            else RV_ok)"

text \<open>The errors of a record: ValueErrors, and the IndexError of a CAA property without a value.\<close>

definition value_errors :: "exn + 'a \<Rightarrow> bool" where
  "value_errors r \<longleftrightarrow> (\<forall>e. r = Inl e \<longrightarrow> e = PyValueError \<or> e = PyIndexError)"

lemma value_errors_intros [intro, simp]:
  "value_errors (Inr x)" "value_errors (Inl PyValueError)" "value_errors (Inl PyIndexError)"
  "value_errors r \<Longrightarrow> (\<And>x. value_errors (f x)) \<Longrightarrow> value_errors (ebind r f)"
  "value_errors r \<Longrightarrow> value_errors (bad_if b r)"
  "value_errors (int_of t)" "value_errors (canonical_int t)"
proof -
  show "value_errors r \<Longrightarrow> (\<And>x. value_errors (f x)) \<Longrightarrow> value_errors (ebind r f)"
    by (cases r) (auto simp: value_errors_def)
qed (auto simp: value_errors_def bad_if_def int_of_def canonical_int_def split: option.splits)

lemma value_errors_if: "value_errors r \<Longrightarrow> value_errors r' \<Longrightarrow> value_errors (if b then r else r')"
  by simp

lemma value_errors_fields [intro, simp]:
  "value_errors (integer_field lo hi n)" "value_errors (string_field m t)" "value_errors (domain_field m t)"
  "value_errors (txt_field t)" "value_errors (sshfp_field t)" "value_errors (naptr_flags_field t)"
  "value_errors (naptr_service_field t)" "value_errors (naptr_regexp_field t)"
  "value_errors (cert_type_field t)" "value_errors (cert_algo_field t)" "value_errors (ipv4_field A t)"
  "value_errors (ipv6_field A t)" "value_errors (caa_property_field t)" "value_errors (option_field m v)"
  by (auto simp: field_defs caa_property_field_def caa_domain_def ipv4_field_def ipv6_field_def option_field_def
      Let_def split: option.splits list.splits)

lemma value_errors_coerce: "value_errors (rr_coerce A rr)"
  by (cases rr) (auto simp: svcb_coerce_def)

lemma value_errors_svcb:
  "value_errors (svcb_params d ps)" "value_errors (svcb_loop A al ks qs s)"
proof -
  show "value_errors (svcb_params d ps)"
    by (induction d ps rule: svcb_params.induct) (simp_all add: Let_def)
  have v: "value_errors (validate_param A ks name v)" for name v
    unfolding validate_param_def Let_def by (intro value_errors_intros value_errors_if)
  show "value_errors (svcb_loop A al ks qs s)"
  proof (induction qs arbitrary: s)
    case (Cons q qs)
    then show ?case using v by (cases q) simp
  qed simp
qed

lemma value_errors_from_string:
  assumes "t \<in> set rr_types"
  shows "value_errors (rr_from_string A t v)"
proof -
  have ok: "(\<And>x. value_errors (g x)) \<Longrightarrow> value_errors (all_ok g xs)" for g and xs :: "string list"
    by (induction xs) auto
  have "value_errors (txt_single w)" for w by (auto simp: txt_single_def)
  with ok have "value_errors (txt_strings v)" by (auto simp: txt_strings_def Let_def)
  moreover have "value_errors (cert_number ms hi w)" for ms hi w by (auto simp: cert_number_def)
  moreover have "value_errors (cert_certificate w)" for w by (auto simp: cert_certificate_def)
  moreover have "value_errors (tlsa_from_string v)"
    by (auto simp: tlsa_from_string_def Let_def split: list.splits)
  moreover have "value_errors (svcb_from_string A al v)" for al
    by (auto simp: svcb_from_string_def value_errors_svcb split: list.splits)
  moreover have "value_errors (spf_string v)" by (auto simp: spf_string_def)
  ultimately have "\<forall>u \<in> set rr_types. value_errors (rr_parse A u v)"
    unfolding rr_types_def list.set ball_simps
    by (simp add: rr_parse_def from_string_defs split: list.split)
  with assms have "value_errors (rr_parse A t v)" by blast
  then show ?thesis by (auto simp: rr_from_string_def value_errors_coerce)
qed


definition record_accepted :: "addr_env \<Rightarrow> recordset \<Rightarrow> rrecord \<Rightarrow> bool" where
  "record_accepted A rs r \<longleftrightarrow>
     (case check_record A rs (r_data r) of Inr _ \<Rightarrow> True | Inl _ \<Rightarrow> False)"

lemma check_record_errors:
  assumes "rs_type rs \<in> set rr_types" "check_record A rs v = Inl e"
  shows "e = PyValueError \<or> e = PyAttributeError \<or> e = PyIndexError"
proof -
  have v: "value_errors (rr_from_string A (rs_type rs) v)" using assms(1) by (rule value_errors_from_string)
  have s: "e = PyValueError \<or> e = PyAttributeError" if "svcb_dns_check n rr = Inl e" for n rr
    using that by (auto simp: svcb_dns_check_def bad_if_def split: rdata.splits option.splits if_splits)
  show ?thesis
  proof (cases "rr_from_string A (rs_type rs) v")
    case (Inl e')
    with assms(2) v show ?thesis by (auto simp: check_record_def value_errors_def)
  next
    case (Inr rr)
    with assms(2) s [of "rs_name rs" rr] show ?thesis
      by (cases "svcb_dns_check (rs_name rs) rr") (auto simp: check_record_def)
  qed
qed

lemma check_records_spec:
  assumes "list_all (\<lambda>r. check_record A rs (r_data r) \<noteq> Inl PyIndexError) recs"
    and known: "rs_type rs \<in> set rr_types"
  shows "\<exists>good. check_records A rs i recs =
      Inr (map (\<lambda>k. i + k) (filter (\<lambda>k. \<not> record_accepted A rs (recs ! k)) [0..<length recs]), good) \<and>
    list_all (\<lambda>rr. \<exists>v. rr_from_string A (rs_type rs) v = Inr rr) good"
  using assms(1)
proof (induction recs arbitrary: i)
  case (Cons r recs)
  from Cons.IH [of "i + 1"] Cons.prems obtain good where good: "check_records A rs (i + 1) recs =
      Inr (map (\<lambda>k. i + 1 + k) (filter (\<lambda>k. \<not> record_accepted A rs (recs ! k)) [0..<length recs]), good)"
    "list_all (\<lambda>rr. \<exists>v. rr_from_string A (rs_type rs) v = Inr rr) good" by auto
  have upt: "[0..<length (r # recs)] = 0 # map Suc [0..<length recs]"
    by (simp add: map_Suc_upt upt_conv_Cons del: upt_Suc)
  show ?case
  proof (cases "check_record A rs (r_data r)")
    case (Inr rr)
    then have "\<exists>v. rr_from_string A (rs_type rs) v = Inr rr" by (auto simp: check_record_def)
    with Inr good show ?thesis unfolding upt
      by (intro exI [of _ "rr # good"]) (simp add: record_accepted_def filter_map comp_def)
  next
    case (Inl e)
    with check_record_errors [OF known Inl] Cons.prems have "e = PyValueError \<or> e = PyAttributeError" by auto
    with Inl good show ?thesis unfolding upt
      by (intro exI [of _ good]) (auto simp: record_accepted_def filter_map comp_def)
  qed
qed simp

lemma parsed_valid:
  assumes "rr_from_string A t v = Inr rr" "addresses_stable A"
  shows "rr_coerce A rr = Inr rr"
  using assms coerce_again by (auto simp: rr_from_string_def)

lemma check_records_Inr:
  "check_records A rs i recs = Inr x \<Longrightarrow> list_all (\<lambda>r. check_record A rs (r_data r) \<noteq> Inl PyIndexError) recs"
  by (induction recs arbitrary: i x) (auto split: sum.splits if_splits)

definition refused_positions :: "addr_env \<Rightarrow> recordset \<Rightarrow> nat list" where
  "refused_positions A rs =
     filter (\<lambda>k. \<not> record_accepted A rs (rs_records rs ! k)) [0..<length (rs_records rs)]"

lemma no_refused_positions: "refused_positions A rs = [] \<longleftrightarrow> list_all (record_accepted A rs) (rs_records rs)"
  by (auto simp: refused_positions_def filter_empty_conv list_all_iff all_set_conv_all_nth)

lemma validate_collected:
  assumes "addresses_stable A" "rs_type rs \<in> set rr_types \<inter> set supported"
    "list_all (\<lambda>r. check_record A rs (r_data r) \<noteq> Inl PyIndexError) (rs_records rs)"
  shows "validate_recordset A supported rs =
    (if \<not> rs_fields_ok rs then RV_field
     else if refused_positions A rs = [] then RV_ok else RV_records (refused_positions A rs))"
proof -
  obtain good where good: "check_records A rs 0 (rs_records rs) = Inr (refused_positions A rs, good)"
    "list_all (\<lambda>rr. \<exists>v. rr_from_string A (rs_type rs) v = Inr rr) good"
    using check_records_spec [OF assms(3), of 0] assms(2) by (auto simp: refused_positions_def)
  then have "records_valid A good"
    using parsed_valid [OF _ assms(1)] by (fastforce simp: records_valid_def list_all_iff)
  with good(1) assms(2) show ?thesis by (simp add: validate_recordset_def)
qed

text \<open>C21: Validation of a recordset succeeds exactly when its type is a known and supported one, its own
  fields are in order and every one of its records is accepted; otherwise, when type and fields are in
  order, it names the positions of the records that are refused, in order. (The IndexError of a CAA property
  without a value is not collected but ends the validation at once.)\<close>

theorem validate_recordset_positions:
  assumes "addresses_stable A"
  shows "(validate_recordset A supported rs = RV_ok \<longleftrightarrow>
       rs_type rs \<in> set rr_types \<inter> set supported \<and> rs_fields_ok rs \<and>
       list_all (record_accepted A rs) (rs_records rs)) \<and>
    (rs_type rs \<in> set rr_types \<inter> set supported \<and> rs_fields_ok rs \<and>
       list_all (\<lambda>r. check_record A rs (r_data r) \<noteq> Inl PyIndexError) (rs_records rs) \<and>
       refused_positions A rs \<noteq> [] \<longrightarrow>
     validate_recordset A supported rs = RV_records (refused_positions A rs))"
proof (intro conjI iffI impI)
  assume ok: "validate_recordset A supported rs = RV_ok"
  then have t: "rs_type rs \<in> set rr_types \<inter> set supported"
    by (auto simp: validate_recordset_def split: if_splits)
  from ok obtain x where "check_records A rs 0 (rs_records rs) = Inr x"
    by (auto simp: validate_recordset_def split: if_splits sum.splits)
  from validate_collected [OF assms t check_records_Inr [OF this]] ok
  show "rs_type rs \<in> set rr_types \<inter> set supported" "rs_fields_ok rs"
    "list_all (record_accepted A rs) (rs_records rs)"
    using t by (auto simp: no_refused_positions split: if_splits)
next
  assume ok: "rs_type rs \<in> set rr_types \<inter> set supported \<and> rs_fields_ok rs \<and>
    list_all (record_accepted A rs) (rs_records rs)"
  then have "list_all (\<lambda>r. check_record A rs (r_data r) \<noteq> Inl PyIndexError) (rs_records rs)"
    by (auto simp: list_all_iff record_accepted_def split: sum.splits)
  with validate_collected [OF assms _ this] ok show "validate_recordset A supported rs = RV_ok"
    by (simp add: no_refused_positions)
qed (use validate_collected [OF assms] in auto)

definition sample_mx :: "string list \<Rightarrow> recordset" where
  "sample_mx ds = \<lparr>rs_id = None, rs_version = 1, rs_tenant_id = None, rs_zone_id = ''z1'',
     rs_name = ''e.o.'', rs_type = ''MX'', rs_ttl = Some 300, rs_description = None,
     rs_records = map (\<lambda>d. \<lparr>r_id = None, r_version = 1, r_tenant_id = None, r_zone_id = ''z1'',
       r_recordset_id = ''r1'', r_data = d, r_hash = [], r_managed = False, r_managed_extra = None,
     r_managed_plugin_type = None, r_managed_plugin_name = None,
       r_managed_resource_type = None, r_managed_resource_region = None,
     r_managed_resource_id = None, r_managed_tenant_id = None,
       r_description = None, r_status = PENDING, r_action = CREATE, r_serial = 1, r_changed = {}\<rparr>) ds,
     rs_changed = {}\<rparr>"

theorem validate_recordset_positions_witness:
  "validate_recordset plain_addresses rr_types (sample_mx [''10 m.e.o.'', ''m.e.o.'', ''020 m.e.o.'', ''5 n.e.o.'']) =
     RV_records [1, 2] \<and>
   validate_recordset plain_addresses rr_types (sample_mx [''10 m.e.o.'']) = RV_ok"
proof -
  let ?rs = "sample_mx [''10 m.e.o.'', ''m.e.o.'', ''020 m.e.o.'', ''5 n.e.o.'']"
  have A: "addresses_stable plain_addresses" by (simp add: addresses_stable_def plain_addresses_def)
  have facts: "rs_type ?rs \<in> set rr_types \<inter> set rr_types" "rs_fields_ok ?rs"
    "list_all (\<lambda>r. check_record plain_addresses ?rs (r_data r) \<noteq> Inl PyIndexError) (rs_records ?rs)"
    "refused_positions plain_addresses ?rs = [1, 2]"
    by code_simp+
  let ?ok = "sample_mx [''10 m.e.o.'']"
  have good: "rs_type ?ok \<in> set rr_types \<inter> set rr_types" "rs_fields_ok ?ok"
    "list_all (record_accepted plain_addresses ?ok) (rs_records ?ok)" by code_simp+
  from validate_recordset_positions [OF A, of rr_types ?rs] facts
    validate_recordset_positions [OF A, of rr_types ?ok] good show ?thesis by simp
qed

section \<open>Zones\<close>

text \<open>A Zone as a request builds it: \<open>None\<close> is an attribute that is not set, for \<open>masters\<close> a relation that
  is not loaded.\<close>

record zone_form =
  zf_type :: "zone_type option"
  zf_name :: "string option"
  zf_email :: "string option"
  zf_ttl :: "int option"
  zf_description :: "string option"
  zf_masters :: "zone_master list option"
  zf_changed :: "zone_attr set"

text \<open>\<open>ZV_errors\<close> has the attributes the collected errors are about.\<close>

datatype zone_verdict = ZV_ok | ZV_errors "string list" | ZV_required string | ZV_field string

definition primary_errors :: "zone_form \<Rightarrow> string list" where
  "primary_errors z =
     (case zf_masters z of None \<Rightarrow> [] | Some ms \<Rightarrow> if ms \<noteq> [] then [''masters''] else []) @
     (if zf_email z = None then [''email''] else [])"

definition secondary_errors :: "zone_form \<Rightarrow> string list" where
  "secondary_errors z =
     (case zf_masters z of
        None \<Rightarrow> [''masters'']
      | Some ms \<Rightarrow>
          (if ms = [] then [''masters''] else []) @
          (if ZA_email \<in> zf_changed z then [''email''] else []) @
          (if ZA_ttl \<in> zf_changed z then [''ttl''] else []))"

definition set_ok :: "('a \<Rightarrow> bool) \<Rightarrow> 'a option \<Rightarrow> bool" where
  "set_ok P v = (case v of None \<Rightarrow> True | Some x \<Rightarrow> P x)"

definition zone_fields :: "zone_form \<Rightarrow> zone_verdict" where
  "zone_fields z =
     (case zf_name z of
        None \<Rightarrow> ZV_required ''name''
      | Some n \<Rightarrow>
          if domain_field (Some 255) n \<noteq> Inr n then ZV_field ''name''
          else if \<not> set_ok (\<lambda>e. email_field (Some 255) e = Inr e) (zf_email z) then ZV_field ''email''
          else if \<not> set_ok (\<lambda>t. integer_field 0 2147483647 t = Inr t) (zf_ttl z) then ZV_field ''ttl''
          else if \<not> set_ok (\<lambda>d. string_field (Some 160) d = Inr d) (zf_description z) then ZV_field ''description''
          else if \<not> set_ok (list_all (\<lambda>m. integer_field 1 65535 (m_port m) = Inr (m_port m))) (zf_masters z) then ZV_field ''masters''
          else ZV_ok)"

definition validate_zone :: "zone_form \<Rightarrow> zone_verdict" where
  "validate_zone z =
     (if zf_type z = Some PRIMARY \<and> primary_errors z \<noteq> [] then ZV_errors (primary_errors z)
      else if zf_type z = Some SECONDARY \<and> secondary_errors z \<noteq> [] then ZV_errors (secondary_errors z)
      else zone_fields z)"

lemma validate_zone_types:
  assumes "validate_zone z = ZV_ok"
  shows "\<exists>n. zf_name z = Some n \<and> dns_name n"
    and "zf_type z = Some PRIMARY \<Longrightarrow> zf_email z \<noteq> None \<and> (zf_masters z = None \<or> zf_masters z = Some [])"
    and "zf_type z = Some SECONDARY \<Longrightarrow>
      (\<exists>m ms. zf_masters z = Some (m # ms)) \<and> ZA_email \<notin> zf_changed z \<and> ZA_ttl \<notin> zf_changed z"
proof -
  from assms have "zone_fields z = ZV_ok" by (auto simp: validate_zone_def split: if_splits)
  then show "\<exists>n. zf_name z = Some n \<and> dns_name n"
    by (auto simp: zone_fields_def domain_field_iff split: option.splits if_splits)
  show "zf_email z \<noteq> None \<and> (zf_masters z = None \<or> zf_masters z = Some [])" if "zf_type z = Some PRIMARY"
    using assms that by (auto simp: validate_zone_def primary_errors_def split: option.splits if_splits)
  show "(\<exists>m ms. zf_masters z = Some (m # ms)) \<and> ZA_email \<notin> zf_changed z \<and> ZA_ttl \<notin> zf_changed z"
    if "zf_type z = Some SECONDARY"
  proof -
    from assms that have "secondary_errors z = []" by (auto simp: validate_zone_def split: if_splits)
    then show ?thesis by (auto simp: secondary_errors_def neq_Nil_conv split: option.splits if_splits)
  qed
qed

section \<open>TLDs, blacklists and TSIG keys\<close>

definition tld_fields :: "string \<Rightarrow> string option \<Rightarrow> bool" where
  "tld_fields name description \<longleftrightarrow>
     tld_field (Some 255) name = Inr name \<and>
     (case description of None \<Rightarrow> True | Some d \<Rightarrow> string_field (Some 160) d = Inr d)"

text \<open>The description of a blacklist has the field type of its pattern.\<close>

definition blacklist_fields :: "(string \<Rightarrow> bool) \<Rightarrow> string \<Rightarrow> string option \<Rightarrow> bool" where
  "blacklist_fields compiles pattern description \<longleftrightarrow>
     denylist_field compiles (Some 255) pattern = Inr pattern \<and>
     (case description of None \<Rightarrow> True | Some d \<Rightarrow> denylist_field compiles (Some 160) d = Inr d)"

lemma blacklist_description_is_a_pattern:
  "\<not> compiles d \<or> d = [] \<Longrightarrow> \<not> blacklist_fields compiles pattern (Some d)"
  by (auto simp: blacklist_fields_def denylist_field_def)

definition tsig_algorithms :: "string list" where
  "tsig_algorithms = [''hmac-md5'', ''hmac-sha1'', ''hmac-sha224'', ''hmac-sha256'', ''hmac-sha384'', ''hmac-sha512'']"

definition tsigkey_fields :: "bool \<Rightarrow> string \<Rightarrow> string \<Rightarrow> string \<Rightarrow> string \<Rightarrow> bool" where
  "tsigkey_fields allow_empty_secrets name algorithm secret scope \<longleftrightarrow>
     (secret \<noteq> [] \<or> allow_empty_secrets) \<and>
     string_field (Some 160) name = Inr name \<and> algorithm \<in> set tsig_algorithms \<and>
     string_field (Some 160) secret = Inr secret \<and> scope \<in> {''POOL'', ''ZONE''}"

end
