(* ===== verification/Tables.thy ===== *)
theory Tables
  imports Env Paging
begin

text \<open>
  The tables whose rows are whole objects: TLDs, blacklists, TSIG keys and zone tasks (imports and
  exports). \<open>SQLAlchemyStorage\<close> gives each of them the same methods over \<open>_create\<close>, \<open>_find\<close>,
  \<open>_update\<close> and \<open>_delete\<close> of \<open>storage/sqlalchemy/base.py\<close>; here a \<open>table\<close> collects what
  those four are given (the rows, the columns, the constraints, the exceptions) and they are
  written once. Abstractly such a table is a finite map from identifiers to objects: the locale
  \<open>stored_table\<close> proves that each method does to the table what insertion, lookup, change and removal
  do to the map, under the invariant that no two rows share an identifier.
\<close>

section \<open>The four statements\<close>

record ('r, 'c) table =
  tb_rows :: "db \<Rightarrow> 'r list"
  tb_put :: "'r list \<Rightarrow> db \<Rightarrow> db"
  tb_col :: "'r \<Rightarrow> 'c \<Rightarrow> sqlval"
  tb_id_col :: 'c
  tb_tenant_col :: "'c option"
  tb_id :: "'r \<Rightarrow> string"
  tb_set_id :: "string \<Rightarrow> 'r \<Rightarrow> 'r"
  tb_unique :: "'r list \<Rightarrow> bool"
  tb_duplicate :: exn
  tb_not_found :: exn

text \<open>The clauses of \<open>_apply_tenant_criteria\<close>; none of these tables has a column \<open>deleted\<close>.\<close>

definition tenant_clauses :: "('r, 'c) table \<Rightarrow> req_context \<Rightarrow> 'c clause list" where
  "tenant_clauses T ctx = apply_tenant_criteria ctx (tb_tenant_col T) (tb_id_col T) True False"

definition write_rows :: "('r, 'c) table \<Rightarrow> 'r list \<Rightarrow> unit sys" where
  "write_rows T rows = modify (set_db (tb_put T rows))"

definition create_row :: "env \<Rightarrow> ('r, 'c) table \<Rightarrow> 'r \<Rightarrow> 'r sys" where
  "create_row E T r =
     bind (new_uuid E) (\<lambda>i.
     bind (gets (\<lambda>w. tb_rows T (w_db w))) (\<lambda>rows.
     bind (lift (insert_row (tb_unique T) (tb_duplicate T) (tb_set_id T i r) rows)) (\<lambda>rows'.
     seq (write_rows T rows') (return (tb_set_id T i r)))))"

definition find_rows :: "('r, 'c) table \<Rightarrow> req_context \<Rightarrow> ('c \<times> crit) list \<Rightarrow> 'r list sys" where
  "find_rows T ctx criterion =
     bind (lift (apply_criterion criterion)) (\<lambda>cls.
     gets (\<lambda>w. select_where (tb_col T) (cls @ tenant_clauses T ctx) (tb_rows T (w_db w))))"

definition find_row :: "('r, 'c) table \<Rightarrow> req_context \<Rightarrow> ('c \<times> crit) list \<Rightarrow> 'r sys" where
  "find_row T ctx criterion =
     bind (find_rows T ctx criterion) (\<lambda>rs. lift (fetch_one (tb_not_found T) rs))"

definition get_row :: "('r, 'c) table \<Rightarrow> req_context \<Rightarrow> string \<Rightarrow> 'r sys" where
  "get_row T ctx i = find_row T ctx [(tb_id_col T, CStr i)]"

definition count_rows :: "('r, 'c) table \<Rightarrow> req_context \<Rightarrow> ('c \<times> crit) list \<Rightarrow> int sys" where
  "count_rows T ctx criterion = bind (find_rows T ctx criterion) (\<lambda>rs. return (int (length rs)))"

text \<open>A page of rows; \<open>attr\<close> are the columns by name.\<close>

definition find_row_page ::
  "env \<Rightarrow> (string \<Rightarrow> ('r \<Rightarrow> sqlval) option) \<Rightarrow> ('r, 'c) table \<Rightarrow> req_context \<Rightarrow> ('c \<times> crit) list
     \<Rightarrow> page_args \<Rightarrow> 'r list sys" where
  "find_row_page E attr T ctx criterion pg =
     bind (find_rows T ctx criterion) (\<lambda>rs.
     bind (gets (\<lambda>w. tb_rows T (w_db w))) (\<lambda>rows.
     lift (find_page (e_valid_uuid E) attr (tb_id T) pg rows rs)))"

text \<open>\<open>f\<close> writes the changed attributes of the object with the identifier \<open>i\<close>; the row is read
  back by its identifier alone.\<close>

definition update_row :: "('r, 'c) table \<Rightarrow> req_context \<Rightarrow> string \<Rightarrow> ('r \<Rightarrow> 'r) \<Rightarrow> 'r sys" where
  "update_row T ctx i f =
     bind (gets (\<lambda>w. tb_rows T (w_db w))) (\<lambda>rows.
     bind (lift (update_where (tb_col T) (tb_unique T) (tb_duplicate T) (tb_not_found T)
             (Eq (tb_id_col T) (VStr i) # tenant_clauses T ctx) f rows)) (\<lambda>rows'.
     seq (write_rows T rows')
     (lift (case select_where (tb_col T) [Eq (tb_id_col T) (VStr i)] rows' of
              r # _ \<Rightarrow> Inr r | [] \<Rightarrow> Inl (tb_not_found T)))))"

text \<open>The row is looked up first, and deleted by the identifier of what was found.\<close>

definition delete_found :: "('r, 'c) table \<Rightarrow> req_context \<Rightarrow> 'r \<Rightarrow> 'r sys" where
  "delete_found T ctx r =
     bind (gets (\<lambda>w. tb_rows T (w_db w))) (\<lambda>rows.
     bind (lift (delete_where (tb_col T) (tb_not_found T)
             (Eq (tb_id_col T) (VStr (tb_id T r)) # tenant_clauses T ctx) rows)) (\<lambda>rows'.
     seq (write_rows T rows') (return r)))"

definition delete_row :: "('r, 'c) table \<Rightarrow> req_context \<Rightarrow> string \<Rightarrow> 'r sys" where
  "delete_row T ctx i = bind (get_row T ctx i) (delete_found T ctx)"

text \<open>The abstraction, and what the context may see of a row.\<close>

definition table_map :: "('r, 'c) table \<Rightarrow> db \<Rightarrow> string \<Rightarrow> 'r option" where
  "table_map T d = map_of (map (\<lambda>r. (tb_id T r, r)) (tb_rows T d))"

definition visible :: "('r, 'c) table \<Rightarrow> req_context \<Rightarrow> 'r \<Rightarrow> bool" where
  "visible T ctx r \<longleftrightarrow> matches (tb_col T) (tenant_clauses T ctx) r"

definition table_ok :: "('r, 'c) table \<Rightarrow> db \<Rightarrow> bool" where
  "table_ok T d \<longleftrightarrow> distinct (map (tb_id T) (tb_rows T d))"

section \<open>What a table promises\<close>

locale stored_table =
  fixes T :: "('r, 'c) table"
  assumes rows_put: "tb_rows T (tb_put T rows d) = rows"
    and col_id: "tb_col T r (tb_id_col T) = VStr (tb_id T r)"
    and id_set: "tb_id T (tb_set_id T i r) = i"
    and unique_ids: "tb_unique T rows \<Longrightarrow> distinct (map (tb_id T) rows)"
begin

sublocale keyed: keyed_table "tb_col T" "tb_id_col T" "tb_id T" VStr
  by unfold_locales (simp_all add: col_id)

lemma map_Some:
  "table_ok T d \<Longrightarrow> table_map T d i = Some r \<longleftrightarrow> r \<in> set (tb_rows T d) \<and> tb_id T r = i"
  by (auto simp: table_ok_def table_map_def map_of_eq_Some_iff comp_def)

lemma map_None: "table_map T d i = None \<longleftrightarrow> i \<notin> tb_id T ` set (tb_rows T d)"
  by (auto simp: table_map_def map_of_eq_None_iff image_image)

lemma map_eqI: "(\<And>i r. m i = Some r \<longleftrightarrow> m' i = Some r) \<Longrightarrow> m = m'"
  by (metis option.exhaust ext)

text \<open>Lookup.\<close>

lemma get_row_run:
  assumes "table_ok T (w_db w)" "plain i"
  shows "get_row T ctx i w =
    (case table_map T (w_db w) i of
       Some r \<Rightarrow> if visible T ctx r then Inr r else Inl (tb_not_found T)
     | None \<Rightarrow> Inl (tb_not_found T), w)"
proof -
  let ?rows = "tb_rows T (w_db w)"
  let ?sel = "select_where (tb_col T) (Eq (tb_id_col T) (VStr i) # tenant_clauses T ctx) ?rows"
  have run: "get_row T ctx i w = (fetch_one (tb_not_found T) ?sel, w)"
    by (simp add: get_row_def find_row_def find_rows_def bind_run assms(2))
  have sel: "?sel = (case table_map T (w_db w) i of
      Some r \<Rightarrow> if visible T ctx r then [r] else [] | None \<Rightarrow> [])"
  proof (cases "table_map T (w_db w) i")
    case None
    then have "?sel = []" unfolding map_None select_where_def
      by (auto simp: filter_empty_conv col_id)
    with None show ?thesis by simp
  next
    case (Some r)
    then have r: "r \<in> set ?rows" "tb_id T r = i" using map_Some [OF assms(1)] by auto
    show ?thesis
    proof (cases "visible T ctx r")
      case True
      have "distinct (map (tb_id T) ?rows)" using assms(1) by (simp add: table_ok_def)
      from keyed.select_by_key [OF this r(1) True [unfolded visible_def]] r(2) Some True
      show ?thesis by simp
    next
      case False
      have "x = r" if "x \<in> set ?rows" "tb_id T x = i" for x
        using that r Some map_Some [OF assms(1)] by (metis option.inject)
      then have "?sel = []" using False
        by (auto simp: select_where_def filter_empty_conv col_id visible_def)
      with Some False show ?thesis by simp
    qed
  qed
  show ?thesis unfolding run sel by (auto simp: fetch_one_def split: option.splits)
qed

lemma count_rows_run:
  assumes "apply_criterion criterion = Inr cls"
  shows "count_rows T ctx criterion w =
    (Inr (int (length (filter (\<lambda>r. matches (tb_col T) cls r \<and> visible T ctx r)
       (tb_rows T (w_db w))))), w)"
proof -
  have "filter (matches (tb_col T) (cls @ tenant_clauses T ctx)) (tb_rows T (w_db w))
      = filter (\<lambda>r. matches (tb_col T) cls r \<and> visible T ctx r) (tb_rows T (w_db w))"
    by (rule filter_cong) (simp_all add: visible_def)
  then show ?thesis using assms
    by (simp add: count_rows_def find_rows_def bind_run select_where_def)
qed

text \<open>Insertion.\<close>

lemma create_row_ok:
  assumes "create_row E T r w = (Inr r', w')" "table_ok T (w_db w)"
  shows "r' = tb_set_id T (tb_id T r') r" "table_map T (w_db w) (tb_id T r') = None"
    and "table_map T (w_db w') = (table_map T (w_db w))(tb_id T r' \<mapsto> r')"
    and "table_ok T (w_db w')" "tb_rows T (w_db w') = tb_rows T (w_db w) @ [r']"
    and "w_db w' = tb_put T (tb_rows T (w_db w')) (w_db w)"
proof -
  let ?rows = "tb_rows T (w_db w)"
  from assms(1) have r': "r' = tb_set_id T (e_gen_uuid E (w_next w)) r"
    and un: "tb_unique T (?rows @ [r'])"
    and db: "w_db w' = tb_put T (?rows @ [r']) (w_db w)"
    by (auto simp: create_row_def write_rows_def comp_iffs insert_row_def split: if_splits)
  show "r' = tb_set_id T (tb_id T r') r" using r' by (simp add: id_set)
  have d: "distinct (map (tb_id T) (?rows @ [r']))" using unique_ids [OF un] .
  then show "table_map T (w_db w) (tb_id T r') = None" by (simp add: map_None)
  show rows: "tb_rows T (w_db w') = ?rows @ [r']" by (simp add: db rows_put)
  show ok': "table_ok T (w_db w')" using d by (simp add: table_ok_def rows)
  show "w_db w' = tb_put T (tb_rows T (w_db w')) (w_db w)" by (simp add: db rows_put)
  show "table_map T (w_db w') = (table_map T (w_db w))(tb_id T r' \<mapsto> r')"
  proof (rule map_eqI)
    fix i x
    have "x \<in> set ?rows \<Longrightarrow> tb_id T x \<noteq> tb_id T r'" using d by (auto simp: image_iff)
    then show "table_map T (w_db w') i = Some x \<longleftrightarrow>
        ((table_map T (w_db w))(tb_id T r' \<mapsto> r')) i = Some x"
      by (auto simp: map_Some [OF ok'] map_Some [OF assms(2)] rows)
  qed
qed

lemma create_then_get:
  assumes "create_row E T r w = (Inr r', w')" "table_ok T (w_db w)"
    and "plain (tb_id T r')" "visible T ctx r'"
  shows "get_row T ctx (tb_id T r') w' = (Inr r', w')"
  using create_row_ok [OF assms(1,2)] get_row_run [of w' "tb_id T r'" ctx] assms(3,4) by simp

text \<open>Change.\<close>

lemma update_row_ok:
  assumes run: "update_row T ctx i f w = (Inr r', w')" and ok: "table_ok T (w_db w)"
    and id: "\<And>r. tb_id T (f r) = tb_id T r"
  obtains r where "table_map T (w_db w) i = Some r" "visible T ctx r" "r' = f r" "tb_id T r' = i"
    "table_map T (w_db w') = (table_map T (w_db w))(i \<mapsto> r')" "table_ok T (w_db w')"
    "w_db w' = tb_put T (tb_rows T (w_db w')) (w_db w)"
proof -
  let ?rows = "tb_rows T (w_db w)"
  from run obtain rows' where
    up: "update_where (tb_col T) (tb_unique T) (tb_duplicate T) (tb_not_found T)
             (Eq (tb_id_col T) (VStr i) # tenant_clauses T ctx) f ?rows = Inr rows'"
    and db: "w_db w' = tb_put T rows' (w_db w)"
    and sel: "(case select_where (tb_col T) [Eq (tb_id_col T) (VStr i)] rows' of
              r # _ \<Rightarrow> Inr r | [] \<Rightarrow> Inl (tb_not_found T)) = Inr r'"
    by (auto simp: update_row_def write_rows_def comp_iffs)
  have rows: "tb_rows T (w_db w') = rows'" by (simp add: db rows_put)
  note keys = keyed.update_by_key [OF up id]
  from keyed.update_by_key_ex [OF up] obtain r where
    r: "r \<in> set ?rows" "tb_id T r = i" "visible T ctx r" by (auto simp: visible_def)
  have some: "table_map T (w_db w) i = Some r" using map_Some [OF ok] r by blast
  have only: "x = r" if "x \<in> set ?rows" "tb_id T x = i" for x
    using that some map_Some [OF ok] by (metis option.inject)
  have ok': "table_ok T (w_db w')" using keys(1) ok by (simp add: table_ok_def rows)
  have rows': "rows' = map (\<lambda>x. if tb_id T x = i then f x else x) ?rows"
    unfolding keys(2)
  proof (rule map_cong [OF refl])
    fix x assume "x \<in> set ?rows"
    then have "tb_id T x = i \<Longrightarrow> matches (tb_col T) (tenant_clauses T ctx) x"
      using only [of x] r(3) by (simp add: visible_def)
    then show "(if tb_id T x = i \<and> matches (tb_col T) (tenant_clauses T ctx) x then f x else x)
        = (if tb_id T x = i then f x else x)" by simp
  qed
  have in': "x \<in> set rows' \<longleftrightarrow> x = f r \<or> x \<in> set ?rows \<and> tb_id T x \<noteq> i" for x
    using r(1,2) by (auto simp: rows' dest: only)
  have m': "table_map T (w_db w') = (table_map T (w_db w))(i \<mapsto> f r)"
    using r(2) by (intro map_eqI) (auto simp: map_Some [OF ok'] map_Some [OF ok] rows in' id)
  from sel obtain rest where
    "select_where (tb_col T) [Eq (tb_id_col T) (VStr i)] rows' = r' # rest"
    by (cases "select_where (tb_col T) [Eq (tb_id_col T) (VStr i)] rows'") auto
  then have "r' \<in> set (select_where (tb_col T) [Eq (tb_id_col T) (VStr i)] rows')" by simp
  then have r': "r' \<in> set rows'" "tb_id T r' = i" by (auto simp: select_where_def col_id)
  then have "table_map T (w_db w') i = Some r'" using map_Some [OF ok'] rows by blast
  with m' have "r' = f r" by simp
  with some r r' m' ok' db show ?thesis by (intro that [of r]) (simp_all add: rows_put)
qed

lemma update_then_get:
  assumes "update_row T ctx i f w = (Inr r', w')" "table_ok T (w_db w)"
    and "\<And>r. tb_id T (f r) = tb_id T r" "plain i" "visible T ctx' r'"
  shows "get_row T ctx' i w' = (Inr r', w')"
  by (rule update_row_ok [OF assms(1-3)]) (use assms(4,5) in \<open>simp add: get_row_run\<close>)

lemma update_row_succeeds:
  assumes ok: "table_ok T (w_db w)" and r: "table_map T (w_db w) i = Some r" "visible T ctx r"
    and id: "\<And>r. tb_id T (f r) = tb_id T r"
    and un: "tb_unique T (map (\<lambda>x. if tb_id T x = i then f x else x) (tb_rows T (w_db w)))"
  shows "\<exists>w'. update_row T ctx i f w = (Inr (f r), w')"
proof -
  let ?rows = "tb_rows T (w_db w)"
  let ?cls = "Eq (tb_id_col T) (VStr i) # tenant_clauses T ctx"
  let ?rows' = "map (\<lambda>x. if tb_id T x = i then f x else x) ?rows"
  have in': "r \<in> set ?rows" "tb_id T r = i" using map_Some [OF ok] r(1) by auto
  have d: "distinct (map (tb_id T) ?rows)" using ok by (simp add: table_ok_def)
  have sel: "select_where (tb_col T) ?cls ?rows = [r]"
    using keyed.select_by_key [OF d in'(1) r(2) [unfolded visible_def]] in'(2) by simp
  have upd: "map (\<lambda>x. if matches (tb_col T) ?cls x then f x else x) ?rows = ?rows'"
  proof (rule map_cong [OF refl])
    fix x assume x: "x \<in> set ?rows"
    show "(if matches (tb_col T) ?cls x then f x else x) = (if tb_id T x = i then f x else x)"
    proof (cases "tb_id T x = i")
      case True
      with x r(1) map_Some [OF ok] have "x = r" by (metis option.inject)
      with r(2) in'(2) show ?thesis by (simp add: col_id visible_def)
    qed (simp add: col_id)
  qed
  have stmt: "update_where (tb_col T) (tb_unique T) (tb_duplicate T) (tb_not_found T) ?cls f ?rows
      = Inr ?rows'"
    unfolding update_where_def upd Let_def using un sel by simp
  have d': "distinct (map (tb_id T) ?rows')" using d id by (simp add: comp_def if_distrib cong: if_cong)
  have "f r \<in> set ?rows'" using in' by force
  from keyed.select_by_key [OF d' this matches_simps(1)] id in'(2)
  have "select_where (tb_col T) [Eq (tb_id_col T) (VStr i)] ?rows' = [f r]" by simp
  then show ?thesis
    unfolding update_row_def write_rows_def by (simp add: bind_run seq_run stmt)
qed

text \<open>Removal.\<close>

lemma delete_row_ok:
  assumes run: "delete_row T ctx i w = (Inr r, w')" and ok: "table_ok T (w_db w)" and pl: "plain i"
  shows "table_map T (w_db w) i = Some r" "visible T ctx r"
    and "table_map T (w_db w') = (table_map T (w_db w))(i := None)" "table_ok T (w_db w')"
    and "w_db w' = tb_put T (tb_rows T (w_db w')) (w_db w)"
proof -
  let ?rows = "tb_rows T (w_db w)"
  from run obtain x w1 where g: "get_row T ctx i w = (Inr x, w1)"
    and del: "delete_found T ctx x w1 = (Inr r, w')"
    by (auto simp: delete_row_def comp_iffs)
  from g have w1: "w1 = w" and x: "table_map T (w_db w) i = Some x" "visible T ctx x"
    unfolding get_row_run [OF ok pl] by (auto split: option.splits if_splits)
  then have xs: "x \<in> set ?rows" "tb_id T x = i" using map_Some [OF ok] by auto
  from del w1 xs(2) have r: "r = x"
    and db: "w_db w' = tb_put T (filter (\<lambda>y. \<not> matches (tb_col T)
               (Eq (tb_id_col T) (VStr i) # tenant_clauses T ctx) y) ?rows) (w_db w)"
    by (auto simp: delete_found_def write_rows_def delete_where_def comp_iffs split: if_splits)
  have only: "y = x" if "y \<in> set ?rows" "tb_id T y = i" for y
    using that x(1) map_Some [OF ok] by (metis option.inject)
  have rows: "tb_rows T (w_db w') = filter (\<lambda>y. tb_id T y \<noteq> i) ?rows"
    unfolding db rows_put
  proof (rule filter_cong [OF refl])
    fix y assume "y \<in> set ?rows"
    then have "tb_id T y = i \<Longrightarrow> matches (tb_col T) (tenant_clauses T ctx) y"
      using only [of y] x(2) by (simp add: visible_def)
    then show "(\<not> matches (tb_col T) (Eq (tb_id_col T) (VStr i) # tenant_clauses T ctx) y)
        \<longleftrightarrow> tb_id T y \<noteq> i" by (auto simp: col_id)
  qed
  show "table_map T (w_db w) i = Some r" "visible T ctx r" using x r by simp_all
  show "w_db w' = tb_put T (tb_rows T (w_db w')) (w_db w)" unfolding db rows_put ..
  show ok': "table_ok T (w_db w')" using ok by (simp add: table_ok_def rows distinct_map_filter)
  show "table_map T (w_db w') = (table_map T (w_db w))(i := None)"
    by (intro map_eqI) (auto simp: map_Some [OF ok'] map_Some [OF ok] rows)
qed

lemma delete_then_get:
  assumes "delete_row T ctx i w = (Inr r, w')" "table_ok T (w_db w)" "plain i"
  shows "get_row T ctx' i w' = (Inl (tb_not_found T), w')"
  using delete_row_ok [OF assms] get_row_run [of w' i ctx'] assms(3) by simp

end

end
