(* ===== verification/CentralAdmin.thy ===== *)
theory CentralAdmin
  imports CentralZones Tables
begin

text \<open>
  The administrative operations of \<open>central/service.py\<close> with their storage: quotas, TLDs, TSIG keys,
  blacklists, tenants and the count report. TLDs, TSIG keys and blacklists are rows of a stored
  table (\<open>Tables\<close>); a TSIG key names the zone or the pool it signs for, which has to exist when the
  key is created and whenever its scope or its resource changes.
\<close>

section \<open>The tables\<close>

definition unique_tld :: "tld list \<Rightarrow> bool" where
  "unique_tld rows \<longleftrightarrow> distinct (map tld_id rows) \<and> distinct (map tld_name rows)"

definition tld_table :: "(tld, tld_column) table" where
  "tld_table = \<lparr>tb_rows = d_tlds, tb_put = (\<lambda>rows d. d\<lparr>d_tlds := rows\<rparr>), tb_col = tld_col,
     tb_id_col = TC_id, tb_tenant_col = None, tb_id = tld_id,
     tb_set_id = (\<lambda>i t. t\<lparr>tld_id := i\<rparr>), tb_unique = unique_tld,
     tb_duplicate = Duplicate (Some R_Tld), tb_not_found = TldNotFound\<rparr>"

datatype blacklist_column = BC_id | BC_pattern

fun blacklist_col :: "blacklist \<Rightarrow> blacklist_column \<Rightarrow> sqlval" where
  "blacklist_col b BC_id = VStr (bl_id b)"
| "blacklist_col b BC_pattern = VStr (bl_pattern b)"

definition unique_blacklist :: "blacklist list \<Rightarrow> bool" where
  "unique_blacklist rows \<longleftrightarrow> distinct (map bl_id rows) \<and> distinct (map bl_pattern rows)"

definition blacklist_table :: "(blacklist, blacklist_column) table" where
  "blacklist_table = \<lparr>tb_rows = d_blacklists, tb_put = (\<lambda>rows d. d\<lparr>d_blacklists := rows\<rparr>),
     tb_col = blacklist_col, tb_id_col = BC_id, tb_tenant_col = None, tb_id = bl_id,
     tb_set_id = (\<lambda>i b. b\<lparr>bl_id := i\<rparr>), tb_unique = unique_blacklist,
     tb_duplicate = Duplicate (Some R_Blacklist), tb_not_found = NotFound (NF_of R_Blacklist)\<rparr>"

datatype key_column = KC_id | KC_name | KC_algorithm | KC_scope | KC_resource_id

fun key_col :: "tsigkey \<Rightarrow> key_column \<Rightarrow> sqlval" where
  "key_col k KC_id = VStr (k_id k)"
| "key_col k KC_name = VStr (k_name k)"
| "key_col k KC_algorithm = VStr (k_algorithm k)"
| "key_col k KC_scope = VStr (k_scope k)"
| "key_col k KC_resource_id = VStr (k_resource_id k)"

definition unique_key :: "tsigkey list \<Rightarrow> bool" where
  "unique_key rows \<longleftrightarrow> distinct (map k_id rows) \<and> distinct (map k_name rows)"

definition tsigkey_table :: "(tsigkey, key_column) table" where
  "tsigkey_table = \<lparr>tb_rows = d_tsigkeys, tb_put = (\<lambda>rows d. d\<lparr>d_tsigkeys := rows\<rparr>),
     tb_col = key_col, tb_id_col = KC_id, tb_tenant_col = None, tb_id = k_id,
     tb_set_id = (\<lambda>i k. k\<lparr>k_id := i\<rparr>), tb_unique = unique_key,
     tb_duplicate = Duplicate (Some R_TsigKey), tb_not_found = TsigKeyNotFound\<rparr>"

interpretation tlds: stored_table tld_table
  by unfold_locales (simp_all add: tld_table_def unique_tld_def)

interpretation blacklists: stored_table blacklist_table
  by unfold_locales (simp_all add: blacklist_table_def unique_blacklist_def)

interpretation tsigkeys: stored_table tsigkey_table
  by unfold_locales (simp_all add: tsigkey_table_def unique_key_def)

text \<open>The columns a list can be sorted by.\<close>

definition tld_attr ::
  "(string \<Rightarrow> int) \<Rightarrow> (string \<Rightarrow> int option) \<Rightarrow> string \<Rightarrow> (tld \<Rightarrow> sqlval) option" where
  "tld_attr created updated = map_of
     [(''id'', \<lambda>t. VStr (tld_id t)), (''created_at'', \<lambda>t. VInt (created (tld_id t))),
      (''updated_at'', \<lambda>t. case updated (tld_id t) of None \<Rightarrow> VNull | Some n \<Rightarrow> VInt n),
      (''name'', \<lambda>t. VStr (tld_name t)), (''description'', \<lambda>t. opt_str (tld_description t))]"

definition blacklist_attr ::
  "(string \<Rightarrow> int) \<Rightarrow> (string \<Rightarrow> int option) \<Rightarrow> string \<Rightarrow> (blacklist \<Rightarrow> sqlval) option" where
  "blacklist_attr created updated = map_of
     [(''id'', \<lambda>b. VStr (bl_id b)), (''created_at'', \<lambda>b. VInt (created (bl_id b))),
      (''updated_at'', \<lambda>b. case updated (bl_id b) of None \<Rightarrow> VNull | Some n \<Rightarrow> VInt n),
      (''pattern'', \<lambda>b. VStr (bl_pattern b)), (''description'', \<lambda>b. opt_str (bl_description b))]"

definition key_attr ::
  "(string \<Rightarrow> int) \<Rightarrow> (string \<Rightarrow> int option) \<Rightarrow> string \<Rightarrow> (tsigkey \<Rightarrow> sqlval) option" where
  "key_attr created updated = map_of
     [(''id'', \<lambda>k. VStr (k_id k)), (''created_at'', \<lambda>k. VInt (created (k_id k))),
      (''updated_at'', \<lambda>k. case updated (k_id k) of None \<Rightarrow> VNull | Some n \<Rightarrow> VInt n),
      (''name'', \<lambda>k. VStr (k_name k)), (''algorithm'', \<lambda>k. VStr (k_algorithm k)),
      (''secret'', \<lambda>k. VStr (k_secret k)), (''scope'', \<lambda>k. VStr (k_scope k)),
      (''resource_id'', \<lambda>k. VStr (k_resource_id k))]"

section \<open>Quotas\<close>

definition get_absolute_limits :: "env \<Rightarrow> req_context \<Rightarrow> quotas sys" where
  "get_absolute_limits E ctx =
     (case c_project_id ctx of
        None \<Rightarrow> return (get_default_quotas (e_conf E))
      | Some t \<Rightarrow> get_quotas E ctx t)"

text \<open>A quota is read and written by its own project, or with \<open>all_tenants\<close>.\<close>

definition own_project_only :: "req_context \<Rightarrow> string \<Rightarrow> unit sys" where
  "own_project_only ctx tenant =
     raise_if (Some tenant \<noteq> c_project_id ctx \<and> \<not> c_all_tenants ctx) (Forbidden F_plain)"

definition central_get_quotas :: "env \<Rightarrow> req_context \<Rightarrow> string \<Rightarrow> quotas sys" where
  "central_get_quotas E ctx tenant =
     seq (check E ''get_quotas'' ctx
            (project_target (Some tenant) @ [(''all_tenants'', VBool (c_all_tenants ctx))]))
     (seq (own_project_only ctx tenant) (get_quotas E ctx tenant))"

definition central_set_quota :: "env \<Rightarrow> req_context \<Rightarrow> string \<Rightarrow> string \<Rightarrow> int \<Rightarrow> quotas sys" where
  "central_set_quota E ctx tenant res limit =
     transaction (
       seq (check E ''set_quota'' ctx
              (project_target (Some tenant) @
               [(''resource'', VStr res), (''hard_limit'', VInt limit)]))
       (seq (own_project_only ctx tenant) (set_quota E ctx tenant res limit)))"

definition central_reset_quotas :: "env \<Rightarrow> req_context \<Rightarrow> string \<Rightarrow> unit sys" where
  "central_reset_quotas E ctx tenant =
     transaction (
       seq (check E ''reset_quotas'' ctx (project_target (Some tenant)))
       (reset_quotas E ctx tenant))"

section \<open>Top level domains\<close>

text \<open>An update carries the attributes the client changed.\<close>

datatype tld_change = Tld_name string | Tld_description "string option"

fun change_tld :: "tld_change \<Rightarrow> tld \<Rightarrow> tld" where
  "change_tld (Tld_name n) t = t\<lparr>tld_name := n\<rparr>"
| "change_tld (Tld_description d) t = t\<lparr>tld_description := d\<rparr>"

definition create_tld :: "env \<Rightarrow> req_context \<Rightarrow> tld \<Rightarrow> tld sys" where
  "create_tld E ctx t =
     transaction (seq (check E ''create_tld'' ctx []) (create_row E tld_table t))"

definition find_tlds ::
  "env \<Rightarrow> (string \<Rightarrow> int) \<Rightarrow> (string \<Rightarrow> int option) \<Rightarrow> req_context \<Rightarrow> (tld_column \<times> crit) list
     \<Rightarrow> page_args \<Rightarrow> tld list sys" where
  "find_tlds E created updated ctx criterion pg =
     seq (check E ''find_tlds'' ctx [])
     (find_row_page E (tld_attr created updated) tld_table ctx criterion pg)"

definition get_tld :: "env \<Rightarrow> req_context \<Rightarrow> string \<Rightarrow> tld sys" where
  "get_tld E ctx i =
     seq (check E ''get_tld'' ctx [(''tld_id'', VStr i)]) (get_row tld_table ctx i)"

definition update_tld :: "env \<Rightarrow> req_context \<Rightarrow> string \<Rightarrow> tld_change list \<Rightarrow> tld sys" where
  "update_tld E ctx i cs =
     transaction (
       seq (check E ''update_tld'' ctx [(''tld_id'', VStr i)])
       (update_row tld_table ctx i (fold change_tld cs)))"

definition delete_tld :: "env \<Rightarrow> req_context \<Rightarrow> string \<Rightarrow> tld sys" where
  "delete_tld E ctx i =
     transaction (
       seq (check E ''delete_tld'' ctx [(''tld_id'', VStr i)]) (delete_row tld_table ctx i))"

section \<open>TSIG keys\<close>

datatype key_change =
  Key_name string | Key_algorithm string | Key_secret string | Key_scope string
| Key_resource_id string

fun change_key :: "key_change \<Rightarrow> tsigkey \<Rightarrow> tsigkey" where
  "change_key (Key_name n) k = k\<lparr>k_name := n\<rparr>"
| "change_key (Key_algorithm a) k = k\<lparr>k_algorithm := a\<rparr>"
| "change_key (Key_secret s) k = k\<lparr>k_secret := s\<rparr>"
| "change_key (Key_scope s) k = k\<lparr>k_scope := s\<rparr>"
| "change_key (Key_resource_id i) k = k\<lparr>k_resource_id := i\<rparr>"

text \<open>The zone is looked up in any project, the pool as the caller sees pools.\<close>

definition check_key_resource :: "req_context \<Rightarrow> string \<Rightarrow> string \<Rightarrow> unit sys" where
  "check_key_resource ctx scope resource_id =
     (if scope = ''ZONE'' then
        catch (bind (storage_get_zone ctx resource_id False) (\<lambda>_. return ()))
          (\<lambda>e. if e = ZoneNotFound then Some (raise (BadRequest InvalidTsigKey)) else None)
      else if scope = ''POOL'' then
        catch (bind (storage_get_pool ctx resource_id) (\<lambda>_. return ()))
          (\<lambda>e. if e = PoolNotFound then Some (raise (BadRequest InvalidTsigKey)) else None)
      else return ())"

definition create_tsigkey :: "env \<Rightarrow> req_context \<Rightarrow> tsigkey \<Rightarrow> tsigkey sys" where
  "create_tsigkey E ctx k =
     transaction (
       seq (check E ''create_tsigkey'' ctx [])
       (seq (check_key_resource ctx (k_scope k) (k_resource_id k))
       (create_row E tsigkey_table k)))"

definition find_tsigkeys ::
  "env \<Rightarrow> (string \<Rightarrow> int) \<Rightarrow> (string \<Rightarrow> int option) \<Rightarrow> req_context \<Rightarrow> (key_column \<times> crit) list
     \<Rightarrow> page_args \<Rightarrow> tsigkey list sys" where
  "find_tsigkeys E created updated ctx criterion pg =
     seq (check E ''find_tsigkeys'' ctx [])
     (find_row_page E (key_attr created updated) tsigkey_table ctx criterion pg)"

definition get_tsigkey :: "env \<Rightarrow> req_context \<Rightarrow> string \<Rightarrow> tsigkey sys" where
  "get_tsigkey E ctx i =
     seq (check E ''get_tsigkey'' ctx [(''tsigkey_id'', VStr i)]) (get_row tsigkey_table ctx i)"

text \<open>\<open>k\<close> is the object as it was loaded, \<open>cs\<close> what has been assigned to it since; its resource
  is only looked at when the scope or the resource is among the changed attributes.\<close>

fun changes_resource :: "key_change \<Rightarrow> bool" where
  "changes_resource (Key_scope s) = True"
| "changes_resource (Key_resource_id i) = True"
| "changes_resource _ = False"

definition update_tsigkey :: "env \<Rightarrow> req_context \<Rightarrow> tsigkey \<Rightarrow> key_change list \<Rightarrow> tsigkey sys" where
  "update_tsigkey E ctx k cs =
     (let k' = fold change_key cs k in
      transaction (
        seq (check E ''update_tsigkey'' ctx [(''tsigkey_id'', VStr (k_id k))])
        (seq (if list_ex changes_resource cs
              then check_key_resource ctx (k_scope k') (k_resource_id k') else return ())
        (update_row tsigkey_table ctx (k_id k) (fold change_key cs)))))"

definition delete_tsigkey :: "env \<Rightarrow> req_context \<Rightarrow> string \<Rightarrow> tsigkey sys" where
  "delete_tsigkey E ctx i =
     transaction (
       seq (check E ''delete_tsigkey'' ctx [(''tsigkey_id'', VStr i)])
       (delete_row tsigkey_table ctx i))"

section \<open>Blacklists\<close>

datatype blacklist_change = Bl_pattern string | Bl_description "string option"

fun change_blacklist :: "blacklist_change \<Rightarrow> blacklist \<Rightarrow> blacklist" where
  "change_blacklist (Bl_pattern p) b = b\<lparr>bl_pattern := p\<rparr>"
| "change_blacklist (Bl_description d) b = b\<lparr>bl_description := d\<rparr>"

definition create_blacklist :: "env \<Rightarrow> req_context \<Rightarrow> blacklist \<Rightarrow> blacklist sys" where
  "create_blacklist E ctx b =
     transaction (seq (check E ''create_blacklist'' ctx []) (create_row E blacklist_table b))"

definition get_blacklist :: "env \<Rightarrow> req_context \<Rightarrow> string \<Rightarrow> blacklist sys" where
  "get_blacklist E ctx i =
     seq (check E ''get_blacklist'' ctx []) (get_row blacklist_table ctx i)"

definition find_blacklists ::
  "env \<Rightarrow> (string \<Rightarrow> int) \<Rightarrow> (string \<Rightarrow> int option) \<Rightarrow> req_context \<Rightarrow> (blacklist_column \<times> crit) list
     \<Rightarrow> page_args \<Rightarrow> blacklist list sys" where
  "find_blacklists E created updated ctx criterion pg =
     seq (check E ''find_blacklists'' ctx [])
     (find_row_page E (blacklist_attr created updated) blacklist_table ctx criterion pg)"

definition update_blacklist ::
  "env \<Rightarrow> req_context \<Rightarrow> string \<Rightarrow> blacklist_change list \<Rightarrow> blacklist sys" where
  "update_blacklist E ctx i cs =
     transaction (
       seq (check E ''update_blacklist'' ctx [(''blacklist_id'', VStr i)])
       (update_row blacklist_table ctx i (fold change_blacklist cs)))"

definition delete_blacklist :: "env \<Rightarrow> req_context \<Rightarrow> string \<Rightarrow> blacklist sys" where
  "delete_blacklist E ctx i =
     transaction (
       seq (check E ''delete_blacklist'' ctx []) (delete_row blacklist_table ctx i))"

section \<open>Tenants\<close>

text \<open>The rows of the zones table the context may see, without the join on shares.\<close>

definition tenant_zones :: "req_context \<Rightarrow> db \<Rightarrow> zone list" where
  "tenant_zones ctx d =
     select_where zone_row_col
       (apply_tenant_criteria ctx (Some ZC_tenant_id) ZC_target_project_id True False
        @ apply_deleted_criteria ctx (Some ZC_deleted)) (d_zones d)"

text \<open>GROUP BY \<open>tenant_id\<close>, each group with its count; SQL leaves the order of the groups open.\<close>

definition zones_of :: "string option \<Rightarrow> zone list \<Rightarrow> zone list" where
  "zones_of t zs = filter (\<lambda>z. z_tenant_id z = t) zs"

definition find_tenants :: "env \<Rightarrow> req_context \<Rightarrow> (string option \<times> int) list sys" where
  "find_tenants E ctx =
     seq (check E ''find_tenants'' ctx [])
     (gets (\<lambda>w. let zs = tenant_zones ctx (w_db w) in
        map (\<lambda>t. (t, int (length (zones_of t zs)))) (remdups (map z_tenant_id zs))))"

definition get_tenant :: "env \<Rightarrow> req_context \<Rightarrow> string \<Rightarrow> (string \<times> int \<times> string list) sys" where
  "get_tenant E ctx tenant =
     seq (check E ''get_tenant'' ctx (project_target (Some tenant)))
     (gets (\<lambda>w. let zs = zones_of (Some tenant) (tenant_zones ctx (w_db w)) in
        (tenant, int (length zs), map z_name zs)))"

text \<open>\<open>count(distinct tenant_id)\<close> does not count NULL.\<close>

definition count_tenants :: "env \<Rightarrow> req_context \<Rightarrow> int sys" where
  "count_tenants E ctx =
     seq (check E ''count_tenants'' ctx [])
     (gets (\<lambda>w. int (length (remdups (filter (\<lambda>t. t \<noteq> None)
        (map z_tenant_id (tenant_zones ctx (w_db w))))))))"

section \<open>The report\<close>

definition count_records ::
  "env \<Rightarrow> req_context \<Rightarrow> (record_column \<times> crit) list \<Rightarrow> int sys" where
  "count_records E ctx criterion =
     seq (check E ''count_records'' ctx
            (let t = (case map_of criterion DC_tenant_id of Some (CStr s) \<Rightarrow> VStr s | _ \<Rightarrow> VNull)
             in [(''project_id'', t), (''tenant_id'', t)]))
       (storage_count_records ctx criterion)"

definition count_report :: "env \<Rightarrow> req_context \<Rightarrow> string option \<Rightarrow> (string \<times> int) list list sys" where
  "count_report E ctx criterion =
     (case criterion of
        None \<Rightarrow>
          bind (count_zones E ctx []) (\<lambda>z.
          bind (count_records E ctx []) (\<lambda>r.
          bind (count_tenants E ctx) (\<lambda>t.
          return [[(''zones'', z), (''records'', r), (''tenants'', t)]])))
      | Some c \<Rightarrow>
          if c = ''zones'' then bind (count_zones E ctx []) (\<lambda>z. return [[(''zones'', z)]])
          else if c = ''zones_delayed_notify'' then
            bind (count_zones E ctx [(ZC_delayed_notify, CVal (VBool True))])
              (\<lambda>z. return [[(''zones_delayed_notify'', z)]])
          else if c = ''records'' then bind (count_records E ctx []) (\<lambda>r. return [[(''records'', r)]])
          else if c = ''tenants'' then bind (count_tenants E ctx) (\<lambda>t. return [[(''tenants'', t)]])
          else raise (NotFound (NF_of R_Report)))"

end
