(* ===== verification/AdminProps.thy ===== *)
theory AdminProps
  imports CentralAdmin
begin

text \<open>
  What the administrative operations do. Requests on TSIG keys, in any order and with any of them
  failing, act on the stored keys as insertion, change and removal act on a finite map, and touch no
  other table; a key that was created, or whose scope or resource changed, points to a zone or a pool
  that exists. The tenants reported partition the zones counted.
\<close>

section \<open>TSIG keys as a finite map\<close>

text \<open>The requests that write keys, and what each is to do to the map when it succeeds with \<open>r\<close>.\<close>

datatype key_op = Key_create tsigkey | Key_update tsigkey "key_change list" | Key_delete string

fun run_key_op :: "env \<Rightarrow> req_context \<Rightarrow> key_op \<Rightarrow> tsigkey sys" where
  "run_key_op E ctx (Key_create k) = create_tsigkey E ctx k"
| "run_key_op E ctx (Key_update k cs) = update_tsigkey E ctx k cs"
| "run_key_op E ctx (Key_delete i) = delete_tsigkey E ctx i"

fun key_spec :: "key_op \<Rightarrow> tsigkey \<Rightarrow> (string \<Rightarrow> tsigkey option) \<Rightarrow> string \<Rightarrow> tsigkey option" where
  "key_spec (Key_create k) r m = m(k_id r \<mapsto> k\<lparr>k_id := k_id r\<rparr>)"
| "key_spec (Key_update k cs) r m = m(k_id k := map_option (fold change_key cs) (m (k_id k)))"
| "key_spec (Key_delete i) r m = m(i := None)"

text \<open>A sequence of requests, each answered or refused, and the specification's reading of it: only
  the answered ones count.\<close>

fun run_key_ops :: "env \<Rightarrow> req_context \<Rightarrow> key_op list \<Rightarrow> world \<Rightarrow> (exn + tsigkey) list \<times> world" where
  "run_key_ops E ctx [] w = ([], w)"
| "run_key_ops E ctx (op # ops) w =
     (case run_key_op E ctx op w of (r, w1) \<Rightarrow>
        (case run_key_ops E ctx ops w1 of (rs, w2) \<Rightarrow> (r # rs, w2)))"

fun key_specs ::
  "key_op list \<Rightarrow> (exn + tsigkey) list \<Rightarrow> (string \<Rightarrow> tsigkey option) \<Rightarrow> string \<Rightarrow> tsigkey option" where
  "key_specs (op # ops) (Inr r # rs) m = key_specs ops rs (key_spec op r m)"
| "key_specs (op # ops) (Inl e # rs) m = key_specs ops rs m"
| "key_specs _ _ m = m"

fun plain_op :: "key_op \<Rightarrow> bool" where
  "plain_op (Key_delete i) = plain i"
| "plain_op _ = True"

abbreviation key_map :: "db \<Rightarrow> string \<Rightarrow> tsigkey option" where
  "key_map \<equiv> table_map tsigkey_table"

text \<open>Everything but the keys.\<close>

definition other_tables :: "db \<Rightarrow> db" where
  "other_tables d = d\<lparr>d_tsigkeys := []\<rparr>"

lemma other_tables_put [simp]: "other_tables (tb_put tsigkey_table rows d) = other_tables d"
  by (simp add: other_tables_def tsigkey_table_def)

lemma change_key_id: "k_id (fold change_key cs k) = k_id k"
proof (induction cs arbitrary: k)
  case (Cons c cs)
  then show ?case by (cases c) simp_all
qed simp

lemma tsigkey_table_simps [simp]:
  "tb_id tsigkey_table = k_id" "tb_set_id tsigkey_table i k = k\<lparr>k_id := i\<rparr>"
  "tb_rows tsigkey_table = d_tsigkeys" "tb_not_found tsigkey_table = TsigKeyNotFound"
  "tenant_clauses tsigkey_table ctx = []" "visible tsigkey_table ctx k"
  by (simp_all add: tsigkey_table_def tenant_clauses_def visible_def apply_tenant_criteria_def)

lemma check_key_resource_state: "check_key_resource ctx s i w = (r, w') \<Longrightarrow> w' = w"
proof -
  have "readonly (check_key_resource ctx s i)"
    unfolding check_key_resource_def
    by (intro keeps_rules) (auto simp: readonly_def storage_get_zone_def find_zone_gen_def
        find_zones_gen_def storage_get_pool_def bind_run split: sum.splits prod.splits if_splits)
  then show "check_key_resource ctx s i w = (r, w') \<Longrightarrow> w' = w" by (rule readonlyD)
qed

lemma run_key_op_Inr:
  assumes "run_key_op E ctx op w = (Inr r, w')" "table_ok tsigkey_table (w_db w)" "plain_op op"
  shows "key_map (w_db w') = key_spec op r (key_map (w_db w))"
    and "table_ok tsigkey_table (w_db w')" and "other_tables (w_db w') = other_tables (w_db w)"
proof -
  have "key_map (w_db w') = key_spec op r (key_map (w_db w)) \<and>
    table_ok tsigkey_table (w_db w') \<and> other_tables (w_db w') = other_tables (w_db w)"
  proof (cases op)
    case (Key_create k)
    with assms(1) have cr: "create_row E tsigkey_table k w = (Inr r, w')"
      by (auto simp: create_tsigkey_def transaction_Inr comp_iffs dest!: check_key_resource_state)
    note ok = tsigkeys.create_row_ok [OF cr assms(2), simplified]
    have "other_tables (w_db w') = other_tables (w_db w)" using ok(6) other_tables_put by metis
    with ok Key_create show ?thesis by simp
  next
    case (Key_update k cs)
    with assms(1) have up: "update_row tsigkey_table ctx (k_id k) (fold change_key cs) w = (Inr r, w')"
      by (auto simp: update_tsigkey_def Let_def transaction_Inr comp_iffs
          dest!: check_key_resource_state split: if_splits)
    show ?thesis
    proof (rule tsigkeys.update_row_ok [OF up assms(2)])
      show "tb_id tsigkey_table (fold change_key cs x) = tb_id tsigkey_table x" for x
        by (simp add: change_key_id)
      fix x assume x: "table_map tsigkey_table (w_db w) (k_id k) = Some x" "r = fold change_key cs x"
        "key_map (w_db w') = (key_map (w_db w))(k_id k \<mapsto> r)" "table_ok tsigkey_table (w_db w')"
        "w_db w' = tb_put tsigkey_table (tb_rows tsigkey_table (w_db w')) (w_db w)"
      have "other_tables (w_db w') = other_tables (w_db w)" using x(5) other_tables_put by metis
      with x(1-4) Key_update show ?thesis by simp
    qed
  next
    case (Key_delete i)
    with assms(1) have de: "delete_row tsigkey_table ctx i w = (Inr r, w')"
      by (auto simp: delete_tsigkey_def transaction_Inr comp_iffs)
    from Key_delete assms(3) have "plain i" by simp
    note ok = tsigkeys.delete_row_ok [OF de assms(2) this]
    have "other_tables (w_db w') = other_tables (w_db w)" using ok(5) other_tables_put by metis
    with ok(3,4) Key_delete show ?thesis by simp
  qed
  then show "key_map (w_db w') = key_spec op r (key_map (w_db w))"
    "table_ok tsigkey_table (w_db w')" "other_tables (w_db w') = other_tables (w_db w)" by auto
qed

lemma run_key_op_Inl: "run_key_op E ctx op w = (Inl e, w') \<Longrightarrow> w_db w' = w_db w"
  by (cases op) (auto simp: create_tsigkey_def update_tsigkey_def delete_tsigkey_def Let_def
      dest!: transaction_Inl)

text \<open>C25: The TSIG key operations implement a finite map. Whatever requests to create, update and
  delete keys arrive, and whichever of them fail, the keys stored afterwards are what the map
  specification makes of the answered requests, no two keys share an identifier, and no other table
  has changed.\<close>

theorem tsigkeys_refine_map:
  assumes "run_key_ops E ctx ops w = (rs, w')" "table_ok tsigkey_table (w_db w)"
    and "list_all plain_op ops"
  shows "key_map (w_db w') = key_specs ops rs (key_map (w_db w)) \<and>
    table_ok tsigkey_table (w_db w') \<and> other_tables (w_db w') = other_tables (w_db w)"
  using assms
proof (induction ops arbitrary: w rs)
  case Nil
  then show ?case by simp
next
  case (Cons op ops)
  obtain r w1 where r: "run_key_op E ctx op w = (r, w1)" by fastforce
  obtain rs' where rs: "run_key_ops E ctx ops w1 = (rs', w')" "rs = r # rs'"
    using Cons.prems(1) r by (auto split: prod.splits)
  have pl: "plain_op op" "list_all plain_op ops" using Cons.prems(3) by auto
  show ?case
  proof (cases r)
    case (Inl e)
    with r run_key_op_Inl have "w_db w1 = w_db w" by blast
    with Cons.IH [OF rs(1)] Cons.prems(2) pl rs Inl show ?thesis by simp
  next
    case (Inr x)
    from run_key_op_Inr [OF r [unfolded Inr] Cons.prems(2) pl(1)] Cons.IH [OF rs(1)] pl rs Inr
    show ?thesis by simp
  qed
qed

text \<open>Two keys created for a pool, one renamed, a clash of names refused, one deleted.\<close>

definition sample_key :: "string \<Rightarrow> tsigkey" where
  "sample_key n = \<lparr>k_id = [], k_name = n, k_algorithm = ''hmac-sha256'', k_secret = ''s'',
     k_scope = ''POOL'', k_resource_id = ''p1''\<rparr>"

definition sample_key_ops :: "key_op list" where
  "sample_key_ops =
     [Key_create (sample_key ''a''), Key_create (sample_key ''a''), Key_create (sample_key ''b''),
      Key_update (sample_key ''a''\<lparr>k_id := ''abc''\<rparr>) [Key_name ''b''],
      Key_update (sample_key ''a''\<lparr>k_id := ''abc''\<rparr>) [Key_name ''c'', Key_scope ''ZONE''],
      Key_update (sample_key ''a''\<lparr>k_id := ''abc''\<rparr>) [Key_name ''c''],
      Key_delete ''abcdd'']"

lemma tsigkeys_refine_map_witness:
  "key_map (w_db (snd (run_key_ops sample_env admin_context sample_key_ops (world_of empty_db))))
     = key_specs sample_key_ops
         (fst (run_key_ops sample_env admin_context sample_key_ops (world_of empty_db)))
         (key_map (w_db (world_of empty_db))) \<and>
   map isl (fst (run_key_ops sample_env admin_context sample_key_ops (world_of empty_db)))
     = [False, True, False, True, True, False, False]"
proof -
  have "list_all plain_op sample_key_ops" by code_simp
  moreover have "table_ok tsigkey_table (w_db (world_of empty_db))" by code_simp
  moreover have "map isl (fst (run_key_ops sample_env admin_context sample_key_ops (world_of empty_db)))
     = [False, True, False, True, True, False, False]" by code_simp
  ultimately show ?thesis
    using tsigkeys_refine_map [of sample_env admin_context sample_key_ops "world_of empty_db"]
    by (metis prod.collapse)
qed

section \<open>What a key signs for\<close>

definition key_resource_exists :: "db \<Rightarrow> req_context \<Rightarrow> tsigkey \<Rightarrow> bool" where
  "key_resource_exists d ctx k \<longleftrightarrow>
     (k_scope k = ''ZONE'' \<longrightarrow> list_ex (\<lambda>z. z_id z = k_resource_id k \<and> (z_deleted z = ''0'' \<or> c_show_deleted ctx)) (d_zones d)) \<and>
     (k_scope k = ''POOL'' \<longrightarrow> list_ex (\<lambda>p. p_id p = k_resource_id k) (d_pools d))"

lemma check_key_resource_Inr:
  assumes "check_key_resource ctx (k_scope k) (k_resource_id k) w = (Inr u, w')"
    and "plain (k_resource_id k)"
  shows "key_resource_exists (w_db w) ctx k"
proof -
  have zone: "list_ex (\<lambda>z. z_id z = i \<and> (z_deleted z = ''0'' \<or> c_show_deleted ctx)) (d_zones (w_db w))"
    if get: "storage_get_zone ctx i False w = (Inr z, v)" and "plain i" for i z v
  proof -
    from get \<open>plain i\<close> have "z \<in> set (select_zones (Eq ZC_id (VStr i)
        # apply_deleted_criteria ctx (Some ZC_deleted)) (w_db w))"
      by (auto simp: storage_get_zone_def find_zone_gen_def find_zones_gen_def zone_where_def
          comp_iffs fetch_one_Inr and_then_def split: sum.splits)
    then obtain y t where y: "(y, t) \<in> set (zone_join (w_db w))"
      "matches zone_col (Eq ZC_id (VStr i) # apply_deleted_criteria ctx (Some ZC_deleted)) (y, t)"
      by (auto simp: select_zones_def select_where_def)
    from y(1) have "y \<in> set (d_zones (w_db w))"
      by (auto simp: zone_join_def Let_def split: if_splits)
    moreover from y(2) have "z_id y = i" "z_deleted y = ''0'' \<or> c_show_deleted ctx"
      by (auto simp: apply_deleted_criteria_def split: if_splits)
    ultimately show ?thesis by (auto simp: list_ex_iff)
  qed
  from assms(1) show ?thesis
    unfolding check_key_resource_def key_resource_exists_def
    by (auto simp: catch_Inr_iff comp_iffs list_ex_iff split: if_splits
        dest!: zone [OF _ assms(2)] storage_get_pool_Inr)
qed

text \<open>The objects a request works on: what was loaded is what is stored.\<close>

fun fresh_load :: "key_op \<Rightarrow> db \<Rightarrow> bool" where
  "fresh_load (Key_update k cs) d = (key_map d (k_id k) = Some k)"
| "fresh_load _ d = True"

fun checks_resource :: "key_op \<Rightarrow> bool" where
  "checks_resource (Key_create k) = True"
| "checks_resource (Key_update k cs) = list_ex changes_resource cs"
| "checks_resource (Key_delete i) = False"

text \<open>C27: A TSIG key that a client creates, or whose scope or resource it changes, signs for something
  that exists: when the request is answered, the returned key of scope ZONE names a zone that is not
  deleted (in whatever project), and one of scope POOL names a pool.\<close>

theorem tsigkey_resource_exists:
  assumes "run_key_op E ctx op w = (Inr r, w')" "table_ok tsigkey_table (w_db w)"
    and "checks_resource op" "fresh_load op (w_db w)" "plain (k_resource_id r)"
  shows "key_resource_exists (w_db w') ctx r"
proof -
  have frame: "key_resource_exists (w_db w') ctx r = key_resource_exists (w_db w) ctx r"
    if "other_tables (w_db w') = other_tables (w_db w)"
  proof -
    have "d_zones (w_db w') = d_zones (w_db w)" "d_pools (w_db w') = d_pools (w_db w)"
      using arg_cong [OF that, of d_zones] arg_cong [OF that, of d_pools]
      by (simp_all add: other_tables_def)
    then show ?thesis by (simp add: key_resource_exists_def)
  qed
  have same: "other_tables (w_db w') = other_tables (w_db w)"
    using run_key_op_Inr(3) [OF assms(1,2)] assms(3) by (cases op) auto
  show ?thesis
  proof (cases op)
    case (Key_create k)
    with assms(1) obtain u where
      ch: "check_key_resource ctx (k_scope k) (k_resource_id k) w = (Inr u, w)"
      and cr: "create_row E tsigkey_table k w = (Inr r, w')"
      by (auto simp: create_tsigkey_def transaction_Inr comp_iffs dest: check_key_resource_state)
    have r: "r = k\<lparr>k_id := k_id r\<rparr>" using tsigkeys.create_row_ok(1) [OF cr assms(2)] by simp
    then have eq: "k_scope r = k_scope k" "k_resource_id r = k_resource_id k"
      by (metis tsigkey.simps(5,11) tsigkey.surjective tsigkey.update_convs(1) tsigkey.select_convs)+
    have "key_resource_exists (w_db w) ctx r"
      using check_key_resource_Inr [of ctx r w u w] ch assms(5) eq by simp
    with frame [OF same] show ?thesis by simp
  next
    case (Key_update k cs)
    let ?k' = "fold change_key cs k"
    from assms(1,3) Key_update obtain u where
      ch: "check_key_resource ctx (k_scope ?k') (k_resource_id ?k') w = (Inr u, w)"
      by (auto simp: update_tsigkey_def Let_def transaction_Inr comp_iffs
          dest: check_key_resource_state)
    have "key_map (w_db w') (k_id k) = Some ?k'"
      using run_key_op_Inr(1) [OF assms(1,2)] Key_update assms(4) by simp
    moreover have "key_map (w_db w') (k_id k) = Some r"
    proof -
      from assms(1) Key_update have
        "update_row tsigkey_table ctx (k_id k) (fold change_key cs) w = (Inr r, w')"
        by (auto simp: update_tsigkey_def Let_def transaction_Inr comp_iffs
            dest!: check_key_resource_state split: if_splits)
      from tsigkeys.update_row_ok [OF this assms(2)] show ?thesis
        by (metis change_key_id fun_upd_same tsigkey_table_simps(1))
    qed
    ultimately have "r = ?k'" by simp
    with check_key_resource_Inr [OF ch] assms(5) frame [OF same] show ?thesis by simp
  qed (use assms(3) in simp)
qed

lemma tsigkey_resource_exists_witness:
  "key_resource_exists (w_db (snd (run_key_op sample_env admin_context
      (Key_create (sample_key ''a'')) (world_of empty_db)))) admin_context
      (projr (fst (run_key_op sample_env admin_context
      (Key_create (sample_key ''a'')) (world_of empty_db))))"
proof (rule tsigkey_resource_exists)
  let ?run = "run_key_op sample_env admin_context (Key_create (sample_key ''a'')) (world_of empty_db)"
  have "isl (fst ?run) = False" by code_simp
  then show "?run = (Inr (projr (fst ?run)), snd ?run)" by (cases ?run; cases "fst ?run") auto
  show "plain (k_resource_id (projr (fst ?run)))" by code_simp
  show "table_ok tsigkey_table (w_db (world_of empty_db))" by code_simp
qed simp_all

section \<open>Tenants\<close>

lemma zones_of_partition:
  assumes "distinct ts" "\<And>z. z \<in> set zs \<Longrightarrow> z_tenant_id z \<in> set ts"
  shows "sum_list (map (\<lambda>t. int (length (zones_of t zs))) ts) = int (length zs)"
  using assms(2)
proof (induction zs)
  case Nil
  then show ?case by (simp add: zones_of_def sum_list_0)
next
  case (Cons z zs)
  have "(\<Sum>t\<leftarrow>ts. int (length (zones_of t (z # zs))))
      = (\<Sum>t\<leftarrow>ts. (if t = z_tenant_id z then 1 else 0) + int (length (zones_of t zs)))"
    by (rule arg_cong [where f = sum_list], rule map_cong) (auto simp: zones_of_def)
  also have "\<dots> = (\<Sum>t\<leftarrow>ts. if t = z_tenant_id z then 1 else 0) + int (length zs)"
    using Cons by (simp add: sum_list_addf)
  also have "(\<Sum>t\<leftarrow>ts. if t = z_tenant_id z then 1 else (0::int)) = 1"
  proof -
    have "(\<Sum>t\<leftarrow>us. if t = x then 1 else (0::int)) = (if x \<in> set us then 1 else 0)"
      if "distinct us" for us :: "string option list" and x
      using that by (induction us) auto
    then show ?thesis using assms(1) Cons.prems by simp
  qed
  finally show ?case by simp
qed

lemma storage_count_zones_all:
  "storage_count_zones ctx [] w = (Inr (int (length (tenant_zones ctx (w_db w)))), w)"
  by (simp add: storage_count_zones_def tenant_zones_def bind_run)

text \<open>The tenants report and the zone count agree. The counts \<open>find_tenants\<close> gives, one entry per
  owner, add up to \<open>count_zones\<close>; \<open>count_tenants\<close> is the number of its entries that have an owner;
  and \<open>get_tenant\<close> answers for an owner with the count of its entry and as many zone names.\<close>

theorem tenants_partition_zones:
  assumes "find_tenants E ctx w = (Inr ts, w1)" "count_zones E ctx [] w = (Inr n, w2)"
    and "count_tenants E ctx w = (Inr m, w3)" "get_tenant E ctx t w = (Inr (t', k, names), w4)"
  shows "distinct (map fst ts) \<and> sum_list (map snd ts) = n \<and>
    m = int (length (filter (\<lambda>(o', c). o' \<noteq> None) ts)) \<and>
    k = (case map_of ts (Some t) of None \<Rightarrow> 0 | Some c \<Rightarrow> c) \<and> int (length names) = k"
proof -
  let ?zs = "tenant_zones ctx (w_db w)"
  let ?own = "remdups (map z_tenant_id ?zs)"
  from assms(1) have ts: "ts = map (\<lambda>t. (t, int (length (zones_of t ?zs)))) ?own"
    by (auto simp: find_tenants_def comp_iffs Let_def)
  have n: "n = int (length ?zs)"
    using assms(2) by (auto simp: count_zones_def comp_iffs storage_count_zones_all)
  have fst: "map fst ts = ?own" by (simp add: ts comp_def)
  have sum: "sum_list (map snd ts) = n"
    using zones_of_partition [of ?own ?zs] by (simp add: ts n comp_def)
  have "m = int (length (remdups (filter (\<lambda>t. t \<noteq> None) (map z_tenant_id ?zs))))"
    using assms(3) by (auto simp: count_tenants_def comp_iffs)
  also have "remdups (filter (\<lambda>t. t \<noteq> None) (map z_tenant_id ?zs)) = filter (\<lambda>t. t \<noteq> None) ?own"
    by (simp add: remdups_filter)
  also have "length (filter (\<lambda>t. t \<noteq> None) ?own) = length (filter (\<lambda>(o', c). o' \<noteq> None) ts)"
    by (simp add: ts filter_map comp_def split_beta)
  finally have m: "m = int (length (filter (\<lambda>(o', c). o' \<noteq> None) ts))" .
  from assms(4) have k: "k = int (length (zones_of (Some t) ?zs))" "length names = length (zones_of (Some t) ?zs)"
    by (auto simp: get_tenant_def comp_iffs Let_def)
  have "map_of ts (Some t) = (if Some t \<in> set ?own then Some (int (length (zones_of (Some t) ?zs))) else None)"
  proof -
    have "map_of (map (\<lambda>t. (t, g t)) us) x = (if x \<in> set us then Some (g x) else None)"
      for us and g :: "string option \<Rightarrow> int" and x
      by (induction us) auto
    then show ?thesis by (simp add: ts)
  qed
  moreover have "Some t \<notin> set ?own \<Longrightarrow> zones_of (Some t) ?zs = []"
    by (force simp: zones_of_def filter_empty_conv)
  ultimately have "k = (case map_of ts (Some t) of None \<Rightarrow> 0 | Some c \<Rightarrow> c)" using k(1) by auto
  then show ?thesis using sum m k fst by simp
qed

definition tenants_db :: db where
  "tenants_db = empty_db\<lparr>d_zones := [sample_zone ''z1'' ''t1'' ''a.o.'', sample_zone ''z2'' ''t2'' ''b.o.'',
     sample_zone ''z3'' ''t1'' ''c.o.'', (sample_zone ''z4'' ''t3'' ''d.o.'')\<lparr>z_tenant_id := None\<rparr>]\<rparr>"

lemma tenants_partition_zones_witness:
  "sum_list (map snd [(Some ''t2'', 1), (Some ''t1'', 2), (None, 1)]) = (4 :: int) \<and>
   (2 :: int) = int (length (filter (\<lambda>(o', c). o' \<noteq> None)
      [(Some ''t2'', 1 :: int), (Some ''t1'', 2), (None, 1)]))"
proof -
  let ?w = "world_of tenants_db"
  have "find_tenants sample_env worker_context ?w
      = (Inr [(Some ''t2'', 1), (Some ''t1'', 2), (None, 1)], ?w)" by code_simp
  moreover have "count_zones sample_env worker_context [] ?w = (Inr 4, ?w)" by code_simp
  moreover have "count_tenants sample_env worker_context ?w = (Inr 2, ?w)" by code_simp
  moreover have "get_tenant sample_env worker_context ''t1'' ?w = (Inr (''t1'', 2, [''a.o.'', ''c.o.'']), ?w)"
    by code_simp
  ultimately show ?thesis by (rule tenants_partition_zones [THEN conjunct2, THEN conj_forward]) auto
qed

end
