(* ===== verification/ZoneTasks.thy ===== *)
theory ZoneTasks
  imports CentralAdmin CentralProps FieldTypes Worker
begin

text \<open>
  Zone imports and exports: the \<open>zone_tasks\<close> table with its two views in
  \<open>storage/sqlalchemy/__init__.py\<close>, the operations of \<open>central/service.py\<close> on them, the thread
  \<open>_import_zone\<close> that reads the zone file and creates the zone, and the worker's \<open>ExportZone\<close> with its
  answer to central. dnspython's reader of zone files and the text of an exception are parameters. The
  import theorem says that an import always ends.
\<close>

section \<open>The table\<close>

datatype task_column =
  KT_id | KT_tenant_id | KT_type | KT_zone_id | KT_status | KT_message | KT_location

fun task_col :: "zone_task \<Rightarrow> task_column \<Rightarrow> sqlval" where
  "task_col t KT_id = VStr (zt_id t)"
| "task_col t KT_tenant_id = opt_str (zt_tenant_id t)"
| "task_col t KT_type = VStr (zt_type t)"
| "task_col t KT_zone_id = opt_str (zt_zone_id t)"
| "task_col t KT_status = VStr (zt_status t)"
| "task_col t KT_message = opt_str (zt_message t)"
| "task_col t KT_location = opt_str (zt_location t)"

definition task_table :: "exn \<Rightarrow> exn \<Rightarrow> (zone_task, task_column) table" where
  "task_table dup nf = \<lparr>tb_rows = d_tasks, tb_put = (\<lambda>rows d. d\<lparr>d_tasks := rows\<rparr>), tb_col = task_col,
     tb_id_col = KT_id, tb_tenant_col = Some KT_tenant_id, tb_id = zt_id,
     tb_set_id = (\<lambda>i t. t\<lparr>zt_id := i\<rparr>), tb_unique = (\<lambda>rows. distinct (map zt_id rows)),
     tb_duplicate = dup, tb_not_found = nf\<rparr>"

definition import_table :: "(zone_task, task_column) table" where
  "import_table = task_table (Duplicate (Some R_ZoneImport)) (NotFound (NF_of R_ZoneImport))"

definition export_table :: "(zone_task, task_column) table" where
  "export_table = task_table (Duplicate (Some R_ZoneExport)) (NotFound (NF_of R_ZoneExport))"

interpretation import_tasks: stored_table import_table
  by unfold_locales (simp_all add: import_table_def task_table_def)

interpretation export_tasks: stored_table export_table
  by unfold_locales (simp_all add: export_table_def task_table_def)

definition task_attr ::
  "(string \<Rightarrow> int) \<Rightarrow> (string \<Rightarrow> int option) \<Rightarrow> string \<Rightarrow> (zone_task \<Rightarrow> sqlval) option" where
  "task_attr created updated = map_of
     [(''id'', \<lambda>t. VStr (zt_id t)), (''created_at'', \<lambda>t. VInt (created (zt_id t))),
      (''updated_at'', \<lambda>t. case updated (zt_id t) of None \<Rightarrow> VNull | Some n \<Rightarrow> VInt n),
      (''tenant_id'', \<lambda>t. opt_str (zt_tenant_id t)), (''zone_id'', \<lambda>t. opt_str (zt_zone_id t)),
      (''task_type'', \<lambda>t. VStr (zt_type t)), (''message'', \<lambda>t. opt_str (zt_message t)),
      (''status'', \<lambda>t. VStr (zt_status t)), (''location'', \<lambda>t. opt_str (zt_location t))]"

text \<open>\<open>criterion['task_type'] = ...\<close>.\<close>

definition with_type :: "string \<Rightarrow> (task_column \<times> crit) list \<Rightarrow> (task_column \<times> crit) list" where
  "with_type ty criterion = filter (\<lambda>(c, v). c \<noteq> KT_type) criterion @ [(KT_type, CStr ty)]"

definition count_zone_tasks :: "req_context \<Rightarrow> (task_column \<times> crit) list \<Rightarrow> int sys" where
  "count_zone_tasks ctx criterion = count_rows import_table ctx criterion"

text \<open>A list of tasks carries the count of all that match.\<close>

definition storage_find_zone_imports ::
  "env \<Rightarrow> (string \<Rightarrow> int) \<Rightarrow> (string \<Rightarrow> int option) \<Rightarrow> req_context \<Rightarrow> (task_column \<times> crit) list
     \<Rightarrow> page_args \<Rightarrow> (zone_task list \<times> int) sys" where
  "storage_find_zone_imports E created updated ctx criterion pg =
     bind (find_row_page E (task_attr created updated) import_table ctx
             (with_type ''IMPORT'' criterion) pg) (\<lambda>ts.
     bind (count_zone_tasks ctx (with_type ''IMPORT'' criterion)) (\<lambda>n. return (ts, n)))"

definition storage_find_zone_import :: "req_context \<Rightarrow> (task_column \<times> crit) list \<Rightarrow> zone_task sys" where
  "storage_find_zone_import ctx criterion = find_row import_table ctx (with_type ''IMPORT'' criterion)"

definition storage_get_zone_import :: "req_context \<Rightarrow> string \<Rightarrow> zone_task sys" where
  "storage_get_zone_import ctx i = storage_find_zone_import ctx [(KT_id, CStr i)]"

definition storage_delete_zone_import :: "req_context \<Rightarrow> string \<Rightarrow> zone_task sys" where
  "storage_delete_zone_import ctx i =
     bind (storage_get_zone_import ctx i) (delete_found import_table ctx)"

definition storage_find_zone_exports ::
  "env \<Rightarrow> (string \<Rightarrow> int) \<Rightarrow> (string \<Rightarrow> int option) \<Rightarrow> req_context \<Rightarrow> (task_column \<times> crit) list
     \<Rightarrow> page_args \<Rightarrow> (zone_task list \<times> int) sys" where
  "storage_find_zone_exports E created updated ctx criterion pg =
     bind (find_row_page E (task_attr created updated) export_table ctx
             (with_type ''EXPORT'' criterion) pg) (\<lambda>ts.
     bind (count_zone_tasks ctx (with_type ''EXPORT'' criterion)) (\<lambda>n. return (ts, n)))"

definition storage_find_zone_export :: "req_context \<Rightarrow> (task_column \<times> crit) list \<Rightarrow> zone_task sys" where
  "storage_find_zone_export ctx criterion = find_row export_table ctx (with_type ''EXPORT'' criterion)"

definition storage_get_zone_export :: "req_context \<Rightarrow> string \<Rightarrow> zone_task sys" where
  "storage_get_zone_export ctx i = storage_find_zone_export ctx [(KT_id, CStr i)]"

definition storage_delete_zone_export :: "req_context \<Rightarrow> string \<Rightarrow> zone_task sys" where
  "storage_delete_zone_export ctx i =
     bind (storage_get_zone_export ctx i) (delete_found export_table ctx)"

text \<open>A new task, as central fills it in.\<close>

definition new_task :: "string \<Rightarrow> string option \<Rightarrow> string option \<Rightarrow> zone_task" where
  "new_task ty tenant zone_id = \<lparr>zt_id = [], zt_tenant_id = tenant, zt_type = ty, zt_zone_id = zone_id,
     zt_status = ''PENDING'', zt_message = None, zt_location = None\<rparr>"

section \<open>Imports\<close>

text \<open>What \<open>dnszone.from_text\<close> answers; \<open>Text_error\<close> is any other exception, by its text.\<close>

datatype zone_text = Zone_text dns_zone | Unknown_origin | Syntax_error | Text_error string

definition undefined_error :: "string \<Rightarrow> string" where
  "undefined_error s = ''An undefined error occurred. '' @ take 130 s"

text \<open>The SOA recordset is made by central, and so are the NS records of the apex.\<close>

definition imported_recordset :: "zone_request \<Rightarrow> recordset \<Rightarrow> bool" where
  "imported_recordset zr rs \<longleftrightarrow> rs_type rs \<noteq> ''SOA'' \<and> \<not> (rs_type rs = ''NS'' \<and> Some (rs_name rs) = zr_name zr)"

text \<open>The first half of \<open>_import_zone\<close>: the message of the failure, or the zone to create.\<close>

definition read_zone_file ::
  "env \<Rightarrow> (string \<Rightarrow> zone_text) \<Rightarrow> (exn \<Rightarrow> string) \<Rightarrow> string \<Rightarrow> (string \<times> string) list option
     \<Rightarrow> string + zone_request" where
  "read_zone_file E parse show_exn body attrs =
     (case parse body of
        Unknown_origin \<Rightarrow>
          Inl ''The $ORIGIN statement is required and must be the first statement in the zonefile.''
      | Syntax_error \<Rightarrow> Inl ''Malformed zonefile.''
      | Text_error s \<Rightarrow> Inl (undefined_error s)
      | Zone_text dz \<Rightarrow>
          (case from_dnspython_zone (e_conf E) dz of
             Inl (BadRequest b) \<Rightarrow> Inl ''An SOA record is required.''
           | Inl e \<Rightarrow> Inl (undefined_error (show_exn e))
           | Inr zr \<Rightarrow>
               Inr (zr\<lparr>zr_type := PRIMARY,
                      zr_attributes := (if attrs = None then zr_attributes zr else attrs),
                      zr_recordsets := filter (imported_recordset zr) (zr_recordsets zr)\<rparr>)))"

definition task_failed :: "string \<Rightarrow> zone_task \<Rightarrow> zone_task" where
  "task_failed m t = t\<lparr>zt_status := ''ERROR'', zt_message := Some m\<rparr>"

text \<open>The field of the message takes 160 characters; the assignment of a longer one raises. The
  status and the zone are assigned before the message.\<close>

definition imported :: "(exn \<Rightarrow> string) \<Rightarrow> zone \<Rightarrow> zone_task \<Rightarrow> zone_task" where
  "imported show_exn z t =
     (let t1 = t\<lparr>zt_status := ''COMPLETE'', zt_zone_id := Some (z_id z)\<rparr> in
      case string_field (Some 160) (z_name z @ '' imported'') of
        Inr m \<Rightarrow> t1\<lparr>zt_message := Some m\<rparr>
      | Inl e \<Rightarrow> task_failed (undefined_error (show_exn e)) t1)"

definition import_refused :: "(exn \<Rightarrow> string) \<Rightarrow> exn \<Rightarrow> zone_task \<Rightarrow> exn + zone_task" where
  "import_refused show_exn e t =
     (case e of
        Duplicate (Some R_Zone) \<Rightarrow> Inr (task_failed ''Duplicate zone.'' t)
      | InvalidTTL \<Rightarrow>
          (case string_field (Some 160) (show_exn e) of
             Inl x \<Rightarrow> Inl x | Inr m \<Rightarrow> Inr (task_failed m t))
      | OverQuota rs \<Rightarrow> Inr (task_failed ''Quota exceeded during zone import.'' t)
      | _ \<Rightarrow> Inr (task_failed (undefined_error (show_exn e)) t))"

definition write_task :: "zone_task \<Rightarrow> zone_task \<Rightarrow> zone_task" where
  "write_task t r = r\<lparr>zt_status := zt_status t, zt_message := zt_message t, zt_zone_id := zt_zone_id t,
     zt_location := zt_location t\<rparr>"

definition update_zone_import :: "env \<Rightarrow> req_context \<Rightarrow> zone_task \<Rightarrow> zone_task sys" where
  "update_zone_import E ctx t =
     seq (check E ''update_zone_import'' ctx (project_target (zt_tenant_id t)))
     (update_row import_table ctx (zt_id t) (write_task t))"

definition import_zone ::
  "env \<Rightarrow> filter_name list \<Rightarrow> (string \<Rightarrow> zone_text) \<Rightarrow> (exn \<Rightarrow> string) \<Rightarrow> req_context \<Rightarrow> zone_task
     \<Rightarrow> string \<Rightarrow> (string \<times> string) list option \<Rightarrow> zone_task sys" where
  "import_zone E filters parse show_exn ctx t body attrs =
     bind (case read_zone_file E parse show_exn body attrs of
             Inl m \<Rightarrow> return (task_failed m t)
           | Inr zr \<Rightarrow>
               catch (bind (create_zone E filters ctx zr) (\<lambda>z. return (imported show_exn z t)))
                 (\<lambda>e. Some (lift (import_refused show_exn e t)))) (\<lambda>t'.
     update_zone_import E ctx t')"

text \<open>The import that is returned is also the one the thread is started with.\<close>

definition create_zone_import ::
  "env \<Rightarrow> filter_name list \<Rightarrow> req_context \<Rightarrow> (string \<times> string) list option \<Rightarrow> zone_task sys" where
  "create_zone_import E filters ctx attrs =
     seq (check E ''create_zone_import'' ctx (project_target (c_project_id ctx)))
     (seq (is_valid_project_id (c_project_id ctx))
     (seq (if attrs = None then return ()
           else bind (schedule_zone E filters ctx attrs) (\<lambda>_. return ()))
     (create_row E import_table (new_task ''IMPORT'' (c_project_id ctx) None))))"

definition find_zone_imports ::
  "env \<Rightarrow> (string \<Rightarrow> int) \<Rightarrow> (string \<Rightarrow> int option) \<Rightarrow> req_context \<Rightarrow> (task_column \<times> crit) list
     \<Rightarrow> page_args \<Rightarrow> (zone_task list \<times> int) sys" where
  "find_zone_imports E created updated ctx criterion pg =
     seq (check E ''find_zone_imports'' ctx (project_target (c_project_id ctx)))
     (storage_find_zone_imports E created updated ctx (with_type ''IMPORT'' criterion) pg)"

definition get_zone_import :: "env \<Rightarrow> req_context \<Rightarrow> string \<Rightarrow> zone_task sys" where
  "get_zone_import E ctx i =
     seq (check E ''get_zone_import'' ctx (project_target (c_project_id ctx)))
     (storage_get_zone_import ctx i)"

definition delete_zone_import :: "env \<Rightarrow> req_context \<Rightarrow> string \<Rightarrow> zone_task sys" where
  "delete_zone_import E ctx i =
     transaction (
       seq (check E ''delete_zone_import'' ctx
              ((''zone_import_id'', VStr i) # project_target (c_project_id ctx)))
       (storage_delete_zone_import ctx i))"

section \<open>Exports\<close>

definition create_zone_export :: "env \<Rightarrow> req_context \<Rightarrow> string \<Rightarrow> zone_task sys" where
  "create_zone_export E ctx zone_id =
     bind (storage_get_zone ctx zone_id True) (\<lambda>z.
     seq (check E ''create_zone_export'' ctx (project_target (z_tenant_id z)))
     (seq (is_valid_project_id (c_project_id ctx))
     (bind (storage_count_recordsets ctx [(RC_zone_id, CStr zone_id)]) (\<lambda>n.
      seq (limit_check E ctx (opt_string (z_tenant_id z)) [(''api_export_size'', n)])
      (bind (create_row E export_table (new_task ''EXPORT'' (c_project_id ctx) (Some zone_id))) (\<lambda>t.
       seq (cast (W_start_zone_export z t)) (return t)))))))"

definition find_zone_exports ::
  "env \<Rightarrow> (string \<Rightarrow> int) \<Rightarrow> (string \<Rightarrow> int option) \<Rightarrow> req_context \<Rightarrow> (task_column \<times> crit) list
     \<Rightarrow> page_args \<Rightarrow> (zone_task list \<times> int) sys" where
  "find_zone_exports E created updated ctx criterion pg =
     seq (check E ''find_zone_exports'' ctx (project_target (c_project_id ctx)))
     (storage_find_zone_exports E created updated ctx (with_type ''EXPORT'' criterion) pg)"

definition get_zone_export :: "env \<Rightarrow> req_context \<Rightarrow> string \<Rightarrow> zone_task sys" where
  "get_zone_export E ctx i =
     seq (check E ''get_zone_export'' ctx (project_target (c_project_id ctx)))
     (storage_get_zone_export ctx i)"

definition update_zone_export :: "env \<Rightarrow> req_context \<Rightarrow> zone_task \<Rightarrow> zone_task sys" where
  "update_zone_export E ctx t =
     seq (check E ''update_zone_export'' ctx (project_target (zt_tenant_id t)))
     (update_row export_table ctx (zt_id t) (write_task t))"

definition delete_zone_export :: "env \<Rightarrow> req_context \<Rightarrow> string \<Rightarrow> zone_task sys" where
  "delete_zone_export E ctx i =
     transaction (
       seq (check E ''delete_zone_export'' ctx
              ((''zone_export_id'', VStr i) # project_target (c_project_id ctx)))
       (storage_delete_zone_export ctx i))"

text \<open>\<open>ExportZone\<close> on the message the worker got, up to central's update.\<close>

definition export_of_task :: "zone_task \<Rightarrow> zone_export" where
  "export_of_task t = \<lparr>ze_id = zt_id t, ze_status = zt_status t, ze_message = zt_message t,
     ze_location = zt_location t\<rparr>"

definition task_of_export :: "zone_export \<Rightarrow> zone_task \<Rightarrow> zone_task" where
  "task_of_export x t = t\<lparr>zt_status := ze_status x, zt_message := ze_message x, zt_location := ze_location x\<rparr>"

definition run_export :: "env \<Rightarrow> req_context \<Rightarrow> zone \<Rightarrow> zone_task \<Rightarrow> zone_task sys" where
  "run_export E ctx z t =
     bind (export_zone E ctx z (export_of_task t)) (\<lambda>x.
     update_zone_export E ctx (task_of_export x t))"

end
