(* ===== verification/CentralFrame.thy ===== *)
theory CentralFrame
  imports CentralProps
begin

text \<open>
  What the zone and recordset operations leave alone: they write the zones, recordsets and records,
  and no other table. The locale \<open>content_frame\<close> is a view of the database that recordsets and records
  have no part in, and is kept by what is written to them; \<open>side_table\<close> is one that zones have no part
  in either, and is kept by every operation. Its interpretations are the tables of the tasks, the pools
  and the keys; the names of the zones are a view of the first kind.
\<close>

locale content_frame =
  fixes p :: "db \<Rightarrow> 'b"
  assumes recordsets_side: "p (d\<lparr>d_recordsets := rs\<rparr>) = p d"
    and records_side: "p (d\<lparr>d_records := qs\<rparr>) = p d"
begin

lemma keeps_records:
  "keeps_of p (storage_create_record E ctx zid rsid r)" "keeps_of p (storage_update_record E ctx r)"
  "keeps_of p (storage_delete_record ctx i)"
  unfolding storage_create_record_def storage_update_record_def storage_delete_record_def Let_def
  by ((intro kk_rules kk_modify; simp add: records_side kk_readonly keeps_rules)+)

lemma keeps_create_records: "keeps_of p (create_records E ctx zid rsid rs)"
proof (induction rs)
  case Nil
  show ?case unfolding create_records.simps by (rule kk_rules)
next
  case (Cons r rs)
  then show ?case unfolding create_records.simps by (intro kk_rules keeps_records)
qed

lemma delete_recordset_side:
  "p (d\<lparr>d_recordsets := rs, d_records := qs\<rparr>) = p d"
  using recordsets_side records_side by metis

lemma keeps_recordsets:
  "keeps_of p (storage_create_recordset E ctx zid rs)" "keeps_of p (storage_update_recordset E ctx rs)"
  "keeps_of p (storage_delete_recordset ctx i)"
  unfolding storage_create_recordset_def storage_update_recordset_def sync_records_def
    storage_delete_recordset_def Let_def
  by ((intro kk_rules kk_modify keeps_records keeps_create_records;
      simp add: recordsets_side delete_recordset_side kk_readonly keeps_rules)+)

end

locale side_table = content_frame +
  assumes zones_side: "p (d\<lparr>d_zones := zs\<rparr>) = p d"
begin

lemma keeps_update_zone_row: "keeps_of p (storage_update_zone ctx z)"
  unfolding storage_update_zone_def update_zone_row_def Let_def
  by (intro kk_rules kk_modify) (simp_all add: zones_side retenant_def delete_recordset_side)

lemma keeps_zone_in_storage: "keeps_of p (update_zone_in_storage ctx z inc dly)"
  unfolding update_zone_in_storage_def Let_def by (intro kk_transaction keeps_update_zone_row)

lemma keeps_recordset_in_storage:
  "keeps_of p (create_recordset_in_storage E ctx z rs inc)"
  "keeps_of p (update_recordset_in_storage E ctx z rs inc dly)"
  "keeps_of p (delete_recordset_in_storage E ctx z rs inc)"
  unfolding create_recordset_in_storage_def update_recordset_in_storage_def change_serial_def
    delete_recordset_in_storage_def Let_def
  by (intro kk_rules keeps_recordsets keeps_zone_in_storage kk_readonly keeps_rules)+

lemma keeps_ensure_catalog: "keeps_of p (ensure_catalog_zone_serial_increment ctx z)"
  unfolding ensure_catalog_zone_serial_increment_def get_catalog_zone_def
  by (intro kk_if kk_basic kk_bind kk_catch keeps_zone_in_storage)
    (auto simp: kk_basic kk_readonly keeps_rules split: if_splits)

lemma keeps_update_zone: "keeps_of p (update_zone E ctx orig z inc)"
  unfolding update_zone_def
  by (intro kk_rules keeps_zone_in_storage) (simp_all add: kk_readonly keeps_rules)

lemma keeps_soa_ns:
  "keeps_of p (create_soa E ctx z)" "keeps_of p (create_ns E ctx z ns)"
  unfolding create_soa_def create_ns_def
  by (intro kk_rules keeps_recordset_in_storage; simp add: kk_readonly keeps_rules)+

lemma keeps_storage_create_zone:
  "keeps_of p (storage_create_zone E zr tenant pool_id parent refresh serial)"
  unfolding storage_create_zone_def Let_def
  by (intro kk_rules kk_modify) (simp_all add: zones_side)

lemma keeps_create_zone_in_storage:
  "keeps_of p (create_zone_in_storage E ctx zr tenant pool_id parent refresh serial)"
proof -
  have "keeps_of p (get_zone_ns_records E ctx i)" for i
    unfolding get_zone_ns_records_def
    by (intro kk_readonly readonly_bind readonly_option readonly_seq) (simp_all add: keeps_rules)
  then show ?thesis
    unfolding create_zone_in_storage_def
    by (intro kk_rules keeps_storage_create_zone keeps_soa_ns keeps_recordset_in_storage
        keeps_ensure_catalog)
qed

lemma keeps_create_zone_now:
  "keeps_of p (create_zone_now E ctx zr tenant pool_id parent subzones)"
  unfolding create_zone_now_def generate_soa_refresh_interval_def Let_def
  by (intro kk_rules keeps_create_zone_in_storage keeps_update_zone)

lemma keeps_create_zone: "keeps_of p (create_zone E fs ctx zr)"
proof (rule keeps_keysI)
  fix w
  obtain r w' where run: "create_zone E fs ctx zr w = (r, w')" by fastforce
  then show "p (w_db (snd (create_zone E fs ctx zr w))) = p (w_db w)"
  proof (cases rule: create_zone_cases)
    case (2 pool_id parent subzones u v)
    with keeps_keysD [OF keeps_create_zone_now] run show ?thesis by (metis snd_conv)
  qed (simp add: run)
qed

end

interpretation tasks: side_table d_tasks
  by unfold_locales simp_all

interpretation pools: side_table d_pools
  by unfold_locales simp_all

interpretation keys: side_table d_tsigkeys
  by unfold_locales simp_all

definition zone_names :: "db \<Rightarrow> (string \<times> string \<times> int) list" where
  "zone_names d = map (\<lambda>z. (z_id z, z_name z, z_refresh z)) (d_zones d)"

interpretation names: content_frame zone_names
  by unfold_locales (simp_all add: zone_names_def)

end
