(* ===== verification/TaskProps.thy ===== *)
theory TaskProps
  imports ZoneTasks CentralFrame
begin

text \<open>
  What imports and exports come to. An import that was accepted ends, complete with its zone or in
  error with a message; a zone whose name is too long for the message is created and reported as an
  error. An export that the worker takes up ends as well.
\<close>

section \<open>Rows of tasks\<close>

lemma import_table_simps [simp]:
  "tb_id import_table = zt_id" "tb_id export_table = zt_id"
  "tb_rows import_table = d_tasks" "tb_rows export_table = d_tasks"
  "table_ok export_table d = table_ok import_table d"
  "table_map export_table d = table_map import_table d"
  "visible export_table ctx t = visible import_table ctx t"
  "d_zones (tb_put import_table rows d) = d_zones d"
  "d_zones (tb_put export_table rows d) = d_zones d"
  by (simp_all add: import_table_def export_table_def task_table_def table_ok_def table_map_def
      visible_def tenant_clauses_def)

lemma task_visible:
  "c_all_tenants ctx \<or> c_project_id ctx = zt_tenant_id t \<Longrightarrow> visible import_table ctx t"
  by (auto simp: visible_def tenant_clauses_def import_table_def task_table_def
      apply_tenant_criteria_def)

lemma write_task_id [simp]: "zt_id (write_task t r) = zt_id r"
  by (simp add: write_task_def)

lemma unique_tasks:
  "tb_unique import_table rows = distinct (map zt_id rows)"
  "tb_unique export_table rows = distinct (map zt_id rows)"
  by (simp_all add: import_table_def export_table_def task_table_def)

lemma tasks_ok: "table_ok import_table d = distinct (map zt_id (d_tasks d))"
  by (simp add: table_ok_def)

text \<open>Writing the outcome of a task that is still stored.\<close>

lemma update_task_run:
  assumes "table_ok import_table (w_db w)" "table_map import_table (w_db w) (zt_id t) = Some r"
    and "visible import_table ctx r"
  shows "\<exists>w'. update_row import_table ctx (zt_id t) (write_task t) w = (Inr (write_task t r), w') \<and>
      table_map import_table (w_db w') (zt_id t) = Some (write_task t r) \<and>
      zone_keys (w_db w') = zone_keys (w_db w)"
    and "\<exists>w'. update_row export_table ctx (zt_id t) (write_task t) w = (Inr (write_task t r), w') \<and>
      table_map import_table (w_db w') (zt_id t) = Some (write_task t r) \<and>
      zone_keys (w_db w') = zone_keys (w_db w)"
proof -
  have un: "distinct (map zt_id (map (\<lambda>x. if zt_id x = zt_id t then write_task t x else x) (d_tasks (w_db w))))"
    using assms(1) unfolding tasks_ok by (simp add: comp_def if_distrib cong: if_cong)
  obtain w1 where w1: "update_row import_table ctx (zt_id t) (write_task t) w = (Inr (write_task t r), w1)"
    using import_tasks.update_row_succeeds [OF assms, of "write_task t"] un
    by (auto simp: unique_tasks)
  obtain w2 where w2: "update_row export_table ctx (zt_id t) (write_task t) w = (Inr (write_task t r), w2)"
    using export_tasks.update_row_succeeds [of w "zt_id t" r ctx "write_task t"] assms un
    by (auto simp: unique_tasks)
  show "\<exists>w'. update_row import_table ctx (zt_id t) (write_task t) w = (Inr (write_task t r), w') \<and>
      table_map import_table (w_db w') (zt_id t) = Some (write_task t r) \<and>
      zone_keys (w_db w') = zone_keys (w_db w)"
  proof (intro exI conjI, rule w1)
    from import_tasks.update_row_ok [OF w1 assms(1)]
    have "table_map import_table (w_db w1) = (table_map import_table (w_db w))(zt_id t \<mapsto> write_task t r) \<and>
      w_db w1 = tb_put import_table (d_tasks (w_db w1)) (w_db w)" by (metis import_table_simps(1,3) write_task_id)
    then show "table_map import_table (w_db w1) (zt_id t) = Some (write_task t r)"
      "zone_keys (w_db w1) = zone_keys (w_db w)"
      by (auto simp: zone_keys_def) (metis import_table_simps(8))
  qed
  show "\<exists>w'. update_row export_table ctx (zt_id t) (write_task t) w = (Inr (write_task t r), w') \<and>
      table_map import_table (w_db w') (zt_id t) = Some (write_task t r) \<and>
      zone_keys (w_db w') = zone_keys (w_db w)"
  proof (intro exI conjI, rule w2)
    from export_tasks.update_row_ok [OF w2] assms(1)
    have "table_map import_table (w_db w2) = (table_map import_table (w_db w))(zt_id t \<mapsto> write_task t r) \<and>
      w_db w2 = tb_put export_table (d_tasks (w_db w2)) (w_db w)"
      by (metis import_table_simps(2,4,5,6) write_task_id)
    then show "table_map import_table (w_db w2) (zt_id t) = Some (write_task t r)"
      "zone_keys (w_db w2) = zone_keys (w_db w)"
      by (auto simp: zone_keys_def) (metis import_table_simps(9))
  qed
qed

section \<open>Imports end\<close>

lemma create_zone_key:
  assumes "create_zone E fs ctx zr w = (Inr z, w')"
  shows "zone_key z \<in> set (zone_keys (w_db w'))" "z_name z = default_to [] (zr_name zr)"
    "z_tenant_id z = requested_tenant ctx zr" "z_deleted z = ''0''"
proof -
  from assms obtain pool_id parent subzones where
    sub: "is_superzone E ctx (default_to [] (zr_name zr)) pool_id w = (Inr subzones, w)"
    and now: "create_zone_now E ctx zr (requested_tenant ctx zr) pool_id parent subzones w = (Inr z, w')"
    by (cases rule: create_zone_cases) auto
  from is_superzone_fresh [OF sub] have "\<forall>s \<in> set subzones. z_changed s = {}" by blast
  from create_zone_now_Inr [OF now this] show "zone_key z \<in> set (zone_keys (w_db w'))"
    "z_name z = default_to [] (zr_name zr)" "z_tenant_id z = requested_tenant ctx zr" "z_deleted z = ''0''"
    by (auto simp: zone_row_def)
qed

text \<open>A complete import names the zone it made.\<close>

definition import_result :: "req_context \<Rightarrow> db \<Rightarrow> zone_task \<Rightarrow> bool" where
  "import_result ctx d t \<longleftrightarrow>
     zt_status t = ''ERROR'' \<and> zt_message t \<noteq> None \<or>
     zt_status t = ''COMPLETE'' \<and>
       (case zt_zone_id t of None \<Rightarrow> False
        | Some i \<Rightarrow> list_ex (\<lambda>(j, n, own, x). j = i \<and> zt_message t = Some (n @ '' imported'') \<and>
                       own = c_project_id ctx \<and> x = ''0'') (zone_keys d))"

lemma import_result_keys: "zone_keys d = zone_keys d' \<Longrightarrow> import_result ctx d = import_result ctx d'"
  by (rule ext) (simp only: import_result_def)

lemma import_result_failed [simp]: "import_result ctx d (task_failed m t)"
  by (simp add: import_result_def task_failed_def)

lemma import_result_imported:
  assumes "zone_key z \<in> set (zone_keys d)" "z_tenant_id z = c_project_id ctx" "z_deleted z = ''0''"
  shows "import_result ctx d (imported show_exn z t)"
proof (cases "string_field (Some 160) (z_name z @ '' imported'')")
  case (Inr m)
  then have "m = z_name z @ '' imported''" by (auto simp: string_field_def)
  with Inr assms show ?thesis
    by (force simp: import_result_def imported_def Let_def list_ex_iff zone_key_def)
qed (simp add: imported_def Let_def)

lemma import_result_task:
  "zt_status t = zt_status u \<Longrightarrow> zt_message t = zt_message u \<Longrightarrow> zt_zone_id t = zt_zone_id u \<Longrightarrow>
     import_result ctx d t = import_result ctx d u"
  by (simp only: import_result_def)

lemma import_refused_failed:
  "length (show_exn InvalidTTL) \<le> 160 \<Longrightarrow> \<exists>m. import_refused show_exn e t = Inr (task_failed m t)"
  by (cases e) (auto simp: import_refused_def string_field_def split: option.splits resource.splits)

lemma imported_ids [simp]:
  "zt_id (imported show_exn z t) = zt_id t" "zt_tenant_id (imported show_exn z t) = zt_tenant_id t"
  "zt_id (task_failed m t) = zt_id t" "zt_tenant_id (task_failed m t) = zt_tenant_id t"
  by (simp_all add: imported_def task_failed_def Let_def split: sum.splits)

lemma read_zone_file_tenant:
  "read_zone_file E parse show_exn body attrs = Inr zr \<Longrightarrow> zr_tenant_id zr = None"
  by (auto simp: read_zone_file_def split: zone_text.splits sum.splits exn.splits
      elim!: from_dnspython_zone_Inr)

lemma import_attempt:
  assumes "zr_tenant_id zr = None" "length (show_exn InvalidTTL) \<le> 160"
  obtains u v where
    "catch (bind (create_zone E fs ctx zr) (\<lambda>z. return (imported show_exn z t)))
       (\<lambda>e. Some (lift (import_refused show_exn e t))) w = (Inr u, v)"
    "d_tasks (w_db v) = d_tasks (w_db w)" "import_result ctx (w_db v) u" "zt_id u = zt_id t"
    "zt_tenant_id u = zt_tenant_id t"
proof -
  obtain q v where cz: "create_zone E fs ctx zr w = (q, v)" by fastforce
  have tasks: "d_tasks (w_db v) = d_tasks (w_db w)"
    using keeps_keysD [OF tasks.keeps_create_zone, of E fs ctx zr w] cz by simp
  show thesis
  proof (cases q)
    case (Inr z)
    with cz have z: "create_zone E fs ctx zr w = (Inr z, v)" by simp
    have own: "z_tenant_id z = c_project_id ctx"
      using create_zone_key(3) [OF z] assms(1) by (simp add: requested_tenant_def)
    note res = import_result_imported [OF create_zone_key(1) [OF z] own create_zone_key(4) [OF z]]
    show thesis by (rule that [of "imported show_exn z t" v]) (simp_all add: catch_def bind_run z tasks res)
  next
    case (Inl e)
    with cz have e: "create_zone E fs ctx zr w = (Inl e, v)" by simp
    obtain m where m: "import_refused show_exn e t = Inr (task_failed m t)"
      using import_refused_failed [of show_exn e t] assms(2) by blast
    show thesis by (rule that [of "task_failed m t" v]) (simp_all add: catch_def bind_run e m tasks)
  qed
qed

text \<open>C26: An import ends. When the thread of an accepted import runs while the import is still stored
  (the caller acts for its project and may update it), it always answers, whatever the zone file
  holds and wherever creating the zone fails; the stored import is then complete and names a live zone
  of the project, by its identifier and its name, or it is in error and says why.\<close>

theorem import_ends:
  assumes ok: "table_ok import_table (w_db w)" "table_map import_table (w_db w) (zt_id t) = Some t"
    and ctx: "c_project_id ctx = zt_tenant_id t"
    and permit: "e_enforce E ''update_zone_import'' (project_target (zt_tenant_id t)) ctx = Permit"
    and short: "length (show_exn InvalidTTL) \<le> 160"
  shows "\<exists>t' w'. import_zone E fs parse show_exn ctx t body attrs w = (Inr t', w') \<and>
    table_map import_table (w_db w') (zt_id t) = Some t' \<and> import_result ctx (w_db w') t'"
proof -
  let ?step = "case read_zone_file E parse show_exn body attrs of
       Inl m \<Rightarrow> return (task_failed m t)
     | Inr zr \<Rightarrow> catch (bind (create_zone E fs ctx zr) (\<lambda>z. return (imported show_exn z t)))
                 (\<lambda>e. Some (lift (import_refused show_exn e t)))"
  obtain u v where step: "?step w = (Inr u, v)" "d_tasks (w_db v) = d_tasks (w_db w)"
    "import_result ctx (w_db v) u" "zt_id u = zt_id t" "zt_tenant_id u = zt_tenant_id t"
  proof (cases "read_zone_file E parse show_exn body attrs")
    case (Inl m)
    then show thesis by (intro that [of "task_failed m t" w]) simp_all
  next
    case (Inr zr)
    obtain u v where
      "catch (bind (create_zone E fs ctx zr) (\<lambda>z. return (imported show_exn z t)))
         (\<lambda>e. Some (lift (import_refused show_exn e t))) w = (Inr u, v)"
      "d_tasks (w_db v) = d_tasks (w_db w)" "import_result ctx (w_db v) u" "zt_id u = zt_id t"
      "zt_tenant_id u = zt_tenant_id t"
      using import_attempt [of zr show_exn E fs ctx t w] read_zone_file_tenant [OF Inr] short by blast
    then show thesis by (intro that [of u v]) (simp_all add: Inr)
  qed
  have ok': "table_ok import_table (w_db v)" "table_map import_table (w_db v) (zt_id u) = Some t"
    using ok step(2,4) by (simp_all add: table_ok_def table_map_def)
  have vis: "visible import_table ctx t" using ctx by (simp add: task_visible)
  from update_task_run(1) [OF ok' vis] obtain w' where
    w': "update_row import_table ctx (zt_id u) (write_task u) v = (Inr (write_task u t), w')"
      "table_map import_table (w_db w') (zt_id u) = Some (write_task u t)"
      "zone_keys (w_db w') = zone_keys (w_db v)" by blast
  have "import_result ctx (w_db w') (write_task u t)"
    unfolding import_result_keys [OF w'(3)]
    by (rule import_result_task [THEN iffD2, of _ u]) (simp_all add: write_task_def step(3))
  moreover have "import_zone E fs parse show_exn ctx t body attrs w = (Inr (write_task u t), w')"
    unfolding import_zone_def
    by (simp add: bind_run seq_run step(1) update_zone_import_def check_run check_result_def permit step(5) w'(1))
  ultimately show ?thesis using w'(2) step(4) by metis
qed

text \<open>A zone file with an SOA record and one address, and imports that a client has been answered.\<close>

definition sample_dns_zone :: "string \<Rightarrow> dns_zone" where
  "sample_dns_zone n = \<lparr>dz_origin = n,
     dz_soa = Some \<lparr>so_ttl = 3600, so_rname = ''h.o'', so_serial = 7, so_retry = 600, so_expire = 86400\<rparr>,
     dz_nodes = [(n, [\<lparr>rd_type = ''SOA'', rd_ttl = 3600, rd_texts = [''x'']\<rparr>]),
       (''w.'' @ n, [\<lparr>rd_type = ''A'', rd_ttl = 0, rd_texts = [''1.2.3.4'']\<rparr>])]\<rparr>"

definition sample_parse :: "string \<Rightarrow> zone_text" where
  "sample_parse body = (if body = [] then Unknown_origin else Zone_text (sample_dns_zone body))"

definition accepted_import :: "zone_task \<times> world" where
  "accepted_import =
     (case create_zone_import sample_env [DefaultPoolFilter] (tenant_context ''t1'') None (world_of empty_db) of
        (Inr t, w) \<Rightarrow> (t, w) | (Inl e, w) \<Rightarrow> (new_task [] None None, w))"

abbreviation sample_import :: "string \<Rightarrow> (exn + zone_task) \<times> world" where
  "sample_import body \<equiv> import_zone sample_env [DefaultPoolFilter] sample_parse (\<lambda>e. ''e'')
     (tenant_context ''t1'') (fst accepted_import) body None (snd accepted_import)"

lemma import_ends_witness:
  "\<exists>t' w'. sample_import ''e.o.'' = (Inr t', w') \<and>
    table_map import_table (w_db w') (zt_id (fst accepted_import)) = Some t' \<and>
    import_result (tenant_context ''t1'') (w_db w') t'"
proof (rule import_ends)
  show "table_ok import_table (w_db (snd accepted_import))" by code_simp
  show "table_map import_table (w_db (snd accepted_import)) (zt_id (fst accepted_import))
      = Some (fst accepted_import)" by code_simp
  show "c_project_id (tenant_context ''t1'') = zt_tenant_id (fst accepted_import)" by code_simp
  show "e_enforce sample_env ''update_zone_import'' (project_target (zt_tenant_id (fst accepted_import)))
      (tenant_context ''t1'') = Permit" by (simp add: sample_env_def)
qed simp

text \<open>A zone whose name leaves no room for the message is imported and reported as a failure. When
  creating the zone succeeds and its name has more than 151 characters, \<open><name> imported\<close> is longer than
  the 160 characters of the message field, so that its assignment raises after the zone exists: the
  import ends in error, with the zone's identifier, and the zone is there.\<close>

theorem import_long_name_error:
  assumes body: "read_zone_file E parse show_exn body attrs = Inr zr"
    and zone: "create_zone E fs ctx zr w = (Inr z, w1)" "151 < length (z_name z)"
    and ok: "table_ok import_table (w_db w)" "table_map import_table (w_db w) (zt_id t) = Some t"
    and ctx: "c_project_id ctx = zt_tenant_id t"
    and permit: "e_enforce E ''update_zone_import'' (project_target (zt_tenant_id t)) ctx = Permit"
  shows "\<exists>t' w'. import_zone E fs parse show_exn ctx t body attrs w = (Inr t', w') \<and>
    zt_status t' = ''ERROR'' \<and> zt_zone_id t' = Some (z_id z) \<and> zone_key z \<in> set (zone_keys (w_db w'))"
proof -
  let ?u = "imported show_exn z t"
  have u: "?u = task_failed (undefined_error (show_exn PyValueError))
      (t\<lparr>zt_status := ''COMPLETE'', zt_zone_id := Some (z_id z)\<rparr>)"
    using zone(2) by (simp add: imported_def Let_def string_field_def)
  have tasks: "d_tasks (w_db w1) = d_tasks (w_db w)"
    using keeps_keysD [OF tasks.keeps_create_zone, of E fs ctx zr w] zone(1) by simp
  then have ok': "table_ok import_table (w_db w1)" "table_map import_table (w_db w1) (zt_id ?u) = Some t"
    using ok by (simp_all add: table_ok_def table_map_def)
  have vis: "visible import_table ctx t" using ctx by (simp add: task_visible)
  from update_task_run(1) [OF ok' vis] obtain w' where
    w': "update_row import_table ctx (zt_id ?u) (write_task ?u) w1 = (Inr (write_task ?u t), w')"
      "zone_keys (w_db w') = zone_keys (w_db w1)" by blast
  have "import_zone E fs parse show_exn ctx t body attrs w = (Inr (write_task ?u t), w')"
    using w'(1) by (simp add: import_zone_def body catch_def bind_run seq_run zone(1)
        update_zone_import_def check_run check_result_def permit)
  moreover have "zone_key z \<in> set (zone_keys (w_db w'))" using create_zone_key(1) [OF zone(1)] w'(2) by simp
  ultimately show ?thesis by (intro exI [of _ "write_task ?u t"] exI [of _ w'])
      (simp add: u write_task_def task_failed_def)
qed

text \<open>Three labels of 60 characters.\<close>

definition long_name :: string where
  "long_name = concat (replicate 3 (replicate 60 CHR ''a'' @ ''.'')) @ ''o.''"

lemma import_long_name_error_witness:
  "\<exists>t' w'. sample_import long_name = (Inr t', w') \<and> zt_status t' = ''ERROR'' \<and>
     zt_zone_id t' = Some ''abcd'' \<and> ''abcd'' \<in> fst ` set (zone_keys (w_db w'))"
proof -
  let ?zr = "read_zone_file sample_env sample_parse (\<lambda>e. ''e'') long_name None"
  let ?run = "create_zone sample_env [DefaultPoolFilter] (tenant_context ''t1'') (projr ?zr)
      (snd accepted_import)"
  let ?z = "projr (fst ?run)"
  have zr: "?zr = Inr (projr ?zr)"
  proof -
    have "\<not> isl ?zr" by code_simp
    then show ?thesis by simp
  qed
  have z: "?run = (Inr ?z, snd ?run)"
  proof -
    have "\<not> isl (fst ?run)" by code_simp
    then show ?thesis by (metis prod.collapse sum.collapse(2))
  qed
  have id: "z_id ?z = ''abcd''" by code_simp
  have "\<exists>t' w'. sample_import long_name = (Inr t', w') \<and> zt_status t' = ''ERROR'' \<and>
     zt_zone_id t' = Some (z_id ?z) \<and> zone_key ?z \<in> set (zone_keys (w_db w'))"
  proof (rule import_long_name_error [OF zr z])
    show "151 < length (z_name ?z)" by code_simp
    show "table_ok import_table (w_db (snd accepted_import))" by code_simp
    show "table_map import_table (w_db (snd accepted_import)) (zt_id (fst accepted_import))
        = Some (fst accepted_import)" by code_simp
    show "c_project_id (tenant_context ''t1'') = zt_tenant_id (fst accepted_import)" by code_simp
    show "e_enforce sample_env ''update_zone_import'' (project_target (zt_tenant_id (fst accepted_import)))
        (tenant_context ''t1'') = Permit" by (simp add: sample_env_def)
  qed
  then show ?thesis unfolding id by (force simp: zone_key_def id)
qed

section \<open>Exports end\<close>

lemma limit_check_known:
  assumes "list_all (\<lambda>(r, v). get_default_quotas (e_conf E) r \<noteq> None) vals"
  shows "limit_check E ctx tenant vals w = (Inr (), w) \<or>
    (\<exists>rs. limit_check E ctx tenant vals w = (Inl (OverQuota rs), w))"
proof -
  let ?qs = "get_default_quotas (e_conf E) ++ storage_quotas ctx tenant (w_db w)"
  have "?qs r \<noteq> None" if "(r, v) \<in> set vals" for r v
    using assms that by (auto simp: list_all_iff map_add_def split: option.splits)
  then obtain out where out: "exceeded ?qs vals = Inr out" using exceeded_known by metis
  show ?thesis
    by (cases "out = []") (auto simp: limit_check_def get_quotas_def bind_run out)
qed

definition export_result :: "zone_task \<Rightarrow> bool" where
  "export_result t \<longleftrightarrow>
     zt_status t = ''ERROR'' \<and> zt_message t \<noteq> None \<or>
     zt_status t = ''COMPLETE'' \<and>
       zt_location t = Some (''designate://v2/zones/tasks/exports/'' @ zt_id t @ ''/export'')"

lemma export_method_result:
  "\<exists>x. determine_export_method E ctx (export_of_task t) n w = (Inr x, w) \<and>
     export_result (task_of_export x t)"
proof (cases "cf_export_synchronous (e_conf E)")
  case False
  then show ?thesis
    by (simp add: determine_export_method_def task_of_export_def export_result_def)
next
  case True
  have "list_all (\<lambda>(r, v). get_default_quotas (e_conf E) r \<noteq> None) [(''api_export_size'', n)]"
    by (simp add: get_default_quotas_def)
  from limit_check_known [OF this, of ctx "case c_project_id ctx of None \<Rightarrow> [] | Some p \<Rightarrow> p" w]
  show ?thesis
  proof (elim disjE exE)
    assume "limit_check E ctx (case c_project_id ctx of None \<Rightarrow> [] | Some p \<Rightarrow> p)
      [(''api_export_size'', n)] w = (Inr (), w)"
    then show ?thesis using True
      by (simp add: determine_export_method_def catch_def seq_run export_of_task_def
          task_of_export_def export_result_def)
  next
    fix rs assume "limit_check E ctx (case c_project_id ctx of None \<Rightarrow> [] | Some p \<Rightarrow> p)
      [(''api_export_size'', n)] w = (Inl (OverQuota rs), w)"
    then show ?thesis using True
      by (simp add: determine_export_method_def catch_def seq_run export_of_task_def
          task_of_export_def export_result_def)
  qed
qed

text \<open>An export ends. When a request for an export is answered, exactly one message about it has been
  sent to the worker; and when the worker acts on that message while the export is stored and the
  caller may update it, it always answers, and the stored export is complete, with the location its
  content can be fetched from, or in error with a message.\<close>

theorem export_ends:
  assumes new: "create_zone_export E ctx zid w = (Inr t, w1)"
    and later: "table_ok import_table (w_db w2)" "table_map import_table (w_db w2) (zt_id t) = Some t"
    and permit: "e_enforce E ''update_zone_export'' (project_target (zt_tenant_id t)) ctx = Permit"
    and id: "plain zid"
  shows "\<exists>z. z_id z = zid \<and> w_sent w1 = w_sent w @ [W_start_zone_export z t] \<and>
    (\<exists>t' w'. run_export E ctx z t w2 = (Inr t', w') \<and>
       table_map import_table (w_db w') (zt_id t) = Some t' \<and> export_result t')"
proof -
  obtain z where get: "storage_get_zone ctx zid True w = (Inr z, w)"
    and sent: "w_sent w1 = w_sent w @ [W_start_zone_export z t]"
    and own: "zt_tenant_id t = c_project_id ctx"
  proof -
    have last: "bind (create_row E export_table (new_task ''EXPORT'' (c_project_id ctx) (Some zid)))
         (\<lambda>t. seq (cast (W_start_zone_export z t)) (return t)) w = (Inr t, w1) \<Longrightarrow>
       w_sent w1 = w_sent w @ [W_start_zone_export z t] \<and> zt_tenant_id t = c_project_id ctx" for z
      by (auto simp: comp_iffs create_row_def write_rows_def cast_def export_table_def task_table_def
          new_task_def)
    from new obtain z n s1 u2 s2 u3 s3 s4 u5 s5 where
      steps: "storage_get_zone ctx zid True w = (Inr z, s1)"
        "check E ''create_zone_export'' ctx (project_target (z_tenant_id z)) s1 = (Inr u2, s2)"
        "is_valid_project_id (c_project_id ctx) s2 = (Inr u3, s3)"
        "storage_count_recordsets ctx [(RC_zone_id, CStr zid)] s3 = (Inr n, s4)"
        "limit_check E ctx (opt_string (z_tenant_id z)) [(''api_export_size'', n)] s4 = (Inr u5, s5)"
      and final: "bind (create_row E export_table (new_task ''EXPORT'' (c_project_id ctx) (Some zid)))
         (\<lambda>t. seq (cast (W_start_zone_export z t)) (return t)) s5 = (Inr t, w1)"
      unfolding create_zone_export_def bind_Inr_iff seq_Inr_iff by blast
    have "s1 = w" "s2 = s1" "s3 = s2" "s4 = s3" "s5 = s4"
      using steps by (blast intro: readonlyD keeps_rules)+
    then have "s5 = w" "s1 = w" by simp_all
    with steps(1) last [of z] final show thesis by (intro that [of z]) auto
  qed
  have zid: "z_id z = zid"
  proof -
    from get id obtain cls where "select_zones (Eq ZC_id (VStr zid) # cls) (w_db w) = [z]"
      by (auto simp: storage_get_zone_def find_zone_gen_def find_zones_gen_def zone_where_def
          comp_iffs fetch_one_Inr and_then_def split: sum.splits)
    then have "z \<in> set (select_zones (Eq ZC_id (VStr zid) # cls) (w_db w))" by simp
    then show ?thesis by (auto simp: select_zones_in zone_of_join_def)
  qed
  obtain n where n: "storage_count_recordsets ctx [(RC_zone_id, CStr zid)] w2 = (Inr n, w2)"
    using id by (auto simp: storage_count_recordsets_def rs_where_def and_then_def bind_run)
  obtain x where x: "determine_export_method E ctx (export_of_task t) n w2 = (Inr x, w2)"
    and res: "export_result (task_of_export x t)"
    using export_method_result by blast
  let ?u = "task_of_export x t"
  have u: "zt_id ?u = zt_id t" "zt_tenant_id ?u = zt_tenant_id t" by (simp_all add: task_of_export_def)
  have vis: "visible import_table ctx t" using own by (simp add: task_visible)
  from update_task_run(2) [of w2 ?u t ctx] later vis u obtain w' where
    w': "update_row export_table ctx (zt_id t) (write_task ?u) w2 = (Inr (write_task ?u t), w')"
      "table_map import_table (w_db w') (zt_id t) = Some (write_task ?u t)" by auto
  have "export_result (write_task ?u t)"
    using res by (simp add: export_result_def write_task_def task_of_export_def)
  moreover have "run_export E ctx z t w2 = (Inr (write_task ?u t), w')"
    by (simp add: run_export_def export_zone_def bind_run seq_run zid n x update_zone_export_def u
        check_run check_result_def permit w'(1))
  ultimately show ?thesis using zid sent w'(2) by blast
qed

lemma export_ends_witness:
  "\<exists>t w1 z t' w'. create_zone_export sample_env (tenant_context ''t1'') ''z1'' (world_of sample_db)
      = (Inr t, w1) \<and> run_export sample_env (tenant_context ''t1'') z t w1 = (Inr t', w') \<and>
    table_map import_table (w_db w') (zt_id t) = Some t' \<and> export_result t'"
proof -
  let ?run = "create_zone_export sample_env (tenant_context ''t1'') ''z1'' (world_of sample_db)"
  have "\<not> isl (fst ?run)" by code_simp
  then have run: "?run = (Inr (projr (fst ?run)), snd ?run)" by (metis prod.collapse sum.collapse(2))
  have "table_ok import_table (w_db (snd ?run))"
    "table_map import_table (w_db (snd ?run)) (zt_id (projr (fst ?run))) = Some (projr (fst ?run))"
    "plain ''z1''" by code_simp+
  moreover have "e_enforce sample_env ''update_zone_export''
      (project_target (zt_tenant_id (projr (fst ?run)))) (tenant_context ''t1'') = Permit"
    by (simp add: sample_env_def)
  ultimately show ?thesis using export_ends [OF run] run by blast
qed

end
