(* ===== verification/PoolTables.thy ===== *)
theory PoolTables
  imports "HOL-Library.List_Lexorder" "HOL-Library.Product_Lexorder" Env
begin

text \<open>
  The tables behind a pool. \<open>storage/sqlalchemy/__init__.py\<close> keeps a pool in a row of \<open>pools\<close> and in
  five tables of rows that belong to it (attributes, NS records, nameservers, targets, also-notifies); a
  target has two more (options and masters). The other theories see a pool as one object
  (\<open>d_pools\<close>); here are the rows, the methods that read, create, change and delete them, and
  \<open>_update_pool_items\<close>, which brings the rows in line with the lists of a changed object. \<open>PoolProps\<close> has
  the contract those methods keep towards the lists.
\<close>

section \<open>Rows of a parent\<close>

record 'b child =
  ch_id :: string
  ch_owner :: string
  ch_created :: int
  ch_body :: 'b

datatype child_column = CC_id | CC_owner

fun child_col :: "'b child \<Rightarrow> child_column \<Rightarrow> sqlval" where
  "child_col c CC_id = VStr (ch_id c)"
| "child_col c CC_owner = VStr (ch_owner c)"

interpretation child_rows: keyed_table child_col CC_id ch_id VStr
  by unfold_locales simp_all

record pool_row =
  pr_id :: string
  pr_name :: string
  pr_description :: "string option"
  pr_tenant_id :: "string option"
  pr_provisioner :: string

record target_row =
  tg_type :: string
  tg_tsigkey_id :: "string option"
  tg_description :: "string option"

record nameserver_row =
  nm_host :: string
  nm_port :: int
  nm_tsigkey_id :: "string option"

text \<open>The eight tables, the number of identifiers handed out, and the time at which the row with the
  n-th identifier is created.\<close>

record pool_store =
  ps_pools :: "pool_row list"
  ps_attributes :: "(string \<times> string) child list"
  ps_ns_records :: "pool_ns_record child list"
  ps_nameservers :: "nameserver_row child list"
  ps_targets :: "target_row child list"
  ps_options :: "(string \<times> string) child list"
  ps_masters :: "(string \<times> int) child list"
  ps_also_notifies :: "(string \<times> int) child list"
  ps_next :: nat
  ps_clock :: "nat \<Rightarrow> int"

type_synonym 'a store = "(pool_store, 'a) comp"

definition fresh_id :: "env \<Rightarrow> string store" where
  "fresh_id E = (\<lambda>s. (Inr (e_gen_uuid E (ps_next s)), s\<lparr>ps_next := Suc (ps_next s)\<rparr>))"

text \<open>What \<open>_create\<close>, \<open>_find\<close>, \<open>_update\<close> and \<open>_delete\<close> are given for one of the tables. No such
  table has a tenant or a deletion mark.\<close>

record 'b child_table =
  ct_rows :: "pool_store \<Rightarrow> 'b child list"
  ct_put :: "'b child list \<Rightarrow> pool_store \<Rightarrow> pool_store"
  ct_unique :: "'b child list \<Rightarrow> bool"
  ct_duplicate :: exn
  ct_not_found :: exn

text \<open>\<open>_find\<close> orders by \<open>created_at\<close>, and rows of the same time by their identifier.\<close>

definition created_then_id :: "'b child \<Rightarrow> int \<times> nat list" where
  "created_then_id c = (ch_created c, map of_char (ch_id c))"

definition find_children :: "'b child_table \<Rightarrow> string \<Rightarrow> 'b child list store" where
  "find_children T owner =
     bind (lift (apply_criterion [(CC_owner, CStr owner)])) (\<lambda>cls.
     gets (\<lambda>s. sort_key created_then_id (select_where child_col cls (ct_rows T s))))"

definition find_child :: "'b child_table \<Rightarrow> string \<Rightarrow> 'b child store" where
  "find_child T i =
     bind (lift (apply_criterion [(CC_id, CStr i)])) (\<lambda>cls.
     bind (gets (\<lambda>s. select_where child_col cls (ct_rows T s))) (\<lambda>rs.
     lift (fetch_one (ct_not_found T) rs)))"

definition create_child :: "env \<Rightarrow> 'b child_table \<Rightarrow> string \<Rightarrow> 'b \<Rightarrow> string store" where
  "create_child E T owner body =
     bind (gets (\<lambda>s. ps_clock s (ps_next s))) (\<lambda>now.
     bind (fresh_id E) (\<lambda>i.
     bind (gets (ct_rows T)) (\<lambda>rows.
     bind (lift (insert_row (ct_unique T) (ct_duplicate T)
             \<lparr>ch_id = i, ch_owner = owner, ch_created = now, ch_body = body\<rparr> rows)) (\<lambda>rows'.
     seq (modify (ct_put T rows')) (return i)))))"

definition update_child :: "'b child_table \<Rightarrow> string \<Rightarrow> ('b \<Rightarrow> 'b) \<Rightarrow> unit store" where
  "update_child T i f =
     bind (gets (ct_rows T)) (\<lambda>rows.
     bind (lift (update_where child_col (ct_unique T) (ct_duplicate T) (ct_not_found T)
             [Eq CC_id (VStr i)] (\<lambda>c. c\<lparr>ch_body := f (ch_body c)\<rparr>) rows)) (\<lambda>rows'.
     modify (ct_put T rows')))"

definition delete_child :: "'b child_table \<Rightarrow> string \<Rightarrow> unit store" where
  "delete_child T i =
     bind (find_child T i) (\<lambda>c.
     bind (gets (ct_rows T)) (\<lambda>rows.
     bind (lift (delete_where child_col (ct_not_found T) [Eq CC_id (VStr (ch_id c))] rows)) (\<lambda>rows'.
     modify (ct_put T rows'))))"

section \<open>The tables\<close>

text \<open>The primary key, and the unique constraints of \<open>storage/sqlalchemy/tables.py\<close>.\<close>

definition distinct_ids :: "'b child list \<Rightarrow> bool" where
  "distinct_ids rows \<longleftrightarrow> distinct (map ch_id rows)"

definition distinct_per_owner :: "('b \<Rightarrow> 'k) \<Rightarrow> 'b child list \<Rightarrow> bool" where
  "distinct_per_owner key rows \<longleftrightarrow>
     distinct_ids rows \<and> distinct (map (\<lambda>c. (ch_owner c, key (ch_body c))) rows)"

definition attributes_table :: "(string \<times> string) child_table" where
  "attributes_table = \<lparr>ct_rows = ps_attributes, ct_put = (\<lambda>rows s. s\<lparr>ps_attributes := rows\<rparr>),
     ct_unique = distinct_ids, ct_duplicate = Duplicate (Some R_PoolAttribute),
     ct_not_found = NotFound (NF_of R_PoolAttribute)\<rparr>"

definition ns_records_table :: "pool_ns_record child_table" where
  "ns_records_table = \<lparr>ct_rows = ps_ns_records, ct_put = (\<lambda>rows s. s\<lparr>ps_ns_records := rows\<rparr>),
     ct_unique = distinct_per_owner n_hostname, ct_duplicate = Duplicate (Some R_PoolNsRecord),
     ct_not_found = NotFound (NF_of R_PoolNsRecord)\<rparr>"

definition nameservers_table :: "nameserver_row child_table" where
  "nameservers_table = \<lparr>ct_rows = ps_nameservers, ct_put = (\<lambda>rows s. s\<lparr>ps_nameservers := rows\<rparr>),
     ct_unique = distinct_per_owner (\<lambda>n. (nm_host n, nm_port n)),
     ct_duplicate = Duplicate (Some R_PoolNameserver),
     ct_not_found = NotFound (NF_of R_PoolNameserver)\<rparr>"

definition targets_table :: "target_row child_table" where
  "targets_table = \<lparr>ct_rows = ps_targets, ct_put = (\<lambda>rows s. s\<lparr>ps_targets := rows\<rparr>),
     ct_unique = distinct_ids, ct_duplicate = Duplicate (Some R_PoolTarget),
     ct_not_found = NotFound (NF_of R_PoolTarget)\<rparr>"

definition options_table :: "(string \<times> string) child_table" where
  "options_table = \<lparr>ct_rows = ps_options, ct_put = (\<lambda>rows s. s\<lparr>ps_options := rows\<rparr>),
     ct_unique = distinct_per_owner fst, ct_duplicate = Duplicate (Some R_PoolTargetOption),
     ct_not_found = NotFound (NF_of R_PoolTargetOption)\<rparr>"

definition masters_table :: "(string \<times> int) child_table" where
  "masters_table = \<lparr>ct_rows = ps_masters, ct_put = (\<lambda>rows s. s\<lparr>ps_masters := rows\<rparr>),
     ct_unique = distinct_per_owner (\<lambda>m. m), ct_duplicate = Duplicate (Some R_PoolTargetMaster),
     ct_not_found = NotFound (NF_of R_PoolTargetMaster)\<rparr>"

definition also_notifies_table :: "(string \<times> int) child_table" where
  "also_notifies_table = \<lparr>ct_rows = ps_also_notifies,
     ct_put = (\<lambda>rows s. s\<lparr>ps_also_notifies := rows\<rparr>),
     ct_unique = distinct_per_owner (\<lambda>m. m), ct_duplicate = Duplicate (Some R_PoolAlsoNotify),
     ct_not_found = NotFound (NF_of R_PoolAlsoNotify)\<rparr>"

section \<open>Bringing the rows in line with a list\<close>

text \<open>An item of a list of a pool object: loaded from a row, with what has been assigned since, or
  new.\<close>

datatype ('l, 'n) item = Loaded string 'l | New 'n

fun loaded_items :: "('l, 'n) item list \<Rightarrow> (string \<times> 'l) list" where
  "loaded_items [] = []"
| "loaded_items (Loaded i l # xs) = (i, l) # loaded_items xs"
| "loaded_items (New n # xs) = loaded_items xs"

fun new_items :: "('l, 'n) item list \<Rightarrow> 'n list" where
  "new_items [] = []"
| "new_items (Loaded i l # xs) = new_items xs"
| "new_items (New n # xs) = n # new_items xs"

text \<open>\<open>_update_pool_items\<close> and \<open>_update_pool_target_items\<close>, given the methods they look up by name:
  first the rows whose identifier no item keeps are deleted (a set, taken here in the order of the
  rows), then the loaded items are written one by one, then the new ones created.\<close>

definition update_items ::
  "(string \<Rightarrow> string list store) \<Rightarrow> (string \<Rightarrow> unit store) \<Rightarrow> (string \<Rightarrow> 'l \<Rightarrow> unit store)
     \<Rightarrow> (string \<Rightarrow> 'n \<Rightarrow> unit store) \<Rightarrow> string \<Rightarrow> ('l, 'n) item list \<Rightarrow> unit store" where
  "update_items have_ids del upd new owner items =
     bind (have_ids owner) (\<lambda>have_items.
     let keep_items = map fst (loaded_items items) in
     seq (for_each (filter (\<lambda>i. i \<notin> set keep_items) have_items) del)
     (seq (for_each (loaded_items items) (\<lambda>(i, l). upd i l))
     (for_each (new_items items) (new owner))))"

definition child_ids :: "'b child_table \<Rightarrow> string \<Rightarrow> string list store" where
  "child_ids T owner = bind (find_children T owner) (\<lambda>rs. return (map ch_id rs))"

definition add_child :: "env \<Rightarrow> 'b child_table \<Rightarrow> string \<Rightarrow> 'b \<Rightarrow> unit store" where
  "add_child E T owner body = bind (create_child E T owner body) (\<lambda>_. return ())"

definition update_child_items ::
  "env \<Rightarrow> 'b child_table \<Rightarrow> string \<Rightarrow> ('b \<Rightarrow> 'b, 'b) item list \<Rightarrow> unit store" where
  "update_child_items E T owner items =
     update_items (child_ids T) (delete_child T) (update_child T) (add_child E T) owner items"

section \<open>Targets\<close>

text \<open>A target with its options and masters: those of a new one are all new, those of a loaded one
  are only looked at when they are set.\<close>

record new_target =
  nt_row :: target_row
  nt_options :: "(string \<times> string) list"
  nt_masters :: "(string \<times> int) list"

record target_change =
  tc_row :: "target_row \<Rightarrow> target_row"
  tc_options :: "((string \<times> string) \<Rightarrow> string \<times> string, string \<times> string) item list option"
  tc_masters :: "((string \<times> int) \<Rightarrow> string \<times> int, string \<times> int) item list option"

definition create_pool_target :: "env \<Rightarrow> string \<Rightarrow> new_target \<Rightarrow> unit store" where
  "create_pool_target E pool_id t =
     bind (create_child E targets_table pool_id (nt_row t)) (\<lambda>i.
     seq (for_each (nt_options t) (add_child E options_table i))
     (for_each (nt_masters t) (add_child E masters_table i)))"

definition update_pool_target :: "env \<Rightarrow> string \<Rightarrow> target_change \<Rightarrow> unit store" where
  "update_pool_target E i t =
     seq (update_child targets_table i (tc_row t))
     (seq (case tc_options t of None \<Rightarrow> return () | Some xs \<Rightarrow> update_child_items E options_table i xs)
     (seq (case tc_masters t of None \<Rightarrow> return () | Some xs \<Rightarrow> update_child_items E masters_table i xs)
     (bind (find_child targets_table i) (\<lambda>_. return ()))))"

text \<open>The options and masters of a deleted target go with it (\<open>ON DELETE CASCADE\<close>).\<close>

definition drop_owned :: "string \<Rightarrow> 'b child list \<Rightarrow> 'b child list" where
  "drop_owned i rows = filter (\<lambda>c. ch_owner c \<noteq> i) rows"

definition delete_pool_target :: "string \<Rightarrow> unit store" where
  "delete_pool_target i =
     seq (delete_child targets_table i)
     (modify (\<lambda>s. s\<lparr>ps_options := drop_owned i (ps_options s), ps_masters := drop_owned i (ps_masters s)\<rparr>))"

definition update_target_items ::
  "env \<Rightarrow> string \<Rightarrow> (target_change, new_target) item list \<Rightarrow> unit store" where
  "update_target_items E owner items =
     update_items (child_ids targets_table) delete_pool_target (update_pool_target E)
       (create_pool_target E) owner items"

section \<open>Pools\<close>

datatype pool_column = PC_id | PC_name | PC_tenant_id

fun pool_col :: "pool_row \<Rightarrow> pool_column \<Rightarrow> sqlval" where
  "pool_col p PC_id = VStr (pr_id p)"
| "pool_col p PC_name = VStr (pr_name p)"
| "pool_col p PC_tenant_id = opt_str (pr_tenant_id p)"

definition unique_pool :: "pool_row list \<Rightarrow> bool" where
  "unique_pool rows \<longleftrightarrow> distinct (map pr_id rows) \<and> distinct (map pr_name rows)"

definition pool_clauses :: "req_context \<Rightarrow> pool_column clause list" where
  "pool_clauses ctx = apply_tenant_criteria ctx (Some PC_tenant_id) PC_id True False"

text \<open>A pool with its relations loaded; every row with its identifier.\<close>

record pool_object =
  po_row :: pool_row
  po_attributes :: "(string \<times> string \<times> string) list"
  po_ns_records :: "(string \<times> pool_ns_record) list"
  po_nameservers :: "(string \<times> nameserver_row) list"
  po_targets :: "(string \<times> target_row \<times> (string \<times> string \<times> string) list \<times> (string \<times> string \<times> int) list) list"
  po_also_notifies :: "(string \<times> string \<times> int) list"

definition bodies :: "'b child list \<Rightarrow> (string \<times> 'b) list" where
  "bodies rows = map (\<lambda>c. (ch_id c, ch_body c)) rows"

fun load_targets ::
  "target_row child list \<Rightarrow> (string \<times> target_row \<times> (string \<times> string \<times> string) list \<times>
     (string \<times> string \<times> int) list) list store" where
  "load_targets [] = return []"
| "load_targets (t # ts) =
     bind (find_children options_table (ch_id t)) (\<lambda>os.
     bind (find_children masters_table (ch_id t)) (\<lambda>ms.
     bind (load_targets ts) (\<lambda>rest.
     return ((ch_id t, ch_body t, bodies os, bodies ms) # rest))))"

definition load_relations :: "pool_row \<Rightarrow> pool_object store" where
  "load_relations p =
     bind (find_children attributes_table (pr_id p)) (\<lambda>as.
     bind (find_children ns_records_table (pr_id p)) (\<lambda>ns.
     bind (find_children nameservers_table (pr_id p)) (\<lambda>nss.
     bind (find_children targets_table (pr_id p)) (\<lambda>ts.
     bind (load_targets ts) (\<lambda>tos.
     bind (find_children also_notifies_table (pr_id p)) (\<lambda>ans.
     return \<lparr>po_row = p, po_attributes = bodies as, po_ns_records = bodies ns,
       po_nameservers = bodies nss, po_targets = tos, po_also_notifies = bodies ans\<rparr>))))))"

text \<open>Pools are rows in the order of creation.\<close>

definition find_pool_rows :: "req_context \<Rightarrow> (pool_column \<times> crit) list \<Rightarrow> pool_row list store" where
  "find_pool_rows ctx criterion =
     bind (lift (apply_criterion criterion)) (\<lambda>cls.
     gets (\<lambda>s. select_where pool_col (cls @ pool_clauses ctx) (ps_pools s)))"

fun load_all :: "pool_row list \<Rightarrow> pool_object list store" where
  "load_all [] = return []"
| "load_all (p # ps) = bind (load_relations p) (\<lambda>x. bind (load_all ps) (\<lambda>xs. return (x # xs)))"

definition store_find_pools :: "req_context \<Rightarrow> (pool_column \<times> crit) list \<Rightarrow> pool_object list store" where
  "store_find_pools ctx criterion = bind (find_pool_rows ctx criterion) load_all"

definition store_find_pool :: "req_context \<Rightarrow> (pool_column \<times> crit) list \<Rightarrow> pool_object store" where
  "store_find_pool ctx criterion =
     bind (find_pool_rows ctx criterion) (\<lambda>ps. bind (lift (fetch_one PoolNotFound ps)) load_relations)"

definition store_get_pool :: "req_context \<Rightarrow> string \<Rightarrow> pool_object store" where
  "store_get_pool ctx i = store_find_pool ctx [(PC_id, CStr i)]"

text \<open>A pool to create; a list that is not set is an empty list.\<close>

record new_pool =
  np_row :: pool_row
  np_attributes :: "(string \<times> string) list"
  np_ns_records :: "pool_ns_record list"
  np_nameservers :: "nameserver_row list"
  np_targets :: "new_target list"
  np_also_notifies :: "(string \<times> int) list"

definition store_create_pool :: "env \<Rightarrow> new_pool \<Rightarrow> string store" where
  "store_create_pool E p =
     bind (fresh_id E) (\<lambda>i.
     bind (gets ps_pools) (\<lambda>rows.
     bind (lift (insert_row unique_pool (Duplicate (Some R_Pool)) ((np_row p)\<lparr>pr_id := i\<rparr>) rows)) (\<lambda>rows'.
     seq (modify (\<lambda>s. s\<lparr>ps_pools := rows'\<rparr>))
     (seq (for_each (np_attributes p) (add_child E attributes_table i))
     (seq (for_each (np_ns_records p) (add_child E ns_records_table i))
     (seq (for_each (np_nameservers p) (add_child E nameservers_table i))
     (seq (for_each (np_targets p) (create_pool_target E i))
     (seq (for_each (np_also_notifies p) (add_child E also_notifies_table i))
     (return i)))))))))"

text \<open>A changed pool: what has been assigned to its own attributes, and the lists that are set.\<close>

record pool_change =
  pc_id :: string
  pc_row :: "pool_row \<Rightarrow> pool_row"
  pc_attributes :: "(string \<times> string \<Rightarrow> string \<times> string, string \<times> string) item list option"
  pc_ns_records :: "(pool_ns_record \<Rightarrow> pool_ns_record, pool_ns_record) item list option"
  pc_nameservers :: "(nameserver_row \<Rightarrow> nameserver_row, nameserver_row) item list option"
  pc_targets :: "(target_change, new_target) item list option"
  pc_also_notifies :: "(string \<times> int \<Rightarrow> string \<times> int, string \<times> int) item list option"

definition when_set :: "'x option \<Rightarrow> ('x \<Rightarrow> unit store) \<Rightarrow> unit store" where
  "when_set x f = (case x of None \<Rightarrow> return () | Some v \<Rightarrow> f v)"

definition update_pool_row :: "req_context \<Rightarrow> string \<Rightarrow> (pool_row \<Rightarrow> pool_row) \<Rightarrow> unit store" where
  "update_pool_row ctx i f =
     bind (gets ps_pools) (\<lambda>rows.
     bind (lift (update_where pool_col unique_pool (Duplicate (Some R_Pool)) PoolNotFound
             (Eq PC_id (VStr i) # pool_clauses ctx) f rows)) (\<lambda>rows'.
     modify (\<lambda>s. s\<lparr>ps_pools := rows'\<rparr>)))"

definition update_pool_lists :: "env \<Rightarrow> pool_change \<Rightarrow> unit store" where
  "update_pool_lists E p =
     seq (when_set (pc_attributes p) (update_child_items E attributes_table (pc_id p)))
     (seq (when_set (pc_ns_records p) (update_child_items E ns_records_table (pc_id p)))
     (seq (when_set (pc_nameservers p) (update_child_items E nameservers_table (pc_id p)))
     (seq (when_set (pc_targets p) (update_target_items E (pc_id p)))
     (when_set (pc_also_notifies p) (update_child_items E also_notifies_table (pc_id p))))))"

definition store_update_pool :: "env \<Rightarrow> req_context \<Rightarrow> pool_change \<Rightarrow> pool_object store" where
  "store_update_pool E ctx p =
     seq (update_pool_row ctx (pc_id p) (pc_row p))
     (seq (update_pool_lists E p) (store_get_pool ctx (pc_id p)))"

text \<open>Deleting the row of a pool takes its lists with it, and the lists of its targets.\<close>

definition drop_pool :: "string \<Rightarrow> pool_store \<Rightarrow> pool_store" where
  "drop_pool i s =
     (let gone = map ch_id (filter (\<lambda>t. ch_owner t = i) (ps_targets s)) in
      s\<lparr>ps_pools := filter (\<lambda>p. pr_id p \<noteq> i) (ps_pools s),
        ps_attributes := drop_owned i (ps_attributes s), ps_ns_records := drop_owned i (ps_ns_records s),
        ps_nameservers := drop_owned i (ps_nameservers s), ps_targets := drop_owned i (ps_targets s),
        ps_options := filter (\<lambda>c. ch_owner c \<notin> set gone) (ps_options s),
        ps_masters := filter (\<lambda>c. ch_owner c \<notin> set gone) (ps_masters s),
        ps_also_notifies := drop_owned i (ps_also_notifies s)\<rparr>)"

definition store_delete_pool :: "req_context \<Rightarrow> string \<Rightarrow> pool_object store" where
  "store_delete_pool ctx i =
     bind (store_get_pool ctx i) (\<lambda>p.
     bind (gets ps_pools) (\<lambda>rows.
     bind (lift (delete_where pool_col PoolNotFound
             (Eq PC_id (VStr (pr_id (po_row p))) # pool_clauses ctx) rows)) (\<lambda>_.
     seq (modify (drop_pool (pr_id (po_row p)))) (return p))))"

end
