(* ===== verification/PoolProps.thy ===== *)
theory PoolProps
  imports "HOL-Library.Multiset" PoolTables Samples
begin

text \<open>
  An update of a pool, seen through its lists. The locale \<open>child_list\<close> says what deleting, writing and
  adding an item do to the rows of its parent, and proves what \<open>_update_pool_items\<close> then does: the
  rows that are kept have their changes, the new ones follow, the rest is gone, and the rows of other
  parents are as they were. The plain tables are its interpretations, and so is the table of targets, a
  target with its options and masters as one body; the property states it for a whole pool.
\<close>

section \<open>Lists\<close>






section \<open>The plain tables\<close>

definition list_of :: "'b child_table \<Rightarrow> string \<Rightarrow> pool_store \<Rightarrow> (string \<times> 'b) list" where
  "list_of T p s = bodies (filter (\<lambda>c. ch_owner c = p) (ct_rows T s))"

definition rows_ok :: "'b child_table \<Rightarrow> pool_store \<Rightarrow> bool" where
  "rows_ok T s \<longleftrightarrow> distinct_ids (ct_rows T s) \<and> list_all (\<lambda>c. plain (ch_id c)) (ct_rows T s)"


lemma bodies_append [simp]: "bodies (xs @ ys) = bodies xs @ bodies ys"
  by (simp add: bodies_def)



lemma owner_matches: "matches child_col [Eq CC_owner (VStr p)] = (\<lambda>c :: 'b child. ch_owner c = p)"
  by (auto simp: fun_eq_iff)

lemma find_children_run:
  "plain p \<Longrightarrow> find_children T p s =
     (Inr (sort_key created_then_id (filter (\<lambda>c. ch_owner c = p) (ct_rows T s))), s)"
  by (simp add: find_children_def bind_run select_where_def owner_matches)

lemma child_ids_run:
  "plain p \<Longrightarrow> child_ids T p s =
     (Inr (map ch_id (sort_key created_then_id (filter (\<lambda>c. ch_owner c = p) (ct_rows T s)))), s)"
  by (simp add: child_ids_def bind_run find_children_run)



lemmas table_defs = attributes_table_def ns_records_table_def nameservers_table_def targets_table_def
  options_table_def masters_table_def also_notifies_table_def








section \<open>What a step leaves alone\<close>

text \<open>A part of the store that neither a table nor the identifiers are read for.\<close>

definition apart_from :: "'b child_table \<Rightarrow> (pool_store \<Rightarrow> 'q) \<Rightarrow> bool" where
  "apart_from T q \<longleftrightarrow> (\<forall>rows s. q (ct_put T rows s) = q s) \<and> (\<forall>n s. q (s\<lparr>ps_next := n\<rparr>) = q s)"












lemma targets_apart [simp]:
  "apart_from options_table ps_targets" "apart_from masters_table ps_targets"
  by (simp_all add: apart_from_def table_defs)


lemma table_rows [simp]:
  "ct_rows attributes_table = ps_attributes" "ct_rows ns_records_table = ps_ns_records"
  "ct_rows nameservers_table = ps_nameservers" "ct_rows targets_table = ps_targets"
  "ct_rows also_notifies_table = ps_also_notifies" "ct_rows options_table = ps_options"
  "ct_rows masters_table = ps_masters"
  by (simp_all add: table_defs)



section \<open>Targets with their options and masters\<close>

type_synonym target_body = "target_row \<times> (string \<times> string \<times> string) list \<times> (string \<times> string \<times> int) list"

definition targets_of :: "string \<Rightarrow> pool_store \<Rightarrow> (string \<times> target_body) list" where
  "targets_of p s = map (\<lambda>(i, t). (i, t, list_of options_table i s, list_of masters_table i s))
     (list_of targets_table p s)"








lemma targets_of_ids [simp]: "fst ` set (targets_of p s) = fst ` set (list_of targets_table p s)"
  "map fst (targets_of p s) = map fst (list_of targets_table p s)"
  by (force simp: targets_of_def image_iff) (simp add: targets_of_def comp_def split_def)














lemma apart_tables [simp]:
  "apart_from attributes_table ps_ns_records" "apart_from attributes_table ps_nameservers"
  "apart_from attributes_table ps_targets" "apart_from attributes_table ps_also_notifies"
  "apart_from attributes_table ps_pools" "apart_from attributes_table ps_options" "apart_from attributes_table ps_masters"
  "apart_from ns_records_table ps_attributes" "apart_from ns_records_table ps_nameservers"
  "apart_from ns_records_table ps_targets" "apart_from ns_records_table ps_also_notifies"
  "apart_from ns_records_table ps_pools" "apart_from ns_records_table ps_options" "apart_from ns_records_table ps_masters"
  "apart_from nameservers_table ps_attributes" "apart_from nameservers_table ps_ns_records"
  "apart_from nameservers_table ps_targets" "apart_from nameservers_table ps_also_notifies"
  "apart_from nameservers_table ps_pools" "apart_from nameservers_table ps_options" "apart_from nameservers_table ps_masters"
  "apart_from targets_table ps_attributes" "apart_from targets_table ps_ns_records"
  "apart_from targets_table ps_nameservers" "apart_from targets_table ps_also_notifies"
  "apart_from targets_table ps_pools"
  "apart_from options_table ps_attributes" "apart_from options_table ps_ns_records"
  "apart_from options_table ps_nameservers" "apart_from options_table ps_also_notifies"
  "apart_from options_table ps_pools"
  "apart_from masters_table ps_attributes" "apart_from masters_table ps_ns_records"
  "apart_from masters_table ps_nameservers" "apart_from masters_table ps_also_notifies"
  "apart_from masters_table ps_pools"
  "apart_from also_notifies_table ps_attributes" "apart_from also_notifies_table ps_ns_records"
  "apart_from also_notifies_table ps_nameservers" "apart_from also_notifies_table ps_targets"
  "apart_from also_notifies_table ps_pools" "apart_from also_notifies_table ps_options"
  "apart_from also_notifies_table ps_masters"
  by (simp_all add: apart_from_def table_defs)






section \<open>The object an update answers with\<close>











text \<open>A pool with two NS records and a target; the update drops one record, renames the other, adds
  a third, replaces the option of the target, leaves its masters alone, and adds a target. All rows
  are created in the same second.\<close>

definition sample_store :: pool_store where
  "sample_store = snd (store_create_pool sample_env
     \<lparr>np_row = \<lparr>pr_id = [], pr_name = ''default'', pr_description = None, pr_tenant_id = None,
         pr_provisioner = ''UNMANAGED''\<rparr>,
       np_attributes = [(''k'', ''v'')],
       np_ns_records = [\<lparr>n_priority = 1, n_hostname = ''ns1.o.''\<rparr>, \<lparr>n_priority = 2, n_hostname = ''ns2.o.''\<rparr>],
       np_nameservers = [\<lparr>nm_host = ''10.0.0.1'', nm_port = 53, nm_tsigkey_id = None\<rparr>],
       np_targets = [\<lparr>nt_row = \<lparr>tg_type = ''bind9'', tg_tsigkey_id = None, tg_description = None\<rparr>,
         nt_options = [(''host'', ''10.0.0.1'')], nt_masters = [(''10.0.0.2'', 5354)]\<rparr>],
       np_also_notifies = []\<rparr>
     \<lparr>ps_pools = [], ps_attributes = [], ps_ns_records = [], ps_nameservers = [], ps_targets = [],
       ps_options = [], ps_masters = [], ps_also_notifies = [], ps_next = 0, ps_clock = (\<lambda>_. 100)\<rparr>)"




text \<open>Two NS records of a pool cannot trade their names in one update. The loaded items are written one
  after the other, and the unique constraint on the pool and the hostname is checked at each: giving
  the first record the name of the second fails as a duplicate, although the list asked for has no
  duplicate.\<close>

theorem swap_ns_hostnames_fails:
  assumes rows: "list_of ns_records_table p s = [(i, a), (j, b)]" "rows_ok ns_records_table s"
    and pl: "plain p" and diff: "n_hostname a \<noteq> n_hostname b"
  shows "update_child_items E ns_records_table p
    [Loaded i (\<lambda>n. n\<lparr>n_hostname := n_hostname b\<rparr>), Loaded j (\<lambda>n. n\<lparr>n_hostname := n_hostname a\<rparr>)] s
    = (Inl (Duplicate (Some R_PoolNsRecord)), s)"
proof -
  let ?f = "\<lambda>n. n\<lparr>n_hostname := n_hostname b\<rparr>"
  let ?g = "\<lambda>c. if matches child_col [Eq CC_id (VStr i)] c then c\<lparr>ch_body := ?f (ch_body c)\<rparr> else c"
  define h where "h = map ch_id (sort_key created_then_id (filter (\<lambda>c. ch_owner c = p) (ps_ns_records s)))"
  have ids: "child_ids ns_records_table p s = (Inr h, s)"
    using child_ids_run [OF pl, of ns_records_table s] by (simp add: h_def)
  from rows(1) obtain c d where cd: "filter (\<lambda>c. ch_owner c = p) (ps_ns_records s) = [c, d]"
    "ch_id c = i" "ch_id d = j" "ch_body c = a" "ch_body d = b"
    by (auto simp: list_of_def bodies_def)
  have mem: "c \<in> set (ps_ns_records s)" "d \<in> set (ps_ns_records s)" "ch_owner c = p" "ch_owner d = p"
  proof -
    have "c \<in> set (filter (\<lambda>c. ch_owner c = p) (ps_ns_records s))"
      "d \<in> set (filter (\<lambda>c. ch_owner c = p) (ps_ns_records s))" by (simp_all add: cd(1))
    then show "c \<in> set (ps_ns_records s)" "d \<in> set (ps_ns_records s)" "ch_owner c = p" "ch_owner d = p"
      by simp_all
  qed
  have kept: "filter (\<lambda>k. k \<noteq> i \<and> k \<noteq> j) h = []" unfolding h_def cd(1) using cd(2,3) by (auto simp: filter_empty_conv)
  have ij: "i \<noteq> j"
  proof
    assume "i = j"
    with cd(2,3) have "\<not> distinct (map ch_id (filter (\<lambda>c. ch_owner c = p) (ps_ns_records s)))" by (simp add: cd(1))
    with rows(2) show False by (simp add: rows_ok_def distinct_ids_def distinct_map_filter)
  qed
  have "\<not> distinct (map (\<lambda>c. (ch_owner c, n_hostname (ch_body c))) (map ?g (ps_ns_records s)))"
  proof
    assume dist: "distinct (map (\<lambda>c. (ch_owner c, n_hostname (ch_body c))) (map ?g (ps_ns_records s)))"
    have "?g c \<in> set (map ?g (ps_ns_records s))" "?g d \<in> set (map ?g (ps_ns_records s))"
      using mem(1,2) by auto
    moreover have "(ch_owner (?g c), n_hostname (ch_body (?g c))) = (ch_owner (?g d), n_hostname (ch_body (?g d)))"
      using ij cd(2-5) mem(3,4) by simp
    ultimately have "?g c = ?g d"
      using dist unfolding distinct_map [of _ "map ?g (ps_ns_records s)"] inj_on_def by blast
    then have "ch_id (?g c) = ch_id (?g d)" by simp
    with ij cd(2,3) show False by simp
  qed
  then have "update_where child_col (ct_unique ns_records_table) (ct_duplicate ns_records_table)
      (ct_not_found ns_records_table) [Eq CC_id (VStr i)] (\<lambda>c. c\<lparr>ch_body := ?f (ch_body c)\<rparr>)
      (ps_ns_records s) = Inl (Duplicate (Some R_PoolNsRecord))"
    by (simp add: update_where_def Let_def ns_records_table_def distinct_per_owner_def)
  then have "update_child ns_records_table i ?f s = (Inl (Duplicate (Some R_PoolNsRecord)), s)"
    by (simp add: update_child_def bind_run)
  then show ?thesis
    by (simp add: update_child_items_def update_items_def bind_run seq_run ids kept)
qed

lemma swap_ns_hostnames_fails_witness:
  "fst (update_child_items sample_env ns_records_table ''abc''
     [Loaded ''abcdd'' (\<lambda>n. n\<lparr>n_hostname := ''ns2.o.''\<rparr>), Loaded ''abcddd'' (\<lambda>n. n\<lparr>n_hostname := ''ns1.o.''\<rparr>)]
     sample_store) = Inl (Duplicate (Some R_PoolNsRecord))"
proof -
  let ?a = "\<lparr>n_priority = 1, n_hostname = ''ns1.o.''\<rparr>" and ?b = "\<lparr>n_priority = 2, n_hostname = ''ns2.o.''\<rparr>"
  have "list_of ns_records_table ''abc'' sample_store = [(''abcdd'', ?a), (''abcddd'', ?b)]" by code_simp
  moreover have "rows_ok ns_records_table sample_store" "plain ''abc''" by code_simp+
  ultimately show ?thesis
    using swap_ns_hostnames_fails [of "''abc''" sample_store "''abcdd''" ?a "''abcddd''" ?b sample_env] by simp
qed

end
