(* ===== verification/FloatingIps.thy ===== *)
theory FloatingIps
  imports CentralZones Validation "HOL-Library.AList"
begin

text \<open>
  The PTR records of floating IPs: what \<open>central/service.py\<close> does between the network service, which
  knows which addresses a project has, and the reverse zones, where a managed record carries the name
  of an address. The list of floating IPs of a project (\<open>network_api\<close>) and the reverse name of an
  address (dnspython) are parameters.
\<close>

section \<open>Floating IPs\<close>

text \<open>What \<open>list_floatingips\<close> of a network API answers.\<close>

record fip =
  f_region :: string
  f_id :: string
  f_address :: string

type_synonym network = "req_context \<Rightarrow> string option \<Rightarrow> exn + fip list"

text \<open>A FloatingIP object; its status INACTIVE is None.\<close>

record fip_ptr =
  fp_region :: string
  fp_id :: string
  fp_address :: string
  fp_ptrdname :: "string option"
  fp_ttl :: "int option"
  fp_description :: "string option"
  fp_action :: action
  fp_status :: "status option"

text \<open>The object a client sends: \<open>ptrdname\<close> may be missing, None or a name.\<close>

record fip_values =
  fv_ptrdname :: "string option option"
  fv_description :: "string option"
  fv_ttl :: "int option"

type_synonym fip_dict = "((string \<times> string) \<times> fip) list"

definition list_to_dict :: "fip list \<Rightarrow> fip_dict" where
  "list_to_dict fips = fold (\<lambda>f. AList.update (f_region f, f_id f) f) fips []"

definition network_floatingips :: "network \<Rightarrow> req_context \<Rightarrow> string option \<Rightarrow> fip_dict sys" where
  "network_floatingips N ctx region = bind (lift (N ctx region)) (\<lambda>fips. return (list_to_dict fips))"

definition get_fip :: "string \<Rightarrow> string \<Rightarrow> fip_dict \<Rightarrow> exn + fip" where
  "get_fip region i fips =
     (case map_of fips (region, i) of None \<Rightarrow> Inl (NotFound NF_plain) | Some f \<Rightarrow> Inr f)"

text \<open>\<open>NetworkAPI.address_zone\<close>.\<close>

definition address_zone :: "string \<Rightarrow> string" where
  "address_zone address = join ''.'' (rev (butlast (split_on dot address))) @ ''.in-addr.arpa.''"

definition elevate_edit :: "env \<Rightarrow> req_context \<Rightarrow> req_context sys" where
  "elevate_edit E ctx = lift (elevated E ctx None True True False)"

text \<open>\<open>recordset.validate()\<close> before the recordset is written.\<close>

definition validated :: "addr_env \<Rightarrow> string list \<Rightarrow> recordset \<Rightarrow> unit sys" where
  "validated A supported rs =
     (case Validation.validate_recordset A supported rs of
        RV_ok \<Rightarrow> return () | RV_crash e \<Rightarrow> raise e | _ \<Rightarrow> raise InvalidObject)"

section \<open>Managed recordsets\<close>

text \<open>\<open>records.remove(record)\<close> for the record with the identifier.\<close>

fun remove_record :: "string \<Rightarrow> rrecord list \<Rightarrow> rrecord list" where
  "remove_record i [] = []"
| "remove_record i (r # rs) = (if r_id r = Some i then rs else r # remove_record i rs)"

definition delete_or_update_managed_recordset ::
  "env \<Rightarrow> addr_env \<Rightarrow> string list \<Rightarrow> req_context \<Rightarrow> string option \<Rightarrow> string \<Rightarrow> string \<Rightarrow> unit sys" where
  "delete_or_update_managed_recordset E A supported ctx zone_id recordset_id record_id =
     transaction (catch
       (bind (storage_find_recordset ctx
               ((RC_id, CStr recordset_id) #
                (case zone_id of None \<Rightarrow> [] | Some z \<Rightarrow> [(RC_zone_id, CStr z)])) True) (\<lambda>rs.
        if Some record_id \<notin> r_id ` set (rs_records rs) then return ()
        else
          let rs' = rs\<lparr>rs_records := remove_record record_id (rs_records rs)\<rparr> in
          if rs_records rs' = [] then
            bind (delete_recordset E ctx
                    (if zone_id = None \<or> zone_id = Some '''' then rs_zone_id rs else opt_string zone_id)
                    recordset_id True) (\<lambda>_. return ())
          else
            seq (validated A supported rs')
            (bind (update_recordset E ctx rs' True) (\<lambda>_. return ()))))
       (\<lambda>e. if e = RecordSetNotFound then Some (return ()) else None))"

text \<open>\<open>name.encode('idna').decode('utf-8')\<close>. The labels of an ASCII name are counted, and it is not changed; the
  encoding of other names (nameprep and punycode) is an argument.\<close>

definition is_ascii :: "string \<Rightarrow> bool" where
  "is_ascii s \<longleftrightarrow> list_all (\<lambda>c. (of_char c :: nat) < 128) s"

definition idna :: "env \<Rightarrow> string \<Rightarrow> exn + string" where
  "idna E s =
     (if \<not> is_ascii s then e_idna E s
      else let labels = split_on dot s in
        if (\<exists>l \<in> set (butlast labels). l = [] \<or> 64 \<le> length l) \<or> 64 \<le> length (last labels)
        then Inl PyValueError else Inr s)"

definition create_or_update_managed_recordset ::
  "env \<Rightarrow> addr_env \<Rightarrow> string list \<Rightarrow> req_context \<Rightarrow> string \<Rightarrow> rrecord list \<Rightarrow> string \<Rightarrow> string \<Rightarrow> int option
     \<Rightarrow> recordset sys" where
  "create_or_update_managed_recordset E A supported ctx zone_id records rs_name' ty ttl =
     transaction (
       bind (lift (idna E rs_name')) (\<lambda>name.
       catch
         (bind (storage_find_recordset ctx
                 [(RC_zone_id, CStr zone_id), (RC_name, CStr name), (RC_type, CStr ty)] True) (\<lambda>rs.
          let rs' = rs\<lparr>rs_ttl := ttl, rs_records := records,
                       rs_changed := {RSA_ttl, RSA_records} \<union> rs_changed rs\<rparr> in
          seq (validated A supported rs') (update_recordset E ctx rs' True)))
         (\<lambda>e. if e = RecordSetNotFound then Some (
            let rs' = (new_recordset name ty records)\<lparr>rs_ttl := ttl\<rparr> in
            seq (validated A supported rs') (create_recordset E ctx zone_id rs' True)) else None)))"

section \<open>Records and floating IPs\<close>

text \<open>\<open>{r['managed_extra']: r for r in records}\<close>: the last record of an address.\<close>

definition record_of :: "rrecord list \<Rightarrow> string \<Rightarrow> rrecord option" where
  "record_of records address = find (\<lambda>r. r_managed_extra r = Some address) (rev records)"

definition fip_criterion :: "(record_column \<times> crit) list" where
  "fip_criterion = [(DC_managed, CVal (VBool True)), (DC_managed_resource_type, CStr ''ptr:floatingip'')]"

text \<open>The floating IPs with their records, and the records that another project left behind.\<close>

definition own_record :: "string option \<Rightarrow> rrecord option \<Rightarrow> rrecord option" where
  "own_record project r = (case r of Some x \<Rightarrow> if r_managed_tenant_id x \<noteq> project then None else r | None \<Rightarrow> None)"

definition determine_floatingips ::
  "env \<Rightarrow> req_context \<Rightarrow> fip_dict \<Rightarrow> ((fip \<times> rrecord option) list \<times> rrecord list) sys" where
  "determine_floatingips E ctx fips =
     bind (elevate_edit E ctx) (\<lambda>c.
     bind (find_records E c fip_criterion) (\<lambda>records.
     return (map (\<lambda>(k, f). (f, own_record (c_project_id ctx) (record_of records (f_address f)))) fips,
       List.map_filter (\<lambda>(k, f). case record_of records (f_address f) of
          Some r \<Rightarrow> if r_managed_tenant_id r \<noteq> c_project_id ctx then Some r else None
        | None \<Rightarrow> None) fips)))"

definition invalidate_floatingips ::
  "env \<Rightarrow> addr_env \<Rightarrow> string list \<Rightarrow> req_context \<Rightarrow> rrecord list \<Rightarrow> unit sys" where
  "invalidate_floatingips E A supported ctx records =
     (if records = [] then return ()
      else bind (elevate_edit E ctx) (\<lambda>c.
        for_each records (\<lambda>r. delete_or_update_managed_recordset E A supported c
          (Some (r_zone_id r)) (r_recordset_id r) (opt_string (r_id r)))))"

definition unassociated :: "fip \<Rightarrow> string \<Rightarrow> fip_ptr" where
  "unassociated f address = \<lparr>fp_region = f_region f, fp_id = f_id f, fp_address = address,
     fp_ptrdname = None, fp_ttl = None, fp_description = None, fp_action = NONE, fp_status = None\<rparr>"

text \<open>The recordset and the TTL a record is shown with; None where the code gives up on the record.\<close>

definition recordset_of :: "req_context \<Rightarrow> rrecord \<Rightarrow> recordset option \<Rightarrow> recordset option sys" where
  "recordset_of c r known =
     (if known \<noteq> None then return known
      else catch (bind (storage_find_recordset c [(RC_id, CStr (r_recordset_id r))] True)
                    (\<lambda>rs. return (Some rs)))
             (\<lambda>e. if e = RecordSetNotFound then Some (return None) else None))"

definition ttl_of ::
  "env \<Rightarrow> req_context \<Rightarrow> rrecord \<Rightarrow> recordset \<Rightarrow> zone option \<Rightarrow> int option option sys" where
  "ttl_of E c r rs known =
     (if rs_ttl rs \<noteq> None then return (Some (rs_ttl rs))
      else
        case known of
          Some z \<Rightarrow> return (Some (z_ttl z))
        | None \<Rightarrow> catch (bind (get_zone E c (r_zone_id r) True) (\<lambda>z. return (Some (z_ttl z))))
             (\<lambda>e. if e = ZoneNotFound then Some (return None) else None))"

definition shown_status :: "status \<Rightarrow> status option" where
  "shown_status x = (if x \<in> {ACTIVE, ERROR, PENDING} then Some x else None)"

definition create_floating_ip ::
  "env \<Rightarrow> addr_env \<Rightarrow> req_context \<Rightarrow> fip \<Rightarrow> rrecord option \<Rightarrow> zone option \<Rightarrow> recordset option \<Rightarrow> fip_ptr sys" where
  "create_floating_ip E A ctx f record known_zone known_rs =
     bind (elevate_all E ctx) (\<lambda>c.
     bind (lift (ipv4_field A (f_address f))) (\<lambda>address.
     let ptr = unassociated f address in
     case record of
       None \<Rightarrow> return ptr
     | Some r \<Rightarrow>
         bind (recordset_of c r known_rs) (\<lambda>found.
         case found of
           None \<Rightarrow> return ptr
         | Some rs \<Rightarrow>
             bind (ttl_of E c r rs known_zone) (\<lambda>ttl.
             case ttl of
               None \<Rightarrow> return ptr
             | Some t \<Rightarrow>
                 bind (lift (rs_status rs)) (\<lambda>st.
                 bind (lift (domain_field None (r_data r))) (\<lambda>name.
                 return (ptr\<lparr>fp_ttl := t, fp_action := rs_action rs, fp_status := shown_status st,
                   fp_ptrdname := Some name, fp_description := r_description r\<rparr>)))))))"

fun create_floating_ip_list ::
  "env \<Rightarrow> addr_env \<Rightarrow> req_context \<Rightarrow> (fip \<times> rrecord option) list \<Rightarrow> fip_ptr list sys" where
  "create_floating_ip_list E A ctx [] = return []"
| "create_floating_ip_list E A ctx ((f, r) # rest) =
     bind (create_floating_ip E A ctx f r None None) (\<lambda>p.
     bind (create_floating_ip_list E A ctx rest) (\<lambda>ps. return (p # ps)))"

section \<open>The RPC methods\<close>

definition list_floatingips ::
  "env \<Rightarrow> addr_env \<Rightarrow> string list \<Rightarrow> network \<Rightarrow> req_context \<Rightarrow> fip_ptr list sys" where
  "list_floatingips E A supported N ctx =
     bind (elevate_edit E ctx) (\<lambda>c.
     bind (network_floatingips N ctx None) (\<lambda>fips.
     bind (determine_floatingips E c fips) (\<lambda>(valid, invalid).
     seq (invalidate_floatingips E A supported ctx invalid)
     (create_floating_ip_list E A ctx valid))))"

definition get_floatingip ::
  "env \<Rightarrow> addr_env \<Rightarrow> string list \<Rightarrow> network \<Rightarrow> req_context \<Rightarrow> string \<Rightarrow> string \<Rightarrow> fip_ptr sys" where
  "get_floatingip E A supported N ctx region i =
     bind (elevate_all E ctx) (\<lambda>c.
     bind (network_floatingips N ctx (Some region)) (\<lambda>fips.
     bind (lift (get_fip region i fips)) (\<lambda>f.
     bind (determine_floatingips E c (list_to_dict [f])) (\<lambda>(valid, invalid).
     seq (invalidate_floatingips E A supported ctx invalid)
     (bind (create_floating_ip_list E A ctx valid) (\<lambda>ps.
      case ps of [] \<Rightarrow> raise PyIndexError | p # _ \<Rightarrow> return p))))))"

text \<open>The zone of an address, made for the managed project when there is none.\<close>

definition ptr_zone :: "config \<Rightarrow> string \<Rightarrow> zone_request" where
  "ptr_zone cf name = \<lparr>zr_tenant_id = Some (cf_managed_resource_tenant_id cf), zr_name = Some name,
     zr_email = cf_managed_resource_email cf, zr_ttl = None, zr_retry = None, zr_expire = None,
     zr_minimum = None, zr_serial = None, zr_description = None, zr_type = PRIMARY,
     zr_attributes = None, zr_masters = None, zr_recordsets = []\<rparr>"

definition create_ptr_zone :: "env \<Rightarrow> filter_name list \<Rightarrow> req_context \<Rightarrow> string \<Rightarrow> zone sys" where
  "create_ptr_zone E filters ctx name =
     catch (create_zone E filters ctx (ptr_zone (e_conf E) name))
       (\<lambda>e. if e = Duplicate (Some R_Zone) then Some (storage_find_zone ctx [(ZC_name, CStr name)]) else None)"

definition ptr_record :: "req_context \<Rightarrow> fip \<Rightarrow> string \<Rightarrow> string \<Rightarrow> string \<Rightarrow> string option \<Rightarrow> rrecord" where
  "ptr_record ctx f region i ptrdname description =
     (new_record ptrdname True)\<lparr>r_description := description, r_managed_extra := Some (f_address f),
        r_managed_resource_id := Some i, r_managed_resource_region := Some region,
        r_managed_resource_type := Some ''ptr:floatingip'', r_managed_tenant_id := c_project_id ctx\<rparr>"

definition set_floatingip_reverse ::
  "env \<Rightarrow> addr_env \<Rightarrow> string list \<Rightarrow> filter_name list \<Rightarrow> network \<Rightarrow> (string \<Rightarrow> exn + string) \<Rightarrow> req_context
     \<Rightarrow> string \<Rightarrow> string \<Rightarrow> string \<Rightarrow> string option \<Rightarrow> int option \<Rightarrow> fip_ptr sys" where
  "set_floatingip_reverse E A supported filters N address_name ctx region i ptrdname description ttl =
     bind (elevate_edit E ctx) (\<lambda>c.
     bind (network_floatingips N ctx (Some region)) (\<lambda>fips.
     bind (lift (get_fip region i fips)) (\<lambda>f.
     let zone_name = address_zone (f_address f) in
     bind (catch (storage_find_zone c [(ZC_name, CStr zone_name)])
             (\<lambda>e. if e = ZoneNotFound then Some (create_ptr_zone E filters c zone_name) else None)) (\<lambda>z.
     bind (lift (address_name (f_address f))) (\<lambda>record_name.
     bind (create_or_update_managed_recordset E A supported c (z_id z)
             [ptr_record ctx f region i ptrdname description]
             record_name ''PTR'' ttl) (\<lambda>rs.
     case rs_records rs of
       [] \<Rightarrow> raise PyIndexError
     | r # _ \<Rightarrow> create_floating_ip E A ctx f (Some r) (Some z) (Some rs)))))))"

definition resource_criterion :: "string \<Rightarrow> string option \<Rightarrow> (record_column \<times> crit) list" where
  "resource_criterion i project =
     [(DC_managed_resource_id, CStr i),
      (DC_managed_tenant_id, case project of None \<Rightarrow> CVal VNull | Some t \<Rightarrow> CStr t)]"

definition unset_floatingip_reverse ::
  "env \<Rightarrow> addr_env \<Rightarrow> string list \<Rightarrow> req_context \<Rightarrow> string \<Rightarrow> unit sys" where
  "unset_floatingip_reverse E A supported ctx i =
     bind (elevate_edit E ctx) (\<lambda>c.
     bind (catch (storage_find_record c (resource_criterion i (c_project_id ctx)))
             (\<lambda>e. if e = RecordNotFound then Some (raise (NotFound NF_plain)) else None)) (\<lambda>r.
     delete_or_update_managed_recordset E A supported c (Some (r_zone_id r)) (r_recordset_id r)
       (opt_string (r_id r))))"

definition update_floatingip ::
  "env \<Rightarrow> addr_env \<Rightarrow> string list \<Rightarrow> filter_name list \<Rightarrow> network \<Rightarrow> (string \<Rightarrow> exn + string) \<Rightarrow> req_context
     \<Rightarrow> string \<Rightarrow> string \<Rightarrow> fip_values \<Rightarrow> fip_ptr option sys" where
  "update_floatingip E A supported filters N address_name ctx region i values =
     (case fv_ptrdname values of
        Some None \<Rightarrow> seq (unset_floatingip_reverse E A supported ctx i) (return None)
      | Some (Some name) \<Rightarrow>
          bind (set_floatingip_reverse E A supported filters N address_name ctx region i name
                  (fv_description values) (fv_ttl values)) (\<lambda>p. return (Some p))
      | None \<Rightarrow> return None)"

end
