(* ===== verification/FloatingProps.thy ===== *)
theory FloatingProps
  imports FloatingIps CentralFacts Samples
begin

text \<open>
  What the floating IP methods guarantee: a project is shown the names of its own addresses only, a name
  that has been set is the one listed afterwards, and where unsetting a name fails although the name
  is there.
\<close>

section \<open>Lists of floating IPs\<close>

definition fip_key :: "fip \<Rightarrow> string \<times> string" where
  "fip_key f = (f_region f, f_id f)"

definition ptr_key :: "fip_ptr \<Rightarrow> string \<times> string" where
  "ptr_key p = (fp_region p, fp_id p)"

lemma list_to_dict_aux:
  "distinct (map fst al) \<Longrightarrow> (\<And>k f. (k, f) \<in> set al \<Longrightarrow> k = fip_key f) \<Longrightarrow>
     distinct (map fst (fold (\<lambda>f. AList.update (f_region f, f_id f) f) fs al)) \<and>
     (\<forall>(k, f) \<in> set (fold (\<lambda>f. AList.update (f_region f, f_id f) f) fs al). k = fip_key f \<and> f \<in> set fs \<union> snd ` set al) \<and>
     fst ` set (fold (\<lambda>f. AList.update (f_region f, f_id f) f) fs al) = fip_key ` set fs \<union> fst ` set al"
proof (induction fs arbitrary: al)
  case Nil
  then show ?case by force
next
  case (Cons x fs)
  let ?al = "AList.update (f_region x, f_id x) x al"
  have sub: "set ?al \<subseteq> insert (fip_key x, x) (set al)"
    by (induction al) (auto simp: fip_key_def)
  have "distinct (map fst ?al)" using Cons.prems(1) by (rule distinct_update)
  moreover have "k = fip_key f" if "(k, f) \<in> set ?al" for k f
    using sub that Cons.prems(2) [of k f] by blast
  moreover have "fst ` set ?al = insert (fip_key x) (fst ` set al)"
    by (simp add: dom_update fip_key_def)
  ultimately show ?case using Cons.IH [of ?al] sub by (fastforce simp: image_iff)
qed

lemma list_to_dict_facts:
  "distinct (map fst (list_to_dict fs))"
  "(k, f) \<in> set (list_to_dict fs) \<Longrightarrow> k = fip_key f \<and> f \<in> set fs"
  "fst ` set (list_to_dict fs) = fip_key ` set fs"
  using list_to_dict_aux [of "[]" fs] by (auto simp: list_to_dict_def)

section \<open>Whose record it is\<close>

definition fip_record :: "rrecord \<Rightarrow> bool" where
  "fip_record r \<longleftrightarrow> r_managed r \<and> r_managed_resource_type r = Some ''ptr:floatingip''"

text \<open>The record carries the name of the address for the project of the context.\<close>

definition own_ptr :: "req_context \<Rightarrow> fip \<Rightarrow> rrecord \<Rightarrow> bool" where
  "own_ptr ctx f r \<longleftrightarrow> fip_record r \<and> r_managed_tenant_id r = c_project_id ctx \<and>
     r_managed_extra r = Some (f_address f)"

lemma fip_criterion_clauses:
  "apply_criterion fip_criterion =
     Inr [Eq DC_managed (VBool True), Eq DC_managed_resource_type (VStr ''ptr:floatingip'')]"
  by code_simp

lemma elevate_edit_Inr:
  "elevate_edit E ctx w = (Inr c, w') \<Longrightarrow>
     w' = w \<and> c_all_tenants c \<and> c_project_id c = c_project_id ctx \<and> c_edit_managed_records c"
  using elevated_Inr [of E ctx True c] by (auto simp: elevate_edit_def)

lemma find_fip_records:
  assumes "find_records E c fip_criterion w = (Inr rs, w')" "c_all_tenants c"
  shows "w' = w" "rs = filter fip_record (d_records (w_db w))"
proof -
  from assms(1) have rs: "w' = w" "rs = select_where record_col
      ([Eq DC_managed (VBool True), Eq DC_managed_resource_type (VStr ''ptr:floatingip'')] @
       apply_tenant_criteria c (Some DC_tenant_id) DC_none True False) (d_records (w_db w))"
    by (auto simp: find_records_def storage_find_records_def record_where_def comp_iffs
        fip_criterion_clauses)
  show "w' = w" by (rule rs(1))
  have "apply_tenant_criteria c (Some DC_tenant_id) DC_none True False = []"
    using assms(2) by (simp add: apply_tenant_criteria_def)
  with rs(2) show "rs = filter fip_record (d_records (w_db w))"
    by (auto simp: select_where_def fip_record_def intro!: filter_cong)
qed

lemma find_in: "find P xs = Some x \<Longrightarrow> x \<in> set xs \<and> P x"
  by (induction xs) (auto split: if_splits)

lemma record_of_Some:
  "record_of rs a = Some r \<Longrightarrow> r \<in> set rs \<and> r_managed_extra r = Some a"
  using find_in [of "\<lambda>r. r_managed_extra r = Some a" "rev rs" r] by (simp add: record_of_def)

lemma determine_Inr:
  assumes "determine_floatingips E ctx fips w = (Inr (valid, invalid), w')"
  shows "w' = w"
    "valid = map (\<lambda>(k, f). (f, own_record (c_project_id ctx)
       (record_of (filter fip_record (d_records (w_db w))) (f_address f)))) fips"
    "(f, Some r) \<in> set valid \<Longrightarrow> r \<in> set (d_records (w_db w)) \<and> own_ptr ctx f r"
proof -
  from assms obtain c rs where c: "elevate_edit E ctx w = (Inr c, w)" "find_records E c fip_criterion w = (Inr rs, w')"
    and v: "valid = map (\<lambda>(k, f). (f, own_record (c_project_id ctx) (record_of rs (f_address f)))) fips"
    by (auto simp: determine_floatingips_def comp_iffs) (metis elevate_edit_Inr)
  note e = elevate_edit_Inr [OF c(1)]
  note f = find_fip_records [OF c(2)]
  show "w' = w" using f(1) e by blast
  show valid: "valid = map (\<lambda>(k, f). (f, own_record (c_project_id ctx)
       (record_of (filter fip_record (d_records (w_db w))) (f_address f)))) fips"
    using v f(2) e by simp
  show "r \<in> set (d_records (w_db w)) \<and> own_ptr ctx f r" if "(f, Some r) \<in> set valid"
  proof -
    from that valid have
      "own_record (c_project_id ctx) (record_of (filter fip_record (d_records (w_db w))) (f_address f)) = Some r"
      by auto
    then have "record_of (filter fip_record (d_records (w_db w))) (f_address f) = Some r"
      "r_managed_tenant_id r = c_project_id ctx"
      by (auto simp: own_record_def split: option.splits if_splits)
    with record_of_Some [OF this(1)] show ?thesis by (simp add: own_ptr_def)
  qed
qed

section \<open>A project sees its own names\<close>

lemma domain_field_same: "domain_field m s = Inr t \<Longrightarrow> t = s"
  by (auto simp: domain_field_def string_field_def ebind_def bad_if_def split: if_splits option.splits)

lemma create_floating_ip_Inr:
  assumes "create_floating_ip E A ctx f r kz krs w = (Inr p, w')"
  shows "ptr_key p = fip_key f"
    "fp_ptrdname p = Some d \<Longrightarrow> \<exists>x. r = Some x \<and> r_data x = d"
proof -
  have "ptr_key p = fip_key f \<and> (\<forall>d. fp_ptrdname p = Some d \<longrightarrow> (\<exists>x. r = Some x \<and> r_data x = d))"
    using assms
    by (auto simp: create_floating_ip_def comp_iffs Let_def ptr_key_def fip_key_def unassociated_def
        dest!: domain_field_same split: option.splits)
  then show "ptr_key p = fip_key f" "fp_ptrdname p = Some d \<Longrightarrow> \<exists>x. r = Some x \<and> r_data x = d"
    by blast+
qed

lemma create_floating_ip_list_Inr:
  "create_floating_ip_list E A ctx frs w = (Inr ps, w') \<Longrightarrow>
     list_all2 (\<lambda>(f, r) p. ptr_key p = fip_key f \<and>
       (\<forall>d. fp_ptrdname p = Some d \<longrightarrow> (\<exists>x. r = Some x \<and> r_data x = d))) frs ps"
proof (induction frs arbitrary: w ps)
  case Nil
  then show ?case by simp
next
  case (Cons fr frs)
  obtain f r where fr: "fr = (f, r)" by fastforce
  from Cons.prems fr obtain p qs v where
    p: "create_floating_ip E A ctx f r None None w = (Inr p, v)" and ps: "ps = p # qs"
    and q: "create_floating_ip_list E A ctx frs v = (Inr qs, w')"
    by (auto simp: comp_iffs)
  from create_floating_ip_Inr [OF p] Cons.IH [OF q] show ?case by (simp add: fr ps)
qed

lemma list_all2_right: "list_all2 P xs ys \<Longrightarrow> y \<in> set ys \<Longrightarrow> \<exists>x \<in> set xs. P x y"
  by (induction rule: list_all2_induct) auto

text \<open>C28: A project is shown its own addresses and its own names. The list of floating IPs has exactly
  one entry for each address the network service gives the project, and an entry that carries a name
  has it from a managed record of that address which was set for this very project, however the
  address went from project to project before.\<close>

theorem list_floatingips_own:
  assumes run: "list_floatingips E A supported N ctx w = (Inr ptrs, w')"
  shows "\<exists>fips. N ctx None = Inr fips \<and> distinct (map ptr_key ptrs) \<and>
    ptr_key ` set ptrs = fip_key ` set fips \<and>
    (\<forall>p \<in> set ptrs. \<forall>d. fp_ptrdname p = Some d \<longrightarrow>
       (\<exists>f \<in> set fips. fip_key f = ptr_key p \<and>
          (\<exists>r \<in> set (d_records (w_db w)). own_ptr ctx f r \<and> r_data r = d)))"
proof -
  from run obtain c fips valid invalid v where fips: "N ctx None = Inr fips"
    and c: "elevate_edit E ctx w = (Inr c, w)"
    and det: "determine_floatingips E c (list_to_dict fips) w = (Inr (valid, invalid), v)"
    and made: "\<exists>u. create_floating_ip_list E A ctx valid u = (Inr ptrs, w')"
    by (auto simp: list_floatingips_def network_floatingips_def comp_iffs) (metis elevate_edit_Inr)
  note d = determine_Inr [OF det]
  note pid = elevate_edit_Inr [OF c]
  let ?own = "\<lambda>f. own_record (c_project_id c)
    (record_of (filter fip_record (d_records (w_db w))) (f_address f))"
  have valid: "valid = map (\<lambda>(k, f). (f, ?own f)) (list_to_dict fips)" by (rule d(2))
  from made create_floating_ip_list_Inr have all: "list_all2 (\<lambda>(f, r) p. ptr_key p = fip_key f \<and>
       (\<forall>d. fp_ptrdname p = Some d \<longrightarrow> (\<exists>x. r = Some x \<and> r_data x = d))) valid ptrs" by blast
  have keys: "map ptr_key ptrs = map (fip_key \<circ> fst) valid"
    using all by (induction rule: list_all2_induct) auto
  also have "\<dots> = map fst (list_to_dict fips)"
    unfolding valid using list_to_dict_facts(2) by (auto simp: split_beta intro!: map_cong)
  finally have k: "map ptr_key ptrs = map fst (list_to_dict fips)" .
  have "\<exists>f \<in> set fips. fip_key f = ptr_key p \<and>
          (\<exists>r \<in> set (d_records (w_db w)). own_ptr ctx f r \<and> r_data r = d)"
    if p: "p \<in> set ptrs" and name: "fp_ptrdname p = Some d" for p d
  proof -
    from all p obtain f r where f: "(f, r) \<in> set valid" "ptr_key p = fip_key f"
      "\<forall>d. fp_ptrdname p = Some d \<longrightarrow> (\<exists>x. r = Some x \<and> r_data x = d)"
      using list_all2_right [OF all p] by auto
    with name obtain x where x: "r = Some x" "r_data x = d" by blast
    with f(1) d(3) have r: "x \<in> set (d_records (w_db w))" "own_ptr c f x" by blast+
    have "f \<in> set fips" using f(1) valid list_to_dict_facts(2) by fastforce
    with f(2) r x pid show ?thesis by (auto simp: own_ptr_def)
  qed
  with fips list_to_dict_facts(1,3) [of fips] k show ?thesis by (metis list.set_map)
qed

section \<open>A name that is set is the one listed\<close>

text \<open>A stored row with the content of a record object.\<close>

definition stores :: "rrecord \<Rightarrow> rrecord \<Rightarrow> bool" where
  "stores r row \<longleftrightarrow> r_data row = r_data r \<and> r_managed row = r_managed r \<and>
     r_managed_extra row = r_managed_extra r \<and> r_managed_resource_type row = r_managed_resource_type r \<and>
     r_managed_tenant_id row = r_managed_tenant_id r"

text \<open>The computation leaves the row of the record at the end of the table.\<close>

definition ends_with :: "rrecord \<Rightarrow> db \<Rightarrow> bool" where
  "ends_with r d \<longleftrightarrow> (\<exists>rows row. d_records d = rows @ [row] \<and> stores r row)"

lemma create_record_ends:
  "storage_create_record E c zid rsid r w = (Inr r', w') \<Longrightarrow>
     stores r r' \<and> ends_with r (w_db w')"
  by (auto simp: storage_create_record_def comp_iffs Let_def insert_row_def stores_def ends_with_def
      split: if_splits)

lemma create_records_one:
  "create_records E c zid rsid [r] w = (Inr rs, w') \<Longrightarrow>
     \<exists>r'. rs = [r'] \<and> stores r r' \<and> ends_with r (w_db w')"
  by (auto simp: comp_iffs dest!: create_record_ends)

lemma storage_update_zone_records:
  "storage_update_zone ctx z w = (Inr z', w') \<Longrightarrow> ZA_tenant_id \<notin> z_changed z \<Longrightarrow>
     d_records (w_db w') = d_records (w_db w)"
  by (auto simp: storage_update_zone_def update_zone_row_def comp_iffs Let_def split: if_splits)

lemma update_zone_in_storage_records:
  "update_zone_in_storage ctx z a b w = (Inr z', w') \<Longrightarrow> z_changed z = {} \<Longrightarrow>
     d_records (w_db w') = d_records (w_db w)"
  by (auto simp: update_zone_in_storage_def transaction_Inr Let_def z_sets
      dest!: storage_update_zone_records split: if_splits)

lemma sync_one_ends:
  assumes "sync_records E c zid rsid [r] w = (Inr u, w')" "r_id r = None"
  shows "ends_with r (w_db w')"
  using assms by (auto simp: sync_records_def sync_create_def comp_iffs Let_def
      dest!: create_record_ends)

lemma storage_update_recordset_ends:
  assumes "storage_update_recordset E c rs w = (Inr rs', w')" "rs_records rs = [r]" "r_id r = None"
  shows "rs_records rs' = [r]" "ends_with r (w_db w')"
  using assms by (auto simp: storage_update_recordset_def comp_iffs Let_def dest!: sync_one_ends)

lemma storage_create_recordset_ends:
  assumes "storage_create_recordset E c zid rs w = (Inr rs', w')" "rs_records rs = [r]"
  shows "\<exists>r'. rs_records rs' = [r'] \<and> stores r r' \<and> ends_with r (w_db w')"
  using assms
  by (auto simp: storage_create_recordset_def comp_iffs Let_def simp del: create_records.simps
      dest!: create_records_one)

lemma stores_mark [simp]: "stores r (mark_record a n x) = stores r x"
  "stores (mark_record a n r) x = stores r x" "r_data (mark_record a n r) = r_data r"
  "r_id (mark_record a n r) = r_id r"
  by (auto simp: stores_def mark_record_def r_sets)

lemma ends_with_mark [simp]: "ends_with (mark_record a n r) d = ends_with r d"
  by (simp add: ends_with_def)

lemma get_zone_fresh: "storage_get_zone c i b w = (Inr z, w') \<Longrightarrow> z_changed z = {}"
proof -
  assume "storage_get_zone c i b w = (Inr z, w')"
  then obtain cls where "select_zones cls (w_db w) = [z]"
    by (auto simp: storage_get_zone_def find_zone_gen_def find_zones_gen_def comp_iffs fetch_one_Inr)
  then show ?thesis by (intro select_zones_fresh [of z cls "w_db w"]) simp
qed

lemma update_recordset_ends:
  assumes run: "update_recordset E c rs True w = (Inr rs', w')"
    and one: "rs_records rs = [r]" "r_id r = None" "r_action r = CREATE"
  shows "\<exists>r'. rs_records rs' = [r'] \<and> stores r r' \<and> ends_with r (w_db w')"
proof -
  from run obtain z u c' v v' zz where z: "storage_get_zone c (rs_zone_id rs) False u = (Inr z, v)"
    and p': "update_recordset_in_storage E c' z rs True False v' = (Inr (rs', zz), w')"
    by (auto simp: update_recordset_def comp_iffs)
  from p' obtain n x t where
    up: "storage_update_recordset E c' (rs\<lparr>rs_records := [mark_record UPDATE n r]\<rparr>) x = (Inr rs', t)"
    and uz: "update_zone_in_storage c' z True False t = (Inr zz, w')"
    by (auto simp: update_recordset_in_storage_def transaction_Inr comp_iffs Let_def one
        split: if_splits)
  note e = storage_update_recordset_ends [OF up]
  let ?r = "mark_record UPDATE n r"
  have "rs_records rs' = [?r]" "ends_with ?r (w_db t)" using e [of ?r] one(2) by (simp_all split: if_splits)
  moreover have "stores r ?r" by (simp add: stores_def mark_record_def r_sets)
  moreover have "ends_with ?r d = ends_with r d" for d by simp
  moreover have "ends_with r (w_db w') = ends_with r (w_db t)"
    using update_zone_in_storage_records [OF uz get_zone_fresh [OF z]] by (simp add: ends_with_def)
  ultimately show ?thesis by auto
qed

lemma create_recordset_ends:
  assumes run: "create_recordset E c zid rs True w = (Inr rs', w')"
    and one: "rs_records rs = [r]"
  shows "\<exists>r'. rs_records rs' = [r'] \<and> stores r r' \<and> ends_with r (w_db w')"
proof -
  from run obtain z v c' v' zz where z: "storage_get_zone c zid False w = (Inr z, v)"
    and p: "create_recordset_in_storage E c' z rs True v' = (Inr (rs', zz), w')"
    by (auto simp: create_recordset_def comp_iffs)
  from p obtain n x t where
    cr: "storage_create_recordset E c' (z_id z) (rs\<lparr>rs_records := [mark_record CREATE n r]\<rparr>) x = (Inr rs', t)"
    and uz: "update_zone_in_storage c' z True False t = (Inr zz, w')"
    by (auto simp: create_recordset_in_storage_def transaction_Inr comp_iffs Let_def one
        split: if_splits)
  from storage_create_recordset_ends [OF cr] obtain r' where
    "rs_records rs' = [r']" "stores r r'" "ends_with r (w_db t)" by auto
  with update_zone_in_storage_records [OF uz get_zone_fresh [OF z]] show ?thesis
    by (auto simp: ends_with_def)
qed

lemma managed_recordset_ends:
  assumes run: "create_or_update_managed_recordset E A supported c zid [r] n ty ttl w = (Inr rs, w')"
    and new: "r_id r = None" "r_action r = CREATE"
  shows "\<exists>r'. rs_records rs = [r'] \<and> stores r r' \<and> ends_with r (w_db w')"
proof -
  from run consider
      (updated) rs0 v where "update_recordset E c (rs0\<lparr>rs_ttl := ttl, rs_records := [r],
          rs_changed := {RSA_ttl, RSA_records} \<union> rs_changed rs0\<rparr>) True v = (Inr rs, w')"
    | (created) m v where "create_recordset E c zid ((new_recordset m ty [r])\<lparr>rs_ttl := ttl\<rparr>) True v = (Inr rs, w')"
    unfolding create_or_update_managed_recordset_def transaction_Inr
    by (auto simp: comp_iffs catch_Inr_iff Let_def split: if_splits)
  then show ?thesis
  proof cases
    case updated
    from update_recordset_ends [OF this] new show ?thesis by simp
  next
    case created
    from create_recordset_ends [OF this] show ?thesis by (simp add: new_recordset_def)
  qed
qed

lemma record_of_last:
  "record_of (filter P (xs @ [r])) a = Some r" if "P r" "r_managed_extra r = Some a"
  using that by (simp add: record_of_def)

lemma create_floating_ip_named:
  assumes "create_floating_ip E A ctx f (Some r) (Some z) (Some rs) w = (Inr p, w')"
  shows "fp_ptrdname p = Some (r_data r)" "ptr_key p = fip_key f" "fp_description p = r_description r" "w' = w"
  using assms
  by (auto simp: create_floating_ip_def recordset_of_def ttl_of_def comp_iffs Let_def ptr_key_def
      fip_key_def unassociated_def dest!: domain_field_same readonlyD [OF readonly_elevate] split: if_splits)

text \<open>C29: A name that has been set is the one listed. When the request to set the name of a floating IP
  is answered, the answer carries that name for that address of the project, and whenever the records
  are looked up in the state it leaves, for any list of addresses that has this one, the address is
  associated with a record of this name, which belongs to the project.\<close>

theorem set_floatingip_listed:
  assumes set: "update_floatingip E A supported filters N address_name ctx region i
      \<lparr>fv_ptrdname = Some (Some name), fv_description = d, fv_ttl = ttl\<rparr> w = (Inr res, w1)"
    and list: "determine_floatingips E c fips w1 = (Inr (valid, invalid), w2)"
      "c_project_id c = c_project_id ctx"
  shows "\<exists>f p. res = Some p \<and> fp_ptrdname p = Some name \<and> ptr_key p = (region, i) \<and>
    (\<exists>l. N ctx (Some region) = Inr l \<and> f \<in> set l) \<and> fip_key f = (region, i) \<and>
    (\<forall>g \<in> snd ` set fips. f_address g = f_address f \<longrightarrow>
       (\<exists>r. (g, Some r) \<in> set valid \<and> own_ptr ctx g r \<and> r_data r = name))"
proof -
  let ?r = "\<lambda>f. ptr_record ctx f region i name d"
  from set obtain p l f c' z n rs u v where res: "res = Some p" and l: "N ctx (Some region) = Inr l"
    and f: "get_fip region i (list_to_dict l) = Inr f"
    and rs: "create_or_update_managed_recordset E A supported c' (z_id z) [?r f] n ''PTR'' ttl u = (Inr rs, v)"
    and shown: "(case rs_records rs of [] \<Rightarrow> raise PyIndexError
       | r # _ \<Rightarrow> create_floating_ip E A ctx f (Some r) (Some z) (Some rs)) v = (Inr p, w1)"
    by (auto simp: update_floatingip_def set_floatingip_reverse_def network_floatingips_def comp_iffs
        Let_def)
  from shown obtain r rest where r: "rs_records rs = r # rest"
    and p: "create_floating_ip E A ctx f (Some r) (Some z) (Some rs) v = (Inr p, w1)"
    by (cases "rs_records rs") auto
  from f have "((region, i), f) \<in> set (list_to_dict l)"
    by (auto simp: get_fip_def map_of_SomeD split: option.splits)
  from list_to_dict_facts(2) [OF this] have key: "fip_key f = (region, i)" "f \<in> set l" by auto
  have new: "r_id (?r f) = None" "r_action (?r f) = CREATE" by (simp_all add: ptr_record_def new_record_def)
  from managed_recordset_ends [OF rs new] r obtain rows row where
    row: "stores (?r f) r" "d_records (w_db v) = rows @ [row]" "stores (?r f) row"
    by (auto simp: ends_with_def)
  note p' = create_floating_ip_named [OF p]
  have name: "r_data r = name" "r_data row = name"
    using row by (simp_all add: stores_def ptr_record_def new_record_def)
  have own: "own_ptr ctx f row"
    using row(3) by (simp add: own_ptr_def stores_def ptr_record_def fip_record_def new_record_def)
  have "(g, Some row) \<in> set valid" if g: "g \<in> snd ` set fips" "f_address g = f_address f" for g
  proof -
    have "record_of (filter fip_record (d_records (w_db w1))) (f_address g) = Some row"
      unfolding p'(4) row(2) using own g(2) by (intro record_of_last) (auto simp: own_ptr_def)
    then have "own_record (c_project_id c)
        (record_of (filter fip_record (d_records (w_db w1))) (f_address g)) = Some row"
      using own list(2) by (simp add: own_record_def own_ptr_def)
    with g(1) show ?thesis unfolding determine_Inr(2) [OF list(1)] by force
  qed
  moreover have "own_ptr ctx g row" if "f_address g = f_address f" for g
    using own that by (simp add: own_ptr_def)
  ultimately show ?thesis using res l key p'(1,2) name by auto
qed

section \<open>Unsetting a name\<close>

text \<open>The rows an unset request looks for.\<close>

definition fip_rows :: "req_context \<Rightarrow> string \<Rightarrow> db \<Rightarrow> rrecord list" where
  "fip_rows ctx i d =
     filter (\<lambda>r. r_managed_resource_id r = Some i \<and> r_managed_tenant_id r = c_project_id ctx) (d_records d)"

text \<open>C30: A name can only be unset while its record is the only one for the floating IP and the project,
  counting the records of deleted zones, which stay in the table until they are purged. With any other
  number of records in the table the request to unset the name fails as if the floating IP did not
  exist, and nothing changes.\<close>

theorem unset_floatingip_ambiguous:
  assumes "length (fip_rows ctx i (w_db w)) \<noteq> 1" "elevated E ctx None True True False = Inr c"
    and "plain i" "\<forall>t \<in> set_option (c_project_id ctx). plain t"
  shows "update_floatingip E A supported filters N address_name ctx region i
      \<lparr>fv_ptrdname = Some None, fv_description = d, fv_ttl = ttl\<rparr> w = (Inl (NotFound NF_plain), w)"
proof -
  note e = elevated_Inr [OF assms(2)]
  have "apply_criterion (resource_criterion i (c_project_id ctx)) =
      Inr [Eq DC_managed_resource_id (VStr i), Eq DC_managed_tenant_id (opt_str (c_project_id ctx))]"
    using assms(3,4) by (cases "c_project_id ctx") (auto simp: resource_criterion_def criterion_clause_def [of _ "CVal _"])
  then have "storage_find_records c (resource_criterion i (c_project_id ctx)) True w =
      (Inr (fip_rows ctx i (w_db w)), w)"
    using e(1) by (auto simp: storage_find_records_def record_where_def bind_run apply_tenant_criteria_def
        select_where_def fip_rows_def intro!: filter_cong)
  moreover have "fetch_one RecordNotFound (fip_rows ctx i (w_db w)) = Inl RecordNotFound"
    using assms(1) by (simp add: fetch_one_Inl)
  ultimately have "storage_find_record c (resource_criterion i (c_project_id ctx)) w = (Inl RecordNotFound, w)"
    by (simp add: storage_find_record_def bind_run)
  then show ?thesis
    using assms(2) by (simp add: update_floatingip_def unset_floatingip_reverse_def elevate_edit_def
        seq_run bind_run catch_def)
qed

section \<open>Witnesses\<close>

definition sample_addr :: addr_env where
  "sample_addr = \<lparr>dns_ipv4 = (\<lambda>s. True), dns_ipv6 = (\<lambda>s. False), net_ipv4 = Some, net_ipv6 = (\<lambda>s. None)\<rparr>"

definition sample_network :: network where
  "sample_network = (\<lambda>ctx region. Inr [\<lparr>f_region = ''R'', f_id = ''f1'', f_address = ''10.0.0.1''\<rparr>])"

definition sample_set :: "req_context \<Rightarrow> string option \<Rightarrow> fip_ptr option sys" where
  "sample_set ctx name = update_floatingip sample_env sample_addr [''PTR''] [DefaultPoolFilter] sample_network
     (\<lambda>a. Inr ''1.0.0.10.in-addr.arpa.'') ctx ''R'' ''f1''
     \<lparr>fv_ptrdname = Some name, fv_description = None, fv_ttl = None\<rparr>"

text \<open>The name is set, its zone deleted, and the name set once more.\<close>

definition named_world :: world where
  "named_world = snd (sample_set (tenant_context ''t1'') (Some ''w.e.o.'') (world_of empty_db))"

definition renamed_world :: world where
  "renamed_world = snd (sample_set (tenant_context ''t1'') (Some ''w.e.o.'')
     (snd (storage_delete_zone worker_context ''abc'' named_world)))"

lemma sample_set_runs:
  "\<exists>p. sample_set (tenant_context ''t1'') (Some ''w.e.o.'') (world_of empty_db) = (Inr (Some p), named_world)"
proof -
  let ?run = "sample_set (tenant_context ''t1'') (Some ''w.e.o.'') (world_of empty_db)"
  have "(case fst ?run of Inr (Some p) \<Rightarrow> True | _ \<Rightarrow> False)" by code_simp
  then obtain p where "fst ?run = Inr (Some p)" by (auto split: sum.splits option.splits)
  then show ?thesis by (metis named_world_def prod.collapse)
qed

lemma list_floatingips_own_witness:
  "\<exists>ptrs w'. list_floatingips sample_env sample_addr [''PTR''] sample_network (tenant_context ''t1'') named_world
       = (Inr ptrs, w') \<and> map fp_ptrdname ptrs = [Some ''w.e.o.''] \<and>
     (\<exists>r \<in> set (d_records (w_db named_world)). r_managed_tenant_id r = Some ''t1'' \<and> r_data r = ''w.e.o.'')"
proof -
  let ?run = "list_floatingips sample_env sample_addr [''PTR''] sample_network (tenant_context ''t1'') named_world"
  have "(case fst ?run of Inr ps \<Rightarrow> map fp_ptrdname ps = [Some ''w.e.o.''] | Inl e \<Rightarrow> False)" by code_simp
  then obtain ps where ps: "fst ?run = Inr ps" "map fp_ptrdname ps = [Some ''w.e.o.'']"
    by (auto split: sum.splits)
  then have run: "?run = (Inr ps, snd ?run)" by (metis prod.collapse)
  from ps(2) obtain p where p: "p \<in> set ps" "fp_ptrdname p = Some ''w.e.o.''" by auto
  from list_floatingips_own [OF run] p obtain f r where
    "r \<in> set (d_records (w_db named_world))" "own_ptr (tenant_context ''t1'') f r" "r_data r = ''w.e.o.''"
    by blast
  then have "r_managed_tenant_id r = Some ''t1''" by (simp add: own_ptr_def tenant_context_def)
  with \<open>r \<in> _\<close> \<open>r_data r = _\<close>
  have "\<exists>r \<in> set (d_records (w_db named_world)). r_managed_tenant_id r = Some ''t1'' \<and> r_data r = ''w.e.o.''"
    by auto
  with run ps(2) show ?thesis by (intro exI conjI)
qed

lemma set_floatingip_listed_witness:
  "\<exists>valid r g. fst (determine_floatingips sample_env (tenant_context ''t1'')
       (list_to_dict [\<lparr>f_region = ''R'', f_id = ''f1'', f_address = ''10.0.0.1''\<rparr>]) named_world) = Inr valid \<and>
     (g, Some r) \<in> set (fst valid) \<and> r_data r = ''w.e.o.''"
proof -
  let ?f = "\<lparr>f_region = ''R'', f_id = ''f1'', f_address = ''10.0.0.1''\<rparr>"
  let ?run = "determine_floatingips sample_env (tenant_context ''t1'') (list_to_dict [?f]) named_world"
  have "\<not> isl (fst ?run)" by code_simp
  then obtain valid invalid where v: "fst ?run = Inr (valid, invalid)"
    by (metis old.prod.exhaust sum.collapse(2))
  then have run: "?run = (Inr (valid, invalid), snd ?run)" by (metis prod.collapse)
  from sample_set_runs obtain p where p:
    "update_floatingip sample_env sample_addr [''PTR''] [DefaultPoolFilter] sample_network
     (\<lambda>a. Inr ''1.0.0.10.in-addr.arpa.'') (tenant_context ''t1'') ''R'' ''f1''
     \<lparr>fv_ptrdname = Some (Some ''w.e.o.''), fv_description = None, fv_ttl = None\<rparr> (world_of empty_db)
       = (Inr (Some p), named_world)"
    unfolding sample_set_def by blast
  from set_floatingip_listed [OF p run refl] obtain f l where
    l: "sample_network (tenant_context ''t1'') (Some ''R'') = Inr l" "f \<in> set l"
    and all: "\<forall>g \<in> snd ` set (list_to_dict [?f]). f_address g = f_address f \<longrightarrow>
       (\<exists>r. (g, Some r) \<in> set valid \<and> own_ptr (tenant_context ''t1'') g r \<and> r_data r = ''w.e.o.'')"
    by blast
  from l have "f = ?f" by (auto simp: sample_network_def)
  moreover have "?f \<in> snd ` set (list_to_dict [?f])" by (simp add: list_to_dict_def)
  ultimately obtain r where "(?f, Some r) \<in> set valid" "r_data r = ''w.e.o.''" using all by blast
  with v show ?thesis by auto
qed

lemma unset_floatingip_ambiguous_witness:
  "sample_set (tenant_context ''t1'') None renamed_world = (Inl (NotFound NF_plain), renamed_world)"
proof -
  have "\<not> isl (elevated sample_env (tenant_context ''t1'') None True True False)" by code_simp
  then obtain c where c: "elevated sample_env (tenant_context ''t1'') None True True False = Inr c"
    by (metis sum.collapse(2))
  have "length (fip_rows (tenant_context ''t1'') ''f1'' (w_db renamed_world)) = 2" by code_simp
  then show ?thesis unfolding sample_set_def
    by (intro unset_floatingip_ambiguous [OF _ c]) (simp_all add: plain_def tenant_context_def startswith_def)
qed

end
