(* ===== verification/CentralPools.thy ===== *)
theory CentralPools
  imports CentralAdmin Validation PoolTables
begin

text \<open>
  Pools in \<open>central/service.py\<close>, and the catalog zone that \<open>storage/sqlalchemy/__init__.py\<close> keeps for a
  pool: one zone of type CATALOG whose attributes, SOA recordset and TSIG key follow the pool's
  configuration. Creating and reading pools work on the tables of \<open>PoolTables\<close>. Updating and deleting
  reach the zones of the pool, so they are on the world, where a pool is one object; what the
  statements of the storage make of the row and its lists is the argument \<open>write\<close>
  (\<open>store_update_pool\<close> is its definition on the tables).
\<close>

section \<open>Creating and reading\<close>

definition create_pool :: "env \<Rightarrow> req_context \<Rightarrow> new_pool \<Rightarrow> string store" where
  "create_pool E ctx p =
     (let p' = (if pr_tenant_id (np_row p) = None
                then p\<lparr>np_row := (np_row p)\<lparr>pr_tenant_id := c_project_id ctx\<rparr>\<rparr> else p) in
      seq (check E ''create_pool'' ctx []) (store_create_pool E p'))"

definition find_pools ::
  "env \<Rightarrow> req_context \<Rightarrow> (pool_column \<times> crit) list \<Rightarrow> pool_object list store" where
  "find_pools E ctx criterion =
     seq (check E ''find_pools'' ctx []) (store_find_pools ctx criterion)"

definition find_pool :: "env \<Rightarrow> req_context \<Rightarrow> (pool_column \<times> crit) list \<Rightarrow> pool_object store" where
  "find_pool E ctx criterion =
     seq (check E ''find_pool'' ctx []) (store_find_pool ctx criterion)"

definition get_pool :: "env \<Rightarrow> req_context \<Rightarrow> string \<Rightarrow> pool_object store" where
  "get_pool E ctx i = seq (check E ''get_pool'' ctx []) (store_get_pool ctx i)"

section \<open>The catalog zone\<close>

text \<open>\<open>pool.catalog_zone\<close> as \<open>pools.yaml\<close> gives it.\<close>

record catalog_config =
  cat_fqdn :: string
  cat_refresh :: int
  cat_tsig_key :: "string option"
  cat_tsig_algorithm :: "string option"

definition catalog_request :: "config \<Rightarrow> catalog_config \<Rightarrow> zone_request" where
  "catalog_request cf cat = \<lparr>zr_tenant_id = None, zr_name = Some (cat_fqdn cat),
     zr_email = cf_managed_resource_email cf, zr_ttl = None, zr_retry = None, zr_expire = None,
     zr_minimum = None, zr_serial = Some 1, zr_description = None, zr_type = CATALOG,
     zr_attributes = None, zr_masters = None, zr_recordsets = []\<rparr>"

definition create_catalog_zone :: "env \<Rightarrow> string \<Rightarrow> catalog_config \<Rightarrow> zone sys" where
  "create_catalog_zone E pool_id cat =
     storage_create_zone E (catalog_request (e_conf E) cat) None pool_id None (cat_refresh cat) (Some 1)"

text \<open>\<open>AttributeListObjectMixin.get\<close>, printed as a string by the f-strings.\<close>

definition attribute :: "string \<Rightarrow> zone \<Rightarrow> string option" where
  "attribute key z = map_of (z_attributes z) key"

definition printed :: "string option \<Rightarrow> string" where
  "printed x = (case x of None \<Rightarrow> ''None'' | Some s \<Rightarrow> s)"

text \<open>The two attributes are compared and replaced. A stored attribute is a string and the configured
  refresh interval a number, so they always differ; the values are fields of at most 50 characters.\<close>

definition write_attributes :: "string \<Rightarrow> (string \<times> string) list \<Rightarrow> db \<Rightarrow> db" where
  "write_attributes zid as d =
     d\<lparr>d_zones := map (\<lambda>z. if z_id z = zid then z\<lparr>z_attributes := as\<rparr> else z) (d_zones d)\<rparr>"

definition ensure_info_consistent :: "req_context \<Rightarrow> zone \<Rightarrow> catalog_config \<Rightarrow> zone sys" where
  "ensure_info_consistent ctx z cat =
     bind (lift (string_field (Some 50) (cat_fqdn cat))) (\<lambda>fqdn.
     bind (lift (string_field (Some 50) (int_str (cat_refresh cat)))) (\<lambda>refresh.
     let as = [(''catalog_zone_fqdn'', fqdn), (''catalog_zone_refresh'', refresh)] in
     bind (storage_update_zone ctx (z\<lparr>z_attributes := as\<rparr>)) (\<lambda>z'.
     seq (modify (set_db (write_attributes (z_id z) as))) (return z'))))"

definition catalog_soa :: "zone \<Rightarrow> pool_ns_record list option \<Rightarrow> exn + string" where
  "catalog_soa z ns_records =
     (case ns_records of
        None \<Rightarrow> Inl (RelationNotLoaded ''ns_records'')
      | Some [] \<Rightarrow> Inl PyIndexError
      | Some (n # _) \<Rightarrow> Inr (n_hostname n @ '' '' @ printed (attribute ''catalog_zone_fqdn'' z) @ '' '' @
          int_str (z_serial z) @ '' '' @ printed (attribute ''catalog_zone_refresh'' z) @ '' '' @
          int_str (z_retry z) @ '' 2147483646 '' @ int_str (z_minimum z)))"

definition ensure_soa_consistent ::
  "env \<Rightarrow> req_context \<Rightarrow> zone \<Rightarrow> pool_ns_record list option \<Rightarrow> unit sys" where
  "ensure_soa_consistent E ctx z ns_records =
     bind (lift (catalog_soa z ns_records)) (\<lambda>data.
     let soa_record = [new_record data False] in
     catch
       (bind (storage_find_recordset ctx [(RC_zone_id, CStr (z_id z)), (RC_type, CStr ''SOA'')] True) (\<lambda>rs.
        bind (storage_update_recordset E ctx
                (rs\<lparr>rs_name := z_name z, rs_records := soa_record,
                    rs_changed := {RSA_name, RSA_records} \<union> rs_changed rs\<rparr>)) (\<lambda>_. return ())))
       (\<lambda>e. if e = RecordSetNotFound then Some (
          bind (storage_create_recordset E ctx (z_id z) (new_recordset (z_name z) ''SOA'' soa_record))
            (\<lambda>_. return ())) else None))"

text \<open>The key is created after \<open>TsigKey.validate\<close>; the adapter copies its five fields.\<close>

definition ensure_tsig_consistent ::
  "env \<Rightarrow> bool \<Rightarrow> req_context \<Rightarrow> zone \<Rightarrow> catalog_config \<Rightarrow> unit sys" where
  "ensure_tsig_consistent E allow_empty_secrets ctx z cat =
     (case (cat_tsig_key cat, cat_tsig_algorithm cat) of
        (Some secret, Some algorithm) \<Rightarrow>
          if secret = [] \<or> algorithm = [] then return ()
          else
            let name = printed (attribute ''catalog_zone_fqdn'' z) in
            catch
              (bind (find_row tsigkey_table ctx [(KC_resource_id, CStr (z_id z))]) (\<lambda>k.
               if k_name k \<noteq> name \<or> k_secret k \<noteq> secret \<or> k_algorithm k \<noteq> algorithm then
                 bind (update_row tsigkey_table ctx (k_id k)
                   (\<lambda>r. r\<lparr>k_name := name, k_secret := secret, k_algorithm := algorithm\<rparr>)) (\<lambda>_. return ())
               else return ()))
              (\<lambda>e. if e = TsigKeyNotFound then Some (
                 seq (raise_if (\<not> tsigkey_fields allow_empty_secrets name algorithm secret ''ZONE'') InvalidObject)
                 (bind (create_row E tsigkey_table \<lparr>k_id = [], k_name = name, k_algorithm = algorithm,
                     k_secret = secret, k_scope = ''ZONE'', k_resource_id = z_id z\<rparr>) (\<lambda>_. return ()))) else None)
      | _ \<Rightarrow> return ())"

definition ensure_catalog_consistent ::
  "env \<Rightarrow> bool \<Rightarrow> req_context \<Rightarrow> string \<Rightarrow> pool_ns_record list option \<Rightarrow> catalog_config \<Rightarrow> unit sys" where
  "ensure_catalog_consistent E allow_empty ctx pool_id ns_records cat =
     bind (get_catalog_zone ctx pool_id) (\<lambda>z0.
     bind (ensure_info_consistent ctx z0 cat) (\<lambda>z.
     seq (ensure_soa_consistent E ctx z ns_records)
     (ensure_tsig_consistent E allow_empty ctx z cat)))"

definition ensure_catalog_zone_config ::
  "env \<Rightarrow> bool \<Rightarrow> req_context \<Rightarrow> string \<Rightarrow> pool_ns_record list option \<Rightarrow> catalog_config option \<Rightarrow> unit sys" where
  "ensure_catalog_zone_config E allow_empty ctx pool_id ns_records catalog =
     (case catalog of
        None \<Rightarrow> return ()
      | Some cat \<Rightarrow>
          seq (catch (bind (get_catalog_zone ctx pool_id) (\<lambda>_. return ()))
                 (\<lambda>e. if e = ZoneNotFound then Some (bind (create_catalog_zone E pool_id cat) (\<lambda>_. return ()))
                      else None))
          (ensure_catalog_consistent E allow_empty ctx pool_id ns_records cat))"

section \<open>Updating\<close>

text \<open>The object a client sends: its NS records and its catalog zone are looked at when they are set.\<close>

record pool_update =
  pu_id :: string
  pu_ns_records :: "pool_ns_record list option"
  pu_catalog :: "catalog_config option"

definition storage_update_pool ::
  "env \<Rightarrow> bool \<Rightarrow> req_context \<Rightarrow> (pool \<Rightarrow> exn + pool) \<Rightarrow> pool_update \<Rightarrow> pool sys" where
  "storage_update_pool E allow_empty ctx write u =
     bind (storage_get_pool ctx (pu_id u)) (\<lambda>p.
     bind (lift (write p)) (\<lambda>p'.
     seq (modify (set_db (\<lambda>d. d\<lparr>d_pools := map (\<lambda>q. if p_id q = pu_id u then p' else q) (d_pools d)\<rparr>)))
     (bind (storage_get_pool ctx (pu_id u)) (\<lambda>updated.
      seq (ensure_catalog_zone_config E allow_empty ctx (pu_id u) (pu_ns_records u) (pu_catalog u))
      (return updated)))))"

text \<open>The differences are sets; they are gone through here in the order of the lists.\<close>

definition hostnames_without :: "pool_ns_record list \<Rightarrow> pool_ns_record list \<Rightarrow> string list" where
  "hostnames_without xs ys = filter (\<lambda>h. h \<notin> n_hostname ` set ys) (remdups (map n_hostname xs))"

definition add_ns_everywhere :: "env \<Rightarrow> req_context \<Rightarrow> string \<Rightarrow> string \<Rightarrow> unit sys" where
  "add_ns_everywhere E c pool_id host =
     bind (find_zones E c [(ZC_pool_id, CStr pool_id), (ZC_action, CStr ''!DELETE'')]) (\<lambda>zs.
     for_each zs (\<lambda>z. add_ns E c z host True))"

definition delete_ns_everywhere :: "env \<Rightarrow> req_context \<Rightarrow> string \<Rightarrow> pool_ns_record list \<Rightarrow> string \<Rightarrow> unit sys" where
  "delete_ns_everywhere E c pool_id wanted host =
     seq (raise_if (wanted = []) (BadRequest LastServerDeleteNotAllowed))
     (bind (find_zones E c [(ZC_pool_id, CStr pool_id)]) (\<lambda>zs.
      for_each zs (\<lambda>z. delete_ns E c z host True)))"

definition update_pool ::
  "env \<Rightarrow> bool \<Rightarrow> req_context \<Rightarrow> (pool \<Rightarrow> exn + pool) \<Rightarrow> pool_update \<Rightarrow> pool sys" where
  "update_pool E allow_empty ctx write u =
     transaction (
       seq (check E ''update_pool'' ctx [])
       (bind (elevate_all E ctx) (\<lambda>c.
        bind (get_pool_ns_records E ctx (pu_id u)) (\<lambda>existing.
        bind (storage_update_pool E allow_empty ctx write u) (\<lambda>updated.
        case pu_ns_records u of
          None \<Rightarrow> return updated
        | Some wanted \<Rightarrow>
            seq (for_each (hostnames_without wanted existing) (add_ns_everywhere E c (pu_id u)))
            (seq (for_each (hostnames_without existing wanted) (delete_ns_everywhere E c (pu_id u) wanted))
            (return updated)))))))"

section \<open>Deleting\<close>

definition storage_delete_pool :: "req_context \<Rightarrow> string \<Rightarrow> pool sys" where
  "storage_delete_pool ctx i =
     bind (storage_get_pool ctx i) (\<lambda>p.
     seq (catch
            (bind (get_catalog_zone ctx i) (\<lambda>z.
             seq (catch
                    (bind (find_row tsigkey_table ctx [(KC_resource_id, CStr (z_id z))]) (\<lambda>k.
                     bind (delete_row tsigkey_table ctx (k_id k)) (\<lambda>_. return ())))
                    (\<lambda>e. if e = TsigKeyNotFound then Some (return ()) else None))
             (bind (storage_delete_zone ctx (z_id z)) (\<lambda>_. return ()))))
            (\<lambda>e. if e = ZoneNotFound then Some (return ()) else None))
     (seq (modify (set_db (\<lambda>d. d\<lparr>d_pools := filter (\<lambda>q. p_id q \<noteq> i) (d_pools d)\<rparr>)))
     (return p)))"

definition delete_pool :: "env \<Rightarrow> req_context \<Rightarrow> string \<Rightarrow> pool sys" where
  "delete_pool E ctx i =
     transaction (
       seq (check E ''delete_pool'' ctx [])
       (bind (elevate_all E ctx) (\<lambda>c.
        bind (find_zones E c [(ZC_pool_id, CStr i), (ZC_action, CStr ''!DELETE'')]) (\<lambda>zs.
        if zs = [] then storage_delete_pool ctx i
        else raise (BadRequest InvalidOperation)))))"

end
