(* ===== verification/CatalogProps.thy ===== *)
theory CatalogProps
  imports CentralPools CentralFrame Samples
begin

text \<open>
  What updating and deleting a pool does to its zones: when a pool can be deleted, when a name server
  cannot be removed, and what of a catalog zone follows the configuration.
\<close>

section \<open>Deleting a pool\<close>

lemma check_state: "check E r ctx t w = (Inr b, w') \<Longrightarrow> w' = w"
  by simp

lemma find_zones_elevated:
  assumes run: "find_zones E c cr w = (Inr zs, w')" and admin: "''admin'' \<in> set (c_roles c)"
  shows "storage_find_zones c cr w = (Inr zs, w) \<and> w' = w"
proof -
  have "storage_find_zones c cr w = (Inr zs, w')"
    using run admin by (auto simp: find_zones_def comp_iffs)
  moreover from this have "w' = w" using readonly_find_zones(1) by (rule readonlyD [rotated])
  ultimately show ?thesis by simp
qed

lemma elevate_all_sees:
  assumes "elevate_all E ctx w = (Inr c, w')" "\<not> c_show_deleted ctx"
  shows "sees_all c" "''admin'' \<in> set (c_roles c)" "w' = w"
  using elevate_all_Inr [OF assms(1)] assms elevated_Inr(6) [of E ctx False c]
  by (auto simp: sees_all_def elevate_all_def)

text \<open>C31: A pool is only deleted when it is empty. When the request to delete a pool is answered, every live
  zone that was in it, of whatever project and type, the catalog zone included, had the action DELETE:
  it was already waiting for its own deletion.\<close>

theorem delete_pool_empty:
  assumes run: "delete_pool E ctx i w = (Inr p, w')" and "plain i" "\<not> c_show_deleted ctx"
  shows "\<forall>z \<in> live_zones (w_db w). z_pool_id z = i \<longrightarrow> z_action z = DELETE"
proof
  fix z assume z: "z \<in> live_zones (w_db w)"
  from run obtain c v zs v' where c: "elevate_all E ctx w = (Inr c, v)"
    and zs: "find_zones E c [(ZC_pool_id, CStr i), (ZC_action, CStr ''!DELETE'')] v = (Inr zs, v')"
    and last: "zs = []"
    by (auto simp: delete_pool_def transaction_Inr comp_iffs split: if_splits)
  note e = elevate_all_sees [OF c assms(3)]
  from find_zones_elevated [OF zs e(2)] e(3) last
  have found: "storage_find_zones c [(ZC_pool_id, CStr i), (ZC_action, CStr ''!DELETE'')] w = (Inr [], w)"
    by simp
  have "apply_criterion (rname_check [(ZC_pool_id, CStr i), (ZC_action, CStr ''!DELETE'')]) =
      Inr [Eq ZC_pool_id (VStr i), Neq ZC_action (VStr ''DELETE'')]"
    using assms(2) by (simp add: criterion_clause_def [of ZC_action] startswith_def)
  from find_zones_all [OF e(1) this, of w] found
  have "{z \<in> live_zones (w_db w). matches zone_row_col
      [Eq ZC_pool_id (VStr i), Neq ZC_action (VStr ''DELETE'')] z} = {}"
    by (simp add: zone_row_col_def)
  with z have "\<not> matches zone_row_col [Eq ZC_pool_id (VStr i), Neq ZC_action (VStr ''DELETE'')] z"
    by blast
  then show "z_pool_id z = i \<longrightarrow> z_action z = DELETE"
    by (cases "z_action z") (auto simp: zone_row_col_def)
qed

section \<open>The catalog zone follows its configuration in part\<close>

lemma update_untouched:
  assumes "z_changed z = {}"
  shows "keeps_of zone_names (storage_update_zone ctx z)"
proof (rule keeps_keysI)
  fix w
  have key: "z_id (write_zone_changes z r) = z_id r" "z_name (write_zone_changes z r) = z_name r"
    "z_refresh (write_zone_changes z r) = z_refresh r" for r
    using assms by (simp_all add: write_zone_changes_def Let_def)
  obtain r w' where run: "update_zone_row ctx z w = (r, w')" by fastforce
  have "zone_names (w_db w') = zone_names (w_db w)"
  proof (cases r)
    case (Inr z')
    with run have "update_zone_row ctx z w = (Inr z', w')" by simp
    from update_zone_row_Inr(2) [OF this] key show ?thesis by (simp add: zone_names_def)
  next
    case (Inl e)
    with run key show ?thesis
      by (auto simp: update_zone_row_def bind_Inl_iff seq_Inl_iff Let_def zone_names_def update_where_def
          split: if_splits)
  qed
  with run assms show "zone_names (w_db (snd (storage_update_zone ctx z w))) = zone_names (w_db w)"
    by (cases r) (simp_all add: storage_update_zone_def bind_run seq_run)
qed

text \<open>The row of the zone carries the attributes of the configuration.\<close>

definition attributes_written :: "string \<Rightarrow> catalog_config \<Rightarrow> db \<Rightarrow> bool" where
  "attributes_written i cat d \<longleftrightarrow> (\<forall>z \<in> set (d_zones d). z_id z = i \<longrightarrow>
     z_attributes z = [(''catalog_zone_fqdn'', cat_fqdn cat), (''catalog_zone_refresh'', int_str (cat_refresh cat))])"

lemma string_field_Inr: "string_field m s = Inr t \<Longrightarrow> t = s"
  by (auto simp: string_field_def bad_if_def split: option.splits if_splits)

lemma ensure_info_Inr:
  assumes run: "ensure_info_consistent ctx z cat w = (Inr z', w')" and "z_changed z = {}"
  shows "zone_names (w_db w') = zone_names (w_db w)" "attributes_written (z_id z) cat (w_db w')"
    and "length (cat_fqdn cat) \<le> 50"
proof -
  let ?as = "[(''catalog_zone_fqdn'', cat_fqdn cat), (''catalog_zone_refresh'', int_str (cat_refresh cat))]"
  from run obtain v where up: "storage_update_zone ctx (z\<lparr>z_attributes := ?as\<rparr>) w = (Inr z', v)"
    and w': "w' = set_db (write_attributes (z_id z) ?as) v" and len: "length (cat_fqdn cat) \<le> 50"
    by (auto simp: ensure_info_consistent_def comp_iffs Let_def string_field_def bad_if_def split: if_splits)
  have "zone_names (w_db v) = zone_names (w_db w)"
    using keeps_keysD [OF update_untouched, of "z\<lparr>z_attributes := ?as\<rparr>" ctx w] up assms(2) by simp
  then show "zone_names (w_db w') = zone_names (w_db w)"
    by (simp add: w' write_attributes_def zone_names_def comp_def if_distrib cong: if_cong)
  show "attributes_written (z_id z) cat (w_db w')"
    by (auto simp: w' write_attributes_def attributes_written_def)
  show "length (cat_fqdn cat) \<le> 50" by (rule len)
qed

lemma readonly_find_recordset: "readonly (storage_find_recordset ctx cr b)"
  unfolding storage_find_recordset_def by (intro keeps_rules)

lemma keeps_ensure_soa:
  assumes "content_frame p"
  shows "keeps_of p (ensure_soa_consistent E ctx z ns)"
  unfolding ensure_soa_consistent_def Let_def
  by (intro kk_rules content_frame.keeps_recordsets [OF assms] kk_readonly [OF readonly_find_recordset])
    (auto split: if_splits intro!: kk_rules content_frame.keeps_recordsets [OF assms])

lemma keeps_ensure_tsig:
  assumes "\<And>d ks. p (d\<lparr>d_tsigkeys := ks\<rparr>) = p d"
  shows "keeps_of p (ensure_tsig_consistent E b ctx z cat)"
proof -
  have row: "keeps_of p (update_row tsigkey_table ctx i f)" "keeps_of p (create_row E tsigkey_table k)"
    "keeps_of p (find_row tsigkey_table ctx cr)" for i f k cr
    unfolding update_row_def create_row_def find_row_def find_rows_def write_rows_def
    by (intro kk_rules kk_modify; simp add: assms tsigkey_table_def)+
  show ?thesis
    unfolding ensure_tsig_consistent_def Let_def
    by (auto split: option.splits if_splits intro!: kk_rules row)
qed

text \<open>C32: The catalog zone follows its configuration in part. When a pool that has a catalog zone is given a
  configuration, the attributes stored for the catalog zone are the configured name and refresh interval
  afterwards, but in the table of the zones no row has another name or refresh interval than before:
  the row of the catalog zone keeps those of its creation. And it only succeeds when the configured
  name has at most 50 characters. (What becomes of the SOA record, which is written from the
  attributes, is not part of the statement.)\<close>

theorem catalog_zone_keeps_name:
  assumes run: "ensure_catalog_zone_config E allow_empty ctx i ns_records (Some cat) w = (Inr u, w')"
    and cat: "get_catalog_zone ctx i w = (Inr z, w)"
  shows "zone_names (w_db w') = zone_names (w_db w) \<and> attributes_written (z_id z) cat (w_db w') \<and>
    length (cat_fqdn cat) \<le> 50"
proof -
  have fresh: "z_changed z = {}"
  proof -
    from cat obtain cls where "select_zones cls (w_db w) = [z]"
      by (auto simp: get_catalog_zone_def storage_find_zone_def find_zone_gen_def find_zones_gen_def
          comp_iffs fetch_one_Inr)
    then show ?thesis by (intro select_zones_fresh [of z cls "w_db w"]) simp
  qed
  from run cat obtain z' v v' where info: "ensure_info_consistent ctx z cat w = (Inr z', v)"
    and soa: "ensure_soa_consistent E ctx z' ns_records v = (Inr (), v')"
    and tsig: "ensure_tsig_consistent E allow_empty ctx z' cat v' = (Inr u, w')"
    by (auto simp: ensure_catalog_zone_config_def ensure_catalog_consistent_def seq_run bind_run catch_def
        comp_iffs split: prod.splits sum.splits)
  note i = ensure_info_Inr [OF info fresh]
  have keep: "p (w_db w') = p (w_db v)" if "content_frame p" "\<And>d ks. p (d\<lparr>d_tsigkeys := ks\<rparr>) = p d"
    for p :: "db \<Rightarrow> 'b"
  proof -
    have "p (w_db v') = p (w_db v)"
      using keeps_keysD [OF keeps_ensure_soa [OF that(1)], of E ctx z' ns_records v] soa by simp
    moreover have "p (w_db w') = p (w_db v')"
      using keeps_keysD [OF keeps_ensure_tsig [of p, OF that(2)], of E allow_empty ctx z' cat v'] tsig by simp
    ultimately show ?thesis by simp
  qed
  have "zone_names (w_db w') = zone_names (w_db v)"
    by (rule keep) (unfold_locales, simp_all add: zone_names_def)
  moreover have "attributes_written (z_id z) cat (w_db w') = attributes_written (z_id z) cat (w_db v)"
    by (rule keep) (unfold_locales, simp_all add: attributes_written_def)
  ultimately show ?thesis using i by simp
qed

section \<open>Removing a name server\<close>

text \<open>No recordset of NS records at the name of the zone.\<close>

definition lacks_ns :: "zone \<Rightarrow> db \<Rightarrow> bool" where
  "lacks_ns z d \<longleftrightarrow> (\<forall>rs \<in> set (d_recordsets d). rs_changed rs = {} \<and>
     \<not> (rs_zone_id rs = z_id z \<and> rs_name rs = z_name z \<and> rs_type rs = ''NS''))"

lemma keeps_transaction:
  assumes "keeps (\<lambda>w. P (w_db w)) m"
  shows "keeps (\<lambda>w. P (w_db w)) (transaction m)"
proof (rule keepsI)
  fix w :: world assume "P (w_db w)"
  then show "P (w_db (snd (transaction m w)))"
    using keepsD [OF assms, of w] by (auto simp: transaction_cases split: sum.splits) (metis prod.collapse)
qed

lemma keeps_lacks_zones:
  "keeps (\<lambda>w. lacks_ns z (w_db w)) (update_zone_in_storage ctx y a b)"
  unfolding update_zone_in_storage_def storage_update_zone_def update_zone_row_def Let_def
  by (intro keeps_transaction keeps_bind keeps_seq keeps_if keeps_modify keeps_basic)
    (auto simp: lacks_ns_def retenant_def)

lemma keeps_lacks_records:
  "keeps (\<lambda>w. lacks_ns z (w_db w)) (sync_records E ctx zid rsid recs)"
  unfolding sync_records_def storage_create_record_def storage_update_record_def storage_delete_record_def
    new_uuid_def storage_find_records_def Let_def
  by (intro keeps_bind keeps_seq keeps_for_each keeps_modify keeps_basic keepsI)
    (auto simp: lacks_ns_def keeps_def)

lemma keeps_lacks_recordset:
  assumes "rs_changed rs = {}"
  shows "keeps (\<lambda>w. lacks_ns z (w_db w)) (storage_update_recordset E ctx rs)"
proof (rule keepsI)
  fix w :: world assume w: "lacks_ns z (w_db w)"
  have same: "rs_zone_id (write_rs_changes rs r) = rs_zone_id r" "rs_name (write_rs_changes rs r) = rs_name r"
    "rs_type (write_rs_changes rs r) = rs_type r" "rs_changed (write_rs_changes rs r) = rs_changed r" for r
    using assms by (simp_all add: write_rs_changes_def Let_def)
  let ?i = "case rs_id rs of None \<Rightarrow> '''' | Some i \<Rightarrow> i"
  let ?up = "update_where rs_col unique_recordset (Duplicate (Some R_RecordSet)) RecordSetNotFound
    (rs_write_where ctx ?i) (write_rs_changes rs) (d_recordsets (w_db w))"
  show "lacks_ns z (w_db (snd (storage_update_recordset E ctx rs w)))"
  proof (cases ?up)
    case (Inl e)
    then show ?thesis using w by (simp add: storage_update_recordset_def Let_def bind_run)
  next
    case (Inr rows)
    then have rows: "rows = map (\<lambda>r. if matches rs_col (rs_write_where ctx ?i) r then write_rs_changes rs r else r)
        (d_recordsets (w_db w))"
      by (auto simp: update_where_def Let_def split: if_splits)
    let ?w = "set_db (\<lambda>d. d\<lparr>d_recordsets := rows\<rparr>) w"
    have "lacks_ns z (w_db ?w)" using w by (auto simp: lacks_ns_def rows same)
    then have "lacks_ns z (w_db (snd (sync_records E ctx (rs_zone_id rs) ?i (rs_records rs) ?w)))"
      using keeps_lacks_records unfolding keeps_def by blast
    then show ?thesis
      by (auto simp: storage_update_recordset_def Let_def bind_run seq_run Inr split: prod.splits sum.splits)
  qed
qed

lemma keeps_lacks_delete_ns:
  "keeps (\<lambda>w. lacks_ns z (w_db w)) (delete_ns E ctx y host inc)"
  unfolding delete_ns_def
proof (rule keeps_bind_value [where Q = "\<lambda>rs. rs_changed rs = {}"])
  have ro: "readonly (find_recordset E ctx (ns_criterion y))"
    unfolding find_recordset_def by (intro keeps_rules readonly_find_recordset)
  then show "keeps (\<lambda>w. lacks_ns z (w_db w)) (find_recordset E ctx (ns_criterion y))" by (rule readonly_keeps)
  show "rs_changed rs = {}" if "lacks_ns z (w_db s)" "find_recordset E ctx (ns_criterion y) s = (Inr rs, s')"
    for s rs s'
    using that by (auto simp: find_recordset_def storage_find_recordset_def comp_iffs fetch_one_Inr
        select_recordsets_def lacks_ns_def select_where_def filter_eq_Cons_iff in_set_conv_decomp)
  show "keeps (\<lambda>w. lacks_ns z (w_db w)) (bind (update_recordset_in_storage E ctx y
      (rs\<lparr>rs_records := filter (\<lambda>r. r_data r \<noteq> host) (rs_records rs)\<rparr>) inc inc) (\<lambda>_. return ()))"
    if "rs_changed rs = {}" for rs
    unfolding update_recordset_in_storage_def change_serial_def Let_def using that
    by (intro keeps_bind keeps_transaction keeps_seq keeps_if keeps_basic keeps_lacks_recordset
        keeps_lacks_zones readonly_keeps keeps_rules) simp_all
qed

lemma for_each_reaches:
  assumes "for_each xs f w = (Inr u, w')" "x \<in> set xs" "P w" "\<And>y. y \<in> set xs \<Longrightarrow> keeps P (f y)"
  shows "\<exists>v a v'. P v \<and> f x v = (Inr a, v')"
  using assms
proof (induction xs arbitrary: w)
  case Nil
  then show ?case by simp
next
  case (Cons y ys)
  from Cons.prems(1) obtain a v where v: "f y w = (Inr a, v)" "for_each ys f v = (Inr u, w')"
    by (auto simp: comp_iffs)
  show ?case
  proof (cases "x = y")
    case True
    with v Cons.prems(3) show ?thesis by blast
  next
    case False
    have "P v" using Cons.prems(3,4) v(1) by (meson keepsD list.set_intros(1))
    with False Cons v(2) show ?thesis by auto
  qed
qed

lemma delete_ns_lacking:
  assumes run: "delete_ns E c (load_zone d z) host inc w = (Inr u, w')" and lacks: "lacks_ns z (w_db w)"
    and plain: "plain (z_id z)" "name_ok (z_name z)"
  shows False
proof -
  have cls: "apply_criterion (rs_rname_check (ns_criterion (load_zone d z))) =
      Inr [Eq RC_zone_id (VStr (z_id z)), Eq RC_name (VStr (z_name z)), Eq RC_type (VStr ''NS'')]"
    using plain name_ok_plain [OF plain(2)] name_ok_star [OF plain(2)]
    by (simp add: ns_criterion_def load_zone_def criterion_clause_def [of RC_type] startswith_def)
  from run obtain rs v where "find_recordset E c (ns_criterion (load_zone d z)) w = (Inr rs, v)"
    by (auto simp: delete_ns_def comp_iffs)
  then obtain x ts where "select_recordsets
      ([Eq RC_zone_id (VStr (z_id z)), Eq RC_name (VStr (z_name z)), Eq RC_type (VStr ''NS'')] @ ts) (w_db w) = [x]"
    by (auto simp: find_recordset_def storage_find_recordset_def rs_where_def cls comp_iffs fetch_one_Inr)
  then have "x \<in> set (select_recordsets
      ([Eq RC_zone_id (VStr (z_id z)), Eq RC_name (VStr (z_name z)), Eq RC_type (VStr ''NS'')] @ ts) (w_db w))"
    by simp
  then have x: "x \<in> set (d_recordsets (w_db w))" "rs_zone_id x = z_id z" "rs_name x = z_name z" "rs_type x = ''NS''"
    by (simp_all add: select_recordsets_def select_where_def)
  with lacks show False by (auto simp: lacks_ns_def)
qed

lemma delete_everywhere_lacking:
  assumes run: "delete_ns_everywhere E c i wanted host w = (Inr u, w')"
    and c: "sees_all c" "''admin'' \<in> set (c_roles c)"
    and z: "z \<in> live_zones (w_db w)" "z_pool_id z = i" "lacks_ns z (w_db w)"
    and plain: "plain i" "plain (z_id z)" "name_ok (z_name z)"
  shows False
proof -
  from run obtain zs v where find: "find_zones E c [(ZC_pool_id, CStr i)] w = (Inr zs, v)"
    and loop: "for_each zs (\<lambda>z. delete_ns E c z host True) v = (Inr u, w')"
    by (auto simp: delete_ns_everywhere_def comp_iffs)
  from find_zones_elevated [OF find c(2)] have zs: "storage_find_zones c [(ZC_pool_id, CStr i)] w = (Inr zs, w)"
    and v: "v = w" by auto
  have "apply_criterion (rname_check [(ZC_pool_id, CStr i)]) = Inr [Eq ZC_pool_id (VStr i)]"
    using plain(1) by simp
  from find_zones_all [OF c(1) this, of w] zs z have "load_zone (w_db w) z \<in> set zs"
    by (auto simp: zone_row_col_def)
  from for_each_reaches [OF loop this, of "\<lambda>w. lacks_ns z (w_db w)"] z(3) v keeps_lacks_delete_ns
  obtain s a s' where "lacks_ns z (w_db s)" "delete_ns E c (load_zone (w_db w) z) host True s = (Inr a, s')"
    by blast
  with delete_ns_lacking plain show False by blast
qed

text \<open>Removing a name server from a pool needs an NS recordset in each of its zones. As long as the pool
  has a live zone without one (its catalog zone, or a secondary zone that was not transferred yet), an
  update that only takes hostnames away fails, and the database is as it was: the name server cannot
  be removed.\<close>

theorem remove_ns_needs_recordset:
  assumes z: "z \<in> live_zones (w_db w)" "z_pool_id z = pu_id u" "lacks_ns z (w_db w)"
    and hosts: "get_pool_ns_records E ctx (pu_id u) w = (Inr existing, w)" "pu_ns_records u = Some wanted"
      "hostnames_without wanted existing = []" "hostnames_without existing wanted \<noteq> []"
    and "pu_catalog u = None" "\<not> c_show_deleted ctx"
    and plain: "plain (pu_id u)" "plain (z_id z)" "name_ok (z_name z)"
  shows "\<exists>e. fst (update_pool E allow_empty ctx write u w) = Inl e \<and>
    w_db (snd (update_pool E allow_empty ctx write u w)) = w_db w"
proof -
  obtain r w' where run: "update_pool E allow_empty ctx write u w = (r, w')" by fastforce
  show ?thesis
  proof (cases r)
    case (Inl e)
    from transaction_Inl [OF run [unfolded update_pool_def Inl]] run Inl show ?thesis by simp
  next
    case (Inr p)
    obtain h hs where h: "hostnames_without existing wanted = h # hs"
      using hosts(4) by (meson list.exhaust)
    define F where "F = (\<lambda>c. bind (get_pool_ns_records E ctx (pu_id u)) (\<lambda>existing.
        bind (storage_update_pool E allow_empty ctx write u) (\<lambda>updated.
          seq (for_each (hostnames_without wanted existing) (add_ns_everywhere E c (pu_id u)))
            (seq (for_each (hostnames_without existing wanted) (delete_ns_everywhere E c (pu_id u) wanted))
            (return updated)))))"
    from run Inr have "seq (check E ''update_pool'' ctx []) (bind (elevate_all E ctx) F) w = (Inr p, w')"
      unfolding update_pool_def hosts(2) option.case F_def by (simp only: transaction_Inr)
    then obtain c v where c: "elevate_all E ctx w = (Inr c, v)" and rest: "F c v = (Inr p, w')"
      by (auto simp: seq_Inr_iff bind_Inr_iff)
    from rest obtain up s where up: "storage_update_pool E allow_empty ctx write u w = (Inr up, s)"
      and del: "for_each (hostnames_without existing wanted) (delete_ns_everywhere E c (pu_id u) wanted) s = (Inr (), w')"
      unfolding F_def elevate_all_Inr(1) [OF c] bind_run hosts(1)
      by (auto simp: hosts(3) seq_Inr_iff split: prod.splits sum.splits)
    note e = elevate_all_sees [OF c assms(9)]
    from up obtain p' where "w_db s = (w_db w)\<lparr>d_pools := p'\<rparr>"
      using assms(8) by (auto simp: storage_update_pool_def ensure_catalog_zone_config_def comp_iffs
          dest!: storage_get_pool_Inr)
    then have zs: "z \<in> live_zones (w_db s)" "lacks_ns z (w_db s)"
      using z by (simp_all add: live_zones_def lacks_ns_def)
    from del h obtain s' where "delete_ns_everywhere E c (pu_id u) wanted h s = (Inr (), s')"
      by (auto simp: comp_iffs)
    from delete_everywhere_lacking [OF this e(1,2) zs(1) z(2) zs(2) plain] show ?thesis by blast
  qed
qed

section \<open>Witnesses\<close>

text \<open>A pool with two name servers whose zone waits for its deletion, and one whose zone does not.\<close>

definition two_servers :: "db \<Rightarrow> db" where
  "two_servers d = d\<lparr>d_pools := [sample_pool\<lparr>p_ns_records :=
     [\<lparr>n_priority = 1, n_hostname = ''ns1.o.''\<rparr>, \<lparr>n_priority = 2, n_hostname = ''ns2.o.''\<rparr>]\<rparr>]\<rparr>"

definition leaving_db :: db where
  "leaving_db = sample_db\<lparr>d_zones := [(sample_zone ''z1'' ''t1'' ''e.o.'')\<lparr>z_action := DELETE\<rparr>]\<rparr>"

lemma delete_pool_empty_witness:
  "\<exists>p w'. delete_pool sample_env admin_context ''p1'' (world_of leaving_db) = (Inr p, w') \<and>
     (\<forall>z \<in> live_zones leaving_db. z_pool_id z = ''p1'' \<longrightarrow> z_action z = DELETE)"
proof -
  let ?run = "delete_pool sample_env admin_context ''p1'' (world_of leaving_db)"
  have "\<not> isl (fst ?run)" by code_simp
  then obtain p where p: "?run = (Inr p, snd ?run)" by (metis prod.collapse sum.collapse(2))
  from delete_pool_empty [OF p] have "\<forall>z \<in> live_zones leaving_db. z_pool_id z = ''p1'' \<longrightarrow> z_action z = DELETE"
    by (simp add: plain_def startswith_def admin_context_def)
  with p show ?thesis by blast
qed

definition sample_catalog :: "string \<Rightarrow> int \<Rightarrow> catalog_config" where
  "sample_catalog n r = \<lparr>cat_fqdn = n, cat_refresh = r, cat_tsig_key = Some ''k'',
     cat_tsig_algorithm = Some ''hmac-sha256''\<rparr>"

definition catalog_world :: world where
  "catalog_world = snd (ensure_catalog_zone_config sample_env False worker_context ''p1''
     (Some (p_ns_records sample_pool)) (Some (sample_catalog ''c.o.'' 60)) (world_of empty_db))"

lemma catalog_zone_keeps_name_witness:
  "\<exists>u w'. \<exists>z :: zone. ensure_catalog_zone_config sample_env False worker_context ''p1''
     (Some (p_ns_records sample_pool)) (Some (sample_catalog ''new.o.'' 90)) catalog_world = (Inr u, w') \<and>
     zone_names (w_db w') = [(''abc'', ''c.o.'', 60)] \<and>
     attributes_written (z_id z) (sample_catalog ''new.o.'' 90) (w_db w')"
proof -
  let ?run = "ensure_catalog_zone_config sample_env False worker_context ''p1''
     (Some (p_ns_records sample_pool)) (Some (sample_catalog ''new.o.'' 90)) catalog_world"
  have "\<not> isl (fst ?run)" by code_simp
  then obtain u where u: "?run = (Inr u, snd ?run)" by (metis prod.collapse sum.collapse(2))
  let ?cat = "get_catalog_zone worker_context ''p1'' catalog_world"
  have "\<not> isl (fst ?cat)" by code_simp
  then obtain z where "?cat = (Inr z, snd ?cat)" by (metis prod.collapse sum.collapse(2))
  moreover have "snd ?cat = catalog_world"
    using readonly_find_zones(2) [of worker_context] unfolding get_catalog_zone_def readonly_def by blast
  ultimately have "?cat = (Inr z, catalog_world)" by simp
  from catalog_zone_keeps_name [OF u this] have
    "zone_names (w_db (snd ?run)) = zone_names (w_db catalog_world)"
    "attributes_written (z_id z) (sample_catalog ''new.o.'' 90) (w_db (snd ?run))" by simp_all
  moreover have "zone_names (w_db catalog_world) = [(''abc'', ''c.o.'', 60)]" by code_simp
  ultimately have "zone_names (w_db (snd ?run)) = [(''abc'', ''c.o.'', 60)]" by (simp only:)
  with u \<open>attributes_written (z_id z) _ _\<close> show ?thesis by blast
qed

lemma remove_ns_needs_recordset_witness:
  "\<exists>e. fst (update_pool sample_env False admin_context Inr
      \<lparr>pu_id = ''p1'', pu_ns_records = Some [\<lparr>n_priority = 1, n_hostname = ''ns1.o.''\<rparr>], pu_catalog = None\<rparr>
      (world_of (two_servers sample_db))) = Inl e"
proof -
  let ?w = "world_of (two_servers sample_db)" and ?z = "sample_zone ''z1'' ''t1'' ''e.o.''"
  let ?u = "\<lparr>pu_id = ''p1'', pu_ns_records = Some [\<lparr>n_priority = 1, n_hostname = ''ns1.o.''\<rparr>], pu_catalog = None\<rparr>"
  let ?ns = "[\<lparr>n_priority = 1, n_hostname = ''ns1.o.''\<rparr>, \<lparr>n_priority = 2, n_hostname = ''ns2.o.''\<rparr>]"
  have ns: "get_pool_ns_records sample_env admin_context (pu_id ?u) ?w = (Inr ?ns, ?w)"
  proof -
    have "fst (get_pool_ns_records sample_env admin_context (pu_id ?u) ?w) = Inr ?ns" by code_simp
    moreover have "readonly (get_pool_ns_records sample_env admin_context (pu_id ?u))"
      by (intro keeps_rules)
    ultimately show ?thesis unfolding readonly_def by (metis prod.collapse)
  qed
  have "\<exists>e. fst (update_pool sample_env False admin_context Inr ?u ?w) = Inl e \<and>
      w_db (snd (update_pool sample_env False admin_context Inr ?u ?w)) = w_db ?w"
    by (rule remove_ns_needs_recordset [where z = ?z and existing = ?ns
          and wanted = "[\<lparr>n_priority = 1, n_hostname = ''ns1.o.''\<rparr>]", OF _ _ _ ns])
      (simp_all add: two_servers_def live_zones_def lacks_ns_def sample_recordset_def hostnames_without_def
        plain_def name_ok_def lower_def lower_char_def startswith_def admin_context_def)
  then show ?thesis by blast
qed

end
