(* ===== verification/ZoneSync.thy ===== *)
theory ZoneSync
  imports "HOL-Library.AList" Worker CentralFacts Samples
begin

text \<open>
  An update that carries the recordsets of a zone: what the worker sends to central after a
  transfer. \<open>update_zone\<close> of the storage writes the row of the zone, gives every carried recordset
  to the row with its name and type or creates it, and on a secondary zone deletes what was not
  carried. The carried recordsets are the ones \<open>dnsutils\<close> builds: name, type, records and, where it is
  not zero, a TTL. The theory shows that the table ends up with the recordsets of the primary
  and no others.
\<close>

section \<open>The recordsets block of the storage's \<open>update_zone\<close>\<close>

type_synonym name_type = "string \<times> string"

definition rs_key :: "recordset \<Rightarrow> name_type" where
  "rs_key rs = (rs_name rs, rs_type rs)"

text \<open>\<open>existing[rrset.name, rrset.type] = rrset\<close>.\<close>

definition existing_recordsets :: "recordset list \<Rightarrow> (name_type \<times> recordset) list" where
  "existing_recordsets found = fold (\<lambda>rs. AList.update (rs_key rs) rs) found []"

text \<open>\<open>existing_recordset.update(rrset)\<close> and the assignment of the records. The items of \<open>rrset\<close> are its name,
  its type, its TTL if it is set, and its records; every assignment makes a change, also of an equal
  value, except that of the read-only type, which is the same.\<close>

definition merge_rrset :: "recordset \<Rightarrow> recordset \<Rightarrow> recordset" where
  "merge_rrset ex rrset = ex\<lparr>
     rs_ttl := (case rs_ttl rrset of None \<Rightarrow> rs_ttl ex | Some t \<Rightarrow> Some t),
     rs_records := rs_records rrset,
     rs_changed := rs_changed ex \<union> {RSA_name, RSA_records}
       \<union> (if rs_ttl rrset \<noteq> None then {RSA_ttl} else {})\<rparr>"

text \<open>The loop; the objects of \<open>existing\<close> are mutated in place.\<close>

fun sync_rrsets ::
  "env \<Rightarrow> req_context \<Rightarrow> string \<Rightarrow> (name_type \<times> recordset) list \<Rightarrow> string option list \<Rightarrow> recordset list
     \<Rightarrow> ((name_type \<times> recordset) list \<times> string option list) sys" where
  "sync_rrsets E ctx zone_id existing keep [] = return (existing, keep)"
| "sync_rrsets E ctx zone_id existing keep (rrset # rest) =
     (case map_of existing (rs_key rrset) of
        Some ex \<Rightarrow>
          bind (storage_update_recordset E ctx (merge_rrset ex rrset)) (\<lambda>ex'.
          sync_rrsets E ctx zone_id (AList.update (rs_key rrset) ex' existing) (keep @ [rs_id ex']) rest)
      | None \<Rightarrow>
          bind (storage_create_recordset E ctx zone_id rrset) (\<lambda>new.
          sync_rrsets E ctx zone_id existing (keep @ [rs_id new]) rest))"

text \<open>\<open>{i.id for i in existing.values()} - keep\<close>.\<close>

definition unwanted_ids :: "(name_type \<times> recordset) list \<Rightarrow> string option list \<Rightarrow> string list" where
  "unwanted_ids existing keep =
     List.map_filter id (filter (\<lambda>i. i \<notin> set keep) (remdups (map (rs_id \<circ> snd) existing)))"

definition sync_recordsets :: "env \<Rightarrow> req_context \<Rightarrow> zone \<Rightarrow> recordset list \<Rightarrow> unit sys" where
  "sync_recordsets E ctx z rrsets =
     bind (storage_find_recordsets ctx [(RC_zone_id, CStr (z_id z))] True) (\<lambda>found.
     bind (sync_rrsets E ctx (z_id z) (existing_recordsets found) [] rrsets) (\<lambda>(existing, keep).
     if z_type z = SECONDARY
     then for_each (unwanted_ids existing keep)
            (\<lambda>i. bind (storage_delete_recordset ctx i) (\<lambda>_. return ()))
     else return ()))"

text \<open>\<open>update_zone\<close> of the storage with the recordsets set.\<close>

definition storage_update_zone_with ::
  "env \<Rightarrow> req_context \<Rightarrow> zone \<Rightarrow> recordset list \<Rightarrow> zone sys" where
  "storage_update_zone_with E ctx z rrsets =
     bind (update_zone_row ctx z) (\<lambda>z'.
     seq (sync_recordsets E ctx z' rrsets)
     (seq (if ZA_tenant_id \<in> z_changed z
           then modify (set_db (retenant (z_id z) (z_tenant_id z'))) else return ())
      (return z')))"

section \<open>Central's \<open>update_zone\<close> with the recordsets\<close>

definition update_zone_in_storage_with ::
  "env \<Rightarrow> req_context \<Rightarrow> zone \<Rightarrow> recordset list \<Rightarrow> bool \<Rightarrow> zone sys" where
  "update_zone_in_storage_with E ctx z rrsets increment_serial =
     transaction (
       let z1 = z_set_status PENDING (z_set_action UPDATE z);
           z2 = (if increment_serial then z_set_increment_serial True z1 else z1)
       in storage_update_zone_with E ctx z2 rrsets)"

definition update_zone_with ::
  "env \<Rightarrow> req_context \<Rightarrow> zone \<Rightarrow> zone \<Rightarrow> recordset list \<Rightarrow> bool \<Rightarrow> zone sys" where
  "update_zone_with E ctx orig z rrsets increment_serial =
     seq (check E ''update_zone'' ctx (zone_target (z_id orig) orig))
     (seq (enforce_catalog_zone_policy ctx (z_type z))
     (seq (raise_if (ZA_tenant_id \<in> z_changed z) (BadRequest BR_plain))
     (seq (raise_if (ZA_name \<in> z_changed z) (BadRequest BR_plain))
     (seq (is_valid_ttl E ctx (if ZA_ttl \<in> z_changed z then z_ttl z else None))
     (bind (update_zone_in_storage_with E ctx z rrsets increment_serial) (\<lambda>z'.
      seq (if z_type z' = SECONDARY \<and> ZA_masters \<in> z_changed z
           then cast (W_perform_zone_xfr z') else return ())
      (return z')))))))"

text \<open>\<open>ZoneXfr\<close> to its end: the transfer, then the update it sends to central without a new serial.\<close>

definition zone_xfr_update ::
  "env \<Rightarrow> req_context \<Rightarrow> (string \<Rightarrow> exn + string list) \<Rightarrow> (string \<Rightarrow> int \<Rightarrow> dns_zone xfr_outcome) \<Rightarrow> zone
     \<Rightarrow> zone_master list \<Rightarrow> zone option sys" where
  "zone_xfr_update E ctx resolve xfr z servers =
     bind (gets w_now) (\<lambda>now.
     bind (lift (zone_xfr (e_conf E) resolve xfr now z servers)) (\<lambda>result.
     case result of
       None \<Rightarrow> return None
     | Some (z', rrsets) \<Rightarrow>
         bind (update_zone_with E ctx z z' rrsets False) (\<lambda>z''. return (Some z''))))"

section \<open>What the tables hold for a zone\<close>

text \<open>\<open>zone_content\<close> is what the recordsets of a zone say: for each name and type the TTL and the data of
  the records.\<close>

definition rr_data :: "db \<Rightarrow> string option \<Rightarrow> string list" where
  "rr_data d i = map r_data (filter (\<lambda>r. Some (r_recordset_id r) = i) (d_records d))"

definition rr_value :: "db \<Rightarrow> recordset \<Rightarrow> int option \<times> string list" where
  "rr_value d rs = (rs_ttl rs, rr_data d (rs_id rs))"

type_synonym content = "name_type \<rightharpoonup> int option \<times> string list"

definition zone_content :: "db \<Rightarrow> string \<Rightarrow> content" where
  "zone_content d zid =
     map_of (map (\<lambda>rs. (rs_key rs, rr_value d rs)) (filter (\<lambda>rs. rs_zone_id rs = zid) (d_recordsets d)))"

text \<open>The constraints of the two tables: ids of their own that identifiers still to come do not
  repeat, one recordset of a zone, name and type, and a recordset for every record.\<close>

definition tables_ok :: "env \<Rightarrow> world \<Rightarrow> bool" where
  "tables_ok E w \<longleftrightarrow> (let rows = d_recordsets (w_db w); recs = d_records (w_db w) in
     unique_recordset rows \<and> distinct (map rs_id rows) \<and> distinct (map r_id recs) \<and>
     (\<forall>rs \<in> set rows. \<exists>i. rs_id rs = Some i \<and> plain i) \<and> (\<forall>r \<in> set recs. r_id r \<noteq> None) \<and>
     (\<forall>r \<in> set recs. Some (r_recordset_id r) \<in> rs_id ` set rows) \<and>
     (\<forall>n \<ge> w_next w. Some (e_gen_uuid E n) \<notin> rs_id ` set rows \<union> r_id ` set recs))"

definition uuids_ok :: "env \<Rightarrow> bool" where
  "uuids_ok E \<longleftrightarrow> inj (e_gen_uuid E) \<and> (\<forall>n. plain (e_gen_uuid E n))"

lemma zone_content_Some:
  assumes "unique_recordset (d_recordsets d)"
  shows "zone_content d zid k = Some v \<longleftrightarrow>
    (\<exists>rs \<in> set (d_recordsets d). rs_zone_id rs = zid \<and> rs_key rs = k \<and> rr_value d rs = v)"
proof -
  have "distinct (map rs_key (filter (\<lambda>rs. rs_zone_id rs = zid) (d_recordsets d)))"
    using assms unfolding unique_recordset_def
    by (induction "d_recordsets d" arbitrary: d rule: list.induct)
       (simp, rename_tac x xs d, auto simp: rs_key_def image_iff distinct_map inj_on_def)
  then show ?thesis by (auto simp: zone_content_def comp_def map_of_eq_Some_iff)
qed

text \<open>Two zones agree when the same recordsets carry the same values.\<close>

lemma content_eqI:
  assumes "unique_recordset (d_recordsets d)" "\<And>k v. m k = Some v \<longleftrightarrow>
    (\<exists>rs \<in> set (d_recordsets d). rs_zone_id rs = zid \<and> rs_key rs = k \<and> rr_value d rs = v)"
  shows "zone_content d zid = m"
proof
  fix k
  have "zone_content d zid k = Some v \<longleftrightarrow> m k = Some v" for v
    using zone_content_Some [OF assms(1)] assms(2) by simp
  then show "zone_content d zid k = m k" by (metis option.exhaust)
qed

section \<open>Records that are added and removed\<close>

text \<open>What a new row keeps of the record it was made from.\<close>

definition made :: "rrecord \<Rightarrow> string \<times> bool \<times> string option list" where
  "made r = (r_data r, r_managed r, [r_managed_plugin_type r, r_managed_plugin_name r, r_managed_resource_type r,
     r_managed_resource_region r, r_managed_resource_id r, r_managed_extra r, r_managed_tenant_id r, r_description r])"

lemma made_data: "map made xs = map made ys \<Longrightarrow> map r_data xs = map r_data ys"
proof -
  have "map r_data zs = map fst (map made zs)" for zs by (simp add: made_def)
  then show "map made xs = map made ys \<Longrightarrow> ?thesis" by metis
qed

text \<open>The world after records with fresh ids were added to the recordset \<open>i\<close>.\<close>

definition adds :: "env \<Rightarrow> string \<Rightarrow> rrecord list \<Rightarrow> world \<Rightarrow> world \<Rightarrow> bool" where
  "adds E i recs w w' \<longleftrightarrow> d_recordsets (w_db w') = d_recordsets (w_db w) \<and>
     d_zones (w_db w') = d_zones (w_db w) \<and> w_next w \<le> w_next w' \<and>
     (\<exists>news. d_records (w_db w') = d_records (w_db w) @ news \<and> map made news = map made recs \<and>
       (\<forall>r \<in> set news. r_recordset_id r = i) \<and>
       map r_id news = map (Some \<circ> e_gen_uuid E) [w_next w..<w_next w'])"

lemma adds_none [simp]: "adds E i [] w w"
  by (simp add: adds_def)

lemma adds_append:
  assumes "adds E i xs w v" "adds E i ys v w'"
  shows "adds E i (xs @ ys) w w'"
proof -
  from assms obtain a b where
    ab: "d_records (w_db v) = d_records (w_db w) @ a" "map made a = map made xs"
      "\<forall>r \<in> set a. r_recordset_id r = i" "map r_id a = map (Some \<circ> e_gen_uuid E) [w_next w..<w_next v]"
      "d_records (w_db w') = d_records (w_db v) @ b" "map made b = map made ys"
      "\<forall>r \<in> set b. r_recordset_id r = i" "map r_id b = map (Some \<circ> e_gen_uuid E) [w_next v..<w_next w']"
    unfolding adds_def by blast
  have le: "w_next w \<le> w_next v" "w_next v \<le> w_next w'" using assms by (auto simp: adds_def)
  then have "[w_next w..<w_next w'] = [w_next w..<w_next v] @ [w_next v..<w_next w']"
    using upt_add_eq_append [of "w_next w" "w_next v" "w_next w' - w_next v"] by simp
  with ab have "\<exists>news. d_records (w_db w') = d_records (w_db w) @ news \<and>
      map made news = map made (xs @ ys) \<and> (\<forall>r \<in> set news. r_recordset_id r = i) \<and>
      map r_id news = map (Some \<circ> e_gen_uuid E) [w_next w..<w_next w']"
    by (intro exI [of _ "a @ b"]) auto
  with assms le show ?thesis unfolding adds_def by (metis le_trans)
qed

lemma create_record_adds:
  "storage_create_record E ctx zid i r w = (Inr r', w') \<Longrightarrow> adds E i [r] w w'"
  by (auto simp: storage_create_record_def comp_iffs Let_def insert_row_def adds_def made_def set_db_def
      split: if_splits)

lemma create_records_adds:
  "create_records E ctx zid i recs w = (Inr recs', w') \<Longrightarrow> adds E i recs w w'"
proof (induction recs arbitrary: w recs')
  case (Cons r recs)
  then obtain v r' rest where "storage_create_record E ctx zid i r w = (Inr r', v)"
    "create_records E ctx zid i recs v = (Inr rest, w')" by (auto simp: bind_Inr_iff)
  with Cons.IH show ?case
    using adds_append [OF create_record_adds, of E ctx zid i r w r' v recs w'] by simp
qed simp

lemma create_each_adds:
  "for_each recs (\<lambda>r. bind (storage_create_record E ctx zid i r) (\<lambda>_. return ())) w = (Inr u, w')
     \<Longrightarrow> adds E i recs w w'"
proof (induction recs arbitrary: w)
  case (Cons r recs)
  from Cons.prems obtain v r' where v: "storage_create_record E ctx zid i r w = (Inr r', v)"
    "for_each recs (\<lambda>r. bind (storage_create_record E ctx zid i r) (\<lambda>_. return ())) v = (Inr u, w')"
    unfolding for_each.simps seq_Inr_iff bind_Inr_iff return_def by (metis prod.inject)
  from adds_append [OF create_record_adds [OF v(1)] Cons.IH [OF v(2)]] show ?case by simp
qed simp

lemma delete_record_removes:
  assumes "storage_delete_record ctx i w = (Inr u, w')" "c_all_tenants ctx"
  shows "w' = set_db (\<lambda>d. d\<lparr>d_records := filter (\<lambda>r. r_id r \<noteq> Some i) (d_records d)\<rparr>) w"
  using assms
  by (auto simp: storage_delete_record_def storage_find_records_def comp_iffs delete_where_def
      record_write_where_def set_db_def lift_def split: if_splits sum.splits)

lemma delete_each_removes:
  assumes "for_each ids (storage_delete_record ctx) w = (Inr u, w')" "c_all_tenants ctx"
  shows "w' = set_db (\<lambda>d. d\<lparr>d_records := filter (\<lambda>r. r_id r \<notin> Some ` set ids) (d_records d)\<rparr>) w"
  using assms(1)
proof (induction ids arbitrary: w)
  case Nil
  then show ?case by (simp add: set_db_def)
next
  case (Cons i ids)
  then obtain v where v: "storage_delete_record ctx i w = (Inr (), v)"
    "for_each ids (storage_delete_record ctx) v = (Inr u, w')" by (auto simp: seq_Inr_iff)
  from delete_record_removes [OF v(1) assms(2)] Cons.IH [OF v(2)] show ?case
    by (auto simp: set_db_def intro!: filter_cong)
qed

text \<open>New records keep the constraints and append their data to their recordset.\<close>

lemma adds_data:
  "adds E i recs v w \<Longrightarrow>
     rr_data (w_db w) j = rr_data (w_db v) j @ (if j = Some i then map r_data recs else [])"
  by (auto simp: adds_def rr_data_def filter_empty_conv dest: made_data)

lemma adds_ok:
  assumes adds: "adds E i recs v w" and ok: "tables_ok E v" and E: "uuids_ok E"
    and i: "Some i \<in> rs_id ` set (d_recordsets (w_db v))"
  shows "tables_ok E w"
proof -
  let ?gen = "e_gen_uuid E"
  from adds obtain news where
    news: "d_records (w_db w) = d_records (w_db v) @ news" "\<forall>r \<in> set news. r_recordset_id r = i"
      "map r_id news = map (Some \<circ> ?gen) [w_next v..<w_next w]"
    and same: "d_recordsets (w_db w) = d_recordsets (w_db v)" "w_next v \<le> w_next w"
    unfolding adds_def by blast
  from arg_cong [OF news(3), of set]
  have ids: "r_id ` set news = Some ` ?gen ` {w_next v..<w_next w}" by (simp add: image_comp)
  have inj: "inj ?gen" using E by (simp add: uuids_ok_def)
  then have d: "distinct (map r_id news)" unfolding news(3) by (simp add: distinct_map inj_on_def)
  have "\<forall>n \<ge> w_next v. Some (?gen n) \<notin> r_id ` set (d_records (w_db v))"
    using ok unfolding tables_ok_def Let_def by blast
  then have no: "r_id ` set (d_records (w_db v)) \<inter> r_id ` set news = {}"
    unfolding ids by (simp add: image_iff disjoint_iff) (metis atLeastLessThan_iff)
  have later: "Some (?gen n) \<notin> r_id ` set news" if "w_next w \<le> n" for n
    unfolding ids using that inj by (auto dest: injD)
  have "distinct (map r_id (d_records (w_db w)))"
    using ok d no by (simp add: news(1) tables_ok_def Let_def)
  moreover have "\<forall>r \<in> set (d_records (w_db w)). r_id r \<noteq> None"
    using ok ids by (auto simp: news(1) tables_ok_def Let_def)
  moreover have "\<forall>r \<in> set (d_records (w_db w)). Some (r_recordset_id r) \<in> rs_id ` set (d_recordsets (w_db w))"
    using ok i news(2) by (auto simp: news(1) same(1) tables_ok_def Let_def)
  moreover have "\<forall>n \<ge> w_next w. Some (?gen n) \<notin> rs_id ` set (d_recordsets (w_db w)) \<union> r_id ` set (d_records (w_db w))"
  proof (intro allI impI)
    fix n assume n: "w_next w \<le> n"
    with same(2) have "w_next v \<le> n" by simp
    then have "Some (?gen n) \<notin> rs_id ` set (d_recordsets (w_db v)) \<union> r_id ` set (d_records (w_db v))"
      using ok unfolding tables_ok_def Let_def by blast
    with later [OF n] show "Some (?gen n) \<notin> rs_id ` set (d_recordsets (w_db w)) \<union> r_id ` set (d_records (w_db w))"
      by (simp add: news(1) same(1) image_Un)
  qed
  ultimately show ?thesis using ok by (simp add: tables_ok_def Let_def same(1))
qed

text \<open>The second half of \<open>update_recordset\<close>, for records that are all new.\<close>

lemma sync_records_fresh:
  assumes run: "sync_records E ctx zid i recs w = (Inr u, w')" and i: "plain i" and all: "c_all_tenants ctx"
    and new: "\<forall>r \<in> set recs. r_id r = None"
    and ok: "distinct (map r_id (d_records (w_db w)))" "\<forall>r \<in> set (d_records (w_db w)). r_id r \<noteq> None"
  shows "adds E i recs
    (set_db (\<lambda>d. d\<lparr>d_records := filter (\<lambda>r. r_recordset_id r \<noteq> i) (d_records d)\<rparr>) w) w'"
proof -
  let ?recs = "d_records (w_db w)"
  let ?have = "List.map_filter r_id (filter (\<lambda>r. r_recordset_id r = i) ?recs)"
  have parts: "sync_delete ?have recs = ?have" "sync_update recs = []" "sync_create recs = recs"
    using new by (auto simp: sync_delete_def sync_update_def sync_create_def filter_id_conv filter_empty_conv)
  have found: "storage_find_records ctx [(DC_recordset_id, CStr i)] True w =
      (Inr (filter (\<lambda>r. r_recordset_id r = i) ?recs), w)"
    using i all by (simp add: storage_find_records_def bind_run record_where_def select_where_def
        matches_def [abs_def] lift_def)
  have "seq (for_each ?have (storage_delete_record ctx))
      (seq (for_each [] (storage_update_record E ctx))
        (for_each recs (\<lambda>r. bind (storage_create_record E ctx zid i r) (\<lambda>_. return ())))) w = (Inr u, w')"
    using run unfolding sync_records_def by (simp only: bind_run found Let_def prod.case sum.case parts)
  then obtain v where del: "for_each ?have (storage_delete_record ctx) w = (Inr (), v)"
    and cre: "for_each recs (\<lambda>r. bind (storage_create_record E ctx zid i r) (\<lambda>_. return ())) v = (Inr u, w')"
    unfolding seq_Inr_iff for_each.simps(1) return_def by auto
  have inj: "inj_on r_id (set ?recs)" using ok(1) by (simp add: distinct_map)
  have "r_id r \<notin> Some ` set ?have \<longleftrightarrow> r_recordset_id r \<noteq> i" if "r \<in> set ?recs" for r
  proof
    assume "r_id r \<notin> Some ` set ?have"
    moreover from that ok(2) obtain j where "r_id r = Some j" by blast
    ultimately show "r_recordset_id r \<noteq> i" using that by (auto simp: map_filter_def image_iff)
  next
    assume "r_recordset_id r \<noteq> i"
    with that inj show "r_id r \<notin> Some ` set ?have" by (auto simp: map_filter_def inj_on_def image_iff)
  qed
  then have "filter (\<lambda>r. r_id r \<notin> Some ` set ?have) ?recs = filter (\<lambda>r. r_recordset_id r \<noteq> i) ?recs"
    by (intro filter_cong) simp_all
  with delete_each_removes [OF del all]
  have "v = set_db (\<lambda>d. d\<lparr>d_records := filter (\<lambda>r. r_recordset_id r \<noteq> i) (d_records d)\<rparr>) w"
    by (simp add: set_db_def)
  with create_each_adds [OF cre] show ?thesis by simp
qed

section \<open>One recordset at a time\<close>

lemma rows_id_eq:
  assumes "tables_ok E w" "a \<in> set (d_recordsets (w_db w))" "b \<in> set (d_recordsets (w_db w))"
  shows "rs_id a = rs_id b \<longleftrightarrow> a = b"
  using assms by (auto simp: tables_ok_def Let_def distinct_map inj_on_def)

lemma rows_key_eq:
  assumes "tables_ok E w" "a \<in> set (d_recordsets (w_db w))" "b \<in> set (d_recordsets (w_db w))"
    "rs_zone_id a = rs_zone_id b" "rs_key a = rs_key b"
  shows "a = b"
  using assms by (auto simp: tables_ok_def Let_def distinct_map inj_on_def unique_recordset_def rs_key_def)

text \<open>Rows rewritten under their ids and keys, and rows removed with their records, keep the
  constraints.\<close>

lemma tables_ok_shrink:
  assumes ok: "tables_ok E w"
    and f: "\<And>r. rs_id (f r) = rs_id r" "\<And>r. rs_zone_id (f r) = rs_zone_id r" "\<And>r. rs_key (f r) = rs_key r"
    and ref: "\<And>r. r \<in> set (d_records (w_db w)) \<Longrightarrow> P r \<Longrightarrow>
      Some (r_recordset_id r) \<in> rs_id ` set (filter Q (d_recordsets (w_db w)))"
  shows "tables_ok E (set_db (\<lambda>d. d\<lparr>d_recordsets := map f (filter Q (d_recordsets d)),
    d_records := filter P (d_records d)\<rparr>) w)"
proof -
  let ?rows = "d_recordsets (w_db w)" and ?recs = "d_records (w_db w)"
  let ?key = "\<lambda>r. (rs_zone_id r, rs_name r, rs_type r)"
  have same: "map ?key (map f rs) = map ?key rs" "map rs_id (map f rs) = map rs_id rs" for rs
    using f by (simp_all add: rs_key_def)
  have ids: "rs_id ` set (map f (filter Q ?rows)) = rs_id ` set (filter Q ?rows)"
    using f(1) by (auto simp: image_iff)
  have "unique_recordset (map f (filter Q ?rows))" "distinct (map rs_id (map f (filter Q ?rows)))"
    using ok unfolding unique_recordset_def same
    by (simp_all add: tables_ok_def Let_def unique_recordset_def distinct_map_filter)
  moreover have "distinct (map r_id (filter P ?recs))" "\<forall>r \<in> set (filter P ?recs). r_id r \<noteq> None"
    "\<forall>rs \<in> set (map f (filter Q ?rows)). \<exists>i. rs_id rs = Some i \<and> plain i"
    using ok f(1) by (simp_all add: tables_ok_def Let_def distinct_map_filter)
  moreover have "\<forall>r \<in> set (filter P ?recs). Some (r_recordset_id r) \<in> rs_id ` set (map f (filter Q ?rows))"
    unfolding ids using ref by simp
  moreover have "Some (e_gen_uuid E n) \<notin> rs_id ` set (map f (filter Q ?rows)) \<union> r_id ` set (filter P ?recs)"
    if "w_next w \<le> n" for n
    unfolding ids using ok that unfolding tables_ok_def Let_def by auto
  ultimately show ?thesis unfolding tables_ok_def Let_def set_db_simps by simp
qed

text \<open>The row of a recordset whose records are replaced by new ones.\<close>

definition set_ttl :: "string option \<Rightarrow> int option \<Rightarrow> recordset \<Rightarrow> recordset" where
  "set_ttl i t r = (if rs_id r = i then r\<lparr>rs_version := rs_version r + 1, rs_ttl := t\<rparr> else r)"

lemma set_ttl_simps [simp]:
  "rs_id (set_ttl i t r) = rs_id r" "rs_zone_id (set_ttl i t r) = rs_zone_id r"
  "rs_key (set_ttl i t r) = rs_key r" "rs_ttl (set_ttl i t r) = (if rs_id r = i then t else rs_ttl r)"
  by (simp_all add: set_ttl_def rs_key_def)

definition without_records :: "string \<Rightarrow> (recordset \<Rightarrow> recordset) \<Rightarrow> world \<Rightarrow> world" where
  "without_records i f w = set_db (\<lambda>d. d\<lparr>d_recordsets := map f (filter (\<lambda>_. True) (d_recordsets d)),
     d_records := filter (\<lambda>r. r_recordset_id r \<noteq> i) (d_records d)\<rparr>) w"

lemma update_recordset_run:
  assumes run: "storage_update_recordset E ctx obj w = (Inr rs', w')" and ok: "tables_ok E w"
    and all: "c_all_tenants ctx" and row: "row \<in> set (d_recordsets (w_db w))" "rs_id row = Some i"
    and obj: "obj = row\<lparr>rs_ttl := t, rs_records := recs, rs_changed := ch\<rparr>"
    and ch: "t = rs_ttl row \<or> RSA_ttl \<in> ch" and new: "\<forall>r \<in> set recs. r_id r = None"
  shows "adds E i recs (without_records i (set_ttl (Some i) t) w) w'"
    and "rs_id rs' = Some i" and "rs_records rs' = recs"
proof -
  let ?rows = "d_recordsets (w_db w)"
  let ?new = "map (set_ttl (Some i) t) ?rows"
  let ?v = "set_db (\<lambda>d. d\<lparr>d_recordsets := ?new\<rparr>) w"
  have idobj: "rs_id obj = Some i" "rs_zone_id obj = rs_zone_id row" "rs_records obj = recs"
    using obj row(2) by simp_all
  from run obtain rows u where
    up: "update_where rs_col unique_recordset (Duplicate (Some R_RecordSet)) RecordSetNotFound
       (rs_write_where ctx i) (write_rs_changes obj) ?rows = Inr rows"
    and sync: "sync_records E ctx (rs_zone_id row) i recs (set_db (\<lambda>d. d\<lparr>d_recordsets := rows\<rparr>) w) = (Inr u, w')"
    and rs': "rs' = (hd (filter (\<lambda>r. rs_id r = Some i) rows))\<lparr>rs_records := recs, rs_changed := {}\<rparr>"
    by (auto simp: storage_update_recordset_def comp_iffs Let_def idobj lift_def split: sum.splits)
  have wr: "write_rs_changes obj row = set_ttl (Some i) t row"
    using ch row(2) unfolding obj by (cases row) (auto simp: write_rs_changes_def Let_def set_ttl_def)
  have only: "rs_id r = Some i \<longleftrightarrow> r = row" if "r \<in> set ?rows" for r
    using rows_id_eq [OF ok that row(1)] row(2) by simp
  have m: "matches rs_col (rs_write_where ctx i) r \<longleftrightarrow> r = row" if "r \<in> set ?rows" for r
    using only [OF that] all by (simp add: rs_write_where_def)
  from up have "rows = map (\<lambda>r. if matches rs_col (rs_write_where ctx i) r then write_rs_changes obj r else r) ?rows"
    by (simp add: update_where_def Let_def split: if_splits)
  also have "\<dots> = ?new" using m only wr by (intro map_cong) (auto simp: set_ttl_def)
  finally have rows: "rows = ?new" .
  have "plain i" using ok row by (auto simp: tables_ok_def Let_def)
  then have "adds E i recs (set_db (\<lambda>d. d\<lparr>d_records := filter (\<lambda>r. r_recordset_id r \<noteq> i) (d_records d)\<rparr>) ?v) w'"
    using sync ok all new unfolding rows
    by (intro sync_records_fresh) (simp_all add: tables_ok_def Let_def)
  then show "adds E i recs (without_records i (set_ttl (Some i) t) w) w'"
    by (simp add: without_records_def set_db_def)
  have "filter (\<lambda>r. rs_id r = Some i) rows \<noteq> []"
    using row by (force simp: rows filter_empty_conv)
  then have "hd (filter (\<lambda>r. rs_id r = Some i) rows) \<in> set (filter (\<lambda>r. rs_id r = Some i) rows)" by (rule hd_in_set)
  then show "rs_id rs' = Some i" "rs_records rs' = recs" by (simp_all add: rs')
qed

lemma without_records_ok:
  assumes "tables_ok E w" "\<And>r. rs_id (f r) = rs_id r" "\<And>r. rs_zone_id (f r) = rs_zone_id r"
    "\<And>r. rs_key (f r) = rs_key r"
  shows "tables_ok E (without_records i f w)"
  unfolding without_records_def using assms
  by (intro tables_ok_shrink) (auto simp: tables_ok_def Let_def)

lemma without_records_data [simp]:
  "rr_data (w_db (without_records i f w)) j = (if j = Some i then [] else rr_data (w_db w) j)"
proof (cases "j = Some i")
  case False
  then have "filter (\<lambda>r. r_recordset_id r \<noteq> i \<and> Some (r_recordset_id r) = j) rs =
      filter (\<lambda>r. Some (r_recordset_id r) = j) rs" for rs :: "rrecord list"
    by (intro filter_cong) auto
  with False show ?thesis by (simp add: without_records_def rr_data_def)
qed (auto simp: without_records_def rr_data_def filter_empty_conv)

lemma update_recordset_content:
  assumes run: "storage_update_recordset E ctx obj w = (Inr rs', w')" and ok: "tables_ok E w" and E: "uuids_ok E"
    and all: "c_all_tenants ctx" and row: "row \<in> set (d_recordsets (w_db w))"
    and obj: "obj = row\<lparr>rs_ttl := t, rs_records := recs, rs_changed := ch\<rparr>"
    and ch: "t = rs_ttl row \<or> RSA_ttl \<in> ch" and new: "\<forall>r \<in> set recs. r_id r = None"
  shows "tables_ok E w'" and "rs_id rs' = rs_id row"
    and "d_recordsets (w_db w') = map (set_ttl (rs_id row) t) (d_recordsets (w_db w))"
    and "zone_content (w_db w') z = (if z = rs_zone_id row
      then (zone_content (w_db w) z)(rs_key row \<mapsto> (t, map r_data recs)) else zone_content (w_db w) z)"
proof -
  from ok row obtain i where i: "rs_id row = Some i" by (auto simp: tables_ok_def Let_def)
  let ?v = "without_records i (set_ttl (Some i) t) w"
  note up = update_recordset_run [OF run ok all row i obj ch new]
  show "rs_id rs' = rs_id row" using up(2) i by simp
  have v: "d_recordsets (w_db ?v) = map (set_ttl (Some i) t) (d_recordsets (w_db w))"
    by (simp add: without_records_def)
  have "Some i \<in> rs_id ` set (d_recordsets (w_db ?v))" using row i by (force simp: v image_image)
  with up(1) show ok': "tables_ok E w'" by (intro adds_ok [OF _ without_records_ok [OF ok] E]) simp_all
  from up(1) v show rows: "d_recordsets (w_db w') = map (set_ttl (rs_id row) t) (d_recordsets (w_db w))"
    by (simp add: adds_def i)
  have data: "rr_data (w_db w') j = (if j = Some i then map r_data recs else rr_data (w_db w) j)" for j
    by (simp add: adds_data [OF up(1)])
  have value': "rr_value (w_db w') (set_ttl (rs_id row) t r) =
      (if r = row then (t, map r_data recs) else rr_value (w_db w) r)" if "r \<in> set (d_recordsets (w_db w))" for r
    using rows_id_eq [OF ok that row] i by (auto simp: rr_value_def data)
  have uq: "unique_recordset (d_recordsets (w_db w))" "unique_recordset (d_recordsets (w_db w'))"
    using ok ok' by (simp_all add: tables_ok_def Let_def)
  note key = rows_key_eq [OF ok _ row]
  show "zone_content (w_db w') z = (if z = rs_zone_id row
      then (zone_content (w_db w) z)(rs_key row \<mapsto> (t, map r_data recs)) else zone_content (w_db w) z)"
    using row key by (intro content_eqI [OF uq(2)])
      (auto simp: rows value' zone_content_Some [OF uq(1)] split: if_splits; metis)
qed

lemma create_recordset_run:
  assumes "storage_create_recordset E ctx zid rs w = (Inr new, w')"
  defines "i \<equiv> e_gen_uuid E (w_next w)"
  defines "row \<equiv> rs\<lparr>rs_tenant_id := c_project_id ctx, rs_zone_id := zid, rs_id := Some i,
                  rs_version := 1, rs_records := [], rs_changed := {}\<rparr>"
  defines "v \<equiv> set_db (\<lambda>d. d\<lparr>d_recordsets := d_recordsets d @ [row]\<rparr>) (w\<lparr>w_next := Suc (w_next w)\<rparr>)"
  shows "adds E i (rs_records rs) v w'" and "rs_id new = Some i"
    and "unique_recordset (d_recordsets (w_db w) @ [row])"
proof -
  from assms(1) obtain recs where
    "create_records E ctx zid i (rs_records rs) v = (Inr recs, w')" and "new = row\<lparr>rs_records := recs\<rparr>"
    and "unique_recordset (d_recordsets (w_db w) @ [row])"
    by (auto simp: storage_create_recordset_def comp_iffs Let_def insert_row_def v_def row_def i_def lift_def set_db_def
      simp del: create_records.simps split: if_splits)
  then show "adds E i (rs_records rs) v w'" "rs_id new = Some i"
    "unique_recordset (d_recordsets (w_db w) @ [row])"
    by (simp_all add: create_records_adds row_def)
qed

lemma create_recordset_content:
  assumes run: "storage_create_recordset E ctx zid rs w = (Inr new, w')" and ok: "tables_ok E w" and E: "uuids_ok E"
  shows "tables_ok E w'" and "rs_id new \<notin> rs_id ` set (d_recordsets (w_db w))"
    and "\<exists>row. d_recordsets (w_db w') = d_recordsets (w_db w) @ [row] \<and> rs_zone_id row = zid \<and>
      rs_key row = rs_key rs \<and> rs_id row = rs_id new"
    and "zone_content (w_db w') z = (if z = zid
      then (zone_content (w_db w) z)(rs_key rs \<mapsto> (rs_ttl rs, map r_data (rs_records rs)))
      else zone_content (w_db w) z)"
proof -
  let ?i = "e_gen_uuid E (w_next w)"
  let ?row = "rs\<lparr>rs_tenant_id := c_project_id ctx, rs_zone_id := zid, rs_id := Some ?i,
                  rs_version := 1, rs_records := [], rs_changed := {}\<rparr>"
  let ?v = "set_db (\<lambda>d. d\<lparr>d_recordsets := d_recordsets d @ [?row]\<rparr>) (w\<lparr>w_next := Suc (w_next w)\<rparr>)"
  note c = create_recordset_run [OF run]
  let ?rows = "d_recordsets (w_db w)"
  have fresh: "Some (e_gen_uuid E n) \<notin> rs_id ` set ?rows \<union> r_id ` set (d_records (w_db w))"
    if "w_next w \<le> n" for n
    using ok that unfolding tables_ok_def Let_def by blast
  then show new: "rs_id new \<notin> rs_id ` set ?rows" using c(2) by auto
  have next_id: "e_gen_uuid E n \<noteq> ?i" if "Suc (w_next w) \<le> n" for n
    using E that by (auto simp: uuids_ok_def dest: injD)
  have okv: "tables_ok E ?v"
    unfolding tables_ok_def Let_def
  proof (intro conjI)
    show "unique_recordset (d_recordsets (w_db ?v))" using c(3) by simp
    show "distinct (map rs_id (d_recordsets (w_db ?v)))"
      using ok fresh [of "w_next w"] by (simp add: tables_ok_def Let_def)
    show "\<forall>n \<ge> w_next ?v. Some (e_gen_uuid E n) \<notin> rs_id ` set (d_recordsets (w_db ?v)) \<union> r_id ` set (d_records (w_db ?v))"
      using fresh next_id by auto
  qed (use ok E in \<open>auto simp: tables_ok_def Let_def uuids_ok_def\<close>)
  show ok': "tables_ok E w'" by (rule adds_ok [OF c(1) okv E]) simp
  from c(1) have rows: "d_recordsets (w_db w') = ?rows @ [?row]" by (simp add: adds_def)
  then show "\<exists>row. d_recordsets (w_db w') = ?rows @ [row] \<and> rs_zone_id row = zid \<and>
      rs_key row = rs_key rs \<and> rs_id row = rs_id new"
    using c(2) by (intro exI [of _ ?row]) (simp add: rs_key_def)
  have "filter (\<lambda>r. r_recordset_id r = ?i) (d_records (w_db w)) = []"
    using ok fresh [of "w_next w"] unfolding tables_ok_def Let_def filter_empty_conv by (metis UnI1 le_refl)
  then have "rr_data (w_db w) (Some ?i) = []" "rr_data (w_db ?v) j = rr_data (w_db w) j" for j
    by (simp_all add: rr_data_def)
  then have data: "rr_data (w_db w') j = (if j = Some ?i then map r_data (rs_records rs) else rr_data (w_db w) j)" for j
    by (simp add: adds_data [OF c(1)])
  have value': "rr_value (w_db w') r = rr_value (w_db w) r" if "r \<in> set ?rows" for r
  proof -
    from that have "rs_id r \<noteq> Some ?i" using fresh [of "w_next w"] by (metis UnI1 imageI le_refl)
    then show ?thesis by (simp add: rr_value_def data)
  qed
  have row': "rr_value (w_db w') ?row = (rs_ttl rs, map r_data (rs_records rs))" "rs_key ?row = rs_key rs"
    by (simp_all add: rr_value_def data rs_key_def)
  have uq: "unique_recordset ?rows" "unique_recordset (d_recordsets (w_db w'))"
    using ok ok' by (simp_all add: tables_ok_def Let_def)
  have free: "rs_key r \<noteq> rs_key rs" if "r \<in> set ?rows" "rs_zone_id r = zid" for r
    using c(3) that by (auto simp: unique_recordset_def rs_key_def)
  show "zone_content (w_db w') z = (if z = zid
      then (zone_content (w_db w) z)(rs_key rs \<mapsto> (rs_ttl rs, map r_data (rs_records rs)))
      else zone_content (w_db w) z)"
    using free by (intro content_eqI [OF uq(2)])
      (auto simp: rows value' row' zone_content_Some [OF uq(1)] split: if_splits)
qed

text \<open>Deleting recordsets by their ids.\<close>

lemma delete_recordset_removes:
  assumes "storage_delete_recordset ctx i w = (Inr rs, w')" "c_all_tenants ctx"
  shows "w' = set_db (\<lambda>d. d\<lparr>d_recordsets := filter (\<lambda>r. rs_id r \<noteq> Some i) (d_recordsets d),
    d_records := filter (\<lambda>r. r_recordset_id r \<noteq> i) (d_records d)\<rparr>) w"
proof -
  have "w2 = w" if "storage_find_recordset ctx c t w = (Inr x, w2)" for c t x w2
    using that by (auto simp: storage_find_recordset_def storage_find_records_def comp_iffs lift_def
      split: sum.splits)
  with assms show ?thesis
    by (auto simp: storage_delete_recordset_def comp_iffs delete_where_def rs_write_where_def set_db_def
        lift_def split: if_splits sum.splits)
qed

lemma purge_removes:
  assumes "for_each ids (\<lambda>i. bind (storage_delete_recordset ctx i) (\<lambda>_. return ())) w = (Inr u, w')"
    "c_all_tenants ctx"
  shows "w' = set_db (\<lambda>d. d\<lparr>
    d_recordsets := map id (filter (\<lambda>r. rs_id r \<notin> Some ` set ids) (d_recordsets d)),
    d_records := filter (\<lambda>r. r_recordset_id r \<notin> set ids) (d_records d)\<rparr>) w"
  using assms(1)
proof (induction ids arbitrary: w)
  case Nil
  then show ?case by (simp add: set_db_def)
next
  case (Cons i ids)
  from Cons.prems obtain v rs where v: "storage_delete_recordset ctx i w = (Inr rs, v)"
    "for_each ids (\<lambda>i. bind (storage_delete_recordset ctx i) (\<lambda>_. return ())) v = (Inr u, w')"
    unfolding for_each.simps seq_Inr_iff bind_Inr_iff return_def by (metis prod.inject)
  from delete_recordset_removes [OF v(1) assms(2)] Cons.IH [OF v(2)] show ?case
    by (auto simp: set_db_def conj_commute intro!: filter_cong)
qed

lemma purge_content:
  assumes run: "for_each ids (\<lambda>i. bind (storage_delete_recordset ctx i) (\<lambda>_. return ())) w = (Inr u, w')"
    and all: "c_all_tenants ctx" and ok: "tables_ok E w"
    and ids: "Some ` set ids = rs_id ` {r \<in> set (d_recordsets (w_db w)). rs_zone_id r = zid \<and> rs_key r \<notin> D}"
  shows "tables_ok E w'"
    and "zone_content (w_db w') z = (if z = zid then zone_content (w_db w) z |` D else zone_content (w_db w) z)"
proof -
  let ?rows = "d_recordsets (w_db w)"
  note w' = purge_removes [OF run all]
  have gone: "rs_id r \<in> Some ` set ids \<longleftrightarrow> rs_zone_id r = zid \<and> rs_key r \<notin> D" if "r \<in> set ?rows" for r
  proof
    assume "rs_id r \<in> Some ` set ids"
    then obtain q where "q \<in> set ?rows" "rs_zone_id q = zid" "rs_key q \<notin> D" "rs_id q = rs_id r"
      unfolding ids by auto
    with rows_id_eq [OF ok _ that, of q] show "rs_zone_id r = zid \<and> rs_key r \<notin> D" by simp
  next
    assume "rs_zone_id r = zid \<and> rs_key r \<notin> D"
    with that show "rs_id r \<in> Some ` set ids" unfolding ids by auto
  qed
  show ok': "tables_ok E w'"
    unfolding w'
  proof (intro tables_ok_shrink [OF ok])
    fix r assume "r \<in> set (d_records (w_db w))" "r_recordset_id r \<notin> set ids"
    moreover from this ok obtain s where "s \<in> set ?rows" "rs_id s = Some (r_recordset_id r)"
      unfolding tables_ok_def Let_def by (metis imageE)
    ultimately show "Some (r_recordset_id r) \<in> rs_id ` set (filter (\<lambda>r. rs_id r \<notin> Some ` set ids) ?rows)"
      by (intro image_eqI [of _ _ s]) auto
  qed simp_all
  have value': "rr_value (w_db w') r = rr_value (w_db w) r" if "rs_id r \<notin> Some ` set ids" for r
  proof -
    have "filter (\<lambda>x. r_recordset_id x \<notin> set ids \<and> Some (r_recordset_id x) = rs_id r) (d_records (w_db w)) =
        filter (\<lambda>x. Some (r_recordset_id x) = rs_id r) (d_records (w_db w))"
      using that by (intro filter_cong) (auto, metis imageI)
    then show ?thesis by (simp add: w' rr_value_def rr_data_def)
  qed
  have uq: "unique_recordset ?rows" "unique_recordset (d_recordsets (w_db w'))"
    using ok ok' by (simp_all add: tables_ok_def Let_def)
  have rows: "d_recordsets (w_db w') = filter (\<lambda>r. rs_id r \<notin> Some ` set ids) ?rows" by (simp add: w')
  show "zone_content (w_db w') z = (if z = zid then zone_content (w_db w) z |` D else zone_content (w_db w) z)"
  proof (intro content_eqI [OF uq(2)])
    fix k v
    have "(if z = zid then zone_content (w_db w) z |` D else zone_content (w_db w) z) k = Some v \<longleftrightarrow>
        (\<not> (z = zid \<and> k \<notin> D)) \<and> zone_content (w_db w) z k = Some v"
      by (simp add: restrict_map_def)
    also have "\<dots> \<longleftrightarrow> (\<exists>rs \<in> set ?rows. rs_id rs \<notin> Some ` set ids \<and> rs_zone_id rs = z \<and> rs_key rs = k \<and>
        rr_value (w_db w) rs = v)"
      unfolding zone_content_Some [OF uq(1)] using gone by blast
    also have "\<dots> \<longleftrightarrow> (\<exists>rs \<in> set (d_recordsets (w_db w')). rs_zone_id rs = z \<and> rs_key rs = k \<and>
        rr_value (w_db w') rs = v)"
      using value' by (auto simp: rows)
    finally show "(if z = zid then zone_content (w_db w) z |` D else zone_content (w_db w) z) k = Some v \<longleftrightarrow>
        (\<exists>rs \<in> set (d_recordsets (w_db w')). rs_zone_id rs = z \<and> rs_key rs = k \<and> rr_value (w_db w') rs = v)" .
  qed
qed

section \<open>The loop over the carried recordsets\<close>

text \<open>What a carried recordset says: a TTL that is not set is the one the table already has.\<close>

definition carried :: "content \<Rightarrow> recordset \<Rightarrow> int option \<times> string list" where
  "carried old rrset =
     (case rs_ttl rrset of Some t \<Rightarrow> Some t | None \<Rightarrow> Option.bind (old (rs_key rrset)) fst,
      map r_data (rs_records rrset))"

definition carried_map :: "content \<Rightarrow> recordset list \<Rightarrow> content" where
  "carried_map old rrsets = map_of (map (\<lambda>rrset. (rs_key rrset, carried old rrset)) rrsets)"

text \<open>The objects of \<open>existing\<close> that are still to come are rows of the table, and the ids that are
  neither kept nor still to come are gone through.\<close>

definition still_to_come ::
  "string \<Rightarrow> name_type set \<Rightarrow> recordset list \<Rightarrow> (name_type \<times> recordset) list \<Rightarrow> string option list \<Rightarrow> bool" where
  "still_to_come zid D rows existing keep \<longleftrightarrow>
     (\<forall>k. k \<notin> D \<longrightarrow> (case map_of existing k of
        Some ex \<Rightarrow> \<exists>row \<in> set rows. rs_zone_id row = zid \<and> rs_key row = k \<and> (\<exists>x. ex = row\<lparr>rs_records := x\<rparr>)
      | None \<Rightarrow> \<forall>row \<in> set rows. rs_zone_id row = zid \<longrightarrow> rs_key row \<noteq> k)) \<and>
     rs_id ` {r \<in> set rows. rs_zone_id r = zid \<and> rs_key r \<notin> D} = (rs_id \<circ> snd) ` set existing - set keep"

lemma update_same_image:
  "map_of al k = Some x \<Longrightarrow> f y = f x \<Longrightarrow> (f \<circ> snd) ` set (AList.update k y al) = (f \<circ> snd) ` set al"
  by (induction al) (auto split: if_splits)

lemma merge_rrset_row:
  "merge_rrset (row\<lparr>rs_records := x\<rparr>) rrset = row\<lparr>
     rs_ttl := (case rs_ttl rrset of None \<Rightarrow> rs_ttl row | Some t \<Rightarrow> Some t),
     rs_records := rs_records rrset,
     rs_changed := rs_changed (merge_rrset (row\<lparr>rs_records := x\<rparr>) rrset)\<rparr>"
  by (cases "rs_ttl rrset") (simp_all add: merge_rrset_def)

lemma to_come_updated:
  assumes come: "still_to_come zid D rows existing keep" and k: "k \<notin> D" "map_of existing k = Some ex"
    and row: "row \<in> set rows" "rs_zone_id row = zid" "rs_key row = k" "ex = row\<lparr>rs_records := x\<rparr>"
    and ex': "rs_id ex' = rs_id row"
    and ids: "\<And>r. r \<in> set rows \<Longrightarrow> rs_id r = rs_id row \<Longrightarrow> r = row"
    and keys: "\<And>r. r \<in> set rows \<Longrightarrow> rs_zone_id r = zid \<Longrightarrow> rs_key r = k \<Longrightarrow> r = row"
  shows "still_to_come zid (insert k D) (map (set_ttl (rs_id row) t) rows)
    (AList.update k ex' existing) (keep @ [rs_id ex'])"
proof -
  have others: "set_ttl (rs_id row) t r = r" if "r \<in> set rows" "rs_key r \<noteq> k" for r
    using ids [OF that(1)] that(2) row(3) by (auto simp: set_ttl_def)
  have img: "(rs_id \<circ> snd) ` set (AList.update k ex' existing) = (rs_id \<circ> snd) ` set existing"
    by (rule update_same_image [where f = rs_id, OF k(2)]) (simp add: ex' row(4))
  have open': "rs_id ` {r \<in> set (map (set_ttl (rs_id row) t) rows). rs_zone_id r = zid \<and> rs_key r \<notin> insert k D}
      = rs_id ` {r \<in> set rows. rs_zone_id r = zid \<and> rs_key r \<notin> insert k D}"
  proof -
    have "{r \<in> set (map (set_ttl (rs_id row) t) rows). rs_zone_id r = zid \<and> rs_key r \<notin> insert k D} =
        set_ttl (rs_id row) t ` {r \<in> set rows. rs_zone_id r = zid \<and> rs_key r \<notin> insert k D}"
      by (auto intro!: imageI)
    then show ?thesis by (simp only: image_image set_ttl_simps)
  qed
  have "{r \<in> set rows. rs_zone_id r = zid \<and> rs_key r \<notin> insert k D} =
      {r \<in> set rows. rs_zone_id r = zid \<and> rs_key r \<notin> D} - {row}"
    using keys row k(1) by blast
  moreover have "rs_id r \<noteq> rs_id row" if "r \<in> set rows" "r \<noteq> row" for r using ids that by blast
  ultimately have "rs_id ` {r \<in> set rows. rs_zone_id r = zid \<and> rs_key r \<notin> insert k D} =
      rs_id ` {r \<in> set rows. rs_zone_id r = zid \<and> rs_key r \<notin> D} - {rs_id row}"
    by auto
  with open' have "rs_id ` {r \<in> set (map (set_ttl (rs_id row) t) rows). rs_zone_id r = zid \<and> rs_key r \<notin> insert k D}
      = (rs_id \<circ> snd) ` set (AList.update k ex' existing) - set (keep @ [rs_id ex'])"
    using come img ex' unfolding still_to_come_def by auto
  moreover have "case map_of (AList.update k ex' existing) j of
        Some e \<Rightarrow> \<exists>r \<in> set (map (set_ttl (rs_id row) t) rows). rs_zone_id r = zid \<and> rs_key r = j \<and> (\<exists>x. e = r\<lparr>rs_records := x\<rparr>)
      | None \<Rightarrow> \<forall>r \<in> set (map (set_ttl (rs_id row) t) rows). rs_zone_id r = zid \<longrightarrow> rs_key r \<noteq> j"
    if j: "j \<notin> insert k D" for j
  proof -
    from j have same: "map_of (AList.update k ex' existing) j = map_of existing j" by (simp add: update_conv)
    show ?thesis
    proof (cases "map_of existing j")
      case None
      with come [unfolded still_to_come_def, THEN conjunct1, rule_format, of j] j
      show ?thesis unfolding same by simp
    next
      case (Some e)
      with come [unfolded still_to_come_def, THEN conjunct1, rule_format, of j] j
      obtain r y where "r \<in> set rows" "rs_zone_id r = zid" "rs_key r = j" "e = r\<lparr>rs_records := y\<rparr>"
        by auto
      moreover from this others [of r] j have "r \<in> set (map (set_ttl (rs_id row) t) rows)"
        by (metis image_eqI insertCI set_map)
      ultimately have "\<exists>r \<in> set (map (set_ttl (rs_id row) t) rows). rs_zone_id r = zid \<and> rs_key r = j \<and>
          (\<exists>x. e = r\<lparr>rs_records := x\<rparr>)"
        by blast
      then show ?thesis unfolding same Some by simp
    qed
  qed
  ultimately show ?thesis unfolding still_to_come_def by blast
qed

lemma to_come_created:
  assumes come: "still_to_come zid D rows existing keep" and k: "k \<notin> D" "map_of existing k = None"
    and row: "rs_key row = k" "rs_id row \<notin> rs_id ` set rows"
  shows "still_to_come zid (insert k D) (rows @ [row]) existing (keep @ [rs_id row])"
proof -
  have none: "rs_key r \<noteq> k" if "r \<in> set rows" "rs_zone_id r = zid" for r
    using come [unfolded still_to_come_def, THEN conjunct1, rule_format, OF k(1)] k(2) that by simp
  have old: "rs_id ` {r \<in> set rows. rs_zone_id r = zid \<and> rs_key r \<notin> D} = (rs_id \<circ> snd) ` set existing - set keep"
    using come unfolding still_to_come_def by blast
  have "rs_id row \<notin> rs_id ` {r \<in> set rows. rs_zone_id r = zid \<and> rs_key r \<notin> D}" using row(2) by auto
  moreover have "x \<notin> B - set keep \<Longrightarrow> B - set keep = B - set (keep @ [x])" for x B by auto
  ultimately have old': "(rs_id \<circ> snd) ` set existing - set keep = (rs_id \<circ> snd) ` set existing - set (keep @ [rs_id row])"
    unfolding old by blast
  have "{r \<in> set (rows @ [row]). rs_zone_id r = zid \<and> rs_key r \<notin> insert k D} =
      {r \<in> set rows. rs_zone_id r = zid \<and> rs_key r \<notin> D}"
    using none row(1) by auto
  with old old' have new: "rs_id ` {r \<in> set (rows @ [row]). rs_zone_id r = zid \<and> rs_key r \<notin> insert k D} =
      (rs_id \<circ> snd) ` set existing - set (keep @ [rs_id row])"
    by simp
  have "case map_of existing j of
        Some ex \<Rightarrow> \<exists>q \<in> set (rows @ [row]). rs_zone_id q = zid \<and> rs_key q = j \<and> (\<exists>x. ex = q\<lparr>rs_records := x\<rparr>)
      | None \<Rightarrow> \<forall>q \<in> set (rows @ [row]). rs_zone_id q = zid \<longrightarrow> rs_key q \<noteq> j" if "j \<notin> insert k D" for j
    using come [unfolded still_to_come_def, THEN conjunct1, rule_format, of j] that row(1)
    by (auto split: option.splits)
  with new show ?thesis unfolding still_to_come_def by blast
qed

lemma carried_map_insert:
  assumes "rs_key rr \<notin> rs_key ` set rest"
  shows "(old(rs_key rr \<mapsto> v)) ++ carried_map (old(rs_key rr \<mapsto> v)) rest =
    old ++ (carried_map old rest)(rs_key rr \<mapsto> v)"
proof -
  have "carried (old(rs_key rr \<mapsto> v)) r = carried old r" if "r \<in> set rest" for r
    using assms that by (auto simp: carried_def image_iff split: option.splits)
  then have "carried_map (old(rs_key rr \<mapsto> v)) rest = carried_map old rest"
    unfolding carried_map_def by (intro arg_cong [of _ _ map_of]) simp
  moreover have "rs_key rr \<notin> dom (carried_map old rest)"
    using assms by (auto simp: carried_map_def dom_map_of_conv_image_fst image_image)
  ultimately show ?thesis by (simp add: map_add_upd_left)
qed

lemma sync_rrsets_content:
  assumes "sync_rrsets E ctx zid existing keep rrsets w = (Inr (existing', keep'), w')"
    and "tables_ok E w" "uuids_ok E" "c_all_tenants ctx"
    and "distinct (map rs_key rrsets)" "\<forall>rr \<in> set rrsets. \<forall>r \<in> set (rs_records rr). r_id r = None"
    and "D \<inter> rs_key ` set rrsets = {}" "still_to_come zid D (d_recordsets (w_db w)) existing keep"
  shows "tables_ok E w' \<and>
    still_to_come zid (D \<union> rs_key ` set rrsets) (d_recordsets (w_db w')) existing' keep' \<and>
    (\<forall>z. zone_content (w_db w') z = (if z = zid
       then zone_content (w_db w) z ++ carried_map (zone_content (w_db w) z) rrsets else zone_content (w_db w) z))"
  using assms
proof (induction rrsets arbitrary: existing keep D w)
  case Nil
  then show ?case by (simp add: carried_map_def)
next
  case (Cons rr rest)
  let ?k = "rs_key rr" and ?rows = "d_recordsets (w_db w)"
  let ?old = "zone_content (w_db w) zid"
  note ok = Cons.prems(2) and E = Cons.prems(3) and all = Cons.prems(4) and come = Cons.prems(8)
  have k: "?k \<notin> D" "?k \<notin> rs_key ` set rest" and rest: "insert ?k D \<inter> rs_key ` set rest = {}"
    using Cons.prems(5,7) by auto
  have new: "\<forall>r \<in> set (rs_records rr). r_id r = None" using Cons.prems(6) by simp
  have uq: "unique_recordset ?rows" using ok by (simp add: tables_ok_def Let_def)
  have at_k: "case map_of existing ?k of
        Some ex \<Rightarrow> \<exists>row \<in> set ?rows. rs_zone_id row = zid \<and> rs_key row = ?k \<and> (\<exists>x. ex = row\<lparr>rs_records := x\<rparr>)
      | None \<Rightarrow> \<forall>row \<in> set ?rows. rs_zone_id row = zid \<longrightarrow> rs_key row \<noteq> ?k"
    using come k(1) unfolding still_to_come_def by blast
  obtain v ex2 keep2 where run: "sync_rrsets E ctx zid ex2 keep2 rest v = (Inr (existing', keep'), w')"
    and okv: "tables_ok E v" and comev: "still_to_come zid (insert ?k D) (d_recordsets (w_db v)) ex2 keep2"
    and content: "\<And>z. zone_content (w_db v) z =
      (if z = zid then (zone_content (w_db w) z)(?k \<mapsto> carried ?old rr) else zone_content (w_db w) z)"
  proof (cases "map_of existing ?k")
    case None
    with Cons.prems(1) obtain n v where n: "storage_create_recordset E ctx zid rr w = (Inr n, v)"
      and run: "sync_rrsets E ctx zid existing (keep @ [rs_id n]) rest v = (Inr (existing', keep'), w')"
      by (auto simp: bind_Inr_iff)
    note c = create_recordset_content [OF n ok E]
    from c(3) obtain row where row: "d_recordsets (w_db v) = ?rows @ [row]" "rs_key row = ?k" "rs_id row = rs_id n"
      by blast
    have "?old ?k = None" using at_k None by (auto simp: zone_content_def map_of_eq_None_iff)
    then have "carried ?old rr = (rs_ttl rr, map r_data (rs_records rr))" by (simp add: carried_def split: option.split)
    with c(4) have "zone_content (w_db v) z =
        (if z = zid then (zone_content (w_db w) z)(?k \<mapsto> carried ?old rr) else zone_content (w_db w) z)" for z
      by simp
    moreover have "still_to_come zid (insert ?k D) (d_recordsets (w_db v)) existing (keep @ [rs_id n])"
      using to_come_created [OF come k(1) None row(2)] c(2) row(1,3) by simp
    ultimately show ?thesis using that run c(1) by blast
  next
    case (Some ex)
    with at_k obtain row x where row: "row \<in> set ?rows" "rs_zone_id row = zid" "rs_key row = ?k"
      "ex = row\<lparr>rs_records := x\<rparr>" by auto
    from Cons.prems(1) Some obtain ex' v where
      up: "storage_update_recordset E ctx (merge_rrset ex rr) w = (Inr ex', v)"
      and run: "sync_rrsets E ctx zid (AList.update ?k ex' existing) (keep @ [rs_id ex']) rest v
        = (Inr (existing', keep'), w')"
      by (auto simp: bind_Inr_iff)
    let ?t = "case rs_ttl rr of None \<Rightarrow> rs_ttl row | Some t \<Rightarrow> Some t"
    have ch: "?t = rs_ttl row \<or> RSA_ttl \<in> rs_changed (merge_rrset ex rr)"
      using row(4) by (auto simp: merge_rrset_def split: option.splits)
    note u = update_recordset_content [OF up ok E all row(1) merge_rrset_row [of x row rr, folded row(4)] ch new]
    have "?old ?k = Some (rr_value (w_db w) row)" using row zone_content_Some [OF uq] by blast
    then have "carried ?old rr = (?t, map r_data (rs_records rr))"
      by (simp add: carried_def rr_value_def split: option.split)
    with u(4) row(2,3) have "zone_content (w_db v) z =
        (if z = zid then (zone_content (w_db w) z)(?k \<mapsto> carried ?old rr) else zone_content (w_db w) z)" for z
      by simp
    moreover have "still_to_come zid (insert ?k D) (d_recordsets (w_db v)) (AList.update ?k ex' existing) (keep @ [rs_id ex'])"
      unfolding u(3)
    proof (rule to_come_updated [OF come k(1) Some row u(2)])
      fix r assume r: "r \<in> set ?rows"
      show "r = row" if "rs_id r = rs_id row" using rows_id_eq [OF ok r row(1)] that by simp
      show "r = row" if "rs_zone_id r = zid" "rs_key r = ?k"
        using rows_key_eq [OF ok r row(1)] that row(2,3) by simp
    qed
    ultimately show ?thesis using that run u(1) by blast
  qed
  have "tables_ok E w' \<and> still_to_come zid (insert ?k D \<union> rs_key ` set rest) (d_recordsets (w_db w')) existing' keep' \<and>
    (\<forall>z. zone_content (w_db w') z = (if z = zid
       then zone_content (w_db v) z ++ carried_map (zone_content (w_db v) z) rest else zone_content (w_db v) z))"
    by (rule Cons.IH [OF run okv E all _ _ rest comev]) (use Cons.prems(5,6) in simp_all)
  moreover have "carried_map ?old (rr # rest) = (carried_map ?old rest)(?k \<mapsto> carried ?old rr)"
    by (simp add: carried_map_def)
  ultimately show ?case
    using carried_map_insert [OF k(2), of ?old "carried ?old rr"] content by simp
qed

section \<open>The whole block\<close>

lemma update_absent: "k \<notin> fst ` set al \<Longrightarrow> AList.update k v al = al @ [(k, v)]"
  by (induction al) auto

lemma fold_update_fresh:
  "distinct (map rs_key found) \<Longrightarrow> rs_key ` set found \<inter> fst ` set al = {} \<Longrightarrow>
     fold (\<lambda>rs. AList.update (rs_key rs) rs) found al = al @ map (\<lambda>rs. (rs_key rs, rs)) found"
proof (induction found arbitrary: al)
  case (Cons rs found)
  then have "AList.update (rs_key rs) rs al = al @ [(rs_key rs, rs)]" by (intro update_absent) auto
  with Cons show ?case by auto
qed simp

lemma somes_set: "None \<notin> set xs \<Longrightarrow> Some ` set (List.map_filter id xs) = set xs"
  by (induction xs) (auto simp: map_filter_simps split: option.split)

lemma unwanted_ids_set:
  assumes "None \<notin> (rs_id \<circ> snd) ` set existing - set keep"
  shows "Some ` set (unwanted_ids existing keep) = (rs_id \<circ> snd) ` set existing - set keep"
proof -
  have "set (filter (\<lambda>i. i \<notin> set keep) (remdups (map (rs_id \<circ> snd) existing))) =
      (rs_id \<circ> snd) ` set existing - set keep"
    by auto
  with assms somes_set show ?thesis unfolding unwanted_ids_def by metis
qed

lemma found_to_come:
  assumes ok: "tables_ok E w" and all: "c_all_tenants ctx" and z: "plain zid" "zone_live (w_db w) zid"
    and run: "storage_find_recordsets ctx [(RC_zone_id, CStr zid)] True w = (Inr found, w')"
  shows "w' = w" and "still_to_come zid {} (d_recordsets (w_db w)) (existing_recordsets found) []"
proof -
  let ?rows = "d_recordsets (w_db w)"
  let ?load = "\<lambda>rs. rs\<lparr>rs_records := filter (\<lambda>r. Some (r_recordset_id r) = rs_id rs) (d_records (w_db w))\<rparr>"
  have live: "(rs_zone_id r = zid \<and> zone_live (w_db w) (rs_zone_id r)) = (rs_zone_id r = zid)" for r :: recordset
    using z(2) by auto
  from run z(1) all show "w' = w"
    by (auto simp: storage_find_recordsets_def rs_where_def comp_iffs lift_def)
  from run z(1) all live have found: "found = map ?load (filter (\<lambda>r. rs_zone_id r = zid) ?rows)"
    by (auto simp: storage_find_recordsets_def rs_where_def comp_iffs lift_def select_recordsets_def
        select_where_def matches_def conj_commute)
  have "distinct (map (\<lambda>r. (rs_zone_id r, rs_name r, rs_type r)) ?rows)"
    using ok by (simp add: tables_ok_def Let_def unique_recordset_def)
  then have "distinct (map rs_key found)"
    unfolding found by (auto simp: distinct_map inj_on_def rs_key_def comp_def)
  then have ex: "existing_recordsets found = map (\<lambda>rs. (rs_key rs, rs)) found" and
    d: "distinct (map fst (map (\<lambda>rs. (rs_key rs, rs)) found))"
    using fold_update_fresh [of found "[]"] by (simp_all add: existing_recordsets_def comp_def)
  have key: "rs_key (?load r) = rs_key r" "rs_id (?load r) = rs_id r" for r by (simp_all add: rs_key_def)
  have "case map_of (existing_recordsets found) k of
        Some ex \<Rightarrow> \<exists>row \<in> set ?rows. rs_zone_id row = zid \<and> rs_key row = k \<and> (\<exists>x. ex = row\<lparr>rs_records := x\<rparr>)
      | None \<Rightarrow> \<forall>row \<in> set ?rows. rs_zone_id row = zid \<longrightarrow> rs_key row \<noteq> k" for k
  proof (cases "map_of (existing_recordsets found) k")
    case None
    then have "\<forall>r \<in> set found. rs_key r \<noteq> k" by (auto simp: ex map_of_eq_None_iff image_image)
    then show ?thesis unfolding None using key by (auto simp: found)
  next
    case (Some x)
    then have "x \<in> set found" "rs_key x = k" unfolding ex by (auto dest!: map_of_SomeD)
    then show ?thesis unfolding Some using key by (auto simp: found)
  qed
  moreover have "rs_id ` {r \<in> set ?rows. rs_zone_id r = zid} = (rs_id \<circ> snd) ` set (existing_recordsets found)"
    unfolding ex by (simp add: found image_image)
  ultimately show "still_to_come zid {} ?rows (existing_recordsets found) []"
    unfolding still_to_come_def by simp
qed

lemma sync_recordsets_content:
  assumes run: "sync_recordsets E ctx z rrsets w = (Inr u, w')" and ok: "tables_ok E w" and E: "uuids_ok E"
    and all: "c_all_tenants ctx" and z: "plain (z_id z)" "zone_live (w_db w) (z_id z)"
    and rrsets: "distinct (map rs_key rrsets)" "\<forall>rr \<in> set rrsets. \<forall>r \<in> set (rs_records rr). r_id r = None"
  shows "tables_ok E w'"
    and "zone_content (w_db w') (z_id z) = (if z_type z = SECONDARY
       then carried_map (zone_content (w_db w) (z_id z)) rrsets
       else zone_content (w_db w) (z_id z) ++ carried_map (zone_content (w_db w) (z_id z)) rrsets)"
    and "i \<noteq> z_id z \<Longrightarrow> zone_content (w_db w') i = zone_content (w_db w) i"
proof -
  let ?m = "carried_map (zone_content (w_db w) (z_id z)) rrsets"
  from run obtain found v0 existing keep v where
    find: "storage_find_recordsets ctx [(RC_zone_id, CStr (z_id z))] True w = (Inr found, v0)"
    and loop: "sync_rrsets E ctx (z_id z) (existing_recordsets found) [] rrsets v0 = (Inr (existing, keep), v)"
    and purge: "(if z_type z = SECONDARY
     then for_each (unwanted_ids existing keep)
            (\<lambda>i. bind (storage_delete_recordset ctx i) (\<lambda>_. return ()))
     else return ()) v = (Inr u, w')"
    unfolding sync_recordsets_def bind_Inr_iff by (metis (no_types, lifting) case_prod_conv surj_pair)
  note come = found_to_come [OF ok all z find]
  note s = sync_rrsets_content [OF loop [unfolded come(1)] ok E all rrsets, of "{}", simplified, OF come(2)]
  have dom: "dom ?m = rs_key ` set rrsets" by (simp add: carried_map_def dom_map_of_conv_image_fst image_image)
  have "tables_ok E w' \<and> zone_content (w_db w') i = (if i \<noteq> z_id z then zone_content (w_db w) i
      else if z_type z = SECONDARY then ?m else zone_content (w_db w) i ++ ?m)" for i
  proof (cases "z_type z = SECONDARY")
    case True
    let ?open = "rs_id ` {r \<in> set (d_recordsets (w_db v)). rs_zone_id r = z_id z \<and> rs_key r \<notin> rs_key ` set rrsets}"
    have open_ids: "?open = (rs_id \<circ> snd) ` set existing - set keep"
      using s by (simp add: still_to_come_def)
    from s have okv: "tables_ok E v" by blast
    then have "\<exists>i. rs_id r = Some i" if "r \<in> set (d_recordsets (w_db v))" for r
      using that by (auto simp: tables_ok_def Let_def)
    then have "None \<notin> ?open" by force
    then have ids: "Some ` set (unwanted_ids existing keep) = ?open"
      unfolding open_ids by (rule unwanted_ids_set)
    from True purge have "for_each (unwanted_ids existing keep)
            (\<lambda>i. bind (storage_delete_recordset ctx i) (\<lambda>_. return ())) v = (Inr u, w')" by simp
    note p = purge_content [OF this all okv ids]
    have "(c ++ ?m) |` dom ?m = ?m" for c by (auto simp: restrict_map_def map_add_def fun_eq_iff split: option.splits)
    with p(2) [of i] p(1) s True show ?thesis by (simp add: dom)
  next
    case False
    with purge s show ?thesis by simp
  qed
  then show "tables_ok E w'" "zone_content (w_db w') (z_id z) = (if z_type z = SECONDARY then ?m
       else zone_content (w_db w) (z_id z) ++ ?m)"
    "i \<noteq> z_id z \<Longrightarrow> zone_content (w_db w') i = zone_content (w_db w) i"
    by simp_all
qed

section \<open>Transfers from the primary\<close>

lemma update_zone_row_effect:
  assumes run: "update_zone_row ctx obj w = (Inr z', w')" and row: "row \<in> set (d_zones (w_db w))"
    and d: "zone_ids_distinct (w_db w)" and obj: "z_id obj = z_id row" "ZA_deleted \<notin> z_changed obj"
  shows "z' = refetch_zone obj (write_zone_changes obj row)"
    and "d_recordsets (w_db w') = d_recordsets (w_db w)" and "d_records (w_db w') = d_records (w_db w)"
    and "w_next w' = w_next w" and "z_deleted row = ''0'' \<Longrightarrow> zone_live (w_db w') (z_id row)"
proof -
  let ?rows = "d_zones (w_db w)"
  note u = update_zone_row_Inr [OF run]
  let ?f = "\<lambda>r. if z_id r = z_id obj \<and> matches zone_row_col (tl (zone_write_where ctx (z_id obj))) r
          then write_zone_changes obj r else r"
  from u(1) row obj(1) have m: "matches zone_row_col (tl (zone_write_where ctx (z_id obj))) row"
    using zone_id_unique [OF d] by metis
  then have f: "?f row = write_zone_changes obj row" using obj(1) by simp
  have w': "d_zones (w_db w') = map ?f ?rows" using u(2) by simp
  have keep: "z_id (?f r) = z_id r" for r by (simp add: write_zone_changes_def Let_def)
  from run have z': "z' = refetch_zone obj (hd (filter (\<lambda>r. z_id r = z_id obj) (d_zones (w_db w'))))"
    and ne: "filter (\<lambda>r. z_id r = z_id obj) (d_zones (w_db w')) \<noteq> []"
    by (auto simp: update_zone_row_def comp_iffs Let_def split: if_splits)
  have "r = write_zone_changes obj row" if "r \<in> set (filter (\<lambda>r. z_id r = z_id obj) (d_zones (w_db w')))" for r
  proof -
    from that obtain q where "q \<in> set ?rows" "r = ?f q" "z_id q = z_id row"
      unfolding w' using keep obj(1) by auto
    moreover from this zone_id_unique [OF d _ row, of q] have "q = row" by simp
    ultimately show ?thesis using f by (simp only:)
  qed
  with hd_in_set [OF ne] z' show "z' = refetch_zone obj (write_zone_changes obj row)" by metis
  from u(2) show "d_recordsets (w_db w') = d_recordsets (w_db w)" "d_records (w_db w') = d_records (w_db w)"
    "w_next w' = w_next w" by simp_all
  assume "z_deleted row = ''0''"
  with obj(2) have "z_deleted (write_zone_changes obj row) = ''0''" by (simp add: write_zone_changes_def Let_def)
  moreover have "write_zone_changes obj row \<in> set (d_zones (w_db w'))"
    using imageI [OF row, of ?f] unfolding f w' set_map .
  moreover have "z_id (write_zone_changes obj row) = z_id row" by (simp add: write_zone_changes_def Let_def)
  ultimately show "zone_live (w_db w') (z_id row)" unfolding zone_live_def by blast
qed

lemma seq_readonly:
  assumes "readonly m"
  shows "seq m k w = (r, w') \<longleftrightarrow>
    (\<exists>e. m w = (Inl e, w) \<and> r = Inl e \<and> w' = w) \<or> (\<exists>x. m w = (Inr x, w) \<and> k w = (r, w'))"
proof -
  obtain q v where m: "m w = (q, v)" by fastforce
  with assms have "v = w" by (rule readonlyD)
  with m show ?thesis by (cases q) (auto simp: seq_run)
qed

text \<open>The update ended at a check, or it came to the transaction.\<close>

lemma update_zone_with_cases:
  assumes "update_zone_with E ctx orig z rrsets inc w = (r, w')"
  obtains e where "r = Inl e" "w' = w"
  | e where "r = Inl e" "update_zone_in_storage_with E ctx z rrsets inc w = (Inl e, w')"
  | z' v where "r = Inr z'" "ZA_tenant_id \<notin> z_changed z"
      "update_zone_in_storage_with E ctx z rrsets inc w = (Inr z', v)" "w_db w' = w_db v" "w_next w' = w_next v"
proof -
  let ?last = "\<lambda>z'. seq (if z_type z' = SECONDARY \<and> ZA_masters \<in> z_changed z
           then cast (W_perform_zone_xfr z') else return ()) (return z')"
  have "(\<exists>e. r = Inl e \<and> w' = w) \<or> ZA_tenant_id \<notin> z_changed z \<and>
      bind (update_zone_in_storage_with E ctx z rrsets inc) ?last w = (r, w')"
    using assms unfolding update_zone_with_def seq_readonly [OF readonly_check]
      seq_readonly [OF readonly_names(4)] seq_readonly [OF readonly_names(5)] seq_readonly [OF readonly_basic(4)]
      raise_if_iffs
    by blast
  then show thesis
  proof (elim disjE exE conjE)
    fix e assume "r = Inl e" "w' = w"
    then show thesis by (rule that(1))
  next
    assume tenant: "ZA_tenant_id \<notin> z_changed z"
      and run: "bind (update_zone_in_storage_with E ctx z rrsets inc) ?last w = (r, w')"
    obtain q v where up: "update_zone_in_storage_with E ctx z rrsets inc w = (q, v)" by fastforce
    show thesis
    proof (cases q)
      case (Inl e)
      with run up have "r = Inl e" "w' = v" by (simp_all add: bind_run)
      with that(2) up Inl show thesis by blast
    next
      case (Inr z')
      with run up have "?last z' v = (r, w')" by (simp add: bind_run)
      then have "r = Inr z'" "w_db w' = w_db v" "w_next w' = w_next v"
        by (auto simp: seq_run cast_def split: if_splits)
      with that(3) tenant up Inr show thesis by blast
    qed
  qed
qed

lemma update_zone_with_Inl:
  assumes "update_zone_with E ctx orig z rrsets inc w = (Inl e, w')"
  shows "w_db w' = w_db w"
  using assms
proof (cases rule: update_zone_with_cases)
  case (2 e')
  then show ?thesis unfolding update_zone_in_storage_with_def using transaction_Inl by blast
qed simp_all

text \<open>What the nodes of a transferred zone say.\<close>

definition primary_items :: "content \<Rightarrow> (string \<times> dns_rdataset list) list
    \<Rightarrow> (name_type \<times> int option \<times> string list) list" where
  "primary_items old nodes = concat (map (\<lambda>(rname, rdatasets). map (\<lambda>rd.
     ((rname, rd_type rd),
      (if rd_ttl rd \<noteq> 0 then Some (rd_ttl rd) else Option.bind (old (rname, rd_type rd)) fst,
       rd_texts rd))) rdatasets) nodes)"

text \<open>dnspython has one node for a name and one rdataset for a type of it.\<close>

definition one_rdataset :: "dns_zone \<Rightarrow> bool" where
  "one_rdataset dz \<longleftrightarrow> distinct (map fst (primary_items Map.empty (dz_nodes dz)))"

lemma dnspy_recordset:
  "rs_key (recordset_of_rdataset rname rd) = (rname, rd_type rd)"
  "carried old (recordset_of_rdataset rname rd) =
     (if rd_ttl rd \<noteq> 0 then Some (rd_ttl rd) else Option.bind (old (rname, rd_type rd)) fst, rd_texts rd)"
  by (simp_all add: recordset_of_rdataset_def rs_key_def carried_def new_recordset_def
      new_record_def comp_def)

abbreviation node_recordsets :: "(string \<times> dns_rdataset list) list \<Rightarrow> recordset list" where
  "node_recordsets nodes \<equiv> map (\<lambda>(rname, rdataset). recordset_of_rdataset rname rdataset) (node_items nodes)"

lemma carried_items:
  "map (\<lambda>rrset. (rs_key rrset, carried old rrset)) (node_recordsets nodes) = primary_items old nodes"
  by (simp add: node_items_def primary_items_def map_concat comp_def split_def dnspy_recordset)

lemma carried_keys: "map rs_key (node_recordsets nodes) = map fst (primary_items old nodes)"
  by (simp only: carried_items [of old, symmetric] map_map comp_def fst_conv)

lemma dnspy_records_new:
  "\<forall>rr \<in> set (node_recordsets nodes). \<forall>r \<in> set (rs_records rr). r_id r = None"
  by (auto simp: node_items_def recordset_of_rdataset_def new_recordset_def new_record_def)

lemma do_axfr_Inr:
  "do_axfr resolve xfr servers = Inr dz \<Longrightarrow> \<exists>s \<in> set servers. \<exists>as. resolve (m_host s) = Inr as \<and>
     (\<exists>a \<in> set as. xfr a (m_port s) = XfrZone dz)"
  by (induction servers) (auto split: sum.splits option.splits dest!: try_addresses_Some)

lemma update_zone_with_Inr:
  assumes run: "update_zone_with E ctx orig z rrsets inc w = (Inr z', w')"
    and ok: "tables_ok E w" "uuids_ok E" "zone_ids_distinct (w_db w)" and all: "c_all_tenants ctx"
    and row: "row \<in> set (d_zones (w_db w))" "z_id z = z_id row" "z_deleted row = ''0''" "z_type row = SECONDARY"
    and plain: "plain (z_id row)" and ch: "ZA_deleted \<notin> z_changed z" "ZA_type \<notin> z_changed z" "ZA_serial \<in> z_changed z"
    and rrsets: "distinct (map rs_key rrsets)" "\<forall>rr \<in> set rrsets. \<forall>r \<in> set (rs_records rr). r_id r = None"
  shows "tables_ok E w'" and "z_serial z' = z_serial z"
    and "zone_content (w_db w') (z_id row) = carried_map (zone_content (w_db w) (z_id row)) rrsets"
    and "i \<noteq> z_id row \<Longrightarrow> zone_content (w_db w') i = zone_content (w_db w) i"
proof -
  let ?z = "(if inc then z_set_increment_serial True else id) (z_set_status PENDING (z_set_action UPDATE z))"
  have zs: "z_id ?z = z_id row" "ZA_deleted \<notin> z_changed ?z" "ZA_type \<notin> z_changed ?z" "ZA_serial \<in> z_changed ?z"
    "z_serial ?z = z_serial z" "ZA_tenant_id \<in> z_changed ?z \<longleftrightarrow> ZA_tenant_id \<in> z_changed z"
    using row(2) ch by (auto simp: z_sets)
  from run obtain v where up: "update_zone_in_storage_with E ctx z rrsets inc w = (Inr z', v)"
    and w': "w_db w' = w_db v" "w_next w' = w_next v" and tenant: "ZA_tenant_id \<notin> z_changed z"
    by (cases rule: update_zone_with_cases) auto
  from up have "storage_update_zone_with E ctx ?z rrsets w = (Inr z', v)"
    by (cases inc) (simp_all add: update_zone_in_storage_with_def transaction_Inr Let_def)
  then obtain w1 where w1: "update_zone_row ctx ?z w = (Inr z', w1)"
    and sync: "sync_recordsets E ctx z' rrsets w1 = (Inr (), v)"
    using zs(6) tenant by (auto simp: storage_update_zone_with_def bind_Inr_iff seq_Inr_iff)
  note r = update_zone_row_effect [OF w1 row(1) ok(3) zs(1,2)]
  from r(1) zs have z': "z_id z' = z_id row" "z_type z' = SECONDARY" "z_serial z' = z_serial z"
    using row(4) by (simp_all add: refetch_zone_def write_zone_changes_def Let_def)
  then show "z_serial z' = z_serial z" by simp
  have okw: "tables_ok E w1" using ok(1) r(2-4) by (simp add: tables_ok_def Let_def)
  have same: "zone_content (w_db w1) i = zone_content (w_db w) i" for i
    unfolding zone_content_def rr_value_def rr_data_def r(2,3) ..
  have live: "plain (z_id z')" "zone_live (w_db w1) (z_id z')" using r(5) row(3) plain z'(1) by simp_all
  note s = sync_recordsets_content [OF sync okw ok(2) all live rrsets]
  have "tables_ok E v \<longleftrightarrow> tables_ok E w'" by (simp add: tables_ok_def w')
  with s(1) show "tables_ok E w'" by simp
  from s(2) show "zone_content (w_db w') (z_id row) = carried_map (zone_content (w_db w) (z_id row)) rrsets"
    by (simp add: w' z' same)
  from s(3) show "i \<noteq> z_id row \<Longrightarrow> zone_content (w_db w') i = zone_content (w_db w) i"
    by (simp add: w' z' same)
qed

lemma zone_xfr_some:
  assumes "zone_xfr cf resolve xfr now z servers = Inr (Some (z', rrsets))"
  shows "z_type z = SECONDARY \<and> (\<exists>dz soa. rrsets = node_recordsets (dz_nodes dz) \<and>
    do_axfr resolve xfr (if servers = [] then z_masters z else servers) = Inr dz \<and> dz_soa dz = Some soa \<and>
    z_serial z' = so_serial soa \<and> z_id z' = z_id z \<and> ZA_serial \<in> z_changed z' \<and>
    z_changed z' \<subseteq> z_changed z \<union> {ZA_email, ZA_ttl, ZA_serial, ZA_retry, ZA_expire, ZA_transferred_at})"
  using assms by (auto simp: zone_xfr_def zone_updated_from_def Let_def default_to_def and_then_Inr
      split: if_splits sum.splits elim!: from_dnspython_zone_Inr)

text \<open>C4: what a transfer does to the tables, from the request to the master to the last row: if
  \<open>ZoneXfr\<close> and the \<open>update_zone\<close> it sends succeed, the zone holds the recordsets of the zone that
  one of the asked servers delivered, with its data and its TTLs (where the primary says zero, the one the table had), and
  nothing that the primary does not have; the serial is the primary's and no other zone has changed.
  If the update fails no table has changed, and when no server delivers nothing happens.\<close>

theorem transfer_mirrors_primary:
  assumes run: "zone_xfr_update E ctx resolve xfr z servers w = (r, w')"
    and ok: "tables_ok E w" "uuids_ok E" "zone_ids_distinct (w_db w)" and all: "c_all_tenants ctx"
    and row: "row \<in> set (d_zones (w_db w))" "z_deleted row = ''0''" "z = load_zone (w_db w) row" "plain (z_id z)"
    and zones: "\<forall>a p dz. xfr a p = XfrZone dz \<longrightarrow> one_rdataset dz"
  shows "case r of
      Inl e \<Rightarrow> w_db w' = w_db w
    | Inr None \<Rightarrow> w' = w
    | Inr (Some z') \<Rightarrow> z_type z = SECONDARY \<and>
        (\<exists>srv \<in> set (if servers = [] then z_masters z else servers). \<exists>as. resolve (m_host srv) = Inr as \<and>
          (\<exists>a \<in> set as. \<exists>dz soa. xfr a (m_port srv) = XfrZone dz \<and> dz_soa dz = Some soa \<and>
            z_serial z' = so_serial soa \<and>
            zone_content (w_db w') (z_id z) =
              map_of (primary_items (zone_content (w_db w) (z_id z)) (dz_nodes dz)))) \<and>
        tables_ok E w' \<and> (\<forall>i. i \<noteq> z_id z \<longrightarrow> zone_content (w_db w') i = zone_content (w_db w) i)"
proof (cases "zone_xfr (e_conf E) resolve xfr (w_now w) z servers")
  case (Inl e)
  with run show ?thesis by (auto simp: zone_xfr_update_def bind_run lift_def)
next
  case Inr1: (Inr result)
  show ?thesis
  proof (cases result)
    case None
    with run Inr1 show ?thesis by (auto simp: zone_xfr_update_def bind_run lift_def)
  next
    case (Some p)
    obtain zu rrsets where p: "p = (zu, rrsets)" by (cases p)
    have step: "bind (update_zone_with E ctx z zu rrsets False) (\<lambda>z''. return (Some z'')) w = (r, w')"
      using run Inr1 Some p by (simp add: zone_xfr_update_def bind_run lift_def)
    obtain q v where up: "update_zone_with E ctx z zu rrsets False w = (q, v)" by fastforce
    show ?thesis
    proof (cases q)
      case (Inl e)
      with step up update_zone_with_Inl show ?thesis by (fastforce simp: bind_run)
    next
      case (Inr z')
      with step up have r: "r = Inr (Some z')" "w' = v" by (simp_all add: bind_run)
      from zone_xfr_some [OF Inr1 [unfolded Some p]] obtain dz soa where
        x: "z_type z = SECONDARY" "rrsets = node_recordsets (dz_nodes dz)"
          "do_axfr resolve xfr (if servers = [] then z_masters z else servers) = Inr dz"
          "dz_soa dz = Some soa" "z_serial zu = so_serial soa" "z_id zu = z_id z" "ZA_serial \<in> z_changed zu"
          "z_changed zu \<subseteq> z_changed z \<union> {ZA_email, ZA_ttl, ZA_serial, ZA_retry, ZA_expire, ZA_transferred_at}"
        by blast
      from do_axfr_Inr [OF x(3)] obtain srv as a where
        srv: "srv \<in> set (if servers = [] then z_masters z else servers)" "resolve (m_host srv) = Inr as" "a \<in> set as"
          "xfr a (m_port srv) = XfrZone dz" by blast
      have load: "z_id z = z_id row" "z_type z = z_type row" "z_changed z = {}" by (simp_all add: row(3) load_zone_def)
      have keys: "distinct (map rs_key rrsets)"
        using zones srv(4) unfolding x(2) carried_keys [of _ Map.empty] one_rdataset_def by blast
      have ch: "ZA_deleted \<notin> z_changed zu" "ZA_type \<notin> z_changed zu" using x(8) load(3) by auto
      note u = update_zone_with_Inr [OF up [unfolded Inr] ok all row(1) _ row(2) _ _ ch x(7) keys]
      have pre: "z_id zu = z_id row" "z_type row = SECONDARY" "plain (z_id row)"
        "\<forall>rr \<in> set rrsets. \<forall>r \<in> set (rs_records rr). r_id r = None"
        using x(1,6) load row(4) dnspy_records_new by (simp_all add: x(2))
      have "carried_map c rrsets = map_of (primary_items c (dz_nodes dz))" for c
        unfolding carried_map_def x(2) carried_items ..
      with u [OF pre] srv x(1,4,5) load(1) show ?thesis
        unfolding r sum.case option.case by (intro conjI bexI [of _ srv] exI [of _ as] bexI [of _ a] exI [of _ dz] exI [of _ soa]) auto
    qed
  qed
qed

definition sample_secondary :: zone where
  "sample_secondary = (sample_zone ''z1'' ''t1'' ''e.o.'')\<lparr>z_type := SECONDARY,
     z_masters := [\<lparr>m_host = ''m'', m_port = 53\<rparr>]\<rparr>"

definition secondary_db :: db where
  "secondary_db = sample_db\<lparr>d_zones := [sample_secondary],
     d_recordsets := [sample_recordset ''s1'' ''z1'' ''w.e.o.'' ''A'', sample_recordset ''s2'' ''z1'' ''o.e.o.'' ''A''],
     d_records := [sample_record ''r1'' ''z1'' ''s1'' ''1.2.3.4'', sample_record ''r2'' ''z1'' ''s2'' ''1.2.3.5'']\<rparr>"

definition primary_zone :: dns_zone where
  "primary_zone = \<lparr>dz_origin = ''e.o.'',
     dz_soa = Some \<lparr>so_ttl = 60, so_rname = ''h.e.o'', so_serial = 77, so_retry = 1, so_expire = 2\<rparr>,
     dz_nodes = [(''w.e.o.'', [\<lparr>rd_type = ''A'', rd_ttl = 0, rd_texts = [''9.9.9.9'', ''1.2.3.4'']\<rparr>]),
                 (''n.e.o.'', [\<lparr>rd_type = ''A'', rd_ttl = 60, rd_texts = [''9.9.9.8'']\<rparr>])]\<rparr>"

definition sample_xfr :: "world \<Rightarrow> (exn + zone option) \<times> world" where
  "sample_xfr = zone_xfr_update sample_env worker_context (\<lambda>h. Inr [h]) (\<lambda>a p. XfrZone primary_zone)
     (load_zone secondary_db sample_secondary) []"

lemma sample_xfr_runs: "case fst (sample_xfr (world_of secondary_db)) of Inr (Some z') \<Rightarrow> True | _ \<Rightarrow> False"
  by code_simp

lemma sample_uuids_ok: "uuids_ok sample_env"
proof -
  have "inj (e_gen_uuid sample_env)"
    by (rule injI) (simp add: sample_env_def)
  then show ?thesis by (auto simp: uuids_ok_def sample_env_def plain_def startswith_def)
qed

lemma secondary_tables_ok: "tables_ok sample_env (world_of secondary_db)"
proof -
  have "plain ''s1''" "plain ''s2''" by (simp_all add: plain_def startswith_def)
  then show ?thesis
    by (simp add: tables_ok_def Let_def secondary_db_def world_of_def unique_recordset_def sample_recordset_def
        sample_record_def sample_env_def)
qed

theorem transfer_mirrors_primary_witness:
  "\<exists>z' w'. sample_xfr (world_of secondary_db) = (Inr (Some z'), w') \<and> z_serial z' = 77 \<and>
     zone_content (w_db w') ''z1'' = [(''n.e.o.'', ''A'') \<mapsto> (Some 60, [''9.9.9.8'']),
       (''w.e.o.'', ''A'') \<mapsto> (None, [''9.9.9.9'', ''1.2.3.4''])]"
proof -
  obtain r w' where run: "sample_xfr (world_of secondary_db) = (r, w')" by fastforce
  with sample_xfr_runs obtain z' where r: "r = Inr (Some z')" by (auto split: sum.splits option.splits)
  let ?z = "load_zone secondary_db sample_secondary"
  have z: "z_id ?z = ''z1''" "z_deleted sample_secondary = ''0''" "plain (z_id ?z)"
    by (simp_all add: load_zone_def sample_secondary_def plain_def startswith_def)
  have d: "zone_ids_distinct (w_db (world_of secondary_db))" "sample_secondary \<in> set (d_zones (w_db (world_of secondary_db)))"
    by (simp_all add: zone_ids_distinct_def secondary_db_def world_of_def)
  have one: "one_rdataset primary_zone" by (simp add: one_rdataset_def primary_items_def primary_zone_def)
  note t = transfer_mirrors_primary [OF run [unfolded sample_xfr_def] secondary_tables_ok sample_uuids_ok d(1) _ d(2) z(2) _ z(3)]
  have "z_serial z' = 77 \<and> zone_content (w_db w') ''z1'' =
      map_of (primary_items (zone_content secondary_db ''z1'') (dz_nodes primary_zone))"
    using t one by (auto simp: r z worker_context_def world_of_def primary_zone_def)
  moreover have "zone_content secondary_db ''z1'' (''w.e.o.'', ''A'') = Some (None, [''1.2.3.4''])"
    by code_simp
  ultimately show ?thesis
    using run r by (simp add: primary_items_def primary_zone_def)
qed

end
