(* ===== verification/Sink.thy ===== *)
theory Sink
  imports FloatingIps
begin

text \<open>
  The sink: \<open>sink/service.py\<close> takes the notifications of other OpenStack services and gives each to the
  handlers that asked for its event type; the handlers of \<open>notification_handler/\<close> for Nova and Neutron
  turn the addresses of instances and floating IPs into managed records of one configured zone, through the
  \<open>create_managed_records\<close> and \<open>delete_managed_records\<close> of central. A payload is what the handlers read of
  the message: the addresses, the id of the resource, and the text that \<open>%s\<close> prints for each of its
  keys. Each call of central is a request of its own, with the context that RPC rebuilds from its
  dictionary.
\<close>

section \<open>Formatting a name\<close>

type_synonym texts = "string \<rightharpoonup> string"

text \<open>\<open>fmt % data\<close> for a dictionary of data: \<open>%(key)s\<close> and \<open>%%\<close>. A key that is missing is a KeyError. Formats
  with a key that has parentheses or with another conversion are refused here, as one that Python cannot read is.\<close>

function py_format :: "string \<Rightarrow> texts \<Rightarrow> exn + string" where
  "py_format [] data = Inr []"
| "py_format (c # s) data =
     (if c \<noteq> CHR ''%'' then and_then (py_format s data) (\<lambda>t. Inr (c # t))
      else if startswith s ''%'' then and_then (py_format (drop 1 s) data) (\<lambda>t. Inr (CHR ''%'' # t))
      else if startswith s ''('' \<and> startswith (dropWhile (\<lambda>x. x \<noteq> CHR '')'') s) '')s''
      then (case data (takeWhile (\<lambda>x. x \<noteq> CHR '')'') (drop 1 s)) of
              None \<Rightarrow> Inl PyKeyError
            | Some v \<Rightarrow> and_then (py_format (drop 2 (dropWhile (\<lambda>x. x \<noteq> CHR '')'') s)) data)
                          (\<lambda>t. Inr (v @ t)))
      else Inl PyValueError)"
  by pat_completeness auto

termination py_format
proof (relation "measure (\<lambda>(s, data). length s)")
  show "((drop 2 (dropWhile P s), data), (c # s, data)) \<in> measure (\<lambda>(s, data). length s)" for P c s data
    using length_dropWhile_le [of P s] by simp
qed auto

section \<open>Addresses\<close>

record address =
  ad_address :: string
  ad_version :: int
  ad_label :: string

text \<open>\<open>re.split('::|:', ip)\<close>.\<close>

function split_colons :: "string \<Rightarrow> string list" where
  "split_colons [] = [[]]"
| "split_colons (c # s) =
     (if c = CHR '':'' then [] # split_colons (if startswith s '':'' then drop 1 s else s)
      else (case split_colons s of w # ws \<Rightarrow> (c # w) # ws | [] \<Rightarrow> [[c]]))"
  by pat_completeness auto

termination split_colons
  by (relation "measure length") auto

definition octets :: "string list \<Rightarrow> texts" where
  "octets parts = map_of (map (\<lambda>(i, p). (''octet'' @ nat_str i, p)) (enumerate 0 parts))"

text \<open>\<open>BaseAddressHandler._get_ip_data\<close>: an IPv4 address without four parts is an IndexError.\<close>

definition ip_data :: "address \<Rightarrow> exn + texts" where
  "ip_data a =
     (let ip = ad_address a; data = [''ip_version'' \<mapsto> int_str (ad_version a)] in
      if ad_version a = 4 then
        (let parts = split_on CHR ''.'' ip in
         if length parts < 4 then Inl PyIndexError
         else Inr (data(''ip_address'' \<mapsto> replace CHR ''.'' ''-'' ip) ++ octets (take 4 parts)))
      else if ad_version a = 6 then
        Inr (data(''ip_address'' \<mapsto> replace CHR '':'' ''-'' ip) ++ octets (split_colons ip))
      else Inr data)"

section \<open>Handlers\<close>

datatype handler = Nova_fixed | Neutron_floatingip | Fake

definition plugin_name :: "handler \<Rightarrow> string" where
  "plugin_name h =
     (case h of Nova_fixed \<Rightarrow> ''nova_fixed'' | Neutron_floatingip \<Rightarrow> ''neutron_floatingip'' | Fake \<Rightarrow> ''fake'')"

definition plugin_type :: string where
  "plugin_type = ''handler''"

text \<open>The options of a handler in \<open>conf/sink.py\<close>; a list that is not set is empty.\<close>

record handler_conf =
  hc_exchange :: string
  hc_topics :: "string list"
  hc_zone_id :: "string option"
  hc_formatv4 :: "string list"
  hc_formatv6 :: "string list"
  hc_event_types :: "string list"

definition default_format :: "string list" where
  "default_format = [''%(hostname)s.%(zone)s'']"

definition formats :: "handler_conf \<Rightarrow> int \<Rightarrow> string list" where
  "formats cf version =
     (let configured = (if version = 4 then hc_formatv4 cf else hc_formatv6 cf)
      in if configured = [] then default_format else configured)"

text \<open>\<open>NovaFixedHandler\<close> adds the label of the network.\<close>

definition address_data :: "handler \<Rightarrow> address \<Rightarrow> exn + texts" where
  "address_data h a =
     and_then (ip_data a) (\<lambda>data. Inr (if h = Nova_fixed then data(''label'' \<mapsto> ad_label a) else data))"

text \<open>\<open>get_admin_context(all_tenants=True)\<close>, and \<open>DesignateContext().elevated()\<close> with both rights.\<close>

definition zone_context :: "env \<Rightarrow> exn + req_context" where
  "zone_context E = set_all_tenants E True admin_context"

definition default_context :: req_context where
  "default_context = admin_context\<lparr>c_is_admin := False, c_roles := []\<rparr>"

definition managing_context :: "env \<Rightarrow> exn + req_context" where
  "managing_context E =
     and_then (elevated E default_context None False False False) (\<lambda>c.
     and_then (set_all_tenants E True c) (set_edit_managed_records E True))"

text \<open>A call of central: \<open>RequestContextSerializer\<close> on the way.\<close>

definition rpc_call :: "env \<Rightarrow> req_context \<Rightarrow> (req_context \<Rightarrow> 'a sys) \<Rightarrow> 'a sys" where
  "rpc_call E ctx method = bind (lift (deepcopy E ctx)) method"

section \<open>The managed records in central\<close>

definition create_managed_records ::
  "env \<Rightarrow> addr_env \<Rightarrow> string list \<Rightarrow> req_context \<Rightarrow> string \<Rightarrow> rrecord list \<Rightarrow> string \<Rightarrow> string \<Rightarrow> recordset sys" where
  "create_managed_records E A supported ctx zone_id records name ty =
     create_or_update_managed_recordset E A supported ctx zone_id records name ty None"

definition delete_managed_records ::
  "env \<Rightarrow> addr_env \<Rightarrow> string list \<Rightarrow> req_context \<Rightarrow> string \<Rightarrow> (record_column \<times> crit) list \<Rightarrow> unit sys" where
  "delete_managed_records E A supported ctx zone_id criterion =
     bind (storage_find_records ctx criterion True) (\<lambda>records.
     for_each records (\<lambda>r. delete_or_update_managed_recordset E A supported ctx (Some zone_id)
       (r_recordset_id r) (opt_string (r_id r))))"

section \<open>What the handlers do\<close>

definition managed_record :: "handler \<Rightarrow> string \<Rightarrow> string \<Rightarrow> string \<Rightarrow> rrecord" where
  "managed_record h ty i data = (new_record data True)\<lparr>
     r_managed_plugin_name := Some (plugin_name h), r_managed_plugin_type := Some plugin_type,
     r_managed_resource_type := Some ty, r_managed_resource_id := Some i\<rparr>"

definition address_type :: "address \<Rightarrow> string" where
  "address_type a = (if ad_version a = 4 then ''A'' else ''AAAA'')"

definition create_name ::
  "env \<Rightarrow> addr_env \<Rightarrow> string list \<Rightarrow> handler \<Rightarrow> req_context \<Rightarrow> zone \<Rightarrow> string \<Rightarrow> string \<Rightarrow> texts \<Rightarrow> address
     \<Rightarrow> string \<Rightarrow> unit sys" where
  "create_name E A supported h ctx z ty i event_data a fmt =
     bind (lift (py_format fmt event_data)) (\<lambda>name.
     bind (rpc_call E ctx (\<lambda>c. create_managed_records E A supported c (z_id z)
             [managed_record h ty i (ad_address a)] name (address_type a))) (\<lambda>_. return ()))"

text \<open>\<open>BaseAddressHandler._create\<close>.\<close>

definition create_addresses ::
  "env \<Rightarrow> addr_env \<Rightarrow> string list \<Rightarrow> handler \<Rightarrow> handler_conf \<Rightarrow> address list \<Rightarrow> texts \<Rightarrow> string \<Rightarrow> string
     \<Rightarrow> string \<Rightarrow> unit sys" where
  "create_addresses E A supported h cf addresses extra zone_id ty i =
     bind (lift (zone_context E)) (\<lambda>admin.
     bind (rpc_call E admin (\<lambda>c. get_zone E c zone_id True)) (\<lambda>z.
     let data = extra(''zone'' \<mapsto> z_name z) in
     bind (lift (managing_context E)) (\<lambda>ctx.
     for_each addresses (\<lambda>a.
       bind (lift (address_data h a)) (\<lambda>ip.
       for_each (formats cf (ad_version a)) (create_name E A supported h ctx z ty i (data ++ ip) a))))))"

text \<open>\<open>BaseAddressHandler._delete\<close>.\<close>

definition managed_criterion :: "handler \<Rightarrow> string \<Rightarrow> string \<Rightarrow> string \<Rightarrow> (record_column \<times> crit) list" where
  "managed_criterion h zone_id ty i =
     [(DC_managed, CVal (VBool True)), (DC_managed_plugin_name, CStr (plugin_name h)),
      (DC_managed_plugin_type, CStr plugin_type), (DC_managed_resource_id, CStr i),
      (DC_managed_resource_type, CStr ty), (DC_zone_id, CStr zone_id)]"

definition delete_resource ::
  "env \<Rightarrow> addr_env \<Rightarrow> string list \<Rightarrow> handler \<Rightarrow> string \<Rightarrow> string \<Rightarrow> string \<Rightarrow> unit sys" where
  "delete_resource E A supported h zone_id ty i =
     bind (lift (managing_context E)) (\<lambda>ctx.
     rpc_call E ctx (\<lambda>c. delete_managed_records E A supported c zone_id (managed_criterion h zone_id ty i)))"

text \<open>What the handlers read of a message. A payload of another shape lacks a key.\<close>

datatype payload =
  Instance "address list" string texts
| Floatingip "string option" string string texts
| Floatingip_id string
| Other_payload

definition with_project :: "string option \<Rightarrow> texts \<Rightarrow> texts" where
  "with_project project extra = extra(''project'' \<mapsto> default_to ''None'' project)"

definition process_nova ::
  "env \<Rightarrow> addr_env \<Rightarrow> string list \<Rightarrow> handler_conf \<Rightarrow> string option \<Rightarrow> string \<Rightarrow> payload \<Rightarrow> unit sys" where
  "process_nova E A supported cf project event p =
     (if hc_zone_id cf = None \<or> hc_zone_id cf = Some '''' then return ()
      else if event = ''compute.instance.create.end'' then
        (case p of
           Instance ips i extra \<Rightarrow> create_addresses E A supported Nova_fixed cf ips (with_project project extra)
             (opt_string (hc_zone_id cf)) ''instance'' i
         | _ \<Rightarrow> raise PyKeyError)
      else if event = ''compute.instance.delete.start'' then
        (case p of
           Instance ips i extra \<Rightarrow> delete_resource E A supported Nova_fixed (opt_string (hc_zone_id cf)) ''instance'' i
         | _ \<Rightarrow> raise PyKeyError)
      else return ())"

definition process_neutron ::
  "env \<Rightarrow> addr_env \<Rightarrow> string list \<Rightarrow> handler_conf \<Rightarrow> string option \<Rightarrow> string \<Rightarrow> payload \<Rightarrow> unit sys" where
  "process_neutron E A supported cf project event p =
     (if hc_zone_id cf = None \<or> hc_zone_id cf = Some '''' then return ()
      else if startswith event ''floatingip.delete'' then
        (case p of
           Floatingip_id i \<Rightarrow>
             delete_resource E A supported Neutron_floatingip (opt_string (hc_zone_id cf)) ''floatingip'' i
         | _ \<Rightarrow> raise PyKeyError)
      else if startswith event ''floatingip.update'' then
        (case p of
           Floatingip fixed_ip floating_ip i extra \<Rightarrow>
             if fixed_ip \<noteq> None \<and> fixed_ip \<noteq> Some '''' then
               create_addresses E A supported Neutron_floatingip cf
                 [\<lparr>ad_address = floating_ip, ad_version = 4, ad_label = ''''\<rparr>] (with_project project extra)
                 (opt_string (hc_zone_id cf)) ''floatingip'' i
             else
               delete_resource E A supported Neutron_floatingip (opt_string (hc_zone_id cf)) ''floatingip'' i
         | _ \<Rightarrow> raise PyKeyError)
      else return ())"

section \<open>The service\<close>

definition get_event_types :: "handler \<times> handler_conf \<Rightarrow> string list" where
  "get_event_types hc =
     (case fst hc of
        Nova_fixed \<Rightarrow> [''compute.instance.create.end'', ''compute.instance.delete.start'']
      | Neutron_floatingip \<Rightarrow> [''floatingip.update.end'', ''floatingip.delete.start'']
      | Fake \<Rightarrow> hc_event_types (snd hc))"

definition get_allowed_event_types :: "(handler \<times> handler_conf) list \<Rightarrow> string list" where
  "get_allowed_event_types handlers =
     fold (\<lambda>hc allowed. fold (\<lambda>e al. if e \<in> set al then al else al @ [e]) (get_event_types hc) allowed)
       handlers []"

text \<open>\<open>_get_targets\<close>: exchange and topic.\<close>

definition get_targets :: "(handler \<times> handler_conf) list \<Rightarrow> (string \<times> string) list" where
  "get_targets handlers =
     concat (map (\<lambda>(h, cf). map (\<lambda>t. (hc_exchange cf, t)) (hc_topics cf)) handlers)"

definition process_notification ::
  "env \<Rightarrow> addr_env \<Rightarrow> string list \<Rightarrow> handler \<times> handler_conf \<Rightarrow> string option \<Rightarrow> string \<Rightarrow> payload \<Rightarrow> unit sys" where
  "process_notification E A supported hc project event p =
     (case fst hc of
        Nova_fixed \<Rightarrow> process_nova E A supported (snd hc) project event p
      | Neutron_floatingip \<Rightarrow> process_neutron E A supported (snd hc) project event p
      | Fake \<Rightarrow> return ())"

text \<open>\<open>info\<close>, the end point of the listener.\<close>

definition info ::
  "env \<Rightarrow> addr_env \<Rightarrow> string list \<Rightarrow> (handler \<times> handler_conf) list \<Rightarrow> string option \<Rightarrow> string \<Rightarrow> payload \<Rightarrow> unit sys" where
  "info E A supported handlers project event p =
     (if event \<notin> set (get_allowed_event_types handlers) then return ()
      else for_each handlers (\<lambda>hc.
        if event \<in> set (get_event_types hc) then process_notification E A supported hc project event p
        else return ()))"

end
