(* ===== verification/SinkProps.thy ===== *)
theory SinkProps
  imports Sink ZoneSync FloatingProps
begin

text \<open>
  What the sink does to the zone it is configured for: after the addresses of a resource were announced
  the zone holds, for every name the formats gave, the last address of that name, and after the resource
  is gone none of its records are left.
\<close>

section \<open>Operations of central, step by step\<close>

lemma bind_read_Inr:
  assumes "readonly m"
  shows "bind m f w = (Inr y, w') \<longleftrightarrow> (\<exists>x. m w = (Inr x, w) \<and> f x w = (Inr y, w'))"
  using assms by (auto simp: bind_Inr_iff dest: readonlyD)

lemma seq_read_Inr:
  assumes "readonly m"
  shows "seq m k w = (Inr y, w') \<longleftrightarrow> (\<exists>x. m w = (Inr x, w)) \<and> k w = (Inr y, w')"
  using assms by (auto simp: seq_Inr_iff dest: readonlyD)

lemma bind_return_Inr:
  "bind m (\<lambda>x. return (f x)) w = (Inr y, w') \<longleftrightarrow> (\<exists>x. m w = (Inr x, w') \<and> y = f x)"
  by (auto simp: bind_Inr_iff)

lemmas read_steps = bind_return_Inr bind_read_Inr seq_read_Inr keeps_rules

lemma change_serial_run: "readonly (change_serial z inc)"
  by (simp add: change_serial_def keeps_rules)

lemma update_recordset_steps:
  assumes "update_recordset E c rs True w = (Inr rs', w')"
  obtains z c' n t zz where "storage_get_zone c (rs_zone_id rs) False w = (Inr z, w)" "c_all_tenants c'"
    "storage_update_recordset E c' (rs\<lparr>rs_records := map (\<lambda>r. if r_action r = DELETE then r
       else mark_record UPDATE n r) (rs_records rs)\<rparr>) w = (Inr rs', t)"
    "update_zone_in_storage c' z True False t = (Inr zz, w')"
proof -
  from assms obtain z c' zz where z: "storage_get_zone c (rs_zone_id rs) False w = (Inr z, w)"
    and c': "elevate_all E c w = (Inr c', w)"
    and p: "update_recordset_in_storage E c' z rs True False w = (Inr (rs', zz), w')"
    unfolding update_recordset_def by (auto simp: read_steps)
  have "c_all_tenants c'" using c' by (rule elevate_all_Inr(2))
  moreover from p obtain n t where
    "storage_update_recordset E c' (rs\<lparr>rs_records := map (\<lambda>r. if r_action r = DELETE then r
       else mark_record UPDATE n r) (rs_records rs)\<rparr>) w = (Inr rs', t)"
    "update_zone_in_storage c' z True False t = (Inr zz, w')"
    unfolding update_recordset_in_storage_def transaction_Inr
    by (simp add: read_steps change_serial_run Let_def) (auto simp: bind_Inr_iff)
  ultimately show ?thesis using that z by blast
qed

lemma create_recordset_steps:
  assumes "create_recordset E c zid rs True w = (Inr rs', w')"
  obtains z c' n t zz where "storage_get_zone c zid False w = (Inr z, w)" "c_all_tenants c'"
    "storage_create_recordset E c' (z_id z) (rs\<lparr>rs_records := map (mark_record CREATE n) (rs_records rs)\<rparr>) w
       = (Inr rs', t)"
    "update_zone_in_storage c' z True False t = (Inr zz, w') \<or> w' = t"
proof -
  from assms obtain z c' zz where z: "storage_get_zone c zid False w = (Inr z, w)"
    and c': "elevate_all E c w = (Inr c', w)"
    and p: "create_recordset_in_storage E c' z rs True w = (Inr (rs', zz), w')"
    unfolding create_recordset_def by (auto simp: read_steps)
  have "c_all_tenants c'" using c' by (rule elevate_all_Inr(2))
  moreover from p obtain n t where
    "storage_create_recordset E c' (z_id z) (rs\<lparr>rs_records := map (mark_record CREATE n) (rs_records rs)\<rparr>) w
       = (Inr rs', t)" "update_zone_in_storage c' z True False t = (Inr zz, w') \<or> w' = t"
    unfolding create_recordset_in_storage_def transaction_Inr
    by (simp add: read_steps change_serial_run Let_def) (auto simp: bind_Inr_iff split: if_splits)
  ultimately show ?thesis using that z by blast
qed

section \<open>The rows of a recordset\<close>

definition record_rows :: "db \<Rightarrow> string \<Rightarrow> name_type \<Rightarrow> rrecord list" where
  "record_rows d zid k = filter (\<lambda>r. \<exists>rs \<in> set (d_recordsets d). rs_zone_id rs = zid \<and> rs_key rs = k \<and>
     rs_id rs = Some (r_recordset_id r)) (d_records d)"

definition rows_made :: "db \<Rightarrow> string \<Rightarrow> name_type \<Rightarrow> (string \<times> bool \<times> string option list) list" where
  "rows_made d zid k = map made (record_rows d zid k)"

lemma filter_added:
  assumes "\<And>r. r \<in> set xs \<Longrightarrow> P r \<longleftrightarrow> Q r" "\<And>r. r \<in> set news \<Longrightarrow> P r \<longleftrightarrow> b"
  shows "filter P (xs @ news) = filter Q xs @ (if b then news else [])"
  using assms by (cases b) (simp_all add: filter_empty_conv filter_id_conv cong: filter_cong)

lemma update_recordset_made:
  assumes run: "storage_update_recordset E ctx obj w = (Inr rs', w')" and ok: "tables_ok E w"
    and all: "c_all_tenants ctx" and row: "row \<in> set (d_recordsets (w_db w))"
    and obj: "obj = row\<lparr>rs_ttl := t, rs_records := recs, rs_changed := ch\<rparr>"
    and ch: "t = rs_ttl row \<or> RSA_ttl \<in> ch" and new: "\<forall>r \<in> set recs. r_id r = None"
  shows "rows_made (w_db w') z k =
    (if z = rs_zone_id row \<and> k = rs_key row then map made recs else rows_made (w_db w) z k)"
proof -
  let ?rows = "d_recordsets (w_db w)"
  from ok row obtain i where i: "rs_id row = Some i" by (auto simp: tables_ok_def Let_def)
  let ?there = "\<lambda>r. \<exists>rs \<in> set ?rows. rs_zone_id rs = z \<and> rs_key rs = k \<and> rs_id rs = Some (r_recordset_id r)"
  let ?own = "z = rs_zone_id row \<and> k = rs_key row"
  from update_recordset_run(1) [OF run ok all row i obj ch new] obtain news where
    rows: "d_recordsets (w_db w') = map (set_ttl (Some i) t) ?rows"
    and recs: "d_records (w_db w') = filter (\<lambda>r. r_recordset_id r \<noteq> i) (d_records (w_db w)) @ news"
    and news: "map made news = map made recs" "\<forall>r \<in> set news. r_recordset_id r = i"
    by (auto simp: adds_def without_records_def)
  note id = rows_id_eq [OF ok _ row, unfolded i] and key = rows_key_eq [OF ok _ row]
  have here: "?there r \<longleftrightarrow> ?own" if r: "r_recordset_id r = i" for r
  proof
    assume "?there r"
    then obtain rs where "rs \<in> set ?rows" "rs_zone_id rs = z" "rs_key rs = k" "rs_id rs = Some i" unfolding r by blast
    with id show ?own by metis
  next
    assume ?own
    with row i show "?there r" unfolding r by blast
  qed
  have this_one: "r_recordset_id r = i" if "?there r" ?own for r
  proof -
    from that obtain rs where "rs \<in> set ?rows" "rs_zone_id rs = rs_zone_id row" "rs_key rs = rs_key row"
      "rs_id rs = Some (r_recordset_id r)" by blast
    with key i show ?thesis by (metis option.inject)
  qed
  have "record_rows (w_db w') z k = filter ?there (filter (\<lambda>r. r_recordset_id r \<noteq> i) (d_records (w_db w)) @ news)"
    by (simp add: record_rows_def rows recs)
  also have "\<dots> = filter (\<lambda>r. \<not> ?own \<and> ?there r) (filter (\<lambda>r. r_recordset_id r \<noteq> i) (d_records (w_db w))) @
      (if ?own then news else [])"
  proof (rule filter_added)
    show "?there r \<longleftrightarrow> \<not> ?own \<and> ?there r" if "r \<in> set (filter (\<lambda>r. r_recordset_id r \<noteq> i) (d_records (w_db w)))" for r
      using that this_one by auto
    show "?there r \<longleftrightarrow> ?own" if "r \<in> set news" for r
      using that news(2) here by blast
  qed
  also have "filter (\<lambda>r. \<not> ?own \<and> ?there r) (filter (\<lambda>r. r_recordset_id r \<noteq> i) (d_records (w_db w))) =
      filter (\<lambda>r. \<not> ?own \<and> ?there r) (d_records (w_db w))"
    unfolding filter_filter by (rule filter_cong) (use here in blast)+
  finally show ?thesis
    using news(1) by (cases ?own) (auto simp: rows_made_def record_rows_def)
qed

lemma create_recordset_made:
  assumes run: "storage_create_recordset E ctx zid rs w = (Inr new, w')" and ok: "tables_ok E w"
  shows "rows_made (w_db w') z k =
    (if z = zid \<and> k = rs_key rs then map made (rs_records rs) else rows_made (w_db w) z k)"
proof -
  let ?rows = "d_recordsets (w_db w)"
  let ?i = "e_gen_uuid E (w_next w)"
  let ?own = "zid = z \<and> rs_key rs = k"
  let ?there = "\<lambda>r. \<exists>rs \<in> set ?rows. rs_zone_id rs = z \<and> rs_key rs = k \<and> rs_id rs = Some (r_recordset_id r)"
  note c = create_recordset_run [OF run]
  from c(1) obtain row news where
    rows: "d_recordsets (w_db w') = ?rows @ [row]" "rs_zone_id row = zid" "rs_key row = rs_key rs" "rs_id row = Some ?i"
      "unique_recordset (?rows @ [row])"
    and recs: "d_records (w_db w') = d_records (w_db w) @ news"
    and news: "map made news = map made (rs_records rs)" "\<forall>r \<in> set news. r_recordset_id r = ?i"
    using c(3) by (auto simp: adds_def rs_key_def)
  have fresh: "Some ?i \<notin> rs_id ` set ?rows" "\<forall>r \<in> set (d_records (w_db w)). Some (r_recordset_id r) \<in> rs_id ` set ?rows"
    using ok unfolding tables_ok_def Let_def by auto
  have none: "\<not> (\<exists>rs' \<in> set ?rows. rs_zone_id rs' = zid \<and> rs_key rs' = rs_key rs)"
    using rows(5,2,3) by (auto simp: unique_recordset_def rs_key_def image_iff)
  have "rows_made (w_db w') z k = map made (filter (\<lambda>r. ?there r \<or> ?own \<and> r_recordset_id r = ?i) (d_records (w_db w) @ news))"
    using rows(2-4) by (simp add: rows_made_def record_rows_def rows(1) recs bex_Un disj_commute conj_ac eq_commute)
  also have "filter (\<lambda>r. ?there r \<or> ?own \<and> r_recordset_id r = ?i) (d_records (w_db w) @ news) =
      filter ?there (d_records (w_db w)) @ (if ?own then news else [])"
  proof (rule filter_added)
    fix r assume "r \<in> set (d_records (w_db w))"
    then have "r_recordset_id r \<noteq> ?i" using fresh by metis
    then show "(?there r \<or> ?own \<and> r_recordset_id r = ?i) = ?there r" by simp
  next
    fix r assume "r \<in> set news"
    then have "r_recordset_id r = ?i" using news(2) by blast
    then show "(?there r \<or> ?own \<and> r_recordset_id r = ?i) = ?own" using fresh(1) by (auto simp: image_iff)
  qed
  finally have all: "rows_made (w_db w') z k =
      rows_made (w_db w) z k @ (if ?own then map made (rs_records rs) else [])"
    by (simp add: rows_made_def record_rows_def news(1))
  moreover have "rows_made (w_db w) z k = []" if ?own
    using none that unfolding rows_made_def record_rows_def by (auto simp: filter_empty_conv)
  ultimately show ?thesis by (cases ?own) auto
qed

section \<open>Managed recordsets\<close>

text \<open>Marking a zone leaves the recordsets and records alone.\<close>

lemma update_zone_row_same:
  "update_zone_row ctx z w = (Inr z', w') \<Longrightarrow> d_recordsets (w_db w') = d_recordsets (w_db w) \<and>
     d_records (w_db w') = d_records (w_db w) \<and> w_next w' = w_next w"
  by (auto simp: update_zone_row_def comp_iffs Let_def split: if_splits)

lemma update_zone_in_storage_same:
  assumes "update_zone_in_storage ctx z a b w = (Inr z', w')" "z_changed z = {}"
  shows "d_recordsets (w_db w') = d_recordsets (w_db w)" "d_records (w_db w') = d_records (w_db w)"
    "w_next w' = w_next w"
proof -
  from assms have "\<exists>y. update_zone_row ctx y w = (Inr z', w')"
    by (auto simp: update_zone_in_storage_def transaction_Inr Let_def z_sets storage_update_zone_def
        bind_Inr_iff seq_Inr_iff split: if_splits)
  then show "d_recordsets (w_db w') = d_recordsets (w_db w)" "d_records (w_db w') = d_records (w_db w)"
    "w_next w' = w_next w" using update_zone_row_same by blast+
qed

lemma same_content_tables:
  assumes "d_recordsets (w_db w') = d_recordsets (w_db w)" "d_records (w_db w') = d_records (w_db w)"
    "w_next w' = w_next w"
  shows "tables_ok E w' \<longleftrightarrow> tables_ok E w" "zone_content (w_db w') i = zone_content (w_db w) i"
    "rows_made (w_db w') i k = rows_made (w_db w) i k"
  by (simp_all only: tables_ok_def zone_content_def rr_value_def rr_data_def rows_made_def record_rows_def assms)

text \<open>What \<open>find_recordset\<close> by zone, name and type finds.\<close>

definition searchable :: "string \<Rightarrow> bool" where
  "searchable n \<longleftrightarrow> plain n \<and> \<not> startswith n ''*''"

lemma find_recordset_row:
  assumes "storage_find_recordset c [(RC_zone_id, CStr zid), (RC_name, CStr n), (RC_type, CStr ty)] True w = (r, w')"
    and "plain zid" "searchable n" "plain ty" "c_all_tenants c"
  shows "w' = w" and "r = Inr rs \<Longrightarrow> \<exists>row recs. row \<in> set (d_recordsets (w_db w)) \<and> rs = row\<lparr>rs_records := recs\<rparr> \<and>
    rs_zone_id row = zid \<and> rs_name row = n \<and> rs_type row = ty"
proof -
  show "w' = w" using assms(1) readonly_find_records(2) by (rule readonlyD [rotated])
  have "rs_rname_check [(RC_zone_id, CStr zid), (RC_name, CStr n), (RC_type, CStr ty)] =
      [(RC_zone_id, CStr zid), (RC_name, CStr n), (RC_type, CStr ty)]"
    using assms(3) by (simp add: searchable_def)
  moreover assume "r = Inr rs"
  ultimately obtain row recs where "select_recordsets [Eq RC_zone_id (VStr zid), Eq RC_name (VStr n), Eq RC_type (VStr ty)]
      (w_db w) = [row]" "rs = row\<lparr>rs_records := recs\<rparr>"
    using assms by (auto simp: storage_find_recordset_def rs_where_def searchable_def comp_iffs fetch_one_Inr lift_def
        split: sum.splits)
  then have "row \<in> set (select_recordsets [Eq RC_zone_id (VStr zid), Eq RC_name (VStr n),
      Eq RC_type (VStr ty)] (w_db w))" by simp
  then have "row \<in> set (d_recordsets (w_db w))" "rs_zone_id row = zid" "rs_name row = n" "rs_type row = ty"
    by (auto simp: select_recordsets_def select_where_def)
  with \<open>rs = row\<lparr>rs_records := recs\<rparr>\<close> show "\<exists>row recs. row \<in> set (d_recordsets (w_db w)) \<and> rs = row\<lparr>rs_records := recs\<rparr> \<and>
    rs_zone_id row = zid \<and> rs_name row = n \<and> rs_type row = ty" by blast
qed

text \<open>Computations that leave the tables alone when they fail.\<close>

definition undone :: "'a sys \<Rightarrow> bool" where
  "undone m \<longleftrightarrow> (\<forall>w e w'. m w = (Inl e, w') \<longrightarrow> w_db w' = w_db w)"

lemma undone_rules:
  "readonly m \<Longrightarrow> undone m"
  "undone (transaction m)"
  "readonly m \<Longrightarrow> (\<And>x. undone (f x)) \<Longrightarrow> undone (bind m f)"
  "readonly m \<Longrightarrow> undone k \<Longrightarrow> undone (seq m k)"
  "undone m \<Longrightarrow> undone (bind m (\<lambda>x. return (g x)))"
  unfolding undone_def
  by (auto simp: bind_Inl_iff seq_Inl_iff transaction_Inl dest: readonlyD)

lemma undone_update_recordset: "undone (update_recordset E c rs inc)"
  unfolding update_recordset_def update_recordset_in_storage_def by (intro undone_rules keeps_rules)

lemma readonly_validated: "readonly (validated A supported rs)"
  by (auto simp: validated_def readonly_def split: rs_verdict.splits)

text \<open>Setting the managed records of a name makes them the records of that name, whatever it had.\<close>

lemma managed_recordset_cases [consumes 6, case_names updated created]:
  assumes run: "create_or_update_managed_recordset E A supported c zid [r] n0 ty ttl w = (Inr rs, w')"
    and name: "idna E n0 = Inr n" and s: "plain zid" "searchable n" "plain ty" and all: "c_all_tenants c"
  obtains (updated) row where "row \<in> set (d_recordsets (w_db w))" "rs_zone_id row = zid" "rs_key row = (n, ty)"
      "update_recordset E c (row\<lparr>rs_ttl := ttl, rs_records := [r],
          rs_changed := {RSA_ttl, RSA_records} \<union> rs_changed row\<rparr>) True w = (Inr rs, w')"
    | (created) v where "w_db v = w_db w" "v = w \<or> (\<exists>row \<in> set (d_recordsets (w_db w)). rs_zone_id row = zid \<and> rs_key row = (n, ty))"
      "create_recordset E c zid ((new_recordset n ty [r])\<lparr>rs_ttl := ttl\<rparr>) True v = (Inr rs, w')"
proof -
  let ?find = "storage_find_recordset c [(RC_zone_id, CStr zid), (RC_name, CStr n), (RC_type, CStr ty)] True"
  let ?upd = "\<lambda>rs. let rs' = rs\<lparr>rs_ttl := ttl, rs_records := [r], rs_changed := {RSA_ttl, RSA_records} \<union> rs_changed rs\<rparr>
    in seq (validated A supported rs') (update_recordset E c rs' True)"
  note found = find_recordset_row [OF _ s all]
  from run have "catch (bind ?find ?upd) (\<lambda>e. if e = RecordSetNotFound then Some (
            let rs' = (new_recordset n ty [r])\<lparr>rs_ttl := ttl\<rparr> in
            seq (validated A supported rs') (create_recordset E c zid rs' True)) else None) w = (Inr rs, w')"
    by (simp add: create_or_update_managed_recordset_def transaction_Inr bind_run lift_def name)
  then consider (a) "bind ?find ?upd w = (Inr rs, w')"
    | (b) v where "bind ?find ?upd w = (Inl RecordSetNotFound, v)"
        "create_recordset E c zid ((new_recordset n ty [r])\<lparr>rs_ttl := ttl\<rparr>) True v = (Inr rs, w')"
    unfolding catch_Inr_iff by (auto simp: Let_def seq_read_Inr readonly_validated split: if_splits)
  then show thesis
  proof cases
    case a
    then obtain rs0 where rs0: "?find w = (Inr rs0, w)" "?upd rs0 w = (Inr rs, w')"
      by (auto simp: bind_read_Inr keeps_rules)
    from found(2) [OF rs0(1) refl] obtain row recs where row: "row \<in> set (d_recordsets (w_db w))"
      "rs0 = row\<lparr>rs_records := recs\<rparr>" "rs_zone_id row = zid" "rs_key row = (n, ty)" by (auto simp: rs_key_def)
    from rs0(2) row(2) have "update_recordset E c (row\<lparr>rs_ttl := ttl, rs_records := [r],
          rs_changed := {RSA_ttl, RSA_records} \<union> rs_changed row\<rparr>) True w = (Inr rs, w')"
      by (simp add: Let_def seq_read_Inr readonly_validated)
    with row show thesis by (intro updated) simp_all
  next
    case b
    obtain q u where find: "?find w = (q, u)" by fastforce
    have u: "u = w" using found(1) [OF find] .
    have "undone (?upd x)" for x
      unfolding Let_def by (intro undone_rules readonly_validated undone_update_recordset)
    then have "undone (bind ?find ?upd)" by (rule undone_rules(3) [OF readonly_find_records(2)])
    with b(1) have db: "w_db v = w_db w" unfolding undone_def by blast
    show thesis
    proof (cases q)
      case (Inl e)
      with b(1) find u have "v = w" by (simp add: bind_run)
      with b(2) db show thesis by (intro created) simp_all
    next
      case (Inr rs0)
      with found(2) [OF find] have "\<exists>row \<in> set (d_recordsets (w_db w)). rs_zone_id row = zid \<and> rs_key row = (n, ty)"
        by (auto simp: rs_key_def)
      with b(2) db show thesis by (intro created) simp_all
    qed
  qed
qed

lemma mark_simps [simp]:
  "r_data (mark_record a n r) = r_data r" "r_id (mark_record a n r) = r_id r" "made (mark_record a n r) = made r"
  by (simp_all add: mark_record_def made_def r_sets)

lemma get_zone_loaded:
  assumes "storage_get_zone c i b w = (Inr z, w')" "plain i"
  shows "z_id z = i" "z_changed z = {}"
proof -
  from storage_get_zone_Inr(2) [OF assms] show "z_id z = i" by (auto simp: loaded_from_simps)
  from assms(1) obtain cls where "select_zones cls (w_db w) = [z]"
    by (auto simp: storage_get_zone_def find_zone_gen_def find_zones_gen_def comp_iffs fetch_one_Inr)
  then show "z_changed z = {}" by (intro select_zones_fresh [of z cls "w_db w"]) simp
qed

lemma managed_recordset_content:
  assumes run: "create_or_update_managed_recordset E A supported c zid [r] n0 ty ttl w = (Inr rs, w')"
    and name: "idna E n0 = Inr n" and ok: "tables_ok E w" and E: "uuids_ok E" and all: "c_all_tenants c"
    and s: "plain zid" "searchable n" "plain ty" and r: "r_id r = None" "r_action r = CREATE"
  shows "tables_ok E w' \<and> (\<forall>z. zone_content (w_db w') z = (if z = zid
    then (zone_content (w_db w) z)((n, ty) \<mapsto> (ttl, [r_data r])) else zone_content (w_db w) z)) \<and>
    (\<forall>z k. rows_made (w_db w') z k = (if z = zid \<and> k = (n, ty) then [made r] else rows_made (w_db w) z k))"
  using run name s all
proof (cases rule: managed_recordset_cases)
  case (updated row)
  let ?rs = "row\<lparr>rs_ttl := ttl, rs_records := [r], rs_changed := {RSA_ttl, RSA_records} \<union> rs_changed row\<rparr>"
  from updated(4) obtain z c' m t zz where
    z: "storage_get_zone c (rs_zone_id ?rs) False w = (Inr z, w)" and c': "c_all_tenants c'"
    and up: "storage_update_recordset E c' (?rs\<lparr>rs_records := map (\<lambda>r. if r_action r = DELETE then r
       else mark_record UPDATE m r) (rs_records ?rs)\<rparr>) w = (Inr rs, t)"
    and zone: "update_zone_in_storage c' z True False t = (Inr zz, w')"
    by (rule update_recordset_steps)
  have obj: "?rs\<lparr>rs_records := map (\<lambda>r. if r_action r = DELETE then r else mark_record UPDATE m r) (rs_records ?rs)\<rparr>
      = row\<lparr>rs_ttl := ttl, rs_records := [mark_record UPDATE m r],
          rs_changed := {RSA_ttl, RSA_records} \<union> rs_changed row\<rparr>"
    using r(2) by simp
  note u = update_recordset_content [OF up ok E c' updated(1) obj]
  have "tables_ok E t" by (rule u(1)) (use r(1) in simp_all)
  moreover have "zone_content (w_db t) z = (if z = zid
    then (zone_content (w_db w) z)((n, ty) \<mapsto> (ttl, [r_data r])) else zone_content (w_db w) z)" for z
    using u(4) [of z] updated(2,3) r(1) by simp
  moreover have "rows_made (w_db t) z k = (if z = zid \<and> k = (n, ty) then [made r] else rows_made (w_db w) z k)" for z k
    using update_recordset_made [OF up ok c' updated(1) obj, of z k] updated(2,3) r(1) by simp
  moreover have "z_changed z = {}" using z s(1) updated(2) by (intro get_zone_loaded(2)) simp_all
  note same_content_tables [OF update_zone_in_storage_same [OF zone this]]
  ultimately show ?thesis by simp
next
  case (created v)
  from created(3) obtain z c' m t zz where z: "storage_get_zone c zid False v = (Inr z, v)"
    and cr: "storage_create_recordset E c' (z_id z) (((new_recordset n ty [r])\<lparr>rs_ttl := ttl\<rparr>)\<lparr>rs_records :=
       map (mark_record CREATE m) (rs_records ((new_recordset n ty [r])\<lparr>rs_ttl := ttl\<rparr>))\<rparr>) v = (Inr rs, t)"
    and zone: "update_zone_in_storage c' z True False t = (Inr zz, w') \<or> w' = t"
    by (rule create_recordset_steps)
  note zid = get_zone_loaded [OF z s(1)]
  have "v = w"
  proof (rule ccontr)
    assume "v \<noteq> w"
    with created(2) obtain row where row: "row \<in> set (d_recordsets (w_db v))" "rs_zone_id row = zid" "rs_key row = (n, ty)"
      unfolding created(1) by blast
    with create_recordset_run(3) [OF cr] zid(1) show False
      by (auto simp: unique_recordset_def rs_key_def new_recordset_def image_iff)
  qed
  note c = create_recordset_content [OF cr [unfolded \<open>v = w\<close>] ok E]
  have "tables_ok E t" by (rule c(1))
  moreover have "zone_content (w_db t) z = (if z = zid
    then (zone_content (w_db w) z)((n, ty) \<mapsto> (ttl, [r_data r])) else zone_content (w_db w) z)" for z
    using c(4) [of z] zid(1) by (simp add: new_recordset_def rs_key_def)
  moreover have "rows_made (w_db t) z k = (if z = zid \<and> k = (n, ty) then [made r] else rows_made (w_db w) z k)" for z k
    using create_recordset_made [OF cr [unfolded \<open>v = w\<close>] ok, of z k] zid(1)
    by (simp add: new_recordset_def rs_key_def)
  moreover have "(tables_ok E w' \<longleftrightarrow> tables_ok E t) \<and> (\<forall>i. zone_content (w_db w') i = zone_content (w_db t) i) \<and>
      (\<forall>i k. rows_made (w_db w') i k = rows_made (w_db t) i k)"
    using zone
  proof
    assume "update_zone_in_storage c' z True False t = (Inr zz, w')"
    from same_content_tables [OF update_zone_in_storage_same [OF this zid(2)]] show ?thesis by simp
  qed simp
  ultimately show ?thesis by simp
qed

section \<open>Announcing addresses\<close>

text \<open>What a format can name: the zone, the fields of the notification, and of the address its version, its
  text with dashes, its parts, and the label of its network.\<close>

fun short_colons :: "string \<Rightarrow> string" where
  "short_colons (c # d # s) = (if c = CHR '':'' \<and> d = CHR '':'' then CHR '':'' # short_colons s
     else c # short_colons (d # s))"
| "short_colons s = s"

definition address_parts :: "address \<Rightarrow> string list" where
  "address_parts a =
     (if ad_version a = 4 then take 4 (split_on CHR ''.'' (ad_address a))
      else if ad_version a = 6 then split_on CHR '':'' (short_colons (ad_address a)) else [])"

definition dashed :: "char \<Rightarrow> string \<Rightarrow> string" where
  "dashed sep s = map (\<lambda>c. if c = sep then CHR ''-'' else c) s"

definition announced_field :: "texts \<Rightarrow> string \<Rightarrow> address \<Rightarrow> texts" where
  "announced_field extra zone_name a key =
     (if key = ''label'' then Some (ad_label a)
      else if key = ''ip_version'' then Some (int_str (ad_version a))
      else if key = ''ip_address'' \<and> ad_version a = 4 then Some (dashed CHR ''.'' (ad_address a))
      else if key = ''ip_address'' \<and> ad_version a = 6 then Some (dashed CHR '':'' (ad_address a))
      else case find (\<lambda>i. key = ''octet'' @ nat_str i) [0..<length (address_parts a)] of
        Some i \<Rightarrow> Some (address_parts a ! i)
      | None \<Rightarrow> if key = ''zone'' then Some zone_name else extra key)"

text \<open>The names, types and addresses that are announced: of every address, each name that its formats
  give, IDNA-encoded.\<close>

definition announced :: "env \<Rightarrow> handler_conf \<Rightarrow> texts \<Rightarrow> string \<Rightarrow> address list \<Rightarrow> (name_type \<times> string) list" where
  "announced E cf extra zone_name addresses = concat (map (\<lambda>a.
     let ipv4 = ad_version a = 4; fmts = (if ipv4 then hc_formatv4 cf else hc_formatv6 cf) in
     List.map_filter (\<lambda>fmt.
       case and_then (py_format fmt (announced_field extra zone_name a)) (idna E) of
         Inr n \<Rightarrow> Some ((n, if ipv4 then ''A'' else ''AAAA''), ad_address a)
       | Inl e \<Rightarrow> None) (if fmts = [] then [''%(hostname)s.%(zone)s''] else fmts)) addresses)"

lemma split_on_not_Nil: "split_on c s \<noteq> []"
  by (induction s) (auto split: list.splits)

lemma split_colons_short: "split_colons s = split_on CHR '':'' (short_colons s)"
proof (induction s rule: short_colons.induct)
  case (1 c d s)
  then show ?case by (auto simp: startswith_def)
qed (simp_all add: startswith_def)

lemma replace_dashed: "replace c ''-'' s = dashed c s"
  by (induction s) (simp_all add: replace_def dashed_def)

lemma map_of_enumerate:
  "map_of (map (\<lambda>(i, p). (f i, p)) (enumerate n ps)) k =
     map_option (\<lambda>i. ps ! (i - n)) (find (\<lambda>i. k = f i) [n..<n + length ps])"
proof (induction ps arbitrary: n)
  case (Cons p ps)
  have "map_option (\<lambda>i. ps ! (i - Suc n)) (find P [Suc n..<Suc (n + m)]) =
      map_option (\<lambda>i. (p # ps) ! (i - n)) (find P [Suc n..<Suc (n + m)])" for P m
  proof (intro option.map_cong refl)
    fix i assume "i \<in> set_option (find P [Suc n..<Suc (n + m)])"
    then have "Suc n \<le> i" by (auto simp: find_Some_iff simp del: upt_Suc)
    then show "ps ! (i - Suc n) = (p # ps) ! (i - n)" by (simp add: Suc_diff_le)
  qed
  then show ?case using Cons.IH [of "Suc n"] by (simp add: upt_conv_Cons del: upt_Suc)
qed simp

lemma octets_find: "octets ps k = map_option ((!) ps) (find (\<lambda>i. k = ''octet'' @ nat_str i) [0..<length ps])"
  using map_of_enumerate [of "\<lambda>i. ''octet'' @ nat_str i" 0 ps k] by (simp add: octets_def)

lemma octets_other: "take 5 k \<noteq> ''octet'' \<Longrightarrow> octets ps k = None"
  unfolding octets_find by (auto simp: find_None_iff)

lemma address_data_parts:
  assumes "address_data Nova_fixed a = Inr ip"
  shows "ip = ([''ip_version'' \<mapsto> int_str (ad_version a)](''ip_address'' :=
      (if ad_version a = 4 then Some (dashed CHR ''.'' (ad_address a))
       else if ad_version a = 6 then Some (dashed CHR '':'' (ad_address a)) else None)) ++ octets (address_parts a))
    (''label'' \<mapsto> ad_label a)"
  using assms
  by (simp add: address_data_def and_then_Inr ip_data_def Let_def replace_dashed split_colons_short address_parts_def
      split: if_splits) (auto simp: octets_def)

lemma address_data_field:
  assumes "address_data Nova_fixed a = Inr ip"
  shows "extra(''zone'' \<mapsto> zn) ++ ip = announced_field extra zn a"
proof
  fix k
  note ip = address_data_parts [OF assms]
  consider "k \<in> {''label'', ''ip_version'', ''ip_address''}" | "k \<notin> {''label'', ''ip_version'', ''ip_address''}" by blast
  then show "(extra(''zone'' \<mapsto> zn) ++ ip) k = announced_field extra zn a k"
  proof cases
    case 1
    then have "octets (address_parts a) k = None" by (intro octets_other) auto
    with 1 show ?thesis
      by (auto simp: ip announced_field_def map_add_def octets_other address_parts_def)
  next
    case 2
    then have "(extra(''zone'' \<mapsto> zn) ++ ip) k =
        (case octets (address_parts a) k of None \<Rightarrow> (extra(''zone'' \<mapsto> zn)) k | Some t \<Rightarrow> Some t)"
      by (simp add: ip map_add_def split: option.splits)
    with 2 show ?thesis
      by (simp add: announced_field_def octets_find split: option.splits)
  qed
qed

text \<open>The content of a zone after single records were set, one after the other.\<close>

definition set_records :: "(name_type \<times> string) list \<Rightarrow> content \<Rightarrow> content" where
  "set_records items c = fold (\<lambda>(k, a) m. m(k \<mapsto> (None, [a]))) items c"

lemma set_records_lookup:
  "set_records items c k = (case map_of (rev items) k of Some a \<Rightarrow> Some (None, [a]) | None \<Rightarrow> c k)"
  unfolding set_records_def
  by (induction items rule: rev_induct) (auto split: prod.splits)

definition marked :: "string \<Rightarrow> string \<Rightarrow> string \<times> bool \<times> string option list" where
  "marked i a = made (managed_record Nova_fixed ''instance'' i a)"

definition sets_records :: "env \<Rightarrow> string \<Rightarrow> string \<Rightarrow> (name_type \<times> string) list \<Rightarrow> world \<Rightarrow> world \<Rightarrow> bool" where
  "sets_records E zid i items w w' \<longleftrightarrow> tables_ok E w' \<and>
     (\<forall>z. zone_content (w_db w') z =
       (if z = zid then set_records items (zone_content (w_db w) z) else zone_content (w_db w) z)) \<and>
     (\<forall>z k. rows_made (w_db w') z k = (case if z = zid then map_of (rev items) k else None of
       Some a \<Rightarrow> [marked i a] | None \<Rightarrow> rows_made (w_db w) z k))"

lemma sets_records_Nil [simp]: "sets_records E zid i [] w w \<longleftrightarrow> tables_ok E w"
  by (simp add: sets_records_def set_records_def)

lemma sets_records_append:
  "sets_records E zid i xs w v \<Longrightarrow> sets_records E zid i ys v w' \<Longrightarrow> sets_records E zid i (xs @ ys) w w'"
  by (auto simp: sets_records_def set_records_def map_add_def split: option.splits)

lemma rpc_call_Inr:
  assumes "rpc_call E ctx f w = (Inr y, w')"
  shows "\<exists>c. deepcopy E ctx = Inr c \<and> f c w = (Inr y, w')"
  using assms by (auto simp: rpc_call_def bind_run lift_def split: sum.splits)

lemma managing_context_all:
  "managing_context E = Inr ctx \<Longrightarrow> deepcopy E ctx = Inr c \<Longrightarrow> c_all_tenants c"
  by (auto simp: managing_context_def and_then_Inr dest!: deepcopy_Inr set_context_Inr)

lemma plain_type: "plain (address_type a)"
  by (simp add: address_type_def plain_def startswith_def)

text \<open>What one format of an address gives.\<close>

definition one_name :: "env \<Rightarrow> texts \<Rightarrow> address \<Rightarrow> string \<Rightarrow> (name_type \<times> string) option" where
  "one_name E data a fmt = (case and_then (py_format fmt data) (idna E) of
     Inr n \<Rightarrow> Some ((n, address_type a), ad_address a) | Inl e \<Rightarrow> None)"

lemma announced_Cons:
  "announced E cf extra zn (a # addrs) =
     List.map_filter (one_name E (announced_field extra zn a) a) (formats cf (ad_version a)) @ announced E cf extra zn addrs"
  unfolding announced_def one_name_def [abs_def] formats_def default_format_def address_type_def Let_def
  by (cases "ad_version a = 4") (simp_all del: py_format.simps)

lemma create_name_sets:
  assumes run: "create_name E A supported Nova_fixed ctx z ''instance'' i data a fmt w = (Inr u, w')"
    and ctx: "managing_context E = Inr ctx" and z: "plain (z_id z)" and ok: "tables_ok E w" "uuids_ok E"
    and names: "\<And>x. one_name E data a fmt = Some x \<Longrightarrow> searchable (fst (fst x))"
  shows "\<exists>x. one_name E data a fmt = Some x \<and> sets_records E (z_id z) i [x] w w'"
proof -
  let ?r = "managed_record Nova_fixed ''instance'' i (ad_address a)"
  from run obtain n rs where n: "py_format fmt data = Inr n"
    and call: "rpc_call E ctx (\<lambda>c. create_managed_records E A supported c (z_id z) [?r] n (address_type a)) w
      = (Inr rs, w')"
    by (auto simp: create_name_def bind_run lift_def split: sum.splits prod.splits)
  from rpc_call_Inr [OF call] obtain c where c: "deepcopy E ctx = Inr c"
    and cr: "create_or_update_managed_recordset E A supported c (z_id z) [?r] n (address_type a) None w = (Inr rs, w')"
    unfolding create_managed_records_def by blast
  then obtain m where m: "idna E n = Inr m"
    by (cases "idna E n") (auto simp: create_or_update_managed_recordset_def transaction_Inr bind_run lift_def)
  with n have x: "one_name E data a fmt = Some ((m, address_type a), ad_address a)" by (simp add: one_name_def)
  have r: "r_id ?r = None" "r_action ?r = CREATE" "r_data ?r = ad_address a"
    by (simp_all add: managed_record_def new_record_def)
  have "searchable m" using names [OF x] by simp
  from managed_recordset_content [OF cr m ok managing_context_all [OF ctx c] z this plain_type r(1,2)] x r(3)
  show ?thesis by (auto simp: sets_records_def set_records_def marked_def)
qed

lemma map_filter_memb: "x \<in> set xs \<Longrightarrow> f x = Some y \<Longrightarrow> y \<in> set (List.map_filter f xs)"
  by (induction xs) (auto simp: map_filter_simps split: option.splits)

lemma for_each_Cons_Inr:
  assumes "for_each (x # xs) f w = (Inr u, w')"
  obtains v where "f x w = (Inr (), v)" "for_each xs f v = (Inr u, w')"
  using assms unfolding for_each.simps seq_Inr_iff by auto

lemma lift_bind_Inr:
  assumes "bind (lift m) f w = (Inr y, w')"
  obtains x where "m = Inr x" "f x w = (Inr y, w')"
  using assms by (cases m) (simp_all add: bind_run lift_def)

lemma create_names_set:
  assumes run: "for_each fmts (create_name E A supported Nova_fixed ctx z ''instance'' i data a) w = (Inr u, w')"
    and ctx: "managing_context E = Inr ctx" and z: "plain (z_id z)" and ok: "tables_ok E w" "uuids_ok E"
    and names: "\<And>x. x \<in> set (List.map_filter (one_name E data a) fmts) \<Longrightarrow> searchable (fst (fst x))"
  shows "sets_records E (z_id z) i (List.map_filter (one_name E data a) fmts) w w'"
  using run ok(1) names
proof (induction fmts arbitrary: w)
  case Nil
  then show ?case by (simp add: map_filter_simps)
next
  case (Cons fmt fmts)
  from Cons.prems(1) obtain v where v: "create_name E A supported Nova_fixed ctx z ''instance'' i data a fmt w = (Inr (), v)"
    "for_each fmts (create_name E A supported Nova_fixed ctx z ''instance'' i data a) v = (Inr u, w')" by (rule for_each_Cons_Inr)
  have "searchable (fst (fst x))" if "one_name E data a fmt = Some x" for x
    by (rule Cons.prems(3)) (simp add: map_filter_simps that)
  from create_name_sets [OF v(1) ctx z Cons.prems(2) ok(2) this]
  obtain x where x: "one_name E data a fmt = Some x" "sets_records E (z_id z) i [x] w v" by blast
  from x(2) have "tables_ok E v" unfolding sets_records_def by blast
  moreover have "searchable (fst (fst y))" if "y \<in> set (List.map_filter (one_name E data a) fmts)" for y
    by (rule Cons.prems(3)) (use that x(1) in \<open>simp add: map_filter_simps\<close>)
  ultimately have "sets_records E (z_id z) i (List.map_filter (one_name E data a) fmts) v w'" by (rule Cons.IH [OF v(2)])
  from sets_records_append [OF x(2) this] x(1) show ?case by (simp add: map_filter_simps)
qed

lemma create_each_address:
  assumes run: "for_each addrs (\<lambda>a. bind (lift (address_data Nova_fixed a)) (\<lambda>ip. for_each (formats cf (ad_version a))
       (create_name E A supported Nova_fixed ctx z ''instance'' i (extra(''zone'' \<mapsto> zn) ++ ip) a))) w = (Inr u, w')"
    and ctx: "managing_context E = Inr ctx" and z: "plain (z_id z)" and ok: "tables_ok E w" "uuids_ok E"
    and names: "\<forall>x \<in> set (announced E cf extra zn addrs). searchable (fst (fst x))"
  shows "sets_records E (z_id z) i (announced E cf extra zn addrs) w w'"
  using run ok(1) names
proof (induction addrs arbitrary: w)
  case Nil
  then show ?case by (simp add: announced_def)
next
  case (Cons a addrs)
  let ?one = "List.map_filter (one_name E (announced_field extra zn a) a) (formats cf (ad_version a))"
  from Cons.prems(1) obtain v where v: "bind (lift (address_data Nova_fixed a)) (\<lambda>ip. for_each (formats cf (ad_version a))
       (create_name E A supported Nova_fixed ctx z ''instance'' i (extra(''zone'' \<mapsto> zn) ++ ip) a)) w = (Inr (), v)"
    and rest: "for_each addrs (\<lambda>a. bind (lift (address_data Nova_fixed a)) (\<lambda>ip. for_each (formats cf (ad_version a))
       (create_name E A supported Nova_fixed ctx z ''instance'' i (extra(''zone'' \<mapsto> zn) ++ ip) a))) v = (Inr u, w')"
    by (rule for_each_Cons_Inr)
  from v obtain ip where ip: "address_data Nova_fixed a = Inr ip"
    and one: "for_each (formats cf (ad_version a))
       (create_name E A supported Nova_fixed ctx z ''instance'' i (extra(''zone'' \<mapsto> zn) ++ ip) a) w = (Inr (), v)"
    by (rule lift_bind_Inr)
  have names: "searchable (fst (fst x))" if "x \<in> set ?one" for x
    using Cons.prems(3) that unfolding announced_Cons set_append by blast
  have one: "sets_records E (z_id z) i ?one w v"
    by (rule create_names_set [OF one [unfolded address_data_field [OF ip]] ctx z Cons.prems(2) ok(2) names])
  then have "tables_ok E v" unfolding sets_records_def by blast
  moreover have "\<forall>x \<in> set (announced E cf extra zn addrs). searchable (fst (fst x))"
    using Cons.prems(3) unfolding announced_Cons by simp
  ultimately have "sets_records E (z_id z) i (announced E cf extra zn addrs) v w'" by (rule Cons.IH [OF rest])
  from sets_records_append [OF one this] show ?case by (simp add: announced_Cons)
qed

lemma create_addresses_content:
  assumes run: "create_addresses E A supported Nova_fixed cf addrs extra zid ''instance'' i w = (Inr (), w')"
    and row: "row \<in> set (d_zones (w_db w))" "z_id row = zid" "plain zid" "zone_ids_distinct (w_db w)"
    and ok: "tables_ok E w" "uuids_ok E"
    and names: "\<forall>x \<in> set (announced E cf extra (z_name row) addrs). searchable (fst (fst x))"
  shows "sets_records E zid i (announced E cf extra (z_name row) addrs) w w'"
proof -
  from run obtain admin where "zone_context E = Inr admin"
    and run1: "bind (rpc_call E admin (\<lambda>c. get_zone E c zid True)) (\<lambda>z.
     let data = extra(''zone'' \<mapsto> z_name z) in
     bind (lift (managing_context E)) (\<lambda>ctx.
     for_each addrs (\<lambda>a. bind (lift (address_data Nova_fixed a)) (\<lambda>ip.
       for_each (formats cf (ad_version a)) (create_name E A supported Nova_fixed ctx z ''instance'' i (data ++ ip) a))))) w = (Inr (), w')"
    unfolding create_addresses_def by (rule lift_bind_Inr)
  from run1 obtain z v where z: "rpc_call E admin (\<lambda>c. get_zone E c zid True) w = (Inr z, v)"
    and run2: "bind (lift (managing_context E)) (\<lambda>ctx.
     for_each addrs (\<lambda>a. bind (lift (address_data Nova_fixed a)) (\<lambda>ip.
       for_each (formats cf (ad_version a)) (create_name E A supported Nova_fixed ctx z ''instance'' i
         (extra(''zone'' \<mapsto> z_name z) ++ ip) a)))) v = (Inr (), w')"
    unfolding bind_Inr_iff Let_def by blast
  from run2 obtain ctx where ctx: "managing_context E = Inr ctx"
    and loop: "for_each addrs (\<lambda>a. bind (lift (address_data Nova_fixed a)) (\<lambda>ip.
       for_each (formats cf (ad_version a)) (create_name E A supported Nova_fixed ctx z ''instance'' i
         (extra(''zone'' \<mapsto> z_name z) ++ ip) a))) v = (Inr (), w')" by (rule lift_bind_Inr)
  from rpc_call_Inr [OF z] obtain c where "get_zone E c zid True w = (Inr z, v)" by blast
  then obtain u where u: "storage_get_zone c zid True w = (Inr z, u)" and "v = u"
    unfolding get_zone_def storage_is_zone_shared_with_project_def
    by (auto simp: read_steps bind_Inr_iff Let_def split: if_splits)
  note got = storage_get_zone_Inr [OF u row(3)]
  from got(2) obtain row' where row': "row' \<in> set (d_zones (w_db w))" "loaded_from z row'" "z_id row' = zid" by blast
  with row have "row' = row" by (auto simp: zone_ids_distinct_def inj_on_def distinct_map)
  with row' have "z_id z = zid" "z_name z = z_name row" by (simp_all add: loaded_from_simps)
  with create_each_address [OF loop ctx _ _ ok(2)] \<open>v = u\<close> got(1) row(3) ok(1) names show ?thesis by simp
qed

text \<open>A record of the announced address, marked as managed by the handler for the instance.\<close>

definition announced_record :: "string \<Rightarrow> string \<Rightarrow> rrecord \<Rightarrow> bool" where
  "announced_record i a r \<longleftrightarrow> r_data r = a \<and> r_managed r \<and> r_managed_plugin_name r = Some ''nova_fixed'' \<and>
     r_managed_plugin_type r = Some ''handler'' \<and> r_managed_resource_type r = Some ''instance'' \<and>
     r_managed_resource_id r = Some i"

lemma marked_rows:
  assumes "rows_made d zid k = [marked i a]"
  shows "\<exists>r. record_rows d zid k = [r] \<and> announced_record i a r"
  using assms
  by (auto simp: rows_made_def marked_def made_def announced_record_def managed_record_def new_record_def
      plugin_name_def plugin_type_def)

text \<open>C40: what the notification that an instance was created does to the zone that the sink is
  configured for. Every address is announced under each name that the formats of its version give (the
  configured ones, or host name and zone where none are configured), IDNA-encoded, with type A for version 4 and AAAA
  for all others. When the service has handled the notification, the zone holds for every such name and type exactly one
  record, the last of the addresses with that name, and the record is marked as managed by this handler for the
  instance. Every other recordset of the zone and every other
  zone is as before, and the tables stay consistent.\<close>

theorem announced_addresses:
  assumes run: "info E A supported [(Nova_fixed, cf)] project ''compute.instance.create.end'' (Instance addrs i extra) w
      = (Inr (), w')"
    and zone: "hc_zone_id cf = Some zid" "zid \<noteq> ''''" "plain zid" "row \<in> set (d_zones (w_db w))" "z_id row = zid"
    and ok: "zone_ids_distinct (w_db w)" "tables_ok E w" "uuids_ok E"
    and items: "items = announced E cf (extra(''project'' \<mapsto> default_to ''None'' project)) (z_name row) addrs"
    and names: "\<forall>x \<in> set items. searchable (fst (fst x))"
  shows "tables_ok E w' \<and>
     (\<forall>n ty. zone_content (w_db w') zid (n, ty) = (case map_of (rev items) (n, ty) of
        Some a \<Rightarrow> Some (None, [a]) | None \<Rightarrow> zone_content (w_db w) zid (n, ty))) \<and>
     (\<forall>n ty. case map_of (rev items) (n, ty) of
        Some a \<Rightarrow> \<exists>r. record_rows (w_db w') zid (n, ty) = [r] \<and> announced_record i a r
      | None \<Rightarrow> map made (record_rows (w_db w') zid (n, ty)) = map made (record_rows (w_db w) zid (n, ty))) \<and>
     (\<forall>z. z \<noteq> zid \<longrightarrow> zone_content (w_db w') z = zone_content (w_db w) z \<and>
        (\<forall>k. map made (record_rows (w_db w') z k) = map made (record_rows (w_db w) z k)))"
proof -
  have "create_addresses E A supported Nova_fixed cf addrs (extra(''project'' \<mapsto> default_to ''None'' project)) zid
      ''instance'' i w = (Inr (), w')"
    using run zone(1,2) by (simp add: info_def get_allowed_event_types_def get_event_types_def process_notification_def
        process_nova_def seq_Inr_iff opt_string_def with_project_def)
  from create_addresses_content [OF this zone(4,5,3) ok(1-3) names [unfolded items]]
  have set: "sets_records E zid i items w w'" by (simp add: items)
  then have rows: "rows_made (w_db w') z k = (case if z = zid then map_of (rev items) k else None of
       Some a \<Rightarrow> [marked i a] | None \<Rightarrow> rows_made (w_db w) z k)" for z k
    unfolding sets_records_def by blast
  have "case map_of (rev items) (n, ty) of
        Some a \<Rightarrow> \<exists>r. record_rows (w_db w') zid (n, ty) = [r] \<and> announced_record i a r
      | None \<Rightarrow> map made (record_rows (w_db w') zid (n, ty)) = map made (record_rows (w_db w) zid (n, ty))" for n ty
  proof (cases "map_of (rev items) (n, ty)")
    case None
    with rows [of zid "(n, ty)"] show ?thesis by (simp add: rows_made_def)
  next
    case (Some a)
    with rows [of zid "(n, ty)"] have "rows_made (w_db w') zid (n, ty) = [marked i a]" by simp
    from marked_rows [OF this] Some show ?thesis by simp
  qed
  moreover have "map made (record_rows (w_db w') z k) = map made (record_rows (w_db w) z k)" if "z \<noteq> zid" for z k
    using rows [of z k] that by (simp add: rows_made_def)
  ultimately show ?thesis using set by (simp add: sets_records_def set_records_lookup)
qed

definition nova_conf :: handler_conf where
  "nova_conf = \<lparr>hc_exchange = ''nova'', hc_topics = [''notifications''], hc_zone_id = Some ''z1'',
     hc_formatv4 = [''%(hostname)s.%(zone)s'', ''%(octet0)s.%(zone)s''],
     hc_formatv6 = [''%(label)s-%(octet1)s.%(ip_address)s.%(zone)s''], hc_event_types = []\<rparr>"

definition sample_addresses :: "address list" where
  "sample_addresses = [\<lparr>ad_address = ''1.2.3.4'', ad_version = 4, ad_label = ''n''\<rparr>,
     \<lparr>ad_address = ''9.2.3.4'', ad_version = 4, ad_label = ''n''\<rparr>,
     \<lparr>ad_address = ''fe::7'', ad_version = 6, ad_label = ''n''\<rparr>]"

definition sample_created :: "(exn + unit) \<times> world" where
  "sample_created = info sample_env (sample_addr\<lparr>dns_ipv6 := \<lambda>s. True, net_ipv6 := Some\<rparr>) [''A'', ''AAAA''] [(Nova_fixed, nova_conf)] (Some ''t1'')
     ''compute.instance.create.end'' (Instance sample_addresses ''i1'' [''hostname'' \<mapsto> ''w'']) (world_of sample_db)"

lemma sample_created_runs: "fst sample_created = Inr ()"
  by code_simp

lemma sample_announced:
  "announced sample_env nova_conf ([''hostname'' \<mapsto> ''w''](''project'' \<mapsto> default_to ''None'' (Some ''t1''))) ''e.o.''
     sample_addresses
   = [((''w.e.o.'', ''A''), ''1.2.3.4''), ((''1.e.o.'', ''A''), ''1.2.3.4''),
      ((''w.e.o.'', ''A''), ''9.2.3.4''), ((''9.e.o.'', ''A''), ''9.2.3.4''),
      ((''n-7.fe--7.e.o.'', ''AAAA''), ''fe::7'')]"
  by code_simp

theorem announced_addresses_witness:
  "\<exists>w' r. sample_created = (Inr (), w') \<and> zone_content (w_db w') ''z1'' (''w.e.o.'', ''A'') = Some (None, [''9.2.3.4'']) \<and>
     zone_content (w_db w') ''z1'' (''1.e.o.'', ''A'') = Some (None, [''1.2.3.4'']) \<and>
     record_rows (w_db w') ''z1'' (''n-7.fe--7.e.o.'', ''AAAA'') = [r] \<and> announced_record ''i1'' ''fe::7'' r"
proof -
  obtain w' where run: "sample_created = (Inr (), w')"
    using sample_created_runs by (metis prod.collapse)
  have "plain ''s1''" by (simp add: plain_def startswith_def)
  then have ok: "tables_ok sample_env (world_of sample_db)" "zone_ids_distinct (w_db (world_of sample_db))"
    by (simp_all add: tables_ok_def Let_def unique_recordset_def sample_recordset_def
        sample_record_def sample_env_def zone_ids_distinct_def)
  let ?items = "[((''w.e.o.'', ''A''), ''1.2.3.4''), ((''1.e.o.'', ''A''), ''1.2.3.4''),
      ((''w.e.o.'', ''A''), ''9.2.3.4''), ((''9.e.o.'', ''A''), ''9.2.3.4''),
      ((''n-7.fe--7.e.o.'', ''AAAA''), ''fe::7'')]"
  have names: "\<forall>x \<in> set ?items. searchable (fst (fst x))"
    by (simp add: searchable_def plain_def startswith_def)
  have zone: "hc_zone_id nova_conf = Some ''z1''" "plain ''z1''"
    by (simp_all add: nova_conf_def plain_def startswith_def)
  have row: "sample_zone ''z1'' ''t1'' ''e.o.'' \<in> set (d_zones (w_db (world_of sample_db)))"
    "z_id (sample_zone ''z1'' ''t1'' ''e.o.'') = ''z1''" "z_name (sample_zone ''z1'' ''t1'' ''e.o.'') = ''e.o.''" by simp_all
  note t = announced_addresses [OF run [unfolded sample_created_def] zone(1) _ zone(2) row(1,2) ok(2,1) sample_uuids_ok,
      of ?items, unfolded row(3), OF _ sample_announced [symmetric] names]
  have content: "zone_content (w_db w') ''z1'' (n, ty) = (case map_of (rev ?items) (n, ty) of
        Some a \<Rightarrow> Some (None, [a]) | None \<Rightarrow> zone_content (w_db (world_of sample_db)) ''z1'' (n, ty))" for n ty
    using t by blast
  have "case map_of (rev ?items) (''n-7.fe--7.e.o.'', ''AAAA'') of
      Some a \<Rightarrow> \<exists>r. record_rows (w_db w') ''z1'' (''n-7.fe--7.e.o.'', ''AAAA'') = [r] \<and> announced_record ''i1'' a r
    | None \<Rightarrow> True"
    using t by (auto split: option.splits)
  then obtain r where "record_rows (w_db w') ''z1'' (''n-7.fe--7.e.o.'', ''AAAA'') = [r]" "announced_record ''i1'' ''fe::7'' r"
    by auto
  then show ?thesis by (intro exI [of _ w'] exI [of _ r] conjI run) (simp_all add: content)
qed

end
