(* ===== verification/ObjectBase.thy ===== *)
theory ObjectBase
  imports Prelude
begin

text \<open>
  The machinery under every object, \<open>objects/base.py\<close>: assigning to a field with its coercion and the
  record of what has changed, original values, resetting, the conversion to and from dictionaries, and
  lists of attributes. The other theories have one record per class and keep its changed attributes
  in a set; here is what makes that set right, for any class. A class is given by its fields, and a
  value of a field is of any type \<open>'v\<close>; coercion is the field type's (\<open>FieldTypes\<close> has the ones of
  Designate, the others are oslo.versionedobjects').
\<close>

section \<open>Fields and objects\<close>

record 'v field =
  fd_coerce :: "'v \<Rightarrow> exn + 'v"
  fd_read_only :: bool
  fd_nullable :: bool
  fd_relation :: bool

type_synonym 'v fields = "string \<Rightarrow> 'v field option"

text \<open>\<open>_obj_<name>\<close>, \<open>_changed_fields\<close> and \<open>_obj_original_values\<close>.\<close>

record 'v object =
  ob_values :: "string \<Rightarrow> 'v option"
  ob_changed :: "string set"
  ob_original :: "string \<Rightarrow> 'v option"

definition new_object :: "'v object" where
  "new_object = \<lparr>ob_values = Map.empty, ob_changed = {}, ob_original = Map.empty\<rparr>"

definition obj_attr_is_set :: "string \<Rightarrow> 'v object \<Rightarrow> bool" where
  "obj_attr_is_set name x \<longleftrightarrow> ob_values x name \<noteq> None"

abbreviation ReadOnlyFieldError :: exn where
  "ReadOnlyFieldError \<equiv> OtherError ''ReadOnlyFieldError''"

text \<open>The getter: a relation that is not set is an error, any other field that is not set reads as
  None.\<close>

definition get_attr :: "'v fields \<Rightarrow> string \<Rightarrow> 'v object \<Rightarrow> exn + 'v option" where
  "get_attr F name x =
     (case F name of
        None \<Rightarrow> Inl PyAttributeError
      | Some fd \<Rightarrow>
          if fd_relation fd \<and> \<not> obj_attr_is_set name x then Inl (RelationNotLoaded name)
          else Inr (ob_values x name))"

text \<open>The setter. The value that was there is remembered once, and only when the new one (as it was
  given, before its coercion) differs from it.\<close>

definition remember :: "string \<Rightarrow> 'v \<Rightarrow> 'v object \<Rightarrow> 'v object" where
  "remember name v x =
     (if obj_attr_is_set name x \<and> Some v \<noteq> ob_values x name \<and> ob_original x name = None
      then x\<lparr>ob_original := (ob_original x)(name := ob_values x name)\<rparr> else x)"

definition set_attr :: "'v fields \<Rightarrow> string \<Rightarrow> 'v \<Rightarrow> 'v object \<Rightarrow> exn + 'v object" where
  "set_attr F name v x =
     (case F name of
        None \<Rightarrow> Inl PyAttributeError
      | Some fd \<Rightarrow>
          (case fd_coerce fd v of
             Inl e \<Rightarrow> Inl e
           | Inr y \<Rightarrow>
               if fd_read_only fd \<and> obj_attr_is_set name x then
                 (if ob_values x name \<noteq> Some y then Inl ReadOnlyFieldError else Inr x)
               else
                 let x1 = remember name v (x\<lparr>ob_changed := insert name (ob_changed x)\<rparr>)
                 in Inr (x1\<lparr>ob_values := (ob_values x1)(name \<mapsto> y)\<rparr>)))"

text \<open>\<open>update(values)\<close>: what was assigned before an error stays.\<close>

fun update_attrs :: "'v fields \<Rightarrow> (string \<times> 'v) list \<Rightarrow> 'v object \<Rightarrow> (exn + unit) \<times> 'v object" where
  "update_attrs F [] x = (Inr (), x)"
| "update_attrs F ((name, v) # kvs) x =
     (case set_attr F name v x of Inl e \<Rightarrow> (Inl e, x) | Inr y \<Rightarrow> update_attrs F kvs y)"

definition obj_what_changed :: "'v object \<Rightarrow> string set" where
  "obj_what_changed x = ob_changed x"

definition obj_get_changes :: "'v object \<Rightarrow> string \<Rightarrow> 'v option" where
  "obj_get_changes x = (ob_values x) |` ob_changed x"

text \<open>\<open>obj_reset_changes\<close>, of the object alone; names None or an empty list is everything.\<close>

definition obj_reset_changes :: "string list option \<Rightarrow> 'v object \<Rightarrow> 'v object" where
  "obj_reset_changes names x =
     (case names of
        Some (f # fs) \<Rightarrow> x\<lparr>ob_changed := ob_changed x - set (f # fs),
                            ob_original := ob_original x |` (- set (f # fs))\<rparr>
      | _ \<Rightarrow> x\<lparr>ob_changed := {}, ob_original := Map.empty\<rparr>)"

definition obj_get_original_value :: "string \<Rightarrow> 'v object \<Rightarrow> exn + 'v" where
  "obj_get_original_value name x =
     (case ob_original x name of
        Some v \<Rightarrow> Inr v
      | None \<Rightarrow> (case ob_values x name of Some v \<Rightarrow> Inr v | None \<Rightarrow> Inl PyKeyError))"

text \<open>\<open>validate\<close> on the fields that are values, in the order of the class: a coercion that raises
  and a required field that is not set are an InvalidObject.\<close>

fun validate_fields :: "'v fields \<Rightarrow> string list \<Rightarrow> 'v object \<Rightarrow> exn + unit" where
  "validate_fields F [] x = Inr ()"
| "validate_fields F (name # names) x =
     (case F name of
        None \<Rightarrow> validate_fields F names x
      | Some fd \<Rightarrow>
          (case ob_values x name of
             Some v \<Rightarrow>
               (case fd_coerce fd v of Inl e \<Rightarrow> Inl InvalidObject | Inr y \<Rightarrow> validate_fields F names x)
           | None \<Rightarrow> if fd_nullable fd then validate_fields F names x else Inl InvalidObject))"

section \<open>Dictionaries\<close>

text \<open>What an object holds: values, objects, and lists of objects, by field in the order of the class;
  and the dictionary that is made of it.\<close>

datatype 'v node = Leaf 'v | Object string "(string \<times> 'v node) list" | Object_list string "'v node list"

datatype 'v dict = Atom 'v | Dict "(string \<times> 'v dict) list" | List "'v dict list"

text \<open>The value of a field in the dictionary of its object: a list by \<open>to_list\<close>, an object by
  \<open>to_dict\<close>. The dictionary of a list itself has its items under \<open>objects\<close>.\<close>

fun as_item :: "'v node \<Rightarrow> 'v dict" where
  "as_item (Leaf v) = Atom v"
| "as_item (Object c fs) = Dict (map (\<lambda>(n, x). (n, as_item x)) fs)"
| "as_item (Object_list c xs) = List (map as_item xs)"

definition to_dict :: "'v node \<Rightarrow> 'v dict" where
  "to_dict x = (case x of Object_list c xs \<Rightarrow> Dict [(''objects'', as_item x)] | _ \<Rightarrow> as_item x)"

text \<open>A class: the coercion of each of its fields; of a relation the class it leads to; of a list the
  class of its items.\<close>

record 'v class_info =
  ci_coerce :: "string \<Rightarrow> ('v dict \<Rightarrow> exn + 'v) option"
  ci_relation :: "string \<Rightarrow> string option"
  ci_item :: "string option"

definition assign_value :: "'v class_info \<Rightarrow> string \<Rightarrow> 'v dict \<Rightarrow> exn + 'v node" where
  "assign_value ci n v =
     (case ci_coerce ci n of
        None \<Rightarrow> Inl PyAttributeError
      | Some k \<Rightarrow> (case k v of Inl e \<Rightarrow> Inl e | Inr y \<Rightarrow> Inr (Leaf y)))"

text \<open>\<open>from_dict\<close> and \<open>from_list\<close>: a relation becomes an object of its class or a list of it, any other
  value is assigned as it is; a value that is neither where a relation is wanted has no \<open>items\<close>.\<close>

fun from_dict :: "(string \<Rightarrow> 'v class_info) \<Rightarrow> string \<Rightarrow> 'v dict \<Rightarrow> exn + 'v node"
and from_items :: "(string \<Rightarrow> 'v class_info) \<Rightarrow> string \<Rightarrow> (string \<times> 'v dict) list
    \<Rightarrow> exn + (string \<times> 'v node) list"
and from_field :: "(string \<Rightarrow> 'v class_info) \<Rightarrow> string \<Rightarrow> string \<Rightarrow> 'v dict \<Rightarrow> exn + 'v node"
and from_list :: "(string \<Rightarrow> 'v class_info) \<Rightarrow> string \<Rightarrow> 'v dict list \<Rightarrow> exn + 'v node list" where
  "from_dict C c (Dict d) =
     (case from_items C c d of Inl e \<Rightarrow> Inl e | Inr fs \<Rightarrow> Inr (Object c fs))"
| "from_dict C c (Atom v) = Inl PyAttributeError"
| "from_dict C c (List xs) = Inl PyAttributeError"
| "from_items C c [] = Inr []"
| "from_items C c ((n, v) # d) =
     (case from_field C c n v of
        Inl e \<Rightarrow> Inl e
      | Inr x \<Rightarrow> (case from_items C c d of Inl e \<Rightarrow> Inl e | Inr fs \<Rightarrow> Inr ((n, x) # fs)))"
| "from_field C c n (List xs) =
     (case ci_relation (C c) n of
        Some r \<Rightarrow>
          (case ci_item (C r) of
             None \<Rightarrow> Inl (OtherError ''NotImplementedError'')
           | Some i \<Rightarrow> (case from_list C i xs of Inl e \<Rightarrow> Inl e | Inr ys \<Rightarrow> Inr (Object_list r ys)))
      | None \<Rightarrow> assign_value (C c) n (List xs))"
| "from_field C c n (Dict d) =
     (case ci_relation (C c) n of
        Some r \<Rightarrow> (case from_items C r d of Inl e \<Rightarrow> Inl e | Inr fs \<Rightarrow> Inr (Object r fs))
      | None \<Rightarrow> assign_value (C c) n (Dict d))"
| "from_field C c n (Atom v) =
     (case ci_relation (C c) n of
        Some r \<Rightarrow> Inl PyAttributeError
      | None \<Rightarrow> assign_value (C c) n (Atom v))"
| "from_list C i [] = Inr []"
| "from_list C i (x # xs) =
     (case from_dict C i x of
        Inl e \<Rightarrow> Inl e
      | Inr y \<Rightarrow> (case from_list C i xs of Inl e \<Rightarrow> Inl e | Inr ys \<Rightarrow> Inr (y # ys)))"

section \<open>Attribute lists\<close>

text \<open>\<open>AttributeListObjectMixin\<close>: the list is read as a dictionary, in which the last value of a key
  wins, and by \<open>get\<close>, which returns the first.\<close>

definition attributes_to_dict :: "(string \<times> 'v) list \<Rightarrow> string \<Rightarrow> 'v option" where
  "attributes_to_dict items = map_of (rev items)"

definition attributes_get :: "string \<Rightarrow> (string \<times> 'v) list \<Rightarrow> 'v option" where
  "attributes_get key items = map_of items key"

lemma attributes_dict_get:
  "distinct (map fst items) \<Longrightarrow> attributes_to_dict items key = attributes_get key items"
  unfolding attributes_to_dict_def attributes_get_def
  by (metis distinct_rev map_of_inject_set rev_map set_rev)

section \<open>Change tracking\<close>

text \<open>The values a field stores are those its coercion leaves alone.\<close>

definition stable_fields :: "'v fields \<Rightarrow> bool" where
  "stable_fields F \<longleftrightarrow> (\<forall>n fd v y. F n = Some fd \<longrightarrow> fd_coerce fd v = Inr y \<longrightarrow> fd_coerce fd y = Inr y)"

definition holds_stored :: "'v fields \<Rightarrow> 'v object \<Rightarrow> bool" where
  "holds_stored F x \<longleftrightarrow> (\<forall>n fd v. F n = Some fd \<longrightarrow> ob_values x n = Some v \<longrightarrow> fd_coerce fd v = Inr v)"

text \<open>What is known of an object at any time after it was loaded with the values \<open>row\<close>.\<close>

definition tracks :: "'v fields \<Rightarrow> (string \<Rightarrow> 'v option) \<Rightarrow> 'v object \<Rightarrow> bool" where
  "tracks F row x \<longleftrightarrow> holds_stored F x \<and>
     (\<forall>n. n \<notin> ob_changed x \<longrightarrow> ob_values x n = row n \<and> ob_original x n = None) \<and>
     (\<forall>n. n \<in> ob_changed x \<longrightarrow> ob_values x n \<noteq> None) \<and>
     (\<forall>n v. row n = Some v \<longrightarrow> ob_original x n = Some v \<or> ob_original x n = None \<and> ob_values x n = Some v)"

lemma tracks_set_attr:
  assumes "tracks F row x" "set_attr F name v x = Inr y" "stable_fields F"
  shows "tracks F row y"
proof (cases "x = y")
  case True
  with assms(1) show ?thesis by simp
next
  case False
  from assms(2) False obtain fd c where fd: "F name = Some fd" "fd_coerce fd v = Inr c"
    and y: "y = (let x1 = remember name v (x\<lparr>ob_changed := insert name (ob_changed x)\<rparr>)
                 in x1\<lparr>ob_values := (ob_values x1)(name \<mapsto> c)\<rparr>)"
    by (auto simp: set_attr_def Let_def split: option.splits sum.splits if_splits)
  have vals: "ob_values y = (ob_values x)(name \<mapsto> c)" "ob_changed y = insert name (ob_changed x)"
    by (auto simp: y Let_def remember_def)
  have orig: "ob_original y = (if ob_values x name \<noteq> None \<and> Some v \<noteq> ob_values x name \<and> ob_original x name = None
      then (ob_original x)(name := ob_values x name) else ob_original x)"
    by (auto simp: y Let_def remember_def obj_attr_is_set_def)
  have stable: "fd_coerce fd c = Inr c" using assms(3) fd by (auto simp: stable_fields_def)
  have same: "c = u" if "ob_values x name = Some u" "u = v" for u
    using assms(1) fd that by (auto simp: tracks_def holds_stored_def)
  show ?thesis
    unfolding tracks_def
  proof (intro conjI)
    show "holds_stored F y"
      using assms(1) stable fd by (auto simp: tracks_def holds_stored_def vals)
    show "\<forall>n. n \<notin> ob_changed y \<longrightarrow> ob_values y n = row n \<and> ob_original y n = None"
      using assms(1) by (auto simp: tracks_def vals orig)
    show "\<forall>n. n \<in> ob_changed y \<longrightarrow> ob_values y n \<noteq> None"
      using assms(1) by (auto simp: tracks_def vals)
    show "\<forall>n v. row n = Some v \<longrightarrow> ob_original y n = Some v \<or> ob_original y n = None \<and> ob_values y n = Some v"
    proof (intro allI impI)
      fix n u
      assume "row n = Some u"
      then have "ob_original x n = Some u \<or> ob_original x n = None \<and> ob_values x n = Some u"
        using assms(1) unfolding tracks_def by blast
      then show "ob_original y n = Some u \<or> ob_original y n = None \<and> ob_values y n = Some u"
        using same by (cases "n = name") (auto simp: vals orig)
    qed
  qed
qed

lemma tracks_update:
  "tracks F row x \<Longrightarrow> stable_fields F \<Longrightarrow> tracks F row (snd (update_attrs F kvs x))"
proof (induction F kvs x rule: update_attrs.induct)
  case (1 F x)
  then show ?case by simp
next
  case (2 F name v kvs x)
  then show ?case using tracks_set_attr [OF 2(2)] by (auto split: sum.splits)
qed

text \<open>C33: The changed fields are what has to be written, and original values survive every assignment. Let an
  object be loaded with the values of a row and then be assigned to, in any order, any number of times,
  some assignments failing. Writing its changes over the row gives exactly the values it has now; the
  original value of a field that the row had is still the one of the row; and an original value is
  missing, which is how central and the storage tell new objects from loaded ones, just for a field
  that has no value at all.\<close>

theorem changes_write_back:
  assumes "stable_fields F" "holds_stored F x" "row = ob_values x"
    "y = snd (update_attrs F kvs (obj_reset_changes None x))"
  shows "row ++ obj_get_changes y = ob_values y \<and>
    (\<forall>n v. row n = Some v \<longrightarrow> obj_get_original_value n y = Inr v) \<and>
    (\<forall>n. obj_get_original_value n y = Inl PyKeyError \<longleftrightarrow> \<not> obj_attr_is_set n y)"
proof -
  have "tracks F row (obj_reset_changes None x)"
    using assms(2,3) by (auto simp: tracks_def holds_stored_def obj_reset_changes_def)
  then have t: "tracks F row y" using tracks_update assms(1,4) by blast
  have written: "row ++ obj_get_changes y = ob_values y"
  proof
    fix n
    show "(row ++ obj_get_changes y) n = ob_values y n"
      using t by (cases "n \<in> ob_changed y")
        (auto simp: obj_get_changes_def tracks_def map_add_def restrict_map_def split: option.splits)
  qed
  have kept: "ob_values y n \<noteq> None" if "ob_original y n \<noteq> None" for n
    using t that by (cases "n \<in> ob_changed y") (auto simp: tracks_def)
  have loaded: "obj_get_original_value n y = Inr v" if "row n = Some v" for n v
  proof -
    from t that have "ob_original y n = Some v \<or> ob_original y n = None \<and> ob_values y n = Some v"
      unfolding tracks_def by blast
    then show ?thesis by (auto simp: obj_get_original_value_def)
  qed
  have fresh: "obj_get_original_value n y = Inl PyKeyError \<longleftrightarrow> \<not> obj_attr_is_set n y" for n
    using kept [of n] by (auto simp: obj_get_original_value_def obj_attr_is_set_def split: option.splits)
  show ?thesis using written loaded fresh by blast
qed

text \<open>A class with a number and a read-only identifier; the assignment to the identifier fails, the one
  before it stays.\<close>

definition sample_fields :: "int fields" where
  "sample_fields name =
     (if name = ''ttl'' then Some \<lparr>fd_coerce = (\<lambda>v. if v < 0 then Inl PyValueError else Inr v),
        fd_read_only = False, fd_nullable = True, fd_relation = False\<rparr>
      else if name = ''id'' then Some \<lparr>fd_coerce = Inr, fd_read_only = True, fd_nullable = True,
        fd_relation = False\<rparr>
      else None)"

definition sample_object :: "int object" where
  "sample_object = new_object\<lparr>ob_values := [''ttl'' \<mapsto> 5, ''id'' \<mapsto> 1]\<rparr>"

lemma sample_fields_stable: "stable_fields sample_fields" "holds_stored sample_fields sample_object"
  by (auto simp: stable_fields_def holds_stored_def sample_fields_def sample_object_def new_object_def
      split: if_splits)

theorem changes_write_back_witness:
  "\<exists>y. y = snd (update_attrs sample_fields [(''ttl'', 7), (''ttl'', 9), (''id'', 2), (''ttl'', 3)]
      (obj_reset_changes None sample_object)) \<and>
    ob_values y ''ttl'' = Some 9 \<and> ob_values sample_object ++ obj_get_changes y = ob_values y \<and>
    obj_get_original_value ''ttl'' y = Inr 5"
proof -
  let ?y = "snd (update_attrs sample_fields [(''ttl'', 7), (''ttl'', 9), (''id'', 2), (''ttl'', 3)]
      (obj_reset_changes None sample_object))"
  have "ob_values ?y ''ttl'' = Some 9" "ob_values sample_object ''ttl'' = Some 5" by code_simp+
  then show ?thesis
    using changes_write_back [OF sample_fields_stable refl refl, of "[(''ttl'', 7), (''ttl'', 9), (''id'', 2), (''ttl'', 3)]"]
    by blast
qed

text \<open>The objects that a class describes: the fields are those of the class, with values their
  coercions leave alone; a relation is an object of its class, or a list of its class with items of
  the class of its items.\<close>

fun described :: "(string \<Rightarrow> 'v class_info) \<Rightarrow> string \<Rightarrow> 'v node \<Rightarrow> bool"
and described_fields :: "(string \<Rightarrow> 'v class_info) \<Rightarrow> string \<Rightarrow> (string \<times> 'v node) list \<Rightarrow> bool"
and described_value :: "(string \<Rightarrow> 'v class_info) \<Rightarrow> string \<Rightarrow> string \<Rightarrow> 'v node \<Rightarrow> bool"
and described_items :: "(string \<Rightarrow> 'v class_info) \<Rightarrow> string \<Rightarrow> 'v node list \<Rightarrow> bool" where
  "described C c (Object d fs) \<longleftrightarrow> d = c \<and> described_fields C c fs"
| "described C c (Leaf v) \<longleftrightarrow> False"
| "described C c (Object_list d xs) \<longleftrightarrow> False"
| "described_fields C c [] \<longleftrightarrow> True"
| "described_fields C c ((n, x) # fs) \<longleftrightarrow> described_value C c n x \<and> described_fields C c fs"
| "described_value C c n (Leaf v) \<longleftrightarrow>
     ci_relation (C c) n = None \<and> assign_value (C c) n (Atom v) = Inr (Leaf v)"
| "described_value C c n (Object d fs) \<longleftrightarrow> ci_relation (C c) n = Some d \<and> described_fields C d fs"
| "described_value C c n (Object_list d xs) \<longleftrightarrow>
     ci_relation (C c) n = Some d \<and> (case ci_item (C d) of None \<Rightarrow> False | Some i \<Rightarrow> described_items C i xs)"
| "described_items C i [] \<longleftrightarrow> True"
| "described_items C i (x # xs) \<longleftrightarrow> described C i x \<and> described_items C i xs"

lemma from_dict_as_item:
  "described C c x \<Longrightarrow> from_dict C c (as_item x) = Inr x"
  "described_fields C c fs \<Longrightarrow> from_items C c (map (\<lambda>(n, x). (n, as_item x)) fs) = Inr fs"
  "described_value C c n x \<Longrightarrow> from_field C c n (as_item x) = Inr x"
  "described_items C c xs \<Longrightarrow> from_list C c (map as_item xs) = Inr xs"
  by (induction C c x and C c fs and C c n x and C c xs
      rule: described_described_fields_described_value_described_items.induct)
    (auto split: option.splits)

text \<open>An object and its dictionary are two forms of one thing. Taking the dictionary of an object
  and building an object of its class from it gives the object back, with its relations at any depth and
  the lists in them in their order. But no list comes back that way: the dictionary of a list has its
  items under \<open>objects\<close>, a relation to the class of the items, and that class is not a list.\<close>

theorem dict_round_trip:
  "(\<forall>c x. described C c x \<longrightarrow> from_dict C c (to_dict x) = Inr x) \<and>
   (\<forall>c i xs. ci_relation (C c) ''objects'' = Some i \<longrightarrow> ci_item (C i) = None \<longrightarrow>
      from_dict C c (to_dict (Object_list c xs)) = Inl (OtherError ''NotImplementedError''))"
proof (intro conjI allI impI)
  fix c :: string and x :: "'a node"
  assume d: "described C c x"
  then have "to_dict x = as_item x" by (cases x) (auto simp: to_dict_def)
  then show "from_dict C c (to_dict x) = Inr x" using from_dict_as_item(1) [OF d] by simp
qed (simp add: to_dict_def)

text \<open>A zone with a list of masters.\<close>

definition sample_classes :: "string \<Rightarrow> int class_info" where
  "sample_classes c =
     (if c = ''Zone'' then \<lparr>ci_coerce = (\<lambda>n. if n = ''ttl'' then Some (\<lambda>v. case v of Atom k \<Rightarrow> Inr k | _ \<Rightarrow> Inl PyValueError) else None),
        ci_relation = (\<lambda>n. if n = ''masters'' then Some ''MasterList'' else None), ci_item = None\<rparr>
      else if c = ''MasterList'' then \<lparr>ci_coerce = Map.empty,
        ci_relation = (\<lambda>n. if n = ''objects'' then Some ''Master'' else None), ci_item = Some ''Master''\<rparr>
      else \<lparr>ci_coerce = (\<lambda>n. if n = ''port'' then Some (\<lambda>v. case v of Atom k \<Rightarrow> Inr k | _ \<Rightarrow> Inl PyValueError) else None),
        ci_relation = Map.empty, ci_item = None\<rparr>)"

definition sample_masters :: "int node" where
  "sample_masters = Object_list ''MasterList'' [Object ''Master'' [(''port'', Leaf 53)], Object ''Master'' [(''port'', Leaf 54)]]"

theorem dict_round_trip_witness:
  "from_dict sample_classes ''Zone'' (to_dict (Object ''Zone'' [(''ttl'', Leaf 5), (''masters'', sample_masters)]))
     = Inr (Object ''Zone'' [(''ttl'', Leaf 5), (''masters'', sample_masters)]) \<and>
   from_dict sample_classes ''MasterList'' (to_dict sample_masters) = Inl (OtherError ''NotImplementedError'')"
proof -
  have "described sample_classes ''Zone'' (Object ''Zone'' [(''ttl'', Leaf 5), (''masters'', sample_masters)])"
    "ci_relation (sample_classes ''MasterList'') ''objects'' = Some ''Master''"
    "ci_item (sample_classes ''Master'') = None"
    by (simp_all add: sample_classes_def sample_masters_def assign_value_def)
  then show ?thesis using dict_round_trip [of sample_classes] by (simp add: sample_masters_def)
qed

end
