(* ===== verification/AdapterTables.thy ===== *)
theory AdapterTables
  imports Prelude
begin

text \<open>
  The tables of the adapters of the API, \<open>objects/adapters/api_v2/\<close>: for each class of objects the keys a
  client sees, the attribute each stands for when it has another name, which can be written, which
  only once, which are shown to everybody; and the options of the class. \<open>Adapters\<close> interprets them.
\<close>

section \<open>Adapters as data\<close>

text \<open>The properties of a key, with the defaults the code reads where a property is missing.\<close>

record key_props =
  kp_rename :: "string option"
  kp_immutable :: bool
  kp_read_only :: bool
  kp_protected :: bool

definition ro :: key_props where
  "ro = \<lparr>kp_rename = None, kp_immutable = False, kp_read_only = True, kp_protected = True\<rparr>"

abbreviation rw :: key_props where "rw \<equiv> ro\<lparr>kp_read_only := False\<rparr>"
abbreviation once :: key_props where "once \<equiv> ro\<lparr>kp_immutable := True\<rparr>"
abbreviation renamed :: "string \<Rightarrow> key_props \<Rightarrow> key_props" where
  "renamed n p \<equiv> p\<lparr>kp_rename := Some n\<rparr>"
abbreviation shown :: "key_props \<Rightarrow> key_props" where "shown p \<equiv> p\<lparr>kp_protected := False\<rparr>"

text \<open>An adapter: its keys (a list has none) and its options.\<close>

record adapter =
  ad_keys :: "(string \<times> key_props) list"
  ad_links :: bool
  ad_next :: bool
  ad_resource :: string
  ad_collection :: string

abbreviation list_adapter :: "bool \<Rightarrow> string \<Rightarrow> string \<Rightarrow> adapter" where
  "list_adapter links resource collection \<equiv>
     \<lparr>ad_keys = [], ad_links = links, ad_next = True, ad_resource = resource, ad_collection = collection\<rparr>"

section \<open>The tables\<close>

definition blacklist_adapter :: adapter where
  "blacklist_adapter = \<lparr>ad_keys = [
       (''id'', ro), (''pattern'', rw), (''description'', rw), (''created_at'', ro),
       (''updated_at'', ro)],
     ad_links = True, ad_next = True, ad_resource = ''blacklist'', ad_collection = ''blacklists''\<rparr>"

definition blacklist_list_adapter :: adapter where
  "blacklist_list_adapter = list_adapter True ''blacklist'' ''blacklists''"

definition floating_ip_adapter :: adapter where
  "floating_ip_adapter = \<lparr>ad_keys = [
       (''id'', renamed ''key'' ro), (''description'', rw), (''address'', ro), (''ptrdname'', rw),
       (''ttl'', rw), (''action'', ro), (''status'', ro)],
     ad_links = True, ad_next = True, ad_resource = ''floatingip'', ad_collection = ''floatingips''\<rparr>"

definition floating_ip_list_adapter :: adapter where
  "floating_ip_list_adapter = (list_adapter True ''floatingip'' ''floatingips'')\<lparr>ad_next := False\<rparr>"

definition pool_adapter :: adapter where
  "pool_adapter = \<lparr>ad_keys = [
       (''id'', ro), (''project_id'', renamed ''tenant_id'' once), (''name'', rw),
       (''description'', rw), (''attributes'', rw), (''ns_records'', rw), (''created_at'', ro),
       (''updated_at'', ro)],
     ad_links = True, ad_next = True, ad_resource = ''pool'', ad_collection = ''pools''\<rparr>"

definition pool_list_adapter :: adapter where
  "pool_list_adapter = list_adapter True ''pool'' ''pools''"

definition pool_attribute_adapter :: adapter where
  "pool_attribute_adapter = \<lparr>ad_keys = [
       (''key'', rw), (''value'', rw)],
     ad_links = False, ad_next = True, ad_resource = ''pool_attribute'', ad_collection = ''pool_attributes''\<rparr>"

definition pool_attribute_list_adapter :: adapter where
  "pool_attribute_list_adapter = list_adapter False ''pool_attribute'' ''pool_attributes''"

definition pool_ns_record_adapter :: adapter where
  "pool_ns_record_adapter = \<lparr>ad_keys = [
       (''priority'', rw), (''hostname'', rw)],
     ad_links = False, ad_next = True, ad_resource = ''ns_record'', ad_collection = ''ns_records''\<rparr>"

definition pool_ns_record_list_adapter :: adapter where
  "pool_ns_record_list_adapter = list_adapter False ''ns_record'' ''ns_records''"

definition quota_adapter :: adapter where
  "quota_adapter = \<lparr>ad_keys = [
       (''resource'', rw), (''hard_limit'', rw)],
     ad_links = True, ad_next = True, ad_resource = ''quota'', ad_collection = ''quotas''\<rparr>"

definition quota_list_adapter :: adapter where
  "quota_list_adapter = list_adapter True ''quota'' ''quotas''"

definition record_adapter :: adapter where
  "record_adapter = \<lparr>ad_keys = [
       (''data'', rw)],
     ad_links = False, ad_next = True, ad_resource = ''record'', ad_collection = ''records''\<rparr>"

definition record_list_adapter :: adapter where
  "record_list_adapter = list_adapter False ''record'' ''records''"

definition record_set_adapter :: adapter where
  "record_set_adapter = \<lparr>ad_keys = [
       (''id'', ro), (''zone_id'', ro), (''project_id'', renamed ''tenant_id'' ro),
       (''name'', once), (''zone_name'', ro), (''type'', renamed ''type'' once), (''records'', rw),
       (''description'', rw), (''ttl'', rw), (''status'', ro), (''action'', ro), (''version'', ro),
       (''created_at'', ro), (''updated_at'', ro)],
     ad_links = True, ad_next = True, ad_resource = ''recordset'', ad_collection = ''recordsets''\<rparr>"

definition record_set_list_adapter :: adapter where
  "record_set_list_adapter = list_adapter True ''recordset'' ''recordsets''"

definition service_status_adapter :: adapter where
  "service_status_adapter = \<lparr>ad_keys = [
       (''id'', ro), (''hostname'', ro), (''service_name'', ro), (''status'', ro), (''stats'', ro),
       (''capabilities'', ro), (''heartbeated_at'', ro), (''created_at'', ro), (''updated_at'', ro)],
     ad_links = True, ad_next = True, ad_resource = ''service_status'', ad_collection = ''service_statuses''\<rparr>"

definition service_status_list_adapter :: adapter where
  "service_status_list_adapter = list_adapter True ''service_status'' ''service_statuses''"

definition shared_zone_adapter :: adapter where
  "shared_zone_adapter = \<lparr>ad_keys = [
       (''id'', ro), (''zone_id'', ro), (''project_id'', ro), (''target_project_id'', once),
       (''created_at'', ro), (''updated_at'', ro)],
     ad_links = True, ad_next = True, ad_resource = ''shared_zone'', ad_collection = ''shared_zones''\<rparr>"

definition shared_zone_list_adapter :: adapter where
  "shared_zone_list_adapter = list_adapter True ''shared_zone'' ''shared_zones''"

definition tld_adapter :: adapter where
  "tld_adapter = \<lparr>ad_keys = [
       (''id'', ro), (''name'', rw), (''description'', rw), (''created_at'', ro),
       (''updated_at'', ro)],
     ad_links = True, ad_next = True, ad_resource = ''tld'', ad_collection = ''tlds''\<rparr>"

definition tld_list_adapter :: adapter where
  "tld_list_adapter = list_adapter True ''tld'' ''tlds''"

definition tsig_key_adapter :: adapter where
  "tsig_key_adapter = \<lparr>ad_keys = [
       (''id'', ro), (''name'', rw), (''algorithm'', rw), (''secret'', rw), (''scope'', rw),
       (''resource_id'', rw), (''created_at'', ro), (''updated_at'', ro)],
     ad_links = True, ad_next = True, ad_resource = ''tsigkey'', ad_collection = ''tsigkeys''\<rparr>"

definition tsig_key_list_adapter :: adapter where
  "tsig_key_list_adapter = list_adapter True ''tsigkey'' ''tsigkeys''"

definition validation_error_adapter :: adapter where
  "validation_error_adapter = \<lparr>ad_keys = [
       (''path'', ro), (''message'', ro), (''validator'', ro), (''validator_value'', ro)],
     ad_links = False, ad_next = True, ad_resource = ''error'', ad_collection = ''errors''\<rparr>"

definition validation_error_list_adapter :: adapter where
  "validation_error_list_adapter = list_adapter False ''error'' ''errors''"

definition zone_adapter :: adapter where
  "zone_adapter = \<lparr>ad_keys = [
       (''id'', ro), (''pool_id'', rw), (''project_id'', renamed ''tenant_id'' ro),
       (''name'', once), (''email'', rw), (''description'', rw), (''ttl'', rw), (''serial'', ro),
       (''shared'', ro), (''status'', ro), (''action'', ro), (''version'', ro),
       (''attributes'', once), (''type'', once), (''masters'', ro), (''created_at'', ro),
       (''updated_at'', ro), (''transferred_at'', ro)],
     ad_links = True, ad_next = True, ad_resource = ''zone'', ad_collection = ''zones''\<rparr>"

definition zone_list_adapter :: adapter where
  "zone_list_adapter = list_adapter True ''zone'' ''zones''"

definition zone_attribute_adapter :: adapter where
  "zone_attribute_adapter = \<lparr>ad_keys = [
       (''key'', rw), (''value'', rw)],
     ad_links = False, ad_next = True, ad_resource = ''pool_attribute'', ad_collection = ''pool_attributes''\<rparr>"

definition zone_attribute_list_adapter :: adapter where
  "zone_attribute_list_adapter = list_adapter False ''zone_attribute'' ''zone_attributes''"

definition zone_export_adapter :: adapter where
  "zone_export_adapter = \<lparr>ad_keys = [
       (''id'', ro), (''status'', ro), (''message'', ro), (''location'', ro), (''zone_id'', ro),
       (''project_id'', renamed ''tenant_id'' ro), (''created_at'', ro), (''updated_at'', ro),
       (''version'', ro)],
     ad_links = True, ad_next = True, ad_resource = ''export'', ad_collection = ''exports''\<rparr>"

definition zone_export_list_adapter :: adapter where
  "zone_export_list_adapter = list_adapter True ''export'' ''exports''"

definition zone_import_adapter :: adapter where
  "zone_import_adapter = \<lparr>ad_keys = [
       (''id'', ro), (''status'', ro), (''message'', ro), (''zone_id'', ro),
       (''project_id'', renamed ''tenant_id'' ro), (''created_at'', ro), (''updated_at'', ro),
       (''version'', ro)],
     ad_links = True, ad_next = True, ad_resource = ''import'', ad_collection = ''imports''\<rparr>"

definition zone_import_list_adapter :: adapter where
  "zone_import_list_adapter = list_adapter True ''import'' ''imports''"

definition zone_master_adapter :: adapter where
  "zone_master_adapter = \<lparr>ad_keys = [
       (''value'', rw)],
     ad_links = False, ad_next = True, ad_resource = ''domain_master'', ad_collection = ''domain_masters''\<rparr>"

definition zone_master_list_adapter :: adapter where
  "zone_master_list_adapter = list_adapter False ''domain_master'' ''domain_masters''"

definition zone_transfer_accept_adapter :: adapter where
  "zone_transfer_accept_adapter = \<lparr>ad_keys = [
       (''id'', ro), (''zone_transfer_request_id'', once),
       (''project_id'', renamed ''tenant_id'' ro), (''key'', rw), (''status'', ro),
       (''zone_id'', ro), (''created_at'', ro), (''updated_at'', ro)],
     ad_links = True, ad_next = True, ad_resource = ''transfer_accept'', ad_collection = ''transfer_accepts''\<rparr>"

definition zone_transfer_accept_list_adapter :: adapter where
  "zone_transfer_accept_list_adapter = list_adapter True ''transfer_accept'' ''transfer_accepts''"

definition zone_transfer_request_adapter :: adapter where
  "zone_transfer_request_adapter = \<lparr>ad_keys = [
       (''id'', shown ro), (''zone_id'', shown once), (''project_id'', renamed ''tenant_id'' ro),
       (''target_project_id'', renamed ''target_tenant_id'' once), (''description'', shown rw),
       (''key'', ro), (''status'', shown ro), (''zone_name'', shown once), (''created_at'', ro),
       (''updated_at'', ro)],
     ad_links = True, ad_next = True, ad_resource = ''transfer_request'', ad_collection = ''transfer_requests''\<rparr>"

definition zone_transfer_request_list_adapter :: adapter where
  "zone_transfer_request_list_adapter = list_adapter True ''transfer_request'' ''transfer_requests''"

section \<open>The registry\<close>

text \<open>The registry of the format \<open>API_v2\<close>, by the name of the class.\<close>

definition api_v2_adapters :: "(string \<times> adapter) list" where
  "api_v2_adapters = [
     (''Blacklist'', blacklist_adapter),
     (''BlacklistList'', blacklist_list_adapter),
     (''FloatingIP'', floating_ip_adapter),
     (''FloatingIPList'', floating_ip_list_adapter),
     (''Pool'', pool_adapter),
     (''PoolList'', pool_list_adapter),
     (''PoolAttribute'', pool_attribute_adapter),
     (''PoolAttributeList'', pool_attribute_list_adapter),
     (''PoolNsRecord'', pool_ns_record_adapter),
     (''PoolNsRecordList'', pool_ns_record_list_adapter),
     (''Quota'', quota_adapter),
     (''QuotaList'', quota_list_adapter),
     (''Record'', record_adapter),
     (''RecordList'', record_list_adapter),
     (''RecordSet'', record_set_adapter),
     (''RecordSetList'', record_set_list_adapter),
     (''ServiceStatus'', service_status_adapter),
     (''ServiceStatusList'', service_status_list_adapter),
     (''SharedZone'', shared_zone_adapter),
     (''SharedZoneList'', shared_zone_list_adapter),
     (''Tld'', tld_adapter),
     (''TldList'', tld_list_adapter),
     (''TsigKey'', tsig_key_adapter),
     (''TsigKeyList'', tsig_key_list_adapter),
     (''ValidationError'', validation_error_adapter),
     (''ValidationErrorList'', validation_error_list_adapter),
     (''Zone'', zone_adapter),
     (''ZoneList'', zone_list_adapter),
     (''ZoneAttribute'', zone_attribute_adapter),
     (''ZoneAttributeList'', zone_attribute_list_adapter),
     (''ZoneExport'', zone_export_adapter),
     (''ZoneExportList'', zone_export_list_adapter),
     (''ZoneImport'', zone_import_adapter),
     (''ZoneImportList'', zone_import_list_adapter),
     (''ZoneMaster'', zone_master_adapter),
     (''ZoneMasterList'', zone_master_list_adapter),
     (''ZoneTransferAccept'', zone_transfer_accept_adapter),
     (''ZoneTransferAcceptList'', zone_transfer_accept_list_adapter),
     (''ZoneTransferRequest'', zone_transfer_request_adapter),
     (''ZoneTransferRequestList'', zone_transfer_request_list_adapter)]"

definition get_object_adapter :: "string \<Rightarrow> exn + adapter" where
  "get_object_adapter c =
     (case map_of api_v2_adapters c of
        None \<Rightarrow> Inl (OtherError ''AdapterNotFound'') | Some ad \<Rightarrow> Inr ad)"

end
