(* ===== verification/Adapters.thy ===== *)
theory Adapters
  imports ObjectBase Dnsutils AdapterTables
begin

text \<open>
  The adapters between what clients send and see and the objects, \<open>objects/adapters/base.py\<close> and
  \<open>objects/adapters/api_v2/\<close>, over the tables of \<open>AdapterTables\<close> and the objects of \<open>ObjectBase\<close>. Parsing
  sets attributes of an object from a decoded JSON document; rendering goes the other way. The classes
  of the objects (their fields, coercions and computed attributes) are an argument. The order in which
  Python walks a set is an argument too.
\<close>

section \<open>Python values\<close>

text \<open>JSON values, times, objects by their class and the attributes that are set, and lists of objects
  with their total count. A float is \<open>m / 2 ^ e\<close> in lowest terms, with what \<open>repr\<close> prints for it; \<open>NaN\<close> and
  the infinities, which are not JSON, are left out.\<close>

datatype pyval =
  PNone | PBool bool | PInt int | PFloat int nat string | PStr string | PTime int | PList "pyval list"
| PDict "(string \<times> pyval) list" | PObj string "(string \<times> pyval) list"
| PObjs string "pyval list" "int option"

fun truthy :: "pyval \<Rightarrow> bool" where
  "truthy PNone = False"
| "truthy (PBool b) = b"
| "truthy (PInt n) = (n \<noteq> 0)"
| "truthy (PFloat m e r) = (m \<noteq> 0)"
| "truthy (PStr s) = (s \<noteq> [])"
| "truthy (PTime t) = True"
| "truthy (PList xs) = (xs \<noteq> [])"
| "truthy (PDict d) = (d \<noteq> [])"
| "truthy (PObj c fs) = True"
| "truthy (PObjs c xs n) = (xs \<noteq> [])"

text \<open>\<open>==\<close> between an attribute and a JSON value: truth values count as numbers, numbers are compared
  by their value (\<open>5 == 5.0\<close>), dictionaries are compared
  without their order, and nothing in JSON is equal to an object.\<close>

fun number :: "pyval \<Rightarrow> (int \<times> nat) option" where
  "number (PInt n) = Some (n, 0)"
| "number (PBool b) = Some (if b then 1 else 0, 0)"
| "number (PFloat m e r) = Some (m, e)"
| "number _ = None"

fun py_eq :: "pyval \<Rightarrow> pyval \<Rightarrow> bool"
and py_eq_list :: "pyval list \<Rightarrow> pyval list \<Rightarrow> bool"
and py_sub_dict :: "(string \<times> pyval) list \<Rightarrow> (string \<times> pyval) list \<Rightarrow> bool" where
  "py_eq PNone w = (w = PNone)"
| "py_eq (PBool b) w = (number w = number (PBool b))"
| "py_eq (PInt n) w = (number w = number (PInt n))"
| "py_eq (PFloat m e r) w = (number w = number (PFloat m e r))"
| "py_eq (PStr s) w = (w = PStr s)"
| "py_eq (PTime t) w = (w = PTime t)"
| "py_eq (PList xs) w = (case w of PList ys \<Rightarrow> py_eq_list xs ys | _ \<Rightarrow> False)"
| "py_eq (PDict d) w = (case w of PDict e \<Rightarrow> length d = length e \<and> py_sub_dict d e | _ \<Rightarrow> False)"
| "py_eq (PObj c fs) w = False"
| "py_eq (PObjs c xs n) w = False"
| "py_eq_list [] ys = (ys = [])"
| "py_eq_list (x # xs) ys = (case ys of [] \<Rightarrow> False | y # zs \<Rightarrow> py_eq x y \<and> py_eq_list xs zs)"
| "py_sub_dict [] e = True"
| "py_sub_dict ((k, v) # d) e =
     ((case map_of e k of None \<Rightarrow> False | Some w \<Rightarrow> py_eq v w) \<and> py_sub_dict d e)"

section \<open>Classes\<close>

record obj_class =
  oc_names :: "string list"
  oc_fields :: "pyval fields"
  oc_relation :: "string \<Rightarrow> string option"
  oc_datetime :: "string \<Rightarrow> bool"
  oc_computed :: "string \<Rightarrow> ((string \<Rightarrow> pyval option) \<Rightarrow> exn + pyval) option"
  oc_item :: "string option"
  oc_paged :: bool

type_synonym classes = "string \<Rightarrow> obj_class"

text \<open>\<open>getattr(obj, name)\<close>: a field, with the error of a relation that is not loaded, or a property.\<close>

definition read_attr :: "classes \<Rightarrow> string \<Rightarrow> string \<Rightarrow> (string \<Rightarrow> pyval option) \<Rightarrow> exn + pyval" where
  "read_attr C c name vals =
     (case oc_fields (C c) name of
        Some fd \<Rightarrow>
          if oc_relation (C c) name \<noteq> None \<and> vals name = None then Inl (RelationNotLoaded name)
          else Inr (case vals name of Some v \<Rightarrow> v | None \<Rightarrow> PNone)
      | None \<Rightarrow>
          (case oc_computed (C c) name of Some f \<Rightarrow> f vals | None \<Rightarrow> Inl PyAttributeError))"

text \<open>\<open>getattr(obj, name, default)\<close>.\<close>

definition read_attr_or ::
  "pyval \<Rightarrow> classes \<Rightarrow> string \<Rightarrow> string \<Rightarrow> (string \<Rightarrow> pyval option) \<Rightarrow> exn + pyval" where
  "read_attr_or d C c name vals =
     (case read_attr C c name vals of Inl PyAttributeError \<Rightarrow> Inr d | r \<Rightarrow> r)"

definition freeze :: "classes \<Rightarrow> string \<Rightarrow> pyval object \<Rightarrow> pyval" where
  "freeze C c x =
     PObj c (List.map_filter (\<lambda>n. map_option (\<lambda>v. (n, v)) (ob_values x n)) (oc_names (C c)))"

section \<open>Parsing\<close>

definition attribute_of :: "string \<Rightarrow> key_props \<Rightarrow> string" where
  "attribute_of key p = (case kp_rename p of Some n \<Rightarrow> n | None \<Rightarrow> key)"

text \<open>What the checks before an assignment decide: go on, refuse the key and stop, or an error.\<close>

definition may_set ::
  "classes \<Rightarrow> string \<Rightarrow> key_props \<Rightarrow> string \<Rightarrow> pyval \<Rightarrow> pyval object \<Rightarrow> exn + bool" where
  "may_set C c p name w x =
     (if kp_immutable p then
        (case read_attr_or (PBool False) C c name (ob_values x) of
           Inl e \<Rightarrow> Inl e | Inr cur \<Rightarrow> Inr (\<not> (truthy cur \<and> \<not> py_eq cur w)))
      else if kp_read_only p then
        (case read_attr C c name (ob_values x) of Inl e \<Rightarrow> Inl e | Inr cur \<Rightarrow> Inr (py_eq cur w))
      else Inr True)"

text \<open>\<open>parse\<close> turns every exception into an InvalidObject.\<close>

definition as_invalid :: "exn + 'a \<Rightarrow> exn + 'a" where
  "as_invalid r = (case r of Inl e \<Rightarrow> Inl InvalidObject | Inr x \<Rightarrow> Inr x)"

definition set_all :: "classes \<Rightarrow> string \<Rightarrow> (string \<times> pyval) list \<Rightarrow> pyval object \<Rightarrow> exn + pyval object" where
  "set_all C c kvs x =
     (case update_attrs (oc_fields (C c)) kvs x of (Inl e, _) \<Rightarrow> Inl e | (Inr _, y) \<Rightarrow> Inr y)"

text \<open>The results of a loop, up to its first error.\<close>

fun collect :: "(exn + 'a) list \<Rightarrow> exn + 'a list" where
  "collect [] = Inr []"
| "collect (r # rs) =
     (case r of Inl e \<Rightarrow> Inl e
      | Inr x \<Rightarrow> (case collect rs of Inl e \<Rightarrow> Inl e | Inr xs \<Rightarrow> Inr (x # xs)))"

text \<open>The items of an attribute list and of a list of quotas come from one dictionary.\<close>

definition attribute_lists :: "string list" where
  "attribute_lists = [''ZoneAttributeList'', ''PoolAttributeList'']"

definition parse_pairs ::
  "classes \<Rightarrow> string \<Rightarrow> string \<Rightarrow> string \<Rightarrow> (string \<times> pyval) list \<Rightarrow> exn + pyval list" where
  "parse_pairs C i k1 k2 kvs =
     collect (map (\<lambda>(k, w). case set_all C i [(k1, PStr k), (k2, w)] new_object of
        Inl e \<Rightarrow> Inl e | Inr x \<Rightarrow> Inr (freeze C i x)) kvs)"

text \<open>An object given anything but a dictionary: records take any value, masters a string, the others
  ask it for \<open>items\<close> or \<open>keys\<close>.\<close>

definition parse_plain :: "classes \<Rightarrow> string \<Rightarrow> pyval \<Rightarrow> pyval object \<Rightarrow> exn + pyval object" where
  "parse_plain C c v x =
     (if c = ''Record'' then set_all C c [(''data'', v)] x
      else if c = ''ZoneMaster'' then
        (case v of
           PStr s \<Rightarrow> (case split_host_port s 53 of (host, port) \<Rightarrow>
             set_all C c [(''host'', PStr host), (''port'', PInt port)] x)
         | _ \<Rightarrow> Inl PyAttributeError)
      else Inl PyAttributeError)"

definition parse_plain_items :: "classes \<Rightarrow> string \<Rightarrow> pyval list \<Rightarrow> exn + pyval list" where
  "parse_plain_items C i vs =
     collect (map (\<lambda>v. case parse_plain C i v new_object of
        Inl e \<Rightarrow> Inl e | Inr x \<Rightarrow> Inr (freeze C i x)) vs)"

text \<open>\<open>RecordSetAPIv2Adapter.parse_object\<close>, its own part: records that stay keep their object and their
  place, those whose data is not asked for go, new data is added once. \<open>pick\<close> is the order Python
  walks a set in. Only strings and numbers can be in a set.\<close>

fun hashable :: "pyval \<Rightarrow> bool" where
  "hashable (PList xs) = False"
| "hashable (PDict d) = False"
| "hashable (PObjs c xs n) = False"
| "hashable v = True"

definition among :: "pyval \<Rightarrow> pyval list \<Rightarrow> bool" where
  "among v vs \<longleftrightarrow> list_ex (\<lambda>w. py_eq v w) vs"

fun as_set :: "pyval list \<Rightarrow> pyval list" where
  "as_set [] = []"
| "as_set (v # vs) = (if among v vs then as_set vs else v # as_set vs)"

definition record_data :: "classes \<Rightarrow> pyval \<Rightarrow> exn + pyval" where
  "record_data C r =
     (case r of PObj c fs \<Rightarrow> read_attr C c ''data'' (map_of fs) | _ \<Rightarrow> Inl PyAttributeError)"

definition new_record :: "classes \<Rightarrow> pyval \<Rightarrow> exn + pyval" where
  "new_record C v =
     (case set_all C ''Record'' [(''data'', v)] new_object of
        Inl e \<Rightarrow> Inl e | Inr x \<Rightarrow> Inr (freeze C ''Record'' x))"

text \<open>\<open>asked\<close> is the value of \<open>records\<close> in the request, if it is there; \<open>original\<close> the data of the
  record set's records.\<close>

definition keep_and_add ::
  "classes \<Rightarrow> (pyval list \<Rightarrow> pyval list) \<Rightarrow> pyval list \<Rightarrow> pyval list \<Rightarrow> pyval option \<Rightarrow> pyval object \<Rightarrow>
     exn + pyval object" where
  "keep_and_add C pick items original asked x =
     (case asked of
        None \<Rightarrow> Inr x
      | Some v \<Rightarrow>
         (case v of
            PList wanted \<Rightarrow>
              if \<not> list_all hashable wanted then Inl PyTypeError
              else
               (case collect (map (new_record C) (pick (as_set (filter (\<lambda>w. \<not> among w original) wanted)))) of
                  Inl e \<Rightarrow> Inl e
                | Inr added \<Rightarrow>
                    set_all C ''RecordSet''
                      [(''records'', PObjs ''RecordList''
                         (map fst (filter (\<lambda>(r, d). among d wanted) (zip items original)) @ added) None)] x)
          | _ \<Rightarrow> Inl InvalidObject))"

definition load_records :: "classes \<Rightarrow> pyval object \<Rightarrow> exn + pyval object" where
  "load_records C x =
     (case ob_values x ''records'' of
        None \<Rightarrow> set_all C ''RecordSet'' [(''records'', PObjs ''RecordList'' [] None)] x
      | Some v \<Rightarrow> Inr x)"

definition replace_records ::
  "classes \<Rightarrow> (pyval list \<Rightarrow> pyval list) \<Rightarrow> pyval option \<Rightarrow> pyval object \<Rightarrow> exn + pyval object" where
  "replace_records C pick asked x =
     (case load_records C x of
        Inl e \<Rightarrow> Inl e
      | Inr x1 \<Rightarrow>
         (case ob_values x1 ''records'' of
            Some (PObjs l items n) \<Rightarrow>
             (case collect (map (record_data C) items) of
                Inl e \<Rightarrow> Inl e
              | Inr original \<Rightarrow>
                  if \<not> list_all hashable original then Inl PyTypeError
                  else keep_and_add C pick items original asked x1)
          | _ \<Rightarrow> Inl PyTypeError))"

text \<open>Zones parse masters and attributes on their own before the other keys, record sets their records.\<close>

definition own_keys :: "string \<Rightarrow> string list" where
  "own_keys c =
     (if c = ''Zone'' then [''masters'', ''attributes'']
      else if c = ''RecordSet'' then [''records''] else [])"

text \<open>The entries of a dictionary, each with what its value parses to as an object of a given class; the
  loop over the keys, with the keys refused so far; and a key that a list adapter takes.\<close>

type_synonym entry = "string \<times> pyval \<times> (string \<Rightarrow> exn + pyval)"

fun parse_keys ::
  "classes \<Rightarrow> string \<Rightarrow> (string \<times> key_props) list \<Rightarrow> entry list \<Rightarrow> string list \<Rightarrow> pyval object \<Rightarrow>
     exn + string list \<times> pyval object" where
  "parse_keys C c ks [] errors x = Inr (errors, x)"
| "parse_keys C c ks ((k, w, parse_as) # entries) errors x =
     (if k \<in> set (own_keys c) then parse_keys C c ks entries errors x
      else
       (case map_of ks k of
          None \<Rightarrow> parse_keys C c ks entries (errors @ [k]) x
        | Some p \<Rightarrow>
           (case may_set C c p (attribute_of k p) w x of
              Inl e \<Rightarrow> Inl e
            | Inr ok \<Rightarrow>
               if \<not> ok then Inr (errors @ [k], x)
               else
                (case (case oc_relation (C c) (attribute_of k p) of
                         Some r \<Rightarrow> parse_as r | None \<Rightarrow> Inr w) of
                   Inl e \<Rightarrow> Inl e
                 | Inr y \<Rightarrow>
                    (case set_attr (oc_fields (C c)) (attribute_of k p) y x of
                       Inl e \<Rightarrow> Inl e
                     | Inr x' \<Rightarrow> parse_keys C c ks entries errors x')))))"

definition parse_own :: "classes \<Rightarrow> string \<Rightarrow> string \<Rightarrow> string \<Rightarrow> entry list \<Rightarrow> pyval object \<Rightarrow> exn + pyval object" where
  "parse_own C c key l entries x =
     (case map_of entries key of
        None \<Rightarrow> Inr x
      | Some (w, parse_as) \<Rightarrow>
          (case parse_as l of Inl e \<Rightarrow> Inl e | Inr y \<Rightarrow> set_attr (oc_fields (C c)) key y x))"

definition parse_generic :: "classes \<Rightarrow> string \<Rightarrow> entry list \<Rightarrow> pyval object \<Rightarrow> exn + pyval object" where
  "parse_generic C c entries x =
     (case get_object_adapter c of
        Inl e \<Rightarrow> Inl e
      | Inr ad \<Rightarrow>
         (case parse_keys C c (ad_keys ad) entries [] x of
            Inl e \<Rightarrow> Inl e
          | Inr (errors, y) \<Rightarrow> if errors \<noteq> [] then Inl InvalidObject else Inr y))"

text \<open>\<open>parse_object\<close> of a dictionary, by the class of the object.\<close>

definition parse_zone :: "classes \<Rightarrow> entry list \<Rightarrow> pyval object \<Rightarrow> exn + pyval object" where
  "parse_zone C entries x =
     (case parse_own C ''Zone'' ''masters'' ''ZoneMasterList'' entries x of
        Inl e \<Rightarrow> Inl e
      | Inr x1 \<Rightarrow>
         (case parse_own C ''Zone'' ''attributes'' ''ZoneAttributeList'' entries x1 of
            Inl e \<Rightarrow> Inl e | Inr x2 \<Rightarrow> parse_generic C ''Zone'' entries x2))"

definition parse_recordset ::
  "classes \<Rightarrow> (pyval list \<Rightarrow> pyval list) \<Rightarrow> entry list \<Rightarrow> pyval object \<Rightarrow> exn + pyval object" where
  "parse_recordset C pick entries x =
     (case replace_records C pick (map_option fst (map_of entries ''records'')) x of
        Inl e \<Rightarrow> Inl e | Inr x1 \<Rightarrow> parse_generic C ''RecordSet'' entries x1)"

definition parse_attribute :: "classes \<Rightarrow> string \<Rightarrow> entry list \<Rightarrow> pyval object \<Rightarrow> exn + pyval object" where
  "parse_attribute C c entries x =
     set_all C c (concat (map (\<lambda>(k, w, _). [(''key'', PStr k), (''value'', w)]) entries)) x"

definition parse_dict ::
  "classes \<Rightarrow> (pyval list \<Rightarrow> pyval list) \<Rightarrow> string \<Rightarrow> entry list \<Rightarrow> pyval object \<Rightarrow> exn + pyval object" where
  "parse_dict C pick c entries x =
     (if c = ''Record'' \<or> c = ''ZoneMaster'' then
        parse_plain C c (PDict (map (\<lambda>(k, w, _). (k, w)) entries)) x
      else if c = ''ZoneAttribute'' \<or> c = ''PoolAttribute'' then parse_attribute C c entries x
      else if c = ''Zone'' then parse_zone C entries x
      else if c = ''RecordSet'' then parse_recordset C pick entries x
      else parse_generic C c entries x)"

text \<open>\<open>parse_list\<close>, from the values of a JSON list, of a dictionary and of a string.\<close>

definition parse_list ::
  "classes \<Rightarrow> string \<Rightarrow> pyval \<Rightarrow> (string \<Rightarrow> exn + pyval) list \<Rightarrow> exn + pyval" where
  "parse_list C c v items =
     (let i = the (oc_item (C c)); from_one_dict = c \<in> set attribute_lists \<or> c = ''QuotaList'' in
      case (case v of
         PDict kvs \<Rightarrow>
           if c \<in> set attribute_lists then parse_pairs C i ''key'' ''value'' kvs
           else if c = ''QuotaList'' then parse_pairs C i ''resource'' ''hard_limit'' kvs
           else parse_plain_items C i (map (\<lambda>(k, w). PStr k) kvs)
       | PList vs \<Rightarrow>
           if from_one_dict then Inl PyAttributeError else collect (map (\<lambda>f. f i) items)
       | PStr s \<Rightarrow>
           if from_one_dict then Inl PyAttributeError
           else parse_plain_items C i (map (\<lambda>ch. PStr [ch]) s)
       | _ \<Rightarrow> if from_one_dict then Inl PyAttributeError else Inl PyTypeError) of
        Inl e \<Rightarrow> Inl e | Inr ys \<Rightarrow> Inr (PObjs c ys None))"

definition parse_as_class ::
  "classes \<Rightarrow> (pyval list \<Rightarrow> pyval list) \<Rightarrow> pyval \<Rightarrow> entry list \<Rightarrow> (string \<Rightarrow> exn + pyval) list \<Rightarrow>
     string \<Rightarrow> exn + pyval" where
  "parse_as_class C pick v entries items c = as_invalid
     (case get_object_adapter c of
        Inl e \<Rightarrow> Inl e
      | Inr ad \<Rightarrow>
          if oc_item (C c) \<noteq> None then parse_list C c v items
          else
           (case (case v of PDict _ \<Rightarrow> parse_dict C pick c entries new_object
                  | _ \<Rightarrow> parse_plain C c v new_object) of
              Inl e \<Rightarrow> Inl e | Inr x \<Rightarrow> Inr (freeze C c x)))"

text \<open>\<open>adapter.parse(value, cls())\<close>, for any class.\<close>

fun parse_new :: "classes \<Rightarrow> (pyval list \<Rightarrow> pyval list) \<Rightarrow> pyval \<Rightarrow> string \<Rightarrow> exn + pyval" where
  "parse_new C pick (PList vs) = parse_as_class C pick (PList vs) [] (map (parse_new C pick) vs)"
| "parse_new C pick (PDict kvs) =
     parse_as_class C pick (PDict kvs) (map (\<lambda>(k, w). (k, w, parse_new C pick w)) kvs) []"
| "parse_new C pick v = parse_as_class C pick v [] []"

text \<open>\<open>DesignateAdapter.parse('API_v2', values, obj)\<close> for an object that is not a list.\<close>

definition parse ::
  "classes \<Rightarrow> (pyval list \<Rightarrow> pyval list) \<Rightarrow> string \<Rightarrow> pyval \<Rightarrow> pyval object \<Rightarrow> exn + pyval object" where
  "parse C pick c v x = as_invalid
     (case get_object_adapter c of
        Inl e \<Rightarrow> Inl e
      | Inr ad \<Rightarrow>
         (case v of
            PDict kvs \<Rightarrow> parse_dict C pick c (map (\<lambda>(k, w). (k, w, parse_new C pick w)) kvs) x
          | _ \<Rightarrow> parse_plain C c v x))"

end
