(* ===== verification/AdapterRender.thy ===== *)
theory AdapterRender
  imports Adapters "HOL-Library.AList"
begin

text \<open>
  Rendering: what a client sees of an object, with the links of the API, by \<open>render\<close> of
  \<open>objects/adapters/base.py\<close> and of the adapters in \<open>objects/adapters/api_v2/\<close>. Not modelled: the renaming in the paths of
  validation errors.
\<close>

text \<open>The request and the configuration links are made of; \<open>rn_request\<close> is None where \<open>render\<close> is called
  without a request.\<close>

record link_request =
  lr_host_url :: string
  lr_path :: string
  lr_params :: "(string \<times> string) list"

record render_env =
  rn_classes :: classes
  rn_env :: env
  rn_context :: req_context
  rn_request :: "link_request option"
  rn_enable_host_header :: bool
  rn_api_base_uri :: string
  rn_default_limit :: int
  rn_max_limit :: int
  rn_strftime :: "int \<Rightarrow> string"

section \<open>Links\<close>

text \<open>\<open>str(value)\<close> for what can be an identifier.\<close>

fun py_str :: "pyval \<Rightarrow> string" where
  "py_str PNone = ''None''"
| "py_str (PStr s) = s"
| "py_str (PInt n) = int_str n"
| "py_str (PFloat m e r) = r"
| "py_str (PBool b) = (if b then ''True'' else ''False'')"
| "py_str _ = ''''"

text \<open>\<open>urllib.parse.urlencode\<close>, on strings of bytes.\<close>

definition hex_digit :: "nat \<Rightarrow> char" where
  "hex_digit n = ''0123456789ABCDEF'' ! n"

definition quote_byte :: "char \<Rightarrow> string" where
  "quote_byte c =
     (let n = (of_char c :: nat) in
      if 48 \<le> n \<and> n \<le> 57 \<or> 65 \<le> n \<and> n \<le> 90 \<or> 97 \<le> n \<and> n \<le> 122 \<or> c \<in> set ''_.-~'' then [c]
      else if c = CHR '' '' then ''+''
      else [CHR ''%'', hex_digit (n div 16), hex_digit (n mod 16)])"

definition quote_plus :: "string \<Rightarrow> string" where
  "quote_plus s = concat (map quote_byte s)"

definition urlencode :: "(string \<times> string) list \<Rightarrow> string" where
  "urlencode params = join ''&'' (map (\<lambda>(k, v). quote_plus k @ ''='' @ quote_plus v) params)"

definition get_base_url :: "render_env \<Rightarrow> link_request \<Rightarrow> string" where
  "get_base_url R rq =
     (if rn_enable_host_header R then lr_host_url rq else rstrip CHR ''/'' (rn_api_base_uri R))"

text \<open>\<open>_get_path\<close>: the path up to the collection, None (which prints as such) when it is not there.\<close>

fun path_up_to :: "string \<Rightarrow> string list \<Rightarrow> string \<Rightarrow> string option" where
  "path_up_to collection [] acc = None"
| "path_up_to collection (part # parts) acc =
     (if part = collection then Some (acc @ ''/'' @ part)
      else path_up_to collection parts (acc @ ''/'' @ part))"

definition path_parts :: "link_request \<Rightarrow> string list" where
  "path_parts rq = split_on CHR ''/'' (lstrip CHR ''/'' (lr_path rq))"

text \<open>Record sets seen outside their zone get the zone's path inserted after the first \<open>v2\<close>.\<close>

fun recordset_path :: "string \<Rightarrow> string list \<Rightarrow> string option \<Rightarrow> string \<Rightarrow> string option" where
  "recordset_path collection [] ins acc = None"
| "recordset_path collection (part # parts) ins acc =
     (if part = collection then Some (acc @ ''/'' @ part)
      else
       (case ins of
          Some zones \<Rightarrow>
            if part = ''v2'' then recordset_path collection parts None (acc @ ''/v2/'' @ zones)
            else recordset_path collection parts ins (acc @ ''/'' @ part)
        | None \<Rightarrow> recordset_path collection parts None (acc @ ''/'' @ part)))"

definition none_str :: "string option \<Rightarrow> string" where
  "none_str s = (case s of None \<Rightarrow> ''None'' | Some t \<Rightarrow> t)"

definition get_path ::
  "render_env \<Rightarrow> string \<Rightarrow> adapter \<Rightarrow> link_request \<Rightarrow> (string \<times> pyval) list \<Rightarrow> exn + string" where
  "get_path R c ad rq fs =
     (if c = ''ZoneExport'' then Inr ''/v2/zones/tasks/exports''
      else if c = ''ZoneTransferRequest'' then Inr ''/v2/zones/tasks/transfer_requests''
      else if c = ''RecordSet'' then
        (if ''zones'' \<in> set (path_parts rq) then
           Inr (none_str (recordset_path (ad_collection ad) (path_parts rq) None ''''))
         else
           (case read_attr (rn_classes R) c ''zone_id'' (map_of fs) of
              Inl e \<Rightarrow> Inl e
            | Inr z \<Rightarrow> Inr (none_str (recordset_path (ad_collection ad) (path_parts rq)
                (Some (''zones/'' @ py_str z)) ''''))))
      else Inr (none_str (path_up_to (ad_collection ad) (path_parts rq) '''')))"

definition get_resource_links ::
  "render_env \<Rightarrow> string \<Rightarrow> adapter \<Rightarrow> link_request \<Rightarrow> (string \<times> pyval) list \<Rightarrow> exn + pyval" where
  "get_resource_links R c ad rq fs =
     (case get_path R c ad rq fs of
        Inl e \<Rightarrow> Inl e
      | Inr path \<Rightarrow>
         (case read_attr (rn_classes R) c (if c = ''FloatingIP'' then ''key'' else ''id'') (map_of fs) of
            Inl e \<Rightarrow> Inl e
          | Inr i \<Rightarrow> Inr (PDict [(''self'', PStr (get_base_url R rq @ path @ ''/'' @ py_str i))])))"

text \<open>\<open>_get_collection_href\<close>: the link of the page with these parameters.\<close>

definition get_collection_href ::
  "render_env \<Rightarrow> string \<Rightarrow> adapter \<Rightarrow> link_request \<Rightarrow> (string \<times> string) list \<Rightarrow> string" where
  "get_collection_href R c ad rq params =
     rstrip CHR ''?'' (get_base_url R rq @
       (if c = ''SharedZoneList'' then lr_path rq
        else none_str (path_up_to (ad_collection ad) (path_parts rq) '''')) @ ''?'' @ urlencode params)"

definition with_marker :: "string \<Rightarrow> (string \<times> string) list \<Rightarrow> (string \<times> string) list" where
  "with_marker m params = filter (\<lambda>(k, v). k \<noteq> ''marker'') params @ [(''marker'', m)]"

text \<open>The limit of the page, as the links read it.\<close>

definition link_limit :: "render_env \<Rightarrow> (string \<times> string) list \<Rightarrow> exn + int" where
  "link_limit R params =
     (case map_of (rev params) ''limit'' of
        None \<Rightarrow> Inr (rn_default_limit R)
      | Some l \<Rightarrow>
          if lower l = ''max'' then Inr (rn_max_limit R)
          else (case py_int l of None \<Rightarrow> Inl (BadRequest ValueErrorBR) | Some n \<Rightarrow> Inr n))"

definition get_collection_links ::
  "render_env \<Rightarrow> string \<Rightarrow> adapter \<Rightarrow> link_request \<Rightarrow> pyval list \<Rightarrow> exn + pyval" where
  "get_collection_links R c ad rq items =
     (let self = (''self'', PStr (get_collection_href R c ad rq (lr_params rq))) in
      if \<not> ad_next ad then Inr (PDict [self])
      else
       (case link_limit R (lr_params rq) of
          Inl e \<Rightarrow> Inl e
        | Inr limit \<Rightarrow>
            if limit = int (length items) then
              (case items of
                 [] \<Rightarrow> Inl PyIndexError
               | _ \<Rightarrow>
                  (case last items of
                     PObj i fs \<Rightarrow>
                      (case read_attr (rn_classes R) i ''id'' (map_of fs) of
                         Inl e \<Rightarrow> Inl e
                       | Inr m \<Rightarrow> Inr (PDict [self, (''next'', PStr (get_collection_href R c ad rq
                           (with_marker (py_str m) (lr_params rq))))]))
                   | _ \<Rightarrow> Inl PyTypeError))
            else Inr (PDict [self])))"

section \<open>Objects\<close>

text \<open>\<open>render_object\<close> of the base class before links: a key that stands for another attribute needs it,
  other keys read as None where the object has none. \<open>nested\<close> is the rendering of each value set.\<close>

definition render_key ::
  "render_env \<Rightarrow> string \<Rightarrow> (string \<times> pyval) list \<Rightarrow> (string \<Rightarrow> exn + pyval) \<Rightarrow> string \<times> key_props \<Rightarrow>
     exn + string \<times> pyval" where
  "render_key R c fs nested kp =
     (let C = rn_classes R; key = fst kp; a = attribute_of key (snd kp) in
      case (if kp_rename (snd kp) \<noteq> None then read_attr C c a (map_of fs)
            else read_attr_or PNone C c a (map_of fs)) of
        Inl e \<Rightarrow> Inl e
      | Inr v \<Rightarrow>
          if oc_relation (C c) a \<noteq> None then
            (case nested a of Inl e \<Rightarrow> Inl e | Inr w \<Rightarrow> Inr (key, w))
          else if oc_datetime (C c) a \<and> v \<noteq> PNone then
            (case v of PTime t \<Rightarrow> Inr (key, PStr (rn_strftime R t)) | _ \<Rightarrow> Inl PyTypeError)
          else Inr (key, v))"

definition render_keys ::
  "render_env \<Rightarrow> string \<Rightarrow> adapter \<Rightarrow> (string \<times> pyval) list \<Rightarrow> (string \<Rightarrow> exn + pyval) \<Rightarrow>
     exn + (string \<times> pyval) list" where
  "render_keys R c ad fs nested = collect (map (render_key R c fs nested) (ad_keys ad))"

definition with_links ::
  "render_env \<Rightarrow> string \<Rightarrow> adapter \<Rightarrow> (string \<times> pyval) list \<Rightarrow> (string \<times> pyval) list \<Rightarrow>
     exn + (string \<times> pyval) list" where
  "with_links R c ad fs d =
     (case rn_request R of
        Some rq \<Rightarrow>
          if ad_links ad then
            (case get_resource_links R c ad rq fs of Inl e \<Rightarrow> Inl e | Inr l \<Rightarrow> Inr (d @ [(''links'', l)]))
          else Inr d
      | None \<Rightarrow> Inr d)"

text \<open>Writing into \<open>links\<close>, which is there when there is a request.\<close>

definition set_link :: "string \<Rightarrow> string \<Rightarrow> (string \<times> pyval) list \<Rightarrow> exn + (string \<times> pyval) list" where
  "set_link name href d =
     (case map_of d ''links'' of
        Some (PDict l) \<Rightarrow>
          Inr (AList.update ''links'' (PDict (AList.update name (PStr href) l)) d)
      | _ \<Rightarrow> Inl PyKeyError)"

definition dict_value :: "string \<Rightarrow> (string \<times> pyval) list \<Rightarrow> pyval" where
  "dict_value k d = (case map_of d k of Some v \<Rightarrow> v | None \<Rightarrow> PNone)"

definition base_url_of :: "render_env \<Rightarrow> exn + string" where
  "base_url_of R =
     (case rn_request R of None \<Rightarrow> Inl PyKeyError | Some rq \<Rightarrow> Inr (get_base_url R rq))"

definition zone_link ::
  "render_env \<Rightarrow> string \<Rightarrow> (string \<times> pyval) list \<Rightarrow> exn + (string \<times> pyval) list" where
  "zone_link R base d = set_link ''zone'' (base @ ''/v2/zones/'' @ py_str (dict_value ''zone_id'' d)) d"

text \<open>The keys of a transfer request that are not for everybody are shown if the policy on the request's
  project lets the caller see details.\<close>

definition detail_target :: "pyval \<Rightarrow> target" where
  "detail_target t =
     (let v = (case t of PStr s \<Rightarrow> VStr s | _ \<Rightarrow> VNull) in [(''project_id'', v), (''tenant_id'', v)])"

definition is_protected :: "adapter \<Rightarrow> string \<Rightarrow> bool" where
  "is_protected ad k = (case map_of (ad_keys ad) k of None \<Rightarrow> False | Some p \<Rightarrow> kp_protected p)"

definition hide_protected ::
  "render_env \<Rightarrow> adapter \<Rightarrow> (string \<times> pyval) list \<Rightarrow> (string \<times> pyval) list \<Rightarrow>
     exn + (string \<times> pyval) list" where
  "hide_protected R ad fs d =
     (case read_attr (rn_classes R) ''ZoneTransferRequest'' ''tenant_id'' (map_of fs) of
        Inl e \<Rightarrow> Inl e
      | Inr t \<Rightarrow>
         (case check_result (rn_env R) ''get_zone_transfer_request_detailed'' (rn_context R)
             (detail_target t) True of
            Inl (Forbidden f) \<Rightarrow>
              Inr (filter (\<lambda>(k, v). \<not> is_protected ad k) d)
          | Inl e \<Rightarrow> Inl e
          | Inr _ \<Rightarrow> Inr d))"

text \<open>What each class adds to its links.\<close>

definition export_link ::
  "render_env \<Rightarrow> (string \<times> pyval) list \<Rightarrow> exn + (string \<times> pyval) list" where
  "export_link R d =
     (case dict_value ''location'' d of
        PStr loc \<Rightarrow>
          if prefix ''designate://'' loc then
            (case base_url_of R of
               Inl e \<Rightarrow> Inl e
             | Inr base \<Rightarrow> set_link ''export'' (base @ ''/'' @ drop (length ''designate://'') loc) d)
          else Inr d
      | _ \<Rightarrow> Inr d)"

definition class_links ::
  "render_env \<Rightarrow> string \<Rightarrow> adapter \<Rightarrow> (string \<times> pyval) list \<Rightarrow> (string \<times> pyval) list \<Rightarrow>
     exn + (string \<times> pyval) list" where
  "class_links R c ad fs d =
     (if c = ''ZoneTransferRequest'' then hide_protected R ad fs d
      else if c = ''ZoneExport'' then export_link R d
      else if c = ''ZoneImport'' \<and> dict_value ''zone_id'' d \<noteq> PNone \<or> c = ''ZoneTransferAccept'' then
        and_then (base_url_of R) (\<lambda>base. zone_link R base d)
      else if c = ''ServiceStatus'' then
        and_then (base_url_of R) (\<lambda>base.
          set_link ''self'' (base @ ''/v2/service_statuses/'' @ py_str (dict_value ''id'' d)) d)
      else if c = ''SharedZone'' \<and> dict_value ''zone_id'' d \<noteq> PNone then
        and_then (base_url_of R) (\<lambda>base.
        and_then (set_link ''self'' (base @ ''/v2/zones/'' @ py_str (dict_value ''zone_id'' d) @ ''/shares/'' @
            py_str (dict_value ''id'' d)) d) (\<lambda>d'. zone_link R base d'))
      else Inr d)"

definition render_object ::
  "render_env \<Rightarrow> string \<Rightarrow> adapter \<Rightarrow> (string \<times> pyval) list \<Rightarrow> (string \<Rightarrow> exn + pyval) \<Rightarrow> exn + pyval" where
  "render_object R c ad fs nested =
     (let C = rn_classes R in
      if c = ''Record'' then read_attr C c ''data'' (map_of fs)
      else if c = ''ZoneMaster'' then
        and_then (read_attr C c ''port'' (map_of fs)) (\<lambda>port.
        and_then (read_attr C c ''host'' (map_of fs)) (\<lambda>host.
          if py_eq port (PInt 53) then Inr host
          else (case port of
              PInt n \<Rightarrow> Inr (PStr (py_str host @ '':'' @ int_str n)) | _ \<Rightarrow> Inl PyTypeError)))
      else if c = ''ZoneAttribute'' \<or> c = ''PoolAttribute'' then
        and_then (read_attr C c ''key'' (map_of fs)) (\<lambda>k.
        and_then (read_attr C c ''value'' (map_of fs)) (\<lambda>v. Inr (PDict [(py_str k, v)])))
      else
        and_then (render_keys R c ad fs nested) (\<lambda>d.
        and_then (with_links R c ad fs d) (\<lambda>d'.
        and_then (class_links R c ad fs d') (\<lambda>d''. Inr (PDict d'')))))"

section \<open>Lists\<close>

definition merge_dicts :: "pyval list \<Rightarrow> pyval" where
  "merge_dicts rs =
     PDict (fold (\<lambda>r d. case r of PDict kvs \<Rightarrow> fold (\<lambda>(k, v). AList.update k v) kvs d | _ \<Rightarrow> d) rs [])"

definition quota_pairs :: "render_env \<Rightarrow> pyval list \<Rightarrow> exn + pyval" where
  "quota_pairs R items =
     and_then (collect (map (\<lambda>q. case q of
          PObj i fs \<Rightarrow>
            and_then (read_attr (rn_classes R) i ''resource'' (map_of fs)) (\<lambda>k.
            and_then (read_attr (rn_classes R) i ''hard_limit'' (map_of fs)) (\<lambda>v.
              Inr (PDict [(py_str k, v)])))
        | _ \<Rightarrow> Inl PyAttributeError) items))
      (\<lambda>rs. Inr (merge_dicts rs))"

definition page_metadata :: "render_env \<Rightarrow> string \<Rightarrow> int option \<Rightarrow> (string \<times> pyval) list" where
  "page_metadata R c count =
     (if oc_paged (rn_classes R c) then
        [(''metadata'', PDict (case count of None \<Rightarrow> [] | Some n \<Rightarrow> [(''total_count'', PInt n)]))]
      else [])"

definition render_list ::
  "render_env \<Rightarrow> string \<Rightarrow> adapter \<Rightarrow> pyval list \<Rightarrow> int option \<Rightarrow> (exn + pyval) list \<Rightarrow> exn + pyval" where
  "render_list R c ad items count rendered =
     (if c = ''QuotaList'' then quota_pairs R items
      else
        and_then (collect rendered) (\<lambda>rs.
          if c \<in> set attribute_lists then Inr (merge_dicts rs)
          else if c = ''RecordList'' \<or> c = ''ZoneMasterList'' \<or> c = ''PoolNsRecordList'' then Inr (PList rs)
          else
            and_then (case rn_request R of
                Some rq \<Rightarrow>
                  if ad_links ad then
                    and_then (get_collection_links R c ad rq items) (\<lambda>l. Inr [(''links'', l)])
                  else Inr []
              | None \<Rightarrow> Inr []) (\<lambda>links.
            Inr (PDict ((ad_collection ad, PList rs) # links @ page_metadata R c count)))))"

text \<open>\<open>render\<close>: objects and lists by the adapter of their class; there is none for other values.\<close>

fun render :: "render_env \<Rightarrow> pyval \<Rightarrow> exn + pyval" where
  "render R (PObj c fs) =
     (case get_object_adapter c of
        Inl e \<Rightarrow> Inl e
      | Inr ad \<Rightarrow>
          render_object R c ad fs
            (\<lambda>a. case map_of (map (\<lambda>(k, v). (k, render R v)) fs) a of
                Some r \<Rightarrow> r | None \<Rightarrow> Inl (OtherError ''AdapterNotFound'')))"
| "render R (PObjs c items count) =
     (case get_object_adapter c of
        Inl e \<Rightarrow> Inl e
      | Inr ad \<Rightarrow> render_list R c ad items count (map (render R) items))"
| "render R v = Inl (OtherError ''AdapterNotFound'')"

end
