(* ===== verification/AdapterProps.thy ===== *)
theory AdapterProps
  imports AdapterRender Samples
begin

text \<open>
  What the adapters promise: which attributes a request can change, which records a record set ends up
  with, that masters read back as they were written, and what a client may not see.
\<close>

section \<open>Assignments\<close>

lemma set_attr_value:
  assumes "set_attr F n w x = Inr y"
  shows "\<exists>fd d. F n = Some fd \<and> fd_coerce fd w = Inr d \<and> ob_values y n = Some d \<and>
    (\<forall>m. m \<noteq> n \<longrightarrow> ob_values y m = ob_values x m)"
  using assms
  by (auto simp: set_attr_def remember_def Let_def obj_attr_is_set_def split: option.splits sum.splits if_splits)

lemma set_attr_other: "set_attr F n w x = Inr y \<Longrightarrow> m \<noteq> n \<Longrightarrow> ob_values y m = ob_values x m"
  by (auto dest: set_attr_value)

lemma read_attr_same:
  "oc_fields (C c) a = Some fd \<Longrightarrow> ob_values (y :: pyval object) a = ob_values (x :: pyval object) a \<Longrightarrow>
     read_attr C c a (ob_values y) = read_attr C c a (ob_values x)"
  by (simp add: read_attr_def)

lemma set_attr_holds:
  assumes "set_attr F n w x = Inr y" "stable_fields F" "holds_stored F x"
  shows "holds_stored F y"
  using set_attr_value [OF assms(1)] assms(2,3) unfolding holds_stored_def stable_fields_def
  by (metis option.inject)

text \<open>Coercions that do not tell apart what Python calls equal, and keep None.\<close>

definition respects_eq :: "classes \<Rightarrow> string \<Rightarrow> bool" where
  "respects_eq C c \<longleftrightarrow> stable_fields (oc_fields (C c)) \<and>
     (\<forall>n fd w d. oc_fields (C c) n = Some fd \<longrightarrow> fd_coerce fd w = Inr d \<longrightarrow>
        (\<forall>u. fd_coerce fd u = Inr u \<longrightarrow> py_eq u w \<longrightarrow> d = u) \<and> (w = PNone \<longrightarrow> d = PNone))"

text \<open>An attribute that no key may change.\<close>

definition guarded :: "classes \<Rightarrow> string \<Rightarrow> (string \<times> key_props) list \<Rightarrow> pyval object \<Rightarrow> string \<Rightarrow> bool" where
  "guarded C c ks x a \<longleftrightarrow>
     (\<forall>k p. map_of ks k = Some p \<longrightarrow> attribute_of k p = a \<longrightarrow>
        (if kp_immutable p then \<exists>cur. read_attr C c a (ob_values x) = Inr cur \<and> truthy cur
         else kp_read_only p))"

lemma parse_keys_errors: "parse_keys C c ks entries errors x = Inr (errs, y) \<Longrightarrow> \<exists>more. errs = errors @ more"
proof (induction C c ks entries errors x rule: parse_keys.induct)
  case (1 C c ks errors x)
  then show ?case by simp
next
  case (2 C c ks k w parse_as entries errors x)
  then show ?case
    by (fastforce split: if_splits option.splits sum.splits)
qed

lemma parse_keys_other:
  assumes "parse_keys C c ks entries errors x = Inr (errs, y)"
    "\<And>k p. map_of ks k = Some p \<Longrightarrow> k \<notin> set (own_keys c) \<Longrightarrow> attribute_of k p \<noteq> a"
  shows "ob_values y a = ob_values x a"
  using assms
proof (induction C c ks entries errors x rule: parse_keys.induct)
  case (1 C c ks errors x)
  then show ?case by simp
next
  case (2 C c ks k w parse_as entries errors x)
  show ?case
  proof (cases "k \<notin> set (own_keys c) \<and> map_of ks k \<noteq> None")
    case False
    then show ?thesis using 2 by (auto split: if_splits)
  next
    case True
    then obtain p where own: "k \<notin> set (own_keys c)" and p: "map_of ks k = Some p" by auto
    show ?thesis
      using 2(3) [OF own p] 2(4) 2(5) own p set_attr_other [where m = a and n = "attribute_of k p"]
      by (fastforce split: sum.splits if_splits)
  qed
qed

text \<open>One assignment the checks let through keeps an attribute that is guarded.\<close>

lemma guarded_set:
  assumes g: "guarded C c ks x a" and k: "map_of ks k = Some p"
    and ok: "may_set C c p (attribute_of k p) w x = Inr True"
    and rel: "oc_relation (C c) a = None" and r: "respects_eq C c" and h: "holds_stored (oc_fields (C c)) x"
    and s: "set_attr (oc_fields (C c)) (attribute_of k p) w y' = Inr y" and y': "y' = x"
    and f: "oc_fields (C c) a = Some fd"
  shows "read_attr C c a (ob_values y) = read_attr C c a (ob_values x)"
proof (cases "attribute_of k p = a")
  case False
  then show ?thesis using set_attr_other [OF s, of a] y' read_attr_same [of C c a fd y x] f by simp
next
  case True
  define cur where "cur = (case ob_values x a of Some v \<Rightarrow> v | None \<Rightarrow> PNone)"
  have rd: "read_attr C c a (ob_values x) = Inr cur" using rel f by (simp add: read_attr_def cur_def)
  have eq: "py_eq cur w"
    using ok True g k rd
    by (auto simp: may_set_def read_attr_or_def guarded_def split: if_splits)
  obtain d where d: "fd_coerce fd w = Inr d" "ob_values y a = Some d"
    using set_attr_value [OF s] True f by auto
  have "d = cur"
  proof (cases "ob_values x a")
    case None
    then have "w = PNone" using eq by (simp add: cur_def)
    then show ?thesis using r f d None unfolding respects_eq_def cur_def by auto
  next
    case (Some v)
    then have "fd_coerce fd v = Inr v" using h f unfolding holds_stored_def by blast
    then show ?thesis using r f d Some eq unfolding respects_eq_def cur_def by (metis option.simps(5))
  qed
  then show ?thesis using rd d f rel by (simp add: read_attr_def)
qed

lemma guarded_keep:
  "guarded C c ks x a \<Longrightarrow> read_attr C c a (ob_values y) = read_attr C c a (ob_values x) \<Longrightarrow> guarded C c ks y a"
  by (simp add: guarded_def)

lemma parse_keys_guarded:
  assumes "parse_keys C c ks entries errors x = Inr ([], y)"
    "guarded C c ks x a" "respects_eq C c" "holds_stored (oc_fields (C c)) x"
    "oc_relation (C c) a = None" "oc_fields (C c) a = Some fd"
  shows "read_attr C c a (ob_values y) = read_attr C c a (ob_values x)"
  using assms
proof (induction C c ks entries errors x rule: parse_keys.induct)
  case (1 C c ks errors x)
  then show ?case by simp
next
  case (2 C c ks k w parse_as entries errors x)
  show ?case
  proof (cases "k \<in> set (own_keys c)")
    case True
    then show ?thesis using 2 by simp
  next
    case own: False
    show ?thesis
    proof (cases "map_of ks k")
      case None
      then show ?thesis using 2(4) own by (auto dest!: parse_keys_errors)
    next
      case (Some p)
      let ?n = "attribute_of k p"
      let ?F = "oc_fields (C c)"
      from 2(4) own Some have ok: "may_set C c p ?n w x = Inr True"
        by (auto split: sum.splits if_splits)
      with 2(4) own Some obtain v x' where v: "(case oc_relation (C c) ?n of Some r \<Rightarrow> parse_as r | None \<Rightarrow> Inr w) = Inr v"
        and s: "set_attr ?F ?n v x = Inr x'" and rest: "parse_keys C c ks entries errors x' = Inr ([], y)"
        by (auto split: sum.splits)
      have step: "read_attr C c a (ob_values x') = read_attr C c a (ob_values x)"
      proof (cases "?n = a")
        case True
        then have "v = w" using v 2(8) by simp
        then show ?thesis using guarded_set [OF 2(5) Some ok 2(8) 2(6) 2(7) _ refl 2(9)] s by simp
      next
        case False
        then show ?thesis using set_attr_other [OF s, of a] read_attr_same [of C c a fd x' x] 2(9) by simp
      qed
      have h: "holds_stored ?F x'" using set_attr_holds [OF s] 2(6,7) by (simp add: respects_eq_def)
      have "read_attr C c a (ob_values y) = read_attr C c a (ob_values x')"
        by (rule 2(3) [OF own Some ok _ v s rest guarded_keep [OF 2(5) step] 2(6) h 2(8,9)]) simp
      then show ?thesis using step by simp
    qed
  qed
qed


section \<open>What a request can change\<close>

lemma parse_generic_guarded:
  assumes "parse_generic C c entries x = Inr y" "get_object_adapter c = Inr ad"
    "guarded C c (ad_keys ad) x a" "respects_eq C c" "holds_stored (oc_fields (C c)) x"
    "oc_relation (C c) a = None" "oc_fields (C c) a = Some fd"
  shows "read_attr C c a (ob_values y) = read_attr C c a (ob_values x)"
proof (rule parse_keys_guarded [OF _ assms(3-7)])
  show "parse_keys C c (ad_keys ad) entries [] x = Inr ([], y)"
    using assms(1,2) by (auto simp: parse_generic_def split: sum.splits if_splits)
qed

lemma set_all_other:
  "set_all C c kvs x = Inr y \<Longrightarrow> a \<notin> fst ` set kvs \<Longrightarrow> ob_values y a = ob_values x a"
proof (induction kvs arbitrary: x)
  case Nil
  then show ?case by (simp add: set_all_def)
next
  case (Cons kv kvs)
  obtain n v where kv: "kv = (n, v)" by fastforce
  from Cons.prems(1) obtain z where z: "set_attr (oc_fields (C c)) n v x = Inr z" "set_all C c kvs z = Inr y"
    by (auto simp: set_all_def kv split: sum.splits)
  show ?case using Cons.IH [OF z(2)] Cons.prems(2) set_attr_other [OF z(1), of a] by (simp add: kv)
qed

lemma set_all_holds:
  "set_all C c kvs x = Inr y \<Longrightarrow> stable_fields (oc_fields (C c)) \<Longrightarrow> holds_stored (oc_fields (C c)) x \<Longrightarrow>
     holds_stored (oc_fields (C c)) y"
proof (induction kvs arbitrary: x)
  case Nil
  then show ?case by (simp add: set_all_def)
next
  case (Cons kv kvs)
  obtain n v where kv: "kv = (n, v)" by fastforce
  from Cons.prems(1) obtain z where z: "set_attr (oc_fields (C c)) n v x = Inr z" "set_all C c kvs z = Inr y"
    by (auto simp: set_all_def kv split: sum.splits)
  show ?case by (rule Cons.IH [OF z(2) Cons.prems(2) set_attr_holds [OF z(1) Cons.prems(2,3)]])
qed

text \<open>The steps before the generic loop leave every other attribute alone.\<close>

lemma keep_and_add_cases:
  "keep_and_add C pick items original asked x = Inr y \<Longrightarrow>
     y = x \<or> (\<exists>v. set_all C ''RecordSet'' [(''records'', v)] x = Inr y)"
  by (auto simp: keep_and_add_def split: option.splits sum.splits pyval.splits if_splits)

lemma replace_records_cases:
  assumes "replace_records C pick asked x = Inr y"
  obtains z where "z = x \<or> (\<exists>v. set_all C ''RecordSet'' [(''records'', v)] x = Inr z)"
    "y = z \<or> (\<exists>v. set_all C ''RecordSet'' [(''records'', v)] z = Inr y)"
proof -
  from assms obtain z where z: "load_records C x = Inr z"
    and y: "\<exists>items original. keep_and_add C pick items original asked z = Inr y"
    by (auto simp: replace_records_def split: option.splits sum.splits pyval.splits if_splits)
  have "z = x \<or> (\<exists>v. set_all C ''RecordSet'' [(''records'', v)] x = Inr z)"
    using z by (auto simp: load_records_def split: option.splits)
  moreover from y have "y = z \<or> (\<exists>v. set_all C ''RecordSet'' [(''records'', v)] z = Inr y)"
    by (elim exE) (rule keep_and_add_cases)
  ultimately show ?thesis by (rule that)
qed

lemma replace_records_other:
  assumes "replace_records C pick asked x = Inr y" "a \<noteq> ''records''"
  shows "ob_values y a = ob_values x a"
  using assms(1)
proof (rule replace_records_cases)
  fix z
  have one: "set_all C ''RecordSet'' [(''records'', v)] p = Inr q \<Longrightarrow> ob_values q a = ob_values p a" for v p q
    using assms(2) by (auto dest: set_all_other [where a = a])
  assume "z = x \<or> (\<exists>v. set_all C ''RecordSet'' [(''records'', v)] x = Inr z)"
    "y = z \<or> (\<exists>v. set_all C ''RecordSet'' [(''records'', v)] z = Inr y)"
  then have "ob_values z a = ob_values x a" "ob_values y a = ob_values z a" using one by blast+
  then show ?thesis by simp
qed

lemma replace_records_holds:
  assumes "replace_records C pick asked x = Inr y" "stable_fields (oc_fields (C ''RecordSet''))"
    "holds_stored (oc_fields (C ''RecordSet'')) x"
  shows "holds_stored (oc_fields (C ''RecordSet'')) y"
  using assms(1)
proof (rule replace_records_cases)
  fix z
  let ?H = "holds_stored (oc_fields (C ''RecordSet''))"
  have one: "set_all C ''RecordSet'' [(''records'', v)] p = Inr q \<Longrightarrow> ?H p \<Longrightarrow> ?H q" for v p q
    using set_all_holds [of C "''RecordSet''"] assms(2) by blast
  assume z: "z = x \<or> (\<exists>v. set_all C ''RecordSet'' [(''records'', v)] x = Inr z)"
    and y: "y = z \<or> (\<exists>v. set_all C ''RecordSet'' [(''records'', v)] z = Inr y)"
  have "?H z" using z one assms(3) by blast
  then show ?thesis using y one by blast
qed

lemma parse_own_other:
  "parse_own C c key l entries x = Inr y \<Longrightarrow> a \<noteq> key \<Longrightarrow> ob_values y a = ob_values x a"
  by (auto simp: parse_own_def split: option.splits sum.splits dest: set_attr_other)

lemma parse_own_holds:
  "parse_own C c key l entries x = Inr y \<Longrightarrow> stable_fields (oc_fields (C c)) \<Longrightarrow>
     holds_stored (oc_fields (C c)) x \<Longrightarrow> holds_stored (oc_fields (C c)) y"
  by (auto simp: parse_own_def split: option.splits sum.splits dest: set_attr_holds)

text \<open>The attributes a client can change in a zone and in a record set.\<close>

definition patchable :: "string \<Rightarrow> string list" where
  "patchable c =
     (if c = ''Zone'' then [''pool_id'', ''email'', ''description'', ''ttl'', ''masters'', ''attributes'']
      else [''records'', ''description'', ''ttl''])"

definition known :: "classes \<Rightarrow> string \<Rightarrow> string \<Rightarrow> pyval object \<Rightarrow> bool" where
  "known C c a x \<longleftrightarrow> (case read_attr C c a (ob_values x) of Inl e \<Rightarrow> False | Inr v \<Rightarrow> truthy v)"

lemma knownD: "known C c a x \<Longrightarrow> \<exists>cur. read_attr C c a (ob_values x) = Inr cur \<and> truthy cur"
  by (auto simp: known_def split: sum.splits)

lemma known_same:
  "oc_fields (C c) a \<noteq> None \<Longrightarrow> ob_values (y :: pyval object) a = ob_values x a \<Longrightarrow> known C c a y = known C c a x"
  using read_attr_same [of C c a _ y x] by (auto simp: known_def)

definition keeps_others :: "string list \<Rightarrow> string \<times> key_props \<Rightarrow> bool" where
  "keeps_others writable kp =
     (let a = attribute_of (fst kp) (snd kp) in
      a \<in> set writable \<or> (if kp_immutable (snd kp) then a = ''name'' \<or> a = ''type'' else kp_read_only (snd kp)))"

lemma registered:
  "get_object_adapter ''Zone'' = Inr zone_adapter" "get_object_adapter ''RecordSet'' = Inr record_set_adapter"
  "get_object_adapter ''ZoneMaster'' = Inr zone_master_adapter"
  "get_object_adapter ''ZoneMasterList'' = Inr zone_master_list_adapter"
  "get_object_adapter ''ZoneTransferRequest'' = Inr zone_transfer_request_adapter"
  by (code_simp, code_simp, code_simp, code_simp, code_simp)

lemma tables_keep_others:
  "list_all (keeps_others (patchable ''Zone'')) (ad_keys zone_adapter)"
  "list_all (keeps_others (patchable ''RecordSet'')) (ad_keys record_set_adapter)"
  by (code_simp, code_simp)

lemma keeps_others_guards:
  assumes "list_all (keeps_others ws) ks" "known C c ''name'' x" "known C c ''type'' x" "a \<notin> set ws"
  shows "guarded C c ks x a"
  unfolding guarded_def
proof (intro allI impI)
  fix k p
  assume "map_of ks k = Some p" "attribute_of k p = a"
  then have "keeps_others ws (k, p)" "attribute_of k p = a"
    using assms(1) by (auto simp: list_all_iff dest!: map_of_SomeD)
  then show "if kp_immutable p then \<exists>cur. read_attr C c a (ob_values x) = Inr cur \<and> truthy cur
      else kp_read_only p"
    using assms(2-4) by (auto simp: keeps_others_def Let_def dest!: knownD split: if_splits)
qed

lemma adapter_guards:
  assumes "c = ''Zone'' \<or> c = ''RecordSet''" "known C c ''name'' x" "known C c ''type'' x"
    "a \<notin> set (patchable c)"
  shows "\<exists>ad. get_object_adapter c = Inr ad \<and> guarded C c (ad_keys ad) x a"
  using assms tables_keep_others registered keeps_others_guards by metis

lemma parse_keeps:
  assumes "c = ''Zone'' \<or> c = ''RecordSet''" "respects_eq C c" "holds_stored (oc_fields (C c)) x"
    "known C c ''name'' x" "known C c ''type'' x" "{''name'', ''type''} \<subseteq> dom (oc_fields (C c))"
    and Inr: "parse C pick c v x = Inr y"
  shows "\<forall>a \<in> dom (oc_fields (C c)) - set (patchable c).
    oc_relation (C c) a = None \<longrightarrow> read_attr C c a (ob_values y) = read_attr C c a (ob_values x)"
proof -
  obtain ad where ad: "get_object_adapter c = Inr ad"
    using adapter_guards [OF assms(1,4,5), of "''id''"] assms(1) by (auto simp: patchable_def)
  have st: "stable_fields (oc_fields (C c))" using assms(2) by (simp add: respects_eq_def)
  have same: "read_attr C c a (ob_values y) = read_attr C c a (ob_values x)"
    if a: "a \<in> dom (oc_fields (C c))" "a \<notin> set (patchable c)" "oc_relation (C c) a = None" for a
  proof -
    obtain fd where fd: "oc_fields (C c) a = Some fd" using a(1) by auto
    have "\<exists>entries z. parse_generic C c entries z = Inr y \<and> holds_stored (oc_fields (C c)) z \<and>
        (\<forall>b. b \<notin> set (patchable c) \<longrightarrow> ob_values z b = ob_values x b)"
    proof (cases "c = ''Zone''")
      case True
      with Inr ad obtain entries z1 z2 where
        1: "parse_own C ''Zone'' ''masters'' ''ZoneMasterList'' entries x = Inr z1" and
        2: "parse_own C ''Zone'' ''attributes'' ''ZoneAttributeList'' entries z1 = Inr z2" and
        3: "parse_generic C ''Zone'' entries z2 = Inr y"
        by (auto simp: parse_def as_invalid_def parse_plain_def parse_dict_def parse_zone_def
            split: sum.splits pyval.splits)
      have "holds_stored (oc_fields (C c)) z2"
        using parse_own_holds [OF 2] parse_own_holds [OF 1] st assms(3) True by simp
      moreover have "ob_values z2 b = ob_values x b" if "b \<notin> set (patchable c)" for b
        using parse_own_other [OF 1, of b] parse_own_other [OF 2, of b] that True
        by (simp add: patchable_def)
      ultimately show ?thesis using 3 True by blast
    next
      case False
      then have c: "c = ''RecordSet''" using assms(1) by simp
      with Inr ad obtain entries asked z where
        1: "replace_records C pick asked x = Inr z" and 2: "parse_generic C ''RecordSet'' entries z = Inr y"
        by (auto simp: parse_def as_invalid_def parse_plain_def parse_dict_def parse_recordset_def
            split: sum.splits pyval.splits)
      have "ob_values z b = ob_values x b" if "b \<notin> set (patchable c)" for b
        using replace_records_other [OF 1, of b] that c by (simp add: patchable_def)
      then show ?thesis using 2 replace_records_holds [OF 1] st assms(3) c by blast
    qed
    then obtain entries z where g: "parse_generic C c entries z = Inr y"
      and h: "holds_stored (oc_fields (C c)) z"
      and o: "\<And>b. b \<notin> set (patchable c) \<Longrightarrow> ob_values z b = ob_values x b"
      by blast
    have nt: "''name'' \<notin> set (patchable c)" "''type'' \<notin> set (patchable c)" by (auto simp: patchable_def)
    have "known C c ''name'' z" "known C c ''type'' z"
      using assms(4-6) known_same [of C c "''name''" z x] known_same [of C c "''type''" z x] o [OF nt(1)] o [OF nt(2)]
      by auto
    then have gu: "guarded C c (ad_keys ad) z a"
      using adapter_guards [OF assms(1) _ _ a(2), of C z] ad by auto
    have "read_attr C c a (ob_values y) = read_attr C c a (ob_values z)"
      by (rule parse_generic_guarded [OF g ad gu assms(2) h a(3) fd])
    then show ?thesis using read_attr_same [of C c a fd z x] fd o [OF a(2)] by simp
  qed
  then show ?thesis by simp
qed

text \<open>C34: What a client can change. Parsing the body of a request into a zone or a record set either fails
  with InvalidObject, whatever goes wrong inside, or leaves every attribute as it reads except the
  few that the API lets clients write: of a zone the pool, email, description, TTL, masters and
  attributes, of a record set the records, description and TTL. This holds for zones and record
  sets that have a name and a type, which are the keys a client may set once; coercions must not
  tell apart values that Python calls equal.\<close>

theorem patch_scope:
  assumes "c = ''Zone'' \<or> c = ''RecordSet''" "respects_eq C c" "holds_stored (oc_fields (C c)) x"
    "known C c ''name'' x" "known C c ''type'' x" "{''name'', ''type''} \<subseteq> dom (oc_fields (C c))"
  shows "case parse C pick c v x of
      Inl e \<Rightarrow> e = InvalidObject
    | Inr y \<Rightarrow> \<forall>a \<in> dom (oc_fields (C c)) - set (patchable c).
        oc_relation (C c) a = None \<longrightarrow> read_attr C c a (ob_values y) = read_attr C c a (ob_values x)"
proof (cases "parse C pick c v x")
  case (Inl e)
  then show ?thesis by (auto simp: parse_def as_invalid_def split: sum.splits)
next
  case (Inr y)
  then show ?thesis using parse_keeps [OF assms Inr] by simp
qed

section \<open>Reading back\<close>

lemma map_of_freeze:
  "map_of (List.map_filter (\<lambda>n. map_option (\<lambda>v. (n, v)) (vals n)) names) n =
     (if n \<in> set names then vals n else None)"
  by (induction names) (auto simp: List.map_filter_simps split: option.splits)

text \<open>An attribute that is a plain value and stores this one unchanged.\<close>

definition stores :: "classes \<Rightarrow> string \<Rightarrow> string \<Rightarrow> pyval \<Rightarrow> bool" where
  "stores C c n v \<longleftrightarrow> n \<in> set (oc_names (C c)) \<and>
     (\<exists>fd. oc_fields (C c) n = Some fd \<and> fd_coerce fd v = Inr v)"

lemma set_attr_stores:
  assumes "stores C c n v" "ob_values x n = None"
  shows "\<exists>y. set_attr (oc_fields (C c)) n v x = Inr y \<and> ob_values y = (ob_values x)(n \<mapsto> v)"
  using assms by (auto simp: stores_def set_attr_def obj_attr_is_set_def remember_def Let_def)

lemma read_frozen:
  assumes "stores C c n w" "ob_values x n = Some v"
  shows "\<exists>fs. freeze C c x = PObj c fs \<and> read_attr C c n (map_of fs) = Inr v"
  using assms by (auto simp: freeze_def read_attr_def stores_def map_of_freeze)

lemma set_all_stores:
  assumes "stores C c n v" "stores C c m w" "n \<noteq> m"
  shows "\<exists>y. set_all C c [(n, v), (m, w)] new_object = Inr y \<and> ob_values y n = Some v \<and> ob_values y m = Some w"
proof -
  obtain x where x: "set_attr (oc_fields (C c)) n v new_object = Inr x" "ob_values x = [n \<mapsto> v]"
    using set_attr_stores [OF assms(1), of new_object] by (auto simp: new_object_def)
  obtain y where "set_attr (oc_fields (C c)) m w x = Inr y" "ob_values y = (ob_values x)(m \<mapsto> w)"
    using set_attr_stores [OF assms(2), of x] x(2) assms(3) by auto
  then show ?thesis using x assms(3) by (auto simp: set_all_def)
qed

lemma py_int_with_colon: "CHR '':'' \<in> set s \<Longrightarrow> py_int s = None"
proof -
  assume colon: "CHR '':'' \<in> set s"
  have keep: "CHR '':'' \<in> set (dropWhile is_blank t)" if "CHR '':'' \<in> set t" for t
    using that by (induction t) (auto simp: is_blank_def)
  have t: "CHR '':'' \<in> set (strip_blanks s)" using keep [of s] keep colon by (simp add: strip_blanks_def)
  define neg_body where "neg_body = (case strip_blanks s of
      c # rest \<Rightarrow> if c = CHR ''-'' then (True, rest) else if c = CHR ''+'' then (False, rest)
        else (False, strip_blanks s) | [] \<Rightarrow> (False, []))"
  have body: "CHR '':'' \<in> set (snd neg_body)" using t by (cases "strip_blanks s") (auto simp: neg_body_def)
  have "\<not> list_all (\<lambda>g. g \<noteq> [] \<and> list_all is_digit g) (split_on CHR ''_'' (snd neg_body))"
  proof
    assume d: "list_all (\<lambda>g. g \<noteq> [] \<and> list_all is_digit g) (split_on CHR ''_'' (snd neg_body))"
    have sub: "set (join [c] ws) \<subseteq> insert c (\<Union> (set ` set ws))" for c and ws :: "string list"
      by (induction "[c]" ws rule: join.induct) auto
    have "CHR '':'' \<in> set (join [CHR ''_''] (split_on CHR ''_'' (snd neg_body)))" using body by simp
    from subsetD [OF sub this] obtain g where "g \<in> set (split_on CHR ''_'' (snd neg_body))" "CHR '':'' \<in> set g"
      by auto
    then have "is_digit CHR '':''" using d by (auto simp: list_all_iff)
    then show False by (simp add: is_digit_def)
  qed
  then show ?thesis unfolding py_int_def Let_def
    by (cases neg_body) (auto simp: neg_body_def [symmetric])
qed

text \<open>How a master is written: a host, or a host without colons and a port that is not the usual one.\<close>

definition master_form :: "string \<Rightarrow> bool" where
  "master_form h \<longleftrightarrow> (\<exists>host port. CHR '':'' \<notin> set host \<and>
     (h = host \<or> 0 \<le> port \<and> port \<noteq> 53 \<and> h = host @ '':'' @ int_str port))"

definition stores_master :: "classes \<Rightarrow> string \<Rightarrow> bool" where
  "stores_master C h \<longleftrightarrow> stores C ''ZoneMaster'' ''host'' (PStr (fst (split_host_port h 53))) \<and>
     stores C ''ZoneMaster'' ''port'' (PInt (snd (split_host_port h 53)))"

lemma master_round_trip:
  assumes "master_form h" "stores_master C h" "oc_item (C ''ZoneMaster'') = None" "rn_classes R = C"
  shows "\<exists>m. parse_new C pick (PStr h) ''ZoneMaster'' = Inr m \<and> render R m = Inr (PStr h)"
proof -
  obtain host port where hp: "split_host_port h 53 = (host, port)" by fastforce
  have st: "stores C ''ZoneMaster'' ''host'' (PStr host)" "stores C ''ZoneMaster'' ''port'' (PInt port)"
    using assms(2) hp by (simp_all add: stores_master_def)
  obtain y where y: "set_all C ''ZoneMaster'' [(''host'', PStr host), (''port'', PInt port)] new_object = Inr y"
    "ob_values y ''host'' = Some (PStr host)" "ob_values y ''port'' = Some (PInt port)"
    using set_all_stores [OF st] by auto
  have parsed: "parse_new C pick (PStr h) ''ZoneMaster'' = Inr (freeze C ''ZoneMaster'' y)"
    using y(1) hp assms(3) by (simp add: parse_as_class_def registered parse_plain_def as_invalid_def)
  obtain fs where fs: "freeze C ''ZoneMaster'' y = PObj ''ZoneMaster'' fs"
    "read_attr C ''ZoneMaster'' ''host'' (map_of fs) = Inr (PStr host)"
    "read_attr C ''ZoneMaster'' ''port'' (map_of fs) = Inr (PInt port)"
    using read_frozen [OF st(1) y(2)] read_frozen [OF st(2) y(3)] by auto
  have "(if port = 53 then host else host @ '':'' @ int_str port) = h"
  proof -
    from assms(1) obtain host' port' where h: "CHR '':'' \<notin> set host'"
      "h = host' \<or> 0 \<le> port' \<and> port' \<noteq> 53 \<and> h = host' @ '':'' @ int_str port'"
      unfolding master_form_def by blast
    show ?thesis
    proof (cases "h = host'")
      case True
      then have "split_host_port h 53 = (host', 53)" using split_host_port_roundtrip [OF h(1), of 0] by blast
      then show ?thesis using hp True by simp
    next
      case False
      then have p: "0 \<le> port'" "port' \<noteq> 53" "h = host' @ '':'' @ int_str port'" using h(2) by blast+
      then have "split_host_port h 53 = (host', port')" using split_host_port_roundtrip [OF h(1) p(1)] by blast
      then show ?thesis using hp p by simp
    qed
  qed
  then have "render R (PObj ''ZoneMaster'' fs) = Inr (PStr h)"
    using fs assms(4) by (auto simp: registered render_object_def split: if_splits)
  then show ?thesis using parsed fs(1) by simp
qed

lemma collect_map_Inr:
  "(\<And>x. x \<in> set xs \<Longrightarrow> f x = Inr (g x)) \<Longrightarrow> collect (map f xs) = Inr (map g xs)"
  by (induction xs) auto

text \<open>Masters read back as they were written, when each is a host, or a host without colons with a port:
  what a client sends comes back, in its order. But the port is lost on an address with colons in it:
  what is shown of an IPv6 master with a port of its own reads as one long address with the usual port.\<close>

theorem masters_round_trip:
  assumes "list_all master_form hs" "list_all (stores_master C) hs" "rn_classes R = C"
    "oc_item (C ''ZoneMasterList'') = Some ''ZoneMaster''" "oc_item (C ''ZoneMaster'') = None"
  shows "(\<exists>m. parse_new C pick (PList (map PStr hs)) ''ZoneMasterList'' = Inr m \<and>
      render R m = Inr (PList (map PStr hs))) \<and>
    (\<forall>a b port. CHR '':'' \<in> set b \<longrightarrow>
      (let shown = (a @ '':'' @ b) @ '':'' @ int_str port in split_host_port shown 53 = (shown, 53)))"
proof
  obtain g where g: "\<And>h. h \<in> set hs \<Longrightarrow>
      parse_new C pick (PStr h) ''ZoneMaster'' = Inr (g h) \<and> render R (g h) = Inr (PStr h)"
    using master_round_trip [OF _ _ assms(5,3), where pick = pick] assms(1,2)
    unfolding list_all_iff by metis
  have items: "collect (map (\<lambda>f. f ''ZoneMaster'') (map (parse_new C pick) (map PStr hs))) = Inr (map g hs)"
    using collect_map_Inr [of hs "\<lambda>h. parse_new C pick (PStr h) ''ZoneMaster''" g] g by (simp add: comp_def)
  have "parse_new C pick (PList (map PStr hs)) ''ZoneMasterList'' = Inr (PObjs ''ZoneMasterList'' (map g hs) None)"
    using items assms(4)
    by (simp add: parse_as_class_def parse_list_def registered attribute_lists_def as_invalid_def comp_def)
  moreover have "collect (map (render R) (map g hs)) = Inr (map PStr hs)"
    using collect_map_Inr [of hs "\<lambda>h. render R (g h)" PStr] g by (simp add: comp_def)
  then have "render R (PObjs ''ZoneMasterList'' (map g hs) None) = Inr (PList (map PStr hs))"
    by (simp add: registered render_list_def attribute_lists_def)
  ultimately show "\<exists>m. parse_new C pick (PList (map PStr hs)) ''ZoneMasterList'' = Inr m \<and>
      render R m = Inr (PList (map PStr hs))" by blast
next
  show "\<forall>a b port. CHR '':'' \<in> set b \<longrightarrow>
      (let shown = (a @ '':'' @ b) @ '':'' @ int_str port in split_host_port shown 53 = (shown, 53))"
  proof (intro allI impI)
    fix a b :: string and port :: int
    assume b: "CHR '':'' \<in> set b"
    define rest where "rest = dropWhile (\<lambda>c. c \<noteq> CHR '':'') ((a @ '':'' @ b) @ '':'' @ int_str port)"
    have "rest = dropWhile (\<lambda>c. c \<noteq> CHR '':'') (a @ '':'') @ b @ '':'' @ int_str port"
      using dropWhile_append1 [of "CHR '':''" "a @ '':''" "\<lambda>c. c \<noteq> CHR '':''" "b @ '':'' @ int_str port"]
      by (simp add: rest_def)
    moreover have "dropWhile (\<lambda>c. c \<noteq> CHR '':'') (a @ '':'') \<noteq> []" by (induction a) auto
    ultimately have "\<exists>c more. rest = c # more @ b @ '':'' @ int_str port"
      by (cases "dropWhile (\<lambda>c. c \<noteq> CHR '':'') (a @ '':'')") auto
    then obtain c more where rest: "rest = c # more @ b @ '':'' @ int_str port" by blast
    have "py_int (more @ b @ '':'' @ int_str port) = None" using b by (intro py_int_with_colon) simp
    then show "let shown = (a @ '':'' @ b) @ '':'' @ int_str port in split_host_port shown 53 = (shown, 53)"
      using rest unfolding Let_def split_host_port_def rest_def by simp
  qed
qed


section \<open>The records of a record set\<close>

lemma among_strings: "among (PStr d) (map PStr ds) \<longleftrightarrow> d \<in> set ds"
  by (auto simp: among_def list_ex_iff)

fun dedup :: "string list \<Rightarrow> string list" where
  "dedup [] = []"
| "dedup (d # ds) = (if d \<in> set ds then dedup ds else d # dedup ds)"

lemma as_set_strings: "as_set (map PStr ds) = map PStr (dedup ds)"
  by (induction ds) (auto simp: among_strings)

lemma dedup_set: "set (dedup ds) = set ds" "distinct (dedup ds)"
  by (induction ds) auto

lemma hashable_strings: "list_all hashable (map PStr ds)"
  by (induction ds) auto

text \<open>Iterating over a set gives each of its elements once.\<close>

definition walks :: "(pyval list \<Rightarrow> pyval list) \<Rightarrow> bool" where
  "walks pick \<longleftrightarrow> (\<forall>vs. distinct vs \<longrightarrow> distinct (pick vs) \<and> set (pick vs) = set vs)"

lemma walks_strings:
  assumes "walks pick" "distinct ds"
  shows "\<exists>es. pick (map PStr ds) = map PStr es \<and> distinct es \<and> set es = set ds"
proof -
  have "distinct (map PStr ds)" using assms(2) by (simp add: distinct_map inj_on_def)
  then have p: "distinct (pick (map PStr ds))" "set (pick (map PStr ds)) = PStr ` set ds"
    using assms(1) by (auto simp: walks_def)
  then have "\<forall>v \<in> set (pick (map PStr ds)). \<exists>d. v = PStr d" by auto
  then obtain es where es: "pick (map PStr ds) = map PStr es" by (auto simp: ex_map_conv [symmetric])
  then have "distinct es" "PStr ` set es = PStr ` set ds" using p by (auto simp: distinct_map)
  then have "distinct es" "set es = set ds" by (simp_all add: inj_image_eq_iff inj_def)
  then show ?thesis using es by blast
qed

lemma new_record_data:
  assumes "stores C ''Record'' ''data'' (PStr d)"
  shows "\<exists>r. new_record C (PStr d) = Inr r \<and> record_data C r = Inr (PStr d)"
proof -
  obtain y where "set_all C ''Record'' [(''data'', PStr d)] new_object = Inr y" "ob_values y ''data'' = Some (PStr d)"
    using set_attr_stores [OF assms, of new_object] by (auto simp: new_object_def set_all_def)
  then show ?thesis using read_frozen [OF assms, of y] by (auto simp: new_record_def record_data_def)
qed

lemma zip_filter: "map fst (filter (\<lambda>(r, d). P d) (zip xs (map f xs))) = filter (\<lambda>r. P (f r)) xs"
  by (induction xs) auto

text \<open>C35: The records a record set ends up with. When a request gives a list of strings as the records of a loaded
  record set, the records whose data is in the list stay, as the objects they were and in their order;
  those whose data is not go; and for each string that was not there comes one new record, however often
  the list has it.\<close>

theorem parse_records_replaced:
  assumes "parse C pick ''RecordSet'' (PDict kvs) x = Inr y" "walks pick"
    and "map_of kvs ''records'' = Some (PList (map PStr wanted))"
    and "ob_values x ''records'' = Some (PObjs l items n)"
    and "\<forall>r \<in> set items. record_data C r = Inr (PStr (data r))"
    and "\<forall>d \<in> set wanted. stores C ''Record'' ''data'' (PStr d)"
    and "\<forall>rs. \<exists>fd. oc_fields (C ''RecordSet'') ''records'' = Some fd \<and> fd_read_only fd = False \<and>
      fd_coerce fd (PObjs ''RecordList'' rs None) = Inr (PObjs ''RecordList'' rs None)"
  shows "\<exists>added fresh. ob_values y ''records'' =
        Some (PObjs ''RecordList'' (filter (\<lambda>r. data r \<in> set wanted) items @ added) None) \<and>
      map (record_data C) added = map (\<lambda>d. Inr (PStr d)) fresh \<and> distinct fresh \<and>
      set fresh = set wanted - data ` set items"
proof -
  define entries :: "entry list" where "entries = map (\<lambda>(k, w). (k, w, parse_new C pick w)) kvs"
  have look: "map_option fst (map_of entries ''records'') = Some (PList (map PStr wanted))"
    using assms(3) unfolding entries_def by (induction kvs) auto
  obtain z where z: "replace_records C pick (Some (PList (map PStr wanted))) x = Inr z"
    and g: "parse_generic C ''RecordSet'' entries z = Inr y"
    using assms(1) registered(2) look
    by (auto simp: parse_def as_invalid_def parse_dict_def parse_recordset_def entries_def [symmetric] split: sum.splits)
  have kept: "ob_values y ''records'' = ob_values z ''records''"
  proof -
    from g obtain more where k: "parse_keys C ''RecordSet'' (ad_keys record_set_adapter) entries [] z = Inr (more, y)"
      by (auto simp: parse_generic_def registered split: sum.splits if_splits)
    have "list_all (\<lambda>(k, p). k = ''records'' \<or> attribute_of k p \<noteq> ''records'') (ad_keys record_set_adapter)"
      by code_simp
    then show ?thesis
      by (intro parse_keys_other [OF k]) (auto simp: own_keys_def list_all_iff dest!: map_of_SomeD)
  qed
  have orig: "collect (map (record_data C) items) = Inr (map PStr (map data items))"
    using collect_map_Inr [of items "record_data C" "\<lambda>r. PStr (data r)"] assms(5) by (simp add: comp_def)
  let ?new = "filter (\<lambda>d. d \<notin> data ` set items) wanted"
  have "filter (\<lambda>w. \<not> among w (map PStr (map data items))) (map PStr wanted) = map PStr ?new"
    by (simp add: filter_map comp_def among_strings del: map_map)
  then have set: "as_set (filter (\<lambda>w. \<not> among w (map PStr (map data items))) (map PStr wanted)) = map PStr (dedup ?new)"
    by (simp add: as_set_strings)
  obtain fresh where fresh: "pick (map PStr (dedup ?new)) = map PStr fresh" "distinct fresh" "set fresh = set ?new"
    using walks_strings [OF assms(2) dedup_set(2), of ?new] dedup_set(1) [of ?new] by auto
  have "\<exists>r. new_record C (PStr d) = Inr r \<and> record_data C r = Inr (PStr d)" if "d \<in> set fresh" for d
    using new_record_data assms(6) that fresh(3) by auto
  then obtain rec where rec: "\<And>d. d \<in> set fresh \<Longrightarrow> new_record C (PStr d) = Inr (rec d) \<and>
      record_data C (rec d) = Inr (PStr d)" by metis
  have added: "collect (map (new_record C) (map PStr fresh)) = Inr (map rec fresh)"
    using collect_map_Inr [of fresh "\<lambda>d. new_record C (PStr d)" rec] rec by (simp add: comp_def)
  let ?list = "PObjs ''RecordList'' (filter (\<lambda>r. data r \<in> set wanted) items @ map rec fresh) None"
  have stay: "map fst (filter (\<lambda>(r, d). among d (map PStr wanted)) (zip items (map PStr (map data items))))
      = filter (\<lambda>r. data r \<in> set wanted) items"
    using zip_filter [of "\<lambda>d. among d (map PStr wanted)" items "\<lambda>r. PStr (data r)"]
    by (simp add: among_strings comp_def)
  have "set_all C ''RecordSet'' [(''records'', ?list)] x = Inr z"
    using z assms(4) orig hashable_strings [of "map data items"] hashable_strings [of wanted]
    by (simp add: replace_records_def load_records_def keep_and_add_def set fresh(1) added stay
        del: map_map list.map_comp split: sum.splits)
  then have "ob_values z ''records'' = Some ?list"
    using assms(7) by (auto simp: set_all_def set_attr_def Let_def split: option.splits sum.splits)
  moreover have "map (record_data C) (map rec fresh) = map (\<lambda>d. Inr (PStr d)) fresh" using rec by simp
  moreover have "set fresh = set wanted - data ` set items" using fresh(3) by auto
  ultimately show ?thesis using kept fresh(2) by (intro exI [of _ "map rec fresh"] exI [of _ fresh]) simp
qed


section \<open>What is hidden\<close>

lemma render_keys_names: "render_keys R c ad fs nested = Inr d \<Longrightarrow> map fst d = map fst (ad_keys ad)"
proof -
  have "collect (map (render_key R c fs nested) ks) = Inr d \<Longrightarrow> map fst d = map fst ks" for ks
  proof (induction ks arbitrary: d)
    case Nil
    then show ?case by simp
  next
    case (Cons kp ks)
    then show ?case
      by (auto split: sum.splits) (auto simp: render_key_def Let_def split: sum.splits if_splits pyval.splits)
  qed
  then show "render_keys R c ad fs nested = Inr d \<Longrightarrow> map fst d = map fst (ad_keys ad)"
    by (simp add: render_keys_def)
qed

definition link_keys :: "render_env \<Rightarrow> string list" where
  "link_keys R = (if rn_request R = None then [] else [''links''])"

text \<open>C36: Who sees the key of a transfer request. A caller whom the policy on the request's project lets see details
  is shown all attributes; anybody else, a token of the wrong scope included, only the identifiers, the
  description, the status and the zone's name: never the key, the project or the target project.\<close>

theorem transfer_request_details:
  assumes "render R (PObj ''ZoneTransferRequest'' fs) = Inr (PDict d)"
    "read_attr (rn_classes R) ''ZoneTransferRequest'' ''tenant_id'' (map_of fs) = Inr t"
  shows "map fst d =
    (if e_enforce (rn_env R) ''get_zone_transfer_request_detailed'' (detail_target t) (rn_context R) = Permit
     then map fst (ad_keys zone_transfer_request_adapter)
     else [''id'', ''zone_id'', ''description'', ''status'', ''zone_name'']) @ link_keys R"
proof -
  let ?ad = zone_transfer_request_adapter
  from assms(1) obtain nested d0 d1 where
    0: "render_keys R ''ZoneTransferRequest'' ?ad fs nested = Inr d0" and
    1: "with_links R ''ZoneTransferRequest'' ?ad fs d0 = Inr d1" and
    2: "hide_protected R ?ad fs d1 = Inr d"
    by (auto simp: registered render_object_def class_links_def and_then_Inr)
  have "ad_links ?ad" by (simp add: zone_transfer_request_adapter_def)
  then have n1: "map fst d1 = map fst (ad_keys ?ad) @ link_keys R"
    using 1 render_keys_names [OF 0] by (auto simp: with_links_def link_keys_def split: option.splits sum.splits)
  have f: "map fst (filter (\<lambda>(k, v). P k) d1) = filter P (map fst d1)" for P
    by (induction d1) auto
  have "filter (\<lambda>k. \<not> is_protected ?ad k) (map fst (ad_keys ?ad)) =
      [''id'', ''zone_id'', ''description'', ''status'', ''zone_name'']" by code_simp
  moreover have "\<not> is_protected ?ad ''links''" by code_simp
  then have "filter (\<lambda>k. \<not> is_protected ?ad k) (link_keys R) = link_keys R" by (simp add: link_keys_def)
  ultimately have "map fst (filter (\<lambda>(k, v). \<not> is_protected ?ad k) d1) =
      [''id'', ''zone_id'', ''description'', ''status'', ''zone_name''] @ link_keys R"
    unfolding f n1 filter_append by (simp only:)
  then show ?thesis
    using 2 n1 assms(2)
    by (auto simp: hide_protected_def check_result_def split: enforcement.splits)
qed

section \<open>Examples\<close>

text \<open>Some fields of zones, record sets, masters and transfer requests.\<close>

definition str_field :: "pyval field" where
  "str_field = \<lparr>fd_coerce = (\<lambda>v. case v of PStr s \<Rightarrow> Inr v | PNone \<Rightarrow> Inr v | _ \<Rightarrow> Inl PyValueError),
     fd_read_only = False, fd_nullable = True, fd_relation = False\<rparr>"

definition int_field :: "pyval field" where
  "int_field = str_field\<lparr>fd_coerce := (\<lambda>v. case v of PInt n \<Rightarrow> Inr v | PNone \<Rightarrow> Inr v
     | PFloat m e s \<Rightarrow> Inr (PInt (if m < 0 then - (- m div 2 ^ e) else m div 2 ^ e)) | _ \<Rightarrow> Inl PyValueError)\<rparr>"

definition list_field :: "pyval field" where
  "list_field = \<lparr>fd_coerce = (\<lambda>v. case v of PObjs c xs n \<Rightarrow> Inr v | PNone \<Rightarrow> Inr v | _ \<Rightarrow> Inl PyValueError),
     fd_read_only = False, fd_nullable = True, fd_relation = True\<rparr>"

definition time_field :: "pyval field" where
  "time_field = str_field\<lparr>fd_coerce := (\<lambda>v. case v of PTime t \<Rightarrow> Inr v | PNone \<Rightarrow> Inr v | _ \<Rightarrow> Inl PyValueError)\<rparr>"

definition api_fields :: "pyval fields" where
  "api_fields n =
     (if n \<in> set [''id'', ''name'', ''type'', ''email'', ''host'', ''data'', ''tenant_id'', ''zone_id'', ''key'',
         ''description'', ''status'', ''zone_name'', ''target_tenant_id'', ''action'']
      then Some str_field
      else if n \<in> set [''ttl'', ''port''] then Some int_field
      else if n \<in> set [''created_at'', ''updated_at'', ''transferred_at''] then Some time_field
      else if n \<in> set [''masters'', ''attributes'', ''records''] then Some list_field else None)"

definition api_classes :: classes where
  "api_classes c =
     \<lparr>oc_names = [''id'', ''name'', ''type'', ''ttl'', ''host'', ''port'', ''data'', ''masters'', ''records''],
      oc_fields = api_fields,
      oc_relation = [''masters'' \<mapsto> ''ZoneMasterList'', ''attributes'' \<mapsto> ''ZoneAttributeList'',
        ''records'' \<mapsto> ''RecordList''],
      oc_datetime = (\<lambda>_. False), oc_computed = [''managed'' \<mapsto> (\<lambda>vals. Inr (PBool False))],
      oc_item = (if c = ''ZoneMasterList'' then Some ''ZoneMaster''
                 else if c = ''RecordList'' then Some ''Record'' else None),
      oc_paged = False\<rparr>"

lemma api_fields_cases: "api_fields n = Some fd \<Longrightarrow> fd = str_field \<or> fd = int_field \<or> fd = time_field \<or> fd = list_field"
  by (simp add: api_fields_def split: if_splits)

lemma api_fields_stable: "stable_fields api_fields"
  unfolding stable_fields_def
  by (auto dest!: api_fields_cases simp: str_field_def int_field_def time_field_def list_field_def split: pyval.splits)

lemma api_classes_respect: "respects_eq api_classes c"
proof -
  have "(fd_coerce fd u = Inr u \<longrightarrow> py_eq u w \<longrightarrow> d = u) \<and> (w = PNone \<longrightarrow> d = PNone)"
    if "api_fields n = Some fd" "fd_coerce fd w = Inr d" for n fd u w d
    using api_fields_cases [OF that(1)] that(2)
    by (cases u; cases w) (auto simp: str_field_def int_field_def time_field_def list_field_def)
  then show ?thesis using api_fields_stable by (simp add: respects_eq_def api_classes_def)
qed

definition api_zone :: "pyval object" where
  "api_zone = new_object\<lparr>ob_values := [''name'' \<mapsto> PStr ''a.b.'', ''type'' \<mapsto> PStr ''PRIMARY'', ''ttl'' \<mapsto> PInt 5]\<rparr>"

definition zone_body :: pyval where
  "zone_body = PDict [(''ttl'', PInt 60), (''masters'', PList [PStr ''h:5354'']), (''name'', PStr ''a.b.'')]"

theorem patch_scope_witness:
  "\<exists>y. parse api_classes rev ''Zone'' zone_body api_zone = Inr y \<and> ob_values y ''ttl'' = Some (PInt 60) \<and>
     read_attr api_classes ''Zone'' ''name'' (ob_values y) = Inr (PStr ''a.b.'')"
proof -
  have "case parse api_classes rev ''Zone'' zone_body api_zone of
      Inl e \<Rightarrow> False | Inr y \<Rightarrow> ob_values y ''ttl'' = Some (PInt 60)" by code_simp
  then obtain y where y: "parse api_classes rev ''Zone'' zone_body api_zone = Inr y" "ob_values y ''ttl'' = Some (PInt 60)"
    by (auto split: sum.splits)
  have known: "known api_classes ''Zone'' ''name'' api_zone" "known api_classes ''Zone'' ''type'' api_zone"
    "''name'' \<notin> set (patchable ''Zone'')" by code_simp+
  have "holds_stored (oc_fields (api_classes ''Zone'')) api_zone"
    by (auto simp: holds_stored_def api_classes_def api_zone_def api_fields_def str_field_def int_field_def
        new_object_def split: if_splits)
  moreover have dom: "{''name'', ''type''} \<subseteq> dom (oc_fields (api_classes ''Zone''))"
    "oc_relation (api_classes ''Zone'') ''name'' = None"
    by (auto simp: dom_def api_classes_def api_fields_def)
  ultimately have "read_attr api_classes ''Zone'' ''name'' (ob_values y) = read_attr api_classes ''Zone'' ''name'' (ob_values api_zone)"
    using patch_scope [OF disjI1 [OF refl] api_classes_respect _ known(1,2) dom(1), of rev zone_body] y(1) known(3)
    by auto
  moreover have "read_attr api_classes ''Zone'' ''name'' (ob_values api_zone) = Inr (PStr ''a.b.'')" by code_simp
  ultimately show ?thesis using y by auto
qed

definition api_render_env :: render_env where
  "api_render_env = \<lparr>rn_classes = api_classes, rn_env = sample_env\<lparr>e_enforce := (\<lambda>r t c. Deny)\<rparr>,
     rn_context = tenant_context ''t2'', rn_request = None, rn_enable_host_header = False,
     rn_api_base_uri = ''http://h/'', rn_default_limit = 20, rn_max_limit = 1000, rn_strftime = (\<lambda>t. '''')\<rparr>"

theorem masters_round_trip_witness:
  "(\<exists>m. parse_new api_classes rev (PList [PStr ''h'', PStr ''h:5354'']) ''ZoneMasterList'' = Inr m \<and>
      render api_render_env m = Inr (PList [PStr ''h'', PStr ''h:5354''])) \<and>
   split_host_port ''2001::1:5354'' 53 = (''2001::1:5354'', 53)"
proof -
  have i: "int_str 5354 = ''5354''" by code_simp
  have "master_form ''h''" unfolding master_form_def by (rule exI [of _ "''h''"]) simp
  moreover have "master_form ''h:5354''" unfolding master_form_def
    by (rule exI [of _ "''h''"], rule exI [of _ 5354]) (simp add: i)
  ultimately have f: "list_all master_form [''h'', ''h:5354'']" by simp
  have s: "split_host_port ''h'' 53 = (''h'', 53)" "split_host_port ''h:5354'' 53 = (''h'', 5354)" by code_simp+
  have st: "list_all (stores_master api_classes) [''h'', ''h:5354'']"
    by (simp add: stores_master_def s stores_def api_classes_def api_fields_def str_field_def int_field_def)
  have c: "rn_classes api_render_env = api_classes" "oc_item (api_classes ''ZoneMasterList'') = Some ''ZoneMaster''"
    "oc_item (api_classes ''ZoneMaster'') = None"
    by (simp_all add: api_render_env_def api_classes_def)
  note both = masters_round_trip [OF f st c, of rev]
  have "split_host_port ''2001::1:5354'' 53 = (''2001::1:5354'', 53)"
    using both [THEN conjunct2, rule_format, of "'':1''" "''2001''" 5354] by (simp add: Let_def i)
  then show ?thesis using both [THEN conjunct1] by simp
qed

definition api_records :: "pyval list" where
  "api_records = [PObj ''Record'' [(''id'', PStr ''r1''), (''data'', PStr ''a'')], PObj ''Record'' [(''data'', PStr ''b'')]]"

definition api_recordset :: "pyval object" where
  "api_recordset = new_object\<lparr>ob_values := [''name'' \<mapsto> PStr ''a.b.'', ''type'' \<mapsto> PStr ''A'',
     ''records'' \<mapsto> PObjs ''RecordList'' api_records None]\<rparr>"

theorem parse_records_replaced_witness:
  "\<exists>y added. parse api_classes rev ''RecordSet'' (PDict [(''records'', PList [PStr ''c'', PStr ''a'', PStr ''c''])]) api_recordset
      = Inr y \<and>
     ob_values y ''records'' = Some (PObjs ''RecordList''
       (PObj ''Record'' [(''id'', PStr ''r1''), (''data'', PStr ''a'')] # added) None) \<and>
     set (map (record_data api_classes) added) = {Inr (PStr ''c'')}"
proof -
  let ?body = "PDict [(''records'', PList (map PStr [''c'', ''a'', ''c'']))]"
  let ?data = "\<lambda>r. case record_data api_classes r of Inr (PStr s) \<Rightarrow> s | _ \<Rightarrow> ''''"
  have "\<not> isl (parse api_classes rev ''RecordSet'' ?body api_recordset)" by code_simp
  then obtain y where y: "parse api_classes rev ''RecordSet'' ?body api_recordset = Inr y"
    by (metis sum.collapse(2))
  have d: "map ?data api_records = [''a'', ''b'']"
    "list_all (\<lambda>r. record_data api_classes r = Inr (PStr (?data r))) api_records" by code_simp+
  obtain added fresh where a: "ob_values y ''records'' =
        Some (PObjs ''RecordList'' (filter (\<lambda>r. ?data r \<in> set [''c'', ''a'', ''c'']) api_records @ added) None)"
      "map (record_data api_classes) added = map (\<lambda>d. Inr (PStr d)) fresh" "distinct fresh"
      "set fresh = set [''c'', ''a'', ''c''] - ?data ` set api_records"
    using parse_records_replaced [OF y, of "[''c'', ''a'', ''c'']" "''RecordList''" api_records None ?data] d(2)
    by (auto simp: walks_def api_recordset_def new_object_def stores_def api_classes_def api_fields_def
        str_field_def list_field_def list_all_iff)
  have "set (map ?data api_records) = {''a'', ''b''}" unfolding d(1) by simp
  with a(4) have "set fresh = {''c''}" by auto
  then have "set (map (record_data api_classes) added) = {Inr (PStr ''c'')}" unfolding a(2) by simp
  moreover have "filter (\<lambda>r. ?data r \<in> set [''c'', ''a'', ''c'']) api_records =
      [PObj ''Record'' [(''id'', PStr ''r1''), (''data'', PStr ''a'')]]" by code_simp
  ultimately show ?thesis using y a(1) by (intro exI [of _ y] exI [of _ added]) simp
qed

theorem transfer_request_details_witness:
  "\<exists>d. render api_render_env (PObj ''ZoneTransferRequest'' [(''id'', PStr ''i''), (''tenant_id'', PStr ''t1''),
       (''key'', PStr ''secret'')]) = Inr (PDict d) \<and>
     map fst d = [''id'', ''zone_id'', ''description'', ''status'', ''zone_name'']"
proof -
  let ?fs = "[(''id'', PStr ''i''), (''tenant_id'', PStr ''t1''), (''key'', PStr ''secret'')]"
  have "case render api_render_env (PObj ''ZoneTransferRequest'' ?fs) of Inr (PDict d) \<Rightarrow> True | _ \<Rightarrow> False" by code_simp
  then obtain d where d: "render api_render_env (PObj ''ZoneTransferRequest'' ?fs) = Inr (PDict d)"
    by (auto split: sum.splits pyval.splits)
  have "read_attr (rn_classes api_render_env) ''ZoneTransferRequest'' ''tenant_id'' (map_of ?fs) = Inr (PStr ''t1'')"
    by code_simp
  from transfer_request_details [OF d this] show ?thesis using d
    by (simp add: api_render_env_def link_keys_def sample_env_def)
qed

end
