(* ===== verification/ApiMiddleware.thy ===== *)
theory ApiMiddleware
  imports AdapterProps
begin

text \<open>
  The middleware every request to the API passes, \<open>api/middleware.py\<close>: building the context from
  what Keystone (or nobody) vouches for and from what the request asks for, maintenance mode, and
  turning exceptions into responses, outermost the fault wrapper. \<open>etc/designate/api-paste.ini\<close> puts them in
  the order of \<open>v2_pipeline\<close>. The application inside is a parameter, and so is whatever it
  does to the state of the system. The pieces of oslo.middleware between them (CORS, size limits, token
  validation) are left out.
\<close>

section \<open>Errors as the API shows them\<close>

text \<open>\<open>error_type\<close> of each class; None where the exception is not one of Designate's, whose type the
  response calls unknown.\<close>

fun resource_label :: "resource \<Rightarrow> string" where
  "resource_label R_ServiceStatus = ''service_status''"
| "resource_label R_Quota = ''quota''"
| "resource_label R_Server = ''server''"
| "resource_label R_TsigKey = ''tsigkey''"
| "resource_label R_Blacklist = ''blacklist''"
| "resource_label R_Zone = ''zone''"
| "resource_label R_ZoneMaster = ''zone_master''"
| "resource_label R_ZoneAttribute = ''zone_attribute''"
| "resource_label R_Tld = ''tld''"
| "resource_label R_RecordSet = ''recordset''"
| "resource_label R_Record = ''record''"
| "resource_label R_Report = ''report''"
| "resource_label R_Pool = ''pool''"
| "resource_label R_PoolAttribute = ''pool_attribute''"
| "resource_label R_PoolNsRecord = ''pool_ns_record''"
| "resource_label R_PoolNameserver = ''pool_nameserver''"
| "resource_label R_PoolTarget = ''pool_target''"
| "resource_label R_PoolTargetOption = ''pool_target_option''"
| "resource_label R_PoolTargetMaster = ''pool_target_master''"
| "resource_label R_PoolAlsoNotify = ''pool_also_notify''"
| "resource_label R_ZoneTransferRequest = ''zone_transfer_request''"
| "resource_label R_ZoneTransferAccept = ''zone_transfer_accept''"
| "resource_label R_ZoneImport = ''zone_import''"
| "resource_label R_ZoneExport = ''zone_export''"
| "resource_label R_SharedZone = ''shared_zone''"

fun not_found_type :: "not_found \<Rightarrow> string" where
  "not_found_type NF_plain = ''not_found''"
| "not_found_type (NF_of r) = resource_label r @ ''_not_found''"
| "not_found_type NoValidPoolFound = ''no_valid_pool_found''"
| "not_found_type NF_Resource = ''not_found''"

text \<open>A duplicate master is called a duplicate attribute.\<close>

fun duplicate_type :: "resource option \<Rightarrow> string" where
  "duplicate_type None = ''duplicate''"
| "duplicate_type (Some R_ZoneMaster) = ''duplicate_zone_attribute''"
| "duplicate_type (Some r) = ''duplicate_'' @ resource_label r"

fun bad_request_type :: "bad_request \<Rightarrow> string" where
  "bad_request_type BR_plain = ''bad_request''"
| "bad_request_type EmptyRequestBody = ''empty_request_body''"
| "bad_request_type InvalidProject = ''invalid_project''"
| "bad_request_type InvalidUUID = ''invalid_uuid''"
| "bad_request_type NetworkEndpointNotFound = ''no_endpoint''"
| "bad_request_type MarkerNotFound = ''marker_not_found''"
| "bad_request_type ValueErrorBR = ''value_error''"
| "bad_request_type InvalidMarker = ''invalid_marker''"
| "bad_request_type InvalidSortDir = ''invalid_sort_dir''"
| "bad_request_type InvalidLimit = ''invalid_limit''"
| "bad_request_type InvalidSortKey = ''invalid_sort_key''"
| "bad_request_type InvalidJson = ''invalid_json''"
| "bad_request_type InvalidOperation = ''invalid_operation''"
| "bad_request_type UnsupportedAccept = ''unsupported_accept''"
| "bad_request_type UnsupportedContentType = ''unsupported_content_type''"
| "bad_request_type InvalidTsigKey = ''invalid_tsigkey''"
| "bad_request_type LastServerDeleteNotAllowed = ''last_server_delete_not_allowed''"
| "bad_request_type MissingProjectID = ''missing_project_id''"

fun forbidden_type :: "forbidden \<Rightarrow> string" where
  "forbidden_type F_plain = ''forbidden''"
| "forbidden_type IllegalChildZone = ''illegal_child''"
| "forbidden_type IllegalParentZone = ''illegal_parent''"
| "forbidden_type IncorrectZoneTransferKey = ''invalid_key''"
| "forbidden_type InvalidTokenScope = ''invalid_token_scope''"

fun configuration_type :: "configuration \<Rightarrow> string" where
  "configuration_type C_plain = ''configuration_error''"
| "configuration_type NoFiltersConfigured = ''no_filters_configured''"
| "configuration_type NoServersConfigured = ''no_servers_configured''"
| "configuration_type MultiplePoolsFound = ''multiple_pools_found''"
| "configuration_type NoPoolTargetsConfigured = ''no_pool_targets_configured''"

fun error_type :: "exn \<Rightarrow> string option" where
  "error_type (BadRequest b) = Some (bad_request_type b)"
| "error_type (Forbidden f) = Some (forbidden_type f)"
| "error_type (ConfigurationError c) = Some (configuration_type c)"
| "error_type (NotFound n) = Some (not_found_type n)"
| "error_type (Duplicate d) = Some (duplicate_type d)"
| "error_type (RelationNotLoaded r) = Some ''relation_not_loaded''"
| "error_type (OverQuota q) = Some ''over_quota''"
| "error_type (QuotaResourceUnknown r) = Some ''quota_resource_unknown''"
| "error_type InvalidObject = Some ''invalid_object''"
| "error_type BadAction = Some ''bad_action''"
| "error_type InvalidZoneName = Some ''invalid_zone_name''"
| "error_type InvalidRecordSetName = Some ''invalid_recordset_name''"
| "error_type InvalidRecordSetLocation = Some ''invalid_recordset_location''"
| "error_type InvaildZoneTransfer = Some ''invalid_zone_transfer_request''"
| "error_type InvalidTTL = Some ''invalid_ttl''"
| "error_type ZoneHasSubZone = Some ''zone_has_sub_zone''"
| "error_type SharedZoneHasSubZone = Some ''shared_zone_has_sub_zone''"
| "error_type SharedZoneHasRecordSets = Some ''shared_zone_has_recordsets''"
| "error_type ZoneShared = Some ''zone_is_shared''"
| "error_type MethodNotAllowed = Some ''method_not_allowed''"
| "error_type _ = None"

text \<open>Whether an exception is a \<open>DesignateException\<close>.\<close>

fun designate_exception :: "exn \<Rightarrow> bool" where
  "designate_exception DBDeadlock = False"
| "designate_exception PyValueError = False"
| "designate_exception PyTypeError = False"
| "designate_exception PyIndexError = False"
| "designate_exception PyKeyError = False"
| "designate_exception PyAssertionError = False"
| "designate_exception PyAttributeError = False"
| "designate_exception DnsTimeout = False"
| "designate_exception (OtherError s) = False"
| "designate_exception _ = True"

section \<open>Requests, contexts and responses\<close>

text \<open>A DesignateContext: the part policies look at, and the rest.\<close>

record api_context =
  ac_context :: req_context
  ac_user_id :: "string option"
  ac_auth_token :: "string option"
  ac_original_project_id :: "string option"
  ac_client_addr :: "string option"
  ac_catalog :: "string option"
  ac_system_scope :: "string option"

text \<open>A request: headers, the parameters of the query in their order, the path, and what the
  environment of the request holds.\<close>

record http_request =
  hr_headers :: "string \<Rightarrow> string option"
  hr_params :: "(string \<times> string) list"
  hr_path :: string
  hr_client_addr :: "string option"
  hr_request_id :: "string option"
  hr_context :: "api_context option"

record verror =
  ve_path :: "string list"
  ve_message :: string
  ve_validator :: string

record api_fault =
  af_exn :: exn
  af_message :: "string option"
  af_errors :: "verror list option"

datatype api_error = Fault api_fault | MessagingTimeout

record fault_body =
  fb_code :: nat
  fb_type :: string
  fb_message :: "string option"
  fb_errors :: "verror list option"
  fb_request_id :: "string option"

datatype api_response =
  App_response nat string
| Bare nat "(string \<times> string) list"
| Fault_response nat fault_body

fun status_code :: "api_response \<Rightarrow> nat" where
  "status_code (App_response n b) = n"
| "status_code (Bare n h) = n"
| "status_code (Fault_response n b) = n"

text \<open>The request as it is now, the fault notifications sent, and the rest of the world.\<close>

record 'w api_state =
  as_request :: http_request
  as_faults :: "(string \<times> nat) list"
  as_world :: 'w

type_synonym 'w application = "'w api_state \<Rightarrow> (api_error + api_response) \<times> 'w api_state"

record api_env =
  ae_env :: env
  ae_json_loads :: "string \<Rightarrow> string option"
  ae_new_request_id :: string
  ae_maintenance :: bool
  ae_maintenance_role :: string
  ae_notify_faults :: bool
  ae_default_tenant :: "string option"
  ae_default_user :: "string option"

section \<open>The context of a request\<close>

type_synonym extraction = "api_context \<times> http_request"

definition header :: "http_request \<Rightarrow> string \<Rightarrow> string option" where
  "header q name = (case hr_headers q name of Some (c # cs) \<Rightarrow> Some (c # cs) | _ \<Rightarrow> None)"

definition bool_of :: "env \<Rightarrow> string \<Rightarrow> bool" where
  "bool_of E v \<longleftrightarrow> e_bool_from_string E v = Some True"

text \<open>\<open>request.GET.pop(name)\<close>: the first of that name goes.\<close>

fun pop_param :: "string \<Rightarrow> (string \<times> string) list \<Rightarrow> (string \<times> (string \<times> string) list) option" where
  "pop_param name [] = None"
| "pop_param name ((k, v) # ps) =
     (if k = name then Some (v, ps)
      else map_option (\<lambda>(w, rest). (w, (k, v) # rest)) (pop_param name ps))"

definition set_flag :: "(req_context \<Rightarrow> exn + req_context) \<Rightarrow> (extraction, unit) comp" where
  "set_flag f = (\<lambda>(c, q). case f (ac_context c) of
      Inl e \<Rightarrow> (Inl e, (c, q)) | Inr k \<Rightarrow> (Inr (), (c\<lparr>ac_context := k\<rparr>, q)))"

definition sudo :: "env \<Rightarrow> string \<Rightarrow> (extraction, unit) comp" where
  "sudo E project = (\<lambda>(c, q). case check_result E ''use_sudo'' (ac_context c) [] True of
      Inl e \<Rightarrow> (Inl e, (c, q))
    | Inr _ \<Rightarrow> (Inr (), (c\<lparr>ac_original_project_id := c_project_id (ac_context c),
        ac_context := (ac_context c)\<lparr>c_project_id := Some project\<rparr>\<rparr>, q)))"

definition sudo_header :: "http_request \<Rightarrow> string option" where
  "sudo_header q =
     (case header q ''X-Auth-Sudo-Project-ID'' of
        Some p \<Rightarrow> Some p | None \<Rightarrow> header q ''X-Auth-Sudo-Tenant-ID'')"

definition extract_sudo :: "env \<Rightarrow> (extraction, unit) comp" where
  "extract_sudo E = (\<lambda>(c, q). (case sudo_header q of None \<Rightarrow> return () | Some p \<Rightarrow> sudo E p) (c, q))"

definition from_header ::
  "env \<Rightarrow> string \<Rightarrow> (bool \<Rightarrow> req_context \<Rightarrow> exn + req_context) \<Rightarrow> (extraction, unit) comp" where
  "from_header E name set_value = (\<lambda>(c, q).
     (case header q name of None \<Rightarrow> return () | Some v \<Rightarrow> set_flag (set_value (bool_of E v))) (c, q))"

definition from_param ::
  "env \<Rightarrow> string \<Rightarrow> (bool \<Rightarrow> req_context \<Rightarrow> exn + req_context) \<Rightarrow> (extraction, unit) comp" where
  "from_param E name set_value = (\<lambda>(c, q).
     case pop_param name (hr_params q) of
       None \<Rightarrow> (Inr (), (c, q))
     | Some (v, rest) \<Rightarrow> set_flag (set_value (bool_of E v)) (c, q\<lparr>hr_params := rest\<rparr>))"

definition extract_all_projects :: "env \<Rightarrow> (extraction, unit) comp" where
  "extract_all_projects E =
     seq (set_flag (set_all_tenants E False))
    (seq (from_header E ''X-Auth-All-Projects'' (set_all_tenants E))
    (seq (from_param E ''all_projects'' (set_all_tenants E))
         (from_param E ''all_tenants'' (set_all_tenants E))))"

definition extract_edit_managed_records :: "env \<Rightarrow> (extraction, unit) comp" where
  "extract_edit_managed_records E =
     seq (set_flag (set_edit_managed_records E False))
       (\<lambda>(c, q).
          if pop_param ''edit_managed_records'' (hr_params q) \<noteq> None
          then from_param E ''edit_managed_records'' (set_edit_managed_records E) (c, q)
          else from_header E ''X-Designate-Edit-Managed-Records'' (set_edit_managed_records E) (c, q))"

definition extract_hard_delete :: "env \<Rightarrow> (extraction, unit) comp" where
  "extract_hard_delete E =
     seq (set_flag (set_hard_delete E False))
       (from_header E ''X-Designate-Hard-Delete'' (set_hard_delete E))"

definition set_hide_counts :: "bool \<Rightarrow> req_context \<Rightarrow> exn + req_context" where
  "set_hide_counts b k = Inr (k\<lparr>c_hide_counts := b\<rparr>)"

definition extract_dns_hide_counts :: "env \<Rightarrow> (extraction, unit) comp" where
  "extract_dns_hide_counts E =
     seq (set_flag (set_hide_counts False))
       (from_header E ''OpenStack-DNS-Hide-Counts'' set_hide_counts)"

definition extract_client_addr :: "(extraction, unit) comp" where
  "extract_client_addr = modify (\<lambda>(c, q). (c\<lparr>ac_client_addr := hr_client_addr q\<rparr>, q))"

definition set_delete_shares :: "bool \<Rightarrow> req_context \<Rightarrow> exn + req_context" where
  "set_delete_shares b k = Inr (k\<lparr>c_delete_shares := b\<rparr>)"

definition extract_delete_shares :: "env \<Rightarrow> (extraction, unit) comp" where
  "extract_delete_shares E =
     seq (set_flag (set_delete_shares False))
       (from_header E ''X-Designate-Delete-Shares'' set_delete_shares)"

definition extract_all :: "env \<Rightarrow> (extraction, unit) comp" where
  "extract_all E =
     seq (extract_sudo E) (seq (extract_all_projects E) (seq (extract_edit_managed_records E)
    (seq (extract_hard_delete E) (seq (extract_dns_hide_counts E) (seq extract_client_addr
         (extract_delete_shares E))))))"

text \<open>\<open>make_context\<close>: the request holds the context even when a step was refused.\<close>

definition new_context :: "api_env \<Rightarrow> http_request \<Rightarrow> string option \<Rightarrow> string list \<Rightarrow> api_context" where
  "new_context A q project roles =
     \<lparr>ac_context = admin_context\<lparr>c_project_id := project, c_is_admin := False, c_roles := roles,
        c_request_id := (case hr_request_id q of Some i \<Rightarrow> i | None \<Rightarrow> ae_new_request_id A)\<rparr>,
      ac_user_id = None, ac_auth_token = header q ''X-Auth-Token'', ac_original_project_id = None,
      ac_client_addr = None, ac_catalog = None, ac_system_scope = None\<rparr>"

definition make_context :: "api_env \<Rightarrow> api_context \<Rightarrow> http_request \<Rightarrow> (exn + unit) \<times> http_request" where
  "make_context A c q =
     (case extract_all (ae_env A) (c, q) of (r, (c', q')) \<Rightarrow> (r, q'\<lparr>hr_context := Some c'\<rparr>))"

text \<open>\<open>process_request\<close> of the middlewares: an exception, a response, or None to go on.\<close>

type_synonym process = "http_request \<Rightarrow> (exn + api_response option) \<times> http_request"

definition keystone_context :: "api_env \<Rightarrow> process" where
  "keystone_context A q =
     (if hr_headers q ''X-Identity-Status'' = Some ''Invalid'' then (Inr (Some (Bare 401 [])), q)
      else
       (case (case header q ''X-Service-Catalog'' of
                None \<Rightarrow> Inr None
              | Some t \<Rightarrow> (case ae_json_loads A t of None \<Rightarrow> Inl PyValueError | Some cat \<Rightarrow> Inr (Some cat))) of
          Inl e \<Rightarrow> (Inl e, q)
        | Inr catalog \<Rightarrow>
           (case hr_headers q ''X-Roles'' of
              None \<Rightarrow> (Inl PyAttributeError, q)
            | Some roles \<Rightarrow>
               (case make_context A
                   ((new_context A q (hr_headers q ''X-Tenant-ID'') (split_on CHR '','' roles))
                      \<lparr>ac_user_id := hr_headers q ''X-User-ID'', ac_catalog := catalog,
                       ac_auth_token := hr_headers q ''X-Auth-Token'',
                       ac_system_scope := hr_headers q ''Openstack-System-Scope''\<rparr>) q of
                  (Inl (Forbidden f), q') \<Rightarrow> (Inr (Some (Bare 403 [])), q')
                | (Inl e, q') \<Rightarrow> (Inl e, q')
                | (Inr _, q') \<Rightarrow> (Inr None, q')))))"

definition or_default :: "string \<Rightarrow> string option \<Rightarrow> string" where
  "or_default d v = (case v of None \<Rightarrow> d | Some s \<Rightarrow> s)"

definition noauth_context :: "api_env \<Rightarrow> process" where
  "noauth_context A q =
     (case make_context A
         ((new_context A q (Some (or_default ''noauth-project'' (hr_headers q ''X-Auth-Project-ID'')))
             (split_on CHR '','' (or_default ''admin'' (hr_headers q ''X-Roles''))))
            \<lparr>ac_user_id := Some (or_default ''noauth-user'' (hr_headers q ''X-Auth-User-ID'')),
             ac_auth_token := hr_headers q ''X-Auth-Token''\<rparr>) q of
        (Inl e, q') \<Rightarrow> (Inl e, q')
      | (Inr _, q') \<Rightarrow> (Inr None, q'))"

text \<open>The middleware of the tests. The constructor of the context checks the policy for
  \<open>X-Test-All-Tenants\<close>.\<close>

definition test_roles :: "string option \<Rightarrow> string list" where
  "test_roles r =
     (case map_option lower r of
        Some s \<Rightarrow>
          if s = ''admin'' then [''admin'', ''member'', ''reader'']
          else if s = ''member'' then [''member'', ''reader'']
          else if s = ''reader'' then [''reader''] else []
      | None \<Rightarrow> [])"

definition test_context :: "api_env \<Rightarrow> process" where
  "test_context A q =
     (let c = (new_context A q
             (case hr_headers q ''X-Test-Tenant-ID'' of None \<Rightarrow> ae_default_tenant A | t \<Rightarrow> t)
             (test_roles (hr_headers q ''X-Test-Role'')))
            \<lparr>ac_auth_token := None,
             ac_user_id := (case hr_headers q ''X-Test-User-ID'' of None \<Rightarrow> ae_default_user A | u \<Rightarrow> u)\<rparr>
      in case set_all_tenants (ae_env A)
              (bool_of (ae_env A) (or_default ''False'' (hr_headers q ''X-Test-All-Tenants''))) (ac_context c) of
           Inl e \<Rightarrow> (Inl e, q)
         | Inr k \<Rightarrow>
             (case make_context A (c\<lparr>ac_context := k\<rparr>) q of
                (Inl e, q') \<Rightarrow> (Inl e, q') | (Inr _, q') \<Rightarrow> (Inr None, q')))"

definition maintenance :: "api_env \<Rightarrow> process" where
  "maintenance A q =
     (if \<not> ae_maintenance A then (Inr None, q)
      else
       (case hr_context q of
          Some c \<Rightarrow>
            if ae_maintenance_role A \<in> set (c_roles (ac_context c)) then (Inr None, q)
            else (Inr (Some (Bare 503 [(''Retry-After'', ''60'')])), q)
        | None \<Rightarrow> (Inr (Some (Bare 503 [(''Retry-After'', ''60'')])), q)))"

definition normalize_uri :: process where
  "normalize_uri q = (Inr None, q\<lparr>hr_path := rstrip CHR ''/'' (hr_path q)\<rparr>)"

text \<open>A middleware around an application.\<close>

definition plain_fault :: "exn \<Rightarrow> api_error" where
  "plain_fault e = Fault \<lparr>af_exn = e, af_message = None, af_errors = None\<rparr>"

definition middleware :: "process \<Rightarrow> 'w application \<Rightarrow> 'w application" where
  "middleware process app s =
     (case process (as_request s) of
        (Inl e, q) \<Rightarrow> (Inl (plain_fault e), s\<lparr>as_request := q\<rparr>)
      | (Inr (Some r), q) \<Rightarrow> (Inr r, s\<lparr>as_request := q\<rparr>)
      | (Inr None, q) \<Rightarrow> app (s\<lparr>as_request := q\<rparr>))"

section \<open>Faults\<close>

text \<open>The identifier of the request in the response, and the notification of the fault, where there is
  a context.\<close>

definition finish_fault :: "api_env \<Rightarrow> nat \<Rightarrow> fault_body \<Rightarrow> 'w api_state \<Rightarrow> api_response \<times> 'w api_state" where
  "finish_fault A code body s =
     (case hr_context (as_request s) of
        None \<Rightarrow> (Fault_response code body, s)
      | Some c \<Rightarrow>
         (let i = c_request_id (ac_context c) in
          (Fault_response code (body\<lparr>fb_request_id := Some i\<rparr>),
           if ae_notify_faults A then s\<lparr>as_faults := as_faults s @ [(i, fb_code body)]\<rparr> else s)))"

definition body_of :: "nat \<Rightarrow> string \<Rightarrow> fault_body" where
  "body_of code t = \<lparr>fb_code = code, fb_type = t, fb_message = None, fb_errors = None, fb_request_id = None\<rparr>"

definition fault_status :: "api_error \<Rightarrow> nat" where
  "fault_status e = (case e of Fault f \<Rightarrow> error_code (af_exn f) | MessagingTimeout \<Rightarrow> 504)"

definition fault_type :: "api_error \<Rightarrow> string" where
  "fault_type e =
     (case e of Fault f \<Rightarrow> or_default ''unknown'' (error_type (af_exn f)) | MessagingTimeout \<Rightarrow> ''timeout'')"

definition handle_exception :: "api_env \<Rightarrow> api_error \<Rightarrow> 'w api_state \<Rightarrow> api_response \<times> 'w api_state" where
  "handle_exception A e s =
     finish_fault A (fault_status e)
       (case e of
          Fault f \<Rightarrow>
            if designate_exception (af_exn f)
            then (body_of (fault_status e) (fault_type e))
              \<lparr>fb_message := (case af_message f of Some [] \<Rightarrow> None | m \<Rightarrow> m),
               fb_errors := (case af_errors f of Some [] \<Rightarrow> None | es \<Rightarrow> es)\<rparr>
            else body_of (fault_status e) (fault_type e)
        | MessagingTimeout \<Rightarrow> body_of (fault_status e) (fault_type e)) s"

definition fault_wrapper :: "api_env \<Rightarrow> 'w application \<Rightarrow> 'w application" where
  "fault_wrapper A app s =
     (case app s of
        (Inr r, s') \<Rightarrow> (Inr r, s')
      | (Inl e, s') \<Rightarrow> (case handle_exception A e s' of (r, s'') \<Rightarrow> (Inr r, s'')))"

text \<open>Validation errors: InvalidObject with a list of errors, which is kept as it is here.\<close>

definition validation_error :: "api_env \<Rightarrow> 'w application \<Rightarrow> 'w application" where
  "validation_error A app s =
     (case app s of
        (Inl (Fault f), s') \<Rightarrow>
          if af_exn f = InvalidObject \<and> af_errors f \<noteq> None then
            (case finish_fault A (error_code (af_exn f))
                ((body_of (error_code (af_exn f)) (fault_type (Fault f)))\<lparr>fb_errors := af_errors f\<rparr>) s' of
               (r, s'') \<Rightarrow> (Inr r, s''))
          else (Inl (Fault f), s')
      | r \<Rightarrow> r)"

text \<open>The pipeline of \<open>/v2\<close>, with the context middleware that \<open>auth_strategy\<close> names.\<close>

definition v2_pipeline :: "api_env \<Rightarrow> process \<Rightarrow> 'w application \<Rightarrow> 'w application" where
  "v2_pipeline A auth app =
     fault_wrapper A (validation_error A (middleware auth (middleware (maintenance A)
       (middleware normalize_uri app))))"

section \<open>Gates\<close>

text \<open>A gate lets some requests through, changed in a known way, to an application that it runs at most
  once; the others it answers itself, touching nothing but the request.\<close>

locale gate =
  fixes wrap :: "'w application \<Rightarrow> 'w application"
    and admits :: "http_request \<Rightarrow> http_request \<Rightarrow> bool"
    and refusal :: "api_error + api_response \<Rightarrow> bool"
  assumes decides: "wrap app s = (r, s') \<Longrightarrow>
    (\<exists>q. admits (as_request s) q \<and> app (s\<lparr>as_request := q\<rparr>) = (r, s')) \<or>
    refusal r \<and> as_world s' = as_world s \<and> as_faults s' = as_faults s"
begin

lemma untouched:
  assumes "wrap app s = (r, s')" "as_world s' \<noteq> as_world s"
  shows "\<exists>q. admits (as_request s) q \<and> app (s\<lparr>as_request := q\<rparr>) = (r, s')"
  using decides [OF assms(1)] assms(2) by blast

end

text \<open>One gate behind another.\<close>

locale two_gates =
  outer: gate wrap admits refusal + inner: gate wrap' admits' refusal'
  for wrap :: "'w application \<Rightarrow> 'w application" and admits refusal
    and wrap' :: "'w application \<Rightarrow> 'w application" and admits' refusal'

sublocale two_gates \<subseteq> both: gate "\<lambda>app. wrap (wrap' app)" "\<lambda>p q. \<exists>m. admits p m \<and> admits' m q"
  "\<lambda>r. refusal r \<or> refusal' r"
proof
  fix app :: "'w application" and s r s'
  assume run: "wrap (wrap' app) s = (r, s')"
  from outer.decides [OF run] show "(\<exists>q. (\<exists>m. admits (as_request s) m \<and> admits' m q) \<and> app (s\<lparr>as_request := q\<rparr>) = (r, s')) \<or>
      (refusal r \<or> refusal' r) \<and> as_world s' = as_world s \<and> as_faults s' = as_faults s"
  proof
    assume "\<exists>m. admits (as_request s) m \<and> wrap' app (s\<lparr>as_request := m\<rparr>) = (r, s')"
    then obtain m where m: "admits (as_request s) m" "wrap' app (s\<lparr>as_request := m\<rparr>) = (r, s')" by blast
    from inner.decides [OF m(2)] m(1) show ?thesis by auto
  qed blast
qed

text \<open>Every middleware is a gate, by what its \<open>process_request\<close> does.\<close>

definition process_admits :: "process \<Rightarrow> http_request \<Rightarrow> http_request \<Rightarrow> bool" where
  "process_admits process p q \<longleftrightarrow> process p = (Inr None, q)"

definition process_refuses :: "process \<Rightarrow> api_error + api_response \<Rightarrow> bool" where
  "process_refuses process r \<longleftrightarrow>
     (\<exists>p q. process p = (case r of Inl e \<Rightarrow> (case e of Fault f \<Rightarrow> Inl (af_exn f) | _ \<Rightarrow> Inl BadAction)
        | Inr x \<Rightarrow> Inr (Some x), q))"

interpretation process_gate: gate "middleware process" "process_admits process" "process_refuses process"
  for process
proof
  fix app :: "'w application" and s r s'
  assume run: "middleware process app s = (r, s')"
  obtain o' q where p: "process (as_request s) = (o', q)" by fastforce
  show "(\<exists>q. process_admits process (as_request s) q \<and> app (s\<lparr>as_request := q\<rparr>) = (r, s')) \<or>
      process_refuses process r \<and> as_world s' = as_world s \<and> as_faults s' = as_faults s"
  proof (cases o')
    case (Inl e)
    then have "r = Inl (plain_fault e)" "s' = s\<lparr>as_request := q\<rparr>" using run p by (simp_all add: middleware_def)
    then show ?thesis using p Inl unfolding process_refuses_def plain_fault_def by auto
  next
    case (Inr ro)
    then show ?thesis
    proof (cases ro)
      case None
      then show ?thesis using run p Inr by (simp add: middleware_def process_admits_def)
    next
      case (Some x)
      then have "r = Inr x" "s' = s\<lparr>as_request := q\<rparr>" using run p Inr by (simp_all add: middleware_def)
      then show ?thesis using p Inr Some unfolding process_refuses_def by auto
    qed
  qed
qed

interpretation context_and_maintenance: two_gates
  "middleware auth" "process_admits auth" "process_refuses auth"
  "middleware (maintenance A)" "process_admits (maintenance A)" "process_refuses (maintenance A)"
  for auth A ..

interpretation v2_gates: two_gates
  "\<lambda>app. middleware auth (middleware (maintenance A) app)"
  "\<lambda>p q. \<exists>m. process_admits auth p m \<and> process_admits (maintenance A) m q"
  "\<lambda>r. process_refuses auth r \<or> process_refuses (maintenance A) r"
  "middleware normalize_uri" "process_admits normalize_uri" "process_refuses normalize_uri"
  for auth A ..

section \<open>Privileges\<close>

text \<open>What a step of the extraction can have done to the context: given flags are set only with a policy
  that permits it, looked at with the project and the roles in place.\<close>

definition permitted :: "env \<Rightarrow> string \<Rightarrow> req_context \<Rightarrow> bool" where
  "permitted E rule k \<longleftrightarrow> (\<exists>k'. c_project_id k' = c_project_id k \<and> c_roles k' = c_roles k \<and>
     e_enforce E rule [] k' = Permit)"

definition flags_permitted :: "env \<Rightarrow> req_context \<Rightarrow> bool" where
  "flags_permitted E k \<longleftrightarrow>
     (c_all_tenants k \<longrightarrow> permitted E ''all_tenants'' k) \<and>
     (c_edit_managed_records k \<longrightarrow> permitted E ''edit_managed_records'' k) \<and>
     (c_hard_delete k \<longrightarrow> permitted E ''hard_delete'' k)"

text \<open>The part of a context that only \<open>sudo\<close> changes.\<close>

definition identity :: "api_context \<Rightarrow> string option \<times> string list \<times> bool \<times> bool \<times> string option" where
  "identity c = (c_project_id (ac_context c), c_roles (ac_context c), c_is_admin (ac_context c),
     c_abandon (ac_context c), ac_original_project_id c)"

definition steady :: "env \<Rightarrow> (extraction, unit) comp \<Rightarrow> bool" where
  "steady E m \<longleftrightarrow> (\<forall>c q u c' q'. m (c, q) = (Inr u, (c', q')) \<longrightarrow> flags_permitted E (ac_context c) \<longrightarrow>
     flags_permitted E (ac_context c') \<and> identity c' = identity c)"

lemma steady_seq: "steady E m \<Longrightarrow> steady E k \<Longrightarrow> steady E (seq m k)"
  unfolding steady_def seq_Inr_iff by (metis surj_pair)

lemma permitted_same:
  "c_project_id k = c_project_id k' \<Longrightarrow> c_roles k = c_roles k' \<Longrightarrow> permitted E rule k = permitted E rule k'"
  by (simp add: permitted_def)

lemma steady_set_flag:
  assumes "\<And>k k'. f k = Inr k' \<Longrightarrow> flags_permitted E k \<Longrightarrow> flags_permitted E k' \<and>
      c_project_id k' = c_project_id k \<and> c_roles k' = c_roles k \<and> c_is_admin k' = c_is_admin k \<and>
      c_abandon k' = c_abandon k"
  shows "steady E (set_flag f)"
  using assms by (auto simp: steady_def set_flag_def identity_def split: sum.splits)

lemma steady_flags:
  "steady E (set_flag (set_all_tenants E b))" "steady E (set_flag (set_edit_managed_records E b))"
  "steady E (set_flag (set_hard_delete E b))" "steady E (set_flag (set_hide_counts b))"
  "steady E (set_flag (set_delete_shares b))"
  by (rule steady_set_flag;
      auto simp: set_all_tenants_def set_edit_managed_records_def set_hard_delete_def set_hide_counts_def
        set_delete_shares_def flags_permitted_def permitted_def split: if_splits sum.splits)+

lemma steady_from_header: "(\<And>b. steady E (set_flag (f b))) \<Longrightarrow> steady E (from_header E' name f)"
  unfolding steady_def from_header_def by (auto split: option.splits)

lemma steady_from_param: "(\<And>b. steady E (set_flag (f b))) \<Longrightarrow> steady E (from_param E' name f)"
  unfolding steady_def from_param_def by (auto split: option.splits)

lemma steady_parts:
  "steady E (extract_all_projects E)" "steady E (extract_edit_managed_records E)"
  "steady E (extract_hard_delete E)" "steady E (extract_dns_hide_counts E)"
  "steady E extract_client_addr" "steady E (extract_delete_shares E)"
proof -
  have branch: "steady E (\<lambda>(c, q). if P q then m (c, q) else k (c, q))" if "steady E m" "steady E k" for P m k
    using that by (auto simp: steady_def split: if_splits)
  show "steady E (extract_edit_managed_records E)"
    unfolding extract_edit_managed_records_def
    by (intro steady_seq steady_flags branch steady_from_param steady_from_header)
  show "steady E extract_client_addr"
    by (auto simp: steady_def extract_client_addr_def identity_def)
  show "steady E (extract_all_projects E)" "steady E (extract_hard_delete E)"
    "steady E (extract_dns_hide_counts E)" "steady E (extract_delete_shares E)"
    unfolding extract_all_projects_def extract_hard_delete_def extract_dns_hide_counts_def extract_delete_shares_def
    by (intro steady_seq steady_flags steady_from_param steady_from_header)+
qed

lemma extract_sudo_Inr:
  assumes "extract_sudo E (c, q) = (Inr u, (c', q'))"
  shows "q' = q \<and> (case sudo_header q of None \<Rightarrow> c' = c
    | Some p \<Rightarrow> e_enforce E ''use_sudo'' [] (ac_context c) = Permit \<and>
        c' = c\<lparr>ac_original_project_id := c_project_id (ac_context c),
               ac_context := (ac_context c)\<lparr>c_project_id := Some p\<rparr>\<rparr>)"
  using assms by (auto simp: extract_sudo_def sudo_def split: option.splits sum.splits)

lemma extract_all_Inr:
  assumes "extract_all E (c, q) = (Inr u, (c', q'))"
    "\<not> c_all_tenants (ac_context c)" "\<not> c_edit_managed_records (ac_context c)" "\<not> c_hard_delete (ac_context c)"
  shows "flags_permitted E (ac_context c') \<and> (\<exists>c1. extract_sudo E (c, q) = (Inr (), (c1, q)) \<and> identity c' = identity c1)"
proof -
  let ?rest = "seq (extract_all_projects E) (seq (extract_edit_managed_records E)
    (seq (extract_hard_delete E) (seq (extract_dns_hide_counts E) (seq extract_client_addr
         (extract_delete_shares E)))))"
  have st: "steady E ?rest" by (intro steady_seq steady_parts)
  obtain x c1 q1 where 1: "extract_sudo E (c, q) = (Inr x, (c1, q1))" and 2: "?rest (c1, q1) = (Inr u, (c', q'))"
    using assms(1) unfolding extract_all_def seq_Inr_iff [of "extract_sudo E"] by force
  have "q1 = q" "\<not> c_all_tenants (ac_context c1)" "\<not> c_edit_managed_records (ac_context c1)"
    "\<not> c_hard_delete (ac_context c1)"
    using extract_sudo_Inr [OF 1] assms(2-4) by (auto split: option.splits)
  then have "flags_permitted E (ac_context c1)" by (simp add: flags_permitted_def)
  then show ?thesis using st 1 2 \<open>q1 = q\<close> unfolding steady_def by auto
qed

text \<open>What the context that reaches the application guarantees: the roles are the token's, nobody is made an
  administrator, the project is the token's unless a project was asked for and the policy on \<open>sudo\<close>
  permitted it to the token, and every privilege was permitted with this project and these roles.\<close>

definition entitled :: "api_env \<Rightarrow> http_request \<Rightarrow> api_context \<Rightarrow> bool" where
  "entitled A p c \<longleftrightarrow>
     (let E = ae_env A; k = ac_context c; token = hr_headers p ''X-Tenant-ID'' in
      map_option (split_on CHR '','') (hr_headers p ''X-Roles'') = Some (c_roles k) \<and>
      \<not> c_is_admin k \<and> \<not> c_abandon k \<and> flags_permitted E k \<and>
      (case sudo_header p of
         None \<Rightarrow> c_project_id k = token \<and> ac_original_project_id c = None
       | Some t \<Rightarrow> c_project_id k = Some t \<and> ac_original_project_id c = token \<and>
           (\<exists>k0. c_project_id k0 = token \<and> c_roles k0 = c_roles k \<and> e_enforce E ''use_sudo'' [] k0 = Permit)))"

lemma keystone_entitled:
  assumes "keystone_context A p = (Inr None, q)"
  shows "\<exists>c. hr_context q = Some c \<and> entitled A p c"
proof -
  obtain roles c where roles: "hr_headers p ''X-Roles'' = Some roles"
    and made: "make_context A c p = (Inr (), q)"
    and c: "c_project_id (ac_context c) = hr_headers p ''X-Tenant-ID''" "c_roles (ac_context c) = split_on CHR '','' roles"
      "\<not> c_is_admin (ac_context c)" "\<not> c_abandon (ac_context c)" "ac_original_project_id c = None"
      "\<not> c_all_tenants (ac_context c)" "\<not> c_edit_managed_records (ac_context c)" "\<not> c_hard_delete (ac_context c)"
    using assms unfolding keystone_context_def
    by (auto simp: new_context_def admin_context_def split: if_splits option.splits sum.splits prod.splits exn.splits)
  obtain c' q' where ex: "extract_all (ae_env A) (c, p) = (Inr (), (c', q'))" and q: "hr_context q = Some c'"
    using made by (auto simp: make_context_def split: prod.splits)
  obtain c1 where flags: "flags_permitted (ae_env A) (ac_context c')"
    and su: "extract_sudo (ae_env A) (c, p) = (Inr (), (c1, p))" and i: "identity c' = identity c1"
    using extract_all_Inr [OF ex c(6-8)] by blast
  have "entitled A p c'"
    using extract_sudo_Inr [OF su] i c(1-5) roles flags
    by (auto simp: entitled_def Let_def identity_def split: option.splits)
  then show ?thesis using q by blast
qed

lemma maintenance_admits:
  "process_admits (maintenance A) p q \<Longrightarrow> q = p \<and> (ae_maintenance A \<longrightarrow>
     (\<exists>c. hr_context p = Some c \<and> ae_maintenance_role A \<in> set (c_roles (ac_context c))))"
  by (auto simp: process_admits_def maintenance_def split: if_splits option.splits)

section \<open>Refusals\<close>

text \<open>The steps of the extraction fail only because a policy forbids them.\<close>

definition only_forbids :: "(extraction, unit) comp \<Rightarrow> bool" where
  "only_forbids m \<longleftrightarrow> (\<forall>x e y. m x = (Inl e, y) \<longrightarrow> (\<exists>f. e = Forbidden f))"

lemma only_forbids_seq: "only_forbids m \<Longrightarrow> only_forbids k \<Longrightarrow> only_forbids (seq m k)"
  unfolding only_forbids_def seq_Inl_iff by blast

lemma only_forbids_flags:
  "only_forbids (set_flag (set_all_tenants E b))" "only_forbids (set_flag (set_edit_managed_records E b))"
  "only_forbids (set_flag (set_hard_delete E b))" "only_forbids (set_flag (set_hide_counts b))"
  "only_forbids (set_flag (set_delete_shares b))"
  by (auto simp: only_forbids_def set_flag_def set_all_tenants_def set_edit_managed_records_def
      set_hard_delete_def set_hide_counts_def set_delete_shares_def check_result_def
      split: if_splits sum.splits enforcement.splits)

lemma only_forbids_from:
  assumes "\<And>b. only_forbids (set_flag (f b))"
  shows "only_forbids (from_header E name f)" "only_forbids (from_param E name f)"
  using assms unfolding only_forbids_def from_header_def from_param_def
  by (auto split: option.splits)

lemma extract_all_forbids: "only_forbids (extract_all E)"
proof -
  have branch: "only_forbids (\<lambda>(c, q). if P q then m (c, q) else k (c, q))"
    if "only_forbids m" "only_forbids k" for P m k
    using that by (auto simp: only_forbids_def split: if_splits)
  have "only_forbids (extract_sudo E)"
    by (auto simp: only_forbids_def extract_sudo_def sudo_def check_result_def
        split: option.splits sum.splits enforcement.splits)
  moreover have "only_forbids extract_client_addr" by (simp add: only_forbids_def extract_client_addr_def)
  ultimately show ?thesis
    unfolding extract_all_def extract_all_projects_def extract_edit_managed_records_def extract_hard_delete_def
      extract_dns_hide_counts_def extract_delete_shares_def
    by (intro only_forbids_seq only_forbids_flags only_forbids_from branch)
qed

text \<open>The status a client gets.\<close>

definition answer_status :: "api_error + api_response \<Rightarrow> nat" where
  "answer_status r = (case r of Inl e \<Rightarrow> fault_status e | Inr x \<Rightarrow> status_code x)"

lemma keystone_refusals: "process_refuses (keystone_context A) r \<Longrightarrow> answer_status r \<in> {401, 403, 500}"
proof -
  assume "process_refuses (keystone_context A) r"
  then obtain p q where r: "keystone_context A p = (case r of
      Inl e \<Rightarrow> (case e of Fault f \<Rightarrow> Inl (af_exn f) | _ \<Rightarrow> Inl BadAction) | Inr x \<Rightarrow> Inr (Some x), q)"
    unfolding process_refuses_def by blast
  have forbids: "\<exists>f. e = Forbidden f" if mc: "make_context A c p = (Inl e, q')" for c e p q'
  proof -
    obtain y where "extract_all (ae_env A) (c, p) = (Inl e, y)"
      using mc by (auto simp: make_context_def split: prod.splits)
    then show ?thesis using extract_all_forbids unfolding only_forbids_def by blast
  qed
  have err: "e = PyValueError \<or> e = PyAttributeError" if "keystone_context A p = (Inl e, q)" for e
    using that unfolding keystone_context_def
    by (auto split: if_splits option.splits sum.splits prod.splits exn.splits dest!: forbids)
  have ok: "status_code x \<in> {401, 403}" if "keystone_context A p = (Inr (Some x), q)" for x
    using that unfolding keystone_context_def
    by (auto split: if_splits option.splits sum.splits prod.splits exn.splits)
  show ?thesis
  proof (cases r)
    case (Inl e)
    then show ?thesis using r err by (cases e) (auto simp: answer_status_def fault_status_def)
  next
    case (Inr x)
    then show ?thesis using r ok by (auto simp: answer_status_def)
  qed
qed

lemma other_refusals:
  "process_refuses (maintenance A) r \<Longrightarrow> answer_status r = 503" "\<not> process_refuses normalize_uri r"
  by (auto simp: process_refuses_def maintenance_def normalize_uri_def answer_status_def
      split: if_splits option.splits sum.splits api_error.splits)

text \<open>The response a client gets for what the application returned or raised: a response as it is, an
  exception as a body with the code and the type of its class, the message and the errors it carries
  when it is one of Designate's, and the identifier of the request. The errors of a failed validation
  come without a message.\<close>

definition request_id :: "http_request \<Rightarrow> string option" where
  "request_id q = map_option (\<lambda>c. c_request_id (ac_context c)) (hr_context q)"

definition client_answer :: "http_request \<Rightarrow> api_error + api_response \<Rightarrow> api_response" where
  "client_answer q r = (case r of
     Inr x \<Rightarrow> x
   | Inl MessagingTimeout \<Rightarrow> Fault_response 504 \<lparr>fb_code = 504, fb_type = ''timeout'', fb_message = None,
       fb_errors = None, fb_request_id = request_id q\<rparr>
   | Inl (Fault f) \<Rightarrow>
       let e = af_exn f; failed = (e = InvalidObject \<and> af_errors f \<noteq> None) in
       Fault_response (error_code e) \<lparr>fb_code = error_code e,
         fb_type = (case error_type e of None \<Rightarrow> ''unknown'' | Some t \<Rightarrow> t),
         fb_message = (if failed \<or> \<not> designate_exception e \<or> af_message f = Some [] then None else af_message f),
         fb_errors = (if failed then af_errors f
                      else if \<not> designate_exception e \<or> af_errors f = Some [] then None else af_errors f),
         fb_request_id = request_id q\<rparr>)"

text \<open>The notifications of faults that go out for it.\<close>

definition fault_notices :: "api_env \<Rightarrow> http_request \<Rightarrow> api_error + api_response \<Rightarrow> (string \<times> nat) list" where
  "fault_notices A q r =
     (case (r, request_id q) of
        (Inl e, Some i) \<Rightarrow>
          if ae_notify_faults A
          then [(i, case e of Fault f \<Rightarrow> error_code (af_exn f) | MessagingTimeout \<Rightarrow> 504)] else []
      | _ \<Rightarrow> [])"

lemma client_answer_status: "status_code (client_answer q r) = answer_status r"
  by (auto simp: client_answer_def answer_status_def fault_status_def Let_def split: sum.splits api_error.splits)

lemma wrappers_answer:
  assumes "fault_wrapper A (validation_error A app) s = (res, s')"
  shows "\<exists>r s2. app s = (r, s2) \<and> res = Inr (client_answer (as_request s2) r) \<and> as_world s' = as_world s2 \<and>
    as_faults s' = as_faults s2 @ fault_notices A (as_request s2) r"
proof -
  obtain r s2 where r: "app s = (r, s2)" by fastforce
  show ?thesis
  proof (cases r)
    case (Inr x)
    then show ?thesis using assms r
      by (auto simp: fault_wrapper_def validation_error_def client_answer_def fault_notices_def)
  next
    case (Inl e)
    show ?thesis
    proof (cases "hr_context (as_request s2)")
      case None
      then show ?thesis using assms r Inl
        by (cases e) (auto simp: fault_wrapper_def validation_error_def handle_exception_def finish_fault_def
          client_answer_def fault_notices_def request_id_def body_of_def fault_status_def fault_type_def
          or_default_def Let_def split: if_splits option.splits list.splits)
    next
      case (Some c)
      then show ?thesis using assms r Inl
        by (cases e) (auto simp: fault_wrapper_def validation_error_def handle_exception_def finish_fault_def
          client_answer_def fault_notices_def request_id_def body_of_def fault_status_def fault_type_def
          or_default_def Let_def split: if_splits option.splits list.splits)
    qed
  qed
qed

text \<open>C37: Nobody gets past the middleware with a privilege no policy gave. Through the pipeline of the API
  with Keystone's context, every request is answered, whatever is raised inside. Either it is refused
  before the application sees it (401, 403, 500 or 503) and nothing in the system has changed; or the
  application runs once on a request with a context: the roles are the token's, the project is the
  token's or the one asked for with the permission to act for others, seeing all projects, editing
  managed records and hard deletion are on only where their policies permit them for this project and
  these roles, and in maintenance mode the context has the role that may pass. The client then gets
  the application's response as it is, or the body that \<open>client_answer\<close> makes of what it raised, and one
  notification goes out for each fault where they are configured.\<close>

theorem keystone_pipeline_guards:
  assumes "v2_pipeline A (keystone_context A) app s = (res, s')"
  shows "\<exists>rs. res = Inr rs \<and>
    (as_world s' = as_world s \<and> status_code rs \<in> {401, 403, 500, 503} \<or>
     (\<exists>q c r s2. app (s\<lparr>as_request := q\<rparr>) = (r, s2) \<and> as_world s' = as_world s2 \<and>
        rs = client_answer (as_request s2) r \<and>
        as_faults s' = as_faults s2 @ fault_notices A (as_request s2) r \<and>
        hr_context q = Some c \<and> entitled A (as_request s) c \<and>
        (ae_maintenance A \<longrightarrow> ae_maintenance_role A \<in> set (c_roles (ac_context c)))))"
proof -
  let ?gates = "\<lambda>app. middleware (keystone_context A) (middleware (maintenance A) (middleware normalize_uri app))"
  obtain r s2 where run: "?gates app s = (r, s2)" and res: "res = Inr (client_answer (as_request s2) r)"
    "as_world s' = as_world s2" "as_faults s' = as_faults s2 @ fault_notices A (as_request s2) r"
    using wrappers_answer [OF assms [unfolded v2_pipeline_def]] by blast
  from v2_gates.both.decides [OF run] show ?thesis
  proof
    assume "\<exists>q. (\<exists>m. (\<exists>k. process_admits (keystone_context A) (as_request s) k \<and> process_admits (maintenance A) k m) \<and>
        process_admits normalize_uri m q) \<and> app (s\<lparr>as_request := q\<rparr>) = (r, s2)"
    then obtain q m k where k: "process_admits (keystone_context A) (as_request s) k"
      and m: "process_admits (maintenance A) k m" and q: "process_admits normalize_uri m q"
      and app: "app (s\<lparr>as_request := q\<rparr>) = (r, s2)" by blast
    obtain c where c: "hr_context k = Some c" "entitled A (as_request s) c"
      using keystone_entitled k unfolding process_admits_def by blast
    have "hr_context q = Some c"
      using c(1) maintenance_admits [OF m] q by (auto simp: process_admits_def normalize_uri_def)
    then show ?thesis using app res c maintenance_admits [OF m] by fastforce
  next
    assume "((process_refuses (keystone_context A) r \<or> process_refuses (maintenance A) r) \<or> process_refuses normalize_uri r) \<and>
        as_world s2 = as_world s \<and> as_faults s2 = as_faults s"
    then show ?thesis using res keystone_refusals [of A r] other_refusals(1) [of A r] other_refusals(2) [of r]
      by (auto simp: client_answer_status)
  qed
qed

text \<open>A member asks for all projects in another project; the policies on both permit it.\<close>

definition api_request :: http_request where
  "api_request = \<lparr>hr_headers = [''X-Roles'' \<mapsto> ''member,reader'', ''X-Tenant-ID'' \<mapsto> ''t1'',
       ''X-Auth-All-Projects'' \<mapsto> ''true'', ''X-Auth-Sudo-Project-ID'' \<mapsto> ''t2''],
     hr_params = [], hr_path = ''/v2/zones/'', hr_client_addr = None, hr_request_id = Some ''req-1'', hr_context = None\<rparr>"

definition api_env_sample :: api_env where
  "api_env_sample = \<lparr>ae_env = sample_env\<lparr>e_bool_from_string := (\<lambda>s. if s = ''true'' then Some True else None)\<rparr>,
     ae_json_loads = (\<lambda>s. None), ae_new_request_id = ''req-0'', ae_maintenance = True,
     ae_maintenance_role = ''member'', ae_notify_faults = True, ae_default_tenant = None, ae_default_user = None\<rparr>"

definition count_app :: "nat application" where
  "count_app s = (Inr (App_response 200 (hr_path (as_request s))), s\<lparr>as_world := as_world s + 1\<rparr>)"

text \<open>An application that counts and then fails for lack of a quota.\<close>

definition failing_app :: "nat application" where
  "failing_app s = (Inl (Fault \<lparr>af_exn = OverQuota [''zones''], af_message = Some ''Quota exceeded'', af_errors = None\<rparr>),
     s\<lparr>as_world := as_world s + 1\<rparr>)"

theorem keystone_pipeline_guards_witness:
  "(\<exists>s' c path. v2_pipeline api_env_sample (keystone_context api_env_sample) count_app
      \<lparr>as_request = api_request, as_faults = [], as_world = 0\<rparr> = (Inr (App_response 200 path), s') \<and>
    as_world s' = 1 \<and> entitled api_env_sample api_request c) \<and>
   (\<exists>s' i. v2_pipeline api_env_sample (keystone_context api_env_sample) failing_app
      \<lparr>as_request = api_request, as_faults = [], as_world = 0\<rparr> = (Inr (Fault_response 413 \<lparr>fb_code = 413,
        fb_type = ''over_quota'', fb_message = Some ''Quota exceeded'', fb_errors = None,
        fb_request_id = Some i\<rparr>), s') \<and> as_faults s' = [(i, 413)])"
proof -
  let ?s = "\<lparr>as_request = api_request, as_faults = [], as_world = 0\<rparr> :: nat api_state"
  let ?pipe = "v2_pipeline api_env_sample (keystone_context api_env_sample)"
  have w: "as_world (snd (?pipe count_app ?s)) = 1" "as_world (snd (?pipe failing_app ?s)) = 1"
    "ae_notify_faults api_env_sample" by code_simp+
  obtain res s' where run: "?pipe count_app ?s = (res, s')" by fastforce
  with w(1) have "as_world s' = 1" by simp
  with keystone_pipeline_guards [OF run] obtain q c r s2 where
    "count_app (?s\<lparr>as_request := q\<rparr>) = (r, s2)" "res = Inr (client_answer (as_request s2) r)"
    "entitled api_env_sample api_request c" by auto
  then have 1: "\<exists>path. res = Inr (App_response 200 path)" "\<exists>c. entitled api_env_sample api_request c"
    by (auto simp: count_app_def client_answer_def)
  obtain res' s'' where fail: "?pipe failing_app ?s = (res', s'')" by fastforce
  with w(2) have "as_world s'' = 1" by simp
  with keystone_pipeline_guards [OF fail] obtain q c r s2 where
    f: "failing_app (?s\<lparr>as_request := q\<rparr>) = (r, s2)" "res' = Inr (client_answer (as_request s2) r)"
    "as_faults s'' = as_faults s2 @ fault_notices api_env_sample (as_request s2) r" "hr_context q = Some c" by auto
  let ?i = "c_request_id (ac_context c)"
  have "res' = Inr (Fault_response 413 \<lparr>fb_code = 413, fb_type = ''over_quota'', fb_message = Some ''Quota exceeded'',
      fb_errors = None, fb_request_id = Some ?i\<rparr>)" "as_faults s'' = [(?i, 413)]"
    using f w(3) by (auto simp: failing_app_def client_answer_def fault_notices_def request_id_def)
  with run fail 1 \<open>as_world s' = 1\<close> show ?thesis by blast
qed

end
