(* ===== verification/ApiControllers.thy ===== *)
theory ApiControllers
  imports ApiMiddleware
begin

text \<open>
  The controllers of zones and record sets, \<open>api/v2/controllers/zones/\<close>, and the filters of lists in
  \<open>api/v2/controllers/rest.py\<close>. What the calls to central answer, and what they do, is an argument: the theories of
  central model it on records. So is \<open>validate\<close> of the objects (\<open>Validation\<close>). A handler ends with the
  status of the response and the rendered object.
\<close>

record 'w central_api =
  ca_get_zone :: "string \<Rightarrow> ('w, pyval object) comp"
  ca_create_zone :: "pyval object \<Rightarrow> ('w, pyval object) comp"
  ca_update_zone :: "pyval object \<Rightarrow> bool \<Rightarrow> ('w, pyval object) comp"
  ca_delete_zone :: "string \<Rightarrow> ('w, pyval object) comp"
  ca_get_recordset :: "string \<Rightarrow> string \<Rightarrow> ('w, pyval object) comp"
  ca_create_recordset :: "string \<Rightarrow> pyval object \<Rightarrow> ('w, pyval object) comp"
  ca_update_recordset :: "pyval object \<Rightarrow> ('w, pyval object) comp"
  ca_delete_recordset :: "string \<Rightarrow> string \<Rightarrow> ('w, pyval object) comp"

record controller_env =
  ce_render :: render_env
  ce_pick :: "pyval list \<Rightarrow> pyval list"
  ce_validate :: "string \<Rightarrow> pyval object \<Rightarrow> exn + unit"
  ce_mgmt_email :: string

definition ce_classes :: "controller_env \<Rightarrow> classes" where
  "ce_classes K = rn_classes (ce_render K)"

definition attr :: "controller_env \<Rightarrow> string \<Rightarrow> string \<Rightarrow> pyval object \<Rightarrow> exn + pyval" where
  "attr K c name x = read_attr (ce_classes K) c name (ob_values x)"

section \<open>Shared steps\<close>

text \<open>\<open>validate_uuid\<close>.\<close>

definition valid_uuids :: "controller_env \<Rightarrow> string list \<Rightarrow> ('w, unit) comp" where
  "valid_uuids K ids =
     raise_if (\<not> list_all (e_valid_uuid (rn_env (ce_render K))) ids) (BadRequest InvalidUUID)"

definition parsed ::
  "controller_env \<Rightarrow> string \<Rightarrow> pyval \<Rightarrow> pyval object \<Rightarrow> exn + pyval object" where
  "parsed K c body x =
     and_then (parse (ce_classes K) (ce_pick K) c body x) (\<lambda>y.
     and_then (ce_validate K c y) (\<lambda>_. Inr y))"

definition rendered :: "controller_env \<Rightarrow> string \<Rightarrow> pyval object \<Rightarrow> exn + pyval" where
  "rendered K c x = render (ce_render K) (freeze (ce_classes K) c x)"

text \<open>202 while the change is pending.\<close>

definition respond :: "controller_env \<Rightarrow> string \<Rightarrow> nat \<Rightarrow> pyval object \<Rightarrow> ('w, nat \<times> pyval) comp" where
  "respond K c done_status x = lift
     (and_then (attr K c ''status'' x) (\<lambda>s.
      and_then (rendered K c x) (\<lambda>v.
        Inr (if py_eq s (PStr ''PENDING'') then 202 else done_status, v))))"

text \<open>\<open>_apply_filter_params\<close>: a parameter given twice comes as a list. Stars become the wildcard of LIKE.\<close>

datatype param = Once string | Repeated "string list"

definition apply_filter_params ::
  "(string \<times> param) list \<Rightarrow> string list \<Rightarrow> (string \<times> string) list \<Rightarrow> exn + (string \<times> string) list" where
  "apply_filter_params params accepted criterion =
     (let duplicate = filter (\<lambda>(k, p). case p of Repeated vs \<Rightarrow> True | Once v \<Rightarrow> False) params;
          single = filter (\<lambda>(k, p). case p of Repeated vs \<Rightarrow> False | Once v \<Rightarrow> True) params;
          invalid = filter (\<lambda>(k, p). k \<notin> set accepted) single
      in if duplicate \<noteq> [] \<or> invalid \<noteq> [] then Inl (BadRequest BR_plain)
         else Inr (fold (\<lambda>(k, p). case p of
             Once v \<Rightarrow> AList.update k (replace CHR ''*'' ''%'' v) | Repeated vs \<Rightarrow> id) params criterion))"

section \<open>Zones\<close>

definition get_zone_one :: "controller_env \<Rightarrow> 'w central_api \<Rightarrow> string \<Rightarrow> ('w, nat \<times> pyval) comp" where
  "get_zone_one K api i =
     seq (valid_uuids K [i])
    (bind (ca_get_zone api i) (\<lambda>z. lift (and_then (rendered K ''Zone'' z) (\<lambda>v. Inr (200, v)))))"

text \<open>A zone without a type is a primary one; secondary zones have the email of the managed resources.\<close>

definition with_type :: "(string \<times> pyval) list \<Rightarrow> (string \<times> pyval) list" where
  "with_type body = (if ''type'' \<in> fst ` set body then body else body @ [(''type'', PStr ''PRIMARY'')])"

definition post_zone :: "controller_env \<Rightarrow> 'w central_api \<Rightarrow> (string \<times> pyval) list \<Rightarrow> ('w, nat \<times> pyval) comp" where
  "post_zone K api body =
     bind (lift (parsed K ''Zone'' (PDict (with_type body)) new_object)) (\<lambda>z.
     bind (lift (attr K ''Zone'' ''type'' z)) (\<lambda>t.
     bind (lift (if py_eq t (PStr ''SECONDARY'')
                 then set_attr (oc_fields (ce_classes K ''Zone'')) ''email'' (PStr (ce_mgmt_email K)) z
                 else Inr z)) (\<lambda>z1.
     bind (ca_create_zone api z1) (\<lambda>z2.
     bind (lift (set_attr (oc_fields (ce_classes K ''Zone'')) ''shared'' (PBool False) z2)) (\<lambda>z3.
     respond K ''Zone'' 201 z3)))))"

text \<open>What a PATCH makes of the zone it changes. The time of the last transfer is reset when the attributes
  have changed.\<close>

definition patched_zone :: "controller_env \<Rightarrow> pyval \<Rightarrow> pyval object \<Rightarrow> exn + pyval object" where
  "patched_zone K body z =
     and_then (parsed K ''Zone'' body z) (\<lambda>y.
       if ''attributes'' \<in> obj_what_changed y
       then set_attr (oc_fields (ce_classes K ''Zone'')) ''transferred_at'' PNone y
       else Inr y)"

definition patch_zone ::
  "controller_env \<Rightarrow> 'w central_api \<Rightarrow> string \<Rightarrow> bool \<Rightarrow> pyval \<Rightarrow> ('w, nat \<times> pyval) comp" where
  "patch_zone K api i json_patch body =
     seq (valid_uuids K [i])
    (bind (ca_get_zone api i) (\<lambda>z.
     bind (lift (attr K ''Zone'' ''action'' z)) (\<lambda>action.
     seq (raise_if (py_eq action (PStr ''DELETE'')) (BadRequest BR_plain))
    (seq (raise_if json_patch (OtherError ''NotImplementedError''))
    (bind (lift (patched_zone K body z)) (\<lambda>y.
     bind (lift (attr K ''Zone'' ''type'' y)) (\<lambda>t.
     bind (ca_update_zone api y (py_eq t (PStr ''PRIMARY''))) (\<lambda>u.
     respond K ''Zone'' 200 u))))))))"

definition delete_zone_one :: "controller_env \<Rightarrow> 'w central_api \<Rightarrow> string \<Rightarrow> ('w, nat \<times> pyval) comp" where
  "delete_zone_one K api i =
     seq (valid_uuids K [i])
    (bind (ca_delete_zone api i) (\<lambda>z. lift (and_then (rendered K ''Zone'' z) (\<lambda>v. Inr (202, v)))))"

section \<open>Record sets\<close>

text \<open>\<open>_TLSA_NAME_RE\<close>: an underscore, up to five digits, a dot, an underscore, letters and a dot. The digits
  are read greedily, and the dot after them leaves no other choice.\<close>

definition is_letter :: "char \<Rightarrow> bool" where
  "is_letter c \<longleftrightarrow> (let n = (of_char c :: nat) in 65 \<le> n \<and> n \<le> 90 \<or> 97 \<le> n \<and> n \<le> 122)"

definition tlsa_port :: "string \<Rightarrow> nat option" where
  "tlsa_port name =
     (case name of
        [] \<Rightarrow> None
      | c # rest \<Rightarrow>
          let digits = takeWhile is_digit rest;
              after = drop (length digits) rest;
              letters = takeWhile is_letter (drop 2 after)
          in if c = CHR ''_'' \<and> 1 \<le> length digits \<and> length digits \<le> 5 \<and> take 2 after = ''._'' \<and>
                letters \<noteq> [] \<and> take 1 (drop (2 + length letters) after) = ''.''
             then map_option nat (digits_value digits) else None)"

definition validate_tlsa_name :: "pyval \<Rightarrow> exn + unit" where
  "validate_tlsa_name name =
     (case name of
        PStr s \<Rightarrow>
          (case tlsa_port s of
             None \<Rightarrow> Inl (BadRequest BR_plain)
           | Some port \<Rightarrow> if port > 65535 then Inl (BadRequest BR_plain) else Inr ())
      | _ \<Rightarrow> Inl PyTypeError)"

definition get_recordset_one ::
  "controller_env \<Rightarrow> 'w central_api \<Rightarrow> string \<Rightarrow> string \<Rightarrow> ('w, nat \<times> pyval) comp" where
  "get_recordset_one K api zi i =
     seq (valid_uuids K [zi, i])
    (bind (ca_get_recordset api zi i) (\<lambda>r. lift (and_then (rendered K ''RecordSet'' r) (\<lambda>v. Inr (200, v)))))"

definition post_recordset :: "controller_env \<Rightarrow> 'w central_api \<Rightarrow> string \<Rightarrow> pyval \<Rightarrow> ('w, nat \<times> pyval) comp" where
  "post_recordset K api zi body =
     seq (valid_uuids K [zi])
    (bind (lift (parsed K ''RecordSet'' body new_object)) (\<lambda>r.
     bind (lift (attr K ''RecordSet'' ''type'' r)) (\<lambda>t.
     seq (raise_if (py_eq t (PStr ''SOA'')) (BadRequest BR_plain))
    (seq (if py_eq t (PStr ''TLSA'')
          then bind (lift (attr K ''RecordSet'' ''name'' r)) (\<lambda>n. lift (validate_tlsa_name n))
          else return ())
    (bind (ca_create_recordset api zi r) (\<lambda>r'. respond K ''RecordSet'' 201 r'))))))"

text \<open>The checks of a PUT on the record set as it is: managed records, the SOA and the NS records of the
  zone's own name are not changed this way.\<close>

definition put_checks :: "controller_env \<Rightarrow> 'w central_api \<Rightarrow> string \<Rightarrow> pyval object \<Rightarrow> ('w, unit) comp" where
  "put_checks K api zi r =
     bind (lift (attr K ''RecordSet'' ''managed'' r)) (\<lambda>m.
     seq (raise_if (truthy m \<and> \<not> c_edit_managed_records (rn_context (ce_render K))) (BadRequest BR_plain))
    (bind (lift (attr K ''RecordSet'' ''type'' r)) (\<lambda>t.
     seq (raise_if (py_eq t (PStr ''SOA'')) (BadRequest BR_plain))
    (bind (lift (attr K ''RecordSet'' ''name'' r)) (\<lambda>n.
     seq (if py_eq t (PStr ''NS'')
          then bind (ca_get_zone api zi) (\<lambda>z.
               bind (lift (attr K ''Zone'' ''name'' z)) (\<lambda>zn. raise_if (py_eq n zn) (BadRequest BR_plain)))
          else return ())
         (if py_eq t (PStr ''TLSA'') then lift (validate_tlsa_name n) else return ()))))))"

definition put_recordset ::
  "controller_env \<Rightarrow> 'w central_api \<Rightarrow> string \<Rightarrow> string \<Rightarrow> pyval \<Rightarrow> ('w, nat \<times> pyval) comp" where
  "put_recordset K api zi i body =
     seq (valid_uuids K [zi, i])
    (bind (ca_get_recordset api zi i) (\<lambda>r.
     seq (put_checks K api zi r)
    (bind (lift (parsed K ''RecordSet'' body r)) (\<lambda>y.
     bind (ca_update_recordset api y) (\<lambda>u. respond K ''RecordSet'' 200 u)))))"

definition delete_recordset_one ::
  "controller_env \<Rightarrow> 'w central_api \<Rightarrow> string \<Rightarrow> string \<Rightarrow> ('w, nat \<times> pyval) comp" where
  "delete_recordset_one K api zi i =
     seq (valid_uuids K [zi, i])
    (bind (ca_get_recordset api zi i) (\<lambda>r.
     bind (lift (attr K ''RecordSet'' ''type'' r)) (\<lambda>t.
     seq (raise_if (py_eq t (PStr ''SOA'')) (BadRequest BR_plain))
    (bind (ca_delete_recordset api zi i) (\<lambda>u. lift (and_then (rendered K ''RecordSet'' u) (\<lambda>v. Inr (202, v))))))))"

end
