(* ===== verification/ApiProps.thy ===== *)
theory ApiProps
  imports ApiControllers
begin

text \<open>
  What the API lets through to central: which record sets a client can replace, and what a PATCH of a
  zone tells central.
\<close>

section \<open>Record sets\<close>

lemma put_checks_pass:
  assumes "put_checks K api zi r w = (Inr u, w')" "\<And>z. readonly (ca_get_zone api z)"
  shows "w' = w \<and>
    (\<exists>m t n. attr K ''RecordSet'' ''managed'' r = Inr m \<and> attr K ''RecordSet'' ''type'' r = Inr t \<and>
       attr K ''RecordSet'' ''name'' r = Inr n \<and>
       (truthy m \<longrightarrow> c_edit_managed_records (rn_context (ce_render K))) \<and> \<not> py_eq t (PStr ''SOA'') \<and>
       (py_eq t (PStr ''NS'') \<longrightarrow> (\<exists>z zn. ca_get_zone api zi w = (Inr z, w) \<and>
          attr K ''Zone'' ''name'' z = Inr zn \<and> \<not> py_eq n zn)))"
proof -
  from assms(1) obtain m t n x y where m: "attr K ''RecordSet'' ''managed'' r = Inr m"
    and t: "attr K ''RecordSet'' ''type'' r = Inr t" and n: "attr K ''RecordSet'' ''name'' r = Inr n"
    and managed: "truthy m \<longrightarrow> c_edit_managed_records (rn_context (ce_render K))"
    and soa: "\<not> py_eq t (PStr ''SOA'')"
    and ns: "(if py_eq t (PStr ''NS'')
          then bind (ca_get_zone api zi) (\<lambda>z.
               bind (lift (attr K ''Zone'' ''name'' z)) (\<lambda>zn. raise_if (py_eq n zn) (BadRequest BR_plain)))
          else return ()) w = (Inr x, y)"
    and tlsa: "(if py_eq t (PStr ''TLSA'') then lift (validate_tlsa_name n) else return ()) y = (Inr u, w')"
    unfolding put_checks_def bind_Inr_iff seq_Inr_iff by (auto simp del: raise_if_run)
  have "w' = y" using tlsa by (auto split: if_splits)
  moreover have "y = w \<and> (py_eq t (PStr ''NS'') \<longrightarrow> (\<exists>z zn. ca_get_zone api zi w = (Inr z, w) \<and>
          attr K ''Zone'' ''name'' z = Inr zn \<and> \<not> py_eq n zn))"
  proof (cases "py_eq t (PStr ''NS'')")
    case True
    with ns obtain z v where z: "ca_get_zone api zi w = (Inr z, v)"
      and zn: "\<exists>zn. attr K ''Zone'' ''name'' z = Inr zn \<and> \<not> py_eq n zn \<and> y = v"
      by (auto simp: bind_Inr_iff simp del: raise_if_run)
    then show ?thesis using readonlyD [OF assms(2) z] True by auto
  qed (use ns in simp)
  ultimately show ?thesis using m t n managed soa by blast
qed

text \<open>C38: Which record sets a client can replace. When a PUT changes anything, the record set it names was loaded, is
  not managed unless the caller edits managed records, is not an SOA and not the NS record set of its zone's
  own name; what central is given is that record set with its name and type untouched, changed
  only in its records, description and TTL, parsed from the body and validated; and central's update is the
  only step that changed anything.\<close>

theorem put_recordset_guarded:
  assumes "put_recordset K api zi i body w = (res, w')" "w' \<noteq> w"
    and "\<And>z. readonly (ca_get_zone api z)" "\<And>z r. readonly (ca_get_recordset api z r)"
    and "respects_eq (ce_classes K) ''RecordSet''"
    and "\<And>r. ca_get_recordset api zi i w = (Inr r, w) \<Longrightarrow>
      holds_stored (oc_fields (ce_classes K ''RecordSet'')) r \<and>
      known (ce_classes K) ''RecordSet'' ''name'' r \<and> known (ce_classes K) ''RecordSet'' ''type'' r"
    and "{''name'', ''type''} \<subseteq> dom (oc_fields (ce_classes K ''RecordSet''))"
  shows "\<exists>r y m t n. ca_get_recordset api zi i w = (Inr r, w) \<and>
    attr K ''RecordSet'' ''managed'' r = Inr m \<and> attr K ''RecordSet'' ''type'' r = Inr t \<and>
    attr K ''RecordSet'' ''name'' r = Inr n \<and>
    (truthy m \<longrightarrow> c_edit_managed_records (rn_context (ce_render K))) \<and> \<not> py_eq t (PStr ''SOA'') \<and>
    (py_eq t (PStr ''NS'') \<longrightarrow> (\<exists>z zn. ca_get_zone api zi w = (Inr z, w) \<and>
       attr K ''Zone'' ''name'' z = Inr zn \<and> \<not> py_eq n zn)) \<and>
    parse (ce_classes K) (ce_pick K) ''RecordSet'' body r = Inr y \<and> ce_validate K ''RecordSet'' y = Inr () \<and>
    (\<forall>a \<in> dom (oc_fields (ce_classes K ''RecordSet'')) - {''records'', ''description'', ''ttl''}.
       oc_relation (ce_classes K ''RecordSet'') a = None \<longrightarrow> attr K ''RecordSet'' a y = attr K ''RecordSet'' a r) \<and>
    w' = snd (ca_update_recordset api y w)"
proof -
  obtain o1 w1 where 1: "ca_get_recordset api zi i w = (o1, w1)" by fastforce
  have w1: "w1 = w" by (rule readonlyD [OF assms(4) 1])
  obtain r where r: "ca_get_recordset api zi i w = (Inr r, w)"
    using assms(1,2) 1 w1
    by (cases o1) (auto simp: put_recordset_def seq_run bind_run valid_uuids_def split: if_splits)
  obtain o2 w2 where 2: "put_checks K api zi r w = (o2, w2)" by fastforce
  have "readonly (put_checks K api zi r)"
    unfolding put_checks_def
    by (intro readonly_bind readonly_seq readonly_if readonly_basic assms(3))
  then have w2: "w2 = w" using 2 unfolding readonly_def by (metis snd_conv)
  have run: "(case o2 of Inl e \<Rightarrow> (Inl e, w) | Inr _ \<Rightarrow>
      (bind (lift (parsed K ''RecordSet'' body r)) (\<lambda>y.
       bind (ca_update_recordset api y) (\<lambda>u. respond K ''RecordSet'' 200 u))) w) = (res, w')"
    using assms(1,2) r 2 w2
    by (auto simp: put_recordset_def seq_run bind_run valid_uuids_def split: if_splits sum.splits)
  then obtain u where o2: "o2 = Inr u" using assms(2) by (cases o2) auto
  obtain y where y: "parsed K ''RecordSet'' body r = Inr y"
    using run o2 assms(2) by (cases "parsed K ''RecordSet'' body r") (auto simp: bind_run)
  have w': "w' = snd (ca_update_recordset api y w)"
    using run o2 y by (auto simp: bind_run respond_def split: prod.splits sum.splits)
  from y have p: "parse (ce_classes K) (ce_pick K) ''RecordSet'' body r = Inr y"
    and v: "ce_validate K ''RecordSet'' y = Inr ()"
    by (auto simp: parsed_def and_then_Inr)
  have scope: "\<forall>a \<in> dom (oc_fields (ce_classes K ''RecordSet'')) - {''records'', ''description'', ''ttl''}.
       oc_relation (ce_classes K ''RecordSet'') a = None \<longrightarrow> attr K ''RecordSet'' a y = attr K ''RecordSet'' a r"
    using parse_keeps [OF disjI2 [OF refl] assms(5) _ _ _ assms(7) p] assms(6) [OF r]
    by (simp add: attr_def patchable_def)
  show ?thesis using r put_checks_pass [OF 2 [unfolded o2] assms(3)] p v scope w' by blast
qed

section \<open>Zones\<close>

lemma set_attr_changed:
  assumes "set_attr F n w x = Inr y"
  shows "ob_changed x \<subseteq> ob_changed y \<and> ob_changed y \<subseteq> insert n (ob_changed x) \<and>
    (\<forall>fd. F n = Some fd \<longrightarrow> \<not> fd_read_only fd \<longrightarrow> n \<in> ob_changed y)"
  using assms
  by (auto simp: set_attr_def remember_def Let_def split: option.splits sum.splits if_splits)

lemma parse_keys_changed:
  assumes "parse_keys C c ks entries errors x = Inr (errs, y)"
  shows "ob_changed x \<subseteq> ob_changed y \<and>
    ((\<forall>k p. map_of ks k = Some p \<longrightarrow> k \<notin> set (own_keys c) \<longrightarrow> attribute_of k p \<noteq> a) \<longrightarrow>
       a \<in> ob_changed y \<longrightarrow> a \<in> ob_changed x)"
  using assms
proof (induction C c ks entries errors x rule: parse_keys.induct)
  case (1 C c ks errors x)
  then show ?case by simp
next
  case (2 C c ks k w parse_as entries errors x)
  show ?case
  proof (cases "k \<notin> set (own_keys c) \<and> map_of ks k \<noteq> None")
    case False
    then show ?thesis using 2 by (auto split: if_splits)
  next
    case True
    then obtain p where own: "k \<notin> set (own_keys c)" and p: "map_of ks k = Some p" by auto
    show ?thesis
    proof (cases "parse_keys C c ks ((k, w, parse_as) # entries) errors x = Inr (errors @ [k], x)")
      case True
      then show ?thesis using 2(4) by simp
    next
      case False
      then obtain v x' where ok: "may_set C c p (attribute_of k p) w x = Inr True"
        and v: "(case oc_relation (C c) (attribute_of k p) of Some r \<Rightarrow> parse_as r | None \<Rightarrow> Inr w) = Inr v"
        and s: "set_attr (oc_fields (C c)) (attribute_of k p) v x = Inr x'"
        and rest: "parse_keys C c ks entries errors x' = Inr (errs, y)"
        using 2(4) own p by (auto split: sum.splits if_splits)
      have "a \<in> ob_changed x' \<longrightarrow> a = attribute_of k p \<or> a \<in> ob_changed x" using set_attr_changed [OF s] by blast
      then show ?thesis using 2(3) [OF own p ok _ v s rest] set_attr_changed [OF s] own p by blast
    qed
  qed
qed

lemma parse_zone_steps:
  assumes "parse C pick ''Zone'' (PDict kvs) x = Inr y"
  obtains entries z1 z2 where "map fst entries = map fst kvs"
    "parse_own C ''Zone'' ''masters'' ''ZoneMasterList'' entries x = Inr z1"
    "parse_own C ''Zone'' ''attributes'' ''ZoneAttributeList'' entries z1 = Inr z2"
    "parse_keys C ''Zone'' (ad_keys zone_adapter) entries [] z2 = Inr ([], y)"
proof -
  let ?entries = "map (\<lambda>(k, w). (k, w, parse_new C pick w)) kvs"
  from assms obtain z1 z2 where
    "parse_own C ''Zone'' ''masters'' ''ZoneMasterList'' ?entries x = Inr z1"
    "parse_own C ''Zone'' ''attributes'' ''ZoneAttributeList'' ?entries z1 = Inr z2"
    "parse_keys C ''Zone'' (ad_keys zone_adapter) ?entries [] z2 = Inr ([], y)"
    by (auto simp: parse_def as_invalid_def registered parse_dict_def parse_zone_def parse_generic_def
        split: sum.splits if_splits)
  moreover have "map fst ?entries = map fst kvs" by auto
  ultimately show ?thesis using that by blast
qed

text \<open>C39: When a PATCH resets the time of the last transfer of a zone: just when the request has
  attributes. A request with other keys only, new masters included, hands central the zone with the time it
  had, although the comment in the code speaks of masters. Nothing is said of transfers here: central starts one when the
  masters of a secondary zone change (\<open>update_zone\<close>), and the producer passes over a zone without a time
  (\<open>refresh_zone\<close>).\<close>

theorem patch_resets_transfer:
  assumes "patched_zone K (PDict kvs) z = Inr y"
    and "respects_eq (ce_classes K) ''Zone''" "holds_stored (oc_fields (ce_classes K ''Zone'')) z"
    and "known (ce_classes K) ''Zone'' ''name'' z" "known (ce_classes K) ''Zone'' ''type'' z"
    and "{''name'', ''type'', ''transferred_at''} \<subseteq> dom (oc_fields (ce_classes K ''Zone''))"
    and "oc_relation (ce_classes K ''Zone'') ''transferred_at'' = None" "''attributes'' \<notin> obj_what_changed z"
    and "oc_fields (ce_classes K ''Zone'') ''attributes'' = Some fd" "\<not> fd_read_only fd"
  shows "attr K ''Zone'' ''transferred_at'' y =
    (if ''attributes'' \<in> fst ` set kvs then Inr PNone else attr K ''Zone'' ''transferred_at'' z)"
proof -
  let ?C = "ce_classes K" and ?F = "oc_fields (ce_classes K ''Zone'')"
  obtain p where p: "parse ?C (ce_pick K) ''Zone'' (PDict kvs) z = Inr p"
    and y: "(if ''attributes'' \<in> ob_changed p then set_attr ?F ''transferred_at'' PNone p else Inr p) = Inr y"
    using assms(1) by (auto simp: patched_zone_def parsed_def and_then_Inr obj_what_changed_def)
  obtain entries z1 z2 where names: "map fst entries = map fst kvs"
    and masters: "parse_own ?C ''Zone'' ''masters'' ''ZoneMasterList'' entries z = Inr z1"
    and attributes: "parse_own ?C ''Zone'' ''attributes'' ''ZoneAttributeList'' entries z1 = Inr z2"
    and keys: "parse_keys ?C ''Zone'' (ad_keys zone_adapter) entries [] z2 = Inr ([], p)"
    by (rule parse_zone_steps [OF p])
  have z1: "''attributes'' \<notin> ob_changed z1"
    using masters assms(8)
    by (auto simp: parse_own_def obj_what_changed_def split: option.splits sum.splits dest!: set_attr_changed)
  have "list_all (\<lambda>(k, p). k = ''attributes'' \<or> attribute_of k p \<noteq> ''attributes'') (ad_keys zone_adapter)"
    by code_simp
  then have same: "''attributes'' \<in> ob_changed p \<longleftrightarrow> ''attributes'' \<in> ob_changed z2"
    using parse_keys_changed [OF keys, of "''attributes''"]
    by (auto simp: own_keys_def list_all_iff dest!: map_of_SomeD)
  have here: "map_of entries ''attributes'' = None \<longleftrightarrow> ''attributes'' \<notin> fst ` set kvs"
    unfolding map_of_eq_None_iff by (metis names list.set_map)
  have changed: "''attributes'' \<in> ob_changed p \<longleftrightarrow> ''attributes'' \<in> fst ` set kvs"
  proof (cases "map_of entries ''attributes''")
    case None
    then have "z2 = z1" using attributes by (simp add: parse_own_def)
    then show ?thesis using same z1 here None by simp
  next
    case (Some e)
    then have "''attributes'' \<in> ob_changed z2"
      using attributes assms(9,10)
      by (auto simp: parse_own_def split: sum.splits prod.splits dest!: set_attr_changed)
    then show ?thesis using same here Some by simp
  qed
  show ?thesis
  proof (cases "''attributes'' \<in> fst ` set kvs")
    case True
    then have s: "set_attr ?F ''transferred_at'' PNone p = Inr y" using y changed by simp
    obtain f d where f: "?F ''transferred_at'' = Some f" "fd_coerce f PNone = Inr d"
      "ob_values y ''transferred_at'' = Some d" using set_attr_value [OF s] by auto
    then have "d = PNone" using assms(2) unfolding respects_eq_def by blast
    then show ?thesis using True f assms(7) by (simp add: attr_def read_attr_def)
  next
    case False
    then have "y = p" using y changed by simp
    moreover have "''transferred_at'' \<notin> set (patchable ''Zone'')" by code_simp
    ultimately show ?thesis
      using False parse_keeps [OF disjI1 [OF refl] assms(2-5) _ p] assms(6,7) by (simp add: attr_def)
  qed
qed

section \<open>Examples\<close>

text \<open>A central that has one zone and one record set, and counts the updates.\<close>

definition api_loaded_zone :: "pyval object" where
  "api_loaded_zone = new_object\<lparr>ob_values := [''name'' \<mapsto> PStr ''a.b.'', ''type'' \<mapsto> PStr ''SECONDARY'',
     ''action'' \<mapsto> PStr ''NONE'', ''transferred_at'' \<mapsto> PTime 7]\<rparr>"

definition count_central :: "nat central_api" where
  "count_central = \<lparr>ca_get_zone = (\<lambda>i. return api_loaded_zone), ca_create_zone = return,
     ca_update_zone = (\<lambda>z b. seq (modify Suc) (return z)), ca_delete_zone = (\<lambda>i. return api_loaded_zone),
     ca_get_recordset = (\<lambda>z i. return api_recordset), ca_create_recordset = (\<lambda>z. return),
     ca_update_recordset = (\<lambda>r. seq (modify Suc) (return r)), ca_delete_recordset = (\<lambda>z i. return api_recordset)\<rparr>"

definition api_controller_env :: controller_env where
  "api_controller_env = \<lparr>ce_render = api_render_env, ce_pick = rev, ce_validate = (\<lambda>c x. Inr ()),
     ce_mgmt_email = ''h@e.o''\<rparr>"

lemma api_controller_classes: "ce_classes api_controller_env = api_classes"
  by (simp add: ce_classes_def api_controller_env_def api_render_env_def)

lemma api_recordset_known:
  "holds_stored (oc_fields (api_classes ''RecordSet'')) api_recordset"
  "known api_classes ''RecordSet'' ''name'' api_recordset" "known api_classes ''RecordSet'' ''type'' api_recordset"
  by (auto simp: holds_stored_def known_def read_attr_def api_classes_def api_recordset_def api_fields_def
      str_field_def list_field_def new_object_def split: if_splits)

theorem put_recordset_guarded_witness:
  "\<exists>y. parse api_classes rev ''RecordSet'' (PDict [(''ttl'', PInt 60)]) api_recordset = Inr y \<and>
     attr api_controller_env ''RecordSet'' ''name'' y = Inr (PStr ''a.b.'') \<and>
     snd (put_recordset api_controller_env count_central ''z'' ''i'' (PDict [(''ttl'', PInt 60)]) 0)
       = snd (ca_update_recordset count_central y 0)"
proof -
  let ?run = "put_recordset api_controller_env count_central ''z'' ''i'' (PDict [(''ttl'', PInt 60)]) (0 :: nat)"
  obtain res w' where run: "?run = (res, w')" by fastforce
  have checks: "read_attr api_classes ''RecordSet'' ''managed'' (ob_values api_recordset) = Inr (PBool False)"
    "read_attr api_classes ''RecordSet'' ''type'' (ob_values api_recordset) = Inr (PStr ''A'')"
    "read_attr api_classes ''RecordSet'' ''name'' (ob_values api_recordset) = Inr (PStr ''a.b.'')"
    "\<not> isl (parse api_classes rev ''RecordSet'' (PDict [(''ttl'', PInt 60)]) api_recordset)" by code_simp+
  from checks(4) obtain p where p: "parse api_classes rev ''RecordSet'' (PDict [(''ttl'', PInt 60)]) api_recordset = Inr p"
    by (metis sum.collapse(2))
  have "e_valid_uuid (rn_env (ce_render api_controller_env)) = (\<lambda>s. True)"
    by (simp add: api_controller_env_def api_render_env_def sample_env_def)
  then have "snd ?run = 1"
    using checks(1-3) p
    by (simp add: put_recordset_def valid_uuids_def put_checks_def parsed_def attr_def api_controller_classes
        seq_run bind_run count_central_def respond_def)
      (simp add: api_controller_env_def seq_run bind_run)
  then have w': "w' \<noteq> 0" using run by simp
  have ro: "readonly (ca_get_zone count_central z)" "readonly (ca_get_recordset count_central z r)" for z r
    by (simp_all add: count_central_def keeps_rules)
  have get: "ca_get_recordset count_central ''z'' ''i'' 0 = (Inr r, 0) \<longleftrightarrow> r = api_recordset" for r
    by (auto simp: count_central_def)
  have dom: "{''name'', ''type''} \<subseteq> dom (oc_fields (api_classes ''RecordSet''))"
    "''name'' \<in> dom (oc_fields (api_classes ''RecordSet'')) - {''records'', ''description'', ''ttl''}"
    "oc_relation (api_classes ''RecordSet'') ''name'' = None"
    by (auto simp: dom_def api_classes_def api_fields_def)
  have name: "attr api_controller_env ''RecordSet'' ''name'' api_recordset = Inr (PStr ''a.b.'')"
    using checks(3) by (simp add: attr_def api_controller_classes)
  have pick: "ce_pick api_controller_env = rev" by (simp add: api_controller_env_def)
  obtain y where "parse api_classes rev ''RecordSet'' (PDict [(''ttl'', PInt 60)]) api_recordset = Inr y"
    "attr api_controller_env ''RecordSet'' ''name'' y = attr api_controller_env ''RecordSet'' ''name'' api_recordset"
    "w' = snd (ca_update_recordset count_central y 0)"
    using put_recordset_guarded [OF run w' ro, unfolded api_controller_classes get pick, OF api_classes_respect _ dom(1)]
      api_recordset_known dom(2,3) by blast
  then show ?thesis using run name by auto
qed

theorem patch_resets_transfer_witness:
  "\<exists>y. patched_zone api_controller_env (PDict [(''masters'', PList [PStr ''h:5354''])]) api_loaded_zone = Inr y \<and>
     attr api_controller_env ''Zone'' ''transferred_at'' y = Inr (PTime 7)"
proof -
  let ?body = "[(''masters'', PList [PStr ''h:5354''])]"
  have "case parse api_classes rev ''Zone'' (PDict ?body) api_loaded_zone of
      Inl e \<Rightarrow> False | Inr p \<Rightarrow> ''attributes'' \<notin> obj_what_changed p" by code_simp
  then obtain y where "parse api_classes rev ''Zone'' (PDict ?body) api_loaded_zone = Inr y"
    "''attributes'' \<notin> obj_what_changed y" by (auto split: sum.splits)
  then have y: "patched_zone api_controller_env (PDict ?body) api_loaded_zone = Inr y"
    by (simp add: patched_zone_def parsed_def api_controller_classes) (simp add: api_controller_env_def)
  have "holds_stored (oc_fields (api_classes ''Zone'')) api_loaded_zone"
    by (auto simp: holds_stored_def api_classes_def api_loaded_zone_def api_fields_def str_field_def time_field_def
        new_object_def split: if_splits)
  moreover have "known api_classes ''Zone'' ''name'' api_loaded_zone" "known api_classes ''Zone'' ''type'' api_loaded_zone"
    by code_simp+
  moreover have "{''name'', ''type'', ''transferred_at''} \<subseteq> dom (oc_fields (api_classes ''Zone''))"
    "oc_relation (api_classes ''Zone'') ''transferred_at'' = None" "''attributes'' \<notin> obj_what_changed api_loaded_zone"
    "oc_fields (api_classes ''Zone'') ''attributes'' = Some list_field" "\<not> fd_read_only list_field"
    by (auto simp: dom_def api_classes_def api_fields_def obj_what_changed_def api_loaded_zone_def new_object_def list_field_def)
  ultimately have "attr api_controller_env ''Zone'' ''transferred_at'' y =
      (if ''attributes'' \<in> fst ` set ?body then Inr PNone
       else attr api_controller_env ''Zone'' ''transferred_at'' api_loaded_zone)"
    using patch_resets_transfer [OF y, unfolded api_controller_classes, OF api_classes_respect] by blast
  moreover have "read_attr api_classes ''Zone'' ''transferred_at'' (ob_values api_loaded_zone) = Inr (PTime 7)" by code_simp
  ultimately show ?thesis using y by (auto simp: attr_def api_controller_classes)
qed

end
