(* ===== verification/Spec2Isabelle.thy ===== *)
theory Spec2Isabelle
  imports StorageRecords Quota Scheduler CentralProps DecoratorProps Dnsutils WorkerProps TransferProps RefreshProps MdnsProps DnsTcp Validation AdminProps TaskProps PoolProps FloatingProps CatalogProps ZoneSync SinkProps ObjectBase ApiProps
begin

text \<open>
  A verification development for Designate, the DNS service of OpenStack (Python, under
  \<open>src/designate/\<close>).

  The program. The service \<open>central\<close> owns the database: zones, their recordsets and records,
  pools, quotas, shares. A request that changes a zone is validated, written with a pending status
  and an action (CREATE, UPDATE, DELETE), and the worker is told. The \<open>worker\<close> carries the action to
  the DNS servers of the zone's pool, polls their nameservers for the serial, and reports the outcome
  to central, which moves zone and records to ACTIVE, ERROR or DELETED. The \<open>producer\<close> repeats
  periodic work; \<open>mdns\<close> answers the transfers by which the servers fetch the zones.

  How it is modelled. A method is a function from the state to a result and the state it leaves: the
  result is a value or one of the exceptions of \<open>exceptions.py\<close> (\<open>Prelude\<close>). The state \<open>world\<close> holds
  the tables as lists of rows in creation order (the order of
  \<open>created_at\<close>, whose times are taken to be different; only the tables of pools keep the times themselves), the clock, the number of identifiers handed out, and
  the messages cast to the worker (\<open>Env\<close>). What is not under \<open>src/\<close> (oslo.policy, the UUID
  generator, regular expressions, MD5, random numbers, the IDNA encoding of names that are not ASCII,
  configuration values, DNS servers, dnspython) is an argument, most of it in the record \<open>env\<close>. Python integers are \<open>int\<close>; the counters
  that are never negative are \<open>nat\<close>.

  The theories:
  \<^item> \<open>Prelude\<close>: exceptions, the computations and their rules, Python string operations.
  \<^item> \<open>Objects\<close>: \<open>objects/zone.py\<close>, \<open>recordset.py\<close>, \<open>record.py\<close>, the pool objects,
    with \<open>obj_what_changed\<close>, and the computed action, status and managed flag of a recordset.
  \<^item> \<open>Sql\<close>: \<open>storage/sqlalchemy/base.py\<close>; criteria become clauses with the meaning SQL gives
    them; the locale \<open>keyed_table\<close> states what the callers need of a table with a primary key and
    is interpreted on the zones, recordsets and records tables.
  \<^item> \<open>Env\<close>: configuration, environment, state, policy checks, contexts (\<open>context.py\<close>).
  \<^item> \<open>StorageZones\<close>, \<open>StorageRecords\<close>: the zone and the recordset half of \<open>SQLAlchemyStorage\<close>.
  \<^item> \<open>Quota\<close>, \<open>Scheduler\<close>: \<open>quota/\<close> and \<open>scheduler/\<close>.
  \<^item> \<open>Decorators\<close>, \<open>DecoratorProps\<close>: \<open>retry\<close>, \<open>transaction\<close>, \<open>synchronized_zone\<close>,
    \<open>notify_type\<close>, \<open>expected_exceptions\<close> and what they guarantee.
  \<^item> \<open>Samples\<close>: the small system on which the theorems are applied.
  \<^item> \<open>CentralValidate\<close>, \<open>CentralRecordsets\<close>, \<open>CentralZones\<close>, \<open>CentralStatus\<close>:
    \<open>central/service.py\<close>; \<open>CentralFacts\<close> has the frame rules and the lookup facts the
    properties of \<open>CentralProps\<close> rest on.
  \<^item> \<open>CentralTransfers\<close>, \<open>TransferProps\<close>: zone transfer requests and accepts.
  \<^item> \<open>Dnsutils\<close>, \<open>DnsZones\<close>: \<open>dnsutils.py\<close> and the pure part of \<open>utils.py\<close>; the zones and recordsets that
    are built from what dnspython has read, with the checks of their fields.
  \<^item> \<open>Worker\<close>, \<open>WorkerProps\<close>: \<open>worker/tasks/\<close> and \<open>worker/processing.py\<close>.
  \<^item> \<open>ZoneSync\<close>: an update of a zone that carries recordsets, and a transfer from the primary to
    its last row.
  \<^item> \<open>Paging\<close>, \<open>ZoneLists\<close>: \<open>storage/sqlalchemy/utils.py\<close>, the walk through pages, and zones in
    pages; the locale \<open>paged_table\<close> is interpreted on the zones and the service statuses.
  \<^item> \<open>ServiceStatuses\<close>, \<open>Coordination\<close>, \<open>Producer\<close>: service statuses and heartbeats, the
    partitioner of \<open>coordination.py\<close>, \<open>producer/tasks.py\<close>; \<open>ProducerProps\<close> and
    \<open>RefreshProps\<close> have what they guarantee.
  \<^item> \<open>Mdns\<close>, \<open>MdnsProps\<close>: \<open>mdns/handler.py\<close> and \<open>dnsmiddleware.py\<close>, on messages dnspython has
    decoded; \<open>DnsTcp\<close>: the connections of \<open>DNSService\<close> in \<open>service.py\<close>.
  \<^item> \<open>FieldTypes\<close>, \<open>Rrdata\<close>, \<open>RrdataProps\<close>: \<open>objects/fields.py\<close> with the regular expressions of
    \<open>common/constants.py\<close>, and the record types \<open>objects/rrdata_*.py\<close>; \<open>Validation\<close>:
    \<open>RecordSet.validate\<close>, \<open>Zone.validate\<close> and the fields of TLDs, blacklists and TSIG keys.
  \<^item> \<open>Tables\<close>, \<open>CentralAdmin\<close>, \<open>AdminProps\<close>: the storage methods of tables whose rows are whole objects,
    once for all of them (locale \<open>stored_table\<close>), and TLDs, blacklists, TSIG keys, quotas and tenants in
    \<open>central/service.py\<close>.
  \<^item> \<open>ZoneTasks\<close>, \<open>TaskProps\<close>: zone imports and exports, from the request to the task's last status.
  \<^item> \<open>CentralFrame\<close>: the locale \<open>content_frame\<close> of views of the database that zone and recordset
    operations leave alone.
  \<^item> \<open>PoolTables\<close>, \<open>PoolProps\<close>: the pool and its tables of lists, read in the order of \<open>created_at\<close> and \<open>id\<close>; an
    update refines updates of lists of items, those of the targets with their options and masters; \<open>CentralPools\<close>, \<open>CatalogProps\<close>: pools in central, and catalog zones.
  \<^item> \<open>FloatingIps\<close>, \<open>FloatingProps\<close>: PTR records of floating IPs; what the network service lists is
    an argument.
  \<^item> \<open>Sink\<close>, \<open>SinkProps\<close>: \<open>sink/service.py\<close> and \<open>notification_handler/\<close>, down to the managed records in
    central.
  \<^item> \<open>ObjectBase\<close>: the machinery of \<open>objects/base.py\<close> under every class: change tracking, original
    values, dictionaries.
  \<^item> \<open>AdapterTables\<close>, \<open>Adapters\<close>, \<open>AdapterRender\<close>, \<open>AdapterProps\<close>: \<open>objects/adapters/\<close>, from JSON to
    objects and back.
  \<^item> \<open>ApiMiddleware\<close>, \<open>ApiControllers\<close>, \<open>ApiProps\<close>: \<open>api/middleware.py\<close> as a pipeline of gates (locale
    \<open>gate\<close>) and the controllers of zones and record sets.

  What is shown. Creating a zone keeps zones of different projects apart and stays within the quota;
  failed recordset operations leave the database as it was; a CNAME stays alone at its name; a
  zone with children is not deleted; a transaction is retried at most 150 times and is all or
  nothing; zone locks are taken and given back in pairs; a status report changes exactly the zone and
  records it covers; a successful poll means that enough nameservers are up to date and makes the
  zone ACTIVE; the SOA mailbox, host and port strings survive their round trips; the
  producers share the shards out, so that each zone has one, and their walks through pages reach every
  row even while they rewrite it; a transfer carries the records of the zone the request is
  entitled to and no others, between two copies of its SOA, and a NOTIFY only starts a transfer from a master of the
  zone it names; a transfer in leaves a secondary zone with the recordsets of its primary and no
  others; the sink announces the addresses of an instance under the names its formats give, the last one of each name,
  as managed records; pipelined queries on a TCP connection are served like single ones; an accepted
  record is within the limits of its type and stays accepted when its fields are printed again, and
  validation names exactly the records that are not accepted; the tables of TSIG keys and of the
  lists of pools refine maps and lists, order included; imports and exports end with a status; a project sees and
  changes the PTR records of its own floating IPs only; the changed fields of an object are what has to
  be written; and through the API nobody gets a privilege no policy gave, sees the key of a transfer request
  that is not his, or changes an attribute the adapters do not let him write. Several theorems
  state behaviour that surprises: reports that delete a zone that still exists or leave a deleted one
  in place, names that are read as query operators or wildcards, a master that aborts a transfer, new
  attributes, not new masters, that reset the time of the last transfer.

  Bounds. Loops of the code that are bounded by configuration (retries, attempts) recurse on that
  bound; \<open>retry_loop\<close> terminates by the distance to its limit; \<open>walk_up\<close> has the limit 128 of the
  code. A walk through pages has fuel for one page more than there are rows. The loops of a TCP connection
  terminate by the bytes that are still to come.

  Not modelled: the remaining controllers of the API and its routing, backends, the neutron client, command line, configuration and policy declarations, migrations, and
  the RPC and service plumbing. They are glue around libraries that are not part of the program. The API
  theories take what central answers as an argument, on objects as \<open>ObjectBase\<close> has them, while the
  theories of central use a record for each class.
  Concurrency between services appears as the database the worker finds at each step; the threads
  of an executor are run in order, which is faithful because the tasks only read.
\<close>

end
